(* ===== verification/Prelude.thy ===== *)
theory Prelude
  imports Main "HOL-Library.List_Lexorder" "HOL-Library.Char_ord"
begin

text \<open>
  Shared vocabulary of the development: exceptions as values, the result type and its
  combinators, the wrapper for arguments whose exact class the code tests, and the generic
  list lemmas the components use.

  A Python function that may raise is a HOL function into \<open>'a res\<close>: \<open>Inl e\<close> is the raised
  exception (with the literal text of its message, so that two different \<open>raise\<close> statements
  stay two different branches), \<open>Inr x\<close> is the returned value.
\<close>

named_theorems res_simps \<open>inversion of results: when does a guarded computation return\<close>

section \<open>Exceptions and results\<close>

datatype exc =
    ContractError string
  | UnsupportedCapability string
  | ValueError string
  | AssertionError
  | AttributeError
  | KeyError
  | TypeError
  | OverflowError
  | OSError string
  | UnicodeError
  | CommitStateUncertain string
  | NftFailure string
  | ObservationUnavailable string
  | Unmodelled string

type_synonym 'a res = "exc + 'a"

definition bind_res :: "'a res \<Rightarrow> ('a \<Rightarrow> 'b res) \<Rightarrow> 'b res" where
  "bind_res m f = (case m of Inl e \<Rightarrow> Inl e | Inr x \<Rightarrow> f x)"

text \<open>Statement sequencing: run \<open>m\<close> for its exceptions only, then continue with \<open>k\<close>.\<close>

definition seq_res :: "unit res \<Rightarrow> 'b res \<Rightarrow> 'b res" where
  "seq_res m k = (case m of Inl e \<Rightarrow> Inl e | Inr _ \<Rightarrow> k)"

text \<open>\<open>try ... except handlers\<close>: the handler sees the exception and may re-raise it.\<close>

definition catch_res :: "'a res \<Rightarrow> (exc \<Rightarrow> 'a res) \<Rightarrow> 'a res" where
  "catch_res m h = (case m of Inl e \<Rightarrow> h e | Inr x \<Rightarrow> Inr x)"

text \<open>A \<open>for\<close> loop that only checks, and one that collects the results in order.\<close>

fun each :: "('a \<Rightarrow> unit res) \<Rightarrow> 'a list \<Rightarrow> unit res" where
  "each f [] = Inr ()"
| "each f (x # xs) = seq_res (f x) (each f xs)"

fun map_res :: "('a \<Rightarrow> 'b res) \<Rightarrow> 'a list \<Rightarrow> 'b list res" where
  "map_res f [] = Inr []"
| "map_res f (x # xs) = bind_res (f x) (\<lambda>y. bind_res (map_res f xs) (\<lambda>ys. Inr (y # ys)))"

definition ok :: "'a res \<Rightarrow> bool" where
  "ok m = (case m of Inl _ \<Rightarrow> False | Inr _ \<Rightarrow> True)"

lemma bind_res_simps [simp]:
  "bind_res (Inl e) f = Inl e"
  "bind_res (Inr x) f = f x"
  by (simp_all add: bind_res_def)

lemma seq_res_simps [simp]:
  "seq_res (Inl e) k = Inl e"
  "seq_res (Inr u) k = k"
  by (simp_all add: seq_res_def)

lemma catch_res_simps [simp]:
  "catch_res (Inl e) h = h e"
  "catch_res (Inr x) h = Inr x"
  by (simp_all add: catch_res_def)

lemma ok_simps [simp]: "\<not> ok (Inl e)" "ok (Inr x)"
  by (simp_all add: ok_def)

lemma ok_iff: "ok m \<longleftrightarrow> (\<exists>x. m = Inr x)"
  by (cases m) auto

lemma bind_res_Inr_iff [res_simps]:
  "bind_res m f = Inr y \<longleftrightarrow> (\<exists>x. m = Inr x \<and> f x = Inr y)"
  by (cases m) auto

lemma seq_res_Inr_iff [res_simps]:
  "seq_res m k = Inr y \<longleftrightarrow> m = Inr () \<and> k = Inr y"
  by (cases m) auto

lemma raise_Inr_iff [res_simps]:
  "(if b then Inl e else k) = Inr y \<longleftrightarrow> \<not> b \<and> k = Inr y"
  by auto

lemma bind_res_Inl_iff:
  "bind_res m f = Inl e \<longleftrightarrow> m = Inl e \<or> (\<exists>x. m = Inr x \<and> f x = Inl e)"
  by (cases m) auto

lemma seq_res_Inl_iff:
  "seq_res m k = Inl e \<longleftrightarrow> m = Inl e \<or> (m = Inr () \<and> k = Inl e)"
  by (cases m) auto

lemma bind_res_cong [fundef_cong]:
  "m = m' \<Longrightarrow> (\<And>x. m' = Inr x \<Longrightarrow> f x = f' x) \<Longrightarrow> bind_res m f = bind_res m' f'"
  by (cases m') auto

lemma each_Inr_iff [res_simps]: "each f xs = Inr () \<longleftrightarrow> (\<forall>x \<in> set xs. f x = Inr ())"
  by (induction xs) (auto simp: res_simps)

lemma map_res_cong [fundef_cong]:
  "xs = ys \<Longrightarrow> (\<And>x. x \<in> set ys \<Longrightarrow> f x = g x) \<Longrightarrow> map_res f xs = map_res g ys"
  by (induction ys arbitrary: xs) auto

lemma map_res_Inr_iff [res_simps]:
  "map_res f xs = Inr ys \<longleftrightarrow> list_all2 (\<lambda>x y. f x = Inr y) xs ys"
  by (induction xs arbitrary: ys) (auto simp: res_simps list_all2_Cons1)

lemma map_res_id:
  "(\<And>x. x \<in> set xs \<Longrightarrow> f x = Inr (g x)) \<Longrightarrow> map_res f xs = Inr (map g xs)"
  by (induction xs) auto

section \<open>Arguments whose exact class is tested\<close>

text \<open>
  Many entry points start with \<open>type(x) is not C\<close>. An argument of such a parameter is
  \<open>Exact c\<close> for an instance of exactly that class, \<open>Alien\<close> for any other object.
\<close>

datatype 'a obj = Exact 'a | Alien

text \<open>
  A parameter annotated as a set: \<open>FrozenSet\<close> and \<open>PySet\<close> hold the members of an instance
  of exactly \<open>frozenset\<close> or \<open>set\<close>, \<open>OtherSet\<close> is any object of another type.
\<close>

datatype (dead 'a) pyset = FrozenSet "'a set" | PySet "'a set" | OtherSet

fun is_exact :: "'a obj \<Rightarrow> bool" where
  "is_exact (Exact _) = True"
| "is_exact Alien = False"

text \<open>The members of a set of objects that are of the expected class.\<close>

definition exact_members :: "'a obj set \<Rightarrow> 'a set" where
  "exact_members A = (\<Union>x\<in>A. case x of Exact y \<Rightarrow> {y} | Alien \<Rightarrow> {})"

lemma in_exact_members [simp]: "x \<in> exact_members A \<longleftrightarrow> Exact x \<in> A"
proof
  assume "x \<in> exact_members A"
  then obtain y where y: "y \<in> A" "x \<in> (case y of Exact z \<Rightarrow> {z} | Alien \<Rightarrow> {})"
    by (auto simp: exact_members_def)
  then show "Exact x \<in> A" by (cases y) auto
next
  assume "Exact x \<in> A"
  then show "x \<in> exact_members A" by (force simp: exact_members_def)
qed

lemma exact_members_image [simp]: "exact_members (Exact ` A) = A"
  by auto

lemma image_exact_members: "Alien \<notin> A \<Longrightarrow> Exact ` exact_members A = A"
proof (rule set_eqI)
  show "x \<in> Exact ` exact_members A \<longleftrightarrow> x \<in> A" if "Alien \<notin> A" for x
    using that by (cases x) auto
qed

lemma alien_not_image [simp]: "Alien \<notin> Exact ` A"
  by auto

text \<open>\<open>type(x) is C\<close> for a sequence of objects, and the instances it holds.\<close>

fun exacts :: "'a obj list \<Rightarrow> 'a list option" where
  "exacts [] = Some []"
| "exacts (Exact x # xs) = map_option (Cons x) (exacts xs)"
| "exacts (Alien # xs) = None"

lemma exacts_map [simp]: "exacts (map Exact xs) = Some xs"
  by (induction xs) auto

lemma exacts_Some_iff: "exacts xs = Some ys \<longleftrightarrow> xs = map Exact ys"
proof (induction xs arbitrary: ys)
  case Nil
  then show ?case by auto
next
  case (Cons x xs)
  then show ?case by (cases x) auto
qed

section \<open>Lists\<close>

text \<open>
  Sorting by a key that separates the elements depends on the elements alone, not on the
  order they come in.
\<close>

lemma distinct_map_sort_key: "distinct (map f (sort_key f xs)) \<longleftrightarrow> distinct (map f xs)"
  by (simp add: distinct_map)

lemma sort_key_unique:
  fixes f :: "'a \<Rightarrow> 'b::linorder"
  assumes "set xs = set ys" and "distinct (map f xs)" and "distinct (map f ys)"
  shows "sort_key f xs = sort_key f ys"
proof (rule map_sorted_distinct_set_unique [where f = f])
  show "inj_on f (set (sort_key f xs) \<union> set (sort_key f ys))"
    using assms by (simp add: distinct_map)
  have "distinct (map f (sort_key f zs))" if "distinct (map f zs)" for zs
    using that by (simp add: distinct_map)
  then show "distinct (map f (sort_key f xs))" "distinct (map f (sort_key f ys))"
    using assms by blast+
qed (use assms in simp_all)

end
