(* ===== verification/Py_Str.thy ===== *)
theory Py_Str
  imports Prelude
begin

text \<open>
  The part of Python's \<open>str\<close> and \<open>re\<close> that the contracts use.

  A Python string is modelled by \<open>string\<close>: a character stands for one code point, so the
  model covers the strings whose code points are below 256. White space, printability and
  the UTF-8 length are exact on that range. Regular expressions are written as in the source
  and run by derivatives; the lemmas below turn the common shapes into plain list predicates.
\<close>

section \<open>Character classes and str methods\<close>

definition digit_char :: "char \<Rightarrow> bool" where
  "digit_char c \<longleftrightarrow> CHR ''0'' \<le> c \<and> c \<le> CHR ''9''"

definition lower_char :: "char \<Rightarrow> bool" where
  "lower_char c \<longleftrightarrow> CHR ''a'' \<le> c \<and> c \<le> CHR ''z''"

definition upper_char :: "char \<Rightarrow> bool" where
  "upper_char c \<longleftrightarrow> CHR ''A'' \<le> c \<and> c \<le> CHR ''Z''"

definition hex_char :: "char \<Rightarrow> bool" where
  "hex_char c \<longleftrightarrow> digit_char c \<or> (CHR ''a'' \<le> c \<and> c \<le> CHR ''f'')"

definition lower_alnum :: "char \<Rightarrow> bool" where
  "lower_alnum c \<longleftrightarrow> lower_char c \<or> digit_char c"

definition alnum_char :: "char \<Rightarrow> bool" where
  "alnum_char c \<longleftrightarrow> lower_char c \<or> upper_char c \<or> digit_char c"

text \<open>\<open>str.isspace\<close> and \<open>str.isprintable\<close> on one code point below 256.\<close>

definition space_char :: "char \<Rightarrow> bool" where
  "space_char c \<longleftrightarrow> (let n = of_char c :: nat in
     (9 \<le> n \<and> n \<le> 13) \<or> (28 \<le> n \<and> n \<le> 32) \<or> n = 133 \<or> n = 160)"

definition printable_char :: "char \<Rightarrow> bool" where
  "printable_char c \<longleftrightarrow> (let n = of_char c :: nat in
     (32 \<le> n \<and> n \<le> 126) \<or> (161 \<le> n \<and> n \<noteq> 173))"

definition py_strip :: "string \<Rightarrow> string" where
  "py_strip s = rev (dropWhile space_char (rev (dropWhile space_char s)))"

definition py_isprintable :: "string \<Rightarrow> bool" where
  "py_isprintable s = list_all printable_char s"

text \<open>\<open>len(s.encode("utf-8"))\<close>: one byte for ASCII, two for the other modelled code points.\<close>

definition utf8_len :: "string \<Rightarrow> nat" where
  "utf8_len s = sum_list (map (\<lambda>c. if (of_char c :: nat) < 128 then 1 else 2) s)"

definition ascii_lower :: "char \<Rightarrow> char" where
  "ascii_lower c = (if upper_char c then char_of (of_char c + 32 :: nat) else c)"

text \<open>
  \<open>str.lower\<close> on the modelled range: the ASCII capitals and the Latin-1 capitals
  (192 to 222 without the multiplication sign 215) move by 32.
\<close>

definition py_lower :: "string \<Rightarrow> string" where
  "py_lower s = map (\<lambda>c. let n = of_char c :: nat in
     if upper_char c \<or> (192 \<le> n \<and> n \<le> 222 \<and> n \<noteq> 215) then char_of (n + 32) else c) s"

text \<open>\<open>str.split(sep)\<close> for one separator character; the result is never empty.\<close>

fun py_split :: "char \<Rightarrow> string \<Rightarrow> string list" where
  "py_split c [] = [[]]"
| "py_split c (x # xs) =
     (if x = c then [] # py_split c xs
      else (case py_split c xs of [] \<Rightarrow> [[x]] | w # ws \<Rightarrow> (x # w) # ws))"

text \<open>\<open>str.split(sep, maxsplit)\<close>.\<close>

fun py_split_max :: "char \<Rightarrow> nat \<Rightarrow> string \<Rightarrow> string list" where
  "py_split_max c n [] = [[]]"
| "py_split_max c n (x # xs) =
     (if x = c \<and> 0 < n then [] # py_split_max c (n - 1) xs
      else (case py_split_max c n xs of [] \<Rightarrow> [[x]] | w # ws \<Rightarrow> (x # w) # ws))"

definition starts_with :: "string \<Rightarrow> string \<Rightarrow> bool" where
  "starts_with p s \<longleftrightarrow> take (length p) s = p"

definition ends_with :: "string \<Rightarrow> string \<Rightarrow> bool" where
  "ends_with p s \<longleftrightarrow> starts_with (rev p) (rev s)"

definition remove_prefix :: "string \<Rightarrow> string \<Rightarrow> string" where
  "remove_prefix p s = (if starts_with p s then drop (length p) s else s)"

fun contains_str :: "string \<Rightarrow> string \<Rightarrow> bool" where
  "contains_str p [] = (p = [])"
| "contains_str p (x # xs) = (starts_with p (x # xs) \<or> contains_str p xs)"

lemma py_split_nonempty [simp]: "py_split c s \<noteq> []"
  by (cases s) (auto split: list.splits)

lemma py_split_max_nonempty [simp]: "py_split_max c n s \<noteq> []"
  by (cases s) (auto split: list.splits)

fun join_str :: "char \<Rightarrow> string list \<Rightarrow> string" where
  "join_str c [] = []"
| "join_str c [w] = w"
| "join_str c (w # v # ws) = w @ c # join_str c (v # ws)"

lemma join_py_split: "join_str c (py_split c s) = s"
proof (induction c s rule: py_split.induct)
  case (2 c x xs)
  obtain w ws where "py_split c xs = w # ws"
    by (meson list.exhaust py_split_nonempty)
  with 2 show ?case by (cases ws) auto
qed simp

lemma py_split_no_sep: "w \<in> set (py_split c s) \<Longrightarrow> c \<notin> set w"
proof (induction c s arbitrary: w rule: py_split.induct)
  case (2 c x xs)
  obtain v vs where "py_split c xs = v # vs"
    by (meson list.exhaust py_split_nonempty)
  with 2 show ?case by (auto split: if_splits)
qed simp

lemma starts_with_append [simp]: "starts_with p (p @ s)"
  by (simp add: starts_with_def)

lemma starts_with_iff: "starts_with p s \<longleftrightarrow> (\<exists>r. s = p @ r)"
  by (metis append_take_drop_id starts_with_append starts_with_def)

lemma remove_prefix_append [simp]: "remove_prefix p (p @ s) = s"
  by (simp add: remove_prefix_def)

section \<open>Regular expressions\<close>

datatype rx =
    Empty
  | Eps
  | Cls "char \<Rightarrow> bool"
  | Seq rx rx
  | Alt rx rx
  | Star rx

fun nullable :: "rx \<Rightarrow> bool" where
  "nullable Empty = False"
| "nullable Eps = True"
| "nullable (Cls P) = False"
| "nullable (Seq r s) = (nullable r \<and> nullable s)"
| "nullable (Alt r s) = (nullable r \<or> nullable s)"
| "nullable (Star r) = True"

fun deriv :: "char \<Rightarrow> rx \<Rightarrow> rx" where
  "deriv c Empty = Empty"
| "deriv c Eps = Empty"
| "deriv c (Cls P) = (if P c then Eps else Empty)"
| "deriv c (Seq r s) =
     (if nullable r then Alt (Seq (deriv c r) s) (deriv c s) else Seq (deriv c r) s)"
| "deriv c (Alt r s) = Alt (deriv c r) (deriv c s)"
| "deriv c (Star r) = Seq (deriv c r) (Star r)"

text \<open>\<open>re.fullmatch(r, s) is not None\<close>.\<close>

fun fullmatch :: "rx \<Rightarrow> string \<Rightarrow> bool" where
  "fullmatch r [] = nullable r"
| "fullmatch r (c # cs) = fullmatch (deriv c r) cs"

fun rx_rep :: "nat \<Rightarrow> rx \<Rightarrow> rx" where
  "rx_rep 0 r = Eps"
| "rx_rep (Suc n) r = Seq r (rx_rep n r)"

text \<open>\<open>r{m,n}\<close>, \<open>r+\<close>, a literal character and a literal string.\<close>

fun rx_upto :: "nat \<Rightarrow> rx \<Rightarrow> rx" where
  "rx_upto 0 r = Eps"
| "rx_upto (Suc n) r = Alt Eps (Seq r (rx_upto n r))"

definition rx_range :: "nat \<Rightarrow> nat \<Rightarrow> rx \<Rightarrow> rx" where
  "rx_range m n r = Seq (rx_rep m r) (rx_upto (n - m) r)"

definition rx_plus :: "rx \<Rightarrow> rx" where
  "rx_plus r = Seq r (Star r)"

definition rx_chr :: "char \<Rightarrow> rx" where
  "rx_chr c = Cls (\<lambda>x. x = c)"

fun rx_lit :: "string \<Rightarrow> rx" where
  "rx_lit [] = Eps"
| "rx_lit (c # cs) = Seq (rx_chr c) (rx_lit cs)"

text \<open>The language of an expression, and the matcher decides it.\<close>

inductive matches :: "rx \<Rightarrow> string \<Rightarrow> bool" where
  m_eps: "matches Eps []"
| m_cls: "P c \<Longrightarrow> matches (Cls P) [c]"
| m_seq: "matches r u \<Longrightarrow> matches s v \<Longrightarrow> matches (Seq r s) (u @ v)"
| m_alt1: "matches r u \<Longrightarrow> matches (Alt r s) u"
| m_alt2: "matches s u \<Longrightarrow> matches (Alt r s) u"
| m_star0: "matches (Star r) []"
| m_star1: "matches r u \<Longrightarrow> matches (Star r) v \<Longrightarrow> matches (Star r) (u @ v)"

inductive_simps matches_simps [simp]:
  "matches Empty u" "matches Eps u" "matches (Cls P) u" "matches (Alt r s) u"

inductive_simps matches_seq: "matches (Seq r s) u"

lemma nullable_matches: "nullable r \<longleftrightarrow> matches r []"
  by (induction r) (auto simp: matches_seq intro: m_star0)

lemma star_cons:
  "matches (Star r) (c # w) \<longleftrightarrow> (\<exists>u v. w = u @ v \<and> matches r (c # u) \<and> matches (Star r) v)"
proof
  show "\<exists>u v. w = u @ v \<and> matches r (c # u) \<and> matches (Star r) v" if "matches (Star r) (c # w)"
    using that by (induction "Star r" "c # w" rule: matches.induct) (auto simp: append_eq_Cons_conv)
  show "matches (Star r) (c # w)"
    if "\<exists>u v. w = u @ v \<and> matches r (c # u) \<and> matches (Star r) v"
    using that m_star1 by fastforce
qed

lemma deriv_matches: "matches (deriv c r) w \<longleftrightarrow> matches r (c # w)"
proof (induction r arbitrary: w)
  case (Seq r s)
  have "matches (Seq r s) (c # w) \<longleftrightarrow>
      (matches r [] \<and> matches s (c # w)) \<or> (\<exists>u v. w = u @ v \<and> matches r (c # u) \<and> matches s v)"
    by (auto simp: matches_seq Cons_eq_append_conv)
  then show ?case
    using Seq by (auto simp: matches_seq nullable_matches)
next
  case (Star r)
  then show ?case by (auto simp: matches_seq star_cons)
qed auto

theorem fullmatch_iff: "fullmatch r w \<longleftrightarrow> matches r w"
  by (induction w arbitrary: r) (auto simp: nullable_matches deriv_matches)

section \<open>The common shapes\<close>

lemma matches_seq_cls:
  "matches (Seq (Cls P) s) w \<longleftrightarrow> (\<exists>c cs. w = c # cs \<and> P c \<and> matches s cs)"
proof
  show "\<exists>c cs. w = c # cs \<and> P c \<and> matches s cs" if "matches (Seq (Cls P) s) w"
    using that unfolding matches_seq by auto
  show "matches (Seq (Cls P) s) w" if "\<exists>c cs. w = c # cs \<and> P c \<and> matches s cs"
    using that m_seq [OF m_cls] by fastforce
qed

lemma fullmatch_lit_seq [simp]:
  "fullmatch (Seq (rx_chr c) s) (x # w) \<longleftrightarrow> x = c \<and> fullmatch s w"
  "\<not> fullmatch (Seq (rx_chr c) s) []"
  by (auto simp: fullmatch_iff rx_chr_def matches_seq_cls)

lemma fullmatch_rep_cls [simp]:
  "fullmatch (rx_rep n (Cls P)) w \<longleftrightarrow> length w = n \<and> list_all P w"
  unfolding fullmatch_iff
proof (induction n arbitrary: w)
  case (Suc n)
  then show ?case by (cases w) (auto simp: matches_seq_cls)
qed auto

lemma matches_star_cls: "matches (Star (Cls P)) w \<longleftrightarrow> list_all P w"
  by (induction w) (auto simp: star_cons intro: m_star0)

lemma fullmatch_plus_cls [simp]:
  "fullmatch (rx_plus (Cls P)) w \<longleftrightarrow> w \<noteq> [] \<and> list_all P w"
  unfolding fullmatch_iff rx_plus_def by (cases w) (auto simp: matches_seq_cls matches_star_cls)

lemma matches_upto_cls: "matches (rx_upto n (Cls P)) w \<longleftrightarrow> length w \<le> n \<and> list_all P w"
proof (induction n arbitrary: w)
  case (Suc n)
  then show ?case by (cases w) (auto simp: matches_seq_cls)
qed auto

lemma fullmatch_range_cls [simp]:
  "m \<le> n \<Longrightarrow>
   fullmatch (rx_range m n (Cls P)) w \<longleftrightarrow> m \<le> length w \<and> length w \<le> n \<and> list_all P w"
proof -
  assume mn: "m \<le> n"
  have rep: "matches (rx_rep k (Cls P)) u \<longleftrightarrow> length u = k \<and> list_all P u" for k u
    using fullmatch_rep_cls unfolding fullmatch_iff .
  show ?thesis
  proof
    assume "fullmatch (rx_range m n (Cls P)) w"
    then show "m \<le> length w \<and> length w \<le> n \<and> list_all P w"
      using mn by (auto simp: fullmatch_iff rx_range_def matches_seq rep matches_upto_cls)
  next
    assume w: "m \<le> length w \<and> length w \<le> n \<and> list_all P w"
    then have "w = take m w @ drop m w" "matches (rx_rep m (Cls P)) (take m w)"
      "matches (rx_upto (n - m) (Cls P)) (drop m w)"
      by (auto simp: rep matches_upto_cls list_all_iff dest: in_set_takeD in_set_dropD)
    then show "fullmatch (rx_range m n (Cls P)) w"
      unfolding fullmatch_iff rx_range_def by (metis m_seq)
  qed
qed

text \<open>The patterns the contracts share: full source SHA, SHA-256 digest, diagnostic code.\<close>

definition SHA1 :: rx where "SHA1 = rx_rep 40 (Cls hex_char)"
definition SHA256 :: rx where "SHA256 = rx_rep 64 (Cls hex_char)"

definition DIAGNOSTIC :: rx where
  "DIAGNOSTIC = Seq (rx_plus (Cls lower_alnum))
     (Star (Seq (Cls (\<lambda>c. c \<in> set ''._-'')) (rx_plus (Cls lower_alnum))))"

definition is_sha1 :: "string \<Rightarrow> bool" where
  "is_sha1 s \<longleftrightarrow> length s = 40 \<and> list_all hex_char s"

definition is_sha256 :: "string \<Rightarrow> bool" where
  "is_sha256 s \<longleftrightarrow> length s = 64 \<and> list_all hex_char s"

lemma fullmatch_SHA1 [simp]: "fullmatch SHA1 s \<longleftrightarrow> is_sha1 s"
  by (simp add: SHA1_def is_sha1_def)

lemma fullmatch_SHA256 [simp]: "fullmatch SHA256 s \<longleftrightarrow> is_sha256 s"
  by (simp add: SHA256_def is_sha256_def)

section \<open>Bounded identities\<close>

text \<open>
  The acceptance condition every contract puts on an identity string: non-empty, not padded
  with white space, printable and at most \<open>MAX_IDENTITY_BYTES\<close> bytes of UTF-8.
\<close>

definition MAX_IDENTITY_BYTES :: nat where "MAX_IDENTITY_BYTES = 4096"

definition good_identity :: "string \<Rightarrow> bool" where
  "good_identity s \<longleftrightarrow> s \<noteq> [] \<and> s = py_strip s \<and> py_isprintable s \<and> utf8_len s \<le> MAX_IDENTITY_BYTES"

lemma utf8_len_ge: "length s \<le> utf8_len s"
  by (induction s) (auto simp: utf8_len_def)

lemma good_identity_bounded: "good_identity s \<Longrightarrow> 0 < length s \<and> length s \<le> 4096"
  using utf8_len_ge [of s] by (auto simp: good_identity_def MAX_IDENTITY_BYTES_def)

end
