(* ===== verification/Py_Value.thy ===== *)
theory Py_Value
  imports Py_Str
begin

text \<open>
  Python objects as the contracts see them. \<open>pyval\<close> is the universe of the untyped values
  that cross a boundary: decoded JSON, provider responses, dictionaries built as request
  parameters, and the raw arguments of the validating constructors. Dictionaries have string
  keys and keep insertion order; \<open>POther\<close> stands for an object of any other class, compared
  by identity.

  The theory defines Python's \<open>==\<close> on these values (booleans and integers compare as numbers,
  dictionaries compare without regard to order) and the canonical order of dictionary keys.
\<close>

section \<open>Values\<close>

text \<open>A float is the decimal value \<open>m * 10 ^ e\<close> of its literal, an infinity or not-a-number.\<close>

datatype pyfloat = Decimal int int | FInf bool | FNan

datatype pyval =
    PNone
  | PBool bool
  | PInt int
  | PFloat pyfloat
  | PStr string
  | PBytes string
  | PList "pyval list"
  | PTuple "pyval list"
  | PDict "(string \<times> pyval) list"
  | POther nat

type_synonym pydict = "(string \<times> pyval) list"

fun is_str :: "pyval \<Rightarrow> bool" where
  "is_str (PStr _) = True"
| "is_str _ = False"

fun is_int :: "pyval \<Rightarrow> bool" where
  "is_int (PInt _) = True"
| "is_int _ = False"

fun is_bool :: "pyval \<Rightarrow> bool" where
  "is_bool (PBool _) = True"
| "is_bool _ = False"

fun is_list :: "pyval \<Rightarrow> bool" where
  "is_list (PList _) = True"
| "is_list _ = False"

fun is_dict :: "pyval \<Rightarrow> bool" where
  "is_dict (PDict _) = True"
| "is_dict _ = False"

lemma is_str_iff: "is_str v \<longleftrightarrow> (\<exists>s. v = PStr s)" by (cases v) auto
lemma is_int_iff: "is_int v \<longleftrightarrow> (\<exists>i. v = PInt i)" by (cases v) auto
lemma is_bool_iff: "is_bool v \<longleftrightarrow> (\<exists>b. v = PBool b)" by (cases v) auto
lemma is_list_iff: "is_list v \<longleftrightarrow> (\<exists>xs. v = PList xs)" by (cases v) auto
lemma is_dict_iff: "is_dict v \<longleftrightarrow> (\<exists>d. v = PDict d)" by (cases v) auto

lemmas kind_iffs = is_str_iff is_int_iff is_bool_iff is_list_iff is_dict_iff

section \<open>Dictionaries\<close>

text \<open>\<open>d.get(k)\<close>, \<open>d[k]\<close>, \<open>d[k] = v\<close>, \<open>set(d) == fields\<close>.\<close>

definition dget :: "pydict \<Rightarrow> string \<Rightarrow> pyval" where
  "dget d k = (case map_of d k of None \<Rightarrow> PNone | Some v \<Rightarrow> v)"

definition dget_default :: "pydict \<Rightarrow> string \<Rightarrow> pyval \<Rightarrow> pyval" where
  "dget_default d k v0 = (case map_of d k of None \<Rightarrow> v0 | Some v \<Rightarrow> v)"

definition ditem :: "pydict \<Rightarrow> string \<Rightarrow> pyval res" where
  "ditem d k = (case map_of d k of None \<Rightarrow> Inl KeyError | Some v \<Rightarrow> Inr v)"

fun dput :: "string \<Rightarrow> pyval \<Rightarrow> pydict \<Rightarrow> pydict" where
  "dput k v [] = [(k, v)]"
| "dput k v ((k', v') # d) = (if k = k' then (k, v) # d else (k', v') # dput k v d)"

definition dkeys :: "pydict \<Rightarrow> string set" where
  "dkeys d = set (map fst d)"

lemma map_of_dput [simp]: "map_of (dput k v d) = (map_of d)(k \<mapsto> v)"
  by (induction d) auto

lemma map_fst_dput:
  "map fst (dput k v d) = (if k \<in> fst ` set d then map fst d else map fst d @ [k])"
  by (induction d) (auto simp: image_iff, force+)

lemma keys_dput [simp]: "fst ` set (dput k v d) = insert k (fst ` set d)"
  unfolding set_map [symmetric] map_fst_dput by auto

lemma dget_dput [simp]: "dget (dput k v d) k' = (if k' = k then v else dget d k')"
  by (simp add: dget_def)

lemma distinct_dput [simp]: "distinct (map fst d) \<Longrightarrow> distinct (map fst (dput k v d))"
  by (auto simp: map_fst_dput)

lemma dput_new: "k \<notin> fst ` set d \<Longrightarrow> dput k v d = d @ [(k, v)]"
  by (induction d) auto

lemma in_dkeys_iff: "k \<in> dkeys d \<longleftrightarrow> (\<exists>v. map_of d k = Some v)"
  unfolding dkeys_def by (metis domIff dom_map_of_conv_image_fst not_None_eq set_map)

section \<open>Equality\<close>

fun num_parts :: "pyval \<Rightarrow> (int \<times> int) option" where
  "num_parts (PBool b) = Some (if b then 1 else 0, 0)"
| "num_parts (PInt i) = Some (i, 0)"
| "num_parts (PFloat (Decimal m e)) = Some (m, e)"
| "num_parts _ = None"

definition num_eq :: "int \<times> int \<Rightarrow> int \<times> int \<Rightarrow> bool" where
  "num_eq a b = (case (a, b) of ((m, e), (n, f)) \<Rightarrow>
     (let k = min e f in m * 10 ^ nat (e - k) = n * 10 ^ nat (f - k)))"

fun scalar_eq :: "pyval \<Rightarrow> pyval \<Rightarrow> bool" where
  "scalar_eq PNone b = (b = PNone)"
| "scalar_eq (PStr s) b = (b = PStr s)"
| "scalar_eq (PBytes s) b = (b = PBytes s)"
| "scalar_eq (POther i) b = (b = POther i)"
| "scalar_eq (PFloat (FInf p)) b = (b = PFloat (FInf p))"
| "scalar_eq a b = (case (num_parts a, num_parts b) of
     (Some x, Some y) \<Rightarrow> num_eq x y | _ \<Rightarrow> False)"

text \<open>Python's \<open>a == b\<close>.\<close>

function py_eq :: "pyval \<Rightarrow> pyval \<Rightarrow> bool" where
  "py_eq (PList xs) b = (case b of
     PList ys \<Rightarrow> length xs = length ys \<and> list_all (\<lambda>(x, y). py_eq x y) (zip xs ys)
   | _ \<Rightarrow> False)"
| "py_eq (PTuple xs) b = (case b of
     PTuple ys \<Rightarrow> length xs = length ys \<and> list_all (\<lambda>(x, y). py_eq x y) (zip xs ys)
   | _ \<Rightarrow> False)"
| "py_eq (PDict xs) b = (case b of
     PDict ys \<Rightarrow> length xs = length ys \<and>
       list_all (\<lambda>(k, v). case map_of ys k of None \<Rightarrow> False | Some w \<Rightarrow> py_eq v w) xs
   | _ \<Rightarrow> False)"
| "py_eq PNone b = scalar_eq PNone b"
| "py_eq (PBool x) b = scalar_eq (PBool x) b"
| "py_eq (PInt x) b = scalar_eq (PInt x) b"
| "py_eq (PFloat x) b = scalar_eq (PFloat x) b"
| "py_eq (PStr x) b = scalar_eq (PStr x) b"
| "py_eq (PBytes x) b = scalar_eq (PBytes x) b"
| "py_eq (POther x) b = scalar_eq (POther x) b"
  by pat_completeness auto
termination
proof (relation "measure (\<lambda>(a, b). size a)", goal_cases)
  case (2 xs b ys z x y)
  then show ?case
    using size_list_estimation' [of x xs "size x" size] by (auto dest: set_zip_leftD)
next
  case (3 xs b ys z x y)
  then show ?case
    using size_list_estimation' [of x xs "size x" size] by (auto dest: set_zip_leftD)
next
  case (4 xs b ys z k v w)
  then show ?case
    using size_list_estimation' [of "(k, v)" xs "size v" "size_prod (\<lambda>_. 0) size"] by auto
qed simp

lemma num_eq_refl [simp]: "num_eq a a"
  by (cases a) (simp add: num_eq_def Let_def)

lemma num_eq_int [simp]: "num_eq (i, 0) (j, 0) \<longleftrightarrow> i = j"
  by (simp add: num_eq_def)

lemma py_eq_str [simp]: "py_eq v (PStr s) \<longleftrightarrow> v = PStr s"
proof (cases v)
  case (PFloat f)
  then show ?thesis by (cases f) auto
qed auto

lemma py_eq_str_left [simp]: "py_eq (PStr s) v \<longleftrightarrow> v = PStr s"
  by simp

end
