(* ===== verification/Capability.thy ===== *)
theory Capability
  imports Py_Value
begin

text \<open>
  \<open>scripts/provider-capability-contract.py\<close>: the portable admission contract of provider
  operations. A validating dataclass is a record together with a constructor \<open>new_...\<close>
  that takes the raw field values and raises what \<open>__post_init__\<close> raises; \<open>wf_...\<close> is the
  invariant that every constructed instance satisfies.
\<close>

section \<open>Enumerations\<close>

datatype operation = Op_CREATE | Op_INSPECT | Op_REBUILD | Op_DELETE

fun operation_value :: "operation \<Rightarrow> string" where
  "operation_value Op_CREATE = ''create''"
| "operation_value Op_INSPECT = ''inspect''"
| "operation_value Op_REBUILD = ''rebuild''"
| "operation_value Op_DELETE = ''delete''"

datatype outcome =
  Out_APPLIED | Out_OBSERVED | Out_ALREADY_SATISFIED | Out_UNSUPPORTED | Out_FAILED

datatype cleanup_outcome = Cl_NOT_APPLICABLE | Cl_COMPLETE | Cl_INCOMPLETE

section \<open>Field checks\<close>

definition cap_identity :: "string \<Rightarrow> pyval \<Rightarrow> unit res" where
  "cap_identity label v =
     (case v of
        PStr s \<Rightarrow>
          (if s = [] \<or> s \<noteq> py_strip s
           then Inl (ContractError (label @ '' must be one explicit non-empty identity''))
           else if \<not> py_isprintable s \<or> MAX_IDENTITY_BYTES < utf8_len s
           then Inl (ContractError (label @ '' is outside the bounded identity format''))
           else Inr ())
      | _ \<Rightarrow> Inl (ContractError (label @ '' must be one explicit non-empty identity'')))"

definition matches_str :: "rx \<Rightarrow> pyval \<Rightarrow> bool" where
  "matches_str r v = (case v of PStr s \<Rightarrow> fullmatch r s | _ \<Rightarrow> False)"

text \<open>Reading a validated field: the string, and the string or \<open>None\<close>.\<close>

fun str_of :: "pyval \<Rightarrow> string" where
  "str_of (PStr s) = s"
| "str_of _ = []"

fun opt_str_of :: "pyval \<Rightarrow> string option" where
  "opt_str_of (PStr s) = Some s"
| "opt_str_of _ = None"

text \<open>A field value as the constructor receives it.\<close>

fun opt_val :: "string option \<Rightarrow> pyval" where
  "opt_val None = PNone"
| "opt_val (Some s) = PStr s"

text \<open>\<open>if value is not None: check(value)\<close>.\<close>

definition unless_none :: "(pyval \<Rightarrow> unit res) \<Rightarrow> pyval \<Rightarrow> unit res" where
  "unless_none chk v = (if v = PNone then Inr () else chk v)"

text \<open>
  The interface of an identity check. Four modules of the program bring their own check with
  their own messages; what a client may rely on is which values pass, and that a rejected
  value is rejected with a \<open>ContractError\<close>.
\<close>

locale identity_checker =
  fixes check :: "string \<Rightarrow> pyval \<Rightarrow> unit res"
  assumes check_ok: "check l v = Inr () \<longleftrightarrow> (\<exists>s. v = PStr s \<and> good_identity s)"
    and check_error: "check l v = Inl e \<Longrightarrow> \<exists>m. e = ContractError m"
begin

lemma accepts [simp]: "check l (PStr s) = Inr () \<longleftrightarrow> good_identity s"
  by (simp add: check_ok)

lemma rejects_none: "check l PNone \<noteq> Inr ()"
  by (simp add: check_ok)

lemma optional [res_simps]:
  "unless_none (check l) v = Inr () \<longleftrightarrow> v = PNone \<or> (\<exists>s. v = PStr s \<and> good_identity s)"
  by (auto simp: unless_none_def check_ok)

lemma optional_val [simp]:
  "unless_none (check l) (opt_val x) = Inr () \<longleftrightarrow> (\<forall>s. x = Some s \<longrightarrow> good_identity s)"
  by (cases x) (auto simp: unless_none_def)

lemma optional_fields:
  assumes "unless_none (check l) v = Inr ()"
  shows "v = opt_val (opt_str_of v)" and "\<And>s. opt_str_of v = Some s \<Longrightarrow> good_identity s"
  using assms by (auto simp: optional)

lemma required_field:
  assumes "check l v = Inr ()"
  shows "v = PStr (str_of v)" and "good_identity (str_of v)"
  using assms by (auto simp: check_ok)

lemma unless_none_error: "unless_none (check l) v = Inl e \<Longrightarrow> \<exists>m. e = ContractError m"
  by (auto simp: unless_none_def split: if_splits dest: check_error)

end

interpretation cap: identity_checker cap_identity
  by unfold_locales
    (auto simp: cap_identity_def good_identity_def split: pyval.splits if_splits)

lemma matches_str_iff [res_simps]: "matches_str r v \<longleftrightarrow> (\<exists>s. v = PStr s \<and> fullmatch r s)"
  by (auto simp: matches_str_def split: pyval.splits)

lemma str_of_simps [simp]: "opt_str_of (opt_val x) = x"
  by (cases x) auto

lemma opt_val_eq [simp]: "opt_val x = PNone \<longleftrightarrow> x = None" "opt_val x = PStr s \<longleftrightarrow> x = Some s"
  by (cases x; simp)+

section \<open>ResourceTarget\<close>

record resource_target =
  rt_provider :: string
  rt_scope :: string
  rt_requested_key :: string
  rt_provider_resource_id :: "string option"
  rt_expected_version :: "string option"

definition new_resource_target ::
  "pyval \<Rightarrow> pyval \<Rightarrow> pyval \<Rightarrow> pyval \<Rightarrow> pyval \<Rightarrow> resource_target res" where
  "new_resource_target provider scope requested_key resource_id version =
     seq_res (cap_identity ''provider'' provider) (
     seq_res (cap_identity ''provider scope'' scope) (
     seq_res (cap_identity ''requested target key'' requested_key) (
     seq_res (unless_none (cap_identity ''provider resource identity'') resource_id) (
     seq_res (unless_none (cap_identity ''expected provider resource version'') version) (
     Inr \<lparr>rt_provider = str_of provider, rt_scope = str_of scope,
          rt_requested_key = str_of requested_key,
          rt_provider_resource_id = opt_str_of resource_id,
          rt_expected_version = opt_str_of version\<rparr>)))))"

definition good_opt :: "string option \<Rightarrow> bool" where
  "good_opt x = (case x of None \<Rightarrow> True | Some s \<Rightarrow> good_identity s)"

definition wf_resource_target :: "resource_target \<Rightarrow> bool" where
  "wf_resource_target t \<longleftrightarrow> good_identity (rt_provider t) \<and> good_identity (rt_scope t) \<and>
     good_identity (rt_requested_key t) \<and> good_opt (rt_provider_resource_id t) \<and>
     good_opt (rt_expected_version t)"

text \<open>\<open>ResourceTarget(**asdict(t))\<close>: re-admission of an instance from another module copy.\<close>

definition readmit_target :: "resource_target \<Rightarrow> resource_target res" where
  "readmit_target t = new_resource_target (PStr (rt_provider t)) (PStr (rt_scope t))
     (PStr (rt_requested_key t)) (opt_val (rt_provider_resource_id t)) (opt_val (rt_expected_version t))"

lemma good_opt_simps [simp]:
  "good_opt None" "good_opt (Some s) \<longleftrightarrow> good_identity s"
  by (simp_all add: good_opt_def)

lemma good_opt_iff: "good_opt x \<longleftrightarrow> (\<forall>s. x = Some s \<longrightarrow> good_identity s)"
  by (cases x) auto

lemma new_resource_target_wf:
  "new_resource_target p s k i v = Inr t \<Longrightarrow> wf_resource_target t"
  by (auto simp: new_resource_target_def wf_resource_target_def res_simps cap.check_ok)

lemma readmit_target_iff: "readmit_target t = Inr t' \<longleftrightarrow> wf_resource_target t \<and> t' = t"
  by (auto simp: readmit_target_def new_resource_target_def wf_resource_target_def res_simps
      good_opt_iff)

lemma readmit_target_error: "readmit_target t = Inl e \<Longrightarrow> \<exists>m. e = ContractError m"
  by (auto simp: readmit_target_def new_resource_target_def seq_res_Inl_iff
      dest: cap.check_error cap.unless_none_error)

section \<open>ExecutionAuthority\<close>

record execution_authority =
  ea_authorization_id :: string
  ea_adapter_id :: string
  ea_source_revision :: string
  ea_target :: resource_target
  ea_operations :: "operation set"
  ea_parameters_sha256 :: string
  ea_credential_mechanism :: string

definition new_execution_authority ::
  "pyval \<Rightarrow> pyval \<Rightarrow> pyval \<Rightarrow> resource_target obj \<Rightarrow> operation obj pyset \<Rightarrow> pyval \<Rightarrow> pyval
    \<Rightarrow> execution_authority res" where
  "new_execution_authority authorization_id adapter_id source_revision target operations
      parameters_sha256 credential_mechanism =
     seq_res (cap_identity ''authorization identity'' authorization_id) (
     seq_res (cap_identity ''adapter identity'' adapter_id) (
     seq_res (cap_identity ''credential mechanism'' credential_mechanism) (
     if \<not> matches_str SHA1 source_revision
     then Inl (ContractError ''authority requires one lowercase full source SHA'')
     else if \<not> matches_str SHA256 parameters_sha256
     then Inl (ContractError ''authority requires one SHA-256 parameter binding'')
     else (case target of
         Alien \<Rightarrow> Inl (ContractError ''authority requires one exact target'')
       | Exact t \<Rightarrow>
           (case operations of
              FrozenSet ops \<Rightarrow>
                (if ops = {} \<or> Alien \<in> ops
                 then Inl (ContractError ''authority requires a closed allowed operation set'')
                 else Inr \<lparr>ea_authorization_id = str_of authorization_id,
                           ea_adapter_id = str_of adapter_id,
                           ea_source_revision = str_of source_revision, ea_target = t,
                           ea_operations = exact_members ops,
                           ea_parameters_sha256 = str_of parameters_sha256,
                           ea_credential_mechanism = str_of credential_mechanism\<rparr>)
            | _ \<Rightarrow> Inl (ContractError ''authority requires a closed allowed operation set''))))))"

definition wf_execution_authority :: "execution_authority \<Rightarrow> bool" where
  "wf_execution_authority a \<longleftrightarrow> good_identity (ea_authorization_id a) \<and>
     good_identity (ea_adapter_id a) \<and> good_identity (ea_credential_mechanism a) \<and>
     is_sha1 (ea_source_revision a) \<and> is_sha256 (ea_parameters_sha256 a) \<and>
     ea_operations a \<noteq> {}"

lemma new_execution_authority_wf:
  assumes "new_execution_authority a d s t ops p c = Inr au"
  shows "wf_execution_authority au" and "t = Exact (ea_target au)"
    and "ops = FrozenSet (Exact ` ea_operations au)"
proof -
  from assms obtain tt A where t: "t = Exact tt" and A: "ops = FrozenSet A" "A \<noteq> {}" "Alien \<notin> A"
    by (auto simp: new_execution_authority_def res_simps split: obj.splits pyset.splits)
  have img: "A = Exact ` exact_members A"
    using image_exact_members [OF A(3)] by simp
  with A(2) have "exact_members A \<noteq> {}" by auto
  with assms t A img show "wf_execution_authority au" "t = Exact (ea_target au)"
    "ops = FrozenSet (Exact ` ea_operations au)"
    by (auto simp: new_execution_authority_def wf_execution_authority_def res_simps cap.check_ok)
qed

section \<open>CapabilityRequest\<close>

record capability_request =
  rq_request_id :: string
  rq_adapter_id :: string
  rq_source_revision :: string
  rq_operation :: operation
  rq_target :: resource_target
  rq_parameters_sha256 :: string

definition new_capability_request ::
  "pyval \<Rightarrow> pyval \<Rightarrow> pyval \<Rightarrow> operation obj \<Rightarrow> resource_target obj \<Rightarrow> pyval
    \<Rightarrow> capability_request res" where
  "new_capability_request request_id adapter_id source_revision operation target parameters_sha256 =
     seq_res (cap_identity ''request identity'' request_id) (
     seq_res (cap_identity ''adapter identity'' adapter_id) (
     if \<not> matches_str SHA1 source_revision
     then Inl (ContractError ''request requires one lowercase full source SHA'')
     else (case (operation, target) of
         (Exact op, Exact t) \<Rightarrow>
           (if \<not> matches_str SHA256 parameters_sha256
            then Inl (ContractError ''adapter parameters require one SHA-256 binding'')
            else Inr \<lparr>rq_request_id = str_of request_id, rq_adapter_id = str_of adapter_id,
                      rq_source_revision = str_of source_revision, rq_operation = op,
                      rq_target = t, rq_parameters_sha256 = str_of parameters_sha256\<rparr>)
       | _ \<Rightarrow> Inl (ContractError ''request operation or target is invalid''))))"

definition wf_capability_request :: "capability_request \<Rightarrow> bool" where
  "wf_capability_request r \<longleftrightarrow> good_identity (rq_request_id r) \<and> good_identity (rq_adapter_id r) \<and>
     is_sha1 (rq_source_revision r) \<and> is_sha256 (rq_parameters_sha256 r)"

lemma new_capability_request_iff:
  "new_capability_request i a s op t p = Inr r \<longleftrightarrow>
     wf_capability_request r \<and> i = PStr (rq_request_id r) \<and> a = PStr (rq_adapter_id r) \<and>
     s = PStr (rq_source_revision r) \<and> op = Exact (rq_operation r) \<and> t = Exact (rq_target r) \<and>
     p = PStr (rq_parameters_sha256 r)"
proof
  assume "new_capability_request i a s op t p = Inr r"
  then show "wf_capability_request r \<and> i = PStr (rq_request_id r) \<and> a = PStr (rq_adapter_id r) \<and>
     s = PStr (rq_source_revision r) \<and> op = Exact (rq_operation r) \<and> t = Exact (rq_target r) \<and>
     p = PStr (rq_parameters_sha256 r)"
    by (cases op; cases t)
      (auto simp: new_capability_request_def wf_capability_request_def res_simps cap.check_ok)
qed (simp add: new_capability_request_def wf_capability_request_def matches_str_def res_simps)

section \<open>CapabilityResult\<close>

record capability_result =
  rs_request_id :: string
  rs_adapter_id :: string
  rs_source_revision :: string
  rs_operation :: operation
  rs_target :: resource_target
  rs_parameters_sha256 :: string
  rs_outcome :: outcome
  rs_cleanup :: cleanup_outcome
  rs_provider_resource_id :: "string option"
  rs_provider_resource_version :: "string option"
  rs_provider_image_id :: "string option"
  rs_diagnostic_code :: "string option"

definition new_capability_result ::
  "pyval \<Rightarrow> pyval \<Rightarrow> pyval \<Rightarrow> operation obj \<Rightarrow> resource_target obj \<Rightarrow> pyval \<Rightarrow> outcome obj
    \<Rightarrow> cleanup_outcome obj \<Rightarrow> pyval \<Rightarrow> pyval \<Rightarrow> pyval \<Rightarrow> pyval \<Rightarrow> capability_result res" where
  "new_capability_result request_id adapter_id source_revision operation target parameters_sha256
      outcome cleanup resource_id resource_version image_id diagnostic_code =
     seq_res (cap_identity ''result request identity'' request_id) (
     seq_res (cap_identity ''result adapter identity'' adapter_id) (
     if \<not> matches_str SHA1 source_revision
     then Inl (ContractError ''result requires one lowercase full source SHA'')
     else if \<not> matches_str SHA256 parameters_sha256
     then Inl (ContractError ''result requires one SHA-256 parameter binding'')
     else (case (operation, target, outcome, cleanup) of
         (Exact op, Exact t, Exact out, Exact cl) \<Rightarrow>
           seq_res (unless_none (cap_identity ''observed provider resource identity'') resource_id) (
           seq_res (unless_none (cap_identity ''observed provider resource version'') resource_version) (
           seq_res (unless_none (cap_identity ''observed provider image identity'') image_id) (
           if diagnostic_code \<noteq> PNone \<and>
              (\<not> matches_str DIAGNOSTIC diagnostic_code \<or> 128 < length (str_of diagnostic_code))
           then Inl (ContractError ''diagnostic code is outside the bounded format'')
           else Inr \<lparr>rs_request_id = str_of request_id, rs_adapter_id = str_of adapter_id,
                     rs_source_revision = str_of source_revision, rs_operation = op,
                     rs_target = t, rs_parameters_sha256 = str_of parameters_sha256,
                     rs_outcome = out, rs_cleanup = cl,
                     rs_provider_resource_id = opt_str_of resource_id,
                     rs_provider_resource_version = opt_str_of resource_version,
                     rs_provider_image_id = opt_str_of image_id,
                     rs_diagnostic_code = opt_str_of diagnostic_code\<rparr>)))
       | _ \<Rightarrow> Inl (ContractError ''result is outside the closed contract''))))"

definition good_diagnostic :: "string option \<Rightarrow> bool" where
  "good_diagnostic d = (case d of None \<Rightarrow> True | Some s \<Rightarrow> fullmatch DIAGNOSTIC s \<and> length s \<le> 128)"

definition wf_capability_result :: "capability_result \<Rightarrow> bool" where
  "wf_capability_result r \<longleftrightarrow> good_identity (rs_request_id r) \<and> good_identity (rs_adapter_id r) \<and>
     is_sha1 (rs_source_revision r) \<and> is_sha256 (rs_parameters_sha256 r) \<and>
     good_opt (rs_provider_resource_id r) \<and> good_opt (rs_provider_resource_version r) \<and>
     good_opt (rs_provider_image_id r) \<and> good_diagnostic (rs_diagnostic_code r)"

lemma new_capability_result_wf:
  "new_capability_result i a s op t p out cl rid rv im dg = Inr r \<Longrightarrow> wf_capability_result r"
  by (auto simp: new_capability_result_def wf_capability_result_def res_simps cap.check_ok
      good_diagnostic_def split: obj.splits)

section \<open>Admission of a request\<close>

fun supported_set :: "operation obj pyset \<Rightarrow> operation set option" where
  "supported_set (FrozenSet A) = (if Alien \<in> A then None else Some (exact_members A))"
| "supported_set (PySet A) = (if Alien \<in> A then None else Some (exact_members A))"
| "supported_set OtherSet = None"

definition admit_request ::
  "capability_request obj \<Rightarrow> execution_authority obj \<Rightarrow> operation obj pyset \<Rightarrow> unit res" where
  "admit_request request authority supported_operations =
     (case (request, authority) of
        (Exact rq, Exact au) \<Rightarrow>
          (case supported_set supported_operations of
             None \<Rightarrow> Inl (ContractError ''adapter requires a closed supported operation set'')
           | Some supported \<Rightarrow>
               if rq_adapter_id rq \<noteq> ea_adapter_id au
                 \<or> rq_source_revision rq \<noteq> ea_source_revision au
                 \<or> rq_target rq \<noteq> ea_target au
                 \<or> rq_parameters_sha256 rq \<noteq> ea_parameters_sha256 au
               then Inl (ContractError ''request does not match the exact authorized target'')
               else if rq_operation rq \<notin> ea_operations au
               then Inl (ContractError ''operation is not authorized for this exact target'')
               else if rq_operation rq \<notin> supported
               then Inl (UnsupportedCapability ''selected adapter does not support this operation'')
               else if rq_operation rq \<in> {Op_INSPECT, Op_REBUILD, Op_DELETE}
                 \<and> rt_provider_resource_id (rq_target rq) = None
               then Inl (ContractError ''operation requires an exact provider-native identity'')
               else Inr ())
      | _ \<Rightarrow> Inl (ContractError ''request and authority are required''))"

text \<open>What an admitted request is bound to.\<close>

definition request_bound :: "capability_request \<Rightarrow> execution_authority \<Rightarrow> bool" where
  "request_bound rq au \<longleftrightarrow> rq_adapter_id rq = ea_adapter_id au \<and>
     rq_source_revision rq = ea_source_revision au \<and> rq_target rq = ea_target au \<and>
     rq_parameters_sha256 rq = ea_parameters_sha256 au"

lemma admit_request_Inr_iff [res_simps]:
  "admit_request (Exact rq) (Exact au) ops = Inr () \<longleftrightarrow>
     request_bound rq au \<and> rq_operation rq \<in> ea_operations au \<and>
     (\<exists>A. supported_set ops = Some A \<and> rq_operation rq \<in> A) \<and>
     (rq_operation rq = Op_CREATE \<or> rt_provider_resource_id (rq_target rq) \<noteq> None)"
  by (cases "rq_operation rq")
    (auto simp: admit_request_def request_bound_def split: option.splits)

lemma admit_request_exact:
  "admit_request r a ops = Inr () \<Longrightarrow> \<exists>rq au. r = Exact rq \<and> a = Exact au"
  by (auto simp: admit_request_def split: obj.splits)

section \<open>Admission of a result\<close>

fun allowed_outcomes :: "operation \<Rightarrow> outcome set" where
  "allowed_outcomes Op_CREATE = {Out_APPLIED, Out_ALREADY_SATISFIED, Out_UNSUPPORTED, Out_FAILED}"
| "allowed_outcomes Op_INSPECT = {Out_OBSERVED, Out_UNSUPPORTED, Out_FAILED}"
| "allowed_outcomes Op_REBUILD = {Out_APPLIED, Out_ALREADY_SATISFIED, Out_UNSUPPORTED, Out_FAILED}"
| "allowed_outcomes Op_DELETE = {Out_APPLIED, Out_ALREADY_SATISFIED, Out_UNSUPPORTED, Out_FAILED}"

definition result_bound :: "capability_request \<Rightarrow> capability_result \<Rightarrow> bool" where
  "result_bound rq rs \<longleftrightarrow> rs_request_id rs = rq_request_id rq \<and> rs_adapter_id rs = rq_adapter_id rq \<and>
     rs_source_revision rs = rq_source_revision rq \<and> rs_operation rs = rq_operation rq \<and>
     rs_target rs = rq_target rq \<and> rs_parameters_sha256 rs = rq_parameters_sha256 rq"

definition admit_result :: "capability_request obj \<Rightarrow> capability_result obj \<Rightarrow> unit res" where
  "admit_result request result =
     (case (request, result) of
        (Exact rq, Exact rs) \<Rightarrow>
          if rs_request_id rs \<noteq> rq_request_id rq \<or> rs_adapter_id rs \<noteq> rq_adapter_id rq
            \<or> rs_source_revision rs \<noteq> rq_source_revision rq \<or> rs_operation rs \<noteq> rq_operation rq
            \<or> rs_target rs \<noteq> rq_target rq \<or> rs_parameters_sha256 rs \<noteq> rq_parameters_sha256 rq
          then Inl (ContractError ''result is not bound to the exact request'')
          else if rs_outcome rs \<notin> allowed_outcomes (rq_operation rq)
          then Inl (ContractError ''outcome contradicts the requested operation'')
          else if rs_provider_resource_id rs \<noteq> None
            \<and> rt_provider_resource_id (rq_target rq) \<noteq> None
            \<and> rs_provider_resource_id rs \<noteq> rt_provider_resource_id (rq_target rq)
          then Inl (ContractError ''observed resource identity mismatches the target'')
          else if (rs_outcome rs \<in> {Out_FAILED, Out_UNSUPPORTED}) \<noteq> (rs_diagnostic_code rs \<noteq> None)
          then Inl (ContractError ''diagnostic presence contradicts the result outcome'')
          else if rs_outcome rs = Out_UNSUPPORTED
          then (if rs_cleanup rs \<noteq> Cl_NOT_APPLICABLE \<or> rs_provider_resource_id rs \<noteq> None
                  \<or> rs_provider_resource_version rs \<noteq> None \<or> rs_provider_image_id rs \<noteq> None
                then Inl (ContractError ''unsupported result must not imply provider mutation'')
                else Inr ())
          else if rs_outcome rs = Out_FAILED
          then (if rs_cleanup rs \<notin> (if rq_operation rq = Op_INSPECT then {Cl_NOT_APPLICABLE}
                                     else {Cl_COMPLETE, Cl_INCOMPLETE})
                then Inl (ContractError ''failed mutation must report its cleanup outcome'')
                else Inr ())
          else if rq_operation rq = Op_DELETE
          then (if rs_cleanup rs \<noteq> Cl_COMPLETE \<or> rs_provider_resource_id rs \<noteq> None
                  \<or> rs_provider_resource_version rs \<noteq> None \<or> rs_provider_image_id rs \<noteq> None
                then Inl (ContractError ''successful delete requires exact complete cleanup'')
                else Inr ())
          else if rs_cleanup rs \<noteq> Cl_NOT_APPLICABLE \<or> rs_provider_resource_id rs = None
          then Inl (ContractError ''successful operation requires bounded provider read-back'')
          else if rq_operation rq = Op_INSPECT \<and> rt_expected_version (rq_target rq) \<noteq> None
            \<and> rs_provider_resource_version rs \<noteq> rt_expected_version (rq_target rq)
          then Inl (ContractError ''observed resource version is stale or mismatched'')
          else Inr ()
      | _ \<Rightarrow> Inl (ContractError ''request and result are required''))"

lemma admit_result_exact:
  "admit_result r s = Inr () \<Longrightarrow> \<exists>rq rs. r = Exact rq \<and> s = Exact rs"
  by (auto simp: admit_result_def split: obj.splits)

lemma admit_result_bound: "admit_result (Exact rq) (Exact rs) = Inr () \<Longrightarrow> result_bound rq rs"
  by (simp add: admit_result_def result_bound_def split: if_splits)

text \<open>
  The contract in terms of what a consumer may conclude about the provider, independent of
  the order of the checks: each kind of admitted result with what it then reports.
\<close>

definition same_identity :: "capability_request \<Rightarrow> capability_result \<Rightarrow> bool" where
  "same_identity rq rs \<longleftrightarrow> rs_provider_resource_id rs = None \<or>
     rt_provider_resource_id (rq_target rq) = None \<or>
     rs_provider_resource_id rs = rt_provider_resource_id (rq_target rq)"

definition no_read_back :: "capability_result \<Rightarrow> bool" where
  "no_read_back rs \<longleftrightarrow> rs_provider_resource_id rs = None \<and>
     rs_provider_resource_version rs = None \<and> rs_provider_image_id rs = None"

inductive result_spec :: "capability_request \<Rightarrow> capability_result \<Rightarrow> bool" where
  unsupported: "rs_outcome rs = Out_UNSUPPORTED \<Longrightarrow> rs_cleanup rs = Cl_NOT_APPLICABLE \<Longrightarrow>
    rs_diagnostic_code rs \<noteq> None \<Longrightarrow> no_read_back rs \<Longrightarrow> result_spec rq rs"
| failed_read: "rs_outcome rs = Out_FAILED \<Longrightarrow> rq_operation rq = Op_INSPECT \<Longrightarrow>
    rs_cleanup rs = Cl_NOT_APPLICABLE \<Longrightarrow> rs_diagnostic_code rs \<noteq> None \<Longrightarrow>
    same_identity rq rs \<Longrightarrow> result_spec rq rs"
| failed_mutation: "rs_outcome rs = Out_FAILED \<Longrightarrow> rq_operation rq \<noteq> Op_INSPECT \<Longrightarrow>
    rs_cleanup rs \<noteq> Cl_NOT_APPLICABLE \<Longrightarrow> rs_diagnostic_code rs \<noteq> None \<Longrightarrow>
    same_identity rq rs \<Longrightarrow> result_spec rq rs"
| deleted: "rs_outcome rs \<in> {Out_APPLIED, Out_ALREADY_SATISFIED} \<Longrightarrow> rq_operation rq = Op_DELETE \<Longrightarrow>
    rs_cleanup rs = Cl_COMPLETE \<Longrightarrow> rs_diagnostic_code rs = None \<Longrightarrow> no_read_back rs \<Longrightarrow>
    result_spec rq rs"
| written: "rs_outcome rs \<in> {Out_APPLIED, Out_ALREADY_SATISFIED} \<Longrightarrow>
    rq_operation rq \<in> {Op_CREATE, Op_REBUILD} \<Longrightarrow> rs_cleanup rs = Cl_NOT_APPLICABLE \<Longrightarrow>
    rs_diagnostic_code rs = None \<Longrightarrow> rs_provider_resource_id rs \<noteq> None \<Longrightarrow>
    same_identity rq rs \<Longrightarrow> result_spec rq rs"
| observed: "rs_outcome rs = Out_OBSERVED \<Longrightarrow> rq_operation rq = Op_INSPECT \<Longrightarrow>
    rs_cleanup rs = Cl_NOT_APPLICABLE \<Longrightarrow> rs_diagnostic_code rs = None \<Longrightarrow>
    rs_provider_resource_id rs \<noteq> None \<Longrightarrow> same_identity rq rs \<Longrightarrow>
    rt_expected_version (rq_target rq) \<in> {None, rs_provider_resource_version rs} \<Longrightarrow> result_spec rq rs"

inductive_cases result_spec_elim: "result_spec rq rs"

lemma admit_result_iff:
  "admit_result (Exact rq) (Exact rs) = Inr () \<longleftrightarrow> result_bound rq rs \<and> result_spec rq rs"
proof -
  have "admit_result (Exact rq) (Exact rs) = Inr () \<longleftrightarrow> result_spec rq rs" if "result_bound rq rs"
    using that
    by (cases "rq_operation rq"; cases "rs_outcome rs"; cases "rs_cleanup rs")
      (auto simp: admit_result_def result_bound_def result_spec.simps same_identity_def
        no_read_back_def)
  then show ?thesis using admit_result_bound by blast
qed

section \<open>Properties\<close>

text \<open>Property C6: the result checks, in the order the code makes them, accept exactly the results
  that are bound to the request and fit one of the seven kinds of the contract: an unsupported
  operation reports no provider effect, a failed mutation reports its clean-up, a completed
  deletion leaves no identity behind, a completed write and an observation read the same
  resource back, and an observation has the expected version.\<close>

theorem admit_result_refines_spec:
  "admit_result (Exact rq) (Exact rs) = Inr () \<longleftrightarrow> result_bound rq rs \<and> result_spec rq rs"
  by (rule admit_result_iff)

text \<open>An admitted result of an admitted request is about the resource, adapter,
  source revision and parameters the separately held authority names, for an operation that
  authority allows, and every operation but a creation names the provider's own identity.\<close>

theorem admission_bound_to_authority:
  assumes "admit_request (Exact rq) (Exact au) ops = Inr ()"
    and "admit_result (Exact rq) (Exact rs) = Inr ()"
  shows "rs_adapter_id rs = ea_adapter_id au \<and> rs_source_revision rs = ea_source_revision au \<and>
    rs_target rs = ea_target au \<and> rs_parameters_sha256 rs = ea_parameters_sha256 au \<and>
    rs_operation rs \<in> ea_operations au \<and>
    (rs_operation rs = Op_CREATE \<or> rt_provider_resource_id (rs_target rs) \<noteq> None)"
  using assms admit_result_bound [OF assms(2)]
  by (auto simp: admit_request_Inr_iff request_bound_def result_bound_def)

text \<open>Re-admission of a target through its own constructor, as the endpoint and
  enrollment modules do for instances of another module copy, accepts exactly the well-formed
  targets and returns them unchanged.\<close>

theorem readmit_target_roundtrip: "readmit_target t = Inr t' \<longleftrightarrow> wf_resource_target t \<and> t' = t"
  by (rule readmit_target_iff)

section \<open>Witnesses\<close>

definition sample_digest :: string where "sample_digest = replicate 64 CHR ''a''"
definition sample_sha1 :: string where "sample_sha1 = replicate 40 CHR ''b''"

definition sample_target :: resource_target where
  "sample_target = \<lparr>rt_provider = ''prov'', rt_scope = ''eu'', rt_requested_key = ''fw'',
     rt_provider_resource_id = Some ''id-1'', rt_expected_version = Some ''v1''\<rparr>"

definition sample_authority :: execution_authority where
  "sample_authority = \<lparr>ea_authorization_id = ''auth'', ea_adapter_id = ''adp'',
     ea_source_revision = sample_sha1, ea_target = sample_target,
     ea_operations = {Op_INSPECT, Op_REBUILD}, ea_parameters_sha256 = sample_digest,
     ea_credential_mechanism = ''oidc''\<rparr>"

definition sample_request :: "operation \<Rightarrow> capability_request" where
  "sample_request op = \<lparr>rq_request_id = ''r1'', rq_adapter_id = ''adp'',
     rq_source_revision = sample_sha1, rq_operation = op, rq_target = sample_target,
     rq_parameters_sha256 = sample_digest\<rparr>"

definition sample_result :: "operation \<Rightarrow> outcome \<Rightarrow> capability_result" where
  "sample_result op out = \<lparr>rs_request_id = ''r1'', rs_adapter_id = ''adp'',
     rs_source_revision = sample_sha1, rs_operation = op, rs_target = sample_target,
     rs_parameters_sha256 = sample_digest, rs_outcome = out, rs_cleanup = Cl_NOT_APPLICABLE,
     rs_provider_resource_id = Some ''id-1'', rs_provider_resource_version = Some ''v1'',
     rs_provider_image_id = None, rs_diagnostic_code = None\<rparr>"

lemmas sample_defs = sample_target_def sample_authority_def sample_request_def sample_result_def

theorem admission_bound_to_authority_witness:
  "rs_target (sample_result Op_INSPECT Out_OBSERVED) = ea_target sample_authority"
proof -
  have "admit_request (Exact (sample_request Op_INSPECT)) (Exact sample_authority)
      (FrozenSet (Exact ` {Op_INSPECT})) = Inr ()"
    by (simp add: res_simps sample_defs request_bound_def)
  moreover have "admit_result (Exact (sample_request Op_INSPECT))
      (Exact (sample_result Op_INSPECT Out_OBSERVED)) = Inr ()"
    by (simp add: admit_result_def sample_defs)
  ultimately show ?thesis using admission_bound_to_authority by blast
qed

end
