(* ===== verification/Endpoint_Switch.thy ===== *)
theory Endpoint_Switch
  imports Capability
begin

text \<open>
  \<open>scripts/endpoint_switch.py\<close>: one admitted routing change against a provider, with
  read-only recovery. The three ports (observer, adapter, authority) are the code's
  \<open>Protocol\<close> classes: parameters of the model, as functions on an arbitrary world state, so
  that every effect of a call is visible to the next one. Each port may raise or answer with
  an object of the wrong class.
\<close>

section \<open>Types\<close>

datatype intent = SWITCH | PRE_WRITE_REVERSAL

datatype mutation = Mut_APPLIED | Mut_REJECTED | Mut_UNKNOWN

datatype switch_outcome =
  Sw_APPLIED | Sw_ALREADY_SATISFIED | Sw_REJECTED | Sw_UNCERTAIN | Sw_RECOVERY_REQUIRED

definition CONTRACT_VERSION :: int where "CONTRACT_VERSION = 1"

definition endpoint_identity :: "pyval \<Rightarrow> unit res" where
  "endpoint_identity v = cap_identity ''endpoint identity'' v"

record endpoint =
  ep_deployment_id :: string
  ep_resource :: resource_target

definition new_endpoint :: "pyval \<Rightarrow> resource_target obj \<Rightarrow> endpoint res" where
  "new_endpoint deployment_id resource =
     seq_res (endpoint_identity deployment_id) (
     bind_res
       (case resource of
          Alien \<Rightarrow> Inl (ContractError ''endpoint-resource-format'')
        | Exact t \<Rightarrow> catch_res (readmit_target t)
            (\<lambda>e. case e of ContractError _ \<Rightarrow> Inl (ContractError ''endpoint-resource-format'')
                 | _ \<Rightarrow> Inl e))
       (\<lambda>t. if rt_provider_resource_id t = None \<or> rt_expected_version t \<noteq> None
            then Inl (ContractError ''endpoint-requires-exact-resource-and-observed-generation'')
            else Inr \<lparr>ep_deployment_id = str_of deployment_id, ep_resource = t\<rparr>))"

record routing_state =
  rs_endpoint :: endpoint
  rs_generation :: string
  rs_routing_target :: string
  rs_exposure_sha256 :: string
  rs_operation_id :: "string option"

definition new_routing_state ::
  "endpoint obj \<Rightarrow> pyval \<Rightarrow> pyval \<Rightarrow> pyval \<Rightarrow> pyval \<Rightarrow> routing_state res" where
  "new_routing_state ep generation target exposure_sha256 operation_id =
     (case ep of
        Alien \<Rightarrow> Inl (ContractError ''endpoint-scope-required'')
      | Exact e \<Rightarrow>
          seq_res (endpoint_identity generation) (
          seq_res (endpoint_identity target) (
          if \<not> matches_str SHA256 exposure_sha256
          then Inl (ContractError ''endpoint-exposure-binding-required'')
          else seq_res (unless_none endpoint_identity operation_id) (
            Inr \<lparr>rs_endpoint = e, rs_generation = str_of generation,
                 rs_routing_target = str_of target, rs_exposure_sha256 = str_of exposure_sha256,
                 rs_operation_id = opt_str_of operation_id\<rparr>))))"

record switch_plan =
  sp_version :: int
  sp_operation_id :: string
  sp_before :: routing_state
  sp_target :: string
  sp_intent :: intent

definition new_switch_plan ::
  "pyval \<Rightarrow> pyval \<Rightarrow> routing_state obj \<Rightarrow> pyval \<Rightarrow> intent obj \<Rightarrow> switch_plan res" where
  "new_switch_plan version operation_id before target intent =
     (if version \<noteq> PInt CONTRACT_VERSION
      then Inl (ContractError ''unsupported-endpoint-contract'')
      else (case (before, intent) of
          (Exact b, Exact i) \<Rightarrow>
            seq_res (endpoint_identity operation_id) (
            seq_res (endpoint_identity target) (
            if str_of target = rs_routing_target b
            then Inl (ContractError ''endpoint-candidate-already-current'')
            else Inr \<lparr>sp_version = CONTRACT_VERSION, sp_operation_id = str_of operation_id,
                      sp_before = b, sp_target = str_of target, sp_intent = i\<rparr>))
        | _ \<Rightarrow> Inl (ContractError ''endpoint-plan-required'')))"

record switch_result =
  sr_outcome :: switch_outcome
  sr_diagnostic :: string
  sr_observed :: "routing_state option"

definition outcome_only :: "switch_outcome \<Rightarrow> string \<Rightarrow> switch_result" where
  "outcome_only out d = \<lparr>sr_outcome = out, sr_diagnostic = d, sr_observed = None\<rparr>"

definition outcome_seen :: "switch_outcome \<Rightarrow> string \<Rightarrow> routing_state \<Rightarrow> switch_result" where
  "outcome_seen out d st = \<lparr>sr_outcome = out, sr_diagnostic = d, sr_observed = Some st\<rparr>"

section \<open>The ports\<close>

datatype 'a answer = Raised | Answer "'a obj"

record 'w ports =
  p_observe :: "endpoint \<Rightarrow> 'w \<Rightarrow> routing_state answer \<times> 'w"
  p_validate :: "switch_plan \<Rightarrow> 'w \<Rightarrow> bool \<times> 'w"
  p_compare_and_switch :: "switch_plan \<Rightarrow> 'w \<Rightarrow> mutation answer \<times> 'w"
  p_authorize :: "switch_plan \<Rightarrow> 'w \<Rightarrow> bool \<times> 'w"
  p_claim_dispatch :: "switch_plan \<Rightarrow> 'w \<Rightarrow> bool answer \<times> 'w"

section \<open>Operations\<close>

definition plan :: "pyval \<Rightarrow> routing_state obj \<Rightarrow> pyval \<Rightarrow> intent obj \<Rightarrow> switch_plan res" where
  "plan operation_id current target intent =
     new_switch_plan (PInt CONTRACT_VERSION) operation_id current target intent"

definition inspect ::
  "'w ports \<Rightarrow> endpoint obj \<Rightarrow> 'w \<Rightarrow> routing_state res \<times> 'w" where
  "inspect P ep w =
     (case ep of
        Alien \<Rightarrow> (Inl (ContractError ''endpoint-scope-required''), w)
      | Exact e \<Rightarrow>
          (case p_observe P e w of
             (Raised, w') \<Rightarrow> (Inl (ObservationUnavailable ''observe-endpoint-unavailable''), w')
           | (Answer Alien, w') \<Rightarrow> (Inl (ContractError ''observe-endpoint-scope-mismatch''), w')
           | (Answer (Exact st), w') \<Rightarrow>
               (if rs_endpoint st \<noteq> e
                then (Inl (ContractError ''observe-endpoint-scope-mismatch''), w')
                else (Inr st, w'))))"

definition committed :: "switch_plan \<Rightarrow> routing_state \<Rightarrow> bool" where
  "committed rq st \<longleftrightarrow> rs_endpoint st = rs_endpoint (sp_before rq) \<and>
     rs_routing_target st = sp_target rq \<and>
     rs_exposure_sha256 st = rs_exposure_sha256 (sp_before rq) \<and>
     rs_generation st \<noteq> rs_generation (sp_before rq) \<and>
     rs_operation_id st = Some (sp_operation_id rq)"

definition assess ::
  "switch_plan obj \<Rightarrow> mutation obj \<Rightarrow> routing_state obj \<Rightarrow> switch_result" where
  "assess request mut observed =
     (case request of
        Alien \<Rightarrow> outcome_only Sw_REJECTED ''endpoint-plan-required''
      | Exact rq \<Rightarrow>
          (case observed of
             Alien \<Rightarrow> outcome_only Sw_RECOVERY_REQUIRED ''endpoint-readback-boundary''
           | Exact st \<Rightarrow>
               if rs_endpoint st \<noteq> rs_endpoint (sp_before rq)
                 \<or> rs_exposure_sha256 st \<noteq> rs_exposure_sha256 (sp_before rq)
               then outcome_only Sw_RECOVERY_REQUIRED ''endpoint-readback-boundary''
               else let m = (case mut of Exact m \<Rightarrow> m | Alien \<Rightarrow> Mut_UNKNOWN) in
                 if m = Mut_REJECTED \<and> rs_operation_id st = Some (sp_operation_id rq)
                 then outcome_seen Sw_RECOVERY_REQUIRED ''endpoint-contradictory-rejection'' st
                 else if committed rq st
                 then outcome_seen Sw_APPLIED ''endpoint-switch-verified'' st
                 else if st = sp_before rq \<and> m = Mut_REJECTED
                 then outcome_seen Sw_REJECTED ''endpoint-provider-precondition'' st
                 else if st = sp_before rq \<and> m = Mut_UNKNOWN
                 then outcome_seen Sw_UNCERTAIN ''endpoint-provider-outcome-unknown'' st
                 else if st \<noteq> sp_before rq \<and> m = Mut_REJECTED
                 then outcome_seen Sw_REJECTED ''endpoint-provider-precondition'' st
                 else outcome_seen Sw_RECOVERY_REQUIRED ''endpoint-readback-mismatch'' st))"

definition reconcile :: "'w ports \<Rightarrow> switch_plan obj \<Rightarrow> 'w \<Rightarrow> switch_result \<times> 'w" where
  "reconcile P request w =
     (case request of
        Alien \<Rightarrow> (outcome_only Sw_REJECTED ''endpoint-plan-required'', w)
      | Exact rq \<Rightarrow>
          (case p_authorize P rq w of
             (False, w1) \<Rightarrow> (outcome_only Sw_REJECTED ''endpoint-cutover-admission'', w1)
           | (True, w1) \<Rightarrow>
               (case inspect P (Exact (rs_endpoint (sp_before rq))) w1 of
                  (Inl (ObservationUnavailable _), w2) \<Rightarrow>
                    (outcome_only Sw_UNCERTAIN ''endpoint-reconcile-unavailable'', w2)
                | (Inl _, w2) \<Rightarrow>
                    (outcome_only Sw_RECOVERY_REQUIRED ''endpoint-reconcile-scope'', w2)
                | (Inr st, w2) \<Rightarrow>
                    (let r = assess request (Exact Mut_UNKNOWN) (Exact st) in
                     if sr_outcome r = Sw_APPLIED
                     then (outcome_seen Sw_ALREADY_SATISFIED ''endpoint-existing-switch-verified'' st, w2)
                     else (r, w2)))))"

definition execute :: "'w ports \<Rightarrow> switch_plan obj \<Rightarrow> 'w \<Rightarrow> switch_result \<times> 'w" where
  "execute P request w =
     (case request of
        Alien \<Rightarrow> (outcome_only Sw_REJECTED ''endpoint-plan-required'', w)
      | Exact rq \<Rightarrow>
          (case p_authorize P rq w of
             (False, w1) \<Rightarrow> (outcome_only Sw_REJECTED ''endpoint-cutover-admission'', w1)
           | (True, w1) \<Rightarrow>
         (case p_validate P rq w1 of
             (False, w2) \<Rightarrow> (outcome_only Sw_REJECTED ''endpoint-candidate-admission'', w2)
           | (True, w2) \<Rightarrow>
         (case inspect P (Exact (rs_endpoint (sp_before rq))) w2 of
             (Inl (ObservationUnavailable _), w3) \<Rightarrow>
               (outcome_only Sw_UNCERTAIN ''endpoint-inspect-unavailable'', w3)
           | (Inl _, w3) \<Rightarrow> (outcome_only Sw_REJECTED ''endpoint-inspect-scope'', w3)
           | (Inr current, w3) \<Rightarrow>
         if committed rq current
         then (outcome_seen Sw_ALREADY_SATISFIED ''endpoint-existing-switch-verified'' current, w3)
         else if current \<noteq> sp_before rq
         then (outcome_seen Sw_REJECTED ''endpoint-stale-precondition'' current, w3)
         else
         (case p_claim_dispatch P rq w3 of
             (Raised, w4) \<Rightarrow> (outcome_only Sw_UNCERTAIN ''endpoint-dispatch-claim-unknown'', w4)
           | (Answer Alien, w4) \<Rightarrow> (outcome_only Sw_UNCERTAIN ''endpoint-dispatch-claim-unknown'', w4)
           | (Answer (Exact False), w4) \<Rightarrow> reconcile P request w4
           | (Answer (Exact True), w4) \<Rightarrow>
         (case p_compare_and_switch P rq w4 of (ans, w5) \<Rightarrow>
         (let mut = (case ans of Raised \<Rightarrow> Exact Mut_UNKNOWN | Answer m \<Rightarrow> m) in
         (case inspect P (Exact (rs_endpoint (sp_before rq))) w5 of
             (Inl (ObservationUnavailable _), w6) \<Rightarrow>
               (outcome_only Sw_UNCERTAIN ''endpoint-verify-unavailable'', w6)
           | (Inl _, w6) \<Rightarrow> (outcome_only Sw_RECOVERY_REQUIRED ''endpoint-verify-scope'', w6)
           | (Inr st, w6) \<Rightarrow> (assess request mut (Exact st), w6)))))))))"

section \<open>Construction\<close>

definition wf_endpoint :: "endpoint \<Rightarrow> bool" where
  "wf_endpoint e \<longleftrightarrow> good_identity (ep_deployment_id e) \<and> wf_resource_target (ep_resource e) \<and>
     rt_provider_resource_id (ep_resource e) \<noteq> None \<and> rt_expected_version (ep_resource e) = None"

definition wf_routing_state :: "routing_state \<Rightarrow> bool" where
  "wf_routing_state s \<longleftrightarrow> good_identity (rs_generation s) \<and> good_identity (rs_routing_target s) \<and>
     is_sha256 (rs_exposure_sha256 s) \<and> good_opt (rs_operation_id s)"

definition wf_switch_plan :: "switch_plan \<Rightarrow> bool" where
  "wf_switch_plan p \<longleftrightarrow> sp_version p = CONTRACT_VERSION \<and> good_identity (sp_operation_id p) \<and>
     good_identity (sp_target p) \<and> sp_target p \<noteq> rs_routing_target (sp_before p)"

interpretation ep: identity_checker "\<lambda>l. endpoint_identity"
  by unfold_locales (auto simp: endpoint_identity_def cap.check_ok dest: cap.check_error)

lemma new_endpoint_wf: "new_endpoint d r = Inr e \<Longrightarrow> wf_endpoint e"
  by (cases r)
    (auto simp: new_endpoint_def wf_endpoint_def res_simps ep.check_ok catch_res_def readmit_target_iff
      split: sum.splits exc.splits)

lemma new_routing_state_wf: "new_routing_state e g t x i = Inr s \<Longrightarrow> wf_routing_state s"
  by (cases e) (auto simp: new_routing_state_def wf_routing_state_def res_simps ep.check_ok ep.optional)

lemma new_switch_plan_wf: "new_switch_plan v i b t n = Inr p \<Longrightarrow> wf_switch_plan p"
  by (cases b; cases n)
    (auto simp: new_switch_plan_def wf_switch_plan_def res_simps ep.check_ok)

section \<open>Traces of port calls\<close>

datatype port_event = Authorize | Validate | Observe | Claim | Switch switch_plan

text \<open>The same ports, recording every call.\<close>

definition traced :: "'w ports \<Rightarrow> ('w \<times> port_event list) ports" where
  "traced P = \<lparr>
     p_observe = (\<lambda>e (w, tr). case p_observe P e w of (a, w') \<Rightarrow> (a, w', tr @ [Observe])),
     p_validate = (\<lambda>rq (w, tr). case p_validate P rq w of (a, w') \<Rightarrow> (a, w', tr @ [Validate])),
     p_compare_and_switch =
       (\<lambda>rq (w, tr). case p_compare_and_switch P rq w of (a, w') \<Rightarrow> (a, w', tr @ [Switch rq])),
     p_authorize = (\<lambda>rq (w, tr). case p_authorize P rq w of (a, w') \<Rightarrow> (a, w', tr @ [Authorize])),
     p_claim_dispatch =
       (\<lambda>rq (w, tr). case p_claim_dispatch P rq w of (a, w') \<Rightarrow> (a, w', tr @ [Claim]))\<rparr>"

lemma traced_simps [simp]:
  "p_observe (traced P) e (w, tr) = (fst (p_observe P e w), snd (p_observe P e w), tr @ [Observe])"
  "p_validate (traced P) rq (w, tr) = (fst (p_validate P rq w), snd (p_validate P rq w), tr @ [Validate])"
  "p_compare_and_switch (traced P) rq (w, tr) =
     (fst (p_compare_and_switch P rq w), snd (p_compare_and_switch P rq w), tr @ [Switch rq])"
  "p_authorize (traced P) rq (w, tr) = (fst (p_authorize P rq w), snd (p_authorize P rq w), tr @ [Authorize])"
  "p_claim_dispatch (traced P) rq (w, tr) =
     (fst (p_claim_dispatch P rq w), snd (p_claim_dispatch P rq w), tr @ [Claim])"
  by (simp_all add: traced_def split: prod.splits)

text \<open>One observation: one call, and the state is kept only if it has the endpoint asked for.\<close>

lemma inspect_traced:
  "inspect (traced P) (Exact e) (w, tr) =
     (fst (inspect P (Exact e) w), snd (inspect P (Exact e) w), tr @ [Observe])"
  by (auto simp: inspect_def split: prod.splits answer.splits obj.splits)

lemma inspect_endpoint:
  "inspect P (Exact e) w = (Inr st, w') \<Longrightarrow> rs_endpoint st = e"
  by (auto simp: inspect_def split: prod.splits answer.splits obj.splits if_splits)

lemma reconcile_trace:
  "reconcile (traced P) (Exact rq) (w, tr) = (r, w', tr') \<Longrightarrow>
     tr' \<in> {tr @ [Authorize], tr @ [Authorize, Observe]}"
  by (auto simp: reconcile_def inspect_traced Let_def
      split: prod.splits bool.splits sum.splits exc.splits if_splits)

lemma reconcile_outcome:
  "reconcile P (Exact rq) w = (r, w') \<Longrightarrow> sr_outcome r \<noteq> Sw_APPLIED"
  by (auto simp: reconcile_def Let_def outcome_only_def outcome_seen_def
      split: prod.splits bool.splits sum.splits exc.splits if_splits)

lemma assess_applied:
  "sr_outcome (assess (Exact rq) m (Exact st)) = Sw_APPLIED \<Longrightarrow>
     committed rq st \<and> sr_observed (assess (Exact rq) m (Exact st)) = Some st"
  by (auto simp: assess_def Let_def outcome_only_def outcome_seen_def split: if_splits obj.splits)

lemma assess_not_satisfied: "sr_outcome (assess (Exact rq) m ob) \<noteq> Sw_ALREADY_SATISFIED"
  by (auto simp: assess_def Let_def outcome_only_def outcome_seen_def split: obj.splits)

text \<open>The simulation: tracing does not change what a call answers or does to the world.\<close>

lemma reconcile_traced:
  "fst (reconcile (traced P) request (w, tr)) = fst (reconcile P request w)"
  "fst (snd (reconcile (traced P) request (w, tr))) = snd (reconcile P request w)"
  by (cases request; auto simp: reconcile_def inspect_traced Let_def
      split: prod.splits bool.splits sum.splits exc.splits)+

section \<open>Protocol of one dispatch\<close>

lemmas dispatch_splits = prod.splits bool.splits sum.splits exc.splits answer.splits obj.splits if_splits

lemma execute_trace_shape:
  assumes "execute (traced P) (Exact rq) (w, tr) = (r, w', tr')"
  shows "tr' \<in> (\<lambda>t. tr @ t) ` {[Authorize], [Authorize, Validate], [Authorize, Validate, Observe],
      [Authorize, Validate, Observe, Claim], [Authorize, Validate, Observe, Claim, Authorize],
      [Authorize, Validate, Observe, Claim, Authorize, Observe],
      [Authorize, Validate, Observe, Claim, Switch rq, Observe]}"
  using assms
  by (auto simp: execute_def inspect_traced Let_def split: dispatch_splits dest!: reconcile_trace)

text \<open>One call of \<open>execute\<close> reaches the ports in a fixed order
  (authorize, validate, observe, claim), dispatches the requested plan at most once, and only
  after all four; after a dispatch it observes exactly once more; when the claim says the plan
  was already dispatched it only reauthorizes and observes, never dispatches.\<close>

theorem execute_protocol:
  "snd (snd (execute (traced P) (Exact rq) (w, []))) \<in>
     {[Authorize], [Authorize, Validate], [Authorize, Validate, Observe],
      [Authorize, Validate, Observe, Claim], [Authorize, Validate, Observe, Claim, Authorize],
      [Authorize, Validate, Observe, Claim, Authorize, Observe],
      [Authorize, Validate, Observe, Claim, Switch rq, Observe]}"
  using execute_trace_shape [of P rq w "[]"]
  by (cases "execute (traced P) (Exact rq) (w, [])") simp

section \<open>A provider\<close>

text \<open>
  What the code relies on in the ports, as named laws over the provider's state. \<open>route\<close> reads
  the route the provider really has in a world, \<open>claimed\<close> the operations whose dispatch intent
  the authority has recorded.
\<close>

definition truthful :: "'w ports \<Rightarrow> ('w \<Rightarrow> routing_state) \<Rightarrow> bool" where
  "truthful P route \<longleftrightarrow>
     (\<forall>e w st w'. p_observe P e w = (Answer (Exact st), w') \<longrightarrow> st = route w')"

definition routes_only_by_cas :: "'w ports \<Rightarrow> ('w \<Rightarrow> routing_state) \<Rightarrow> bool" where
  "routes_only_by_cas P route \<longleftrightarrow>
     (\<forall>e w. route (snd (p_observe P e w)) = route w) \<and>
     (\<forall>rq w. route (snd (p_authorize P rq w)) = route w) \<and>
     (\<forall>rq w. route (snd (p_validate P rq w)) = route w) \<and>
     (\<forall>rq w. route (snd (p_claim_dispatch P rq w)) = route w) \<and>
     (\<forall>rq w a w'. p_compare_and_switch P rq w = (a, w') \<longrightarrow>
        route w' = route w \<or>
        (route w = sp_before rq \<and> committed rq (route w') \<and> a \<noteq> Answer (Exact Mut_REJECTED)))"

definition claims_once :: "'w ports \<Rightarrow> ('w \<Rightarrow> string set) \<Rightarrow> bool" where
  "claims_once P claimed \<longleftrightarrow>
     (\<forall>e w. claimed (snd (p_observe P e w)) = claimed w) \<and>
     (\<forall>rq w. claimed (snd (p_authorize P rq w)) = claimed w) \<and>
     (\<forall>rq w. claimed (snd (p_validate P rq w)) = claimed w) \<and>
     (\<forall>rq w. claimed (snd (p_compare_and_switch P rq w)) = claimed w) \<and>
     (\<forall>rq w. claimed w \<subseteq> claimed (snd (p_claim_dispatch P rq w))) \<and>
     (\<forall>rq w w'. p_claim_dispatch P rq w = (Answer (Exact True), w') \<longrightarrow>
        sp_operation_id rq \<notin> claimed w \<and> sp_operation_id rq \<in> claimed w')"

text \<open>An in-memory provider that satisfies all three, for concrete runs.\<close>

type_synonym sim = "routing_state \<times> string list"

definition sim_switch :: "switch_plan \<Rightarrow> sim \<Rightarrow> mutation answer \<times> sim" where
  "sim_switch rq = (\<lambda>(st, claims).
     if st \<noteq> sp_before rq \<or> sp_target rq = rs_routing_target st
     then (Answer (Exact Mut_REJECTED), st, claims)
     else (Answer (Exact Mut_APPLIED),
       st\<lparr>rs_generation := rs_generation st @ ''x'', rs_routing_target := sp_target rq,
          rs_operation_id := Some (sp_operation_id rq)\<rparr>, claims))"

definition sim_ports :: "sim ports" where
  "sim_ports = \<lparr>
     p_observe = (\<lambda>e (st, claims). (Answer (Exact st), st, claims)),
     p_validate = (\<lambda>rq w. (True, w)),
     p_compare_and_switch = sim_switch,
     p_authorize = (\<lambda>rq w. (True, w)),
     p_claim_dispatch = (\<lambda>rq (st, claims).
       if sp_operation_id rq \<in> set claims then (Answer (Exact False), st, claims)
       else (Answer (Exact True), st, sp_operation_id rq # claims))\<rparr>"

lemma sim_truthful: "truthful sim_ports fst"
  by (auto simp: truthful_def sim_ports_def)

lemma sim_routes_only_by_cas: "routes_only_by_cas sim_ports fst"
  by (auto simp: routes_only_by_cas_def sim_ports_def sim_switch_def committed_def split: if_splits)

lemma sim_claims_once: "claims_once sim_ports (\<lambda>w. set (snd w))"
  by (auto simp: claims_once_def sim_ports_def sim_switch_def split: if_splits)

definition sample_endpoint :: endpoint where
  "sample_endpoint = \<lparr>ep_deployment_id = ''d1'',
     ep_resource = sample_target\<lparr>rt_provider_resource_id := Some ''r1'', rt_expected_version := None\<rparr>\<rparr>"

definition sample_route :: routing_state where
  "sample_route = \<lparr>rs_endpoint = sample_endpoint, rs_generation = ''g1'', rs_routing_target = ''blue'',
     rs_exposure_sha256 = sample_digest, rs_operation_id = None\<rparr>"

definition sample_plan :: switch_plan where
  "sample_plan = \<lparr>sp_version = 1, sp_operation_id = ''op-1'', sp_before = sample_route,
     sp_target = ''green'', sp_intent = SWITCH\<rparr>"

section \<open>What an outcome says about the provider\<close>

lemma assess_seen:
  assumes "assess (Exact rq) m (Exact st) = r"
  shows "sr_outcome r = Sw_APPLIED \<Longrightarrow> committed rq st \<and> sr_observed r = Some st"
    and "sr_outcome r = Sw_REJECTED \<Longrightarrow> m = Exact Mut_REJECTED"
    and "sr_outcome r = Sw_ALREADY_SATISFIED \<Longrightarrow> False"
  using assms
  by (auto simp: assess_def Let_def outcome_only_def outcome_seen_def split: if_splits obj.splits)

lemma inspect_truth:
  "truthful P route \<Longrightarrow> inspect P e w = (Inr st, w') \<Longrightarrow> route w' = st"
  by (auto simp: inspect_def truthful_def split: dispatch_splits)

lemma inspect_route:
  "routes_only_by_cas P route \<Longrightarrow> inspect P e w = (x, w') \<Longrightarrow> route w' = route w"
  by (auto simp: inspect_def routes_only_by_cas_def split: dispatch_splits) (metis snd_conv)+

lemma port_route:
  assumes "routes_only_by_cas P route"
  shows "p_authorize P rq w = (b, w') \<Longrightarrow> route w' = route w"
    and "p_validate P rq w = (b, w') \<Longrightarrow> route w' = route w"
    and "p_claim_dispatch P rq w = (c, w') \<Longrightarrow> route w' = route w"
    and "p_compare_and_switch P rq w = (a, w') \<Longrightarrow> route w' = route w \<or>
        (route w = sp_before rq \<and> committed rq (route w') \<and> a \<noteq> Answer (Exact Mut_REJECTED))"
  using assms unfolding routes_only_by_cas_def by (metis snd_conv)+

lemma reconcile_seen:
  assumes "reconcile P (Exact rq) w = (r, w')"
  shows "sr_outcome r = Sw_ALREADY_SATISFIED \<Longrightarrow>
           \<exists>st w1. inspect P (Exact (rs_endpoint (sp_before rq))) w1 = (Inr st, w') \<and> committed rq st
             \<and> sr_observed r = Some st"
    and "sr_outcome r \<noteq> Sw_APPLIED"
  using assms
  by (auto simp: reconcile_def Let_def outcome_only_def outcome_seen_def assess_def
      split: dispatch_splits)

lemma execute_seen:
  assumes "execute P (Exact rq) w = (r, w')"
    and "sr_outcome r \<in> {Sw_APPLIED, Sw_ALREADY_SATISFIED}"
  shows "\<exists>st w1. inspect P (Exact (rs_endpoint (sp_before rq))) w1 = (Inr st, w') \<and> committed rq st
           \<and> sr_observed r = Some st"
  using assms
  apply (auto simp: execute_def Let_def outcome_only_def outcome_seen_def
      split: dispatch_splits dest: assess_seen [OF refl])
  apply (drule reconcile_seen; blast)+
  done

text \<open>Property C4: whoever else changes the route, and whatever the adapter acknowledges,
  with an observer that reports the real route a dispatch reported as applied, or as already
  satisfied, leaves the provider on the requested target, at a generation other than the
  planned one, with the planned exposure and tagged with this operation; and the result carries
  that very state.\<close>

theorem execute_success_is_committed:
  assumes "truthful P route"
    and "execute P (Exact rq) w = (r, w')"
    and "sr_outcome r \<in> {Sw_APPLIED, Sw_ALREADY_SATISFIED}"
  shows "committed rq (route w') \<and> sr_observed r = Some (route w')"
  using execute_seen [OF assms(2,3)] inspect_truth [OF assms(1)] by blast

theorem execute_success_is_committed_witness:
  "committed sample_plan (fst (snd (execute sim_ports (Exact sample_plan) (sample_route, []))))"
proof -
  obtain r w' where e: "execute sim_ports (Exact sample_plan) (sample_route, []) = (r, w')"
    by (cases "execute sim_ports (Exact sample_plan) (sample_route, [])") blast
  moreover have "sr_outcome r = Sw_APPLIED"
    using e by (auto simp: execute_def sim_ports_def sim_switch_def inspect_def assess_def committed_def
        sample_plan_def sample_route_def outcome_seen_def Let_def)
  ultimately show ?thesis
    using execute_success_is_committed [OF sim_truthful e] by simp
qed


text \<open>With a truthful observer and a provider whose route changes only by its
  compare-and-switch (which switches only from the planned state and never after a rejection),
  \<open>execute\<close> leaves the route as it was or at the committed state of this plan, nothing else;
  and when it answers \<open>REJECTED\<close> the route is exactly what it was before the call.\<close>

theorem execute_changes_route_only_to_plan:
  assumes "routes_only_by_cas P route"
    and "execute P (Exact rq) w = (r, w')"
  shows "(route w' = route w \<or> route w = sp_before rq \<and> committed rq (route w')) \<and>
    (sr_outcome r = Sw_REJECTED \<longrightarrow> route w' = route w)"
proof -
  note laws = inspect_route [OF assms(1)] port_route [OF assms(1)]
  have rec: "route w2 = route w1" if "reconcile P (Exact rq) w1 = (r1, w2)" for w1 r1 w2
    using that by (auto simp: reconcile_def Let_def split: dispatch_splits dest!: laws)
  show ?thesis
    using assms(2)
    by (auto simp: execute_def Let_def outcome_only_def outcome_seen_def
        split: dispatch_splits dest!: laws rec dest: assess_seen [OF refl])
qed

theorem execute_changes_route_only_to_plan_witness:
  "fst (snd (execute sim_ports (Exact (sample_plan\<lparr>sp_before := sample_route\<lparr>rs_generation := ''g0''\<rparr>\<rparr>))
      (sample_route, []))) = sample_route"
proof -
  let ?rq = "sample_plan\<lparr>sp_before := sample_route\<lparr>rs_generation := ''g0''\<rparr>\<rparr>"
  obtain r w' where e: "execute sim_ports (Exact ?rq) (sample_route, []) = (r, w')"
    by (cases "execute sim_ports (Exact ?rq) (sample_route, [])") blast
  moreover have "sr_outcome r = Sw_REJECTED"
    using e by (auto simp: execute_def sim_ports_def inspect_def committed_def
        sample_plan_def sample_route_def outcome_seen_def Let_def)
  ultimately show ?thesis
    using execute_changes_route_only_to_plan [OF sim_routes_only_by_cas e] by simp
qed

end
