(* ===== verification/Endpoint_Runs.thy ===== *)
theory Endpoint_Runs
  imports Endpoint_Switch
begin

text \<open>
  Sequences of calls of \<open>scripts/endpoint_switch.py\<close> against one authority: retries and
  reconciliations, in any order, never dispatch an operation twice.
\<close>

section \<open>Sequences of calls\<close>

datatype endpoint_call = Execute switch_plan | Reconcile switch_plan

fun run_calls :: "'w ports \<Rightarrow> endpoint_call list \<Rightarrow> 'w \<Rightarrow> 'w" where
  "run_calls P [] w = w"
| "run_calls P (Execute rq # cs) w = run_calls P cs (snd (execute P (Exact rq) w))"
| "run_calls P (Reconcile rq # cs) w = run_calls P cs (snd (reconcile P (Exact rq) w))"

text \<open>The dispatched operations of a trace, in order.\<close>

fun dispatched :: "port_event list \<Rightarrow> string list" where
  "dispatched [] = []"
| "dispatched (Switch rq # tr) = sp_operation_id rq # dispatched tr"
| "dispatched (_ # tr) = dispatched tr"

lemma dispatched_append [simp]: "dispatched (xs @ ys) = dispatched xs @ dispatched ys"
  by (induction xs rule: dispatched.induct) simp_all

text \<open>What every call keeps: dispatched operations are distinct and recorded as claimed.\<close>

definition once :: "('w \<Rightarrow> string set) \<Rightarrow> 'w \<times> port_event list \<Rightarrow> bool" where
  "once claimed s \<longleftrightarrow> distinct (dispatched (snd s)) \<and> set (dispatched (snd s)) \<subseteq> claimed (fst s)"

lemma claims_onceD:
  assumes "claims_once P claimed"
  shows "claimed (snd (p_observe P e w)) = claimed w"
    and "claimed (snd (p_authorize P rq w)) = claimed w"
    and "claimed (snd (p_validate P rq w)) = claimed w"
    and "claimed (snd (p_compare_and_switch P rq w)) = claimed w"
    and "claimed w \<subseteq> claimed (snd (p_claim_dispatch P rq w))"
    and "fst (p_claim_dispatch P rq w) = Answer (Exact True) \<Longrightarrow>
        sp_operation_id rq \<notin> claimed w \<and> sp_operation_id rq \<in> claimed (snd (p_claim_dispatch P rq w))"
  using assms unfolding claims_once_def by (metis prod.collapse)+

lemma once_ports:
  assumes "claims_once P claimed" and "once claimed s"
  shows "once claimed (snd (p_observe (traced P) e s))"
    and "once claimed (snd (p_authorize (traced P) rq s))"
    and "once claimed (snd (p_validate (traced P) rq s))"
    and "once claimed (snd (p_claim_dispatch (traced P) rq s))"
    and "fst (p_claim_dispatch (traced P) rq s) = Answer (Exact True) \<Longrightarrow>
        once claimed (snd (p_compare_and_switch (traced P) rq (snd (p_claim_dispatch (traced P) rq s))))"
proof -
  obtain w tr where s: "s = (w, tr)" by (cases s)
  note laws = claims_onceD [OF assms(1)]
  have o: "distinct (dispatched tr)" "set (dispatched tr) \<subseteq> claimed w"
    using assms(2) by (simp_all add: once_def s)
  show "once claimed (snd (p_observe (traced P) e s))"
    and "once claimed (snd (p_authorize (traced P) rq s))"
    and "once claimed (snd (p_validate (traced P) rq s))"
    using o by (simp_all add: once_def s laws)
  show "once claimed (snd (p_claim_dispatch (traced P) rq s))"
    using o(1) subset_trans [OF o(2) laws(5)] by (simp add: once_def s)
  show "once claimed (snd (p_compare_and_switch (traced P) rq (snd (p_claim_dispatch (traced P) rq s))))"
    if "fst (p_claim_dispatch (traced P) rq s) = Answer (Exact True)"
    using o laws(6) [of rq w] subset_trans [OF o(2) laws(5)] that by (auto simp: once_def s laws(4))
qed

lemma once_inspect:
  assumes "claims_once P claimed" and "once claimed s"
  shows "once claimed (snd (inspect (traced P) e s))"
  using once_ports(1) [OF assms] assms(2)
  by (auto simp: inspect_def split: dispatch_splits) (metis snd_conv)+

lemma once_eqs:
  assumes "claims_once P claimed" and "once claimed s"
  shows "p_authorize (traced P) rq s = (b, s') \<Longrightarrow> once claimed s'"
    and "p_validate (traced P) rq s = (b, s') \<Longrightarrow> once claimed s'"
    and "inspect (traced P) e s = (x, s') \<Longrightarrow> once claimed s'"
    and "p_claim_dispatch (traced P) rq s = (c, s') \<Longrightarrow> once claimed s'"
  using once_ports [OF assms] once_inspect [OF assms] by (metis snd_conv)+

lemma once_switch_eq:
  assumes "claims_once P claimed" and "once claimed s"
    and "p_claim_dispatch (traced P) rq s = (Answer (Exact True), s')"
    and "p_compare_and_switch (traced P) rq s' = (a, s'')"
  shows "once claimed s''"
  using once_ports(5) [OF assms(1,2), of rq] assms(3,4) by simp

lemma once_reconcile:
  assumes "claims_once P claimed" and "once claimed s"
    and "reconcile (traced P) (Exact rq) s = (r, s')"
  shows "once claimed s'"
  using assms(3)
  by (auto simp: reconcile_def Let_def split: prod.splits bool.splits sum.splits exc.splits if_splits
      dest!: once_eqs(1) [OF assms(1,2)] dest: once_eqs(3) [OF assms(1)])

lemma once_execute:
  assumes law: "claims_once P claimed" and "once claimed s"
    and run: "execute (traced P) (Exact rq) s = (r, s')"
  shows "once claimed s'"
proof -
  let ?e = "Exact (rs_endpoint (sp_before rq))"
  obtain b1 s1 where 1: "p_authorize (traced P) rq s = (b1, s1)" by (metis prod.collapse)
  obtain b2 s2 where 2: "p_validate (traced P) rq s1 = (b2, s2)" by (metis prod.collapse)
  obtain x3 s3 where 3: "inspect (traced P) ?e s2 = (x3, s3)" by (metis prod.collapse)
  obtain c4 s4 where 4: "p_claim_dispatch (traced P) rq s3 = (c4, s4)" by (metis prod.collapse)
  obtain a5 s5 where 5: "p_compare_and_switch (traced P) rq s4 = (a5, s5)" by (metis prod.collapse)
  obtain x6 s6 where 6: "inspect (traced P) ?e s5 = (x6, s6)" by (metis prod.collapse)
  have o1: "once claimed s1" using once_eqs(1) [OF law assms(2) 1] .
  have o2: "once claimed s2" using once_eqs(2) [OF law o1 2] .
  have o3: "once claimed s3" using once_eqs(3) [OF law o2 3] .
  have o4: "once claimed s4" using once_eqs(4) [OF law o3 4] .
  have o5: "once claimed s6" if "c4 = Answer (Exact True)"
    using once_eqs(3) [OF law once_switch_eq [OF law o3 4 [unfolded that] 5] 6] .
  show ?thesis
    using run o1 o2 o3 o4 o5 once_reconcile [OF law o4]
    by (auto simp: execute_def 1 2 3 4 5 6 Let_def split: bool.splits sum.splits exc.splits
        answer.splits obj.splits if_splits)
qed

lemma once_run_calls:
  assumes law: "claims_once P claimed" and "once claimed s"
  shows "once claimed (run_calls (traced P) cs s)"
  using assms(2)
proof (induction cs arbitrary: s)
  case Nil
  then show ?case by simp
next
  case (Cons c cs)
  show ?case
  proof (cases c)
    case (Execute rq)
    then show ?thesis
      using Cons once_execute [OF law Cons.prems] by (cases "execute (traced P) (Exact rq) s") simp
  next
    case (Reconcile rq)
    then show ?thesis
      using Cons once_reconcile [OF law Cons.prems] by (cases "reconcile (traced P) (Exact rq) s") simp
  qed
qed

text \<open>Property C5: when the cutover authority grants the first claim of an operation only and
  records it (across restarts: the record is part of the state), then whatever sequence of
  \<open>execute\<close> and \<open>reconcile\<close> calls is made - retries of the same plan, other plans with the same
  operation identifier, failing ports in between - no operation identifier is dispatched to the
  provider twice.\<close>

theorem dispatch_at_most_once:
  assumes "claims_once P claimed"
  shows "distinct (dispatched (snd (run_calls (traced P) cs (w, []))))"
  using once_run_calls [OF assms, of "(w, [])" cs] by (simp add: once_def)

theorem dispatch_at_most_once_witness:
  "distinct (dispatched (snd (run_calls (traced sim_ports)
      [Execute sample_plan, Execute sample_plan, Reconcile sample_plan] ((sample_route, []), []))))"
  using dispatch_at_most_once [OF sim_claims_once] .

end
