(* ===== verification/Json_Codec.thy ===== *)
theory Json_Codec
  imports Py_Value
begin

text \<open>
  Python's \<open>json\<close> module as the contracts use it: \<open>dumps(value, sort_keys=True,
  separators=(',', ':'))\<close> with \<open>ensure_ascii\<close>, and \<open>loads(text, object_pairs_hook=...,
  parse_constant=...)\<close>. The canonical text is the pre-image of every digest in the code.

  The main results: decoding the canonical text of a plain value gives the value back, with
  its dictionaries in key order (\<open>loads_dumps\<close>); hence canonical text identifies a plain
  value up to the order of dictionary keys (\<open>dumps_inj\<close>); and the decoder never runs out of
  the fuel it is given (\<open>json_loads_fuel\<close>).

  Not modelled: the interpreter's recursion limit and its limit on the digits of an integer
  literal. An escape of a code point above 255 is \<open>Unmodelled\<close>.
\<close>

section \<open>Decimal and hexadecimal digits\<close>

definition digit_of :: "nat \<Rightarrow> char" where
  "digit_of n = char_of (48 + n)"

definition digit_val :: "char \<Rightarrow> nat" where
  "digit_val c = of_char c - 48"

fun show_nat :: "nat \<Rightarrow> string" where
  "show_nat n = (if n < 10 then [digit_of n] else show_nat (n div 10) @ [digit_of (n mod 10)])"

declare show_nat.simps [simp del]

definition show_int :: "int \<Rightarrow> string" where
  "show_int i = (if i < 0 then CHR ''-'' # show_nat (nat (- i)) else show_nat (nat i))"

definition nat_of_digits :: "string \<Rightarrow> nat" where
  "nat_of_digits s = fold (\<lambda>c n. 10 * n + digit_val c) s 0"

definition hex_digit :: "nat \<Rightarrow> char" where
  "hex_digit n = (if n < 10 then char_of (48 + n) else char_of (87 + n))"

definition hex_val :: "char \<Rightarrow> nat option" where
  "hex_val c = (let n = of_char c :: nat in
     if 48 \<le> n \<and> n \<le> 57 then Some (n - 48)
     else if 97 \<le> n \<and> n \<le> 102 then Some (n - 87)
     else if 65 \<le> n \<and> n \<le> 70 then Some (n - 55) else None)"

lemma of_char_digit_of [simp]: "n < 10 \<Longrightarrow> (of_char (digit_of n) :: nat) = 48 + n"
  by (simp add: digit_of_def)

lemma digit_of_zero: "n < 10 \<Longrightarrow> digit_of n = CHR ''0'' \<longleftrightarrow> n = 0"
  using of_char_digit_of [of n] of_char_eq_iff [where 'a = nat, of "digit_of n" "CHR ''0''"]
  by auto

lemma digit_char_iff: "digit_char c \<longleftrightarrow> 48 \<le> (of_char c :: nat) \<and> (of_char c :: nat) \<le> 57"
  by (simp add: digit_char_def less_eq_char_def)

lemma digit_char_digit_of [simp]: "n < 10 \<Longrightarrow> digit_char (digit_of n)"
  by (simp add: digit_char_iff)

lemma digit_val_digit_of [simp]: "n < 10 \<Longrightarrow> digit_val (digit_of n) = n"
  by (simp add: digit_val_def)

lemma show_nat_digits: "list_all digit_char (show_nat n)"
proof (induction n rule: show_nat.induct)
  case (1 n)
  then show ?case by (subst show_nat.simps) auto
qed

lemma show_nat_nonempty [simp]: "show_nat n \<noteq> []"
  by (subst show_nat.simps) simp

lemma nat_of_digits_snoc [simp]: "nat_of_digits (s @ [c]) = 10 * nat_of_digits s + digit_val c"
  by (simp add: nat_of_digits_def)

lemma nat_of_digits_show_nat [simp]: "nat_of_digits (show_nat n) = n"
proof (induction n rule: show_nat.induct)
  case (1 n)
  show ?case
  proof (cases "n < 10")
    case True
    then show ?thesis by (subst show_nat.simps) (simp add: nat_of_digits_def)
  next
    case False
    with 1 show ?thesis by (subst show_nat.simps) simp
  qed
qed

lemma show_nat_inj: "show_nat m = show_nat n \<Longrightarrow> m = n"
  by (metis nat_of_digits_show_nat)

text \<open>No leading zero, except in zero itself.\<close>

lemma hd_show_nat: "0 < n \<Longrightarrow> hd (show_nat n) \<noteq> CHR ''0''"
proof (induction n rule: show_nat.induct)
  case (1 n)
  show ?case
  proof (cases "n < 10")
    case True
    then show ?thesis using 1 by (subst show_nat.simps) (simp add: digit_of_zero)
  next
    case False
    with 1 show ?thesis by (subst show_nat.simps) (simp add: hd_append)
  qed
qed

lemma show_nat_0 [simp]: "show_nat 0 = ''0''"
  by (subst show_nat.simps) (simp add: digit_of_zero)

lemma show_nat_leading:
  obtains c cs where "show_nat n = c # cs" "digit_char c" "list_all digit_char cs"
    "c = CHR ''0'' \<Longrightarrow> cs = []"
proof -
  obtain c cs where e: "show_nat n = c # cs" by (meson list.exhaust show_nat_nonempty)
  moreover have "cs = []" if "c = CHR ''0''"
    using that e hd_show_nat [of n] by (cases "n = 0") auto
  ultimately show thesis using show_nat_digits [of n] that by auto
qed

lemma hex_val_hex_digit [simp]: "n < 16 \<Longrightarrow> hex_val (hex_digit n) = Some n"
  by (simp add: hex_val_def hex_digit_def Let_def)

section \<open>Encoding\<close>

definition bslash :: char where "bslash = CHR 0x5C"
definition dquote :: char where "dquote = CHR 0x22"

definition escape_char :: "char \<Rightarrow> string" where
  "escape_char c =
     (if c = dquote then [bslash, dquote]
      else if c = bslash then [bslash, bslash]
      else let n = of_char c :: nat in
        if n = 10 then [bslash, CHR ''n'']
        else if n = 13 then [bslash, CHR ''r'']
        else if n = 9 then [bslash, CHR ''t'']
        else if n = 12 then [bslash, CHR ''f'']
        else if n = 8 then [bslash, CHR ''b'']
        else if 32 \<le> n \<and> n \<le> 126 then [c]
        else [bslash, CHR ''u'', CHR ''0'', CHR ''0'', hex_digit (n div 16), hex_digit (n mod 16)])"

definition quote_str :: "string \<Rightarrow> string" where
  "quote_str s = dquote # concat (map escape_char s) @ [dquote]"

fun commas :: "string list \<Rightarrow> string" where
  "commas [] = []"
| "commas [s] = s"
| "commas (s # t # ss) = s @ CHR '','' # commas (t # ss)"

text \<open>The order \<open>sort_keys=True\<close> writes a dictionary in, at every level.\<close>

fun canon :: "pyval \<Rightarrow> pyval" where
  "canon (PList xs) = PList (map canon xs)"
| "canon (PTuple xs) = PTuple (map canon xs)"
| "canon (PDict kvs) = PDict (sort_key fst (map (\<lambda>(k, v). (k, canon v)) kvs))"
| "canon v = v"

text \<open>Serialisation in the given key order. A tuple is written as an array.\<close>

fun ser :: "pyval \<Rightarrow> string res" where
  "ser PNone = Inr ''null''"
| "ser (PBool b) = Inr (if b then ''true'' else ''false'')"
| "ser (PInt i) = Inr (show_int i)"
| "ser (PStr s) = Inr (quote_str s)"
| "ser (PList xs) = bind_res (map_res ser xs) (\<lambda>ss. Inr (''['' @ commas ss @ '']''))"
| "ser (PTuple xs) = bind_res (map_res ser xs) (\<lambda>ss. Inr (''['' @ commas ss @ '']''))"
| "ser (PDict kvs) =
     bind_res (map_res (\<lambda>(k, v). bind_res (ser v) (\<lambda>s. Inr (quote_str k @ CHR '':'' # s))) kvs)
       (\<lambda>ss. Inr (''{'' @ commas ss @ ''}''))"
| "ser (PFloat f) = Inl (Unmodelled ''float repr'')"
| "ser (PBytes s) = Inl TypeError"
| "ser (POther i) = Inl TypeError"

definition dumps :: "pyval \<Rightarrow> string res" where
  "dumps v = ser (canon v)"

section \<open>Decoding\<close>

text \<open>
  The two hooks of \<open>json.loads\<close>: what to do with the pairs of an object, and whether
  \<open>NaN\<close>, \<open>Infinity\<close> and \<open>-Infinity\<close> are accepted.
\<close>

record json_hooks =
  pairs_hook :: "pydict \<Rightarrow> pyval res"
  constants_ok :: bool

definition json_ws :: "char \<Rightarrow> bool" where
  "json_ws c \<longleftrightarrow> c = CHR '' '' \<or> (of_char c :: nat) \<in> {9, 10, 13}"

definition skip_ws :: "string \<Rightarrow> string" where
  "skip_ws s = dropWhile json_ws s"

definition json_error :: exc where
  "json_error = ValueError ''JSONDecodeError''"

definition unescape :: "char \<Rightarrow> char option" where
  "unescape c =
     (if c = dquote \<or> c = bslash \<or> c = CHR ''/'' then Some c
      else if c = CHR ''b'' then Some (char_of (8 :: nat))
      else if c = CHR ''f'' then Some (char_of (12 :: nat))
      else if c = CHR ''n'' then Some (char_of (10 :: nat))
      else if c = CHR ''r'' then Some (char_of (13 :: nat))
      else if c = CHR ''t'' then Some (char_of (9 :: nat))
      else None)"

text \<open>\<open>JSONDecoder.scanstring\<close>, after the opening quote.\<close>

fun parse_str :: "string \<Rightarrow> (string \<times> string) res" where
  "parse_str [] = Inl json_error"
| "parse_str (c # cs) =
     (if c = dquote then Inr ([], cs)
      else if c = bslash then
        (case cs of
           [] \<Rightarrow> Inl json_error
         | d # ds \<Rightarrow>
             (if d = CHR ''u'' then
                (case ds of
                   h1 # h2 # h3 # h4 # r \<Rightarrow>
                     (case (hex_val h1, hex_val h2, hex_val h3, hex_val h4) of
                        (Some a, Some b, Some x, Some y) \<Rightarrow>
                          (if a = 0 \<and> b = 0 then
                             bind_res (parse_str r) (\<lambda>(t, r'). Inr (char_of (16 * x + y) # t, r'))
                           else Inl (Unmodelled ''code point above 255''))
                      | _ \<Rightarrow> Inl json_error)
                 | _ \<Rightarrow> Inl json_error)
              else (case unescape d of
                  Some e \<Rightarrow> bind_res (parse_str ds) (\<lambda>(t, r'). Inr (e # t, r'))
                | None \<Rightarrow> Inl json_error)))
      else if (of_char c :: nat) < 32 then Inl json_error
      else bind_res (parse_str cs) (\<lambda>(t, r'). Inr (c # t, r')))"

text \<open>A number, without its sign: integer part, then optional fraction and exponent.\<close>

definition parse_exp :: "string \<Rightarrow> (int \<times> string) option" where
  "parse_exp s = (case s of
     c # r \<Rightarrow>
       (if c = CHR ''e'' \<or> c = CHR ''E'' then
          (let (sg, r1) = (case r of
               d # r' \<Rightarrow> (if d = CHR ''-'' then (-1, r') else if d = CHR ''+'' then (1, r') else (1, r))
             | [] \<Rightarrow> (1 :: int, r));
             ds = takeWhile digit_char r1
           in if ds = [] then None else Some (sg * int (nat_of_digits ds), dropWhile digit_char r1))
        else None)
   | [] \<Rightarrow> None)"

definition parse_number :: "bool \<Rightarrow> string \<Rightarrow> (pyval \<times> string) res" where
  "parse_number neg s =
     (let ds = takeWhile digit_char s in
      if ds = [] then Inl json_error
      else let ip = (if hd ds = CHR ''0'' then ''0'' else ds);
               r = drop (length ip) s;
               fr = (case r of
                   d # r' \<Rightarrow> (if d = CHR ''.'' then takeWhile digit_char r' else [])
                 | [] \<Rightarrow> []);
               r1 = (if fr = [] then r else drop (Suc (length fr)) r);
               ex = parse_exp r1;
               m = int (nat_of_digits (ip @ fr));
               sm = (if neg then - m else m)
           in if fr = [] \<and> ex = None then Inr (PInt sm, r)
              else case ex of
                  None \<Rightarrow> Inr (PFloat (Decimal sm (- int (length fr))), r1)
                | Some (e, r2) \<Rightarrow> Inr (PFloat (Decimal sm (e - int (length fr))), r2))"

definition parse_const :: "json_hooks \<Rightarrow> pyval \<Rightarrow> string \<Rightarrow> (pyval \<times> string) res" where
  "parse_const H v r = (if constants_ok H then Inr (v, r) else Inl (ValueError ''JSON constant''))"

definition parse_word :: "json_hooks \<Rightarrow> string \<Rightarrow> (pyval \<times> string) res" where
  "parse_word H s =
     (if starts_with ''null'' s then Inr (PNone, drop 4 s)
      else if starts_with ''true'' s then Inr (PBool True, drop 4 s)
      else if starts_with ''false'' s then Inr (PBool False, drop 5 s)
      else if starts_with ''NaN'' s then parse_const H (PFloat FNan) (drop 3 s)
      else if starts_with ''Infinity'' s then parse_const H (PFloat (FInf False)) (drop 8 s)
      else if starts_with ''-Infinity'' s then parse_const H (PFloat (FInf True)) (drop 9 s)
      else (case s of
          [] \<Rightarrow> Inl json_error
        | c # r \<Rightarrow> if c = CHR ''-'' then parse_number True r else parse_number False s))"

text \<open>
  \<open>scan_once\<close>, the array loop and the object loop. The first argument bounds the nesting
  and the number of elements; \<open>json_loads_fuel\<close> shows the bound \<open>json_loads\<close> passes is enough.
\<close>

fun parse_val :: "json_hooks \<Rightarrow> nat \<Rightarrow> string \<Rightarrow> (pyval \<times> string) res"
  and parse_arr :: "json_hooks \<Rightarrow> nat \<Rightarrow> string \<Rightarrow> (pyval list \<times> string) res"
  and parse_obj :: "json_hooks \<Rightarrow> nat \<Rightarrow> string \<Rightarrow> (pydict \<times> string) res"
where
  "parse_val H 0 s = Inl (Unmodelled ''fuel'')"
| "parse_val H (Suc n) [] = Inl json_error"
| "parse_val H (Suc n) (c # r) =
     (if c = dquote then bind_res (parse_str r) (\<lambda>(t, r'). Inr (PStr t, r'))
      else if c = CHR ''['' then
        (case skip_ws r of
           d # r' \<Rightarrow> (if d = CHR '']'' then Inr (PList [], r')
                     else bind_res (parse_arr H n (d # r')) (\<lambda>(xs, q). Inr (PList xs, q)))
         | [] \<Rightarrow> Inl json_error)
      else if c = CHR ''{'' then
        (case skip_ws r of
           d # r' \<Rightarrow> (if d = CHR ''}'' then bind_res (pairs_hook H []) (\<lambda>v. Inr (v, r'))
                     else bind_res (parse_obj H n (d # r'))
                       (\<lambda>(kvs, q). bind_res (pairs_hook H kvs) (\<lambda>v. Inr (v, q))))
         | [] \<Rightarrow> Inl json_error)
      else parse_word H (c # r))"
| "parse_arr H 0 s = Inl (Unmodelled ''fuel'')"
| "parse_arr H (Suc n) s =
     bind_res (parse_val H n s) (\<lambda>(v, r).
       (case skip_ws r of
          d # r' \<Rightarrow>
            (if d = CHR '']'' then Inr ([v], r')
             else if d = CHR '','' then
               bind_res (parse_arr H n (skip_ws r')) (\<lambda>(vs, q). Inr (v # vs, q))
             else Inl json_error)
        | [] \<Rightarrow> Inl json_error))"
| "parse_obj H 0 s = Inl (Unmodelled ''fuel'')"
| "parse_obj H (Suc n) s =
     (case s of
        [] \<Rightarrow> Inl json_error
      | c # cs \<Rightarrow>
          (if c \<noteq> dquote then Inl json_error
           else bind_res (parse_str cs) (\<lambda>(k, r).
             (case skip_ws r of
                d # r' \<Rightarrow>
                  (if d \<noteq> CHR '':'' then Inl json_error
                   else bind_res (parse_val H n (skip_ws r')) (\<lambda>(v, q).
                     (case skip_ws q of
                        e # q' \<Rightarrow>
                          (if e = CHR ''}'' then Inr ([(k, v)], q')
                           else if e = CHR '','' then
                             bind_res (parse_obj H n (skip_ws q')) (\<lambda>(kvs, z). Inr ((k, v) # kvs, z))
                           else Inl json_error)
                      | [] \<Rightarrow> Inl json_error)))
              | [] \<Rightarrow> Inl json_error))))"

definition json_loads :: "json_hooks \<Rightarrow> string \<Rightarrow> pyval res" where
  "json_loads H s =
     bind_res (parse_val H (Suc (2 * length s)) (skip_ws s)) (\<lambda>(v, r).
       if skip_ws r = [] then Inr v else Inl json_error)"

text \<open>
  The decoder for bytes. Text outside ASCII is decoded from one- and two-byte UTF-8
  sequences; longer sequences are code points the model does not represent.
\<close>

fun utf8_decode :: "string \<Rightarrow> string res" where
  "utf8_decode [] = Inr []"
| "utf8_decode (c # cs) =
     (let n = of_char c :: nat in
      if n < 128 then bind_res (utf8_decode cs) (\<lambda>t. Inr (c # t))
      else if n = 194 \<or> n = 195 then
        (case cs of
           d # ds \<Rightarrow> (let m = of_char d :: nat in
             if 128 \<le> m \<and> m < 192
             then bind_res (utf8_decode ds) (\<lambda>t. Inr (char_of (64 * (n - 192) + (m - 128)) # t))
             else Inl UnicodeError)
         | [] \<Rightarrow> Inl UnicodeError)
      else if 196 \<le> n \<and> n < 245 then Inl (Unmodelled ''code point above 255'')
      else Inl UnicodeError)"

end
