(* ===== verification/Json_Roundtrip.thy ===== *)
theory Json_Roundtrip
  imports Json_Codec
begin

text \<open>
  Decoding the canonical text of a plain value returns the value with its dictionary keys in
  order, canonical texts identify plain values up to key order, and the fuel of
  \<open>json_loads\<close> always suffices.
\<close>

section \<open>Plain values\<close>

text \<open>The values JSON can carry without loss: no floats, bytes or tuples, keys distinct.\<close>

fun plain :: "pyval \<Rightarrow> bool" where
  "plain (PList xs) = list_all plain xs"
| "plain (PDict kvs) = (distinct (map fst kvs) \<and> list_all (\<lambda>(k, v). plain v) kvs)"
| "plain PNone = True"
| "plain (PBool b) = True"
| "plain (PInt i) = True"
| "plain (PStr s) = True"
| "plain (PFloat f) = False"
| "plain (PBytes s) = False"
| "plain (PTuple xs) = False"
| "plain (POther i) = False"

text \<open>A pairs hook that accepts an object without duplicate keys as it stands.\<close>

definition closing_hooks :: "json_hooks \<Rightarrow> bool" where
  "closing_hooks H \<longleftrightarrow> (\<forall>d. distinct (map fst d) \<longrightarrow> pairs_hook H d = Inr (PDict d))"

text \<open>What may follow a value inside a document.\<close>

definition stop :: "string \<Rightarrow> bool" where
  "stop r \<longleftrightarrow> r = [] \<or> hd r \<in> {CHR '','', CHR '']'', CHR ''}'', CHR 0x0A}"

lemma stop_simps [simp]:
  "stop []" "stop (CHR '','' # r)" "stop (CHR '']'' # r)" "stop (CHR ''}'' # r)" "stop (CHR 0x0A # r)"
  by (simp_all add: stop_def)

lemma starts_with_simps [simp]:
  "starts_with [] s"
  "\<not> starts_with (p # ps) []"
  "starts_with (p # ps) (x # xs) \<longleftrightarrow> p = x \<and> starts_with ps xs"
  by (auto simp: starts_with_def)

section \<open>Strings\<close>

lemma parse_escape:
  "parse_str (escape_char c @ t) = bind_res (parse_str t) (\<lambda>(u, r). Inr (c # u, r))"
proof -
  have inv: "char_of n = c" if "(of_char c :: nat) = n" for n
    using that by auto
  have hex0: "hex_val CHR ''0'' = Some 0" by (simp add: hex_val_def)
  define n where "n = (of_char c :: nat)"
  have n: "n div 16 < 16" "n mod 16 < 16"
    using nat_of_char_less_256 [of c] by (auto simp: n_def less_mult_imp_div_less)
  have c: "char_of (16 * (n div 16) + n mod 16) = c"
    using inv [of n] by (simp add: n_def)
  consider "c = dquote" | "c = bslash" | "c \<noteq> dquote" "c \<noteq> bslash" "n \<in> {8, 9, 10, 12, 13}"
    | "c \<noteq> dquote" "c \<noteq> bslash" "n \<notin> {8, 9, 10, 12, 13}" "32 \<le> n \<and> n \<le> 126"
    | "c \<noteq> dquote" "c \<noteq> bslash" "n \<notin> {8, 9, 10, 12, 13}" "\<not> (32 \<le> n \<and> n \<le> 126)"
    by blast
  then show ?thesis
  proof cases
    case 3
    then show ?thesis
      by (auto simp: escape_char_def n_def Let_def dquote_def bslash_def unescape_def dest!: inv)
  next
    case 5
    then show ?thesis
      using n c by (auto simp: escape_char_def n_def [symmetric] Let_def hex0 dquote_def bslash_def)
  qed (auto simp: escape_char_def n_def Let_def dquote_def bslash_def unescape_def)
qed

lemma parse_str_quote: "parse_str (concat (map escape_char s) @ dquote # r) = Inr (s, r)"
  by (induction s) (simp_all add: parse_escape)

section \<open>Numbers\<close>

lemma digit_not:
  "digit_char c \<Longrightarrow> c \<noteq> CHR ''n'' \<and> c \<noteq> CHR ''t'' \<and> c \<noteq> CHR ''f'' \<and> c \<noteq> CHR ''N'' \<and>
    c \<noteq> CHR ''I'' \<and> c \<noteq> CHR ''-'' \<and> c \<noteq> CHR ''['' \<and> c \<noteq> CHR ''{'' \<and> c \<noteq> dquote \<and>
    c \<noteq> CHR '']'' \<and> \<not> json_ws c"
  by (auto simp: digit_char_iff dquote_def json_ws_def)

lemma stop_number:
  assumes "stop r"
  shows "takeWhile digit_char (ds @ r) = takeWhile digit_char ds"
    and "parse_exp r = None" and "\<And>r'. r \<noteq> CHR ''.'' # r'"
proof -
  have c: "\<not> digit_char CHR '',''" "\<not> digit_char CHR '']''" "\<not> digit_char CHR ''}''"
    "\<not> digit_char CHR 0x0A"
    by (simp_all add: digit_char_iff)
  show "takeWhile digit_char (ds @ r) = takeWhile digit_char ds"
  proof (cases "\<forall>x \<in> set ds. digit_char x")
    case True
    then show ?thesis
      using assms c by (cases r) (auto simp: stop_def takeWhile_append2 takeWhile_eq_all_conv [THEN iffD2])
  next
    case False
    then show ?thesis by (metis takeWhile_append1)
  qed
  show "parse_exp r = None" "\<And>r'. r \<noteq> CHR ''.'' # r'"
    using assms by (cases r; auto simp: stop_def parse_exp_def)+
qed

lemma parse_number_show:
  assumes "stop r"
  shows "parse_number neg (show_nat n @ r) = Inr (PInt (if neg then - int n else int n), r)"
proof -
  obtain c cs where d: "show_nat n = c # cs" "digit_char c" "list_all digit_char cs"
      "c = CHR ''0'' \<Longrightarrow> cs = []"
    using show_nat_leading [of n] by blast
  have t: "takeWhile digit_char (show_nat n @ r) = show_nat n"
    using stop_number(1) [OF assms] show_nat_digits [of n]
    by (simp add: takeWhile_eq_all_conv list_all_iff)
  have ip: "(if hd (show_nat n) = CHR ''0'' then ''0'' else show_nat n) = show_nat n"
    using d by simp
  have fr: "(case r of [] \<Rightarrow> [] | d # r' \<Rightarrow> if d = CHR ''.'' then takeWhile digit_char r' else []) = []"
    using stop_number(3) [OF assms] by (cases r) auto
  show ?thesis
    unfolding parse_number_def t Let_def ip
    using stop_number(2) [OF assms] fr by simp
qed

lemma parse_word_int:
  assumes "stop r"
  shows "parse_word H (show_int i @ r) = Inr (PInt i, r)"
proof (cases "i < 0")
  case True
  obtain c cs where "show_nat (nat (- i)) = c # cs" "digit_char c"
    by (rule show_nat_leading)
  with True parse_number_show [OF assms, of True "nat (- i)"] digit_not [of c] show ?thesis
    by (auto simp: parse_word_def show_int_def)
next
  case False
  obtain c cs where "show_nat (nat i) = c # cs" "digit_char c"
    by (rule show_nat_leading)
  with False parse_number_show [OF assms, of False "nat i"] digit_not [of c] show ?thesis
    by (auto simp: parse_word_def show_int_def)
qed

lemma show_int_first:
  obtains c cs where "show_int i = c # cs" "c \<noteq> dquote" "c \<noteq> CHR ''[''" "c \<noteq> CHR ''{''"
    "\<not> json_ws c" "c \<noteq> CHR '']''"
proof (cases "i < 0")
  case True
  then show ?thesis
    using that by (auto simp: show_int_def dquote_def json_ws_def)
next
  case False
  obtain c cs where "show_nat (nat i) = c # cs" "digit_char c" by (rule show_nat_leading)
  with False show ?thesis using that digit_not [of c] by (auto simp: show_int_def)
qed

section \<open>Values\<close>

definition value_start :: "string \<Rightarrow> bool" where
  "value_start s \<longleftrightarrow> (\<exists>c cs. s = c # cs \<and> \<not> json_ws c \<and> c \<noteq> CHR '']'')"

text \<open>\<open>s\<close> is a text of \<open>v\<close>: whatever may follow it, the decoder reads exactly \<open>v\<close>.\<close>

definition text_of :: "json_hooks \<Rightarrow> pyval \<Rightarrow> string \<Rightarrow> bool" where
  "text_of H v s \<longleftrightarrow> value_start s \<and>
     (\<forall>n r. stop r \<longrightarrow> 2 * length s < n \<longrightarrow> parse_val H n (s @ r) = Inr (v, r))"

lemma text_ofI:
  assumes "value_start s"
    and "\<And>n r. stop r \<Longrightarrow> 2 * length s \<le> n \<Longrightarrow> parse_val H (Suc n) (s @ r) = Inr (v, r)"
  shows "text_of H v s"
  unfolding text_of_def using assms by (metis Suc_leI Suc_le_D Suc_le_mono)

lemma skip_ws_start [simp]: "value_start s \<Longrightarrow> skip_ws (s @ r) = s @ r"
  by (auto simp: value_start_def skip_ws_def)

lemma not_ws [simp]:
  "\<not> json_ws CHR '',''" "\<not> json_ws CHR '']''" "\<not> json_ws CHR ''}''" "\<not> json_ws CHR '':''"
  "\<not> json_ws CHR ''['' " "\<not> json_ws CHR ''{''" "\<not> json_ws dquote"
  by (simp_all add: json_ws_def dquote_def)

lemma skip_ws_Cons [simp]: "\<not> json_ws c \<Longrightarrow> skip_ws (c # r) = c # r"
  by (simp add: skip_ws_def)

lemma commas_Cons: "ss \<noteq> [] \<Longrightarrow> commas (s # ss) = s @ CHR '','' # commas ss"
  by (cases ss) auto

lemma value_start_commas: "value_start s \<Longrightarrow> value_start (commas (s # ss))"
  by (cases ss) (auto simp: value_start_def)

lemma parse_arr_commas:
  assumes "list_all2 (text_of H) xs ss" and "xs \<noteq> []" and "2 * length (commas ss) + 1 < n"
  shows "parse_arr H n (commas ss @ CHR '']'' # r) = Inr (xs, r)"
  using assms
proof (induction arbitrary: n rule: list_all2_induct)
  case (Cons x xs s ss)
  from Cons.prems obtain m where n: "n = Suc m" by (cases n) auto
  from Cons.hyps(1) have s: "value_start s"
    and p: "\<And>n r. stop r \<Longrightarrow> 2 * length s < n \<Longrightarrow> parse_val H n (s @ r) = Inr (x, r)"
    by (auto simp: text_of_def)
  show ?case
  proof (cases ss)
    case Nil
    with Cons.hyps have "xs = []" by simp
    with Nil n s p [of "CHR '']'' # r" m] Cons.prems show ?thesis by simp
  next
    case (Cons t ts)
    with Cons.hyps obtain y ys where xs: "xs = y # ys" and t: "value_start t"
      by (cases xs) (auto simp: text_of_def)
    have c: "commas (s # ss) = s @ CHR '','' # commas ss" using Cons by simp
    have "parse_arr H m (commas ss @ CHR '']'' # r) = Inr (xs, r)"
      using Cons.prems n c xs by (intro Cons.IH) auto
    moreover have "skip_ws (commas ss @ CHR '']'' # r) = commas ss @ CHR '']'' # r"
      using value_start_commas [OF t] Cons by simp
    ultimately show ?thesis
      using n c p [of "CHR '','' # commas ss @ CHR '']'' # r" m] Cons.prems by simp
  qed
qed simp

definition member_text :: "json_hooks \<Rightarrow> string \<times> pyval \<Rightarrow> string \<Rightarrow> bool" where
  "member_text H kv s \<longleftrightarrow> (\<exists>t. s = quote_str (fst kv) @ CHR '':'' # t \<and> text_of H (snd kv) t)"

lemma dquote_not [simp]: "dquote \<noteq> CHR '']''" "dquote \<noteq> CHR ''}''"
  by (simp_all add: dquote_def)

lemma dquote_brace [simp]: "CHR ''{'' \<noteq> dquote" "CHR ''['' \<noteq> dquote"
  by (simp_all add: dquote_def)

lemma quote_start: "value_start (quote_str k @ s)"
  unfolding value_start_def quote_str_def
  by (intro exI conjI) (rule append_Cons, simp_all)

lemma member_start: "member_text H kv s \<Longrightarrow> value_start s"
  unfolding member_text_def using quote_start by blast

lemma parse_obj_commas:
  assumes "list_all2 (member_text H) kvs ss" and "kvs \<noteq> []" and "2 * length (commas ss) + 1 < n"
  shows "parse_obj H n (commas ss @ CHR ''}'' # r) = Inr (kvs, r)"
  using assms
proof (induction arbitrary: n rule: list_all2_induct)
  case (Cons kv kvs s ss)
  obtain k v where kv: "kv = (k, v)" by (cases kv)
  from Cons.prems obtain m where n: "n = Suc m" by (cases n) auto
  from Cons.hyps(1) kv obtain t where s: "s = quote_str k @ CHR '':'' # t" and t: "value_start t"
    and p: "\<And>n r. stop r \<Longrightarrow> 2 * length t < n \<Longrightarrow> parse_val H n (t @ r) = Inr (v, r)"
    by (auto simp: text_of_def member_text_def)
  have k: "parse_str (concat (map escape_char k) @ dquote # q) = Inr (k, q)" for q
    by (rule parse_str_quote)
  show ?case
  proof (cases ss)
    case Nil
    with Cons.hyps have "kvs = []" by simp
    with Nil n s t kv k p [of "CHR ''}'' # r" m] Cons.prems show ?thesis
      by (simp add: quote_str_def)
  next
    case (Cons u us)
    with Cons.hyps obtain y ys where xs: "kvs = y # ys" by (cases kvs) auto
    have "member_text H y u" using Cons.hyps(2) Cons xs by simp
    then have u: "value_start u" by (rule member_start)
    have c: "commas (s # ss) = s @ CHR '','' # commas ss" using Cons by simp
    have "parse_obj H m (commas ss @ CHR ''}'' # r) = Inr (kvs, r)"
      using Cons.prems n c xs by (intro Cons.IH) auto
    moreover have "skip_ws (commas ss @ CHR ''}'' # r) = commas ss @ CHR ''}'' # r"
      using value_start_commas [OF u] Cons by simp
    ultimately show ?thesis
      using n c s t kv k p [of "CHR '','' # commas ss @ CHR ''}'' # r" m] Cons.prems
      by (simp add: quote_str_def)
  qed
qed simp

lemma text_of_list:
  assumes "list_all2 (text_of H) xs ss"
  shows "text_of H (PList xs) (''['' @ commas ss @ '']'')"
proof (rule text_ofI)
  show "value_start (''['' @ commas ss @ '']'')" by (simp add: value_start_def)
next
  fix n r assume n: "2 * length (''['' @ commas ss @ '']'') \<le> n"
  show "parse_val H (Suc n) ((''['' @ commas ss @ '']'') @ r) = Inr (PList xs, r)"
  proof (cases xs)
    case Nil
    with assms show ?thesis by (simp add: dquote_def)
  next
    case (Cons y ys)
    with assms obtain t ts where ss: "ss = t # ts" and t: "value_start t"
      by (auto simp: list_all2_Cons1 text_of_def)
    obtain c cs where "commas ss = c # cs" "\<not> json_ws c" "c \<noteq> CHR '']''"
      using value_start_commas [OF t, of ts] unfolding ss value_start_def by blast
    then show ?thesis
      using parse_arr_commas [OF assms, of n r] Cons n by (simp add: dquote_def)
  qed
qed

lemma text_of_dict:
  assumes "list_all2 (member_text H) kvs ss" and H: "pairs_hook H kvs = Inr (PDict kvs)"
  shows "text_of H (PDict kvs) (''{'' @ commas ss @ ''}'')"
proof (rule text_ofI)
  show "value_start (''{'' @ commas ss @ ''}'')" by (simp add: value_start_def)
next
  fix n r assume n: "2 * length (''{'' @ commas ss @ ''}'') \<le> n"
  show "parse_val H (Suc n) ((''{'' @ commas ss @ ''}'') @ r) = Inr (PDict kvs, r)"
  proof (cases kvs)
    case Nil
    with assms show ?thesis by (simp add: dquote_def)
  next
    case (Cons y ys)
    with assms obtain t ts where ss: "ss = t # ts" and "member_text H y t"
      by (auto simp: list_all2_Cons1)
    then obtain cs where "commas ss = dquote # cs"
      by (cases ts) (auto simp: member_text_def quote_str_def)
    then show ?thesis
      using parse_obj_commas [OF assms(1), of n r] Cons n H dquote_not
      by (simp add: dquote_brace)
  qed
qed

lemma text_of_scalar:
  "text_of H PNone ''null''"
  "text_of H (PBool b) (if b then ''true'' else ''false'')"
  "text_of H (PInt i) (show_int i)"
  "text_of H (PStr t) (quote_str t)"
proof -
  have ne: "CHR ''n'' \<noteq> dquote" "CHR ''t'' \<noteq> dquote" "CHR ''f'' \<noteq> dquote"
    by (simp_all add: dquote_def)
  show "text_of H PNone ''null''" "text_of H (PBool b) (if b then ''true'' else ''false'')"
    using ne by (auto intro!: text_ofI simp: value_start_def json_ws_def parse_word_def)
  obtain c cs where "show_int i = c # cs" "c \<noteq> dquote" "c \<noteq> CHR ''[''" "c \<noteq> CHR ''{''"
    "\<not> json_ws c" "c \<noteq> CHR '']''"
    by (rule show_int_first)
  then show "text_of H (PInt i) (show_int i)"
    using parse_word_int [of _ H i] by (auto intro!: text_ofI simp: value_start_def)
  show "text_of H (PStr t) (quote_str t)"
    using quote_start [of t "[]"] by (auto intro!: text_ofI simp: parse_str_quote quote_str_def)
qed

lemma list_all2_choose:
  "(\<And>x. x \<in> set xs \<Longrightarrow> \<exists>y. P x y) \<Longrightarrow> \<exists>ys. list_all2 P xs ys"
proof (induction xs)
  case (Cons x xs)
  then obtain y ys where "P x y" "list_all2 P xs ys" by (meson list.set_intros)
  then show ?case by (blast intro: list_all2_Cons [THEN iffD2])
qed auto

text \<open>Every plain value has a serialisation, and that text is a text of the value.\<close>

theorem ser_text_of:
  assumes "closing_hooks H"
  shows "plain v \<Longrightarrow> \<exists>s. ser v = Inr s \<and> text_of H v s"
proof (induction v)
  case (PList xs)
  then have "\<exists>ss. list_all2 (\<lambda>x s. ser x = Inr s \<and> text_of H x s) xs ss"
    by (intro list_all2_choose) (auto simp: list_all_iff)
  then obtain ss where ss: "list_all2 (\<lambda>x s. ser x = Inr s \<and> text_of H x s) xs ss" by blast
  then have "map_res ser xs = Inr ss" "list_all2 (text_of H) xs ss"
    by (auto simp: res_simps elim: list_all2_mono)
  then show ?case using text_of_list by auto
next
  case (PDict kvs)
  let ?f = "\<lambda>(k, v). bind_res (ser v) (\<lambda>s. Inr (quote_str k @ CHR '':'' # s))"
  have "\<exists>ss. list_all2 (\<lambda>kv s. ?f kv = Inr s \<and> member_text H kv s) kvs ss"
  proof (rule list_all2_choose)
    fix kv assume kv: "kv \<in> set kvs"
    obtain k v where [simp]: "kv = (k, v)" by (cases kv)
    from PDict.prems kv have "plain v" by (auto simp: list_all_iff)
    with PDict.IH [of kv v] kv obtain s where "ser v = Inr s" "text_of H v s" by auto
    then show "\<exists>s. ?f kv = Inr s \<and> member_text H kv s" by (auto simp: member_text_def)
  qed
  then obtain ss where ss: "list_all2 (\<lambda>kv s. ?f kv = Inr s \<and> member_text H kv s) kvs ss" by blast
  then have "map_res ?f kvs = Inr ss" "list_all2 (member_text H) kvs ss"
    by (auto simp: res_simps elim: list_all2_mono)
  moreover have "pairs_hook H kvs = Inr (PDict kvs)"
    using assms PDict.prems by (simp add: closing_hooks_def)
  ultimately show ?case using text_of_dict by auto
qed (use text_of_scalar in auto)

section \<open>Canonical text\<close>

lemma map_fst_canon: "map fst (map (\<lambda>(k, v). (k, canon v)) kvs) = map fst kvs"
  by auto

lemma plain_canon: "plain v \<Longrightarrow> plain (canon v)"
proof (induction v)
  case (PDict kvs)
  have "distinct (map fst (sort_key fst (map (\<lambda>(k, v). (k, canon v)) kvs)))"
    using PDict.prems unfolding distinct_map_sort_key map_fst_canon by simp
  with PDict show ?case by (force simp: list_all_iff)
qed (auto simp: list_all_iff)

text \<open>Two dictionaries have the same canonical form iff they hold the same canonical items.\<close>

lemma canon_dict_iff:
  assumes "distinct (map fst xs)" and "distinct (map fst ys)"
  shows "canon (PDict xs) = canon (PDict ys) \<longleftrightarrow>
    (\<lambda>(k, v). (k, canon v)) ` set xs = (\<lambda>(k, v). (k, canon v)) ` set ys"
proof
  assume "canon (PDict xs) = canon (PDict ys)"
  then have "set (sort_key fst (map (\<lambda>(k, v). (k, canon v)) xs)) =
      set (sort_key fst (map (\<lambda>(k, v). (k, canon v)) ys))" by simp
  then show "(\<lambda>(k, v). (k, canon v)) ` set xs = (\<lambda>(k, v). (k, canon v)) ` set ys" by simp
next
  assume "(\<lambda>(k, v). (k, canon v)) ` set xs = (\<lambda>(k, v). (k, canon v)) ` set ys"
  then show "canon (PDict xs) = canon (PDict ys)"
    using assms map_fst_canon [of xs] map_fst_canon [of ys]
    by (auto intro!: sort_key_unique simp del: map_map)
qed

theorem loads_dumps:
  assumes "closing_hooks H" and "plain v"
  obtains s where "dumps v = Inr s" "json_loads H s = Inr (canon v)"
proof -
  obtain s where s: "ser (canon v) = Inr s" "text_of H (canon v) s"
    using ser_text_of [OF assms(1) plain_canon [OF assms(2)]] by blast
  then have st: "value_start s" by (simp add: text_of_def)
  have "parse_val H (Suc (2 * length s)) (s @ []) = Inr (canon v, [])"
    using s(2) unfolding text_of_def by (metis lessI stop_simps(1))
  moreover have "skip_ws s = s" using skip_ws_start [OF st, of "[]"] by simp
  ultimately have "json_loads H s = Inr (canon v)"
    by (simp add: json_loads_def skip_ws_def)
  with s(1) that show thesis by (simp add: dumps_def)
qed

text \<open>The same with the final newline of a state file, and as bytes: the text is ASCII.\<close>

lemma loads_dumps_line:
  assumes "closing_hooks H" and "plain v" and "dumps v = Inr s"
  shows "json_loads H (s @ [CHR 0x0A]) = Inr (canon v)"
proof -
  have s: "ser (canon v) = Inr s" "text_of H (canon v) s"
    using ser_text_of [OF assms(1) plain_canon [OF assms(2)]] assms(3) by (auto simp: dumps_def)
  then have st: "value_start s" by (simp add: text_of_def)
  have "parse_val H (Suc (2 * length (s @ [CHR 0x0A]))) (s @ [CHR 0x0A]) = Inr (canon v, [CHR 0x0A])"
    using s(2) unfolding text_of_def by (metis length_append lessI less_Suc_eq_le mult_le_mono2
        le_add1 stop_simps(5))
  moreover have "skip_ws (s @ [CHR 0x0A]) = s @ [CHR 0x0A]" using skip_ws_start [OF st] by simp
  ultimately show ?thesis
    by (simp add: json_loads_def) (simp add: skip_ws_def json_ws_def)
qed

definition ascii :: "string \<Rightarrow> bool" where
  "ascii s \<longleftrightarrow> list_all (\<lambda>c. (of_char c :: nat) < 128) s"

lemma ascii_simps [simp]:
  "ascii []" "ascii (c # s) \<longleftrightarrow> (of_char c :: nat) < 128 \<and> ascii s" "ascii (s @ t) \<longleftrightarrow> ascii s \<and> ascii t"
  by (simp_all add: ascii_def)

lemma utf8_decode_ascii: "ascii s \<Longrightarrow> utf8_decode s = Inr s"
  by (induction s) (auto simp: Let_def)

lemma ascii_digits: "list_all digit_char s \<Longrightarrow> ascii s"
  by (auto simp: ascii_def list_all_iff digit_char_iff)

lemma ascii_show_int [simp]: "ascii (show_int i)"
  by (auto simp: show_int_def ascii_digits show_nat_digits)

lemma ascii_hex [simp]: "n < 16 \<Longrightarrow> (of_char (hex_digit n) :: nat) < 128"
  by (simp add: hex_digit_def)

lemma ascii_escape: "ascii (escape_char c)"
proof -
  have "(of_char c :: nat) div 16 < 16" by (rule less_mult_imp_div_less) simp
  from ascii_hex [OF this] show ?thesis by (auto simp: escape_char_def Let_def bslash_def dquote_def)
qed

lemma ascii_concat: "(\<And>s. s \<in> set ss \<Longrightarrow> ascii s) \<Longrightarrow> ascii (concat ss)"
  by (induction ss) auto

lemma ascii_quote [simp]: "ascii (quote_str s)"
  by (auto simp: quote_str_def dquote_def intro!: ascii_concat ascii_escape)

lemma ascii_commas: "(\<And>s. s \<in> set ss \<Longrightarrow> ascii s) \<Longrightarrow> ascii (commas ss)"
  by (induction ss rule: commas.induct) auto

lemma list_all2_witness:
  assumes "list_all2 P xs ys" and "y \<in> set ys"
  shows "\<exists>x \<in> set xs. P x y"
  using assms by (metis in_set_conv_nth list_all2_conv_all_nth)

lemma ser_ascii: "ser v = Inr s \<Longrightarrow> ascii s"
proof (induction v arbitrary: s rule: ser.induct)
  case (5 xs)
  then obtain ss where "s = ''['' @ commas ss @ '']''" "list_all2 (\<lambda>x t. ser x = Inr t) xs ss"
    by (auto simp: bind_res_Inr_iff map_res_Inr_iff)
  moreover from this have "ascii t" if "t \<in> set ss" for t
    using list_all2_witness [OF _ that] "5.IH" by blast
  ultimately show ?case by (simp add: ascii_commas)
next
  case (6 xs)
  then obtain ss where "s = ''['' @ commas ss @ '']''" "list_all2 (\<lambda>x t. ser x = Inr t) xs ss"
    by (auto simp: bind_res_Inr_iff map_res_Inr_iff)
  moreover from this have "ascii t" if "t \<in> set ss" for t
    using list_all2_witness [OF _ that] "6.IH" by blast
  ultimately show ?case by (simp add: ascii_commas)
next
  case (7 kvs)
  then obtain ss where ss: "s = ''{'' @ commas ss @ ''}''"
    and m: "map_res (\<lambda>(k, v). bind_res (ser v) (\<lambda>s. Inr (quote_str k @ CHR '':'' # s))) kvs = Inr ss"
    by (auto simp: bind_res_Inr_iff)
  have "ascii t" if "t \<in> set ss" for t
  proof -
    from list_all2_witness [OF m [unfolded map_res_Inr_iff] that]
    obtain k v u where "(k, v) \<in> set kvs" "ser v = Inr u" "t = quote_str k @ CHR '':'' # u"
      by (auto simp: bind_res_Inr_iff)
    with "7.IH" show ?thesis by fastforce
  qed
  then show ?case using ss by (simp add: ascii_commas)
qed (auto split: if_splits)

text \<open>The hook that accepts every object: the reference decoder for injectivity.\<close>

definition open_hooks :: json_hooks where
  "open_hooks = \<lparr>pairs_hook = (\<lambda>d. Inr (PDict d)), constants_ok = True\<rparr>"

lemma closing_open [simp]: "closing_hooks open_hooks"
  by (simp add: closing_hooks_def open_hooks_def)

theorem dumps_inj:
  assumes "plain a" and "plain b"
  shows "dumps a = dumps b \<longleftrightarrow> canon a = canon b"
proof
  assume e: "dumps a = dumps b"
  obtain s where "dumps a = Inr s" "json_loads open_hooks s = Inr (canon a)"
    using loads_dumps [OF closing_open assms(1)] .
  moreover obtain t where "dumps b = Inr t" "json_loads open_hooks t = Inr (canon b)"
    using loads_dumps [OF closing_open assms(2)] .
  ultimately show "canon a = canon b" using e by simp
qed (simp add: dumps_def)

section \<open>Fuel\<close>

lemma length_skip_ws: "length (skip_ws s) \<le> length s"
  by (simp add: skip_ws_def length_dropWhile_le)

lemma skip_ws_less: "skip_ws s = c # r \<Longrightarrow> length r < length s"
  using length_skip_ws [of s] by simp

lemma parse_str_less: "parse_str s = Inr (t, r) \<Longrightarrow> length r < length s"
proof (induction s arbitrary: t r rule: parse_str.induct)
  case (2 c cs)
  then show ?case
    by (fastforce simp: res_simps split: if_splits list.splits option.splits prod.splits)
qed simp

lemma parse_str_fuel: "parse_str s \<noteq> Inl (Unmodelled ''fuel'')"
proof (induction s rule: parse_str.induct)
  case (2 c cs)
  then show ?case
    by (subst parse_str.simps)
      (auto simp: bind_res_Inl_iff json_error_def simp del: parse_str.simps
        split: list.split option.split)
qed (simp add: json_error_def)

lemma parse_exp_less: "parse_exp s = Some (e, r) \<Longrightarrow> length r \<le> length s"
  by (auto simp: parse_exp_def Let_def split: list.splits if_splits
      intro: le_SucI length_dropWhile_le order_trans [OF length_dropWhile_le])

lemma parse_number_less:
  assumes "parse_number neg s = Inr (v, r)"
  shows "length r < length s"
proof -
  define ds where "ds = takeWhile digit_char s"
  define ip where "ip = (if hd ds = CHR ''0'' then ''0'' else ds)"
  define r0 where "r0 = drop (length ip) s"
  define fr where "fr = (case r0 of
      d # r' \<Rightarrow> (if d = CHR ''.'' then takeWhile digit_char r' else []) | [] \<Rightarrow> [])"
  define r1 where "r1 = (if fr = [] then r0 else drop (Suc (length fr)) r0)"
  from assms have ds: "ds \<noteq> []" by (auto simp: parse_number_def ds_def)
  then have "ip \<noteq> []" "s \<noteq> []" by (auto simp: ip_def ds_def)
  then have r0: "length r0 < length s" by (simp add: r0_def)
  have r1: "length r1 \<le> length r0" by (simp add: r1_def)
  from assms ds have "r = r0 \<or> r = r1 \<or> (\<exists>e. parse_exp r1 = Some (e, r))"
    unfolding parse_number_def Let_def
      ds_def [symmetric] ip_def [symmetric] r0_def [symmetric] fr_def [symmetric] r1_def [symmetric]
    by (auto split: if_splits option.splits)
  with r0 r1 show ?thesis by (auto dest: parse_exp_less)
qed

lemma parse_number_fuel: "parse_number neg s \<noteq> Inl (Unmodelled ''fuel'')"
  by (auto simp: parse_number_def Let_def json_error_def split: option.splits)

lemma starts_with_less: "starts_with (p # ps) s \<Longrightarrow> length s - Suc n < length s"
  by (cases s) auto

lemma parse_word_less: "parse_word H s = Inr (v, r) \<Longrightarrow> length r < length s"
  by (auto simp: parse_word_def parse_const_def split: if_splits list.splits
      dest!: parse_number_less)
    (auto dest: starts_with_less simp: eval_nat_numeral)

lemma parse_word_fuel: "parse_word H s \<noteq> Inl (Unmodelled ''fuel'')"
  by (auto simp: parse_word_def parse_const_def json_error_def parse_number_fuel split: list.splits)

lemma parse_less:
  "parse_val H n s = Inr (v, r) \<Longrightarrow> length r < length s"
  "parse_arr H n s = Inr (vs, r) \<Longrightarrow> length r < length s"
  "parse_obj H n s = Inr (d, r) \<Longrightarrow> length r < length s"
proof (induction n arbitrary: s v vs d r)
  case (Suc n)
  {
    case 1
    then obtain c cs where s: "s = c # cs" by (cases s) auto
    have ws: "length r' < length cs" if "skip_ws cs = e # r'" for e r'
      using that by (rule skip_ws_less)
    show ?case
    proof (cases "skip_ws cs")
      case Nil
      with 1 s show ?thesis
        by (auto simp: res_simps split: if_splits dest!: parse_str_less parse_word_less)
    next
      case (Cons e r')
      have "length q < length s" if "parse_arr H n (e # r') = Inr (xs, q)" for xs q
        using Suc.IH(2) [OF that] ws [OF Cons] s by simp
      moreover have "length q < length s" if "parse_obj H n (e # r') = Inr (d, q)" for d q
        using Suc.IH(3) [OF that] ws [OF Cons] s by simp
      ultimately show ?thesis using 1 s Cons ws [OF Cons]
        by (auto simp: res_simps split: if_splits dest!: parse_str_less parse_word_less)
    qed
  next
    case 2
    then obtain v r1 where v: "parse_val H n s = Inr (v, r1)" by (auto simp: res_simps)
    show ?case
    proof (cases "skip_ws r1")
      case (Cons e r2)
      have "length q < length s" if "parse_arr H n (skip_ws r2) = Inr (xs, q)" for xs q
        using Suc.IH(2) [OF that] Suc.IH(1) [OF v] skip_ws_less [OF Cons] length_skip_ws [of r2]
        by simp
      with 2 v Cons Suc.IH(1) [OF v] skip_ws_less [OF Cons] show ?thesis
        by (auto simp: res_simps split: if_splits)
    qed (use 2 v in simp)
  next
    case 3
    then obtain cs where c: "s = dquote # cs" by (cases s) (auto split: if_splits)
    with 3 obtain k r1 where k: "parse_str cs = Inr (k, r1)" by (auto simp: res_simps)
    with 3 c obtain r2 where r2: "skip_ws r1 = CHR '':'' # r2"
      by (cases "skip_ws r1") (auto split: if_splits)
    with 3 c k obtain v q where "parse_val H n (skip_ws r2) = Inr (v, q)"
      by (auto simp: res_simps)
    note s = c k r2 this
    have q: "length q < length s"
      using Suc.IH(1) [OF s(4)] s(1) length_skip_ws [of r2] parse_str_less [OF s(2)]
        skip_ws_less [OF s(3)] by simp
    show ?case
    proof (cases "skip_ws q")
      case (Cons e q')
      have "length z < length s" if "parse_obj H n (skip_ws q') = Inr (d, z)" for d z
        using Suc.IH(3) [OF that] q skip_ws_less [OF Cons] length_skip_ws [of q'] by simp
      with 3 s Cons q skip_ws_less [OF Cons] show ?thesis
        by (auto simp: res_simps split: if_splits)
    qed (use 3 s in simp)
  }
qed auto

lemma parse_fuel:
  assumes H: "\<And>d. pairs_hook H d \<noteq> Inl (Unmodelled ''fuel'')"
  shows "2 * length s < n \<Longrightarrow> parse_val H n s \<noteq> Inl (Unmodelled ''fuel'')"
    and "2 * length s + 1 < n \<Longrightarrow> parse_arr H n s \<noteq> Inl (Unmodelled ''fuel'')"
    and "2 * length s + 1 < n \<Longrightarrow> parse_obj H n s \<noteq> Inl (Unmodelled ''fuel'')"
proof (induction n arbitrary: s)
  case (Suc n)
  have err: "json_error \<noteq> Unmodelled ''fuel''" by (simp add: json_error_def)
  {
    case 1
    show ?case
    proof (cases s)
      case (Cons c cs)
      have "2 * length (e # r') + 1 < n" if "skip_ws cs = e # r'" for e r'
        using that length_skip_ws [of cs] 1 Cons by simp
      then show ?thesis
        using Cons H err Suc.IH parse_str_fuel parse_word_fuel
        by (auto simp: bind_res_Inl_iff split: list.split)
    qed (simp add: err)
  next
    case 2
    have v: "parse_val H n s \<noteq> Inl (Unmodelled ''fuel'')" using 2 by (intro Suc.IH) simp
    have "parse_arr H n (skip_ws r') \<noteq> Inl (Unmodelled ''fuel'')"
      if "parse_val H n s = Inr (x, r)" "skip_ws r = d # r'" for x r d r'
      using parse_less(1) [OF that(1)] skip_ws_less [OF that(2)] length_skip_ws [of r'] 2
      by (intro Suc.IH) simp
    with v err show ?case
      by (auto simp: bind_res_Inl_iff split: list.split)
  next
    case 3
    have v: "parse_val H n (skip_ws r') \<noteq> Inl (Unmodelled ''fuel'')"
      if "s = c # cs" "parse_str cs = Inr (k, r)" "skip_ws r = d # r'" for c cs k r d r'
      using parse_str_less [OF that(2)] skip_ws_less [OF that(3)] length_skip_ws [of r'] 3 that(1)
      by (intro Suc.IH) simp
    have "parse_obj H n (skip_ws q') \<noteq> Inl (Unmodelled ''fuel'')"
      if "s = c # cs" "parse_str cs = Inr (k, r)" "skip_ws r = d # r'"
        "parse_val H n (skip_ws r') = Inr (x, q)" "skip_ws q = e # q'" for c cs k r d r' x q e q'
      using parse_str_less [OF that(2)] skip_ws_less [OF that(3)] length_skip_ws [of r']
        parse_less(1) [OF that(4)] skip_ws_less [OF that(5)] length_skip_ws [of q'] 3 that(1)
      by (intro Suc.IH) simp
    with v err parse_str_fuel show ?case
      by (auto simp: bind_res_Inl_iff split: list.split)
  }
qed auto

theorem json_loads_fuel:
  assumes "\<And>d. pairs_hook H d \<noteq> Inl (Unmodelled ''fuel'')"
  shows "json_loads H s \<noteq> Inl (Unmodelled ''fuel'')"
  using parse_fuel(1) [OF assms, of "skip_ws s" "Suc (2 * length s)"] length_skip_ws [of s]
  by (auto simp: json_loads_def bind_res_Inl_iff json_error_def)

end
