(* ===== verification/Ip_Network.thy ===== *)
theory Ip_Network
  imports Json_Codec "HOL-Library.Product_Lexorder"
begin

text \<open>
  Python's \<open>ipaddress.ip_network(text, strict=True)\<close>, \<open>str(network)\<close> and the sort key
  \<open>(network_address.packed, prefixlen)\<close>, as the prefix contracts use them.

  A packed address is a big-endian byte string of fixed length, so comparing two of one family
  is comparing the numbers; the model keeps the number. A scope identifier (\<open>%\<close>) in an IPv6
  address is \<open>Unmodelled\<close>: no statement about a returned network concerns such text.

  The main facts: a canonical text is determined by its key (\<open>canonical_key_inj\<close>), so sorting
  a set of canonical texts has exactly one result (\<open>sorted_set_unique\<close>).
\<close>

section \<open>IPv4\<close>

record network =
  nw_version :: nat
  nw_address :: int
  nw_prefixlen :: nat

definition parse_octet :: "string \<Rightarrow> int option" where
  "parse_octet s =
     (if s = [] \<or> \<not> list_all digit_char s then None
      else if 3 < length s then None
      else if s \<noteq> ''0'' \<and> hd s = CHR ''0'' then None
      else if 255 < nat_of_digits s then None
      else Some (int (nat_of_digits s)))"

definition number_of_digits :: "int \<Rightarrow> int list \<Rightarrow> int" where
  "number_of_digits b ds = foldl (\<lambda>n d. n * b + d) 0 ds"

definition ip4_int :: "string \<Rightarrow> int option" where
  "ip4_int s =
     (let octets = py_split CHR ''.'' s in
      if length octets \<noteq> 4 then None
      else map_option (number_of_digits 256) (those (map parse_octet octets)))"

definition ip4_str :: "int \<Rightarrow> string" where
  "ip4_str n = join_str CHR ''.''
     (map (\<lambda>i. show_int (n div 256 ^ i mod 256)) [3, 2, 1, 0])"

definition netmask :: "nat \<Rightarrow> nat \<Rightarrow> int" where
  "netmask w p = 2 ^ w - 2 ^ (w - p)"

text \<open>\<open>_prefix_from_prefix_string\<close>, then for IPv4 a dotted netmask or hostmask.\<close>

definition prefix_from_string :: "nat \<Rightarrow> string \<Rightarrow> nat option" where
  "prefix_from_string w s =
     (if s \<noteq> [] \<and> list_all digit_char s \<and> nat_of_digits s \<le> w then Some (nat_of_digits s) else None)"

definition prefix_from_ip_int :: "nat \<Rightarrow> int \<Rightarrow> nat option" where
  "prefix_from_ip_int w m = find (\<lambda>p. m = netmask w p) [0..<Suc w]"

definition ip4_mask :: "string \<Rightarrow> nat option" where
  "ip4_mask s = (case prefix_from_string 32 s of
       Some p \<Rightarrow> Some p
     | None \<Rightarrow> (case ip4_int s of
           None \<Rightarrow> None
         | Some m \<Rightarrow> (case prefix_from_ip_int 32 m of
               Some p \<Rightarrow> Some p
             | None \<Rightarrow> prefix_from_ip_int 32 (2 ^ 32 - 1 - m))))"

definition host_bits :: exc where
  "host_bits = ValueError ''has host bits set''"

definition make_network :: "nat \<Rightarrow> nat \<Rightarrow> int \<Rightarrow> nat \<Rightarrow> network res" where
  "make_network v w a p =
     (if a mod 2 ^ (w - p) \<noteq> 0 then Inl host_bits
      else Inr \<lparr>nw_version = v, nw_address = a, nw_prefixlen = p\<rparr>)"

text \<open>\<open>None\<close> is an \<open>AddressValueError\<close> or \<open>NetmaskValueError\<close>, which \<open>ip_network\<close> catches.\<close>

definition ip4_network :: "string \<Rightarrow> network res option" where
  "ip4_network s =
     (case py_split CHR ''/'' s of
        [a] \<Rightarrow> map_option (\<lambda>n. make_network 4 32 n 32) (ip4_int a)
      | [a, m] \<Rightarrow> (case (ip4_int a, ip4_mask m) of
            (Some n, Some p) \<Rightarrow> Some (make_network 4 32 n p)
          | _ \<Rightarrow> None)
      | _ \<Rightarrow> None)"

section \<open>IPv6\<close>

definition parse_hextet :: "string \<Rightarrow> int option" where
  "parse_hextet s =
     (if s = [] \<or> 4 < length s then None
      else map_option (\<lambda>ds. number_of_digits 16 (map int ds)) (those (map hex_val s)))"

fun show_hex :: "int \<Rightarrow> string" where
  "show_hex n = (if n < 16 then [hex_digit (nat n)]
     else show_hex (n div 16) @ [hex_digit (nat (n mod 16))])"

declare show_hex.simps [simp del]

text \<open>An IPv4-style last part becomes two hextets.\<close>

definition expand_ip4_tail :: "string list \<Rightarrow> string list option" where
  "expand_ip4_tail ps =
     (if CHR ''.'' \<in> set (last ps)
      then map_option (\<lambda>n. butlast ps @ [show_hex (n div 65536), show_hex (n mod 65536)])
             (ip4_int (last ps))
      else Some ps)"

definition hextets_int :: "string list \<Rightarrow> nat \<Rightarrow> string list \<Rightarrow> int option" where
  "hextets_int hi skipped lo =
     (case (those (map parse_hextet hi), those (map parse_hextet lo)) of
        (Some h, Some l) \<Rightarrow> Some (number_of_digits 65536 (h @ replicate skipped 0 @ l))
      | _ \<Rightarrow> None)"

definition ip6_parts_int :: "string list \<Rightarrow> int option" where
  "ip6_parts_int ps =
     (if 9 < length ps then None
      else (case filter (\<lambda>i. ps ! i = []) [1..<length ps - 1] of
          [] \<Rightarrow> if length ps \<noteq> 8 \<or> hd ps = [] \<or> last ps = [] then None
                else hextets_int ps 0 []
        | [k] \<Rightarrow>
            let hi = (if hd ps = [] then k - 1 else k);
                lo = (if last ps = [] then length ps - k - 2 else length ps - k - 1)
            in if (hd ps = [] \<and> hi \<noteq> 0) \<or> (last ps = [] \<and> lo \<noteq> 0) \<or> 8 \<le> hi + lo then None
               else hextets_int (take hi ps) (8 - (hi + lo)) (drop (length ps - lo) ps)
        | _ \<Rightarrow> None))"

definition ip6_int :: "string \<Rightarrow> int option" where
  "ip6_int s =
     (let ps = py_split CHR '':'' s in
      if length ps < 3 then None
      else Option.bind (expand_ip4_tail ps) ip6_parts_int)"

text \<open>\<open>_compress_hextets\<close>: the loop keeps the current and the best run of zeros.\<close>

fun best_zeros :: "nat \<Rightarrow> nat option \<times> nat \<Rightarrow> nat \<times> nat \<Rightarrow> string list \<Rightarrow> nat \<times> nat" where
  "best_zeros i cur best [] = best"
| "best_zeros i (start, len) (bstart, blen) (h # hs) =
     (if h = ''0''
      then let start' = (case start of None \<Rightarrow> i | Some j \<Rightarrow> j) in
           best_zeros (Suc i) (Some start', Suc len)
             (if blen < Suc len then (start', Suc len) else (bstart, blen)) hs
      else best_zeros (Suc i) (None, 0) (bstart, blen) hs)"

definition compress_hextets :: "string list \<Rightarrow> string list" where
  "compress_hextets hs =
     (case best_zeros 0 (None, 0) (0, 0) hs of (b, l) \<Rightarrow>
        if 1 < l
        then (if b = 0 then [[]] else []) @ take b hs @ [[]] @ drop (b + l) hs
               @ (if b + l = length hs then [[]] else [])
        else hs)"

definition ip6_str :: "int \<Rightarrow> string" where
  "ip6_str n = join_str CHR '':''
     (compress_hextets (map (\<lambda>i. show_hex (n div 65536 ^ i mod 65536)) [7, 6, 5, 4, 3, 2, 1, 0]))"

definition ip6_network :: "string \<Rightarrow> network res option" where
  "ip6_network s =
     (case py_split CHR ''/'' s of
        [a] \<Rightarrow> if CHR ''%'' \<in> set a then Some (Inl (Unmodelled ''IPv6 scope identifier''))
               else map_option (\<lambda>n. make_network 6 128 n 128) (ip6_int a)
      | [a, m] \<Rightarrow> if CHR ''%'' \<in> set a then Some (Inl (Unmodelled ''IPv6 scope identifier''))
               else (case (ip6_int a, prefix_from_string 128 m) of
                   (Some n, Some p) \<Rightarrow> Some (make_network 6 128 n p)
                 | _ \<Rightarrow> None)
      | _ \<Rightarrow> None)"

section \<open>Networks\<close>

definition ip_network :: "string \<Rightarrow> network res" where
  "ip_network s = (case ip4_network s of
       Some r \<Rightarrow> r
     | None \<Rightarrow> (case ip6_network s of
           Some r \<Rightarrow> r
         | None \<Rightarrow> Inl (ValueError ''does not appear to be an IPv4 or IPv6 network'')))"

definition network_str :: "network \<Rightarrow> string" where
  "network_str n = (if nw_version n = 4 then ip4_str (nw_address n) else ip6_str (nw_address n))
     @ CHR ''/'' # show_nat (nw_prefixlen n)"

definition network_key :: "string \<Rightarrow> int \<times> nat" where
  "network_key s = (case ip_network s of
     Inr n \<Rightarrow> (nw_address n, nw_prefixlen n) | Inl _ \<Rightarrow> (0, 0))"

text \<open>The form every contract admits: canonical text of a network of the family, not a default route.\<close>

definition canonical_network :: "nat \<Rightarrow> string \<Rightarrow> bool" where
  "canonical_network v s \<longleftrightarrow> (case ip_network s of
     Inr n \<Rightarrow> nw_version n = v \<and> network_str n = s \<and> nw_prefixlen n \<noteq> 0 | Inl _ \<Rightarrow> False)"

text \<open>\<open>sorted(set(texts), key=...)\<close>.\<close>

definition sorted_prefixes :: "string list \<Rightarrow> string list" where
  "sorted_prefixes ss = sort_key network_key (remdups ss)"

definition ordered_prefixes :: "nat \<Rightarrow> string list \<Rightarrow> bool" where
  "ordered_prefixes v ss \<longleftrightarrow> list_all (canonical_network v) ss \<and>
     sorted_wrt (<) (map network_key ss)"

lemma make_network_Inr:
  "make_network v w a p = Inr n \<longleftrightarrow>
     a mod 2 ^ (w - p) = 0 \<and> n = \<lparr>nw_version = v, nw_address = a, nw_prefixlen = p\<rparr>"
  by (auto simp: make_network_def)

lemma canonical_key_inj:
  assumes "canonical_network v s" "canonical_network v t" "network_key s = network_key t"
  shows "s = t"
proof -
  obtain m n where m: "ip_network s = Inr m" "nw_version m = v" "network_str m = s"
    and n: "ip_network t = Inr n" "nw_version n = v" "network_str n = t"
    using assms(1,2) by (auto simp: canonical_network_def split: sum.splits)
  have "network_str m = network_str n"
    using assms(3) m(1,2) n(1,2) by (simp add: network_key_def network_str_def)
  with m(3) n(3) show ?thesis by simp
qed

lemma canonical_inj_on: "list_all (canonical_network v) ss \<Longrightarrow> inj_on network_key (set ss)"
  by (auto simp: inj_on_def list_all_iff intro: canonical_key_inj)

text \<open>Any list of the same texts, without repetition and in key order, is the sorted list.\<close>

lemma sorted_set_unique:
  assumes "list_all (canonical_network v) ss"
    and "distinct xs" "set xs = set ss" "sorted (map network_key xs)"
  shows "xs = sorted_prefixes ss"
proof -
  have inj: "inj_on network_key (set xs)"
    using canonical_inj_on [OF assms(1)] assms(3) by simp
  have "map network_key xs = map network_key (sorted_prefixes ss)"
  proof (rule sorted_distinct_set_unique)
    show "distinct (map network_key xs)" using assms(2) inj by (simp add: distinct_map)
    show "distinct (map network_key (sorted_prefixes ss))"
      using inj assms(3) by (simp add: distinct_map sorted_prefixes_def)
    show "set (map network_key xs) = set (map network_key (sorted_prefixes ss))"
      using assms(3) by (simp add: sorted_prefixes_def)
  qed (use assms(4) in \<open>simp_all add: sorted_prefixes_def\<close>)
  then show ?thesis
    using inj assms(3) by (auto simp: sorted_prefixes_def intro: map_inj_on)
qed

lemma sorted_wrt_less_iff:
  "sorted_wrt (<) (ks :: 'k :: linorder list) \<longleftrightarrow> sorted ks \<and> distinct ks"
  by (simp add: strict_sorted_iff)

lemma ordered_prefixes_iff:
  assumes "list_all (canonical_network v) ss"
  shows "ss = sorted_prefixes ss \<longleftrightarrow> ordered_prefixes v ss"
proof
  assume e: "ss = sorted_prefixes ss"
  have "distinct (sorted_prefixes ss)" "sorted (map network_key (sorted_prefixes ss))"
    by (simp_all add: sorted_prefixes_def)
  then show "ordered_prefixes v ss"
    using e assms canonical_inj_on [OF assms]
    by (simp add: ordered_prefixes_def sorted_wrt_less_iff distinct_map)
next
  assume "ordered_prefixes v ss"
  then show "ss = sorted_prefixes ss"
    using assms by (intro sorted_set_unique) (auto simp: ordered_prefixes_def sorted_wrt_less_iff distinct_map)
qed

lemma set_sorted_prefixes [simp]: "set (sorted_prefixes ss) = set ss"
  by (simp add: sorted_prefixes_def)

lemma ordered_sorted_prefixes:
  assumes "list_all (canonical_network v) ss"
  shows "ordered_prefixes v (sorted_prefixes ss)"
proof -
  have "distinct (map network_key (sorted_prefixes ss))"
    using canonical_inj_on [OF assms] by (simp add: distinct_map sorted_prefixes_def)
  then show ?thesis
    using assms by (simp add: ordered_prefixes_def sorted_wrt_less_iff list_all_iff)
      (simp add: sorted_prefixes_def)
qed

section \<open>A canonical text is not padded\<close>

lemma py_strip_ends:
  assumes "s \<noteq> []" "\<not> space_char (hd s)" "\<not> space_char (last s)"
  shows "py_strip s = s"
proof -
  have "dropWhile space_char s = s" using assms(1,2) by (cases s) simp_all
  moreover have "dropWhile space_char (rev s) = rev s"
    using assms(1,3) by (cases "rev s") (auto simp: last_rev hd_rev dest: arg_cong [where f = hd])
  ultimately show ?thesis by (simp add: py_strip_def)
qed

lemma hex_digit_not_space: "n < 16 \<Longrightarrow> \<not> space_char (hex_digit n)"
  by (auto simp: hex_digit_def space_char_def Let_def)

lemma show_hex_nonempty [simp]: "show_hex n \<noteq> []"
  by (subst show_hex.simps) simp

lemma hd_show_hex: "0 \<le> n \<Longrightarrow> \<not> space_char (hd (show_hex n))"
proof (induction n rule: show_hex.induct)
  case (1 n)
  show ?case
  proof (cases "n < 16")
    case True
    then show ?thesis using 1 by (subst show_hex.simps) (simp add: hex_digit_not_space)
  next
    case False
    with 1 show ?thesis by (subst show_hex.simps) (simp add: hd_append)
  qed
qed

lemma digit_not_space: "digit_char c \<Longrightarrow> \<not> space_char c"
  by (auto simp: digit_char_iff space_char_def Let_def)

lemma show_nat_ends: "digit_char (hd (show_nat n))" "digit_char (last (show_nat n))"
  using show_nat_digits [of n] by (simp_all add: list_all_iff)

lemma hd_join_str: "hd (join_str c (w # v # ws)) = (if w = [] then c else hd w)"
  by simp

lemma compress_hextets_head:
  assumes "compress_hextets (h # i # hs) = ws" "h \<noteq> []" "\<not> space_char (hd h)"
  obtains w v us where "ws = w # v # us" "w = [] \<or> \<not> space_char (hd w)"
proof -
  obtain b l where bl: "best_zeros 0 (None, 0) (0, 0) (h # i # hs) = (b, l)" by (metis prod.collapse)
  consider "l \<le> 1" | "1 < l" "b = 0" | "1 < l" "0 < b" by linarith
  then show thesis
  proof cases
    case 1
    then show ?thesis using assms bl that by (auto simp: compress_hextets_def)
  next
    case 2
    then show ?thesis using assms bl that by (auto simp: compress_hextets_def)
  next
    case 3
    then obtain c where "b = Suc c" by (cases b) auto
    then show ?thesis using assms bl that 3
      by (cases c) (auto simp: compress_hextets_def)
  qed
qed

lemma network_str_stripped:
  shows "network_str n \<noteq> []" and "py_strip (network_str n) = network_str n"
proof -
  let ?a = "if nw_version n = 4 then ip4_str (nw_address n) else ip6_str (nw_address n)"
  have "?a \<noteq> [] \<and> \<not> space_char (hd ?a)"
  proof (cases "nw_version n = 4")
    case True
    then show ?thesis
      by (auto simp: ip4_str_def show_int_def hd_append digit_not_space [OF show_nat_ends(1)])
  next
    case False
    let ?h = "\<lambda>i. show_hex (nw_address n div 65536 ^ i mod 65536)"
    obtain w v us where c: "compress_hextets (map ?h [7, 6, 5, 4, 3, 2, 1, 0]) = w # v # us"
      and w: "w = [] \<or> \<not> space_char (hd w)"
      by (rule compress_hextets_head [of "?h 7" "?h 6" "map ?h [5, 4, 3, 2, 1, 0]", OF refl])
        (auto intro!: hd_show_hex)
    have "\<not> space_char CHR '':''" by code_simp
    then show ?thesis using False c w by (auto simp: ip6_str_def hd_append)
  qed
  moreover have "last (network_str n) = last (show_nat (nw_prefixlen n))"
    by (simp add: network_str_def)
  ultimately show "network_str n \<noteq> []" "py_strip (network_str n) = network_str n"
    using digit_not_space [OF show_nat_ends(2) [of "nw_prefixlen n"]]
    by (auto intro!: py_strip_ends simp: network_str_def hd_append)
qed

lemma canonical_network_stripped:
  "canonical_network v s \<Longrightarrow> s \<noteq> [] \<and> py_strip s = s"
  using network_str_stripped by (auto simp: canonical_network_def split: sum.splits)

end
