(* ===== verification/Utc_Time.thy ===== *)
theory Utc_Time
  imports Json_Codec
begin

text \<open>
  UTC instants as the contracts use Python's \<open>datetime\<close>: \<open>fromtimestamp(seconds, UTC)\<close>,
  \<open>strptime\<close> of fixed-width fields, and \<open>isoformat\<close>. An instant is its number of seconds
  since 1970-01-01T00:00:00Z; the years 1 to 9999 are representable.

  The main fact is the round trip of the civil calendar (\<open>civil_days\<close>): the day number of a
  valid date determines the date.
\<close>

definition leap_year :: "int \<Rightarrow> bool" where
  "leap_year y \<longleftrightarrow> 4 dvd y \<and> (\<not> 100 dvd y \<or> 400 dvd y)"

definition days_in_month :: "int \<Rightarrow> int \<Rightarrow> int" where
  "days_in_month y m = (if m = 2 then (if leap_year y then 29 else 28)
     else if m \<in> {4, 6, 9, 11} then 30 else 31)"

text \<open>Days from 0001-01-01 to the first of January of a year, and to the first of a month in it.\<close>

definition days_before_year :: "int \<Rightarrow> int" where
  "days_before_year y = (y - 1) * 365 + (y - 1) div 4 - (y - 1) div 100 + (y - 1) div 400"

definition days_before_month :: "int \<Rightarrow> int \<Rightarrow> int" where
  "days_before_month y m = sum_list (map (days_in_month y) [1..m - 1])"

definition civil_day :: "int \<Rightarrow> int \<Rightarrow> int \<Rightarrow> int" where
  "civil_day y m d = days_before_year y + days_before_month y m + d - 1 - 719162"

definition valid_civil :: "int \<Rightarrow> int \<Rightarrow> int \<Rightarrow> int \<Rightarrow> int \<Rightarrow> int \<Rightarrow> bool" where
  "valid_civil y m d h mi s \<longleftrightarrow> 1 \<le> y \<and> y \<le> 9999 \<and> 1 \<le> m \<and> m \<le> 12 \<and>
     1 \<le> d \<and> d \<le> days_in_month y m \<and> 0 \<le> h \<and> h \<le> 23 \<and> 0 \<le> mi \<and> mi \<le> 59 \<and> 0 \<le> s \<and> s \<le> 59"

definition civil_seconds :: "int \<Rightarrow> int \<Rightarrow> int \<Rightarrow> int \<Rightarrow> int \<Rightarrow> int \<Rightarrow> int" where
  "civil_seconds y m d h mi s = civil_day y m d * 86400 + h * 3600 + mi * 60 + s"

definition max_instant :: int where "max_instant = 253402300799"
definition min_instant :: int where "min_instant = - 62135596800"

text \<open>\<open>datetime.fromtimestamp(n, UTC)\<close> of an integer.\<close>

definition from_timestamp :: "int \<Rightarrow> int res" where
  "from_timestamp n =
     (if n < min_instant \<or> max_instant < n then Inl (ValueError ''year is out of range'') else Inr n)"

text \<open>
  \<open>int(digits)\<close>: CPython refuses more than 4300 digits with a \<open>ValueError\<close>.
\<close>

definition digits_value :: "string \<Rightarrow> int" where
  "digits_value s = foldl (\<lambda>n c. 10 * n + int (digit_val c)) 0 s"

definition int_of_digits :: "string \<Rightarrow> int res" where
  "int_of_digits s = (if 4300 < length s then Inl (ValueError ''too many digits'')
     else Inr (digits_value s))"

text \<open>
  \<open>strptime\<close> on text that the caller has already matched against a pattern of fixed-width
  digit fields, four for the year and two for each other field, separated by one character.
\<close>

definition field :: "nat \<Rightarrow> nat \<Rightarrow> string \<Rightarrow> int" where
  "field i n s = digits_value (take n (drop i s))"

definition strptime_fixed :: "string \<Rightarrow> int res" where
  "strptime_fixed s =
     (let y = field 0 4 s; m = field 5 2 s; d = field 8 2 s;
          h = field 11 2 s; mi = field 14 2 s; sec = field 17 2 s in
      if valid_civil y m d h mi sec then Inr (civil_seconds y m d h mi sec)
      else Inl (ValueError ''time data does not match''))"

text \<open>\<open>instant + timedelta(seconds=n)\<close>.\<close>

definition add_seconds :: "int \<Rightarrow> int \<Rightarrow> int res" where
  "add_seconds t n = (if min_instant \<le> t + n \<and> t + n \<le> max_instant then Inr (t + n)
     else Inl OverflowError)"

lemma add_seconds_Inr_iff: "add_seconds t n = Inr u \<longleftrightarrow> u = t + n \<and> min_instant \<le> u \<and> u \<le> max_instant"
  by (auto simp: add_seconds_def)

lemma from_timestamp_Inr_iff: "from_timestamp n = Inr t \<longleftrightarrow> t = n \<and> min_instant \<le> n \<and> n \<le> max_instant"
  by (auto simp: from_timestamp_def)

section \<open>The calendar\<close>

lemma days_before_month_values:
  "days_before_month y 1 = 0" "days_before_month y 2 = 31"
  "days_before_month y 3 = 31 + days_in_month y 2" "days_before_month y 4 = 62 + days_in_month y 2"
  "days_before_month y 5 = 92 + days_in_month y 2" "days_before_month y 6 = 123 + days_in_month y 2"
  "days_before_month y 7 = 153 + days_in_month y 2" "days_before_month y 8 = 184 + days_in_month y 2"
  "days_before_month y 9 = 215 + days_in_month y 2" "days_before_month y 10 = 245 + days_in_month y 2"
  "days_before_month y 11 = 276 + days_in_month y 2" "days_before_month y 12 = 306 + days_in_month y 2"
  "days_before_month y 13 = 337 + days_in_month y 2"
  by (simp_all add: days_before_month_def upto_rec1 days_in_month_def)

lemma days_before_month_step:
  "1 \<le> m \<Longrightarrow> days_before_month y (m + 1) = days_before_month y m + days_in_month y m"
  by (simp add: days_before_month_def upto_rec2)

lemma days_in_month_pos: "28 \<le> days_in_month y m" "days_in_month y m \<le> 31"
  by (simp_all add: days_in_month_def)

lemma days_before_month_mono: "1 \<le> m \<Longrightarrow> m \<le> n \<Longrightarrow> days_before_month y m \<le> days_before_month y n"
proof (induction "nat (n - m)" arbitrary: n)
  case (Suc k)
  then have "days_before_month y m \<le> days_before_month y (n - 1)" by simp
  also have "\<dots> \<le> days_before_month y n"
    using days_before_month_step [of "n - 1" y] days_in_month_pos(1) [of y "n - 1"] Suc by simp
  finally show ?case .
qed simp

lemma days_before_year_step:
  "days_before_year (y + 1) = days_before_year y + (if leap_year y then 366 else 365)"
proof -
  have *: "y div k - (y - 1) div k = (if k dvd y then 1 else 0)" if "0 < k" for k :: int
  proof (cases "k dvd y")
    case True
    then obtain c where "y = k * c" by blast
    moreover have "(k * c - 1) div k = c - 1"
      using that by (intro int_div_pos_eq [of _ _ _ "k - 1"]) (auto simp: algebra_simps)
    ultimately show ?thesis using that by simp
  next
    case False
    then have "0 < y mod k" "y mod k < k"
      using that pos_mod_sign [of k y] pos_mod_bound [of k y]
      by (auto simp: dvd_eq_mod_eq_0 order_less_le)
    then have "y mod k - 1 < k" "0 \<le> y mod k - 1" by linarith+
    then have "(y - 1) div k = y div k"
      by (intro int_div_pos_eq [of _ _ _ "y mod k - 1"]) (simp_all add: algebra_simps)
    with False show ?thesis by simp
  qed
  have d: "(100 :: int) dvd y \<Longrightarrow> 4 dvd y" "(400 :: int) dvd y \<Longrightarrow> 100 dvd y"
    by (auto intro: dvd_trans [of 4 100] dvd_trans [of 100 400])
  have "days_before_year (y + 1) - days_before_year y =
      365 + (y div 4 - (y - 1) div 4) - (y div 100 - (y - 1) div 100) + (y div 400 - (y - 1) div 400)"
    by (simp add: days_before_year_def algebra_simps)
  then show ?thesis using d by (cases "400 dvd y"; cases "100 dvd y"; cases "4 dvd y") (simp_all add: * leap_year_def)
qed

lemma days_before_year_mono: "x \<le> y \<Longrightarrow> days_before_year x \<le> days_before_year y"
proof (induction "nat (y - x)" arbitrary: y)
  case (Suc k)
  then have "days_before_year x \<le> days_before_year (y - 1)" by simp
  also have "\<dots> \<le> days_before_year y"
    using days_before_year_step [of "y - 1"] by simp
  finally show ?case .
qed simp

text \<open>A valid date lies inside its month, and the month inside its year.\<close>

lemma month_end:
  assumes "1 \<le> m" "m \<le> 12" "d \<le> days_in_month y m"
  shows "days_before_month y m + d \<le> (if leap_year y then 366 else 365)"
proof -
  have "days_before_month y m + d \<le> days_before_month y (m + 1)"
    using assms days_before_month_step [of m y] by simp
  also have "\<dots> \<le> days_before_month y 13" using assms by (intro days_before_month_mono) simp_all
  also have "\<dots> = (if leap_year y then 366 else 365)"
    by (simp add: days_before_month_values days_in_month_def)
  finally show ?thesis .
qed

lemma civil_year_less:
  assumes "1 \<le> m" "m \<le> 12" "d \<le> days_in_month y m" "1 \<le> m'" "1 \<le> d'" "y < y'"
  shows "civil_day y m d < civil_day y' m' d'"
proof -
  have "days_before_year y + days_before_month y m + d \<le> days_before_year (y + 1)"
    using month_end [OF assms(1-3)] days_before_year_step [of y] by simp
  also have "\<dots> \<le> days_before_year y'" using assms(6) by (intro days_before_year_mono) simp
  moreover have "0 \<le> days_before_month y' m'"
    using days_before_month_mono [of 1 m' y'] assms by (simp add: days_before_month_values)
  ultimately show ?thesis using assms(5) by (simp add: civil_day_def)
qed

lemma civil_month_less:
  assumes "1 \<le> m" "d \<le> days_in_month y m" "1 \<le> d'" "m < m'"
  shows "civil_day y m d < civil_day y m' d'"
proof -
  have "days_before_month y m + d \<le> days_before_month y (m + 1)"
    using assms days_before_month_step [of m y] by simp
  also have "\<dots> \<le> days_before_month y m'" using assms by (intro days_before_month_mono) simp_all
  finally show ?thesis using assms(3) by (simp add: civil_day_def)
qed

lemma civil_days:
  assumes "valid_civil y m d h mi s" "valid_civil y' m' d' h' mi' s'"
    and "civil_day y m d = civil_day y' m' d'"
  shows "y = y' \<and> m = m' \<and> d = d'"
proof -
  have "y = y'"
    using assms civil_year_less [of m d y m' d' y'] civil_year_less [of m' d' y' m d y]
    by (auto simp: valid_civil_def) (meson linorder_neqE)
  moreover from this have "m = m'"
    using assms civil_month_less [of m d y d' m'] civil_month_less [of m' d' y d m]
    by (auto simp: valid_civil_def intro: antisym leI)
  ultimately show ?thesis using assms(3) by (simp add: civil_day_def)
qed

lemma quotient_inj:
  fixes a b u v n :: int
  assumes "a * n + u = b * n + v" "0 \<le> u" "u < n" "0 \<le> v" "v < n"
  shows "a = b \<and> u = v"
proof -
  have "(c * n + w) div n = c" if "0 \<le> w" "w < n" for c w
    using that by simp
  from this [OF assms(2,3), of a] this [OF assms(4,5), of b]
  have "a = b" using assms(1) by metis
  with assms(1) show ?thesis by simp
qed

lemma clock_inj:
  fixes h mi s h' mi' s' :: int
  assumes "h * 3600 + mi * 60 + s = h' * 3600 + mi' * 60 + s'"
    and "0 \<le> mi" "mi \<le> 59" "0 \<le> s" "s \<le> 59" "0 \<le> mi'" "mi' \<le> 59" "0 \<le> s'" "s' \<le> 59"
  shows "h = h' \<and> mi = mi' \<and> s = s'"
proof -
  have "h * 60 + mi = h' * 60 + mi' \<and> s = s'" using assms by (intro quotient_inj [of _ 60]) simp_all
  moreover from this have "h = h' \<and> mi = mi'" using assms by (intro quotient_inj [of _ 60]) simp_all
  ultimately show ?thesis by simp
qed

lemma civil_seconds_inj:
  assumes "valid_civil y m d h mi s" "valid_civil y' m' d' h' mi' s'"
    and "civil_seconds y m d h mi s = civil_seconds y' m' d' h' mi' s'"
  shows "(y, m, d, h, mi, s) = (y', m', d', h', mi', s')"
proof -
  have "civil_day y m d = civil_day y' m' d' \<and> h * 3600 + mi * 60 + s = h' * 3600 + mi' * 60 + s'"
    using assms by (intro quotient_inj [of _ 86400]) (simp_all add: valid_civil_def civil_seconds_def)
  then show ?thesis
    using civil_days [OF assms(1,2)] clock_inj [of h mi s h' mi' s'] assms(1,2)
    by (simp add: valid_civil_def)
qed

end
