(* ===== verification/Prefix_Lkg.thy ===== *)
theory Prefix_Lkg
  imports Json_Roundtrip Ip_Network Utc_Time
begin

text \<open>
  The pure part of \<open>scripts/cloudfront-origin-prefix-lkg.py\<close>: normalisation of the provider's
  prefix document into a candidate, validation of a candidate, and admission of a candidate as
  the successor of the accepted one. The file store is in \<open>Prefix_Store\<close>.

  \<open>hashlib.sha256(...).hexdigest()\<close> is the parameter \<open>sha\<close>: what is proved holds for every
  digest function, and the few statements that need more name what they need.
\<close>

section \<open>Documents\<close>

definition SOURCE_URL :: string where
  "SOURCE_URL = ''https://ip-ranges.amazonaws.com/ip-ranges.json''"

definition SERVICE :: string where "SERVICE = ''CLOUDFRONT_ORIGIN_FACING''"
definition SCHEMA_VERSION :: int where "SCHEMA_VERSION = 1"
definition MAX_STATE_BYTES :: int where "MAX_STATE_BYTES = 1024 * 1024"
definition MAX_PROVIDER_FUTURE_SKEW_SECONDS :: int where "MAX_PROVIDER_FUTURE_SKEW_SECONDS = 300"

definition closed_object :: "pydict \<Rightarrow> pyval res" where
  "closed_object pairs =
     (if distinct (map fst pairs) then Inr (PDict pairs) else Inl (ValueError ''duplicate JSON key''))"

definition decode_json :: "string \<Rightarrow> pyval res" where
  "decode_json content = bind_res (utf8_decode content)
     (json_loads \<lparr>pairs_hook = closed_object, constants_ok = False\<rparr>)"

definition canonical_bytes :: "pydict \<Rightarrow> string res" where
  "canonical_bytes document = bind_res (dumps (PDict document)) (\<lambda>s. Inr (s @ [CHR 0x0A]))"

definition without_key :: "string \<Rightarrow> pydict \<Rightarrow> pydict" where
  "without_key k d = filter (\<lambda>(k', _). k' \<noteq> k) d"

definition candidate_digest :: "(string \<Rightarrow> string) \<Rightarrow> pydict \<Rightarrow> string res" where
  "candidate_digest sha candidate =
     bind_res (canonical_bytes (without_key ''candidate_sha256'' candidate)) (\<lambda>b. Inr (sha b))"

definition require_string :: "pydict \<Rightarrow> string \<Rightarrow> string res" where
  "require_string document name =
     (case dget document name of
        PStr s \<Rightarrow> if s = [] then Inl (ContractError (''source provenance field '' @ name @ '' is missing or invalid''))
                  else Inr s
      | _ \<Rightarrow> Inl (ContractError (''source provenance field '' @ name @ '' is missing or invalid'')))"

section \<open>Provenance\<close>

definition rx_digits :: "nat \<Rightarrow> rx" where
  "rx_digits n = rx_rep n (Cls digit_char)"

definition sync_token_rx :: rx where
  "sync_token_rx = Seq (Cls (\<lambda>c. digit_char c \<and> c \<noteq> CHR ''0'')) (Star (Cls digit_char))"

definition create_date_rx :: rx where
  "create_date_rx = Seq (rx_digits 4) (rx_rep 5 (Seq (rx_chr CHR ''-'') (rx_digits 2)))"

definition retrieved_at_rx :: rx where
  "retrieved_at_rx =
     Seq (rx_digits 4) (Seq (rx_chr CHR ''-'') (Seq (rx_digits 2) (Seq (rx_chr CHR ''-'') (
     Seq (rx_digits 2) (Seq (rx_chr CHR ''T'') (Seq (rx_digits 2) (Seq (rx_chr CHR '':'') (
     Seq (rx_digits 2) (Seq (rx_chr CHR '':'') (Seq (rx_digits 2) (rx_chr CHR ''Z'')))))))))))"

definition freshness :: "string \<Rightarrow> string \<Rightarrow> string \<Rightarrow> (int \<times> int \<times> int) res" where
  "freshness sync_token create_date retrieved_at = catch_res
     (bind_res (bind_res (int_of_digits sync_token) from_timestamp) (\<lambda>t.
      bind_res (strptime_fixed create_date) (\<lambda>p.
      bind_res (strptime_fixed retrieved_at) (\<lambda>r. Inr (t, p, r)))))
     (\<lambda>e. case e of
        OSError _ \<Rightarrow> Inl (ContractError ''source freshness metadata is invalid'')
      | OverflowError \<Rightarrow> Inl (ContractError ''source freshness metadata is invalid'')
      | ValueError _ \<Rightarrow> Inl (ContractError ''source freshness metadata is invalid'')
      | _ \<Rightarrow> Inl e)"

definition validate_provenance :: "string \<Rightarrow> string \<Rightarrow> string \<Rightarrow> int res" where
  "validate_provenance sync_token create_date retrieved_at =
     (if \<not> fullmatch sync_token_rx sync_token
      then Inl (ContractError ''source sync token is invalid'')
      else if \<not> fullmatch create_date_rx create_date
      then Inl (ContractError ''source creation date is invalid'')
      else if \<not> fullmatch retrieved_at_rx retrieved_at
      then Inl (ContractError ''retrieval timestamp is not canonical UTC'')
      else bind_res (freshness sync_token create_date retrieved_at) (\<lambda>(t, p, r).
        if t \<noteq> p then Inl (ContractError ''source publication metadata is inconsistent'')
        else bind_res (add_seconds r MAX_PROVIDER_FUTURE_SKEW_SECONDS) (\<lambda>limit.
          if limit < t
          then Inl (ContractError ''source publication time is materially in the future'')
          else Inr t)))"

section \<open>Prefixes\<close>

definition parse_network :: "pyval \<Rightarrow> nat \<Rightarrow> string res" where
  "parse_network v version =
     (case v of
        PStr s \<Rightarrow>
          if s = [] \<or> py_strip s \<noteq> s then Inl (ContractError ''source CIDR is missing or ambiguous'')
          else bind_res
            (catch_res (ip_network s) (\<lambda>e. case e of
               ValueError _ \<Rightarrow> Inl (ContractError ''source CIDR is malformed'') | _ \<Rightarrow> Inl e))
            (\<lambda>n. if nw_version n \<noteq> version \<or> network_str n \<noteq> s
                 then Inl (ContractError ''source CIDR is non-canonical or wrong family'')
                 else if nw_prefixlen n = 0
                 then Inl (ContractError ''source CIDR must not be a default route'')
                 else Inr (network_str n))
      | _ \<Rightarrow> Inl (ContractError ''source CIDR is missing or ambiguous''))"

definition nonempty_str :: "pyval \<Rightarrow> bool" where
  "nonempty_str v = (case v of PStr s \<Rightarrow> s \<noteq> [] | _ \<Rightarrow> False)"

definition entry_fields :: "string \<Rightarrow> string list" where
  "entry_fields key = [key, ''region'', ''service'', ''network_border_group'']"

text \<open>The body of the loop over the entries; \<open>selected\<close> is the set built so far.\<close>

fun select_entries ::
  "string \<Rightarrow> string \<Rightarrow> nat \<Rightarrow> pyval list \<Rightarrow> string list \<Rightarrow> string list res" where
  "select_entries collection key version [] selected = Inr selected"
| "select_entries collection key version (e # es) selected =
     (case e of
        PDict entry \<Rightarrow>
          if \<not> set (entry_fields key) \<subseteq> dkeys entry
          then Inl (ContractError (''source '' @ collection @ '' entry has an invalid schema''))
          else if \<not> list_all (\<lambda>f. nonempty_str (dget entry f)) (entry_fields key)
          then Inl (ContractError (''source '' @ collection @ '' entry contains an invalid value''))
          else bind_res (parse_network (dget entry key) version) (\<lambda>prefix.
            if \<not> py_eq (dget entry ''service'') (PStr SERVICE)
            then select_entries collection key version es selected
            else if prefix \<in> set selected
            then Inl (ContractError ''source contains duplicate selected CIDRs'')
            else select_entries collection key version es (selected @ [prefix]))
      | _ \<Rightarrow> Inl (ContractError (''source '' @ collection @ '' entry has an invalid schema'')))"

definition select_prefixes :: "pydict \<Rightarrow> string \<Rightarrow> string \<Rightarrow> nat \<Rightarrow> string list res" where
  "select_prefixes document collection key version =
     (case dget document collection of
        PList entries \<Rightarrow>
          bind_res (select_entries collection key version entries []) (\<lambda>selected.
            if selected = []
            then Inl (ContractError (''source has no '' @ SERVICE @ '' IPv'' @ show_nat version @ '' prefixes''))
            else Inr (sorted_prefixes selected))
      | _ \<Rightarrow> Inl (ContractError (''source collection '' @ collection @ '' is missing or invalid'')))"

section \<open>Candidates\<close>

definition candidate_body ::
  "string \<Rightarrow> string \<Rightarrow> string \<Rightarrow> string list \<Rightarrow> string list \<Rightarrow> pydict" where
  "candidate_body sync_token create_date retrieved_at v4 v6 =
     [(''schema_version'', PInt SCHEMA_VERSION),
      (''source_url'', PStr SOURCE_URL),
      (''source_sync_token'', PStr sync_token),
      (''source_create_date'', PStr create_date),
      (''retrieved_at'', PStr retrieved_at),
      (''service'', PStr SERVICE),
      (''ipv4_prefixes'', PList (map PStr v4)),
      (''ipv6_prefixes'', PList (map PStr v6))]"

definition build_candidate :: "(string \<Rightarrow> string) \<Rightarrow> pyval \<Rightarrow> pyval \<Rightarrow> pydict res" where
  "build_candidate sha source retrieved_at =
     (case source of
        PDict src \<Rightarrow>
          if \<not> {''syncToken'', ''createDate'', ''prefixes'', ''ipv6_prefixes''} \<subseteq> dkeys src
          then Inl (ContractError ''source document has an invalid schema'')
          else (case retrieved_at of
             PStr at \<Rightarrow>
               if \<not> ends_with ''Z'' at then Inl (ContractError ''retrieval timestamp is invalid'')
               else bind_res (require_string src ''syncToken'') (\<lambda>sync_token.
                 bind_res (require_string src ''createDate'') (\<lambda>create_date.
                 bind_res (validate_provenance sync_token create_date at) (\<lambda>_.
                 bind_res (select_prefixes src ''prefixes'' ''ip_prefix'' 4) (\<lambda>v4.
                 bind_res (select_prefixes src ''ipv6_prefixes'' ''ipv6_prefix'' 6) (\<lambda>v6.
                 let candidate = candidate_body sync_token create_date at v4 v6 in
                 bind_res (candidate_digest sha candidate) (\<lambda>h.
                 Inr (dput ''candidate_sha256'' (PStr h) candidate)))))))
           | _ \<Rightarrow> Inl (ContractError ''retrieval timestamp is invalid''))
      | _ \<Rightarrow> Inl (ContractError ''source document has an invalid schema''))"

definition candidate_fields :: "string list" where
  "candidate_fields = [''schema_version'', ''source_url'', ''source_sync_token'',
     ''source_create_date'', ''retrieved_at'', ''service'', ''ipv4_prefixes'', ''ipv6_prefixes'',
     ''candidate_sha256'']"

definition check_family :: "pyval \<Rightarrow> nat \<Rightarrow> unit res" where
  "check_family prefixes version =
     (case prefixes of
        PList ps \<Rightarrow>
          if ps = [] then Inl (ContractError ''candidate has an empty prefix family'')
          else bind_res (map_res (\<lambda>p. parse_network p version) ps) (\<lambda>normalized.
            if \<not> py_eq prefixes (PList (map PStr (sorted_prefixes normalized)))
            then Inl (ContractError ''candidate prefixes are not deterministic'')
            else Inr ())
      | _ \<Rightarrow> Inl (ContractError ''candidate has an empty prefix family''))"

definition the_str :: "pyval \<Rightarrow> string" where
  "the_str v = (case v of PStr s \<Rightarrow> s | _ \<Rightarrow> [])"

definition provenance_of :: "pydict \<Rightarrow> int res" where
  "provenance_of d = validate_provenance (the_str (dget d ''source_sync_token''))
     (the_str (dget d ''source_create_date'')) (the_str (dget d ''retrieved_at''))"

definition validate_candidate :: "(string \<Rightarrow> string) \<Rightarrow> pyval \<Rightarrow> unit res" where
  "validate_candidate sha candidate =
     (case candidate of
        PDict d \<Rightarrow>
          if dkeys d \<noteq> set candidate_fields
          then Inl (ContractError ''candidate has an invalid schema'')
          else if \<not> is_int (dget d ''schema_version'')
            \<or> \<not> py_eq (dget d ''schema_version'') (PInt SCHEMA_VERSION)
            \<or> \<not> py_eq (dget d ''source_url'') (PStr SOURCE_URL)
            \<or> \<not> py_eq (dget d ''service'') (PStr SERVICE)
          then Inl (ContractError ''candidate identity is invalid'')
          else if \<not> list_all (\<lambda>f. nonempty_str (dget d f))
            [''source_sync_token'', ''source_create_date'', ''retrieved_at'', ''candidate_sha256'']
          then Inl (ContractError ''candidate provenance is invalid'')
          else bind_res (provenance_of d) (\<lambda>_.
            seq_res (check_family (dget d ''ipv4_prefixes'') 4) (
            seq_res (check_family (dget d ''ipv6_prefixes'') 6) (
            bind_res (candidate_digest sha d) (\<lambda>h.
              if \<not> py_eq (dget d ''candidate_sha256'') (PStr h)
              then Inl (ContractError ''candidate digest does not bind its contents'')
              else Inr ()))))
      | _ \<Rightarrow> Inl (ContractError ''candidate has an invalid schema''))"

section \<open>Successors\<close>

definition candidate_content :: "pydict \<Rightarrow> pyval" where
  "candidate_content d = PTuple [dget d ''source_url'', dget d ''service'',
     dget d ''ipv4_prefixes'', dget d ''ipv6_prefixes'']"

definition admit_successor :: "(string \<Rightarrow> string) \<Rightarrow> pydict option \<Rightarrow> pydict \<Rightarrow> unit res" where
  "admit_successor sha accepted candidate =
     seq_res (validate_candidate sha (PDict candidate))
       (case accepted of
          None \<Rightarrow> Inr ()
        | Some acc \<Rightarrow>
            seq_res (validate_candidate sha (PDict acc)) (
            bind_res (provenance_of candidate) (\<lambda>cv.
            bind_res (provenance_of acc) (\<lambda>av.
              if cv < av
              then Inl (ContractError ''candidate would roll back the provider publication'')
              else if cv = av \<and> \<not> py_eq (candidate_content candidate) (candidate_content acc)
              then Inl (ContractError ''same provider publication has conflicting normalized content'')
              else Inr ()))))"

end
