(* ===== verification/Canonical_Digest.thy ===== *)
theory Canonical_Digest
  imports Json_Roundtrip
begin

text \<open>
  Digests of canonical documents. Every contract that binds data by a digest hashes the
  canonical text of a dictionary; what it relies on is that equal texts mean equal documents.
  The interface is a locale over the encoder; each module's encoder interprets it.

  The lemmas below take an equation between canonical dictionaries with the same keys apart
  into its fields, so that a binding theorem is a list of field equations.
\<close>

text \<open>
  The one way two documents can share a digest without being equal: their own encoded texts
  are two different inputs with the same hash.
\<close>

definition collide :: "(pydict \<Rightarrow> string res) \<Rightarrow> (string \<Rightarrow> string) \<Rightarrow> pydict \<Rightarrow> pydict \<Rightarrow> bool" where
  "collide enc sha a b \<longleftrightarrow> (\<exists>x y. enc a = Inr x \<and> enc b = Inr y \<and> x \<noteq> y \<and> sha x = sha y)"

locale canonical_codec =
  fixes encode :: "pydict \<Rightarrow> string res"
  assumes encode_inj: "plain (PDict a) \<Longrightarrow> plain (PDict b) \<Longrightarrow> encode a = Inr s \<Longrightarrow> encode b = Inr s \<Longrightarrow>
      canon (PDict a) = canon (PDict b)"
    and encode_ok: "plain (PDict a) \<Longrightarrow> \<exists>s. encode a = Inr s"
begin

lemma digest_binds:
  assumes "plain (PDict a)" "plain (PDict b)"
    and "bind_res (encode a) (\<lambda>s. Inr (sha s)) = Inr h" "bind_res (encode b) (\<lambda>s. Inr (sha s)) = Inr h"
  shows "canon (PDict a) = canon (PDict b) \<or> collide encode sha a b"
proof -
  obtain s t where "encode a = Inr s" "encode b = Inr t" "sha s = h" "sha t = h"
    using assms(3,4) by (auto simp: bind_res_Inr_iff)
  then show ?thesis
  proof (cases "s = t")
    case True
    then show ?thesis using encode_inj [OF assms(1,2)] \<open>encode a = Inr s\<close> \<open>encode b = Inr t\<close> by blast
  next
    case False
    then have "collide encode sha a b"
      using \<open>sha s = h\<close> \<open>sha t = h\<close> \<open>encode a = Inr s\<close> \<open>encode b = Inr t\<close> by (auto simp: collide_def)
    then show ?thesis ..
  qed
qed

lemma digest_ok: "plain (PDict a) \<Longrightarrow> \<exists>h. bind_res (encode a) (\<lambda>s. Inr (sha s)) = Inr h"
  using encode_ok [of a] by (auto simp: bind_res_Inr_iff)

end

text \<open>The canonical text, with and without the final newline.\<close>

definition encode_text :: "pydict \<Rightarrow> string res" where
  "encode_text d = dumps (PDict d)"

definition encode_line :: "pydict \<Rightarrow> string res" where
  "encode_line d = bind_res (dumps (PDict d)) (\<lambda>s. Inr (s @ [CHR 0x0A]))"

interpretation plain_text: canonical_codec encode_text
proof
  show "canon (PDict a) = canon (PDict b)"
    if "plain (PDict a)" "plain (PDict b)" "encode_text a = Inr s" "encode_text b = Inr s" for a b s
    using that dumps_inj [of "PDict a" "PDict b"] by (simp add: encode_text_def)
  show "\<exists>s. encode_text a = Inr s" if "plain (PDict a)" for a
    using that loads_dumps [OF closing_open, of "PDict a"] unfolding encode_text_def by metis
qed

interpretation text_line: canonical_codec encode_line
proof
  show "canon (PDict a) = canon (PDict b)"
    if "plain (PDict a)" "plain (PDict b)" "encode_line a = Inr s" "encode_line b = Inr s" for a b s
    using that dumps_inj [of "PDict a" "PDict b"] by (auto simp: encode_line_def bind_res_Inr_iff)
  show "\<exists>s. encode_line a = Inr s" if "plain (PDict a)" for a
    using plain_text.encode_ok [OF that] by (auto simp: encode_line_def encode_text_def bind_res_Inr_iff)
qed

section \<open>Fields\<close>

lemma canon_same_keys:
  assumes "distinct (map fst a)" and "map fst b = map fst a"
  shows "canon (PDict a) = canon (PDict b) \<longleftrightarrow> map (canon \<circ> snd) a = map (canon \<circ> snd) b"
proof -
  let ?f = "\<lambda>(k :: string, v). (k, canon v)"
  have b: "distinct (map fst b)" using assms by simp
  have k: "map fst (map ?f xs) = map fst xs" for xs :: pydict by (induction xs) auto
  have s: "map snd (map ?f xs) = map (canon \<circ> snd) xs" for xs :: pydict by (induction xs) auto
  have "canon (PDict a) = canon (PDict b) \<longleftrightarrow> set (map ?f a) = set (map ?f b)"
    using canon_dict_iff [OF assms(1) b] by simp
  also have "\<dots> \<longleftrightarrow> map_of (map ?f a) = map_of (map ?f b)"
    using assms b k by (metis map_of_inject_set)
  also have "\<dots> \<longleftrightarrow> map ?f a = map ?f b"
  proof
    assume e: "map_of (map ?f a) = map_of (map ?f b)"
    have "map snd (map ?f xs) = map (\<lambda>x. the (map_of (map ?f xs) x)) (map fst (map ?f xs))"
      if "distinct (map fst (map ?f xs))" for xs
      using that by (auto simp del: map_map intro!: nth_equalityI simp: map_of_eq_Some_iff)
        (metis nth_mem map_of_is_SomeI option.sel prod.collapse length_map nth_map)
    from this [of a] this [of b] have "map snd (map ?f a) = map snd (map ?f b)"
      using e assms b k by (simp only:)
    then show "map ?f a = map ?f b" using k assms(2) by (metis zip_map_fst_snd)
  qed simp
  also have "\<dots> \<longleftrightarrow> map (canon \<circ> snd) a = map (canon \<circ> snd) b"
    using k s assms(2) by (metis zip_map_fst_snd)
  finally show ?thesis .
qed

lemma canon_strings: "canon (PList (map PStr xs)) = PList (map PStr xs)"
  by simp

lemma map_PStr_inj: "map PStr xs = map PStr ys \<longleftrightarrow> xs = ys"
  by (simp add: inj_def)

lemma plain_strings: "plain (PList (map PStr xs))"
  by (simp add: list_all_iff)

end
