(* ===== verification/Prefix_Facts.thy ===== *)
theory Prefix_Facts
  imports Prefix_Lkg Canonical_Digest
begin

text \<open>
  What the pure part of \<open>scripts/cloudfront-origin-prefix-lkg.py\<close> guarantees: a built candidate
  is valid and holds exactly the selected networks; a valid candidate is bound by its digest;
  the sequence of accepted candidates never goes back in publication time.
\<close>

section \<open>Provenance\<close>

lemma freshness_Inr_iff:
  "freshness tok cd ra = Inr (t, p, r) \<longleftrightarrow>
     bind_res (int_of_digits tok) from_timestamp = Inr t \<and> strptime_fixed cd = Inr p \<and>
     strptime_fixed ra = Inr r"
  by (auto simp: freshness_def catch_res_def bind_res_Inr_iff split: sum.splits exc.splits)

lemma validate_provenance_Inr:
  "validate_provenance tok cd ra = Inr t \<Longrightarrow>
     strptime_fixed cd = Inr t \<and> t = digits_value tok \<and>
     (\<exists>r. strptime_fixed ra = Inr r \<and> t \<le> r + MAX_PROVIDER_FUTURE_SKEW_SECONDS)"
  by (auto simp: validate_provenance_def res_simps freshness_Inr_iff from_timestamp_Inr_iff
      int_of_digits_def add_seconds_Inr_iff split: if_splits)

lemma sync_token_nonempty: "fullmatch sync_token_rx s \<Longrightarrow> s \<noteq> []"
  by (auto simp: sync_token_rx_def)

lemma validate_provenance_nonempty:
  "validate_provenance tok cd ra = Inr t \<Longrightarrow> tok \<noteq> [] \<and> cd \<noteq> [] \<and> ra \<noteq> []"
  by (auto simp: validate_provenance_def sync_token_rx_def create_date_rx_def retrieved_at_rx_def
      rx_digits_def eval_nat_numeral split: if_splits)

section \<open>Prefixes\<close>

lemma parse_network_Inr_iff [res_simps]:
  "parse_network v version = Inr p \<longleftrightarrow> v = PStr p \<and> canonical_network version p"
proof
  assume "parse_network v version = Inr p"
  then show "v = PStr p \<and> canonical_network version p"
    by (auto simp: parse_network_def res_simps catch_res_def canonical_network_def
        split: pyval.splits if_splits sum.splits exc.splits)
next
  assume "v = PStr p \<and> canonical_network version p"
  then show "parse_network v version = Inr p"
    using canonical_network_stripped [of version p]
    by (auto simp: parse_network_def canonical_network_def split: sum.splits)
qed

lemma py_eq_strs: "py_eq (PList (map PStr xs)) (PList (map PStr ys)) \<longleftrightarrow> xs = ys"
  by (auto simp: list_all_length list_eq_iff_nth_eq)

lemma check_family_Inr_iff [res_simps]:
  "check_family v version = Inr () \<longleftrightarrow>
     (\<exists>ps. v = PList (map PStr ps) \<and> ps \<noteq> [] \<and> ordered_prefixes version ps)"
proof
  assume a: "check_family v version = Inr ()"
  then obtain vs ps where v: "v = PList vs" "vs \<noteq> []" "map_res (\<lambda>p. parse_network p version) vs = Inr ps"
    and e: "py_eq v (PList (map PStr (sorted_prefixes ps)))"
    by (auto simp: check_family_def res_simps split: pyval.splits if_splits)
  have c: "vs = map PStr ps" "list_all (canonical_network version) ps"
    using v(3) by (auto simp: map_res_Inr_iff parse_network_Inr_iff list_all2_conv_all_nth
        list_all_length intro!: nth_equalityI)
  then have "ps = sorted_prefixes ps" using e v(1) by (simp only: py_eq_strs)
  then show "\<exists>ps. v = PList (map PStr ps) \<and> ps \<noteq> [] \<and> ordered_prefixes version ps"
    using v c ordered_prefixes_iff [OF c(2)] by auto
next
  assume "\<exists>ps. v = PList (map PStr ps) \<and> ps \<noteq> [] \<and> ordered_prefixes version ps"
  then obtain ps where v: "v = PList (map PStr ps)" "ps \<noteq> []" and o: "ordered_prefixes version ps"
    by blast
  have c: "list_all (canonical_network version) ps" using o by (simp add: ordered_prefixes_def)
  have "map_res (\<lambda>p. parse_network p version) (map PStr ps) = Inr ps"
    using c by (auto simp: map_res_Inr_iff parse_network_Inr_iff list_all2_conv_all_nth list_all_length)
  moreover have "ps = sorted_prefixes ps" using o ordered_prefixes_iff [OF c] by simp
  ultimately show "check_family v version = Inr ()"
    using v py_eq_strs [of ps ps] by (simp add: check_family_def del: py_eq.simps)
qed

text \<open>The networks of the entries of the selected service, in the order of the document.\<close>

fun service_prefixes :: "string \<Rightarrow> pyval list \<Rightarrow> string list" where
  "service_prefixes key [] = []"
| "service_prefixes key (e # es) =
     (case e of
        PDict entry \<Rightarrow> if dget entry ''service'' = PStr SERVICE then [the_str (dget entry key)] else []
      | _ \<Rightarrow> []) @ service_prefixes key es"

lemma select_entries_Inr:
  "select_entries c key version es sel = Inr out \<Longrightarrow>
     out = sel @ service_prefixes key es \<and>
     (list_all (canonical_network version) sel \<longrightarrow> list_all (canonical_network version) out) \<and>
     (distinct sel \<longrightarrow> distinct out)"
proof (induction es arbitrary: sel)
  case (Cons e es)
  then obtain entry p where e: "e = PDict entry" "dget entry key = PStr p" "canonical_network version p"
    and r: "(if dget entry ''service'' \<noteq> PStr SERVICE then select_entries c key version es sel
        else if p \<in> set sel then Inl (ContractError ''source contains duplicate selected CIDRs'')
        else select_entries c key version es (sel @ [p])) = Inr out"
    by (auto simp: res_simps split: pyval.splits if_splits)
  show ?case
  proof (cases "dget entry ''service'' = PStr SERVICE")
    case True
    then have "p \<notin> set sel" "select_entries c key version es (sel @ [p]) = Inr out"
      using r by (auto split: if_splits)
    then show ?thesis
      using Cons.IH [of "sel @ [p]"] e True by (auto simp: the_str_def)
  next
    case False
    then show ?thesis using Cons.IH [of sel] e r by auto
  qed
qed simp

lemma select_prefixes_Inr:
  assumes "select_prefixes doc c key version = Inr ps"
  shows "\<exists>es. dget doc c = PList es \<and> ps = sorted_prefixes (service_prefixes key es) \<and>
     ps \<noteq> [] \<and> ordered_prefixes version ps \<and> set ps = set (service_prefixes key es)"
proof -
  obtain es sel where es: "dget doc c = PList es" "select_entries c key version es [] = Inr sel"
    and "sel \<noteq> []" "ps = sorted_prefixes sel"
    using assms by (auto simp: select_prefixes_def res_simps split: pyval.splits if_splits)
  moreover have "sel = service_prefixes key es" "list_all (canonical_network version) sel"
    using select_entries_Inr [OF es(2)] by auto
  ultimately show ?thesis
    using ordered_sorted_prefixes [of version sel] set_sorted_prefixes [of sel]
    by (metis set_empty)
qed

section \<open>Built candidates\<close>

lemma candidate_body_get:
  "dget (dput ''candidate_sha256'' (PStr h) (candidate_body tok cd ra v4 v6)) k =
     (if k = ''candidate_sha256'' then PStr h else dget (candidate_body tok cd ra v4 v6) k)"
  by (simp add: dget_def)

lemma body_fields [simp]:
  "dget (candidate_body tok cd ra v4 v6) ''schema_version'' = PInt SCHEMA_VERSION"
  "dget (candidate_body tok cd ra v4 v6) ''source_url'' = PStr SOURCE_URL"
  "dget (candidate_body tok cd ra v4 v6) ''source_sync_token'' = PStr tok"
  "dget (candidate_body tok cd ra v4 v6) ''source_create_date'' = PStr cd"
  "dget (candidate_body tok cd ra v4 v6) ''retrieved_at'' = PStr ra"
  "dget (candidate_body tok cd ra v4 v6) ''service'' = PStr SERVICE"
  "dget (candidate_body tok cd ra v4 v6) ''ipv4_prefixes'' = PList (map PStr v4)"
  "dget (candidate_body tok cd ra v4 v6) ''ipv6_prefixes'' = PList (map PStr v6)"
  by (simp_all add: candidate_body_def dget_def)

lemma body_keys:
  "dkeys (dput ''candidate_sha256'' (PStr h) (candidate_body tok cd ra v4 v6)) = set candidate_fields"
  by (auto simp: dkeys_def candidate_body_def candidate_fields_def)

lemma body_without_digest:
  "without_key ''candidate_sha256'' (dput ''candidate_sha256'' v (candidate_body tok cd ra v4 v6)) =
     candidate_body tok cd ra v4 v6"
  "without_key ''candidate_sha256'' (candidate_body tok cd ra v4 v6) = candidate_body tok cd ra v4 v6"
  by (simp_all add: without_key_def candidate_body_def)

text \<open>What a returned candidate is made of.\<close>

lemma build_candidate_Inr:
  assumes "build_candidate sha source retrieved = Inr c"
  obtains src ra tok cd t v4 v6 h where
    "source = PDict src" "retrieved = PStr ra"
    "dget src ''syncToken'' = PStr tok" "dget src ''createDate'' = PStr cd"
    "validate_provenance tok cd ra = Inr t"
    "select_prefixes src ''prefixes'' ''ip_prefix'' 4 = Inr v4"
    "select_prefixes src ''ipv6_prefixes'' ''ipv6_prefix'' 6 = Inr v6"
    "candidate_digest sha (candidate_body tok cd ra v4 v6) = Inr h"
    "c = dput ''candidate_sha256'' (PStr h) (candidate_body tok cd ra v4 v6)"
  using assms
  by (auto simp: build_candidate_def res_simps require_string_def Let_def
      split: pyval.splits if_splits)

text \<open>Property C9: every candidate that \<open>build_candidate\<close> returns passes \<open>validate_candidate\<close>:
  the normaliser and the validator agree on schema, identity, provenance, the order and form of
  both prefix families and the digest.\<close>

theorem built_candidate_is_valid:
  assumes "build_candidate sha source retrieved_at = Inr c" and "\<forall>b. sha b \<noteq> []"
  shows "validate_candidate sha (PDict c) = Inr ()"
  using assms(1)
proof (rule build_candidate_Inr)
  fix src ra tok cd t v4 v6 h
  assume t: "validate_provenance tok cd ra = Inr t"
    and v4: "select_prefixes src ''prefixes'' ''ip_prefix'' 4 = Inr v4"
    and v6: "select_prefixes src ''ipv6_prefixes'' ''ipv6_prefix'' 6 = Inr v6"
    and h: "candidate_digest sha (candidate_body tok cd ra v4 v6) = Inr h"
    and c: "c = dput ''candidate_sha256'' (PStr h) (candidate_body tok cd ra v4 v6)"
  have "h \<noteq> []" using h assms(2) by (auto simp: candidate_digest_def res_simps)
  moreover have "candidate_digest sha c = Inr h"
    using h by (simp add: candidate_digest_def c body_without_digest)
  moreover have "check_family (PList (map PStr v4)) 4 = Inr ()" "check_family (PList (map PStr v6)) 6 = Inr ()"
    using select_prefixes_Inr [OF v4] select_prefixes_Inr [OF v6] by (auto simp: check_family_Inr_iff)
  ultimately show ?thesis
    using validate_provenance_nonempty [OF t] t body_keys [of h tok cd ra v4 v6]
    by (simp add: validate_candidate_def c [symmetric] del: py_eq.simps)
      (simp add: c candidate_body_get nonempty_str_def provenance_of_def the_str_def)
qed

text \<open>A small provider document and digest function for concrete runs.\<close>

definition sample_sha :: "string \<Rightarrow> string" where
  "sample_sha b = replicate 64 CHR ''a''"

definition sample_entry :: "string \<Rightarrow> string \<Rightarrow> string \<Rightarrow> pyval" where
  "sample_entry key p svc = PDict [(key, PStr p), (''region'', PStr ''GLOBAL''),
     (''service'', PStr svc), (''network_border_group'', PStr ''GLOBAL'')]"

definition sample_source :: pydict where
  "sample_source = [(''syncToken'', PStr ''1772323200''), (''createDate'', PStr ''2026-03-01-00-00-00''),
     (''prefixes'', PList [sample_entry ''ip_prefix'' ''203.0.113.0/24'' SERVICE,
        sample_entry ''ip_prefix'' ''198.51.100.0/24'' ''S3'',
        sample_entry ''ip_prefix'' ''192.0.2.0/24'' SERVICE]),
     (''ipv6_prefixes'', PList [sample_entry ''ipv6_prefix'' ''2001:db8::/32'' SERVICE])]"

definition sample_retrieved :: string where "sample_retrieved = ''2026-03-01T00:05:00Z''"

definition sample_candidate :: pydict where
  "sample_candidate = dput ''candidate_sha256'' (PStr (sample_sha []))
     (candidate_body ''1772323200'' ''2026-03-01-00-00-00'' sample_retrieved
        [''192.0.2.0/24'', ''203.0.113.0/24''] [''2001:db8::/32''])"

lemma sample_builds:
  "build_candidate sample_sha (PDict sample_source) (PStr sample_retrieved) = Inr sample_candidate"
  by code_simp

theorem built_candidate_is_valid_witness:
  "validate_candidate sample_sha (PDict sample_candidate) = Inr ()"
  using built_candidate_is_valid [OF sample_builds] by (simp add: sample_sha_def)

text \<open>Property C8: the candidate holds exactly the networks the provider lists for the service:
  each family is the set of the prefixes of the entries with that service, every one in
  canonical text of its family and never a default route, in strictly increasing network order,
  hence without repetition; and neither family is empty.\<close>

theorem built_candidate_selects_service:
  assumes "build_candidate sha (PDict src) retrieved_at = Inr c"
  shows "\<exists>es4 es6 v4 v6. dget src ''prefixes'' = PList es4 \<and> dget src ''ipv6_prefixes'' = PList es6 \<and>
     dget c ''ipv4_prefixes'' = PList (map PStr v4) \<and> dget c ''ipv6_prefixes'' = PList (map PStr v6) \<and>
     set v4 = set (service_prefixes ''ip_prefix'' es4) \<and>
     set v6 = set (service_prefixes ''ipv6_prefix'' es6) \<and>
     ordered_prefixes 4 v4 \<and> ordered_prefixes 6 v6 \<and> v4 \<noteq> [] \<and> v6 \<noteq> []"
  using assms
proof (rule build_candidate_Inr)
  fix src' ra tok cd t v4 v6 h
  assume "PDict src = PDict src'" "select_prefixes src' ''prefixes'' ''ip_prefix'' 4 = Inr v4"
    "select_prefixes src' ''ipv6_prefixes'' ''ipv6_prefix'' 6 = Inr v6"
    and c: "c = dput ''candidate_sha256'' (PStr h) (candidate_body tok cd ra v4 v6)"
  moreover have "dget c ''ipv4_prefixes'' = PList (map PStr v4)" "dget c ''ipv6_prefixes'' = PList (map PStr v6)"
    by (simp_all add: c candidate_body_get)
  ultimately show ?thesis
    by (auto dest!: select_prefixes_Inr)
qed

theorem built_candidate_selects_service_witness:
  "\<exists>es4 v4. dget sample_source ''prefixes'' = PList es4 \<and>
     dget sample_candidate ''ipv4_prefixes'' = PList (map PStr v4) \<and>
     set v4 = set (service_prefixes ''ip_prefix'' es4)"
  using built_candidate_selects_service [OF sample_builds] by blast

section \<open>Valid candidates\<close>

lemma dget_str_iff: "py_eq (dget d k) (PStr s) \<longleftrightarrow> dget d k = PStr s"
  by (rule py_eq_str)

lemma nonempty_str_iff: "nonempty_str v \<longleftrightarrow> (\<exists>s. v = PStr s \<and> s \<noteq> [])"
  by (auto simp: nonempty_str_def split: pyval.splits)

text \<open>The contents of a valid candidate, by field.\<close>

lemma valid_candidate_fields:
  assumes "validate_candidate sha (PDict d) = Inr ()"
  shows "dkeys d = set candidate_fields"
    and "dget d ''schema_version'' = PInt SCHEMA_VERSION"
    and "dget d ''source_url'' = PStr SOURCE_URL"
    and "dget d ''service'' = PStr SERVICE"
    and "\<exists>s. dget d ''source_sync_token'' = PStr s"
    and "\<exists>s. dget d ''source_create_date'' = PStr s"
    and "\<exists>s. dget d ''retrieved_at'' = PStr s"
    and "\<exists>t. provenance_of d = Inr t"
    and "\<exists>ps. dget d ''ipv4_prefixes'' = PList (map PStr ps) \<and> ps \<noteq> [] \<and> ordered_prefixes 4 ps"
    and "\<exists>ps. dget d ''ipv6_prefixes'' = PList (map PStr ps) \<and> ps \<noteq> [] \<and> ordered_prefixes 6 ps"
    and "\<exists>h. candidate_digest sha d = Inr h \<and> dget d ''candidate_sha256'' = PStr h"
proof -
  have v: "dkeys d = set candidate_fields"
    "is_int (dget d ''schema_version'')" "py_eq (dget d ''schema_version'') (PInt SCHEMA_VERSION)"
    "py_eq (dget d ''source_url'') (PStr SOURCE_URL)" "py_eq (dget d ''service'') (PStr SERVICE)"
    "nonempty_str (dget d ''source_sync_token'')" "nonempty_str (dget d ''source_create_date'')"
    "nonempty_str (dget d ''retrieved_at'')"
    "\<exists>t. provenance_of d = Inr t"
    "check_family (dget d ''ipv4_prefixes'') 4 = Inr ()" "check_family (dget d ''ipv6_prefixes'') 6 = Inr ()"
    "\<exists>h. candidate_digest sha d = Inr h \<and> py_eq (dget d ''candidate_sha256'') (PStr h)"
    using assms
    by (simp_all add: validate_candidate_def bind_res_Inr_iff seq_res_Inr_iff raise_Inr_iff
        del: py_eq.simps split: if_splits)
  show "dkeys d = set candidate_fields" by (fact v(1))
  show "dget d ''schema_version'' = PInt SCHEMA_VERSION" using v(2,3) by (auto simp: is_int_iff)
  show "dget d ''source_url'' = PStr SOURCE_URL" "dget d ''service'' = PStr SERVICE"
    using v(4,5) by (simp_all only: py_eq_str)
  show "\<exists>s. dget d ''source_sync_token'' = PStr s" "\<exists>s. dget d ''source_create_date'' = PStr s"
    "\<exists>s. dget d ''retrieved_at'' = PStr s"
    using v(6-8) by (auto simp: nonempty_str_iff)
  show "\<exists>t. provenance_of d = Inr t" by (fact v(9))
  show "\<exists>ps. dget d ''ipv4_prefixes'' = PList (map PStr ps) \<and> ps \<noteq> [] \<and> ordered_prefixes 4 ps"
    "\<exists>ps. dget d ''ipv6_prefixes'' = PList (map PStr ps) \<and> ps \<noteq> [] \<and> ordered_prefixes 6 ps"
    using v(10,11) by (simp_all only: check_family_Inr_iff)
  show "\<exists>h. candidate_digest sha d = Inr h \<and> dget d ''candidate_sha256'' = PStr h"
    using v(12) by (simp only: py_eq_str)
qed

lemma plain_valid_candidate:
  assumes "validate_candidate sha (PDict d) = Inr ()" and "distinct (map fst d)"
  shows "plain (PDict d)"
proof -
  note f = valid_candidate_fields [OF assms(1)]
  have p: "plain (dget d k)" if "k \<in> set candidate_fields" for k
    using that f(2-7,9-11) plain_strings unfolding candidate_fields_def
    by (auto simp del: plain.simps(1))
  have "plain v" if "(k, v) \<in> set d" for k v
  proof -
    have "map_of d k = Some v" using that assms(2) by simp
    then have "dget d k = v" "k \<in> dkeys d" by (auto simp: dget_def in_dkeys_iff)
    with p [of k] f(1) show ?thesis by simp
  qed
  then show ?thesis using assms(2) by (auto simp: list_all_iff)
qed

lemma plain_without: "plain (PDict d) \<Longrightarrow> plain (PDict (without_key k d))"
  by (auto simp: without_key_def list_all_iff intro!: distinct_map_filter)

lemma set_without: "set (without_key k d) = {kv \<in> set d. fst kv \<noteq> k}"
  by (auto simp: without_key_def)

lemma canonical_bytes_line: "canonical_bytes d = encode_line d"
  by (simp add: canonical_bytes_def encode_line_def)

text \<open>Equal without the digest field, and with the same digest field, is equal.\<close>

lemma canon_without:
  assumes "distinct (map fst a)" "distinct (map fst b)" "k \<in> dkeys a" "k \<in> dkeys b"
    and "canon (PDict (without_key k a)) = canon (PDict (without_key k b))"
    and "dget a k = dget b k"
  shows "canon (PDict a) = canon (PDict b)"
proof -
  let ?f = "\<lambda>(k :: string, v). (k, canon v)"
  have split: "?f ` set d = insert (k, canon (dget d k)) (?f ` set (without_key k d))"
    if d: "distinct (map fst d)" "k \<in> dkeys d" for d
  proof -
    obtain v where v: "map_of d k = Some v" using d(2) unfolding in_dkeys_iff by blast
    then have "set d = insert (k, v) (set (without_key k d))"
      using d(1) by (auto simp: set_without dest: map_of_SomeD eq_key_imp_eq_value)
    then show ?thesis using v by (simp add: dget_def)
  qed
  have d: "distinct (map fst (without_key k a))" "distinct (map fst (without_key k b))"
    using assms(1,2) by (auto simp: without_key_def intro: distinct_map_filter)
  show ?thesis
    using assms(5,6) split [OF assms(1,3)] split [OF assms(2,4)]
    unfolding canon_dict_iff [OF d] canon_dict_iff [OF assms(1,2)] by metis
qed

text \<open>Property C10: the digest binds a candidate: two valid candidates with the same
  \<open>candidate_sha256\<close> are the same document up to the order of its keys, unless their canonical
  bytes are a collision of the digest function. Acknowledging a digest therefore acknowledges
  one content.\<close>

theorem candidate_digest_binds:
  assumes "validate_candidate sha (PDict a) = Inr ()" and "validate_candidate sha (PDict b) = Inr ()"
    and "distinct (map fst a)" and "distinct (map fst b)"
    and "dget a ''candidate_sha256'' = dget b ''candidate_sha256''"
  shows "canon (PDict a) = canon (PDict b) \<or>
    collide canonical_bytes sha (without_key ''candidate_sha256'' a) (without_key ''candidate_sha256'' b)"
proof -
  let ?k = "''candidate_sha256''"
  obtain h where h: "candidate_digest sha a = Inr h" "candidate_digest sha b = Inr h"
    using valid_candidate_fields(11) [OF assms(1)] valid_candidate_fields(11) [OF assms(2)] assms(5)
    by auto
  have p: "plain (PDict (without_key ?k a))" "plain (PDict (without_key ?k b))"
    using plain_valid_candidate assms plain_without by blast+
  have k: "?k \<in> dkeys a" "?k \<in> dkeys b"
    using valid_candidate_fields(1) [OF assms(1)] valid_candidate_fields(1) [OF assms(2)]
    by (simp_all add: candidate_fields_def)
  from text_line.digest_binds [OF p] h show ?thesis
    unfolding candidate_digest_def canonical_bytes_line collide_def using canon_without [OF assms(3,4) k _ assms(5)] by blast
qed

theorem candidate_digest_binds_witness:
  "canon (PDict sample_candidate) = canon (PDict (rev sample_candidate)) \<or>
     collide canonical_bytes sample_sha (without_key ''candidate_sha256'' sample_candidate)
       (without_key ''candidate_sha256'' (rev sample_candidate))"
proof (rule candidate_digest_binds)
  show v: "validate_candidate sample_sha (PDict sample_candidate) = Inr ()" by code_simp
  show "validate_candidate sample_sha (PDict (rev sample_candidate)) = Inr ()" by code_simp
  show d: "distinct (map fst sample_candidate)" by code_simp
  then show "distinct (map fst (rev sample_candidate))" by (simp add: rev_map [symmetric])
  show "dget sample_candidate ''candidate_sha256'' = dget (rev sample_candidate) ''candidate_sha256''"
    by code_simp
qed

section \<open>Succession\<close>

definition publication :: "pydict \<Rightarrow> int" where
  "publication d = (case provenance_of d of Inr t \<Rightarrow> t | Inl _ \<Rightarrow> 0)"

text \<open>Accepting candidates one after another, each against the last accepted one.\<close>

fun accept_chain :: "(string \<Rightarrow> string) \<Rightarrow> pydict option \<Rightarrow> pydict list \<Rightarrow> unit res" where
  "accept_chain sha acc [] = Inr ()"
| "accept_chain sha acc (c # cs) =
     seq_res (admit_successor sha acc c) (accept_chain sha (Some c) cs)"

lemma content_eq_iff:
  assumes "validate_candidate sha (PDict a) = Inr ()" "validate_candidate sha (PDict b) = Inr ()"
  shows "py_eq (candidate_content a) (candidate_content b) \<longleftrightarrow> candidate_content a = candidate_content b"
proof -
  obtain p4 p6 q4 q6 where
    "dget a ''ipv4_prefixes'' = PList (map PStr p4)" "dget a ''ipv6_prefixes'' = PList (map PStr p6)"
    "dget b ''ipv4_prefixes'' = PList (map PStr q4)" "dget b ''ipv6_prefixes'' = PList (map PStr q6)"
    using valid_candidate_fields(9,10) [OF assms(1)] valid_candidate_fields(9,10) [OF assms(2)] by blast
  then show ?thesis
    using valid_candidate_fields(3,4) [OF assms(1)] valid_candidate_fields(3,4) [OF assms(2)]
      py_eq_strs [of p4 q4] py_eq_strs [of p6 q6]
    by (simp add: candidate_content_def inj_def del: py_eq.simps(1))
qed

lemma admit_successor_Inr:
  "admit_successor sha acc c = Inr () \<longleftrightarrow> validate_candidate sha (PDict c) = Inr () \<and>
     (\<forall>a. acc = Some a \<longrightarrow> validate_candidate sha (PDict a) = Inr () \<and> publication a \<le> publication c \<and>
        (publication a = publication c \<longrightarrow> candidate_content c = candidate_content a))"
proof (cases "validate_candidate sha (PDict c) = Inr ()")
  case c: True
  show ?thesis
  proof (cases acc)
    case None
    with c show ?thesis by (simp add: admit_successor_def)
  next
    case (Some a)
    show ?thesis
    proof (cases "validate_candidate sha (PDict a) = Inr ()")
      case True
      obtain s t where "provenance_of c = Inr s" "provenance_of a = Inr t"
        using valid_candidate_fields(8) [OF c] valid_candidate_fields(8) [OF True] by blast
      with c True Some content_eq_iff [OF c True] show ?thesis
        by (auto simp: admit_successor_def publication_def simp del: py_eq.simps)
    qed (use Some c in \<open>auto simp: admit_successor_def seq_res_Inr_iff\<close>)
  qed
qed (auto simp: admit_successor_def seq_res_Inr_iff)

definition succeeds :: "pydict \<Rightarrow> pydict \<Rightarrow> bool" where
  "succeeds a c \<longleftrightarrow> publication a \<le> publication c \<and>
     (publication a = publication c \<longrightarrow> candidate_content a = candidate_content c)"

lemma transp_succeeds: "transp succeeds"
  by (auto simp: transp_def succeeds_def)

lemma accept_chain_succeeds:
  "accept_chain sha acc cs = Inr () \<Longrightarrow>
     successively succeeds cs \<and> (\<forall>a. acc = Some a \<longrightarrow> cs \<noteq> [] \<longrightarrow> succeeds a (hd cs))"
proof (induction cs arbitrary: acc)
  case (Cons c cs)
  then have "admit_successor sha acc c = Inr ()" "accept_chain sha (Some c) cs = Inr ()"
    by (simp_all add: seq_res_Inr_iff)
  with Cons.IH [of "Some c"] show ?case
    by (cases cs) (auto simp: admit_successor_Inr succeeds_def)
qed simp

text \<open>Property C7: over any sequence of accepted candidates the publication time never goes back,
  and two accepted candidates with the same publication time, however far apart, have the same
  source, service and prefixes.\<close>

theorem accepted_chain_is_monotone:
  assumes "accept_chain sha None cs = Inr ()" and "i < j" and "j < length cs"
  shows "publication (cs ! i) \<le> publication (cs ! j) \<and>
    (publication (cs ! i) = publication (cs ! j) \<longrightarrow>
       candidate_content (cs ! i) = candidate_content (cs ! j))"
proof -
  have "sorted_wrt succeeds cs"
    using accept_chain_succeeds [OF assms(1)] by (simp add: successively_conv_sorted_wrt [OF transp_succeeds])
  then show ?thesis using assms(2,3) by (simp add: sorted_wrt_iff_nth_less succeeds_def)
qed

theorem accepted_chain_is_monotone_witness:
  "publication sample_candidate \<le> publication (rev sample_candidate)"
proof -
  have "accept_chain sample_sha None [sample_candidate, rev sample_candidate] = Inr ()" by code_simp
  from accepted_chain_is_monotone [OF this, of 0 1] show ?thesis by simp
qed

section \<open>An exception outside the error contract\<close>

text \<open>The skew is added to the retrieval time outside the \<open>try\<close>, so a retrieval
  time in the last five minutes of the year 9999 makes \<open>build_candidate\<close> raise
  \<open>OverflowError\<close> instead of \<open>ContractError\<close> on an otherwise valid source document.\<close>

theorem late_retrieval_overflows:
  "build_candidate sample_sha (PDict sample_source) (PStr ''9999-12-31T23:59:59Z'') = Inl OverflowError"
  by code_simp

end
