(* ===== verification/File_System.thy ===== *)
theory File_System
  imports Prelude "HOL-Library.Word"
begin

unbundle bit_operations_syntax

text \<open>
  The operating system as the state stores use it. A computation of type \<open>'a io\<close> takes the
  world and returns a value or an exception together with the new world. Every system call may
  fail: the environment decides, for each call in order, whether it raises \<open>OSError\<close> (of a
  kind that is not \<open>FileNotFoundError\<close>: that one is raised exactly when the file is missing); a
  failed call changes nothing but the clock. The statements of the
  development quantify over all environments, hence over every combination of failing calls.

  Not modelled: processes that change the same directory without holding the store's lock.
  A descriptor is therefore the path it was opened at.
\<close>

section \<open>Computations\<close>

type_synonym mode = "12 word"
type_synonym path = "string list"

datatype kind = K_Dir | K_Reg | K_Lnk | K_Other

record node =
  nd_kind :: kind
  nd_uid :: nat
  nd_mode :: mode
  nd_nlink :: nat
  nd_ino :: nat
  nd_bytes :: string

record os =
  os_nodes :: "path \<Rightarrow> node option"
  os_next_ino :: nat
  os_calls :: nat
  os_clock :: int

datatype flock = Locked | Busy | Broken

text \<open>Per call: whether it fails, the time it takes, the answer of \<open>flock\<close>, and the
  name \<open>mkstemp\<close> picks.\<close>

record os_env =
  env_euid :: nat
  env_umask :: mode
  env_fault :: "nat \<Rightarrow> bool"
  env_delay :: "nat \<Rightarrow> nat"
  env_flock :: "nat \<Rightarrow> flock"
  env_temp :: "nat \<Rightarrow> string"

type_synonym 'a io = "os \<Rightarrow> 'a res \<times> os"

definition lift_io :: "'a res \<Rightarrow> 'a io" where
  "lift_io r w = (r, w)"

definition bind_io :: "'a io \<Rightarrow> ('a \<Rightarrow> 'b io) \<Rightarrow> 'b io" where
  "bind_io m f w = (case m w of (Inl e, w') \<Rightarrow> (Inl e, w') | (Inr x, w') \<Rightarrow> f x w')"

definition catch_io :: "'a io \<Rightarrow> (exc \<Rightarrow> 'a io) \<Rightarrow> 'a io" where
  "catch_io m h w = (case m w of (Inl e, w') \<Rightarrow> h e w' | (Inr x, w') \<Rightarrow> (Inr x, w'))"

text \<open>\<open>try: m finally: k\<close>: an exception of \<open>k\<close> replaces the outcome of \<open>m\<close>.\<close>

definition finally_io :: "'a io \<Rightarrow> unit io \<Rightarrow> 'a io" where
  "finally_io m k w = (case m w of (r, w') \<Rightarrow>
     (case k w' of (Inl e, w'') \<Rightarrow> (Inl e, w'') | (Inr _, w'') \<Rightarrow> (r, w'')))"

text \<open>\<open>except OSError: raise e\<close> and \<open>except OSError: pass\<close>.\<close>

definition os_error_to :: "exc \<Rightarrow> 'a io \<Rightarrow> 'a io" where
  "os_error_to e m = catch_io m (\<lambda>x. case x of OSError _ \<Rightarrow> lift_io (Inl e) | _ \<Rightarrow> lift_io (Inl x))"

definition ignore_os_error :: "unit io \<Rightarrow> unit io" where
  "ignore_os_error m = catch_io m (\<lambda>x. case x of OSError _ \<Rightarrow> lift_io (Inr ()) | _ \<Rightarrow> lift_io (Inl x))"

section \<open>System calls\<close>

definition sys :: "os_env \<Rightarrow> 'a io \<Rightarrow> 'a io" where
  "sys env f w =
     (let n = os_calls w;
          w1 = w\<lparr>os_calls := Suc n, os_clock := os_clock w + int (env_delay env n)\<rparr> in
      if env_fault env n then (Inl (OSError ''EIO''), w1) else f w1)"

definition ENOENT :: exc where "ENOENT = OSError ''ENOENT''"

definition set_node :: "path \<Rightarrow> node option \<Rightarrow> os \<Rightarrow> os" where
  "set_node p n w = w\<lparr>os_nodes := (os_nodes w)(p := n)\<rparr>"

definition new_node :: "path \<Rightarrow> kind \<Rightarrow> nat \<Rightarrow> mode \<Rightarrow> os \<Rightarrow> os" where
  "new_node p k uid m w =
     (set_node p (Some \<lparr>nd_kind = k, nd_uid = uid, nd_mode = m, nd_nlink = (if k = K_Dir then 2 else 1),
        nd_ino = os_next_ino w, nd_bytes = []\<rparr>) w)\<lparr>os_next_ino := Suc (os_next_ino w)\<rparr>"

definition lstat :: "os_env \<Rightarrow> path \<Rightarrow> node io" where
  "lstat env p = sys env (\<lambda>w. case os_nodes w p of None \<Rightarrow> (Inl ENOENT, w) | Some n \<Rightarrow> (Inr n, w))"

definition mkdir :: "os_env \<Rightarrow> path \<Rightarrow> mode \<Rightarrow> unit io" where
  "mkdir env p m = sys env (\<lambda>w. case os_nodes w p of
     Some _ \<Rightarrow> (Inl (OSError ''EEXIST''), w)
   | None \<Rightarrow> (Inr (), new_node p K_Dir (env_euid env) (m AND NOT (env_umask env)) w))"

text \<open>\<open>os.open\<close> without following a symbolic link, for reading or for writing, and of a directory.\<close>

definition open_nofollow :: "os_env \<Rightarrow> path \<Rightarrow> bool \<Rightarrow> mode option \<Rightarrow> unit io" where
  "open_nofollow env p writing create = sys env (\<lambda>w. case os_nodes w p of
     None \<Rightarrow> (case create of
         None \<Rightarrow> (Inl ENOENT, w)
       | Some m \<Rightarrow> (Inr (), new_node p K_Reg (env_euid env) (m AND NOT (env_umask env)) w))
   | Some n \<Rightarrow> (if nd_kind n = K_Lnk then (Inl (OSError ''ELOOP''), w)
              else if nd_kind n = K_Dir \<and> writing then (Inl (OSError ''EISDIR''), w)
              else (Inr (), w)))"

definition open_directory :: "os_env \<Rightarrow> path \<Rightarrow> unit io" where
  "open_directory env p = sys env (\<lambda>w. case os_nodes w p of
     None \<Rightarrow> (Inl ENOENT, w)
   | Some n \<Rightarrow> (if nd_kind n = K_Dir then (Inr (), w) else (Inl (OSError ''ENOTDIR''), w)))"

text \<open>Calls that change nothing the model sees: \<open>fsync\<close>, \<open>close\<close>, \<open>flush\<close>, \<open>fdopen\<close>.\<close>

definition touch_call :: "os_env \<Rightarrow> unit io" where
  "touch_call env = sys env (lift_io (Inr ()))"

definition mkstemp :: "os_env \<Rightarrow> path \<Rightarrow> string \<Rightarrow> path io" where
  "mkstemp env dir prefix w0 = sys env (\<lambda>w.
     let p = dir @ [prefix @ env_temp env (os_calls w0)] in
     (case os_nodes w p of
        Some _ \<Rightarrow> (Inl (OSError ''EEXIST''), w)
      | None \<Rightarrow> (Inr p, new_node p K_Reg (env_euid env) 0x180 w))) w0"

definition update_node :: "path \<Rightarrow> (node \<Rightarrow> node) \<Rightarrow> os \<Rightarrow> unit res \<times> os" where
  "update_node p f w = (case os_nodes w p of
     None \<Rightarrow> (Inl ENOENT, w) | Some n \<Rightarrow> (Inr (), set_node p (Some (f n)) w))"

definition fchmod :: "os_env \<Rightarrow> path \<Rightarrow> mode \<Rightarrow> unit io" where
  "fchmod env p m = sys env (update_node p (\<lambda>n. n\<lparr>nd_mode := m\<rparr>))"

definition write_bytes :: "os_env \<Rightarrow> path \<Rightarrow> string \<Rightarrow> unit io" where
  "write_bytes env p b = sys env (update_node p (\<lambda>n. n\<lparr>nd_bytes := nd_bytes n @ b\<rparr>))"

definition at_most :: "int \<Rightarrow> string \<Rightarrow> string" where
  "at_most limit b = (if int (length b) \<le> limit then b else take (nat limit) b)"

definition read_bytes :: "os_env \<Rightarrow> path \<Rightarrow> int \<Rightarrow> string io" where
  "read_bytes env p limit = sys env (\<lambda>w. case os_nodes w p of
     None \<Rightarrow> (Inl ENOENT, w) | Some n \<Rightarrow> (Inr (at_most limit (nd_bytes n)), w))"

definition replace :: "os_env \<Rightarrow> path \<Rightarrow> path \<Rightarrow> unit io" where
  "replace env src dst = sys env (\<lambda>w. case os_nodes w src of
     None \<Rightarrow> (Inl ENOENT, w)
   | Some n \<Rightarrow> (if (case os_nodes w dst of Some m \<Rightarrow> nd_kind m = K_Dir | None \<Rightarrow> False) then (Inl (OSError ''EISDIR''), w)
              else (Inr (), set_node dst (Some n) (set_node src None w))))"

definition unlink :: "os_env \<Rightarrow> path \<Rightarrow> unit io" where
  "unlink env p = sys env (\<lambda>w. case os_nodes w p of
     None \<Rightarrow> (Inl ENOENT, w) | Some _ \<Rightarrow> (Inr (), set_node p None w))"

text \<open>\<open>time.sleep\<close>: at least the given time passes.\<close>

definition sleep :: "os_env \<Rightarrow> int \<Rightarrow> os \<Rightarrow> os" where
  "sleep env d w = w\<lparr>os_calls := Suc (os_calls w),
     os_clock := os_clock w + d + int (env_delay env (os_calls w))\<rparr>"

section \<open>Rules\<close>

text \<open>The directory outside a set of paths is unchanged.\<close>

definition frame :: "path set \<Rightarrow> os \<Rightarrow> os \<Rightarrow> bool" where
  "frame A w w' \<longleftrightarrow> (\<forall>p. p \<notin> A \<longrightarrow> os_nodes w' p = os_nodes w p)"

lemma lift_io_simps [simp]: "lift_io r w = (r, w)"
  by (simp add: lift_io_def)

lemma frame_refl [simp]: "frame A w w"
  by (simp add: frame_def)

lemma frame_trans: "frame A u v \<Longrightarrow> frame A v w \<Longrightarrow> frame A u w"
  by (simp add: frame_def)

lemma frame_mono: "frame A u v \<Longrightarrow> A \<subseteq> B \<Longrightarrow> frame B u v"
  by (auto simp: frame_def)

lemma frame_bind:
  "(\<And>w. frame A w (snd (m w))) \<Longrightarrow> (\<And>x w. frame A w (snd (f x w))) \<Longrightarrow>
     frame A w (snd (bind_io m f w))"
  unfolding bind_io_def
  by (cases "m w"; cases "fst (m w)") (auto intro: frame_trans dest: meta_spec [of _ w])

lemma frame_catch:
  "(\<And>w. frame A w (snd (m w))) \<Longrightarrow> (\<And>x w. frame A w (snd (h x w))) \<Longrightarrow>
     frame A w (snd (catch_io m h w))"
  unfolding catch_io_def
  by (cases "m w"; cases "fst (m w)") (auto intro: frame_trans dest: meta_spec [of _ w])

lemma frame_finally:
  assumes "\<And>w. frame A w (snd (m w))" and "\<And>w. frame A w (snd (k w))"
  shows "frame A w (snd (finally_io m k w))"
proof -
  obtain r w1 where 1: "m w = (r, w1)" by (cases "m w")
  obtain q w2 where 2: "k w1 = (q, w2)" by (cases "k w1")
  show ?thesis
    using assms(1) [of w] assms(2) [of w1] 1 2
    by (cases q) (auto simp: finally_io_def intro: frame_trans)
qed

lemma frame_sys:
  "(\<And>w. frame A w (snd (f w))) \<Longrightarrow> frame A w (snd (sys env f w))"
  unfolding sys_def frame_def by (auto simp: Let_def)

lemma frame_calls [simp]:
  "frame A w (snd (lstat env p w))" "frame A w (snd (open_directory env p w))"
  "frame A w (snd (touch_call env w))" "frame A w (snd (read_bytes env p n w))"
  "frame A w (snd (open_nofollow env p wr None w))"
  by (auto simp: lstat_def open_directory_def touch_call_def read_bytes_def open_nofollow_def
      intro!: frame_sys split: option.splits)

lemma frame_set_node [simp]: "p \<in> A \<Longrightarrow> frame A w (set_node p n w)"
  by (auto simp: frame_def set_node_def)

lemma frame_new_node [simp]: "p \<in> A \<Longrightarrow> frame A w (new_node p k u m w)"
  by (auto simp: frame_def set_node_def new_node_def)

lemma frame_update_node [simp]: "p \<in> A \<Longrightarrow> frame A w (snd (update_node p f w))"
  by (auto simp: update_node_def split: option.splits)

lemma frame_writes [simp]:
  "p \<in> A \<Longrightarrow> frame A w (snd (mkdir env p m w))"
  "p \<in> A \<Longrightarrow> frame A w (snd (open_nofollow env p wr c w))"
  "p \<in> A \<Longrightarrow> frame A w (snd (fchmod env p m w))"
  "p \<in> A \<Longrightarrow> frame A w (snd (write_bytes env p b w))"
  "p \<in> A \<Longrightarrow> frame A w (snd (unlink env p w))"
  by (auto simp: mkdir_def open_nofollow_def fchmod_def write_bytes_def unlink_def
      intro!: frame_sys split: option.splits)

end
