(* ===== verification/Prefix_Store.thy ===== *)
theory Prefix_Store
  imports Prefix_Facts File_System
begin

text \<open>
  The state store of \<open>scripts/cloudfront-origin-prefix-lkg.py\<close>: a private directory with the
  current candidate, the accepted document and a lock file; atomic publication by rename, with
  the two failure classes of the code (definitely not committed, committed but durability not
  confirmed); and the four commands.
\<close>

section \<open>The state directory\<close>

definition CANDIDATE_FILE :: string where "CANDIDATE_FILE = ''candidate.json''"
definition LKG_FILE :: string where "LKG_FILE = ''accepted-lkg.json''"
definition LOCK_FILE :: string where "LOCK_FILE = ''.cloudfront-origin-prefix-lkg.lock''"

text \<open>\<open>LOCK_TIMEOUT_SECONDS\<close> and \<open>LOCK_RETRY_SECONDS\<close>, in microseconds.\<close>

definition LOCK_TIMEOUT :: int where "LOCK_TIMEOUT = 2000000"
definition LOCK_RETRY :: int where "LOCK_RETRY = 50000"

text \<open>A \<open>Path\<close>: absolute or not, and its parts (which never are empty or \<open>.\<close>).\<close>

record py_path =
  pp_absolute :: bool
  pp_parts :: path

definition fsync_directory :: "os_env \<Rightarrow> path \<Rightarrow> string \<Rightarrow> unit io" where
  "fsync_directory env p label =
     bind_io (os_error_to (ContractError (label @ '' durability synchronization failed''))
        (open_directory env p))
       (\<lambda>_. finally_io
          (os_error_to (ContractError (label @ '' durability synchronization failed'')) (touch_call env))
          (ignore_os_error (touch_call env)))"

definition component_metadata :: "os_env \<Rightarrow> path \<Rightarrow> bool \<Rightarrow> node io" where
  "component_metadata env current may_create =
     catch_io (lstat env current) (\<lambda>e.
       if e = ENOENT
       then if \<not> may_create
            then lift_io (Inl (ContractError ''state directory ancestor is missing''))
            else os_error_to (ContractError ''state directory creation failed'')
              (bind_io (mkdir env current 0x1C0) (\<lambda>_. lstat env current))
       else (case e of
           OSError _ \<Rightarrow> lift_io (Inl (ContractError ''state directory inspection failed''))
         | _ \<Rightarrow> lift_io (Inl e)))"

definition component_check :: "node \<Rightarrow> bool \<Rightarrow> unit res" where
  "component_check metadata is_last =
     (if nd_kind metadata \<noteq> K_Dir
      then Inl (ContractError ''state directory contains an unsafe component'')
      else if \<not> is_last \<and> nd_mode metadata AND 0x12 \<noteq> 0
        \<and> \<not> (nd_uid metadata = 0 \<and> nd_mode metadata AND 0x200 \<noteq> 0)
      then Inl (ContractError ''state directory has a mutable trusted ancestor'')
      else Inr ())"

fun walk_components :: "os_env \<Rightarrow> bool \<Rightarrow> path \<Rightarrow> path \<Rightarrow> node \<Rightarrow> node io" where
  "walk_components env create current [] metadata = lift_io (Inr metadata)"
| "walk_components env create current (part # rest) metadata =
     (let cur = current @ [part] in
      bind_io (component_metadata env cur (rest = [] \<and> create)) (\<lambda>m.
      bind_io (lift_io (component_check m (rest = []))) (\<lambda>_.
      walk_components env create cur rest m)))"

definition no_node :: node where
  "no_node = \<lparr>nd_kind = K_Other, nd_uid = 0, nd_mode = 0, nd_nlink = 0, nd_ino = 0, nd_bytes = []\<rparr>"

definition assert_safe_directory :: "os_env \<Rightarrow> py_path \<Rightarrow> bool \<Rightarrow> path io" where
  "assert_safe_directory env p create =
     (if \<not> pp_absolute p \<or> ''..'' \<in> set (pp_parts p) \<or> pp_parts p = []
      then lift_io (Inl (ContractError ''state directory must be absolute''))
      else bind_io (walk_components env create [] (pp_parts p) no_node) (\<lambda>metadata.
        if nd_uid metadata \<noteq> env_euid env \<or> nd_mode metadata \<noteq> 0x1C0
        then lift_io (Inl (ContractError ''state directory ownership or mode is unsafe''))
        else if create
        then bind_io (fsync_directory env (butlast (pp_parts p)) ''state directory entry'')
               (\<lambda>_. lift_io (Inr (pp_parts p)))
        else lift_io (Inr (pp_parts p))))"

definition private_file :: "os_env \<Rightarrow> node \<Rightarrow> bool" where
  "private_file env n \<longleftrightarrow> nd_kind n = K_Reg \<and> nd_nlink n = 1 \<and> nd_uid n = env_euid env \<and>
     nd_mode n = 0x180"

definition state_file :: "os_env \<Rightarrow> path \<Rightarrow> string \<Rightarrow> bool \<Rightarrow> path option io" where
  "state_file env directory name required =
     bind_io
       (catch_io (bind_io (lstat env (directory @ [name])) (\<lambda>n. lift_io (Inr (Some n)))) (\<lambda>e.
          if e = ENOENT
          then if required then lift_io (Inl (ContractError ''required state file is missing''))
               else lift_io (Inr None)
          else (case e of
              OSError _ \<Rightarrow> lift_io (Inl (ContractError ''state file inspection failed''))
            | _ \<Rightarrow> lift_io (Inl e))))
       (\<lambda>found. case found of
            None \<Rightarrow> lift_io (Inr None)
          | Some n \<Rightarrow> if \<not> private_file env n then lift_io (Inl (ContractError ''state file is unsafe''))
                      else lift_io (Inr (Some (directory @ [name]))))"

section \<open>The lock\<close>

text \<open>
  The retry loop of \<open>_state_lock\<close>: \<open>flock\<close> without blocking, then the clock, then a sleep of at
  most the remaining time. It ends because every sleep moves the clock.
\<close>

definition flock_call :: "os_env \<Rightarrow> flock io" where
  "flock_call env w0 = sys env (\<lambda>w. (Inr (env_flock env (os_calls w0)), w)) w0"

definition monotonic :: "os_env \<Rightarrow> os \<Rightarrow> int \<times> os" where
  "monotonic env w = (let w1 = w\<lparr>os_calls := Suc (os_calls w),
     os_clock := os_clock w + int (env_delay env (os_calls w))\<rparr> in (os_clock w1, w1))"

lemma flock_call_clock: "flock_call env w = (r, w') \<Longrightarrow> os_clock w \<le> os_clock w'"
  by (auto simp: flock_call_def sys_def Let_def split: if_splits)

lemma monotonic_clock: "monotonic env w = (t, w') \<Longrightarrow> os_clock w' = t \<and> os_clock w \<le> t"
  by (auto simp: monotonic_def Let_def)

lemma sleep_clock: "os_clock w + d \<le> os_clock (sleep env d w)"
  by (simp add: sleep_def)

function lock_loop :: "os_env \<Rightarrow> int \<Rightarrow> unit io" where
  "lock_loop env deadline w =
     (case flock_call env w of
        (Inl e, w1) \<Rightarrow> (Inl (ContractError ''state lock is unavailable''), w1)
      | (Inr Locked, w1) \<Rightarrow> (Inr (), w1)
      | (Inr Broken, w1) \<Rightarrow> (Inl (ContractError ''state lock is unavailable''), w1)
      | (Inr Busy, w1) \<Rightarrow>
          (case monotonic env w1 of (now, w2) \<Rightarrow>
             if deadline - now \<le> 0
             then (Inl (ContractError ''state lock acquisition timed out''), w2)
             else lock_loop env deadline (sleep env (min LOCK_RETRY (deadline - now)) w2)))"
  by pat_completeness auto
termination
proof (relation "measure (\<lambda>(env, deadline, w). nat (deadline - os_clock w))", simp)
  fix env deadline w r w1 now w2
  assume a: "(r, w1) = flock_call env w" "(now, w2) = monotonic env w1" "\<not> deadline - now \<le> 0"
  have "os_clock w \<le> now" "os_clock w2 = now"
    using flock_call_clock [OF a(1) [symmetric]] monotonic_clock [OF a(2) [symmetric]] by simp_all
  moreover have "now + min LOCK_RETRY (deadline - now) \<le> os_clock (sleep env (min LOCK_RETRY (deadline - now)) w2)"
    using sleep_clock [of w2 "min LOCK_RETRY (deadline - now)" env] calculation by simp
  moreover have "0 < min LOCK_RETRY (deadline - now)" using a(3) by (simp add: LOCK_RETRY_def)
  ultimately show "((env, deadline, sleep env (min LOCK_RETRY (deadline - now)) w2), env, deadline, w)
      \<in> measure (\<lambda>(env, deadline, w). nat (deadline - os_clock w))"
    using a(3) by simp
qed

declare lock_loop.simps [simp del]

definition acquire_lock :: "os_env \<Rightarrow> unit io" where
  "acquire_lock env w = (case monotonic env w of (now, w1) \<Rightarrow> lock_loop env (now + LOCK_TIMEOUT) w1)"

definition state_lock :: "os_env \<Rightarrow> path \<Rightarrow> 'a io \<Rightarrow> 'a io" where
  "state_lock env directory body =
     bind_io (os_error_to (ContractError ''state lock is unsafe or unavailable'')
        (open_nofollow env (directory @ [LOCK_FILE]) True (Some 0x180))) (\<lambda>_.
     finally_io
       (bind_io (os_error_to (ContractError ''state lock is unsafe or unavailable'')
          (bind_io (lstat env (directory @ [LOCK_FILE])) (\<lambda>opened.
           bind_io (lstat env (directory @ [LOCK_FILE])) (\<lambda>linked. lift_io (Inr (opened, linked))))))
          (\<lambda>(opened, linked).
        if \<not> private_file env opened \<or> nd_ino opened \<noteq> nd_ino linked
        then lift_io (Inl (ContractError ''state lock is unsafe''))
        else bind_io (acquire_lock env) (\<lambda>_. body)))
       (ignore_os_error (touch_call env)))"

section \<open>Publication and reading\<close>

definition uncertain_commit :: "string \<Rightarrow> exc" where
  "uncertain_commit name = CommitStateUncertain
     (''COMMITTED_DURABILITY_UNCONFIRMED:'' @ name @ '':authoritative readback required'')"

text \<open>Filling the temporary file: mode, \<open>fdopen\<close>, write, flush, fsync, and close.\<close>

definition fill_temporary :: "os_env \<Rightarrow> path \<Rightarrow> string \<Rightarrow> unit io" where
  "fill_temporary env temporary content =
     bind_io (fchmod env temporary 0x180) (\<lambda>_.
     bind_io (touch_call env) (\<lambda>_.
     finally_io
       (bind_io (write_bytes env temporary content) (\<lambda>_.
        bind_io (touch_call env) (\<lambda>_. touch_call env)))
       (touch_call env)))"

definition sync_directory :: "os_env \<Rightarrow> path \<Rightarrow> unit io" where
  "sync_directory env directory =
     bind_io (open_directory env directory) (\<lambda>_. finally_io (touch_call env) (touch_call env))"

definition atomic_write :: "os_env \<Rightarrow> path \<Rightarrow> string \<Rightarrow> string \<Rightarrow> unit io" where
  "atomic_write env directory name content =
     (if MAX_STATE_BYTES < int (length content)
      then lift_io (Inl (ContractError ''state document exceeds the maximum size''))
      else bind_io
        (os_error_to (ContractError ''atomic state publication failed'')
           (mkstemp env directory (''.'' @ name @ ''.'')))
        (\<lambda>temporary.
      bind_io
        (catch_io (bind_io (fill_temporary env temporary content)
             (\<lambda>_. replace env temporary (directory @ [name])))
           (\<lambda>e. bind_io (ignore_os_error (unlink env temporary)) (\<lambda>_. lift_io (Inl (case e of
              OSError _ \<Rightarrow> ContractError ''atomic state publication failed'' | _ \<Rightarrow> e)))))
        (\<lambda>_. os_error_to (uncertain_commit name) (sync_directory env directory))))"

definition read_content :: "os_env \<Rightarrow> path \<Rightarrow> pyval io" where
  "read_content env p =
     bind_io (open_nofollow env p False None) (\<lambda>_.
     bind_io (lstat env p) (\<lambda>opened.
     bind_io (lstat env p) (\<lambda>linked.
     if \<not> private_file env opened \<or> nd_ino opened \<noteq> nd_ino linked
     then lift_io (Inl (ContractError ''state file changed during validation''))
     else bind_io (touch_call env) (\<lambda>_.
       bind_io (finally_io (read_bytes env p (MAX_STATE_BYTES + 1)) (touch_call env)) (\<lambda>content.
       if MAX_STATE_BYTES < int (length content)
       then lift_io (Inl (ContractError ''state document exceeds the maximum size''))
       else lift_io (decode_json content))))))"

definition read_document ::
  "(string \<Rightarrow> string) \<Rightarrow> os_env \<Rightarrow> path \<Rightarrow> string \<Rightarrow> bool \<Rightarrow> pydict option io" where
  "read_document sha env directory name required =
     bind_io (state_file env directory name required) (\<lambda>found. case found of
        None \<Rightarrow> lift_io (Inr None)
      | Some p \<Rightarrow>
          bind_io (catch_io (read_content env p) (\<lambda>e. lift_io (Inl (case e of
             OSError _ \<Rightarrow> ContractError ''state document is invalid''
           | UnicodeError \<Rightarrow> ContractError ''state document is invalid''
           | ValueError _ \<Rightarrow> ContractError ''state document is invalid''
           | _ \<Rightarrow> e))))
          (\<lambda>document. case document of
             PDict d \<Rightarrow> bind_io (lift_io (validate_candidate sha document)) (\<lambda>_. lift_io (Inr (Some d)))
           | _ \<Rightarrow> lift_io (Inl (ContractError ''state document root is invalid''))))"

section \<open>Operations\<close>

definition write_candidate ::
  "(string \<Rightarrow> string) \<Rightarrow> os_env \<Rightarrow> py_path \<Rightarrow> pydict \<Rightarrow> unit io" where
  "write_candidate sha env dir candidate =
     bind_io (lift_io (validate_candidate sha (PDict candidate))) (\<lambda>_.
     bind_io (assert_safe_directory env dir True) (\<lambda>directory.
     state_lock env directory (
       bind_io (lift_io (canonical_bytes candidate)) (\<lambda>content.
       atomic_write env directory CANDIDATE_FILE content))))"

definition asserted :: "pydict option \<Rightarrow> pydict io" where
  "asserted v = (case v of None \<Rightarrow> lift_io (Inl AssertionError) | Some d \<Rightarrow> lift_io (Inr d))"

definition read_candidate :: "(string \<Rightarrow> string) \<Rightarrow> os_env \<Rightarrow> py_path \<Rightarrow> pydict io" where
  "read_candidate sha env dir =
     bind_io (assert_safe_directory env dir False) (\<lambda>directory.
     bind_io (state_lock env directory (read_document sha env directory CANDIDATE_FILE True)) asserted)"

definition accept_locked :: "(string \<Rightarrow> string) \<Rightarrow> os_env \<Rightarrow> path \<Rightarrow> string \<Rightarrow> unit io" where
  "accept_locked sha env directory acknowledged =
     bind_io (bind_io (read_document sha env directory CANDIDATE_FILE True) asserted) (\<lambda>candidate.
     bind_io (read_document sha env directory LKG_FILE False) (\<lambda>accepted.
     bind_io (lift_io (admit_successor sha accepted candidate)) (\<lambda>_.
     if \<not> py_eq (dget candidate ''candidate_sha256'') (PStr acknowledged)
     then lift_io (Inl (ContractError ''acknowledgement does not match the current candidate''))
     else bind_io (lift_io (canonical_bytes candidate)) (\<lambda>content.
       atomic_write env directory LKG_FILE content))))"

definition accept_candidate ::
  "(string \<Rightarrow> string) \<Rightarrow> os_env \<Rightarrow> py_path \<Rightarrow> pyval \<Rightarrow> unit io" where
  "accept_candidate sha env dir acknowledged =
     (case acknowledged of
        PStr h \<Rightarrow>
          if length h \<noteq> 64
          then lift_io (Inl (ContractError ''acknowledged candidate digest is invalid''))
          else bind_io (assert_safe_directory env dir False) (\<lambda>directory.
            bind_io (fsync_directory env (butlast directory) ''state directory entry'') (\<lambda>_.
            state_lock env directory (accept_locked sha env directory h)))
      | _ \<Rightarrow> lift_io (Inl (ContractError ''acknowledged candidate digest is invalid'')))"

definition read_lkg :: "(string \<Rightarrow> string) \<Rightarrow> os_env \<Rightarrow> py_path \<Rightarrow> pydict option io" where
  "read_lkg sha env dir =
     bind_io (assert_safe_directory env dir False) (\<lambda>directory.
     state_lock env directory (read_document sha env directory LKG_FILE False))"

end
