(* ===== verification/Provider_Firewall.thy ===== *)
theory Provider_Firewall
  imports Capability Prefix_Store
begin

text \<open>
  \<open>scripts/provider-firewall-contract.py\<close>: admission and planning of the firewall in front of a
  PROTECTED origin. It reads the accepted prefixes from the LKG store, compares them with an
  authenticated observation of the provider, plans at most one replacement of the owned rule,
  binds the mutation to the plan by a digest, and decides after a fresh observation between
  success, nothing to undo, and a rollback plan.

  The digest function \<open>sha\<close> is a parameter, as in \<open>Prefix_Lkg\<close>.
\<close>

section \<open>Enumerations\<close>

datatype edge_mode = DIRECT | PROTECTED
datatype plan_action = NO_MUTATION | REPLACE_OWNED
datatype observation_phase = CURRENT | POST_MUTATION | POST_ROLLBACK
datatype ownership_scope = PROTECTED_ORIGIN
datatype projection_completeness = COMPLETE
datatype mutation_disposition = REINSPECTION_REQUIRED
datatype recovery_decision = DESIRED_VERIFIED | PRIOR_VERIFIED

fun phase_value :: "observation_phase \<Rightarrow> string" where
  "phase_value CURRENT = ''current''"
| "phase_value POST_MUTATION = ''post-mutation''"
| "phase_value POST_ROLLBACK = ''post-rollback''"

fun action_value :: "plan_action \<Rightarrow> string" where
  "action_value NO_MUTATION = ''no-mutation''"
| "action_value REPLACE_OWNED = ''replace-owned''"

section \<open>Checks and documents\<close>

definition fw_identity :: "string \<Rightarrow> pyval \<Rightarrow> unit res" where
  "fw_identity label v =
     (case v of
        PStr s \<Rightarrow> if s = [] \<or> s \<noteq> py_strip s \<or> \<not> py_isprintable s \<or> MAX_IDENTITY_BYTES < utf8_len s
                  then Inl (ContractError (label @ '' is invalid'')) else Inr ()
      | _ \<Rightarrow> Inl (ContractError (label @ '' is invalid'')))"

interpretation fw: identity_checker fw_identity
  by unfold_locales (auto simp: fw_identity_def good_identity_def split: pyval.splits if_splits)

definition fw_sha256 :: "string \<Rightarrow> pyval \<Rightarrow> unit res" where
  "fw_sha256 label v =
     (if \<not> matches_str SHA256 v then Inl (ContractError (label @ '' is invalid'')) else Inr ())"

fun frozen_operations :: "operation obj pyset \<Rightarrow> operation set option" where
  "frozen_operations (FrozenSet A) = (if A = {} \<or> Alien \<in> A then None else Some (exact_members A))"
| "frozen_operations _ = None"

definition check_operations :: "operation obj pyset \<Rightarrow> operation set res" where
  "check_operations v = (case frozen_operations v of
     None \<Rightarrow> Inl (ContractError ''adapter supported operations are invalid'') | Some A \<Rightarrow> Inr A)"

definition frozen :: "operation set \<Rightarrow> operation obj pyset" where
  "frozen A = FrozenSet (Exact ` A)"

definition canonical_digest :: "(string \<Rightarrow> string) \<Rightarrow> pydict \<Rightarrow> string res" where
  "canonical_digest sha document =
     bind_res (dumps (PDict document)) (\<lambda>s. Inr (sha (s @ [CHR 0x0A])))"

definition target_document :: "resource_target obj \<Rightarrow> pyval res" where
  "target_document target = (case target of
       Alien \<Rightarrow> Inl (ContractError ''one exact #169 target is required'')
     | Exact t \<Rightarrow> Inr (PDict [(''provider'', PStr (rt_provider t)), (''scope'', PStr (rt_scope t)),
         (''requested_key'', PStr (rt_requested_key t)),
         (''provider_resource_id'', opt_val (rt_provider_resource_id t)),
         (''expected_version'', opt_val (rt_expected_version t))]))"

definition request_document :: "capability_request obj \<Rightarrow> pyval res" where
  "request_document request = (case request of
       Alien \<Rightarrow> Inl (ContractError ''one exact #169 predecessor request is required'')
     | Exact rq \<Rightarrow> bind_res (target_document (Exact (rq_target rq))) (\<lambda>t.
         Inr (PDict [(''request_id'', PStr (rq_request_id rq)), (''adapter_id'', PStr (rq_adapter_id rq)),
           (''source_revision'', PStr (rq_source_revision rq)),
           (''operation'', PStr (operation_value (rq_operation rq))), (''target'', t),
           (''parameters_sha256'', PStr (rq_parameters_sha256 rq))])))"

definition same_resource :: "resource_target \<Rightarrow> resource_target \<Rightarrow> bool" where
  "same_resource l r \<longleftrightarrow> rt_provider l = rt_provider r \<and> rt_scope l = rt_scope r \<and>
     rt_requested_key l = rt_requested_key r \<and> rt_provider_resource_id l = rt_provider_resource_id r"

definition prefix_value :: "pyval \<Rightarrow> nat \<Rightarrow> string res" where
  "prefix_value v version =
     (case v of
        PStr s \<Rightarrow>
          if py_strip s \<noteq> s then Inl (ContractError ''firewall CIDR is invalid'')
          else bind_res
            (catch_res (ip_network s) (\<lambda>e. case e of
               ValueError _ \<Rightarrow> Inl (ContractError ''firewall CIDR is malformed'') | _ \<Rightarrow> Inl e))
            (\<lambda>n. if nw_version n \<noteq> version \<or> network_str n \<noteq> s \<or> nw_prefixlen n = 0
                 then Inl (ContractError ''firewall CIDR is wrong-family, non-canonical, or default'')
                 else Inr s)
      | _ \<Rightarrow> Inl (ContractError ''firewall CIDR is invalid''))"

definition fw_prefixes :: "pyval \<Rightarrow> nat \<Rightarrow> bool \<Rightarrow> string list res" where
  "fw_prefixes vals version required =
     (case vals of
        PTuple vs \<Rightarrow>
          if required \<and> vs = [] then Inl (ContractError ''firewall prefix family is invalid'')
          else bind_res (map_res (\<lambda>v. prefix_value v version) vs) (\<lambda>normalized.
            let ordered = sorted_prefixes normalized in
            if map PStr ordered \<noteq> vs
            then Inl (ContractError ''firewall CIDRs are duplicate or non-deterministic'')
            else Inr ordered)
      | _ \<Rightarrow> Inl (ContractError ''firewall prefix family is invalid''))"

section \<open>Data\<close>

record firewall_intent =
  fi_edge_mode :: edge_mode
  fi_origin_protocol :: string
  fi_origin_port :: int

definition new_firewall_intent :: "edge_mode obj \<Rightarrow> pyval \<Rightarrow> pyval \<Rightarrow> firewall_intent res" where
  "new_firewall_intent mode protocol port =
     (if mode \<noteq> Exact PROTECTED
      then Inl (ContractError ''DIRECT is not a CloudFront Origin firewall operation'')
      else if protocol \<noteq> PStr ''tcp'' \<or> port \<noteq> PInt 443
      then Inl (ContractError ''PROTECTED Origin policy is TCP 443 only'')
      else Inr \<lparr>fi_edge_mode = PROTECTED, fi_origin_protocol = ''tcp'', fi_origin_port = 443\<rparr>)"

record firewall_policy =
  fp_protocol :: string
  fp_port :: int
  fp_ipv4_sources :: "string list"
  fp_ipv6_sources :: "string list"

definition new_firewall_policy :: "pyval \<Rightarrow> pyval \<Rightarrow> pyval \<Rightarrow> pyval \<Rightarrow> firewall_policy res" where
  "new_firewall_policy protocol port ipv4 ipv6 =
     (case (protocol, port) of
        (PStr pr, PInt po) \<Rightarrow>
          if pr \<noteq> ''tcp'' \<or> po < 1 \<or> 65535 < po
          then Inl (ContractError ''owned firewall policy protocol or port is invalid'')
          else bind_res (fw_prefixes ipv4 4 False) (\<lambda>v4.
            bind_res (fw_prefixes ipv6 6 False) (\<lambda>v6.
            if v4 = [] \<and> v6 = [] then Inl (ContractError ''owned firewall policy has no sources'')
            else Inr \<lparr>fp_protocol = pr, fp_port = po, fp_ipv4_sources = v4, fp_ipv6_sources = v6\<rparr>))
      | _ \<Rightarrow> Inl (ContractError ''owned firewall policy protocol or port is invalid''))"

record owned_firewall_policy =
  ofp_provider_rule_id :: string
  ofp_policy :: firewall_policy

definition new_owned_firewall_policy ::
  "pyval \<Rightarrow> firewall_policy obj \<Rightarrow> owned_firewall_policy res" where
  "new_owned_firewall_policy rule_id policy =
     seq_res (fw_identity ''provider-native rule identity'' rule_id)
       (case policy of
          Alien \<Rightarrow> Inl (ContractError ''owned firewall policy is invalid'')
        | Exact p \<Rightarrow> Inr \<lparr>ofp_provider_rule_id = str_of rule_id, ofp_policy = p\<rparr>)"

record firewall_observation =
  fo_phase :: observation_phase
  fo_request :: capability_request
  fo_result :: capability_result
  fo_supported_operations :: "operation set"
  fo_owned :: "owned_firewall_policy list"
  fo_operator_access :: "string list"
  fo_preserved_state_sha256 :: string

text \<open>The tuple \<open>owned\<close> is \<open>Exact\<close> its items, or an object that is not a tuple.\<close>

definition new_firewall_observation ::
  "observation_phase obj \<Rightarrow> capability_request obj \<Rightarrow> capability_result obj \<Rightarrow> operation obj pyset \<Rightarrow>
   ownership_scope obj \<Rightarrow> owned_firewall_policy obj list obj \<Rightarrow> pyval \<Rightarrow> pyval \<Rightarrow>
   projection_completeness obj \<Rightarrow> firewall_observation res" where
  "new_firewall_observation phase request result supported scope owned operator_access preserved completeness =
     (case (phase, request, result, scope) of
        (Exact ph, Exact rq, Exact rs, Exact PROTECTED_ORIGIN) \<Rightarrow>
          bind_res (check_operations supported) (\<lambda>ops.
          case owned of
            Alien \<Rightarrow> Inl (ContractError ''adapter ownership classification is ambiguous'')
          | Exact items \<Rightarrow> (case exacts items of
            None \<Rightarrow> Inl (ContractError ''adapter ownership classification is ambiguous'')
          | Some own \<Rightarrow>
              if 1 < length own
              then Inl (ContractError ''adapter ownership classification is ambiguous'')
              else (case operator_access of
                 PTuple rules \<Rightarrow>
                   seq_res (each (fw_identity ''operator-access rule identity'') rules) (
                   let access = map str_of rules in
                   if \<not> distinct access
                   then Inl (ContractError ''operator-access observation is ambiguous'')
                   else if set (map ofp_provider_rule_id own) \<inter> set access \<noteq> {}
                   then Inl (ContractError ''one provider rule cannot be both #215-owned and operator access'')
                   else seq_res (fw_sha256 ''complete preserved provider-state identity'' preserved) (
                     if completeness \<noteq> Exact COMPLETE
                     then Inl (ContractError ''provider observation is not complete'')
                     else Inr \<lparr>fo_phase = ph, fo_request = rq, fo_result = rs,
                       fo_supported_operations = ops, fo_owned = own, fo_operator_access = access,
                       fo_preserved_state_sha256 = str_of preserved\<rparr>))
               | _ \<Rightarrow> Inl (ContractError ''operator-access observation is invalid''))))
      | _ \<Rightarrow> Inl (ContractError ''provider observation identity is invalid''))"

definition fo_revision :: "firewall_observation \<Rightarrow> string option" where
  "fo_revision ob = rs_provider_resource_version (fo_result ob)"

text \<open>
  A plan keeps the tuple of operator-access rules as given: its constructor checks only that it
  is a tuple.
\<close>

record firewall_plan =
  pl_action :: plan_action
  pl_target :: resource_target
  pl_adapter_id :: string
  pl_source_revision :: string
  pl_supported_operations :: "operation set"
  pl_accepted_lkg_identity :: string
  pl_desired :: firewall_policy
  pl_prior_owned :: "owned_firewall_policy option"
  pl_preserved_state_sha256 :: string
  pl_operator_access :: "pyval list"

text \<open>An optional argument of a class: absent, or an object.\<close>

definition optional_exact :: "'a obj option \<Rightarrow> 'a option option" where
  "optional_exact v = (case v of None \<Rightarrow> Some None | Some (Exact x) \<Rightarrow> Some (Some x) | Some Alien \<Rightarrow> None)"

definition new_firewall_plan ::
  "plan_action obj \<Rightarrow> resource_target obj \<Rightarrow> pyval \<Rightarrow> pyval \<Rightarrow> operation obj pyset \<Rightarrow> pyval \<Rightarrow>
   firewall_policy obj \<Rightarrow> owned_firewall_policy obj option \<Rightarrow> pyval \<Rightarrow> pyval \<Rightarrow> firewall_plan res" where
  "new_firewall_plan action target adapter source supported lkg desired prior preserved operator_access =
     (case action of
        Alien \<Rightarrow> Inl (ContractError ''firewall plan action is invalid'')
      | Exact act \<Rightarrow> (case target of
        Alien \<Rightarrow> Inl (ContractError ''firewall plan target is invalid'')
      | Exact t \<Rightarrow>
          if rt_provider_resource_id t = None
          then Inl (ContractError ''firewall plan target is invalid'')
          else seq_res (fw_identity ''plan adapter identity'' adapter) (
            if \<not> matches_str SHA1 source then Inl (ContractError ''plan source revision is invalid'')
            else bind_res (check_operations supported) (\<lambda>ops.
              seq_res (fw_sha256 ''accepted #214 LKG identity'' lkg) (
              case desired of
                Alien \<Rightarrow> Inl (ContractError ''desired firewall policy is invalid'')
              | Exact des \<Rightarrow> (case optional_exact prior of
                None \<Rightarrow> Inl (ContractError ''prior owned policy is invalid'')
              | Some pri \<Rightarrow>
                  seq_res (fw_sha256 ''preserved provider-state identity'' preserved)
                    (case operator_access of
                       PTuple rules \<Rightarrow> Inr \<lparr>pl_action = act, pl_target = t, pl_adapter_id = str_of adapter,
                         pl_source_revision = str_of source, pl_supported_operations = ops,
                         pl_accepted_lkg_identity = str_of lkg, pl_desired = des, pl_prior_owned = pri,
                         pl_preserved_state_sha256 = str_of preserved, pl_operator_access = rules\<rparr>
                     | _ \<Rightarrow> Inl (ContractError ''plan operator-access state is invalid''))))))))"

record rollback_plan =
  rb_target :: resource_target
  rb_adapter_id :: string
  rb_source_revision :: string
  rb_supported_operations :: "operation set"
  rb_restore_policy :: "firewall_policy option"
  rb_preserved_state_sha256 :: string
  rb_operator_access :: "pyval list"

definition new_rollback_plan ::
  "resource_target obj \<Rightarrow> pyval \<Rightarrow> pyval \<Rightarrow> operation obj pyset \<Rightarrow> firewall_policy obj option \<Rightarrow> pyval \<Rightarrow>
   pyval \<Rightarrow> rollback_plan res" where
  "new_rollback_plan target adapter source supported restore preserved operator_access =
     (case target of
        Alien \<Rightarrow> Inl (ContractError ''rollback lacks fresh concurrency authority'')
      | Exact t \<Rightarrow>
          if rt_provider_resource_id t = None \<or> rt_expected_version t = None
          then Inl (ContractError ''rollback lacks fresh concurrency authority'')
          else seq_res (fw_identity ''rollback adapter identity'' adapter) (
            if \<not> matches_str SHA1 source then Inl (ContractError ''rollback source revision is invalid'')
            else bind_res (check_operations supported) (\<lambda>ops.
              case optional_exact restore of
                None \<Rightarrow> Inl (ContractError ''rollback policy is invalid'')
              | Some pol \<Rightarrow>
                  seq_res (fw_sha256 ''rollback preserved-state identity'' preserved)
                    (case operator_access of
                       PTuple rules \<Rightarrow> Inr \<lparr>rb_target = t, rb_adapter_id = str_of adapter,
                         rb_source_revision = str_of source, rb_supported_operations = ops,
                         rb_restore_policy = pol, rb_preserved_state_sha256 = str_of preserved,
                         rb_operator_access = rules\<rparr>
                     | _ \<Rightarrow> Inl (ContractError ''rollback operator-access state is invalid'')))))"

section \<open>Observation\<close>

definition operation_names :: "operation set \<Rightarrow> pyval" where
  "operation_names A = PList (map PStr (sorted_list_of_set (operation_value ` A)))"

definition inspection_parameters_sha256 ::
  "(string \<Rightarrow> string) \<Rightarrow> resource_target obj \<Rightarrow> observation_phase obj \<Rightarrow> operation obj pyset \<Rightarrow>
   capability_request obj option \<Rightarrow> string res" where
  "inspection_parameters_sha256 sha target phase supported predecessor =
     (case phase of
        Alien \<Rightarrow> Inl (ContractError ''inspection phase is invalid'')
      | Exact ph \<Rightarrow>
          bind_res (check_operations supported) (\<lambda>ops.
          bind_res
            (if ph = CURRENT
             then (if predecessor \<noteq> None
                   then Inl (ContractError ''current inspection has no predecessor transaction'')
                   else Inr PNone)
             else request_document (case predecessor of None \<Rightarrow> Alien | Some r \<Rightarrow> r))
            (\<lambda>pred.
          bind_res (target_document target) (\<lambda>t.
          canonical_digest sha [(''contract'', PStr ''secpal-provider-firewall-inspection-v1''),
            (''target'', t), (''phase'', PStr (phase_value ph)),
            (''ownership_scope'', PStr ''secpal-protected-origin-v1''),
            (''projection'', PStr ''complete-ownership-scoped-provider-read''),
            (''supported_operations'', operation_names ops),
            (''predecessor_request'', pred)]))))"

definition admit_observation ::
  "(string \<Rightarrow> string) \<Rightarrow> firewall_observation obj \<Rightarrow> execution_authority obj \<Rightarrow> observation_phase \<Rightarrow>
   resource_target option \<Rightarrow> capability_request obj option \<Rightarrow> unit res" where
  "admit_observation sha observation authority phase expected predecessor =
     (case (observation, authority) of
        (Exact ob, Exact au) \<Rightarrow>
          if fo_phase ob \<noteq> phase
          then Inl (ContractError ''provider observation is from the wrong lifecycle phase'')
          else bind_res (inspection_parameters_sha256 sha (Exact (rq_target (fo_request ob))) (Exact phase)
              (frozen (fo_supported_operations ob)) predecessor) (\<lambda>expected_parameters.
            if rq_parameters_sha256 (fo_request ob) \<noteq> expected_parameters
            then Inl (ContractError ''inspection parameters do not bind the firewall read'')
            else seq_res (admit_request (Exact (fo_request ob)) (Exact au) (frozen (fo_supported_operations ob))) (
              seq_res (admit_result (Exact (fo_request ob)) (Exact (fo_result ob))) (
              if rq_operation (fo_request ob) \<noteq> Op_INSPECT
              then Inl (ContractError ''provider observation is not an INSPECT operation'')
              else if rs_outcome (fo_result ob) \<noteq> Out_OBSERVED
              then Inl (ContractError ''provider observation requires an OBSERVED result'')
              else if \<exists>t \<in> set_option expected. \<not> same_resource (rq_target (fo_request ob)) t
              then Inl (ContractError ''provider observation target mismatch'')
              else Inr ())))
      | _ \<Rightarrow> Inl (ContractError ''provider observation and #169 authority are required''))"

section \<open>Planning\<close>

definition as_tuple :: "pyval \<Rightarrow> pyval res" where
  "as_tuple v = (case v of PList xs \<Rightarrow> Inr (PTuple xs) | PTuple xs \<Rightarrow> Inr v
     | _ \<Rightarrow> Inl (Unmodelled ''tuple() of an unvalidated field''))"

definition desired_policy :: "firewall_intent obj \<Rightarrow> pydict \<Rightarrow> firewall_policy res" where
  "desired_policy intent accepted = (case intent of
       Alien \<Rightarrow> Inl (ContractError ''one admitted PROTECTED firewall intent is required'')
     | Exact i \<Rightarrow>
         bind_res (bind_res (ditem accepted ''ipv4_prefixes'') as_tuple) (\<lambda>v4.
         bind_res (bind_res (ditem accepted ''ipv6_prefixes'') as_tuple) (\<lambda>v6.
         new_firewall_policy (PStr (fi_origin_protocol i)) (PInt (fi_origin_port i)) v4 v6)))"

definition owned_head :: "firewall_observation \<Rightarrow> owned_firewall_policy option" where
  "owned_head ob = (case fo_owned ob of [] \<Rightarrow> None | o1 # _ \<Rightarrow> Some o1)"

text \<open>The observed target at the observed revision.\<close>

definition observed_target :: "firewall_observation \<Rightarrow> resource_target res" where
  "observed_target ob = (let t = rq_target (fo_request ob) in
     new_resource_target (PStr (rt_provider t)) (PStr (rt_scope t)) (PStr (rt_requested_key t))
       (opt_val (rt_provider_resource_id t)) (opt_val (fo_revision ob)))"

definition plan_accepted ::
  "(string \<Rightarrow> string) \<Rightarrow> firewall_intent obj \<Rightarrow> pydict \<Rightarrow> firewall_observation obj \<Rightarrow>
   execution_authority obj \<Rightarrow> firewall_plan res" where
  "plan_accepted sha intent accepted current authority =
     seq_res (admit_observation sha current authority CURRENT None None)
       (case current of
          Alien \<Rightarrow> Inl AttributeError
        | Exact ob \<Rightarrow>
            bind_res (desired_policy intent accepted) (\<lambda>desired.
            bind_res (observed_target ob) (\<lambda>target.
            bind_res (ditem accepted ''candidate_sha256'') (\<lambda>lkg.
            let prior = owned_head ob;
                action = (if map_option ofp_policy prior = Some desired then NO_MUTATION else REPLACE_OWNED) in
            new_firewall_plan (Exact action) (Exact target) (PStr (rq_adapter_id (fo_request ob)))
              (PStr (rq_source_revision (fo_request ob))) (frozen (fo_supported_operations ob)) lkg
              (Exact desired) (map_option Exact prior) (PStr (fo_preserved_state_sha256 ob))
              (PTuple (map PStr (fo_operator_access ob)))))))"

definition fw_plan ::
  "(string \<Rightarrow> string) \<Rightarrow> os_env \<Rightarrow> firewall_intent obj \<Rightarrow> py_path obj \<Rightarrow> firewall_observation obj \<Rightarrow>
   execution_authority obj \<Rightarrow> firewall_plan io" where
  "fw_plan sha env intent directory current authority =
     (case directory of
        Alien \<Rightarrow> lift_io (Inl (ContractError ''#214 accepted-LKG state directory is required''))
      | Exact d \<Rightarrow>
          bind_io (read_lkg sha env d) (\<lambda>accepted. case accepted of
             None \<Rightarrow> lift_io (Inl (ContractError ''no #214 accepted CloudFront Origin LKG exists''))
           | Some a \<Rightarrow> lift_io (plan_accepted sha intent a current authority)))"

section \<open>Mutation\<close>

definition policy_document :: "firewall_policy \<Rightarrow> pyval" where
  "policy_document p = PDict [(''protocol'', PStr (fp_protocol p)), (''port'', PInt (fp_port p)),
     (''ipv4_sources'', PList (map PStr (fp_ipv4_sources p))),
     (''ipv6_sources'', PList (map PStr (fp_ipv6_sources p)))]"

definition owned_document :: "owned_firewall_policy option \<Rightarrow> pyval" where
  "owned_document v = (case v of None \<Rightarrow> PNone
     | Some w \<Rightarrow> PDict [(''provider_rule_id'', PStr (ofp_provider_rule_id w)),
         (''policy'', policy_document (ofp_policy w))])"

definition mutation_parameters_sha256 :: "(string \<Rightarrow> string) \<Rightarrow> firewall_plan obj \<Rightarrow> string res" where
  "mutation_parameters_sha256 sha plan = (case plan of
       Alien \<Rightarrow> Inl (ContractError ''one firewall plan is required'')
     | Exact p \<Rightarrow> bind_res (target_document (Exact (pl_target p))) (\<lambda>t.
         canonical_digest sha [(''contract'', PStr ''secpal-provider-firewall-mutation-v1''),
           (''edge_mode'', PStr ''protected''), (''action'', PStr (action_value (pl_action p))),
           (''target'', t), (''adapter_id'', PStr (pl_adapter_id p)),
           (''source_revision'', PStr (pl_source_revision p)),
           (''supported_operations'', operation_names (pl_supported_operations p)),
           (''accepted_lkg_identity'', PStr (pl_accepted_lkg_identity p)),
           (''ownership_scope'', PStr ''secpal-protected-origin-v1''),
           (''desired'', policy_document (pl_desired p)),
           (''prior_owned'', owned_document (pl_prior_owned p)),
           (''preserved_state_sha256'', PStr (pl_preserved_state_sha256 p)),
           (''operator_access'', PList (pl_operator_access p))]))"

text \<open>Does an authority name exactly this adapter, revision, target and parameter digest?\<close>

definition authority_binds ::
  "execution_authority obj \<Rightarrow> string \<Rightarrow> string \<Rightarrow> resource_target \<Rightarrow> string \<Rightarrow> bool" where
  "authority_binds authority adapter source target parameters =
     (case authority of
        Alien \<Rightarrow> False
      | Exact au \<Rightarrow> ea_adapter_id au = adapter \<and> ea_source_revision au = source \<and>
          ea_target au = target \<and> ea_parameters_sha256 au = parameters)"

definition build_mutation_request ::
  "(string \<Rightarrow> string) \<Rightarrow> firewall_plan obj \<Rightarrow> execution_authority obj \<Rightarrow> pyval \<Rightarrow> capability_request res" where
  "build_mutation_request sha plan authority request_id = (case plan of
       Alien \<Rightarrow> Inl (ContractError ''one firewall plan is required'')
     | Exact p \<Rightarrow>
         if pl_action p \<noteq> REPLACE_OWNED
         then Inl (ContractError ''no provider mutation is authorized for this plan'')
         else if rt_expected_version (pl_target p) = None
         then Inl (ContractError ''provider mutation requires fresh concurrency authority'')
         else seq_res (fw_identity ''mutation request identity'' request_id) (
           bind_res (mutation_parameters_sha256 sha plan) (\<lambda>parameters.
           if \<not> authority_binds authority (pl_adapter_id p) (pl_source_revision p) (pl_target p) parameters
           then Inl (ContractError ''mutation authority does not bind the exact firewall plan'')
           else bind_res (new_capability_request request_id (PStr (pl_adapter_id p))
               (PStr (pl_source_revision p)) (Exact Op_REBUILD) (Exact (pl_target p)) (PStr parameters))
             (\<lambda>request. seq_res (admit_request (Exact request) authority (frozen (pl_supported_operations p)))
                (Inr request)))))"

definition admit_mutation_context ::
  "(string \<Rightarrow> string) \<Rightarrow> firewall_plan obj \<Rightarrow> execution_authority obj \<Rightarrow> capability_request obj \<Rightarrow>
   capability_result obj \<Rightarrow> unit res" where
  "admit_mutation_context sha plan authority request result =
     (case (request, result) of
        (Exact rq, Exact rs) \<Rightarrow>
          bind_res (build_mutation_request sha plan authority (PStr (rq_request_id rq))) (\<lambda>expected.
          if rq \<noteq> expected
          then Inl (ContractError ''mutation request does not match the exact firewall plan'')
          else admit_result request result)
      | _ \<Rightarrow> Inl (ContractError ''correlated #169 mutation request and result are required''))"

definition admit_mutation_result ::
  "(string \<Rightarrow> string) \<Rightarrow> firewall_plan obj \<Rightarrow> execution_authority obj \<Rightarrow> capability_request obj \<Rightarrow>
   capability_result obj \<Rightarrow> mutation_disposition res" where
  "admit_mutation_result sha plan authority request result =
     seq_res (admit_mutation_context sha plan authority request result) (Inr REINSPECTION_REQUIRED)"

section \<open>Verification after the mutation\<close>

text \<open>
  These run after \<open>admit_mutation_context\<close> has accepted the plan, so the plan is an instance.
\<close>

definition admit_fresh_observation ::
  "(string \<Rightarrow> string) \<Rightarrow> firewall_plan \<Rightarrow> firewall_observation obj \<Rightarrow> execution_authority obj \<Rightarrow>
   observation_phase \<Rightarrow> capability_request obj \<Rightarrow> firewall_observation res" where
  "admit_fresh_observation sha p fresh authority phase predecessor =
     seq_res (admit_observation sha fresh authority phase (Some (pl_target p)) (Some predecessor))
       (case fresh of
          Alien \<Rightarrow> Inl AttributeError
        | Exact ob \<Rightarrow>
            if rq_adapter_id (fo_request ob) \<noteq> pl_adapter_id p
              \<or> rq_source_revision (fo_request ob) \<noteq> pl_source_revision p
              \<or> fo_supported_operations ob \<noteq> pl_supported_operations p
            then Inl (ContractError ''fresh observation uses a different adapter authority'')
            else if fo_preserved_state_sha256 ob \<noteq> pl_preserved_state_sha256 p
              \<or> map PStr (fo_operator_access ob) \<noteq> pl_operator_access p
            then Inl (ContractError ''fresh observation did not preserve unrelated/operator provider state'')
            else Inr ob)"

definition the_plan :: "firewall_plan obj \<Rightarrow> firewall_plan res" where
  "the_plan plan = (case plan of Exact p \<Rightarrow> Inr p | Alien \<Rightarrow> Inl AttributeError)"

definition fw_verify ::
  "(string \<Rightarrow> string) \<Rightarrow> firewall_plan obj \<Rightarrow> execution_authority obj \<Rightarrow> capability_request obj \<Rightarrow>
   capability_result obj \<Rightarrow> firewall_observation obj \<Rightarrow> execution_authority obj \<Rightarrow> unit res" where
  "fw_verify sha plan authority request result fresh inspect_authority =
     seq_res (admit_mutation_context sha plan authority request result) (
     bind_res (the_plan plan) (\<lambda>p.
     bind_res (admit_fresh_observation sha p fresh inspect_authority POST_MUTATION request) (\<lambda>ob.
     if map ofp_policy (fo_owned ob) \<noteq> [pl_desired p]
     then Inl (ContractError ''fresh provider read did not verify exact desired policy'')
     else Inr ())))"

datatype recovery = Decided recovery_decision | Rollback rollback_plan

definition no_retained_effect :: "capability_result \<Rightarrow> bool" where
  "no_retained_effect rs \<longleftrightarrow> rs_outcome rs \<in> {Out_UNSUPPORTED, Out_ALREADY_SATISFIED} \<or>
     (rs_outcome rs = Out_FAILED \<and> rs_cleanup rs = Cl_COMPLETE)"

definition classify_recovery ::
  "firewall_plan \<Rightarrow> capability_result \<Rightarrow> firewall_observation \<Rightarrow> recovery res" where
  "classify_recovery p rs ob =
     (let prior = map_option ofp_policy (pl_prior_owned p);
          fresh = map_option ofp_policy (owned_head ob) in
      if no_retained_effect rs
      then (if fresh = prior then Inr (Decided PRIOR_VERIFIED)
            else Inl (ContractError ''no-effect mutation result cannot authorize recovery of provider drift''))
      else if fresh = Some (pl_desired p) then Inr (Decided DESIRED_VERIFIED)
      else if fresh = prior then Inr (Decided PRIOR_VERIFIED)
      else if fo_revision ob = None
      then Inl (ContractError ''rollback planning requires fresh concurrency authority'')
      else bind_res (observed_target ob) (\<lambda>target.
        bind_res (new_rollback_plan (Exact target) (PStr (pl_adapter_id p)) (PStr (pl_source_revision p))
            (frozen (pl_supported_operations p)) (map_option Exact prior)
            (PStr (pl_preserved_state_sha256 p)) (PTuple (pl_operator_access p)))
          (\<lambda>r. Inr (Rollback r))))"

definition recovery_plan ::
  "(string \<Rightarrow> string) \<Rightarrow> firewall_plan obj \<Rightarrow> execution_authority obj \<Rightarrow> capability_request obj \<Rightarrow>
   capability_result obj \<Rightarrow> firewall_observation obj \<Rightarrow> execution_authority obj \<Rightarrow> recovery res" where
  "recovery_plan sha plan authority request result fresh inspect_authority =
     seq_res (admit_mutation_context sha plan authority request result) (
     bind_res (the_plan plan) (\<lambda>p.
     bind_res (admit_fresh_observation sha p fresh inspect_authority POST_MUTATION request) (\<lambda>ob.
     case result of
       Alien \<Rightarrow> Inl AttributeError
     | Exact rs \<Rightarrow> classify_recovery p rs ob)))"

section \<open>Rollback\<close>

definition rollback_parameters_sha256 :: "(string \<Rightarrow> string) \<Rightarrow> rollback_plan obj \<Rightarrow> string res" where
  "rollback_parameters_sha256 sha rollback = (case rollback of
       Alien \<Rightarrow> Inl (ContractError ''one rollback plan is required'')
     | Exact r \<Rightarrow> bind_res (target_document (Exact (rb_target r))) (\<lambda>t.
         canonical_digest sha [(''contract'', PStr ''secpal-provider-firewall-rollback-v1''),
           (''action'', PStr ''restore-prior-owned-semantics''), (''target'', t),
           (''adapter_id'', PStr (rb_adapter_id r)), (''source_revision'', PStr (rb_source_revision r)),
           (''supported_operations'', operation_names (rb_supported_operations r)),
           (''ownership_scope'', PStr ''secpal-protected-origin-v1''),
           (''restore_policy'', case rb_restore_policy r of None \<Rightarrow> PNone | Some pol \<Rightarrow> policy_document pol),
           (''preserved_state_sha256'', PStr (rb_preserved_state_sha256 r)),
           (''operator_access'', PList (rb_operator_access r))]))"

definition build_rollback_request ::
  "(string \<Rightarrow> string) \<Rightarrow> rollback_plan obj \<Rightarrow> execution_authority obj \<Rightarrow> pyval \<Rightarrow> capability_request res" where
  "build_rollback_request sha rollback authority request_id =
     seq_res (fw_identity ''rollback request identity'' request_id) (
     bind_res (rollback_parameters_sha256 sha rollback) (\<lambda>parameters.
     case rollback of
       Alien \<Rightarrow> Inl AttributeError
     | Exact r \<Rightarrow>
         if \<not> authority_binds authority (rb_adapter_id r) (rb_source_revision r) (rb_target r) parameters
         then Inl (ContractError ''rollback authority does not bind fresh provider state'')
         else bind_res (new_capability_request request_id (PStr (rb_adapter_id r))
             (PStr (rb_source_revision r)) (Exact Op_REBUILD) (Exact (rb_target r)) (PStr parameters))
           (\<lambda>request. seq_res (admit_request (Exact request) authority (frozen (rb_supported_operations r)))
              (Inr request))))"

definition admit_rollback_context ::
  "(string \<Rightarrow> string) \<Rightarrow> rollback_plan obj \<Rightarrow> execution_authority obj \<Rightarrow> capability_request obj \<Rightarrow>
   capability_result obj \<Rightarrow> unit res" where
  "admit_rollback_context sha rollback authority request result =
     (case (request, result) of
        (Exact rq, Exact rs) \<Rightarrow>
          bind_res (build_rollback_request sha rollback authority (PStr (rq_request_id rq))) (\<lambda>expected.
          if rq \<noteq> expected
          then Inl (ContractError ''rollback request does not match fresh recovery state'')
          else admit_result request result)
      | _ \<Rightarrow> Inl (ContractError ''correlated #169 rollback request and result are required''))"

definition admit_rollback_result ::
  "(string \<Rightarrow> string) \<Rightarrow> rollback_plan obj \<Rightarrow> execution_authority obj \<Rightarrow> capability_request obj \<Rightarrow>
   capability_result obj \<Rightarrow> mutation_disposition res" where
  "admit_rollback_result sha rollback authority request result =
     seq_res (admit_rollback_context sha rollback authority request result) (Inr REINSPECTION_REQUIRED)"

definition verify_rollback ::
  "(string \<Rightarrow> string) \<Rightarrow> rollback_plan obj \<Rightarrow> execution_authority obj \<Rightarrow> capability_request obj \<Rightarrow>
   capability_result obj \<Rightarrow> firewall_observation obj \<Rightarrow> execution_authority obj \<Rightarrow> unit res" where
  "verify_rollback sha rollback authority request result fresh inspect_authority =
     seq_res (admit_rollback_context sha rollback authority request result)
       (case rollback of
          Alien \<Rightarrow> Inl AttributeError
        | Exact r \<Rightarrow>
            seq_res (admit_observation sha fresh inspect_authority POST_ROLLBACK (Some (rb_target r)) (Some request))
              (case fresh of
                 Alien \<Rightarrow> Inl AttributeError
               | Exact ob \<Rightarrow>
                   if rq_adapter_id (fo_request ob) \<noteq> rb_adapter_id r
                     \<or> rq_source_revision (fo_request ob) \<noteq> rb_source_revision r
                     \<or> fo_supported_operations ob \<noteq> rb_supported_operations r
                     \<or> fo_preserved_state_sha256 ob \<noteq> rb_preserved_state_sha256 r
                     \<or> map PStr (fo_operator_access ob) \<noteq> rb_operator_access r
                   then Inl (ContractError ''rollback did not preserve exact non-owned provider state'')
                   else if map_option ofp_policy (owned_head ob) \<noteq> rb_restore_policy r
                   then Inl (ContractError ''rollback did not restore prior owned semantics'')
                   else Inr ()))"

end
