(* ===== verification/Prefix_Store_Facts.thy ===== *)
theory Prefix_Store_Facts
  imports Prefix_Store
begin

text \<open>
  What the state store of \<open>scripts/cloudfront-origin-prefix-lkg.py\<close> guarantees under every
  combination of failing system calls: publication is all or nothing and its exception says
  which; only an acknowledged, valid, admitted candidate ever becomes the accepted document;
  what was accepted is read back; and acquiring the lock always ends.
\<close>

section \<open>Outcomes of system calls\<close>

lemma sys_cases:
  assumes "sys env f w = (r, w')"
  obtains (failed) "r = Inl (OSError ''EIO'')" "os_nodes w' = os_nodes w"
  | (finished) w1 where "f w1 = (r, w')" "os_nodes w1 = os_nodes w"
  using assms by (auto simp: sys_def Let_def split: if_splits)

lemma touch_call_cases:
  "touch_call env w = (r, w') \<Longrightarrow> (r = Inr () \<or> (\<exists>e. r = Inl (OSError e))) \<and> os_nodes w' = os_nodes w"
  by (auto simp: touch_call_def elim: sys_cases)

lemma open_directory_cases:
  "open_directory env p w = (r, w') \<Longrightarrow>
     (r = Inr () \<or> (\<exists>e. r = Inl (OSError e))) \<and> os_nodes w' = os_nodes w"
  by (auto simp: open_directory_def ENOENT_def elim!: sys_cases split: option.splits if_splits)

lemma mkstemp_cases:
  assumes "mkstemp env d pre w = (r, w')"
  obtains (failed) e where "r = Inl (OSError e)" "os_nodes w' = os_nodes w"
  | (made) sfx ino where "r = Inr (d @ [pre @ sfx])" "os_nodes w (d @ [pre @ sfx]) = None"
      "os_nodes w' = (os_nodes w)(d @ [pre @ sfx] \<mapsto> \<lparr>nd_kind = K_Reg, nd_uid = env_euid env,
         nd_mode = 0x180, nd_nlink = 1, nd_ino = ino, nd_bytes = []\<rparr>)"
  using assms unfolding mkstemp_def
  by (rule sys_cases) (auto simp: Let_def new_node_def set_node_def split: option.splits)

lemma update_node_cases:
  assumes "sys env (update_node p f) w = (r, w')" and "os_nodes w p = Some n"
  obtains (failed) e where "r = Inl (OSError e)" "os_nodes w' = os_nodes w"
  | (finished) "r = Inr ()" "os_nodes w' = (os_nodes w)(p \<mapsto> f n)"
  using assms by (auto simp: update_node_def set_node_def elim!: sys_cases split: option.splits)

lemma unlink_cases:
  assumes "unlink env p w = (r, w')"
  shows "(r = Inr () \<or> (\<exists>e. r = Inl (OSError e))) \<and> (\<forall>q. q \<noteq> p \<longrightarrow> os_nodes w' q = os_nodes w q)"
  using assms
  by (auto simp: unlink_def set_node_def ENOENT_def elim!: sys_cases split: option.splits)

lemma replace_cases:
  assumes "replace env src dst w = (r, w')"
  obtains (failed) e where "r = Inl (OSError e)" "os_nodes w' = os_nodes w"
  | (finished) n where "r = Inr ()" "os_nodes w src = Some n"
      "os_nodes w' = (os_nodes w)(src := None, dst \<mapsto> n)"
  using assms
  by (auto simp: replace_def set_node_def ENOENT_def elim!: sys_cases split: option.splits if_splits)

section \<open>Publication\<close>

definition published :: "os_env \<Rightarrow> path \<Rightarrow> string \<Rightarrow> os \<Rightarrow> bool" where
  "published env p content w \<longleftrightarrow>
     (\<exists>n. os_nodes w p = Some n \<and> private_file env n \<and> nd_bytes n = content)"

lemma bind_io_eq:
  "bind_io m f w = (r, w'') \<longleftrightarrow>
     (\<exists>e. m w = (Inl e, w'') \<and> r = Inl e) \<or> (\<exists>x w'. m w = (Inr x, w') \<and> f x w' = (r, w''))"
  by (cases "m w"; cases "fst (m w)") (auto simp: bind_io_def)

lemma fill_temporary_spec:
  assumes "fill_temporary env p content w = (r, w')" and n: "os_nodes w p = Some n"
  shows "(\<forall>q. q \<noteq> p \<longrightarrow> os_nodes w' q = os_nodes w q) \<and>
    (case r of Inr _ \<Rightarrow> os_nodes w' p = Some (n\<lparr>nd_mode := 0x180, nd_bytes := nd_bytes n @ content\<rparr>)
     | Inl e \<Rightarrow> \<exists>m. e = OSError m)"
proof -
  obtain r1 w1 where 1: "fchmod env p 0x180 w = (r1, w1)" by (cases "fchmod env p 0x180 w")
  obtain r2 w2 where 2: "touch_call env w1 = (r2, w2)" by (cases "touch_call env w1")
  obtain r3 w3 where 3: "write_bytes env p content w2 = (r3, w3)" by (cases "write_bytes env p content w2")
  obtain r4 w4 where 4: "touch_call env w3 = (r4, w4)" by (cases "touch_call env w3")
  obtain r5 w5 where 5: "touch_call env w4 = (r5, w5)" by (cases "touch_call env w4")
  note t = touch_call_cases
  from 1 n have "(\<exists>e. r1 = Inl (OSError e)) \<and> os_nodes w1 = os_nodes w \<or>
      r1 = Inr () \<and> os_nodes w1 = (os_nodes w)(p \<mapsto> n\<lparr>nd_mode := 0x180\<rparr>)"
    unfolding fchmod_def by (elim update_node_cases) auto
  moreover from 3 have "(\<exists>e. r3 = Inl (OSError e)) \<and> os_nodes w3 = os_nodes w2 \<or>
      r3 = Inr () \<and> os_nodes w3 = (os_nodes w2)(p \<mapsto> n'\<lparr>nd_bytes := nd_bytes n' @ content\<rparr>)"
    if "os_nodes w2 p = Some n'" for n'
    using that unfolding write_bytes_def by (elim update_node_cases) auto
  ultimately show ?thesis
    using assms(1) 1 2 3 4 5 t [OF 2] t [OF 4] t [OF 5]
    by (auto simp: fill_temporary_def bind_io_def finally_io_def split: prod.splits sum.splits
        dest!: touch_call_cases)
qed

lemma sync_directory_spec:
  "sync_directory env d w = (r, w') \<Longrightarrow>
     (r = Inr () \<or> (\<exists>e. r = Inl (OSError e))) \<and> os_nodes w' = os_nodes w"
  by (auto simp: sync_directory_def bind_io_def finally_io_def split: prod.splits sum.splits
      dest!: open_directory_cases touch_call_cases)

lemma os_error_to_spec:
  "os_error_to e m w = (r, w') \<longleftrightarrow>
     (\<exists>q. m w = (q, w') \<and> r = (case q of Inl (OSError _) \<Rightarrow> Inl e | _ \<Rightarrow> q))"
  by (cases "m w"; cases "fst (m w)")
    (auto simp: os_error_to_def catch_io_def split: exc.splits)

lemma dot_name_differs: "d @ [CHR ''.'' # name @ ''.'' @ sfx] \<noteq> d @ [name]"
  by (auto dest: arg_cong [where f = length])

text \<open>Writing the temporary file and renaming it: the target is replaced, or untouched.\<close>

lemma publish_temporary_spec:
  assumes "bind_io (fill_temporary env tmp content) (\<lambda>_. replace env tmp target) w = (r, w')"
    and n: "os_nodes w tmp = Some n" "nd_kind n = K_Reg" "nd_nlink n = 1" "nd_uid n = env_euid env"
      "nd_bytes n = []"
    and ne: "tmp \<noteq> target"
  shows "(\<forall>q. q \<notin> {tmp, target} \<longrightarrow> os_nodes w' q = os_nodes w q) \<and>
    (case r of Inr _ \<Rightarrow> published env target content w' \<and> os_nodes w' tmp = None
     | Inl e \<Rightarrow> (\<exists>m. e = OSError m) \<and> os_nodes w' target = os_nodes w target)"
proof -
  obtain r1 w1 where 1: "fill_temporary env tmp content w = (r1, w1)"
    by (cases "fill_temporary env tmp content w")
  note f = fill_temporary_spec [OF 1 n(1)]
  show ?thesis
  proof (cases r1)
    case (Inl e)
    then show ?thesis using f 1 assms(1) ne by (auto simp: bind_io_def)
  next
    case (Inr u)
    then have "replace env tmp target w1 = (r, w')" using 1 assms(1) by (simp add: bind_io_def)
    then show ?thesis
      by (rule replace_cases) (use f Inr n ne in \<open>auto simp: published_def private_file_def\<close>)
  qed
qed

lemma atomic_write_spec:
  assumes "atomic_write env d name content w = (r, w')"
  shows "(\<forall>p. p \<noteq> d @ [name] \<and> os_nodes w p \<noteq> None \<longrightarrow> os_nodes w' p = os_nodes w p) \<and>
    (case r of
       Inr _ \<Rightarrow> published env (d @ [name]) content w'
     | Inl (CommitStateUncertain _) \<Rightarrow> published env (d @ [name]) content w'
     | Inl (ContractError _) \<Rightarrow> os_nodes w' (d @ [name]) = os_nodes w (d @ [name])
     | Inl _ \<Rightarrow> False)"
proof (cases "MAX_STATE_BYTES < int (length content)")
  case True
  then show ?thesis using assms by (auto simp: atomic_write_def)
next
  case False
  obtain r1 w1 where 1: "mkstemp env d (''.'' @ name @ ''.'') w = (r1, w1)"
    by (cases "mkstemp env d (''.'' @ name @ ''.'') w")
  from 1 show ?thesis
  proof (rule mkstemp_cases)
    fix e assume "r1 = Inl (OSError e)" "os_nodes w1 = os_nodes w"
    then show ?thesis using assms False 1 by (auto simp: atomic_write_def bind_io_eq os_error_to_spec)
  next
    fix sfx ino
    let ?tmp = "d @ [(''.'' @ name @ ''.'') @ sfx]" and ?target = "d @ [name]"
    let ?n = "\<lparr>nd_kind = K_Reg, nd_uid = env_euid env, nd_mode = 0x180, nd_nlink = 1, nd_ino = ino,
        nd_bytes = []\<rparr>"
    assume r1: "r1 = Inr ?tmp" and fresh: "os_nodes w ?tmp = None"
      and w1: "os_nodes w1 = (os_nodes w)(?tmp \<mapsto> ?n)"
    let ?pub = "bind_io (fill_temporary env ?tmp content) (\<lambda>_. replace env ?tmp ?target)"
    obtain r2 w2 where 2: "?pub w1 = (r2, w2)" by (cases "?pub w1")
    have ne: "?tmp \<noteq> ?target" using dot_name_differs [of d name sfx] by simp
    have p: "(\<forall>q. q \<notin> {?tmp, ?target} \<longrightarrow> os_nodes w2 q = os_nodes w1 q) \<and>
      (case r2 of Inr _ \<Rightarrow> published env ?target content w2 \<and> os_nodes w2 ?tmp = None
       | Inl e \<Rightarrow> (\<exists>m. e = OSError m) \<and> os_nodes w2 ?target = os_nodes w1 ?target)"
      by (rule publish_temporary_spec [OF 2, of ?n]) (use w1 ne in simp_all)
    have keep: "os_nodes w1 q = os_nodes w q" if "q \<noteq> ?tmp" for q using that w1 by simp
    have old: "q \<noteq> ?tmp" if "os_nodes w q = Some y" for q y using that fresh by auto
    show ?thesis
    proof (cases r2)
      case (Inl e)
      then obtain m where e: "e = OSError m" using p by auto
      obtain r3 w3 where 3: "ignore_os_error (unlink env ?tmp) w2 = (r3, w3)"
        by (cases "ignore_os_error (unlink env ?tmp) w2")
      then have u: "r3 = Inr () \<and> (\<forall>q. q \<noteq> ?tmp \<longrightarrow> os_nodes w3 q = os_nodes w2 q)"
        by (auto simp: ignore_os_error_def catch_io_def split: prod.splits sum.splits dest!: unlink_cases)
      have "r = Inl (ContractError ''atomic state publication failed'') \<and> w' = w3"
        using assms False 1 r1 2 3 u Inl e
        by (simp add: atomic_write_def bind_io_def os_error_to_def catch_io_def)
      then show ?thesis using p u keep ne Inl by (auto dest: old)
    next
      case (Inr v)
      obtain r3 w3 where 3: "sync_directory env d w2 = (r3, w3)" by (cases "sync_directory env d w2")
      note s = sync_directory_spec [OF 3]
      have "w' = w3 \<and> (r = Inr () \<or> r = Inl (uncertain_commit name))"
        using assms False 1 r1 2 3 s Inr
        by (auto simp: atomic_write_def bind_io_def os_error_to_def catch_io_def)
      then show ?thesis
        using p s keep ne Inr by (auto dest: old simp: published_def uncertain_commit_def)
    qed
  qed
qed

text \<open>Property C3: publication of a document is all or nothing, whichever system calls fail: no
  other existing file of the file system is touched; on success the target is a private regular
  file with exactly the content; \<open>CommitStateUncertain\<close> is raised only with the new content in
  place; \<open>ContractError\<close> is raised only with the target exactly as it was; no other exception
  is raised.\<close>

theorem atomic_write_all_or_nothing:
  assumes "atomic_write env d name content w = (r, w')"
  shows "(\<forall>p. p \<noteq> d @ [name] \<and> os_nodes w p \<noteq> None \<longrightarrow> os_nodes w' p = os_nodes w p) \<and>
    (case r of
       Inr _ \<Rightarrow> published env (d @ [name]) content w'
     | Inl (CommitStateUncertain _) \<Rightarrow> published env (d @ [name]) content w'
     | Inl (ContractError _) \<Rightarrow> os_nodes w' (d @ [name]) = os_nodes w (d @ [name])
     | Inl _ \<Rightarrow> False)"
  using atomic_write_spec [OF assms] .

section \<open>The lock\<close>

lemma lock_loop_spec:
  "lock_loop env deadline w = (r, w') \<Longrightarrow>
     os_nodes w' = os_nodes w \<and> (r = Inr () \<or> (\<exists>m. r = Inl (ContractError m)))"
proof (induction env deadline w rule: lock_loop.induct)
  case (1 env deadline w)
  obtain a w1 where 1: "flock_call env w = (a, w1)" by (cases "flock_call env w")
  obtain now w2 where 2: "monotonic env w1 = (now, w2)" by (cases "monotonic env w1")
  have n: "os_nodes w1 = os_nodes w" "os_nodes w2 = os_nodes w"
    using 1 2 by (auto simp: flock_call_def monotonic_def Let_def elim!: sys_cases)
  have s: "os_nodes (sleep env t w2) = os_nodes w2" for t by (simp add: sleep_def)
  show ?case
  proof (cases "a = Inr Busy \<and> 0 < deadline - now")
    case True
    then show ?thesis
      using "1.IH" [of a w1 "Busy" now w2] "1.prems" 1 2 n s
      by (subst (asm) (2) lock_loop.simps) (simp split: flock.splits)
  next
    case False
    then show ?thesis
      using "1.prems" 1 2 n by (subst (asm) lock_loop.simps) (auto split: sum.splits flock.splits)
  qed
qed

lemma acquire_lock_spec:
  "acquire_lock env w = (r, w') \<Longrightarrow>
     os_nodes w' = os_nodes w \<and> (r = Inr () \<or> (\<exists>m. r = Inl (ContractError m)))"
  by (auto simp: acquire_lock_def monotonic_def Let_def dest!: lock_loop_spec)

text \<open>Each round of the loop sleeps the retry interval or reaches the deadline.\<close>

lemma call_counts:
  "flock_call env w = (a, w1) \<Longrightarrow> os_calls w1 = Suc (os_calls w)"
  "monotonic env w = (t, w1) \<Longrightarrow> os_calls w1 = Suc (os_calls w)"
proof -
  have "os_calls (snd (flock_call env w)) = Suc (os_calls w)" "os_calls (snd (monotonic env w)) = Suc (os_calls w)"
    by (simp_all add: flock_call_def monotonic_def sys_def Let_def)
  then show "flock_call env w = (a, w1) \<Longrightarrow> os_calls w1 = Suc (os_calls w)"
    "monotonic env w = (t, w1) \<Longrightarrow> os_calls w1 = Suc (os_calls w)" by simp_all
qed

lemma lock_loop_bound:
  assumes "deadline - os_clock w \<le> int k * LOCK_RETRY" and "lock_loop env deadline w = (r, w')"
  shows "os_calls w' \<le> os_calls w + 3 * (k + 1) \<and>
    (r = Inr () \<or> r = Inl (ContractError ''state lock is unavailable'') \<or>
     r = Inl (ContractError ''state lock acquisition timed out'') \<and> deadline \<le> os_clock w')"
  using assms
proof (induction k arbitrary: w)
  case 0
  obtain a w1 where 1: "flock_call env w = (a, w1)" by (cases "flock_call env w")
  obtain now w2 where 2: "monotonic env w1 = (now, w2)" by (cases "monotonic env w1")
  have "os_calls w1 = Suc (os_calls w)" "os_calls w2 = Suc (os_calls w1)" "deadline \<le> now" "os_clock w2 = now"
    using 0(1) flock_call_clock [OF 1] monotonic_clock [OF 2] call_counts(1) [OF 1] call_counts(2) [OF 2]
    by simp_all
  then show ?case
    using 0(2) 1 2 by (subst (asm) lock_loop.simps) (auto split: sum.splits flock.splits)
next
  case (Suc k)
  obtain a w1 where 1: "flock_call env w = (a, w1)" by (cases "flock_call env w")
  obtain now w2 where 2: "monotonic env w1 = (now, w2)" by (cases "monotonic env w1")
  let ?w3 = "sleep env (min LOCK_RETRY (deadline - now)) w2"
  have n: "os_calls w1 = Suc (os_calls w)" "os_calls w2 = Suc (os_calls w1)" "os_clock w2 = now" "os_clock w \<le> now"
    using flock_call_clock [OF 1] monotonic_clock [OF 2] call_counts(1) [OF 1] call_counts(2) [OF 2]
    by simp_all
  have "deadline - os_clock ?w3 \<le> int k * LOCK_RETRY"
    using Suc.prems(1) n sleep_clock [of w2 "min LOCK_RETRY (deadline - now)" env]
    by (simp add: min_def LOCK_RETRY_def algebra_simps split: if_splits)
  note IH = Suc.IH [OF this]
  have "os_calls ?w3 = Suc (os_calls w2)" by (simp add: sleep_def)
  with IH show ?case
    using Suc.prems(2) 1 2 n by (subst (asm) (2) lock_loop.simps) (auto split: sum.splits flock.splits if_splits)
qed

text \<open>Property C40: acquiring the state lock always returns, after at most 124 system calls: it is
  taken, or it fails, and it fails with a time-out only when at least two seconds have passed.
  Nothing is assumed of the other lock holders.\<close>

theorem lock_acquisition_ends:
  "case acquire_lock env w of (r, w') \<Rightarrow>
     os_calls w' \<le> os_calls w + 124 \<and>
     (r = Inr () \<or> r = Inl (ContractError ''state lock is unavailable'') \<or>
      r = Inl (ContractError ''state lock acquisition timed out'') \<and> os_clock w + LOCK_TIMEOUT \<le> os_clock w')"
proof -
  obtain now w1 where 1: "monotonic env w = (now, w1)" by (cases "monotonic env w")
  obtain r w' where 2: "lock_loop env (now + LOCK_TIMEOUT) w1 = (r, w')"
    by (cases "lock_loop env (now + LOCK_TIMEOUT) w1")
  have "os_clock w1 = now" "os_clock w \<le> now" "os_calls w1 = Suc (os_calls w)"
    using monotonic_clock [OF 1] call_counts(2) [OF 1] by simp_all
  moreover from this have "now + LOCK_TIMEOUT - os_clock w1 \<le> int 40 * LOCK_RETRY"
    by (simp add: LOCK_TIMEOUT_def LOCK_RETRY_def)
  ultimately show ?thesis
    using lock_loop_bound [OF _ 2, of 40] 1 2 by (auto simp: acquire_lock_def)
qed

lemma lstat_cases:
  assumes "lstat env p w = (r, w')"
  obtains (failed) "r = Inl (OSError ''EIO'')" "os_nodes w' = os_nodes w"
  | (missing) "r = Inl ENOENT" "os_nodes w p = None" "os_nodes w' = os_nodes w"
  | (found) n where "r = Inr n" "os_nodes w p = Some n" "os_nodes w' = os_nodes w"
  using assms by (auto simp: lstat_def elim!: sys_cases split: option.splits)

lemma open_lock_cases:
  assumes "open_nofollow env p True (Some m) w = (r, w')"
  shows "(r = Inr () \<or> (\<exists>e. r = Inl (OSError e))) \<and> frame {p} w w'"
  using assms
  by (auto simp: open_nofollow_def frame_def new_node_def set_node_def elim!: sys_cases split: option.splits if_splits)

lemma ignored_touch: "ignore_os_error (touch_call env) w = (r, w') \<Longrightarrow> r = Inr () \<and> os_nodes w' = os_nodes w"
  by (auto simp: ignore_os_error_def catch_io_def split: prod.splits sum.splits dest!: touch_call_cases)

lemma finally_close_spec:
  assumes "finally_io m (ignore_os_error (touch_call env)) w = (r, w')"
  obtains w1 where "m w = (r, w1)" "os_nodes w' = os_nodes w1"
proof -
  obtain r1 w1 where 1: "m w = (r1, w1)" by (cases "m w")
  obtain r2 w2 where 2: "ignore_os_error (touch_call env) w1 = (r2, w2)"
    by (cases "ignore_os_error (touch_call env) w1")
  show thesis using assms 1 2 ignored_touch [OF 2] that by (simp add: finally_io_def)
qed

lemma double_lstat:
  assumes "os_error_to (ContractError e) (bind_io (lstat env p) (\<lambda>opened. bind_io (lstat env p)
     (\<lambda>linked. lift_io (Inr (opened, linked))))) w = (r, w')"
  shows "os_nodes w' = os_nodes w \<and>
    (r = Inl (ContractError e) \<or> (\<exists>n. os_nodes w p = Some n \<and> r = Inr (n, n)))"
  using assms unfolding os_error_to_spec bind_io_eq
  by (auto elim!: lstat_cases simp: ENOENT_def)

text \<open>The body runs at most once, under the lock, and its outcome is the outcome.\<close>

lemma state_lock_spec:
  assumes "state_lock env d body w = (r, w')"
  shows "(\<exists>w1 w2. frame {d @ [LOCK_FILE]} w w1 \<and> body w1 = (r, w2) \<and> os_nodes w' = os_nodes w2 \<and>
       (\<exists>n. os_nodes w1 (d @ [LOCK_FILE]) = Some n \<and> private_file env n)) \<or>
    (frame {d @ [LOCK_FILE]} w w' \<and> (\<exists>m. r = Inl (ContractError m)))"
proof -
  let ?lock = "d @ [LOCK_FILE]"
  let ?open = "os_error_to (ContractError ''state lock is unsafe or unavailable'')
      (open_nofollow env ?lock True (Some 0x180))"
  obtain r1 w1 where 1: "?open w = (r1, w1)" by (cases "?open w")
  have f1: "frame {?lock} w w1" "r1 = Inr () \<or> (\<exists>m. r1 = Inl (ContractError m))"
    using 1 unfolding os_error_to_spec by (auto dest!: open_lock_cases)
  show ?thesis
  proof (cases "r1 = Inr ()")
    case False
    then show ?thesis using f1 assms 1 by (auto simp: state_lock_def bind_io_def)
  next
    case True
    let ?check = "os_error_to (ContractError ''state lock is unsafe or unavailable'')
          (bind_io (lstat env ?lock) (\<lambda>opened. bind_io (lstat env ?lock) (\<lambda>linked. lift_io (Inr (opened, linked)))))"
    let ?locked = "bind_io ?check (\<lambda>(opened, linked).
             if \<not> private_file env opened \<or> nd_ino opened \<noteq> nd_ino linked
             then lift_io (Inl (ContractError ''state lock is unsafe''))
             else bind_io (acquire_lock env) (\<lambda>_. body))"
    have "finally_io ?locked (ignore_os_error (touch_call env)) w1 = (r, w')"
      using assms 1 True unfolding state_lock_def bind_io_def [of ?open] by simp
    then obtain w6 where b: "?locked w1 = (r, w6)" and w6: "os_nodes w' = os_nodes w6"
      by (rule finally_close_spec)
    from b consider (early) m where "r = Inl (ContractError m)" "os_nodes w6 = os_nodes w1"
      | (run) n w5 where "os_nodes w1 ?lock = Some n" "private_file env n"
        "os_nodes w5 = os_nodes w1" "body w5 = (r, w6)"
      unfolding bind_io_eq [where w = w1]
      by (auto dest!: double_lstat simp: bind_io_eq split: if_splits dest!: acquire_lock_spec)
    then show ?thesis
    proof cases
      case early
      then show ?thesis using f1(1) w6 by (simp add: frame_def)
    next
      case run
      then have "frame {?lock} w w5" "os_nodes w5 ?lock = Some n" using f1(1) by (simp_all add: frame_def)
      then show ?thesis using run w6 by blast
    qed
  qed
qed

section \<open>Reading\<close>

text \<open>What a state file holds: nothing, or a valid document in a private regular file.\<close>

definition stored :: "(string \<Rightarrow> string) \<Rightarrow> os_env \<Rightarrow> os \<Rightarrow> path \<Rightarrow> pydict option \<Rightarrow> bool" where
  "stored sha env w p x = (case x of
     None \<Rightarrow> os_nodes w p = None
   | Some d \<Rightarrow> \<exists>n. os_nodes w p = Some n \<and> private_file env n \<and> int (length (nd_bytes n)) \<le> MAX_STATE_BYTES \<and>
       decode_json (nd_bytes n) = Inr (PDict d) \<and> validate_candidate sha (PDict d) = Inr ())"

lemma state_file_spec:
  assumes "state_file env d name required w = (r, w')"
  shows "os_nodes w' = os_nodes w \<and>
    (\<forall>x. r = Inr x \<longrightarrow> (case x of None \<Rightarrow> os_nodes w (d @ [name]) = None \<and> \<not> required
       | Some p \<Rightarrow> p = d @ [name] \<and> (\<exists>n. os_nodes w p = Some n \<and> private_file env n))) \<and>
    (\<forall>e. r = Inl e \<longrightarrow> (\<exists>m. e = ContractError m))"
proof -
  obtain q w1 where 1: "lstat env (d @ [name]) w = (q, w1)" by (cases "lstat env (d @ [name]) w")
  then show ?thesis
    by (rule lstat_cases)
      (use assms 1 in \<open>auto simp: state_file_def bind_io_def catch_io_def ENOENT_def split: if_splits\<close>)
qed

lemma open_read_cases:
  "open_nofollow env p wr None w = (r, w') \<Longrightarrow>
     (r = Inr () \<or> (\<exists>e. r = Inl (OSError e))) \<and> os_nodes w' = os_nodes w"
  by (auto simp: open_nofollow_def ENOENT_def elim!: sys_cases split: option.splits if_splits)

lemma read_bytes_cases:
  "read_bytes env p k w = (r, w') \<Longrightarrow> os_nodes w' = os_nodes w \<and>
     ((\<exists>e. r = Inl (OSError e)) \<or> (\<exists>n. os_nodes w p = Some n \<and> r = Inr (at_most k (nd_bytes n))))"
  by (auto simp: read_bytes_def ENOENT_def elim!: sys_cases split: option.splits)

lemma read_and_close_spec:
  assumes "finally_io (read_bytes env p k) (touch_call env) w = (r, w')"
  shows "os_nodes w' = os_nodes w \<and>
     ((\<exists>e. r = Inl (OSError e)) \<or> (\<exists>n. os_nodes w p = Some n \<and> r = Inr (at_most k (nd_bytes n))))"
  using assms
  by (auto simp: finally_io_def split: prod.splits sum.splits dest!: read_bytes_cases touch_call_cases)

lemma at_most_whole:
  "int (length (at_most (MAX_STATE_BYTES + 1) b)) \<le> MAX_STATE_BYTES \<Longrightarrow>
     at_most (MAX_STATE_BYTES + 1) b = b \<and> int (length b) \<le> MAX_STATE_BYTES"
  by (auto simp: at_most_def MAX_STATE_BYTES_def split: if_splits)

lemma read_content_spec:
  assumes "read_content env p w = (r, w')"
  shows "os_nodes w' = os_nodes w \<and>
    (\<forall>x. r = Inr x \<longrightarrow> (\<exists>n. os_nodes w p = Some n \<and> int (length (nd_bytes n)) \<le> MAX_STATE_BYTES \<and>
       decode_json (nd_bytes n) = Inr x))"
proof -
  obtain r1 w1 where 1: "open_nofollow env p False None w = (r1, w1)"
    by (cases "open_nofollow env p False None w")
  obtain r2 w2 where 2: "lstat env p w1 = (r2, w2)" by (cases "lstat env p w1")
  obtain r3 w3 where 3: "lstat env p w2 = (r3, w3)" by (cases "lstat env p w2")
  obtain r4 w4 where 4: "touch_call env w3 = (r4, w4)" by (cases "touch_call env w3")
  obtain r5 w5 where 5: "finally_io (read_bytes env p (MAX_STATE_BYTES + 1)) (touch_call env) w4 = (r5, w5)"
    by (cases "finally_io (read_bytes env p (MAX_STATE_BYTES + 1)) (touch_call env) w4")
  have n: "os_nodes w1 = os_nodes w" "os_nodes w2 = os_nodes w" "os_nodes w3 = os_nodes w" "os_nodes w4 = os_nodes w"
    using open_read_cases [OF 1] 2 3 touch_call_cases [OF 4] by (auto elim!: lstat_cases)
  show ?thesis
    using assms 1 2 3 4 5 n read_and_close_spec [OF 5]
    by (simp add: read_content_def bind_io_def split: sum.splits if_splits)
      (auto simp: not_less dest: at_most_whole split: if_splits)
qed

lemma read_document_spec:
  assumes "read_document sha env d name required w = (r, w')"
  shows "os_nodes w' = os_nodes w \<and>
    (\<forall>x. r = Inr x \<longrightarrow> stored sha env w (d @ [name]) x \<and> (x = None \<longrightarrow> \<not> required))"
proof -
  obtain r1 w1 where 1: "state_file env d name required w = (r1, w1)"
    by (cases "state_file env d name required w")
  note s1 = state_file_spec [OF 1]
  consider (err) e where "r1 = Inl e" | (none) "r1 = Inr None" | (some) p where "r1 = Inr (Some p)"
    by (cases r1; cases "projr r1") auto
  then show ?thesis
  proof cases
    case err
    then show ?thesis using assms 1 s1 by (auto simp: read_document_def bind_io_def)
  next
    case none
    then show ?thesis using assms 1 s1 by (auto simp: read_document_def bind_io_def stored_def)
  next
    case some
    obtain r2 w2 where 2: "read_content env p w1 = (r2, w2)" by (cases "read_content env p w1")
    note s2 = read_content_spec [OF 2]
    show ?thesis
    proof (cases r2)
      case (Inl e)
      then show ?thesis using assms 1 2 s1 s2 some by (auto simp: read_document_def bind_io_def catch_io_def)
    next
      case (Inr v)
      then show ?thesis
        using assms 1 2 s1 s2 some
        by (cases v)
          (auto simp: read_document_def bind_io_def catch_io_def stored_def split: sum.splits)
    qed
  qed
qed

section \<open>The directory\<close>

lemma component_metadata_spec:
  assumes "component_metadata env p False w = (r, w')"
  shows "os_nodes w' = os_nodes w \<and> (\<forall>n. r = Inr n \<longrightarrow> os_nodes w p = Some n) \<and>
    (\<forall>e. r = Inl e \<longrightarrow> (\<exists>m. e = ContractError m))"
proof -
  obtain r1 w1 where 1: "lstat env p w = (r1, w1)" by (cases "lstat env p w")
  then show ?thesis
    by (rule lstat_cases)
      (use assms 1 in \<open>auto simp: component_metadata_def catch_io_def ENOENT_def split: if_splits\<close>)
qed

text \<open>The conditions of \<open>_assert_safe_directory\<close> on the file system.\<close>

fun safe_components :: "(path \<Rightarrow> node option) \<Rightarrow> path \<Rightarrow> path \<Rightarrow> node \<Rightarrow> node option" where
  "safe_components f current [] n = Some n"
| "safe_components f current (part # rest) n =
     (case f (current @ [part]) of
        None \<Rightarrow> None
      | Some m \<Rightarrow> if component_check m (rest = []) = Inr ()
                  then safe_components f (current @ [part]) rest m else None)"

definition safe_directory :: "os_env \<Rightarrow> (path \<Rightarrow> node option) \<Rightarrow> py_path \<Rightarrow> bool" where
  "safe_directory env f p \<longleftrightarrow> pp_absolute p \<and> ''..'' \<notin> set (pp_parts p) \<and> pp_parts p \<noteq> [] \<and>
     (\<exists>n. safe_components f [] (pp_parts p) no_node = Some n \<and> nd_uid n = env_euid env \<and> nd_mode n = 0x1C0)"

lemma walk_components_spec:
  "walk_components env False cur ps n w = (r, w') \<Longrightarrow>
     os_nodes w' = os_nodes w \<and> (\<forall>m. r = Inr m \<longrightarrow> safe_components (os_nodes w) cur ps n = Some m) \<and>
     (\<forall>e. r = Inl e \<longrightarrow> (\<exists>m. e = ContractError m))"
proof (induction ps arbitrary: cur n w)
  case (Cons part rest)
  obtain r1 w1 where 1: "component_metadata env (cur @ [part]) False w = (r1, w1)"
    by (cases "component_metadata env (cur @ [part]) False w")
  note s1 = component_metadata_spec [OF 1]
  show ?case
  proof (cases r1)
    case (Inl e)
    then show ?thesis using Cons.prems 1 s1 by (auto simp: Let_def bind_io_def)
  next
    case (Inr m)
    show ?thesis
    proof (cases "component_check m (rest = [])")
      case (Inl e)
      then have "\<exists>s. e = ContractError s" by (auto simp: component_check_def split: if_splits)
      then show ?thesis using Cons.prems 1 s1 Inl \<open>r1 = Inr m\<close> by (auto simp: Let_def bind_io_def)
    next
      case (Inr u)
      then show ?thesis
        using Cons.prems 1 s1 \<open>r1 = Inr m\<close> Cons.IH [of "cur @ [part]" m w1]
        by (simp add: Let_def bind_io_def)
    qed
  qed
qed auto

lemma assert_safe_directory_spec:
  assumes "assert_safe_directory env p False w = (r, w')"
  shows "os_nodes w' = os_nodes w \<and> (\<forall>d. r = Inr d \<longrightarrow> d = pp_parts p \<and> safe_directory env (os_nodes w) p) \<and>
    (\<forall>e. r = Inl e \<longrightarrow> (\<exists>m. e = ContractError m))"
proof (cases "\<not> pp_absolute p \<or> ''..'' \<in> set (pp_parts p) \<or> pp_parts p = []")
  case True
  then show ?thesis using assms by (auto simp: assert_safe_directory_def)
next
  case False
  obtain r1 w1 where 1: "walk_components env False [] (pp_parts p) no_node w = (r1, w1)"
    by (cases "walk_components env False [] (pp_parts p) no_node w")
  show ?thesis
    using assms False 1 walk_components_spec [OF 1]
    by (cases r1) (auto simp: assert_safe_directory_def bind_io_def safe_directory_def split: if_splits)
qed

lemma fsync_directory_spec:
  assumes "fsync_directory env p label w = (r, w')"
  shows "os_nodes w' = os_nodes w \<and> (r = Inr () \<or> (\<exists>m. r = Inl (ContractError m)))"
proof -
  have inner: "os_nodes v' = os_nodes v \<and> (q = Inr () \<or> (\<exists>m. q = Inl (ContractError m)))"
    if "finally_io (os_error_to (ContractError m) (touch_call env)) (ignore_os_error (touch_call env)) v = (q, v')"
    for m q v v'
    using that by (rule finally_close_spec) (auto simp: os_error_to_spec dest!: touch_call_cases)
  show ?thesis
    using assms unfolding fsync_directory_def bind_io_eq os_error_to_spec [where m = "open_directory env p"]
    by (auto dest!: open_directory_cases dest: inner)
qed

section \<open>Acceptance\<close>

lemma file_names_distinct:
  "d @ [LKG_FILE] \<noteq> d @ [LOCK_FILE]" "d @ [CANDIDATE_FILE] \<noteq> d @ [LOCK_FILE]"
  "d @ [CANDIDATE_FILE] \<noteq> d @ [LKG_FILE]"
  by (simp_all add: LKG_FILE_def LOCK_FILE_def CANDIDATE_FILE_def)

lemma stored_cong: "os_nodes w p = os_nodes v p \<Longrightarrow> stored sha env w p x = stored sha env v p x"
  by (simp add: stored_def split: option.splits)

lemma accept_locked_spec:
  assumes "accept_locked sha env d h w = (r, w')"
  shows "(os_nodes w' = os_nodes w \<and> r \<noteq> Inr ()) \<or>
    (\<exists>c acc content w1. stored sha env w (d @ [CANDIDATE_FILE]) (Some c) \<and>
       stored sha env w (d @ [LKG_FILE]) acc \<and> admit_successor sha acc c = Inr () \<and>
       dget c ''candidate_sha256'' = PStr h \<and> canonical_bytes c = Inr content \<and>
       os_nodes w1 = os_nodes w \<and> atomic_write env d LKG_FILE content w1 = (r, w'))"
proof -
  obtain r1 w1 where 1: "read_document sha env d CANDIDATE_FILE True w = (r1, w1)"
    by (cases "read_document sha env d CANDIDATE_FILE True w")
  note s1 = read_document_spec [OF 1]
  show ?thesis
  proof (cases "\<exists>c. r1 = Inr (Some c)")
    case False
    then show ?thesis using assms 1 s1
      by (cases r1) (auto simp: accept_locked_def bind_io_def asserted_def)
  next
    case True
    then obtain c where c: "r1 = Inr (Some c)" by blast
    obtain r2 w2 where 2: "read_document sha env d LKG_FILE False w1 = (r2, w2)"
      by (cases "read_document sha env d LKG_FILE False w1")
    note s2 = read_document_spec [OF 2]
    show ?thesis
    proof (cases r2)
      case (Inl e)
      then show ?thesis using assms 1 2 c s1 s2
        by (auto simp: accept_locked_def bind_io_def asserted_def)
    next
      case (Inr acc)
      have st: "stored sha env w (d @ [CANDIDATE_FILE]) (Some c)" "stored sha env w (d @ [LKG_FILE]) acc"
        using s1 s2 c Inr stored_cong by (blast, metis)
      show ?thesis
      proof (cases "admit_successor sha acc c = Inr () \<and> dget c ''candidate_sha256'' = PStr h \<and>
          (\<exists>content. canonical_bytes c = Inr content)")
        case True
        then show ?thesis using assms 1 2 c s1 s2 Inr st
          by (auto simp: accept_locked_def bind_io_def asserted_def)
      next
        case False
        then show ?thesis using assms 1 2 c s1 s2 Inr st
          by (cases "admit_successor sha acc c"; cases "canonical_bytes c")
            (auto simp: accept_locked_def bind_io_def asserted_def split: if_splits)
      qed
    qed
  qed
qed

lemma accept_effect:
  assumes "accept_candidate sha env dir acknowledged w = (r, w')"
    and "r = Inr () \<or> os_nodes w' (pp_parts dir @ [LKG_FILE]) \<noteq> os_nodes w (pp_parts dir @ [LKG_FILE])"
  shows "\<exists>h c acc content. acknowledged = PStr h \<and>
     stored sha env w (pp_parts dir @ [CANDIDATE_FILE]) (Some c) \<and>
     stored sha env w (pp_parts dir @ [LKG_FILE]) acc \<and> admit_successor sha acc c = Inr () \<and>
     dget c ''candidate_sha256'' = PStr h \<and> canonical_bytes c = Inr content \<and>
     published env (pp_parts dir @ [LKG_FILE]) content w' \<and>
     int (length content) \<le> MAX_STATE_BYTES \<and> safe_directory env (os_nodes w) dir \<and>
     (\<exists>n. os_nodes w' (pp_parts dir @ [LOCK_FILE]) = Some n \<and> private_file env n) \<and>
     (\<forall>p. p \<notin> {pp_parts dir @ [LKG_FILE], pp_parts dir @ [LOCK_FILE]} \<and> os_nodes w p \<noteq> None \<longrightarrow>
        os_nodes w' p = os_nodes w p)"
proof (cases "\<exists>h. acknowledged = PStr h \<and> length h = 64")
  case False
  then show ?thesis using assms
    by (cases acknowledged) (auto simp: accept_candidate_def split: if_splits)
next
  case True
  then obtain h where h: "acknowledged = PStr h" "length h = 64" by blast
  let ?d = "pp_parts dir"
  obtain r1 w1 where 1: "assert_safe_directory env dir False w = (r1, w1)"
    by (cases "assert_safe_directory env dir False w")
  note s1 = assert_safe_directory_spec [OF 1]
  show ?thesis
  proof (cases r1)
    case (Inl e)
    then show ?thesis using assms h 1 s1 by (auto simp: accept_candidate_def bind_io_def)
  next
    case (Inr d)
    obtain r2 w2 where 2: "fsync_directory env (butlast d) ''state directory entry'' w1 = (r2, w2)"
      by (cases "fsync_directory env (butlast d) ''state directory entry'' w1")
    note s2 = fsync_directory_spec [OF 2]
    show ?thesis
    proof (cases "r2 = Inr ()")
      case False
      then show ?thesis using assms h 1 2 s1 s2 Inr by (auto simp: accept_candidate_def bind_io_def)
    next
      case True
      have d: "d = ?d" using s1 Inr by blast
      have l: "state_lock env ?d (accept_locked sha env ?d h) w2 = (r, w')"
        using assms(1) h 1 2 Inr True d by (simp add: accept_candidate_def bind_io_def)
      have n2: "os_nodes w2 = os_nodes w" using s1 s2 by simp
      from state_lock_spec [OF l] assms(2) obtain w3 w4 where
        f: "frame {?d @ [LOCK_FILE]} w2 w3" and lk: "\<exists>n. os_nodes w3 (?d @ [LOCK_FILE]) = Some n \<and> private_file env n"
        and b: "accept_locked sha env ?d h w3 = (r, w4)"
        and n4: "os_nodes w' = os_nodes w4"
        using n2 file_names_distinct(1) [of ?d] by (auto simp: frame_def)
      have same: "os_nodes w3 (?d @ [LKG_FILE]) = os_nodes w (?d @ [LKG_FILE])"
        "os_nodes w3 (?d @ [CANDIDATE_FILE]) = os_nodes w (?d @ [CANDIDATE_FILE])"
        using f n2 file_names_distinct [of ?d] by (simp_all add: frame_def)
      from accept_locked_spec [OF b] obtain c acc content w5 where
        a: "stored sha env w3 (?d @ [CANDIDATE_FILE]) (Some c)" "stored sha env w3 (?d @ [LKG_FILE]) acc"
          "admit_successor sha acc c = Inr ()" "dget c ''candidate_sha256'' = PStr h"
          "canonical_bytes c = Inr content" "os_nodes w5 = os_nodes w3"
        and aw: "atomic_write env ?d LKG_FILE content w5 = (r, w4)"
        using assms(2) same n4 by auto
      note spec = atomic_write_spec [OF aw]
      have ch: "r = Inr () \<or> os_nodes w4 (?d @ [LKG_FILE]) \<noteq> os_nodes w5 (?d @ [LKG_FILE])"
        using assms(2) same n4 a(6) by auto
      have pub: "published env (?d @ [LKG_FILE]) content w4"
        using spec ch by (auto split: sum.splits exc.splits)
      have size: "int (length content) \<le> MAX_STATE_BYTES"
      proof (rule ccontr)
        assume "\<not> int (length content) \<le> MAX_STATE_BYTES"
        then have "r \<noteq> Inr () \<and> w4 = w5" using aw by (auto simp: atomic_write_def)
        with ch show False by simp
      qed
      have keep: "os_nodes w' p = os_nodes w3 p" if "p \<noteq> ?d @ [LKG_FILE]" "os_nodes w3 p \<noteq> None" for p
        using spec that a(6) n4 by auto
      have lock: "\<exists>n. os_nodes w' (?d @ [LOCK_FILE]) = Some n \<and> private_file env n"
        using lk keep [of "?d @ [LOCK_FILE]"] file_names_distinct(1) [of ?d] by auto
      have others: "os_nodes w' p = os_nodes w p"
        if "p \<notin> {?d @ [LKG_FILE], ?d @ [LOCK_FILE]}" "os_nodes w p \<noteq> None" for p
        using keep [of p] that f n2 by (auto simp: frame_def)
      have st: "stored sha env w (?d @ [CANDIDATE_FILE]) (Some c)" "stored sha env w (?d @ [LKG_FILE]) acc"
        using a(1,2) same stored_cong by blast+
      have "published env (?d @ [LKG_FILE]) content w'" using pub n4 by (simp add: published_def)
      with h(1) st a(3-5) size lock others s1 Inr show ?thesis by blast
    qed
  qed
qed

text \<open>Property C2: \<open>accept_candidate\<close> changes the accepted document, or reports success, only by
  publishing the candidate it was asked for: the acknowledged digest is the digest of the valid
  candidate the store holds, that candidate is admitted as the successor of the document accepted
  before, and the accepted file then holds exactly its canonical bytes. This holds whichever
  system calls fail.\<close>

theorem accept_publishes_acknowledged:
  assumes "accept_candidate sha env dir acknowledged w = (r, w')"
    and "r = Inr () \<or> os_nodes w' (pp_parts dir @ [LKG_FILE]) \<noteq> os_nodes w (pp_parts dir @ [LKG_FILE])"
  shows "\<exists>h c acc content. acknowledged = PStr h \<and>
     stored sha env w (pp_parts dir @ [CANDIDATE_FILE]) (Some c) \<and>
     stored sha env w (pp_parts dir @ [LKG_FILE]) acc \<and> admit_successor sha acc c = Inr () \<and>
     dget c ''candidate_sha256'' = PStr h \<and> canonical_bytes c = Inr content \<and>
     published env (pp_parts dir @ [LKG_FILE]) content w'"
  using accept_effect [OF assms] by blast

section \<open>Concrete worlds\<close>

definition calm_env :: os_env where
  "calm_env = \<lparr>env_euid = 7, env_umask = 0x12, env_fault = (\<lambda>_. False), env_delay = (\<lambda>_. 1),
     env_flock = (\<lambda>_. Locked), env_temp = (\<lambda>_. ''tmp'')\<rparr>"

definition sample_dir :: py_path where
  "sample_dir = \<lparr>pp_absolute = True, pp_parts = [''state'']\<rparr>"

definition file_node :: "string \<Rightarrow> node" where
  "file_node b = \<lparr>nd_kind = K_Reg, nd_uid = 7, nd_mode = 0x180, nd_nlink = 1, nd_ino = 3, nd_bytes = b\<rparr>"

definition quoted :: "string \<Rightarrow> string" where
  "quoted s = map (\<lambda>c. if c = CHR ''|'' then CHR 0x22 else c) s"

definition sample_bytes :: string where
  "sample_bytes = quoted (
     ''{|candidate_sha256|:|aaaaaaaaaaaaaaaaaaaaaaaaaaaaaaaaaaaaaaaaaaaaaaaaaaaaaaaaaaa'' @
     ''aaaaa|,|ipv4_prefixes|:[|192.0.2.0/24|,|203.0.113.0/24|],|ipv6_prefixes|:[|2001:'' @
     ''db8::/32|],|retrieved_at|:|2026-03-01T00:05:00Z|,|schema_version|:1,|service|:|C'' @
     ''LOUDFRONT_ORIGIN_FACING|,|source_create_date|:|2026-03-01-00-00-00|,|source_sync'' @
     ''_token|:|1772323200|,|source_url|:|https://ip-ranges.amazonaws.com/ip-ranges.jso'' @
     ''n|}'') @ [CHR 0x0A]"

definition sample_world :: os where
  "sample_world = \<lparr>os_nodes = (\<lambda>p.
       if p = [] then Some \<lparr>nd_kind = K_Dir, nd_uid = 0, nd_mode = 0x1ED, nd_nlink = 3,
         nd_ino = 0, nd_bytes = []\<rparr>
       else if p = [''state''] then Some \<lparr>nd_kind = K_Dir, nd_uid = 7, nd_mode = 0x1C0, nd_nlink = 2,
         nd_ino = 1, nd_bytes = []\<rparr>
       else if p = [''state'', CANDIDATE_FILE] then Some (file_node sample_bytes)
       else None),
     os_next_ino = 10, os_calls = 0, os_clock = 0\<rparr>"

theorem atomic_write_all_or_nothing_witness:
  "\<exists>r w'. atomic_write calm_env [''state''] LKG_FILE ''x'' sample_world = (r, w') \<and>
     os_nodes w' [''state'', CANDIDATE_FILE] = Some (file_node sample_bytes)"
proof -
  obtain r w' where e: "atomic_write calm_env [''state''] LKG_FILE ''x'' sample_world = (r, w')"
    by (cases "atomic_write calm_env [''state''] LKG_FILE ''x'' sample_world") blast
  have "os_nodes sample_world [''state'', CANDIDATE_FILE] = Some (file_node sample_bytes)"
    by (simp add: sample_world_def)
  with atomic_write_all_or_nothing [OF e] e show ?thesis
    by (auto simp: CANDIDATE_FILE_def LKG_FILE_def)
qed

lemma sample_accepts:
  "fst (accept_candidate sample_sha calm_env sample_dir (PStr (sample_sha [])) sample_world) = Inr ()"
  by code_simp

theorem accept_publishes_acknowledged_witness:
  "\<exists>w' content. fst (accept_candidate sample_sha calm_env sample_dir (PStr (sample_sha [])) sample_world) = Inr () \<and>
     published calm_env (pp_parts sample_dir @ [LKG_FILE]) content w'"
proof -
  let ?m = "accept_candidate sample_sha calm_env sample_dir (PStr (sample_sha []))"
  obtain r w' where e: "?m sample_world = (r, w')" by (cases "?m sample_world") blast
  have ok: "fst (?m sample_world) = Inr ()" by (rule sample_accepts)
  then have "r = Inr ()" using e by simp
  from accept_publishes_acknowledged [OF e] this ok show ?thesis by blast
qed

end
