(* ===== verification/Json_Default.thy ===== *)
theory Json_Default
  imports Json_Roundtrip
begin

text \<open>
  \<open>json.loads\<close> with its defaults, on text and on bytes: the last of several equal keys wins, and
  the non-finite constants are accepted.
\<close>

definition default_hooks :: json_hooks where
  "default_hooks = \<lparr>pairs_hook = (\<lambda>kvs. Inr (PDict (foldl (\<lambda>d (k, v). dput k v d) [] kvs))), constants_ok = True\<rparr>"

text \<open>On bytes, another encoding than UTF-8 is announced by a mark or by zero bytes.\<close>

definition bytes_loads :: "json_hooks \<Rightarrow> string \<Rightarrow> pyval res" where
  "bytes_loads H raw =
     (if list_ex (\<lambda>c. (of_char c :: nat) = 0) (take 4 raw)
        \<or> (case raw of [] \<Rightarrow> False | c # _ \<Rightarrow> 239 \<le> (of_char c :: nat))
      then Inl (Unmodelled ''json encoding'')
      else bind_res (utf8_decode raw) (json_loads H))"

lemma closing_default: "closing_hooks default_hooks"
proof -
  have "foldl (\<lambda>d (k, v). dput k v d) a d = a @ d" if "distinct (map fst (a @ d))" for a d
    using that
  proof (induction d arbitrary: a)
    case (Cons x d)
    obtain k v where x: "x = (k, v)" by (cases x)
    have "dput k v a = a @ [x]" using Cons.prems x by (induction a) auto
    then show ?case using Cons.IH [of "a @ [x]"] Cons.prems x by simp
  qed simp
  from this [of "[]"] show ?thesis by (simp add: closing_hooks_def default_hooks_def)
qed

end
