(* ===== verification/Json_Bytes.thy ===== *)
theory Json_Bytes
  imports Json_Default
begin

text \<open>
  The canonical text as bytes: it has no control character, so \<open>json.loads\<close> on the bytes takes
  it as UTF-8 and gives the value back in key order; and its length, for strings that need no
  escape.
\<close>

definition visible :: "string \<Rightarrow> bool" where
  "visible s \<longleftrightarrow> list_all (\<lambda>c. 32 \<le> (of_char c :: nat) \<and> (of_char c :: nat) < 127) s"

lemma visible_simps [simp]:
  "visible []" "visible (c # s) \<longleftrightarrow> 32 \<le> (of_char c :: nat) \<and> (of_char c :: nat) < 127 \<and> visible s"
  "visible (s @ t) \<longleftrightarrow> visible s \<and> visible t"
  by (auto simp: visible_def)

lemma visible_concat: "(\<And>s. s \<in> set ss \<Longrightarrow> visible s) \<Longrightarrow> visible (concat ss)"
  by (induction ss) auto

lemma visible_commas: "(\<And>s. s \<in> set ss \<Longrightarrow> visible s) \<Longrightarrow> visible (commas ss)"
  by (induction ss rule: commas.induct) auto

lemma visible_hex: "n < 16 \<Longrightarrow> 32 \<le> (of_char (hex_digit n) :: nat) \<and> (of_char (hex_digit n) :: nat) < 127"
  by (simp add: hex_digit_def)

lemma visible_escape: "visible (escape_char c)"
proof -
  have "(of_char c :: nat) div 16 < 16" by (rule less_mult_imp_div_less) simp
  with visible_hex [OF this] visible_hex [of "of_char c mod 16"] show ?thesis
    by (auto simp: escape_char_def Let_def bslash_def dquote_def)
qed

lemma visible_quote [simp]: "visible (quote_str s)"
  by (auto simp: quote_str_def dquote_def intro!: visible_concat visible_escape)

lemma visible_show_int: "visible (show_int i)"
proof -
  have "visible s" if "list_all digit_char s" for s
    using that by (auto simp: visible_def list_all_iff digit_char_iff)
  then show ?thesis by (auto simp: show_int_def show_nat_digits)
qed

text \<open>What every character of a serialised text satisfies, from the strings it holds.\<close>

fun json_strings :: "pyval \<Rightarrow> string list" where
  "json_strings (PStr s) = [s]"
| "json_strings (PList xs) = concat (map json_strings xs)"
| "json_strings (PTuple xs) = concat (map json_strings xs)"
| "json_strings (PDict kvs) = concat (map (\<lambda>(k, v). k # json_strings v) kvs)"
| "json_strings _ = []"

lemma list_all_commas: "P CHR '','' \<Longrightarrow> (\<And>s. s \<in> set ss \<Longrightarrow> list_all P s) \<Longrightarrow> list_all P (commas ss)"
  by (induction ss rule: commas.induct) auto

lemma ser_chars:
  assumes p: "list_all P ''[]{},:nulltruefalse''" and n: "\<And>i. list_all P (show_int i)"
  shows "ser v = Inr s \<Longrightarrow> (\<And>t. t \<in> set (json_strings v) \<Longrightarrow> list_all P (quote_str t)) \<Longrightarrow> list_all P s"
proof (induction v arbitrary: s)
  case (PList xs)
  then obtain ss where s: "s = ''['' @ commas ss @ '']''" "list_all2 (\<lambda>x t. ser x = Inr t) xs ss"
    by (auto simp: bind_res_Inr_iff map_res_Inr_iff)
  have "list_all P t" if t: "t \<in> set ss" for t
  proof -
    obtain x where "x \<in> set xs" "ser x = Inr t" using list_all2_witness [OF s(2) t] by blast
    with PList.IH PList.prems(2) show ?thesis by fastforce
  qed
  then show ?case using s(1) p by (simp add: list_all_commas)
next
  case (PTuple xs)
  then obtain ss where s: "s = ''['' @ commas ss @ '']''" "list_all2 (\<lambda>x t. ser x = Inr t) xs ss"
    by (auto simp: bind_res_Inr_iff map_res_Inr_iff)
  have "list_all P t" if t: "t \<in> set ss" for t
  proof -
    obtain x where "x \<in> set xs" "ser x = Inr t" using list_all2_witness [OF s(2) t] by blast
    with PTuple.IH PTuple.prems(2) show ?thesis by fastforce
  qed
  then show ?case using s(1) p by (simp add: list_all_commas)
next
  case (PDict kvs)
  then obtain ss where s: "s = ''{'' @ commas ss @ ''}''"
    "list_all2 (\<lambda>p t. (case p of (k, x) \<Rightarrow> bind_res (ser x) (\<lambda>u. Inr (quote_str k @ CHR '':'' # u))) = Inr t) kvs ss"
    by (auto simp: bind_res_Inr_iff map_res_Inr_iff)
  have "list_all P t" if "t \<in> set ss" for t
  proof -
    from list_all2_witness [OF s(2) that]
    obtain k x u where m: "(k, x) \<in> set kvs" "ser x = Inr u" "t = quote_str k @ CHR '':'' # u"
      by (auto simp: bind_res_Inr_iff)
    have "list_all P (quote_str r)" if "r \<in> set (json_strings x) \<or> r = k" for r
      using PDict.prems(2) [of r] m(1) that by (auto intro!: bexI [of _ "(k, x)"])
    then show ?thesis using PDict.IH [OF m(1) _ m(2)] m(3) p by simp
  qed
  then show ?case using s(1) p by (simp add: list_all_commas)
qed (use p n in \<open>auto split: if_splits\<close>)

lemma ser_visible: "ser v = Inr s \<Longrightarrow> visible s"
  unfolding visible_def
  by (rule ser_chars) (use visible_show_int visible_quote in \<open>simp_all add: visible_def\<close>)

lemma canon_strings_set: "set (json_strings (canon v)) = set (json_strings v)"
proof (induction v)
  case (PDict kvs)
  have "set (json_strings (canon (PDict kvs))) = (\<Union>(k, x) \<in> set kvs. insert k (set (json_strings (canon x))))"
    by (auto simp: image_iff split: prod.splits)
  also have "\<dots> = (\<Union>(k, x) \<in> set kvs. insert k (set (json_strings x)))"
  proof (rule SUP_cong)
    show "(case p of (k, x) \<Rightarrow> insert k (set (json_strings (canon x)))) = (case p of (k, x) \<Rightarrow> insert k (set (json_strings x)))"
      if "p \<in> set kvs" for p
      using PDict.IH [of p "snd p"] that by (cases p) simp
  qed simp
  finally show ?case by (simp add: case_prod_beta)
qed auto

text \<open>A character that no string of the value has, and that JSON does not use.\<close>

lemma dumps_avoids:
  assumes "dumps v = Inr s" and "c \<notin> set ''[]{},:nulltruefalse''" "c \<notin> set ''-bfnrtu0''" "c \<notin> set ''0123456789abcdef''" and "c \<noteq> dquote" "c \<noteq> bslash"
    and "\<And>t. t \<in> set (json_strings v) \<Longrightarrow> c \<notin> set t"
  shows "c \<notin> set s"
proof -
  have digit: "d \<in> set ''0123456789abcdef''" if h: "n < 16" "d = hex_digit n" for n d
  proof -
    have "map hex_digit [0..<16] = ''0123456789abcdef''" by code_simp
    moreover have "d \<in> set (map hex_digit [0..<16])" using h by auto
    ultimately show ?thesis by (simp only:)
  qed
  have dec: "list_all (\<lambda>d. d \<noteq> c) ds" if "list_all digit_char ds" for ds
  proof -
    have "d \<in> set ''0123456789abcdef''" if "digit_char d" for d
    proof -
      have v: "48 \<le> (of_char d :: nat)" "(of_char d :: nat) \<le> 57" using that by (simp_all add: digit_char_iff)
      then have "digit_val d < 10" unfolding digit_val_def by linarith
      moreover from this v have "hex_digit (digit_val d) = d" by (simp add: hex_digit_def digit_val_def)
      ultimately show ?thesis using digit [of "digit_val d" d] by simp
    qed
    then have "d \<noteq> c" if "digit_char d" for d using that assms(4) by blast
    then show ?thesis using \<open>list_all digit_char ds\<close> by (auto simp: list_all_iff)
  qed
  have int: "list_all (\<lambda>d. d \<noteq> c) (show_int i)" for i
    using assms(3) dec [OF show_nat_digits] by (auto simp: show_int_def)
  have esc: "c \<notin> set (escape_char x)" if "x \<noteq> c" for x
  proof -
    have "(of_char x :: nat) div 16 < 16" by (rule less_mult_imp_div_less) simp
    then have "hex_digit (of_char x div 16) \<noteq> c" "hex_digit (of_char x mod 16) \<noteq> c"
      using digit [of _ "hex_digit _"] assms(4) by (metis, metis mod_less_divisor zero_less_numeral)
    then show ?thesis using that assms(3,5,6) by (simp add: escape_char_def Let_def)
  qed
  have "list_all (\<lambda>d. d \<noteq> c) (quote_str t)" if "c \<notin> set t" for t
  proof -
    have "d \<noteq> c" if "d \<in> set (escape_char x)" "x \<in> set t" for d x using that esc \<open>c \<notin> set t\<close> by metis
    then show ?thesis using assms(5) by (auto simp: quote_str_def list_all_iff)
  qed
  moreover have "list_all (\<lambda>d. d \<noteq> c) ''[]{},:nulltruefalse''" using assms(2) by (simp add: eq_commute)
  ultimately have "list_all (\<lambda>d. d \<noteq> c) s"
    using ser_chars [of "\<lambda>d. d \<noteq> c" "canon v" s] assms(1,7) int by (simp add: dumps_def canon_strings_set)
  then show ?thesis by (auto simp: list_all_iff)
qed

lemma visible_bytes:
  assumes "visible s"
  shows "bytes_loads H s = json_loads H s"
proof -
  have "ascii s" using assms by (auto simp: ascii_def visible_def list_all_iff)
  moreover have "\<not> list_ex (\<lambda>c. (of_char c :: nat) = 0) (take 4 s)"
    using assms by (fastforce simp: visible_def list_all_iff list_ex_iff dest: in_set_takeD)
  ultimately show ?thesis
    using assms by (auto simp: bytes_loads_def utf8_decode_ascii split: list.splits)
qed

lemma bytes_loads_dumps:
  assumes "closing_hooks H" and "plain v" and "dumps v = Inr s"
  shows "bytes_loads H s = Inr (canon v)"
proof -
  obtain t where "dumps v = Inr t" "json_loads H t = Inr (canon v)"
    using loads_dumps [OF assms(1,2)] .
  moreover have "visible s" using assms(3) ser_visible by (auto simp: dumps_def)
  ultimately show ?thesis using assms(3) visible_bytes by simp
qed

lemma dumps_plain: "plain v \<Longrightarrow> \<exists>s. dumps v = Inr s"
  using loads_dumps [OF closing_default] by metis

section \<open>Lengths\<close>

definition unescaped :: "string \<Rightarrow> bool" where
  "unescaped s \<longleftrightarrow> list_all (\<lambda>c. 32 \<le> (of_char c :: nat) \<and> (of_char c :: nat) \<le> 126 \<and> c \<noteq> dquote \<and> c \<noteq> bslash) s"

lemma quote_unescaped: "unescaped s \<Longrightarrow> quote_str s = [dquote] @ s @ [dquote]"
proof (induction s)
  case (Cons c s)
  then have "escape_char c = [c]" by (auto simp: unescaped_def escape_char_def Let_def)
  with Cons show ?case by (auto simp: unescaped_def quote_str_def)
qed (simp add: quote_str_def)

lemma length_show_nat: "n < 10 ^ Suc k \<Longrightarrow> length (show_nat n) \<le> Suc k"
proof (induction k arbitrary: n)
  case 0
  then show ?case by (subst show_nat.simps) simp
next
  case (Suc k)
  then have "n div 10 < 10 ^ Suc k" by (simp add: less_mult_imp_div_less)
  with Suc.IH show ?case by (subst show_nat.simps) simp
qed

section \<open>A decoded dictionary is what the hook made\<close>

lemma parse_number_no_dict: "parse_number neg s \<noteq> Inr (PDict d, r)"
  by (auto simp: parse_number_def Let_def split: option.splits if_splits)

lemma parse_word_no_dict: "parse_word H s \<noteq> Inr (PDict d, r)"
  by (auto simp: parse_word_def parse_const_def parse_number_no_dict split: list.splits)

lemma parse_val_dict:
  "parse_val H n s = Inr (PDict d, r) \<Longrightarrow> \<exists>pairs. pairs_hook H pairs = Inr (PDict d)"
  by (cases "(H, n, s)" rule: parse_val.cases)
    (auto simp: bind_res_Inr_iff parse_word_no_dict split: if_splits list.splits)

lemma loaded_dict: "bytes_loads H b = Inr (PDict d) \<Longrightarrow> \<exists>pairs. pairs_hook H pairs = Inr (PDict d)"
  by (auto simp: bytes_loads_def json_loads_def bind_res_Inr_iff dest!: parse_val_dict split: if_splits)

text \<open>The pairs of a dictionary are its keys and what they hold.\<close>

lemma set_of_gets:
  assumes "distinct (map fst d)"
  shows "set d = (\<lambda>k. (k, dget d k)) ` dkeys d"
proof -
  have "dget d k = v" if "(k, v) \<in> set d" for k v
  proof -
    have "map_of d k = Some v" using that assms by simp
    then show ?thesis by (simp add: dget_def)
  qed
  then show ?thesis by (force simp: dkeys_def image_iff)
qed

end
