(* ===== verification/Prefix_Readback.thy ===== *)
theory Prefix_Readback
  imports Prefix_Store_Facts Json_Bytes
begin

text \<open>
  The accepted document is read back: after a successful \<open>accept_candidate\<close>, \<open>read_lkg\<close> returns
  the acknowledged candidate, in canonical key order, and it is valid again.
\<close>

section \<open>Canonical bytes decode to the document\<close>

lemma closing_closed: "closing_hooks \<lparr>pairs_hook = closed_object, constants_ok = False\<rparr>"
  by (simp add: closing_hooks_def closed_object_def)

lemma decode_canonical:
  assumes "plain (PDict d)" and "canonical_bytes d = Inr b"
  shows "decode_json b = Inr (canon (PDict d))"
proof -
  obtain s where s: "dumps (PDict d) = Inr s" "b = s @ [CHR 0x0A]"
    using assms(2) by (auto simp: canonical_bytes_def bind_res_Inr_iff)
  have "ascii b" using s ser_ascii [of "canon (PDict d)" s] by (simp add: dumps_def)
  then show ?thesis
    using loads_dumps_line [OF closing_closed assms(1) s(1)] s(2)
    by (simp add: decode_json_def utf8_decode_ascii)
qed

lemma decoded_keys_distinct: "decode_json b = Inr (PDict d) \<Longrightarrow> distinct (map fst d)"
  by (auto simp: decode_json_def json_loads_def bind_res_Inr_iff closed_object_def
      dest!: parse_val_dict split: if_splits)

text \<open>Reordering the keys of a valid candidate keeps it valid.\<close>

lemma canon_strs: "canon (PList (map PStr ps)) = PList (map PStr ps)"
  by (simp add: comp_def)

lemma canon_valid_candidate:
  assumes "validate_candidate sha (PDict d) = Inr ()" and "distinct (map fst d)"
  shows "canon (PDict d) = PDict (sort_key fst d)"
proof -
  note f = valid_candidate_fields [OF assms(1)]
  have p: "canon (dget d k) = dget d k" if "k \<in> set candidate_fields" for k
    using that f(2-7,9-11) canon_strs unfolding candidate_fields_def
    by (auto simp del: canon.simps(1))
  have "(k, canon v) = (k, v)" if "(k, v) \<in> set d" for k v
  proof -
    have "map_of d k = Some v" using that assms(2) by simp
    then have "dget d k = v" "k \<in> dkeys d" by (auto simp: dget_def in_dkeys_iff)
    with p [of k] f(1) show ?thesis by simp
  qed
  then have "map (\<lambda>(k, v). (k, canon v)) d = map (\<lambda>x. x) d" by (intro map_cong) auto
  then show ?thesis by simp
qed

lemma map_of_sort_key: "distinct (map fst d) \<Longrightarrow> map_of (sort_key fst d) = map_of d"
  by (subst map_of_inject_set) (simp_all add: distinct_map_sort_key)

lemma sorted_candidate_valid:
  assumes "validate_candidate sha (PDict d) = Inr ()" and d: "distinct (map fst d)"
  shows "validate_candidate sha (PDict (sort_key fst d)) = Inr ()"
proof -
  let ?e = "sort_key fst d" and ?k = "''candidate_sha256''"
  have e: "distinct (map fst ?e)" using d by (simp add: distinct_map_sort_key)
  have g: "dget ?e k = dget d k" for k by (simp add: dget_def map_of_sort_key [OF d])
  have "canon (PDict (without_key ?k ?e)) = canon (PDict (without_key ?k d))"
    by (subst canon_dict_iff) (auto simp: without_key_def d e intro!: distinct_map_filter)
  then have "candidate_digest sha ?e = candidate_digest sha d"
    by (simp only: candidate_digest_def canonical_bytes_def dumps_def)
  moreover have "provenance_of ?e = provenance_of d" by (simp add: provenance_of_def g)
  moreover have "dkeys ?e = dkeys d" by (simp add: dkeys_def)
  ultimately show ?thesis using assms(1) by (simp only: validate_candidate_def pyval.case g)
qed

section \<open>Runs without failures\<close>

definition calm :: "os_env \<Rightarrow> bool" where
  "calm env \<longleftrightarrow> (\<forall>n. \<not> env_fault env n \<and> env_flock env n = Locked)"

definition tick :: "os_env \<Rightarrow> os \<Rightarrow> os" where
  "tick env w = w\<lparr>os_calls := Suc (os_calls w), os_clock := os_clock w + int (env_delay env (os_calls w))\<rparr>"

lemma tick_nodes [simp]: "os_nodes (tick env w) = os_nodes w"
  by (simp add: tick_def)

lemma calm_sys: "calm env \<Longrightarrow> sys env f w = f (tick env w)"
  by (simp add: calm_def sys_def tick_def Let_def)

lemma calm_calls:
  assumes "calm env"
  shows "os_nodes w p = Some n \<Longrightarrow> lstat env p w = (Inr n, tick env w)"
    and "os_nodes w p = None \<Longrightarrow> lstat env p w = (Inl ENOENT, tick env w)"
    and "touch_call env w = (Inr (), tick env w)"
    and "os_nodes w p = Some n \<Longrightarrow> nd_kind n = K_Reg \<Longrightarrow> open_nofollow env p wr c w = (Inr (), tick env w)"
    and "os_nodes w p = Some n \<Longrightarrow> read_bytes env p k w = (Inr (at_most k (nd_bytes n)), tick env w)"
  using assms
  by (simp_all add: lstat_def touch_call_def open_nofollow_def read_bytes_def calm_sys)

lemma calm_acquire:
  assumes "calm env"
  shows "\<exists>w'. acquire_lock env w = (Inr (), w') \<and> os_nodes w' = os_nodes w"
proof -
  have "env_flock env n = Locked" for n using assms by (simp add: calm_def)
  then have "lock_loop env t v = (Inr (), tick env v)" for t v
    by (subst lock_loop.simps) (simp add: flock_call_def calm_sys [OF assms])
  then show ?thesis by (simp add: acquire_lock_def monotonic_def Let_def)
qed

lemma calm_lock:
  assumes "calm env" and "os_nodes w (d @ [LOCK_FILE]) = Some n" and "private_file env n"
    and body: "\<And>v. os_nodes v = os_nodes w \<Longrightarrow> fst (body v) = Inr x"
  shows "fst (state_lock env d body w) = Inr x"
proof -
  note c = calm_calls [OF assms(1)]
  have k: "nd_kind n = K_Reg" using assms(3) by (simp add: private_file_def)
  obtain w4 where w4: "acquire_lock env (tick env (tick env (tick env w))) = (Inr (), w4)"
    "os_nodes w4 = os_nodes w"
    using calm_acquire [OF assms(1), of "tick env (tick env (tick env w))"] by auto
  obtain w5 where w5: "body w4 = (Inr x, w5)" using body [OF w4(2)] by (cases "body w4") auto
  show ?thesis
    using assms(2,3) k
    by (simp add: state_lock_def bind_io_def os_error_to_def catch_io_def finally_io_def
        ignore_os_error_def c(1) [where p = "d @ [LOCK_FILE]" and n = n]
        c(4) [where p = "d @ [LOCK_FILE]" and n = n] c(3) w4 w5)
qed

lemma calm_walk:
  assumes "calm env"
  shows "safe_components (os_nodes w) cur ps n = Some m \<Longrightarrow>
     \<exists>w'. walk_components env False cur ps n w = (Inr m, w') \<and> os_nodes w' = os_nodes w"
proof (induction ps arbitrary: cur n w)
  case (Cons part rest)
  then obtain q where q: "os_nodes w (cur @ [part]) = Some q" "component_check q (rest = []) = Inr ()"
    "safe_components (os_nodes w) (cur @ [part]) rest q = Some m"
    by (auto split: option.splits if_splits)
  have "component_metadata env (cur @ [part]) False w = (Inr q, tick env w)"
    using calm_calls(1) [OF assms q(1)] by (simp add: component_metadata_def catch_io_def)
  with q Cons.IH [of "tick env w" "cur @ [part]" q] show ?case
    by (simp add: Let_def bind_io_def)
qed simp

lemma calm_directory:
  assumes "calm env" and "safe_directory env (os_nodes w) p"
  shows "\<exists>w'. assert_safe_directory env p False w = (Inr (pp_parts p), w') \<and> os_nodes w' = os_nodes w"
proof -
  obtain m where m: "safe_components (os_nodes w) [] (pp_parts p) no_node = Some m"
    "nd_uid m = env_euid env" "nd_mode m = 0x1C0"
    using assms(2) by (auto simp: safe_directory_def)
  then show ?thesis
    using calm_walk [OF assms(1) m(1)] assms(2)
    by (auto simp: assert_safe_directory_def safe_directory_def bind_io_def)
qed

lemma calm_read_document:
  assumes "calm env" and "stored sha env w (d @ [name]) (Some doc)"
  shows "fst (read_document sha env d name required w) = Inr (Some doc)"
proof -
  obtain n where n: "os_nodes w (d @ [name]) = Some n" "private_file env n"
    "int (length (nd_bytes n)) \<le> MAX_STATE_BYTES" "decode_json (nd_bytes n) = Inr (PDict doc)"
    "validate_candidate sha (PDict doc) = Inr ()"
    using assms(2) by (auto simp: stored_def)
  have k: "nd_kind n = K_Reg" using n(2) by (simp add: private_file_def)
  have b: "at_most (MAX_STATE_BYTES + 1) (nd_bytes n) = nd_bytes n" using n(3) by (simp add: at_most_def)
  note c = calm_calls [OF assms(1)]
  show ?thesis
    using n k b
    by (simp add: read_document_def state_file_def read_content_def bind_io_def catch_io_def finally_io_def
        c(1) [where p = "d @ [name]" and n = n] c(4) [where p = "d @ [name]" and n = n]
        c(5) [where p = "d @ [name]" and n = n] c(3))
qed

section \<open>Accept, then read\<close>

lemma safe_components_cong:
  assumes "safe_components f cur ps n = Some m"
    and "\<And>k q. 0 < k \<Longrightarrow> k \<le> length ps \<Longrightarrow> f (cur @ take k ps) = Some q \<Longrightarrow> g (cur @ take k ps) = Some q"
  shows "safe_components g cur ps n = Some m"
  using assms
proof (induction ps arbitrary: cur n)
  case (Cons part rest)
  then obtain q where q: "f (cur @ [part]) = Some q" "component_check q (rest = []) = Inr ()"
    "safe_components f (cur @ [part]) rest q = Some m"
    by (auto split: option.splits if_splits)
  have "g (cur @ [part]) = Some q" using Cons.prems(2) [of 1 q] q(1) by simp
  moreover have "safe_components g (cur @ [part]) rest q = Some m"
  proof (rule Cons.IH [OF q(3)])
    fix k q assume "0 < k" "k \<le> length rest" "f ((cur @ [part]) @ take k rest) = Some q"
    then show "g ((cur @ [part]) @ take k rest) = Some q" using Cons.prems(2) [of "Suc k" q] by simp
  qed
  ultimately show ?case using q(2) by simp
qed simp

lemma same_user:
  assumes "env_euid env' = env_euid env"
  shows "private_file env' n = private_file env n" "safe_directory env' f p = safe_directory env f p"
    "stored sha env' w q x = stored sha env w q x"
  using assms by (simp_all add: private_file_def safe_directory_def stored_def split: option.split)

text \<open>Property C1: what was accepted is what is read: after \<open>accept_candidate\<close> returns, whatever
  failed on the way, \<open>read_lkg\<close> of the same user in a run without failures returns a valid
  document that carries the acknowledged digest.\<close>

theorem accepted_is_read_back:
  assumes acc: "accept_candidate sha env dir (PStr h) w = (Inr (), w')"
    and calm: "calm env'" and user: "env_euid env' = env_euid env"
  shows "\<exists>d. fst (read_lkg sha env' dir w') = Inr (Some d) \<and>
     validate_candidate sha (PDict d) = Inr () \<and> dget d ''candidate_sha256'' = PStr h"
proof -
  let ?d = "pp_parts dir"
  obtain c content n where c: "stored sha env w (?d @ [CANDIDATE_FILE]) (Some c)"
      "dget c ''candidate_sha256'' = PStr h" "canonical_bytes c = Inr content"
      "published env (?d @ [LKG_FILE]) content w'" "int (length content) \<le> MAX_STATE_BYTES"
      "safe_directory env (os_nodes w) dir"
    and n: "os_nodes w' (?d @ [LOCK_FILE]) = Some n" "private_file env n"
    and keep: "\<And>p. p \<notin> {?d @ [LKG_FILE], ?d @ [LOCK_FILE]} \<and> os_nodes w p \<noteq> None \<Longrightarrow>
        os_nodes w' p = os_nodes w p"
    using accept_effect [OF acc] by auto
  let ?doc = "sort_key fst c"
  have v: "validate_candidate sha (PDict c) = Inr ()" "distinct (map fst c)"
    using c(1) decoded_keys_distinct by (auto simp: stored_def)
  have "decode_json content = Inr (PDict ?doc)"
    using decode_canonical [OF plain_valid_candidate [OF v] c(3)] canon_valid_candidate [OF v] by simp
  then have st: "stored sha env' w' (?d @ [LKG_FILE]) (Some ?doc)"
    using c(4,5) sorted_candidate_valid [OF v] same_user [OF user]
    by (auto simp: stored_def published_def)
  have "safe_directory env' (os_nodes w') dir"
  proof -
    have "os_nodes w' ([] @ take k ?d) = Some q"
      if "os_nodes w ([] @ take k ?d) = Some q" for k q
    proof -
      have "take k ?d \<noteq> ?d @ [x]" for x
      proof
        assume "take k ?d = ?d @ [x]"
        then have "length (take k ?d) = length (?d @ [x])" by (rule arg_cong)
        then show False by (simp add: min_def split: if_splits)
      qed
      then show ?thesis using keep [of "take k ?d"] that by simp
    qed
    then have "safe_components (os_nodes w') [] ?d no_node = Some m"
      if "safe_components (os_nodes w) [] ?d no_node = Some m" for m
      using safe_components_cong [OF that] by simp
    with c(6) show ?thesis by (auto simp: safe_directory_def user)
  qed
  then obtain v where v: "assert_safe_directory env' dir False w' = (Inr ?d, v)" "os_nodes v = os_nodes w'"
    using calm_directory [OF calm] by blast
  have "fst (state_lock env' ?d (read_document sha env' ?d LKG_FILE False) v) = Inr (Some ?doc)"
  proof (rule calm_lock [OF calm])
    show "os_nodes v (?d @ [LOCK_FILE]) = Some n" "private_file env' n"
      using n v same_user [OF user] by simp_all
    fix u :: os assume "os_nodes u = os_nodes v"
    then show "fst (read_document sha env' ?d LKG_FILE False u) = Inr (Some ?doc)"
      using calm_read_document [OF calm] st v(2) stored_cong [of u "?d @ [LKG_FILE]" w'] by simp
  qed
  then have "fst (read_lkg sha env' dir w') = Inr (Some ?doc)"
    using v by (simp add: read_lkg_def bind_io_def)
  moreover have "dget ?doc ''candidate_sha256'' = PStr h"
    using c(2) \<open>distinct (map fst c)\<close> by (simp add: dget_def map_of_sort_key)
  ultimately show ?thesis using sorted_candidate_valid \<open>validate_candidate sha (PDict c) = Inr ()\<close> \<open>distinct (map fst c)\<close>
    by blast
qed

lemma calm_calm_env: "calm calm_env"
  by (simp add: calm_def calm_env_def)

theorem accepted_is_read_back_witness:
  "\<exists>w' d. fst (read_lkg sample_sha calm_env sample_dir w') = Inr (Some d) \<and>
     dget d ''candidate_sha256'' = PStr (sample_sha [])"
proof -
  let ?m = "accept_candidate sample_sha calm_env sample_dir (PStr (sample_sha []))"
  obtain r w' where e: "?m sample_world = (r, w')" by (cases "?m sample_world") blast
  have "fst (?m sample_world) = Inr ()" by (rule sample_accepts)
  then have "r = Inr ()" using e by simp
  with e accepted_is_read_back [OF _ calm_calm_env refl] show ?thesis by blast
qed

end
