(* ===== verification/Firewall_Facts.thy ===== *)
theory Firewall_Facts
  imports Provider_Firewall Prefix_Readback
begin

text \<open>
  What \<open>scripts/provider-firewall-contract.py\<close> guarantees: the plan protects the origin with
  exactly the accepted prefixes; the digests bind a whole plan and a whole transaction; the
  recovery decision is what the fresh observation shows; and a verified rollback is back at the
  policy the plan started from.
\<close>

section \<open>Digests of documents\<close>

lemma canonical_digest_line: "canonical_digest sha d = bind_res (encode_line d) (\<lambda>b. Inr (sha b))"
  by (cases "dumps (PDict d)") (simp_all add: canonical_digest_def encode_line_def)

lemma canon_opt_val [simp]: "canon (opt_val x) = opt_val x"
  by (cases x) simp_all

lemma plain_opt_val [simp]: "plain (opt_val x)"
  by (cases x) simp_all

lemma opt_val_inj [simp]: "opt_val x = opt_val y \<longleftrightarrow> x = y"
  by (cases x; cases y) simp_all

definition target_doc :: "resource_target \<Rightarrow> pyval" where
  "target_doc t = PDict [(''provider'', PStr (rt_provider t)), (''scope'', PStr (rt_scope t)),
     (''requested_key'', PStr (rt_requested_key t)),
     (''provider_resource_id'', opt_val (rt_provider_resource_id t)),
     (''expected_version'', opt_val (rt_expected_version t))]"

lemma target_document_exact [simp]: "target_document (Exact t) = Inr (target_doc t)"
  by (simp add: target_document_def target_doc_def)

lemma plain_target_doc [simp]: "plain (target_doc t)"
  by (simp add: target_doc_def)

lemma canon_target_doc: "canon (target_doc t) = canon (target_doc u) \<longleftrightarrow> t = u"
  unfolding target_doc_def
  by (subst canon_same_keys) (auto intro: resource_target.equality)

lemma plain_policy_document [simp]: "plain (policy_document p)"
  by (simp add: policy_document_def list_all_iff)

lemma canon_policy_document: "canon (policy_document p) = canon (policy_document q) \<longleftrightarrow> p = q"
  unfolding policy_document_def
  by (subst canon_same_keys) (auto simp: inj_def intro: firewall_policy.equality)

lemma plain_owned_document [simp]: "plain (owned_document v)"
  by (simp add: owned_document_def split: option.splits)

lemma canon_owned_document: "canon (owned_document v) = canon (owned_document w) \<longleftrightarrow> v = w"
proof (cases v; cases w)
  fix a b assume v: "v = Some a" "w = Some b"
  then show ?thesis
    unfolding v owned_document_def option.case
    by (subst canon_same_keys)
      (auto simp: canon_policy_document intro: owned_firewall_policy.equality)
qed (simp_all add: owned_document_def)

lemma operation_value_inj: "inj operation_value"
proof (rule injI)
  fix x y :: operation assume "operation_value x = operation_value y"
  then show "x = y" by (cases x; cases y) simp_all
qed

lemma finite_operations: "finite (A :: operation set)"
proof -
  have "(UNIV :: operation set) = {Op_CREATE, Op_INSPECT, Op_REBUILD, Op_DELETE}"
    by (auto intro: operation.exhaust)
  then show ?thesis by (metis finite.emptyI finite_insert finite_subset subset_UNIV)
qed

lemma plain_operation_names [simp]: "plain (operation_names A)"
  by (simp add: operation_names_def list_all_iff)

lemma canon_operation_names: "canon (operation_names A) = canon (operation_names B) \<longleftrightarrow> A = B"
proof
  assume "canon (operation_names A) = canon (operation_names B)"
  then have "sorted_list_of_set (operation_value ` A) = sorted_list_of_set (operation_value ` B)"
    by (simp add: operation_names_def inj_def)
  then have "operation_value ` A = operation_value ` B"
    using finite_operations by (metis finite_imageI set_sorted_list_of_set)
  then show "A = B" using operation_value_inj by (simp add: inj_image_eq_iff)
qed simp

definition request_doc :: "capability_request \<Rightarrow> pyval" where
  "request_doc rq = PDict [(''request_id'', PStr (rq_request_id rq)), (''adapter_id'', PStr (rq_adapter_id rq)),
     (''source_revision'', PStr (rq_source_revision rq)),
     (''operation'', PStr (operation_value (rq_operation rq))), (''target'', target_doc (rq_target rq)),
     (''parameters_sha256'', PStr (rq_parameters_sha256 rq))]"

lemma request_document_exact [simp]: "request_document (Exact rq) = Inr (request_doc rq)"
  by (simp add: request_document_def request_doc_def)

lemma plain_request_doc [simp]: "plain (request_doc rq)"
  by (simp add: request_doc_def)

lemma canon_request_doc: "canon (request_doc r) = canon (request_doc q) \<longleftrightarrow> r = q"
  unfolding request_doc_def
  by (subst canon_same_keys)
    (auto simp: canon_target_doc inj_eq [OF operation_value_inj] intro: capability_request.equality)

section \<open>A plan is bound by its parameter digest\<close>

definition mutation_doc :: "firewall_plan \<Rightarrow> pydict" where
  "mutation_doc p = [(''contract'', PStr ''secpal-provider-firewall-mutation-v1''),
     (''edge_mode'', PStr ''protected''), (''action'', PStr (action_value (pl_action p))),
     (''target'', target_doc (pl_target p)), (''adapter_id'', PStr (pl_adapter_id p)),
     (''source_revision'', PStr (pl_source_revision p)),
     (''supported_operations'', operation_names (pl_supported_operations p)),
     (''accepted_lkg_identity'', PStr (pl_accepted_lkg_identity p)),
     (''ownership_scope'', PStr ''secpal-protected-origin-v1''),
     (''desired'', policy_document (pl_desired p)),
     (''prior_owned'', owned_document (pl_prior_owned p)),
     (''preserved_state_sha256'', PStr (pl_preserved_state_sha256 p)),
     (''operator_access'', PList (pl_operator_access p))]"

lemma mutation_parameters_doc:
  "mutation_parameters_sha256 sha (Exact p) = canonical_digest sha (mutation_doc p)"
  by (simp add: mutation_parameters_sha256_def mutation_doc_def)

text \<open>The rules of operator access are identities, as in every plan made from an observation.\<close>

definition string_access :: "firewall_plan \<Rightarrow> bool" where
  "string_access p \<longleftrightarrow> list_all is_str (pl_operator_access p)"

lemma strings_canon: "list_all is_str xs \<Longrightarrow> map canon xs = xs"
  by (induction xs) (auto simp: is_str_iff)

lemma strings_plain: "list_all is_str xs \<Longrightarrow> list_all plain xs"
  by (auto simp: list_all_iff is_str_iff)

lemma plain_mutation_doc: "string_access p \<Longrightarrow> plain (PDict (mutation_doc p))"
  by (simp add: mutation_doc_def string_access_def strings_plain)

lemma action_value_inj: "action_value a = action_value b \<longleftrightarrow> a = b"
  by (cases a; cases b) simp_all

lemma canon_mutation_doc:
  assumes "string_access p" "string_access q"
  shows "canon (PDict (mutation_doc p)) = canon (PDict (mutation_doc q)) \<longleftrightarrow> p = q"
  unfolding mutation_doc_def using assms
  by (subst canon_same_keys)
    (auto simp: canon_target_doc canon_policy_document canon_owned_document canon_operation_names
      action_value_inj string_access_def strings_canon intro: firewall_plan.equality)

text \<open>The parameter digest an authority carries binds the whole plan: two plans with
  the same digest are the same plan (action, target and its revision, adapter, source revision,
  operations, accepted prefixes' identity, desired and prior policy, preserved state, operator
  access), or the canonical texts of these two plans are a collision of the digest function.\<close>

theorem mutation_digest_binds_plan:
  assumes "mutation_parameters_sha256 sha (Exact p) = Inr h"
    and "mutation_parameters_sha256 sha (Exact q) = Inr h"
    and "string_access p" and "string_access q"
  shows "p = q \<or> collide encode_line sha (mutation_doc p) (mutation_doc q)"
  using text_line.digest_binds [OF plain_mutation_doc [OF assms(3)] plain_mutation_doc [OF assms(4)]]
    assms(1,2) canon_mutation_doc [OF assms(3,4)]
  by (simp add: mutation_parameters_doc canonical_digest_line)

section \<open>An observation is bound to its transaction\<close>

definition inspection_doc ::
  "resource_target \<Rightarrow> observation_phase \<Rightarrow> operation set \<Rightarrow> capability_request option \<Rightarrow> pydict" where
  "inspection_doc t ph ops pred = [(''contract'', PStr ''secpal-provider-firewall-inspection-v1''),
     (''target'', target_doc t), (''phase'', PStr (phase_value ph)),
     (''ownership_scope'', PStr ''secpal-protected-origin-v1''),
     (''projection'', PStr ''complete-ownership-scoped-provider-read''),
     (''supported_operations'', operation_names ops),
     (''predecessor_request'', case pred of None \<Rightarrow> PNone | Some r \<Rightarrow> request_doc r)]"

lemma plain_inspection_doc: "plain (PDict (inspection_doc t ph ops pred))"
  by (simp add: inspection_doc_def split: option.splits)

lemma phase_value_inj: "phase_value a = phase_value b \<longleftrightarrow> a = b"
  by (cases a; cases b) simp_all

lemma canon_pred:
  "canon (case p of None \<Rightarrow> PNone | Some r \<Rightarrow> request_doc r) =
   canon (case q of None \<Rightarrow> PNone | Some r \<Rightarrow> request_doc r) \<longleftrightarrow> p = q"
proof (cases p; cases q)
  fix r s assume "p = Some r" "q = Some s"
  then show ?thesis using canon_request_doc [of r s] by simp
qed (simp_all add: request_doc_def)

lemma canon_inspection_doc:
  "canon (PDict (inspection_doc t ph ops pred)) = canon (PDict (inspection_doc t' ph' ops' pred')) \<longleftrightarrow>
     t = t' \<and> ph = ph' \<and> ops = ops' \<and> pred = pred'"
  unfolding inspection_doc_def
  by (subst canon_same_keys)
    (auto simp: canon_target_doc canon_operation_names phase_value_inj canon_pred)

lemma check_frozen: "check_operations (frozen A) = (if A = {}
    then Inl (ContractError ''adapter supported operations are invalid'') else Inr A)"
  by (simp add: check_operations_def frozen_def image_iff exact_members_def)

text \<open>What admission of an observation establishes.\<close>

lemma admit_observation_Inr:
  assumes "admit_observation sha observation authority ph expected pred = Inr ()"
  obtains ob au where "observation = Exact ob" "authority = Exact au" "fo_phase ob = ph"
    "inspection_parameters_sha256 sha (Exact (rq_target (fo_request ob))) (Exact ph)
       (frozen (fo_supported_operations ob)) pred = Inr (rq_parameters_sha256 (fo_request ob))"
    "admit_request (Exact (fo_request ob)) (Exact au) (frozen (fo_supported_operations ob)) = Inr ()"
    "admit_result (Exact (fo_request ob)) (Exact (fo_result ob)) = Inr ()"
    "rq_operation (fo_request ob) = Op_INSPECT" "rs_outcome (fo_result ob) = Out_OBSERVED"
    "\<And>t. expected = Some t \<Longrightarrow> same_resource (rq_target (fo_request ob)) t"
  using assms
  by (auto simp: admit_observation_def bind_res_Inr_iff seq_res_Inr_iff raise_Inr_iff
      split: obj.splits)

lemma inspection_parameters_doc:
  assumes "inspection_parameters_sha256 sha (Exact t) (Exact ph) (frozen ops) pred = Inr h"
  shows "\<exists>q. canonical_digest sha (inspection_doc t ph ops q) = Inr h \<and> pred = map_option Exact q \<and>
    (q = None \<longleftrightarrow> ph = CURRENT)"
proof (cases "ph = CURRENT")
  case True
  then have "canonical_digest sha (inspection_doc t ph ops None) = Inr h \<and> pred = None"
    using assms by (auto simp: inspection_parameters_sha256_def bind_res_Inr_iff check_frozen
        inspection_doc_def split: if_splits)
  then show ?thesis using True by auto
next
  case False
  then obtain r where "pred = Some (Exact r)"
    using assms by (auto simp: inspection_parameters_sha256_def bind_res_Inr_iff request_document_def
        split: option.splits obj.splits)
  moreover from this have "canonical_digest sha (inspection_doc t ph ops (Some r)) = Inr h"
    using assms False by (auto simp: inspection_parameters_sha256_def bind_res_Inr_iff check_frozen
        inspection_doc_def split: if_splits)
  ultimately show ?thesis using False by auto
qed

text \<open>A provider observation can be admitted for one transaction only: if the same
  observation is admitted after the requests \<open>r1\<close> and \<open>r2\<close> (whatever the authorities, phases and
  targets asked for), then the requests and the phases are equal, or the two inspection documents
  are a collision of the digest function. A read made before, or for another mutation, does not verify this one.\<close>

theorem observation_bound_to_transaction:
  assumes "admit_observation sha (Exact ob) a1 ph1 e1 r1 = Inr ()"
    and "admit_observation sha (Exact ob) a2 ph2 e2 r2 = Inr ()"
  shows "(ph1 = ph2 \<and> r1 = r2) \<or>
    (\<exists>q1 q2. r1 = map_option Exact q1 \<and> r2 = map_option Exact q2 \<and> collide encode_line sha
       (inspection_doc (rq_target (fo_request ob)) ph1 (fo_supported_operations ob) q1)
       (inspection_doc (rq_target (fo_request ob)) ph2 (fo_supported_operations ob) q2))"
proof -
  let ?t = "rq_target (fo_request ob)" and ?ops = "fo_supported_operations ob"
    and ?h = "rq_parameters_sha256 (fo_request ob)"
  have i: "inspection_parameters_sha256 sha (Exact ?t) (Exact ph1) (frozen ?ops) r1 = Inr ?h"
    "inspection_parameters_sha256 sha (Exact ?t) (Exact ph2) (frozen ?ops) r2 = Inr ?h"
    using assms by (auto elim!: admit_observation_Inr)
  obtain q1 q2 where q: "canonical_digest sha (inspection_doc ?t ph1 ?ops q1) = Inr ?h" "r1 = map_option Exact q1"
    "canonical_digest sha (inspection_doc ?t ph2 ?ops q2) = Inr ?h" "r2 = map_option Exact q2"
    using inspection_parameters_doc [OF i(1)] inspection_parameters_doc [OF i(2)] by blast
  show ?thesis
    using text_line.digest_binds [OF plain_inspection_doc plain_inspection_doc, of ?t ph1 ?ops q1 sha ?h ?t ph2 ?ops q2]
      q unfolding canonical_digest_line canon_inspection_doc by blast
qed

section \<open>Mutation\<close>

text \<open>The request a bound authority yields.\<close>

definition request_for :: "firewall_plan \<Rightarrow> execution_authority \<Rightarrow> capability_request \<Rightarrow> bool" where
  "request_for p au rq \<longleftrightarrow> rq_adapter_id rq = pl_adapter_id p \<and> rq_source_revision rq = pl_source_revision p \<and>
     rq_operation rq = Op_REBUILD \<and> rq_target rq = pl_target p \<and>
     ea_adapter_id au = pl_adapter_id p \<and> ea_source_revision au = pl_source_revision p \<and>
     ea_target au = pl_target p \<and> ea_parameters_sha256 au = rq_parameters_sha256 rq \<and>
     Op_REBUILD \<in> ea_operations au \<and> Op_REBUILD \<in> pl_supported_operations p \<and>
     rt_provider_resource_id (pl_target p) \<noteq> None"

lemma supported_frozen: "supported_set (frozen A) = Some A"
  by (auto simp: frozen_def exact_members_def)

lemma build_mutation_request_Inr:
  assumes "build_mutation_request sha (Exact p) authority rid = Inr rq"
  shows "pl_action p = REPLACE_OWNED" "rt_expected_version (pl_target p) \<noteq> None"
    "rid = PStr (rq_request_id rq)" "mutation_parameters_sha256 sha (Exact p) = Inr (rq_parameters_sha256 rq)"
    "\<exists>au. authority = Exact au \<and> request_for p au rq"
proof -
  obtain h where g: "pl_action p = REPLACE_OWNED" "rt_expected_version (pl_target p) \<noteq> None"
    "mutation_parameters_sha256 sha (Exact p) = Inr h"
    "authority_binds authority (pl_adapter_id p) (pl_source_revision p) (pl_target p) h"
    "new_capability_request rid (PStr (pl_adapter_id p)) (PStr (pl_source_revision p)) (Exact Op_REBUILD)
       (Exact (pl_target p)) (PStr h) = Inr rq"
    "admit_request (Exact rq) authority (frozen (pl_supported_operations p)) = Inr ()"
    using assms unfolding build_mutation_request_def
    by (auto simp: bind_res_Inr_iff seq_res_Inr_iff raise_Inr_iff)
  from g(4) obtain au where au: "authority = Exact au" "ea_adapter_id au = pl_adapter_id p"
    "ea_source_revision au = pl_source_revision p" "ea_target au = pl_target p" "ea_parameters_sha256 au = h"
    by (auto simp: authority_binds_def split: obj.splits)
  from g(5) have rq: "rid = PStr (rq_request_id rq)" "rq_adapter_id rq = pl_adapter_id p"
    "rq_source_revision rq = pl_source_revision p" "rq_operation rq = Op_REBUILD" "rq_target rq = pl_target p"
    "rq_parameters_sha256 rq = h"
    by (simp_all add: new_capability_request_iff)
  have "request_for p au rq"
    using g(6) au rq by (simp add: request_for_def admit_request_Inr_iff supported_frozen)
  then show "pl_action p = REPLACE_OWNED" "rt_expected_version (pl_target p) \<noteq> None"
    "rid = PStr (rq_request_id rq)" "mutation_parameters_sha256 sha (Exact p) = Inr (rq_parameters_sha256 rq)"
    "\<exists>au. authority = Exact au \<and> request_for p au rq"
    using g au rq by auto
qed

lemma admit_mutation_context_Inr:
  assumes "admit_mutation_context sha plan authority request result = Inr ()"
  shows "\<exists>p rq rs. plan = Exact p \<and> request = Exact rq \<and> result = Exact rs \<and>
    build_mutation_request sha (Exact p) authority (PStr (rq_request_id rq)) = Inr rq \<and>
    admit_result (Exact rq) (Exact rs) = Inr ()"
proof -
  obtain rq rs where r: "request = Exact rq" "result = Exact rs"
    and b: "build_mutation_request sha plan authority (PStr (rq_request_id rq)) = Inr rq"
    and a: "admit_result (Exact rq) (Exact rs) = Inr ()"
    using assms unfolding admit_mutation_context_def
    by (auto simp: bind_res_Inr_iff raise_Inr_iff split: obj.splits)
  moreover from b obtain p where "plan = Exact p"
    by (cases plan) (simp_all add: build_mutation_request_def)
  ultimately show ?thesis by blast
qed

lemma admit_fresh_observation_Inr:
  assumes "admit_fresh_observation sha p fresh authority ph pred = Inr ob"
  shows "fresh = Exact ob" "admit_observation sha fresh authority ph (Some (pl_target p)) (Some pred) = Inr ()"
    "rq_adapter_id (fo_request ob) = pl_adapter_id p" "fo_supported_operations ob = pl_supported_operations p"
    "fo_preserved_state_sha256 ob = pl_preserved_state_sha256 p"
    "map PStr (fo_operator_access ob) = pl_operator_access p"
  using assms
  by (auto simp: admit_fresh_observation_def seq_res_Inr_iff split: obj.splits if_splits)

text \<open>A verified mutation was authorised for exactly this plan, and the provider, read
  afresh after it, has exactly the desired policy as its one owned rule while the operator access
  and everything else recorded as preserved are unchanged on the same resource.\<close>

theorem verified_mutation_is_desired:
  assumes "fw_verify sha (Exact p) (Exact au) (Exact rq) (Exact rs) (Exact ob) inspect_authority = Inr ()"
  shows "mutation_parameters_sha256 sha (Exact p) = Inr (ea_parameters_sha256 au) \<and>
    Op_REBUILD \<in> ea_operations au \<and> ea_target au = pl_target p \<and>
    map ofp_policy (fo_owned ob) = [pl_desired p] \<and>
    fo_preserved_state_sha256 ob = pl_preserved_state_sha256 p \<and>
    map PStr (fo_operator_access ob) = pl_operator_access p \<and>
    same_resource (rq_target (fo_request ob)) (pl_target p) \<and> rs_outcome (fo_result ob) = Out_OBSERVED"
proof -
  have c: "admit_mutation_context sha (Exact p) (Exact au) (Exact rq) (Exact rs) = Inr ()"
    and f: "admit_fresh_observation sha p (Exact ob) inspect_authority POST_MUTATION (Exact rq) = Inr ob"
    and d: "map ofp_policy (fo_owned ob) = [pl_desired p]"
    using assms
    by (auto simp: fw_verify_def the_plan_def seq_res_Inr_iff bind_res_Inr_iff raise_Inr_iff
        dest: admit_fresh_observation_Inr(1))
  have b: "build_mutation_request sha (Exact p) (Exact au) (PStr (rq_request_id rq)) = Inr rq"
    using admit_mutation_context_Inr [OF c] by simp
  note fresh = admit_fresh_observation_Inr [OF f] and req = build_mutation_request_Inr [OF b]
  have "same_resource (rq_target (fo_request ob)) (pl_target p)" "rs_outcome (fo_result ob) = Out_OBSERVED"
    using fresh(2) by (auto elim!: admit_observation_Inr)
  then show ?thesis using d fresh(5,6) req(4,5) by (simp add: request_for_def)
qed


section \<open>Planning\<close>

text \<open>The reader of the store hands out what is stored, which is a valid candidate.\<close>

lemma read_lkg_spec:
  assumes "read_lkg sha env dir w = (Inr (Some d), w')"
  shows "stored sha env w (pp_parts dir @ [LKG_FILE]) (Some d)"
proof -
  obtain r1 w1 where 1: "assert_safe_directory env dir False w = (r1, w1)"
    by (cases "assert_safe_directory env dir False w")
  note s1 = assert_safe_directory_spec [OF 1]
  let ?d = "pp_parts dir"
  have r1: "r1 = Inr ?d"
    and l: "state_lock env ?d (read_document sha env ?d LKG_FILE False) w1 = (Inr (Some d), w')"
    using assms 1 s1 by (auto simp: read_lkg_def bind_io_eq)
  obtain w2 w3 where f: "frame {?d @ [LOCK_FILE]} w1 w2"
    and rd: "read_document sha env ?d LKG_FILE False w2 = (Inr (Some d), w3)"
    using state_lock_spec [OF l] by auto
  have "stored sha env w2 (?d @ [LKG_FILE]) (Some d)" using read_document_spec [OF rd] by simp
  moreover have "os_nodes w2 (?d @ [LKG_FILE]) = os_nodes w (?d @ [LKG_FILE])"
    using f s1 file_names_distinct by (simp add: frame_def)
  ultimately show ?thesis using stored_cong by metis
qed

lemma stored_valid: "stored sha env w p (Some d) \<Longrightarrow> validate_candidate sha (PDict d) = Inr ()"
  by (auto simp: stored_def)

lemma new_firewall_policy_exact:
  assumes "new_firewall_policy (PStr pr) (PInt po) (PTuple (map PStr v4)) (PTuple (map PStr v6)) = Inr pol"
  shows "pol = \<lparr>fp_protocol = pr, fp_port = po, fp_ipv4_sources = v4, fp_ipv6_sources = v6\<rparr>"
proof -
  have "fw_prefixes (PTuple (map PStr v)) k False = Inr o1 \<Longrightarrow> o1 = v" for v k o1
    by (auto simp: fw_prefixes_def Let_def bind_res_Inr_iff map_PStr_inj split: if_splits)
  then show ?thesis
    using assms by (auto simp: new_firewall_policy_def bind_res_Inr_iff raise_Inr_iff split: if_splits)
qed

lemma new_resource_target_eq:
  assumes "new_resource_target (PStr a) (PStr b) (PStr c) (opt_val i) (opt_val v) = Inr t"
  shows "t = \<lparr>rt_provider = a, rt_scope = b, rt_requested_key = c, rt_provider_resource_id = i,
    rt_expected_version = v\<rparr>"
  using assms by (auto simp: new_resource_target_def seq_res_Inr_iff)

lemma observed_target_Inr:
  "observed_target ob = Inr t \<Longrightarrow> t = (rq_target (fo_request ob))\<lparr>rt_expected_version := fo_revision ob\<rparr>"
  by (drule new_resource_target_eq [OF trans [OF observed_target_def [unfolded Let_def, symmetric]]]) simp

lemma check_operations_frozen: "check_operations (frozen A) = Inr B \<Longrightarrow> B = A"
  by (simp add: check_frozen split: if_splits)

lemma optional_map_exact [simp]: "optional_exact (map_option Exact x) = Some x"
  by (cases x) (simp_all add: optional_exact_def)

lemma new_firewall_plan_fields:
  assumes "new_firewall_plan (Exact act) (Exact t) (PStr ad) (PStr src) (frozen ops) lkg (Exact des)
    (map_option Exact pri) (PStr pres) (PTuple access) = Inr p"
  shows "p = \<lparr>pl_action = act, pl_target = t, pl_adapter_id = ad, pl_source_revision = src,
    pl_supported_operations = ops, pl_accepted_lkg_identity = str_of lkg, pl_desired = des,
    pl_prior_owned = pri, pl_preserved_state_sha256 = pres, pl_operator_access = access\<rparr>"
  using assms
  by (auto simp: new_firewall_plan_def seq_res_Inr_iff bind_res_Inr_iff raise_Inr_iff
      dest!: check_operations_frozen)


lemma plan_accepted_Inr:
  assumes "plan_accepted sha (Exact i) a (Exact ob) au = Inr p"
    and v: "dget a ''ipv4_prefixes'' = PList (map PStr v4)" "dget a ''ipv6_prefixes'' = PList (map PStr v6)"
    and d: "dget a ''candidate_sha256'' = PStr h"
  shows "pl_desired p = \<lparr>fp_protocol = fi_origin_protocol i, fp_port = fi_origin_port i,
      fp_ipv4_sources = v4, fp_ipv6_sources = v6\<rparr>"
    and "pl_accepted_lkg_identity p = h"
    and "pl_prior_owned p = owned_head ob"
    and "pl_action p = NO_MUTATION \<longleftrightarrow> map_option ofp_policy (pl_prior_owned p) = Some (pl_desired p)"
    and "pl_target p = (rq_target (fo_request ob))\<lparr>rt_expected_version := fo_revision ob\<rparr>"
    and "pl_operator_access p = map PStr (fo_operator_access ob)"
    and "pl_preserved_state_sha256 p = fo_preserved_state_sha256 ob"
    and "admit_observation sha (Exact ob) au CURRENT None None = Inr ()"
proof -
  obtain des t lkg where g: "admit_observation sha (Exact ob) au CURRENT None None = Inr ()"
    "desired_policy (Exact i) a = Inr des" "observed_target ob = Inr t"
    "ditem a ''candidate_sha256'' = Inr lkg"
    "new_firewall_plan (Exact (if map_option ofp_policy (owned_head ob) = Some des then NO_MUTATION
         else REPLACE_OWNED)) (Exact t) (PStr (rq_adapter_id (fo_request ob)))
       (PStr (rq_source_revision (fo_request ob))) (frozen (fo_supported_operations ob)) lkg
       (Exact des) (map_option Exact (owned_head ob)) (PStr (fo_preserved_state_sha256 ob))
       (PTuple (map PStr (fo_operator_access ob))) = Inr p"
    using assms(1) by (auto simp: plan_accepted_def Let_def bind_res_Inr_iff seq_res_Inr_iff)
  have item: "ditem a k = Inr x \<Longrightarrow> dget a k = x" for k x
    by (auto simp: ditem_def dget_def split: option.splits)
  have des: "des = \<lparr>fp_protocol = fi_origin_protocol i, fp_port = fi_origin_port i,
      fp_ipv4_sources = v4, fp_ipv6_sources = v6\<rparr>"
    using g(2) v by (auto simp: desired_policy_def bind_res_Inr_iff as_tuple_def dest!: item
        intro!: new_firewall_policy_exact)
  have "lkg = PStr h" using item [OF g(4)] d by simp
  note p = new_firewall_plan_fields [OF g(5), unfolded this]
  show "pl_desired p = \<lparr>fp_protocol = fi_origin_protocol i, fp_port = fi_origin_port i,
      fp_ipv4_sources = v4, fp_ipv6_sources = v6\<rparr>" "pl_accepted_lkg_identity p = h"
    "pl_prior_owned p = owned_head ob"
    "pl_action p = NO_MUTATION \<longleftrightarrow> map_option ofp_policy (pl_prior_owned p) = Some (pl_desired p)"
    "pl_target p = (rq_target (fo_request ob))\<lparr>rt_expected_version := fo_revision ob\<rparr>"
    "pl_operator_access p = map PStr (fo_operator_access ob)"
    "pl_preserved_state_sha256 p = fo_preserved_state_sha256 ob"
    using p des observed_target_Inr [OF g(3)] by simp_all
  show "admit_observation sha (Exact ob) au CURRENT None None = Inr ()" by (fact g(1))
qed

lemma fw_plan_Inr:
  assumes "fw_plan sha env i (Exact dir) ob au w = (Inr p, w')"
  shows "\<exists>a. stored sha env w (pp_parts dir @ [LKG_FILE]) (Some a) \<and> plan_accepted sha i a ob au = Inr p"
  using assms
  by (auto simp: fw_plan_def bind_io_eq split: option.splits dest!: read_lkg_spec)

text \<open>Property C12: a firewall plan admits to the origin TCP 443 from exactly the prefixes of the
  accepted document the store holds, both families, in canonical order and never a default
  route; it names that document's digest, takes the owned rule and the revision from the
  observation, keeps the operator access, and plans no mutation exactly when the owned policy
  already is the desired one.\<close>

theorem plan_protects_accepted_prefixes:
  assumes "new_firewall_intent mode protocol port = Inr i"
    and "fw_plan sha env (Exact i) (Exact dir) (Exact ob) au w = (Inr p, w')"
  shows "\<exists>a v4 v6. stored sha env w (pp_parts dir @ [LKG_FILE]) (Some a) \<and>
     dget a ''ipv4_prefixes'' = PList (map PStr v4) \<and> dget a ''ipv6_prefixes'' = PList (map PStr v6) \<and>
     v4 \<noteq> [] \<and> v6 \<noteq> [] \<and> ordered_prefixes 4 v4 \<and> ordered_prefixes 6 v6 \<and>
     pl_desired p = \<lparr>fp_protocol = ''tcp'', fp_port = 443, fp_ipv4_sources = v4, fp_ipv6_sources = v6\<rparr> \<and>
     candidate_digest sha a = Inr (pl_accepted_lkg_identity p) \<and>
     pl_prior_owned p = owned_head ob \<and> pl_operator_access p = map PStr (fo_operator_access ob) \<and>
     pl_target p = (rq_target (fo_request ob))\<lparr>rt_expected_version := fo_revision ob\<rparr> \<and>
     (pl_action p = NO_MUTATION \<longleftrightarrow> map_option ofp_policy (owned_head ob) = Some (pl_desired p))"
proof -
  obtain a where a: "stored sha env w (pp_parts dir @ [LKG_FILE]) (Some a)"
    "plan_accepted sha (Exact i) a (Exact ob) au = Inr p" using fw_plan_Inr [OF assms(2)] by blast
  note f = valid_candidate_fields [OF stored_valid [OF a(1)]]
  obtain v4 v6 h where v: "dget a ''ipv4_prefixes'' = PList (map PStr v4)" "v4 \<noteq> []" "ordered_prefixes 4 v4"
    "dget a ''ipv6_prefixes'' = PList (map PStr v6)" "v6 \<noteq> []" "ordered_prefixes 6 v6"
    "candidate_digest sha a = Inr h" "dget a ''candidate_sha256'' = PStr h"
    using f(9-11) by blast
  note p = plan_accepted_Inr [OF a(2) v(1,4,8)]
  have "fi_origin_protocol i = ''tcp'' \<and> fi_origin_port i = 443"
    using assms(1) by (auto simp: new_firewall_intent_def split: if_splits)
  then show ?thesis using a(1) v p by (intro exI [of _ a] exI [of _ v4] exI [of _ v6]) simp
qed

section \<open>Recovery and rollback\<close>

lemma recovery_plan_Inr:
  assumes "recovery_plan sha (Exact p) au rq (Exact rs) (Exact ob) ia = Inr r"
  shows "classify_recovery p rs ob = Inr r"
    and "admit_fresh_observation sha p (Exact ob) ia POST_MUTATION rq = Inr ob"
    and "admit_mutation_context sha (Exact p) au rq (Exact rs) = Inr ()"
  using assms
  by (auto simp: recovery_plan_def the_plan_def seq_res_Inr_iff bind_res_Inr_iff
      dest: admit_fresh_observation_Inr(1))

lemma new_rollback_plan_fields:
  assumes "new_rollback_plan (Exact t) (PStr ad) (PStr src) (frozen ops) (map_option Exact pol)
    (PStr pres) (PTuple access) = Inr r"
  shows "r = \<lparr>rb_target = t, rb_adapter_id = ad, rb_source_revision = src, rb_supported_operations = ops,
    rb_restore_policy = pol, rb_preserved_state_sha256 = pres, rb_operator_access = access\<rparr>"
  using assms
  by (auto simp: new_rollback_plan_def seq_res_Inr_iff bind_res_Inr_iff raise_Inr_iff
      dest!: check_operations_frozen)

text \<open>The rollback that undoes a plan, from the revision of the fresh observation.\<close>

definition rollback_of :: "firewall_plan \<Rightarrow> firewall_observation \<Rightarrow> rollback_plan" where
  "rollback_of p ob = \<lparr>rb_target = (rq_target (fo_request ob))\<lparr>rt_expected_version := fo_revision ob\<rparr>,
     rb_adapter_id = pl_adapter_id p, rb_source_revision = pl_source_revision p,
     rb_supported_operations = pl_supported_operations p,
     rb_restore_policy = map_option ofp_policy (pl_prior_owned p),
     rb_preserved_state_sha256 = pl_preserved_state_sha256 p, rb_operator_access = pl_operator_access p\<rparr>"

lemma classify_recovery_Inr:
  assumes "classify_recovery p rs ob = Inr r"
  shows "case r of
      Decided DESIRED_VERIFIED \<Rightarrow> \<not> no_retained_effect rs \<and>
        map_option ofp_policy (owned_head ob) = Some (pl_desired p)
    | Decided PRIOR_VERIFIED \<Rightarrow>
        map_option ofp_policy (owned_head ob) = map_option ofp_policy (pl_prior_owned p)
    | Rollback b \<Rightarrow> \<not> no_retained_effect rs \<and> fo_revision ob \<noteq> None \<and>
        map_option ofp_policy (owned_head ob) \<notin>
          {Some (pl_desired p), map_option ofp_policy (pl_prior_owned p)} \<and> b = rollback_of p ob"
  using assms
  by (auto simp: classify_recovery_def Let_def bind_res_Inr_iff rollback_of_def
      dest!: observed_target_Inr new_rollback_plan_fields split: if_splits)

text \<open>The recovery decision is what the fresh, admitted observation shows. Success is
  reported only if the owned policy is the desired one and the result may have had an effect;
  nothing-to-undo only if it is the prior one; and a rollback is planned only when it is
  neither, the result may have had an effect and the revision was observed, and then to exactly
  the prior policy, from that revision, keeping adapter, preserved state and operator access.\<close>

theorem recovery_follows_observation:
  assumes "recovery_plan sha (Exact p) au rq (Exact rs) (Exact ob) ia = Inr r"
  shows "fo_preserved_state_sha256 ob = pl_preserved_state_sha256 p \<and>
    same_resource (rq_target (fo_request ob)) (pl_target p) \<and>
    (case r of
      Decided DESIRED_VERIFIED \<Rightarrow> \<not> no_retained_effect rs \<and>
        map_option ofp_policy (owned_head ob) = Some (pl_desired p)
    | Decided PRIOR_VERIFIED \<Rightarrow>
        map_option ofp_policy (owned_head ob) = map_option ofp_policy (pl_prior_owned p)
    | Rollback b \<Rightarrow> \<not> no_retained_effect rs \<and> fo_revision ob \<noteq> None \<and>
        map_option ofp_policy (owned_head ob) \<notin>
          {Some (pl_desired p), map_option ofp_policy (pl_prior_owned p)} \<and> b = rollback_of p ob)"
proof -
  note f = admit_fresh_observation_Inr [OF recovery_plan_Inr(2) [OF assms]]
  have "same_resource (rq_target (fo_request ob)) (pl_target p)"
    using f(2) by (auto elim!: admit_observation_Inr)
  then show ?thesis using f(5) classify_recovery_Inr [OF recovery_plan_Inr(1) [OF assms]] by blast
qed

lemma rollback_authority:
  assumes "admit_rollback_context sha (Exact b) au rq rs = Inr ()"
  shows "\<exists>a. au = Exact a \<and> ea_target a = rb_target b \<and>
    rollback_parameters_sha256 sha (Exact b) = Inr (ea_parameters_sha256 a)"
  using assms
  by (cases au) (auto simp: admit_rollback_context_def build_rollback_request_def authority_binds_def
      bind_res_Inr_iff seq_res_Inr_iff raise_Inr_iff split: obj.splits obj.split_asm)

text \<open>Property C11: a verified rollback undoes the plan: when recovery planned a rollback and its
  verification succeeds, the owned rule of the same resource has the policy it had before the
  plan (or there is none, as before), the preserved state and the operator access are those the
  plan recorded, and the rollback was authorised for the revision at which the deviation had
  been observed.\<close>

theorem rollback_restores_prior:
  assumes "recovery_plan sha (Exact p) au rq (Exact rs) (Exact ob) ia = Inr (Rollback b)"
    and "verify_rollback sha (Exact b) (Exact au2) rq2 rs2 (Exact ob2) ia2 = Inr ()"
  shows "map_option ofp_policy (owned_head ob2) = map_option ofp_policy (pl_prior_owned p) \<and>
    fo_preserved_state_sha256 ob2 = pl_preserved_state_sha256 p \<and>
    map PStr (fo_operator_access ob2) = pl_operator_access p \<and>
    same_resource (rq_target (fo_request ob2)) (pl_target p) \<and>
    rt_expected_version (ea_target au2) = fo_revision ob"
proof -
  have b: "b = rollback_of p ob" using classify_recovery_Inr [OF recovery_plan_Inr(1) [OF assms(1)]] by simp
  have r: "same_resource (rq_target (fo_request ob)) (pl_target p)"
    using admit_fresh_observation_Inr(2) [OF recovery_plan_Inr(2) [OF assms(1)]]
    by (auto elim!: admit_observation_Inr)
  have c: "admit_rollback_context sha (Exact b) (Exact au2) rq2 rs2 = Inr ()"
    and adm: "admit_observation sha (Exact ob2) ia2 POST_ROLLBACK (Some (rb_target b)) (Some rq2) = Inr ()"
    and g: "fo_preserved_state_sha256 ob2 = rb_preserved_state_sha256 b"
      "map PStr (fo_operator_access ob2) = rb_operator_access b"
      "map_option ofp_policy (owned_head ob2) = rb_restore_policy b"
    using assms(2) by (auto simp: verify_rollback_def seq_res_Inr_iff raise_Inr_iff)
  have "same_resource (rq_target (fo_request ob2)) (rb_target b)"
    using adm by (auto elim!: admit_observation_Inr)
  then have "same_resource (rq_target (fo_request ob2)) (pl_target p)"
    using r unfolding b rollback_of_def by (simp add: same_resource_def)
  then show ?thesis using rollback_authority [OF c] g unfolding b rollback_of_def by simp
qed


section \<open>Witnesses\<close>

text \<open>One provider rule, at a desired, a prior and a drifted policy, and the runs over it.\<close>

definition sample_policy :: "string \<Rightarrow> firewall_policy" where
  "sample_policy p4 = \<lparr>fp_protocol = ''tcp'', fp_port = 443, fp_ipv4_sources = [p4], fp_ipv6_sources = []\<rparr>"

definition sample_owned :: "string \<Rightarrow> owned_firewall_policy" where
  "sample_owned p4 = \<lparr>ofp_provider_rule_id = ''rule-1'', ofp_policy = sample_policy p4\<rparr>"

definition sample_plan :: firewall_plan where
  "sample_plan = \<lparr>pl_action = REPLACE_OWNED, pl_target = sample_target, pl_adapter_id = ''adp'',
     pl_source_revision = sample_sha1, pl_supported_operations = {Op_INSPECT, Op_REBUILD},
     pl_accepted_lkg_identity = sample_digest, pl_desired = sample_policy ''192.0.2.0/24'',
     pl_prior_owned = Some (sample_owned ''198.51.100.0/24''), pl_preserved_state_sha256 = sample_digest,
     pl_operator_access = [PStr ''ops'']\<rparr>"

definition sample_observation :: "observation_phase \<Rightarrow> string \<Rightarrow> firewall_observation" where
  "sample_observation ph p4 = \<lparr>fo_phase = ph, fo_request = sample_request Op_INSPECT,
     fo_result = sample_result Op_INSPECT Out_OBSERVED, fo_supported_operations = {Op_INSPECT, Op_REBUILD},
     fo_owned = [sample_owned p4], fo_operator_access = [''ops''],
     fo_preserved_state_sha256 = sample_digest\<rparr>"

lemma sample_recovers:
  "recovery_plan sample_sha (Exact sample_plan) (Exact sample_authority) (Exact (sample_request Op_REBUILD))
     (Exact (sample_result Op_REBUILD Out_APPLIED)) (Exact (sample_observation POST_MUTATION ''203.0.113.0/24''))
     (Exact sample_authority)
   = Inr (Rollback (rollback_of sample_plan (sample_observation POST_MUTATION ''203.0.113.0/24'')))"
  by code_simp

theorem mutation_digest_binds_plan_witness:
  "sample_plan = sample_plan\<lparr>pl_action := NO_MUTATION\<rparr> \<or>
     collide encode_line sample_sha (mutation_doc sample_plan) (mutation_doc (sample_plan\<lparr>pl_action := NO_MUTATION\<rparr>))"
proof (rule mutation_digest_binds_plan)
  show "mutation_parameters_sha256 sample_sha (Exact sample_plan) = Inr sample_digest" by code_simp
  show "mutation_parameters_sha256 sample_sha (Exact (sample_plan\<lparr>pl_action := NO_MUTATION\<rparr>)) = Inr sample_digest"
    by code_simp
qed code_simp+

theorem observation_bound_to_transaction_witness:
  "\<exists>q1 q2. Some (Exact (sample_request Op_REBUILD)) = map_option Exact q1 \<and>
     Some (Exact (sample_request Op_DELETE)) = map_option Exact q2 \<and> collide encode_line sample_sha
       (inspection_doc sample_target POST_MUTATION {Op_INSPECT, Op_REBUILD} q1)
       (inspection_doc sample_target POST_MUTATION {Op_INSPECT, Op_REBUILD} q2)"
proof -
  let ?ob = "sample_observation POST_MUTATION ''192.0.2.0/24''"
  have a: "admit_observation sample_sha (Exact ?ob)
      (Exact sample_authority) POST_MUTATION None (Some (Exact (sample_request Op_REBUILD))) = Inr ()"
    by code_simp
  have b: "admit_observation sample_sha (Exact ?ob)
      (Exact sample_authority) POST_MUTATION None (Some (Exact (sample_request Op_DELETE))) = Inr ()"
    by code_simp
  have ob: "rq_target (fo_request ?ob) = sample_target" "fo_supported_operations ?ob = {Op_INSPECT, Op_REBUILD}"
    by (simp_all add: sample_observation_def sample_request_def)
  have "Some (Exact (sample_request Op_REBUILD)) \<noteq> Some (Exact (sample_request Op_DELETE))"
    by (simp add: sample_request_def)
  then show ?thesis using observation_bound_to_transaction [OF a b] unfolding ob by blast
qed

theorem verified_mutation_is_desired_witness:
  "map ofp_policy (fo_owned (sample_observation POST_MUTATION ''192.0.2.0/24'')) = [pl_desired sample_plan]"
proof -
  have "fw_verify sample_sha (Exact sample_plan) (Exact sample_authority) (Exact (sample_request Op_REBUILD))
      (Exact (sample_result Op_REBUILD Out_APPLIED)) (Exact (sample_observation POST_MUTATION ''192.0.2.0/24''))
      (Exact sample_authority) = Inr ()"
    by code_simp
  from verified_mutation_is_desired [OF this] show ?thesis by simp
qed

theorem recovery_follows_observation_witness:
  "fo_revision (sample_observation POST_MUTATION ''203.0.113.0/24'') \<noteq> None"
  using recovery_follows_observation [OF sample_recovers] by simp

theorem rollback_restores_prior_witness:
  "map_option ofp_policy (owned_head (sample_observation POST_ROLLBACK ''198.51.100.0/24''))
     = map_option ofp_policy (pl_prior_owned sample_plan)"
proof -
  have "verify_rollback sample_sha
      (Exact (rollback_of sample_plan (sample_observation POST_MUTATION ''203.0.113.0/24'')))
      (Exact sample_authority) (Exact (sample_request Op_REBUILD)) (Exact (sample_result Op_REBUILD Out_APPLIED))
      (Exact (sample_observation POST_ROLLBACK ''198.51.100.0/24'')) (Exact sample_authority) = Inr ()"
    by code_simp
  from rollback_restores_prior [OF sample_recovers this] show ?thesis by simp
qed

text \<open>A store that holds an accepted document, and the plan made from it.\<close>

definition accepted_world :: os where
  "accepted_world = sample_world\<lparr>os_nodes := (os_nodes sample_world)
     ([''state'', LKG_FILE] \<mapsto> file_node sample_bytes, [''state'', LOCK_FILE] \<mapsto> file_node [])\<rparr>"

definition sample_intent :: firewall_intent where
  "sample_intent = \<lparr>fi_edge_mode = PROTECTED, fi_origin_protocol = ''tcp'', fi_origin_port = 443\<rparr>"

lemma sample_reads:
  "fst (read_lkg sample_sha calm_env sample_dir accepted_world) = Inr (Some (sort_key fst sample_candidate))"
  by code_simp

lemma sample_plan_accepted:
  "ok (plan_accepted sample_sha (Exact sample_intent) (sort_key fst sample_candidate)
     (Exact (sample_observation CURRENT ''198.51.100.0/24'')) (Exact sample_authority))"
  by code_simp

lemma sample_plans:
  "ok (fst (fw_plan sample_sha calm_env (Exact sample_intent) (Exact sample_dir)
     (Exact (sample_observation CURRENT ''198.51.100.0/24'')) (Exact sample_authority) accepted_world))"
proof -
  obtain r w' where "read_lkg sample_sha calm_env sample_dir accepted_world = (r, w')"
    by (cases "read_lkg sample_sha calm_env sample_dir accepted_world") blast
  then show ?thesis
    using sample_reads sample_plan_accepted by (simp add: fw_plan_def bind_io_def)
qed

theorem plan_protects_accepted_prefixes_witness:
  "\<exists>(p :: firewall_plan) v4 v6.
     pl_desired p = \<lparr>fp_protocol = ''tcp'', fp_port = 443, fp_ipv4_sources = v4, fp_ipv6_sources = v6\<rparr> \<and>
     v4 \<noteq> [] \<and> pl_prior_owned p = Some (sample_owned ''198.51.100.0/24'')"
proof -
  let ?m = "fw_plan sample_sha calm_env (Exact sample_intent) (Exact sample_dir)
     (Exact (sample_observation CURRENT ''198.51.100.0/24'')) (Exact sample_authority)"
  obtain r w' where e: "?m accepted_world = (r, w')" by (cases "?m accepted_world") blast
  with sample_plans obtain p where p: "?m accepted_world = (Inr p, w')" by (auto simp: ok_iff)
  have i: "new_firewall_intent (Exact PROTECTED) (PStr ''tcp'') (PInt 443) = Inr sample_intent"
    by (simp add: new_firewall_intent_def sample_intent_def)
  have "owned_head (sample_observation CURRENT ''198.51.100.0/24'') = Some (sample_owned ''198.51.100.0/24'')"
    by (simp add: owned_head_def sample_observation_def)
  note head = this
  from plan_protects_accepted_prefixes [OF i p] obtain v4 v6 where
    "pl_desired p = \<lparr>fp_protocol = ''tcp'', fp_port = 443, fp_ipv4_sources = v4, fp_ipv6_sources = v6\<rparr>"
    "v4 \<noteq> []" "pl_prior_owned p = owned_head (sample_observation CURRENT ''198.51.100.0/24'')"
    by blast
  with head show ?thesis by auto
qed

end
