(* ===== verification/Py_Response.thy ===== *)
theory Py_Response
  imports Py_Value
begin

text \<open>
  What the provider contracts do with decoded responses beyond \<open>Py_Value\<close>: subscripts, tests
  for membership in a set of strings (which hash the value first), ASCII text and the
  part of the \<open>idna\<close> codec that applies to ASCII names.
\<close>

section \<open>Subscripts and hashing\<close>

text \<open>\<open>v[key]\<close> with a string key: a \<open>KeyError\<close> of a dictionary, a \<open>TypeError\<close> of anything else.\<close>

definition pitem :: "pyval \<Rightarrow> string \<Rightarrow> pyval res" where
  "pitem v k = (case v of PDict d \<Rightarrow> ditem d k | _ \<Rightarrow> Inl TypeError)"

fun hashable :: "pyval \<Rightarrow> bool" where
  "hashable (PList _) = False"
| "hashable (PDict _) = False"
| "hashable (PTuple xs) = list_all hashable xs"
| "hashable _ = True"

text \<open>\<open>v in {...}\<close> for a set of string constants.\<close>

definition in_strings :: "pyval \<Rightarrow> string list \<Rightarrow> bool res" where
  "in_strings v names = (if \<not> hashable v then Inl TypeError
     else Inr (case v of PStr s \<Rightarrow> s \<in> set names | _ \<Rightarrow> False))"

lemma in_strings_iff: "in_strings v names = Inr True \<longleftrightarrow> (\<exists>s. v = PStr s \<and> s \<in> set names)"
  by (cases v) (auto simp: in_strings_def)

lemma in_strings_str [simp]: "in_strings (PStr s) names = Inr (s \<in> set names)"
  by (simp add: in_strings_def)

lemma in_strings_error: "in_strings v names = Inl e \<Longrightarrow> e = TypeError"
  by (simp add: in_strings_def split: if_splits)

text \<open>\<open>except (KeyError, TypeError): raise ContractError(m)\<close>.\<close>

definition lookup_guard :: "string \<Rightarrow> 'a res \<Rightarrow> 'a res" where
  "lookup_guard m r = catch_res r (\<lambda>e. case e of
     KeyError \<Rightarrow> Inl (ContractError m) | TypeError \<Rightarrow> Inl (ContractError m) | _ \<Rightarrow> Inl e)"

lemma lookup_guard_Inr [simp]: "lookup_guard m r = Inr x \<longleftrightarrow> r = Inr x"
  by (cases r) (auto simp: lookup_guard_def split: exc.splits)

lemma lookup_guard_Inl:
  "lookup_guard m r = Inl e \<Longrightarrow>
     e = ContractError m \<or> (r = Inl e \<and> e \<noteq> KeyError \<and> e \<noteq> TypeError)"
  by (cases r) (auto simp: lookup_guard_def split: exc.splits)

lemma dict_tests:
  "is_dict v \<Longrightarrow> \<exists>d. v = PDict d" "is_list v \<Longrightarrow> \<exists>xs. v = PList xs"
  by (auto simp: is_dict_iff is_list_iff)

fun dict_of :: "pyval \<Rightarrow> pydict" where
  "dict_of (PDict d) = d"
| "dict_of _ = []"

fun list_of :: "pyval \<Rightarrow> pyval list" where
  "list_of (PList xs) = xs"
| "list_of _ = []"

section \<open>Names\<close>

definition is_ascii :: "string \<Rightarrow> bool" where
  "is_ascii s = list_all (\<lambda>c. (of_char c :: nat) < 128) s"

text \<open>
  \<open>s.encode("idna")\<close> of a non-empty ASCII string: the string itself, if every label but the
  last has 1 to 63 characters and the last at most 63.
\<close>

definition idna_ascii :: "string \<Rightarrow> string res" where
  "idna_ascii s = (let labels = py_split CHR ''.'' s in
     if list_ex (\<lambda>l. l = [] \<or> 63 < length l) (butlast labels) \<or> 63 < length (last labels)
     then Inl UnicodeError else Inr s)"

lemma idna_ascii_Inr: "idna_ascii s = Inr t \<Longrightarrow> t = s"
  by (simp add: idna_ascii_def Let_def split: if_splits)

end
