(* ===== verification/Viewer_Edge.thy ===== *)
theory Viewer_Edge
  imports Capability Py_Response
begin

text \<open>
  \<open>scripts/cloudfront-viewer-edge.py\<close>: the lifecycle contract of the CloudFront distribution,
  connection group and distribution tenant in front of a PROTECTED origin. It builds bounded
  control-plane operations, normalises provider responses into typed observations, and admits
  requests and results against a separately held authority.

  Conventions as in \<open>Capability\<close>. An argument that the code reads before it tests its class is
  an instance of the annotated class; one whose class is tested first is an \<open>obj\<close>.
\<close>

section \<open>Constants and enumerations\<close>

definition CACHING_DISABLED_ID :: string where
  "CACHING_DISABLED_ID = ''4135ea2d-6df8-44a3-9df3-4b5a84be39ad''"
definition ALL_VIEWER_EXCEPT_HOST_ID :: string where
  "ALL_VIEWER_EXCEPT_HOST_ID = ''b689b0a8-53d0-40ab-baf2-68738e2966ac''"
definition ORIGIN_PARAMETER :: string where "ORIGIN_PARAMETER = ''OriginDomain''"
definition ORIGIN_TEMPLATE :: string where "ORIGIN_TEMPLATE = ''{{OriginDomain}}''"
definition ORIGIN_ID :: string where "ORIGIN_ID = ''secpal-origin''"
definition AWS_ACCOUNT_ID :: rx where "AWS_ACCOUNT_ID = rx_rep 12 (Cls digit_char)"
definition ETAG :: rx where
  "ETAG = rx_range 1 128 (Cls (\<lambda>c. alnum_char c \<or> c = CHR ''_'' \<or> c = CHR ''-''))"

datatype ve_operation =
    CREATE_DISTRIBUTION | INSPECT_DISTRIBUTION | UPDATE_DISTRIBUTION
  | CREATE_CONNECTION_GROUP | INSPECT_CONNECTION_GROUP | DISABLE_CONNECTION_GROUP
  | DELETE_CONNECTION_GROUP
  | CREATE_TENANT | INSPECT_TENANT | INSPECT_CERTIFICATE | ATTACH_CERTIFICATE
  | UPDATE_TENANT | DISABLE_TENANT | DELETE_TENANT
  | DISABLE_DISTRIBUTION | DELETE_DISTRIBUTION

datatype certificate_state =
  Cs_REQUESTED | Cs_VALIDATION_REQUIRED | Cs_ISSUED | Cs_ATTACHED | Cs_ACTIVE | Cs_INACTIVE | Cs_FAILED

datatype ve_outcome = Ve_APPLIED | Ve_OBSERVED | Ve_DELETED | Ve_FAILED

section \<open>Field checks\<close>

definition ve_identity :: "string \<Rightarrow> pyval \<Rightarrow> unit res" where
  "ve_identity label v =
     (case v of
        PStr s \<Rightarrow>
          (if s = [] \<or> s \<noteq> py_strip s
           then Inl (ContractError (label @ '' must be one explicit non-empty identity''))
           else if \<not> py_isprintable s \<or> MAX_IDENTITY_BYTES < utf8_len s
           then Inl (ContractError (label @ '' is outside the bounded identity format''))
           else Inr ())
      | _ \<Rightarrow> Inl (ContractError (label @ '' must be one explicit non-empty identity'')))"

interpretation ve: identity_checker ve_identity
  by unfold_locales (auto simp: ve_identity_def good_identity_def split: pyval.splits if_splits)

definition bad_label :: "string \<Rightarrow> bool" where
  "bad_label p \<longleftrightarrow> p = [] \<or> 63 < length p \<or> starts_with ''-'' p \<or> ends_with ''-'' p \<or>
     \<not> fullmatch (rx_plus (Cls (\<lambda>c. alnum_char c \<or> c = CHR ''-''))) p"

text \<open>
  A name outside ASCII is always rejected: its encoding is ASCII and so differs from it. Which
  of the two messages it gets depends on the codec's Unicode tables; the model uses the second.
\<close>

definition ve_domain :: "string \<Rightarrow> pyval \<Rightarrow> unit res" where
  "ve_domain label v =
     seq_res (ve_identity label v)
       (case v of
          PStr s \<Rightarrow>
            if \<not> is_ascii s then Inl (ContractError (label @ '' is not a bounded DNS hostname''))
            else bind_res
              (catch_res (idna_ascii s) (\<lambda>_. Inl (ContractError (label @ '' is not a valid DNS identity''))))
              (\<lambda>a. if s \<noteq> py_lower a \<or> 253 < length a \<or> ends_with ''.'' a \<or> CHR ''.'' \<notin> set a
                     \<or> list_ex bad_label (py_split CHR ''.'' a)
                   then Inl (ContractError (label @ '' is not a bounded DNS hostname''))
                   else Inr ())
        | _ \<Rightarrow> Inl AssertionError)"

definition ve_etag :: "pyval \<Rightarrow> unit res" where
  "ve_etag v = (if \<not> matches_str ETAG v
     then Inl (ContractError ''a current CloudFront control-plane ETag is required'') else Inr ())"

text \<open>\<open>deep_copy\<close>: values have no identity, so a copy is the value itself.\<close>

definition deep_copy :: "pyval \<Rightarrow> pyval" where
  "deep_copy v = v"

section \<open>Data\<close>

record aws_context =
  ac_partition :: string
  ac_account_id :: string
  ac_cloudfront_scope :: string
  ac_certificate_region :: string

definition new_aws_context :: "pyval \<Rightarrow> pyval \<Rightarrow> pyval \<Rightarrow> pyval \<Rightarrow> aws_context res" where
  "new_aws_context aws_partition account_id scope region =
     (if aws_partition \<noteq> PStr ''aws''
      then Inl (ContractError ''CloudFront SaaS Manager requires the commercial AWS partition'')
      else if \<not> matches_str AWS_ACCOUNT_ID account_id
      then Inl (ContractError ''AWS provider context requires one exact account ID'')
      else if \<not> py_eq scope (PStr ''global'')
      then Inl (ContractError ''CloudFront provider context requires the global scope'')
      else if \<not> py_eq region (PStr ''us-east-1'')
      then Inl (ContractError ''CloudFront managed Viewer certificates require ACM us-east-1'')
      else Inr \<lparr>ac_partition = str_of aws_partition, ac_account_id = str_of account_id,
             ac_cloudfront_scope = str_of scope, ac_certificate_region = str_of region\<rparr>)"

record cloudfront_target =
  ct_requested_key :: string
  ct_distribution_id :: "string option"
  ct_connection_group_id :: "string option"
  ct_tenant_id :: "string option"

definition new_cloudfront_target :: "pyval \<Rightarrow> pyval \<Rightarrow> pyval \<Rightarrow> pyval \<Rightarrow> cloudfront_target res" where
  "new_cloudfront_target requested_key distribution connection_group tenant =
     seq_res (ve_identity ''deployment-scoped technical key'' requested_key) (
     seq_res (unless_none (ve_identity ''CloudFront distribution ID'') distribution) (
     seq_res (unless_none (ve_identity ''CloudFront connection group ID'') connection_group) (
     seq_res (unless_none (ve_identity ''CloudFront distribution tenant ID'') tenant) (
     Inr \<lparr>ct_requested_key = str_of requested_key, ct_distribution_id = opt_str_of distribution,
          ct_connection_group_id = opt_str_of connection_group, ct_tenant_id = opt_str_of tenant\<rparr>))))"

record ve_authority =
  va_authorization_id :: string
  va_adapter_id :: string
  va_source_revision :: string
  va_provider_context :: aws_context
  va_target :: cloudfront_target
  va_operations :: "ve_operation set"
  va_parameters_sha256 :: string
  va_credential_mechanism :: string

definition new_ve_authority ::
  "pyval \<Rightarrow> pyval \<Rightarrow> pyval \<Rightarrow> aws_context obj \<Rightarrow> cloudfront_target obj \<Rightarrow> ve_operation obj pyset \<Rightarrow>
   pyval \<Rightarrow> pyval \<Rightarrow> ve_authority res" where
  "new_ve_authority authorization_id adapter_id source_revision ctx target operations
      parameters_sha256 credential_mechanism =
     seq_res (ve_identity ''authorization identity'' authorization_id) (
     seq_res (ve_identity ''adapter identity'' adapter_id) (
     seq_res (ve_identity ''credential mechanism'' credential_mechanism) (
     if \<not> matches_str SHA1 source_revision
     then Inl (ContractError ''authority requires one lowercase full source SHA'')
     else if \<not> matches_str SHA256 parameters_sha256
     then Inl (ContractError ''authority requires one SHA-256 parameter binding'')
     else (case ctx of
         Alien \<Rightarrow> Inl (ContractError ''authority requires one exact AWS provider context'')
       | Exact c \<Rightarrow> (case target of
         Alien \<Rightarrow> Inl (ContractError ''authority requires one exact CloudFront target'')
       | Exact t \<Rightarrow> (case operations of
           FrozenSet ops \<Rightarrow>
             (if ops = {} \<or> Alien \<in> ops
              then Inl (ContractError ''authority requires a closed allowed operation set'')
              else Inr \<lparr>va_authorization_id = str_of authorization_id,
                     va_adapter_id = str_of adapter_id, va_source_revision = str_of source_revision,
                     va_provider_context = c, va_target = t, va_operations = exact_members ops,
                     va_parameters_sha256 = str_of parameters_sha256,
                     va_credential_mechanism = str_of credential_mechanism\<rparr>)
         | _ \<Rightarrow> Inl (ContractError ''authority requires a closed allowed operation set'')))))))"

record lifecycle_request =
  lr_request_id :: string
  lr_adapter_id :: string
  lr_source_revision :: string
  lr_provider_context :: aws_context
  lr_target :: cloudfront_target
  lr_operation :: ve_operation
  lr_parameters_sha256 :: string

definition new_lifecycle_request ::
  "pyval \<Rightarrow> pyval \<Rightarrow> pyval \<Rightarrow> aws_context obj \<Rightarrow> cloudfront_target obj \<Rightarrow> ve_operation obj \<Rightarrow> pyval \<Rightarrow>
   lifecycle_request res" where
  "new_lifecycle_request request_id adapter_id source_revision ctx target operation parameters_sha256 =
     seq_res (ve_identity ''request identity'' request_id) (
     seq_res (ve_identity ''adapter identity'' adapter_id) (
     if \<not> matches_str SHA1 source_revision
     then Inl (ContractError ''request requires one lowercase full source SHA'')
     else if \<not> matches_str SHA256 parameters_sha256
     then Inl (ContractError ''request requires one SHA-256 parameter binding'')
     else (case (ctx, target, operation) of
         (Exact c, Exact t, Exact op) \<Rightarrow>
           Inr \<lparr>lr_request_id = str_of request_id, lr_adapter_id = str_of adapter_id,
             lr_source_revision = str_of source_revision, lr_provider_context = c, lr_target = t,
             lr_operation = op, lr_parameters_sha256 = str_of parameters_sha256\<rparr>
       | _ \<Rightarrow> Inl (ContractError ''request is outside the CloudFront lifecycle contract''))))"

record lifecycle_result =
  ls_request_id :: string
  ls_adapter_id :: string
  ls_source_revision :: string
  ls_provider_context :: aws_context
  ls_target :: cloudfront_target
  ls_operation :: ve_operation
  ls_parameters_sha256 :: string
  ls_outcome :: ve_outcome
  ls_resource_id :: "string option"
  ls_resource_etag :: "string option"
  ls_diagnostic_code :: "string option"

definition new_lifecycle_result ::
  "pyval \<Rightarrow> pyval \<Rightarrow> pyval \<Rightarrow> aws_context obj \<Rightarrow> cloudfront_target obj \<Rightarrow> ve_operation obj \<Rightarrow> pyval \<Rightarrow>
   ve_outcome obj \<Rightarrow> pyval \<Rightarrow> pyval \<Rightarrow> pyval \<Rightarrow> lifecycle_result res" where
  "new_lifecycle_result request_id adapter_id source_revision ctx target operation parameters_sha256
      outcome resource_id resource_etag diagnostic_code =
     seq_res (ve_identity ''result request identity'' request_id) (
     seq_res (ve_identity ''result adapter identity'' adapter_id) (
     if \<not> matches_str SHA1 source_revision
     then Inl (ContractError ''result requires one lowercase full source SHA'')
     else if \<not> matches_str SHA256 parameters_sha256
     then Inl (ContractError ''result requires one SHA-256 parameter binding'')
     else (case (ctx, target, operation, outcome) of
         (Exact c, Exact t, Exact op, Exact out) \<Rightarrow>
           seq_res (unless_none (ve_identity ''observed CloudFront resource ID'') resource_id) (
           seq_res (unless_none ve_etag resource_etag) (
           if diagnostic_code \<noteq> PNone \<and>
              (128 < length (str_of diagnostic_code) \<or> \<not> matches_str DIAGNOSTIC diagnostic_code)
           then Inl (ContractError ''diagnostic code is outside the bounded format'')
           else if (out = Ve_FAILED) \<noteq> (diagnostic_code \<noteq> PNone)
           then Inl (ContractError ''diagnostic presence contradicts result outcome'')
           else Inr \<lparr>ls_request_id = str_of request_id, ls_adapter_id = str_of adapter_id,
             ls_source_revision = str_of source_revision, ls_provider_context = c, ls_target = t,
             ls_operation = op, ls_parameters_sha256 = str_of parameters_sha256, ls_outcome = out,
             ls_resource_id = opt_str_of resource_id, ls_resource_etag = opt_str_of resource_etag,
             ls_diagnostic_code = opt_str_of diagnostic_code\<rparr>))
       | _ \<Rightarrow> Inl (ContractError ''result is outside the CloudFront lifecycle contract''))))"

definition result_from_request ::
  "lifecycle_request \<Rightarrow> ve_outcome obj \<Rightarrow> pyval \<Rightarrow> pyval \<Rightarrow> pyval \<Rightarrow> lifecycle_result res" where
  "result_from_request rq outcome resource_id resource_etag diagnostic_code =
     new_lifecycle_result (PStr (lr_request_id rq)) (PStr (lr_adapter_id rq))
       (PStr (lr_source_revision rq)) (Exact (lr_provider_context rq)) (Exact (lr_target rq))
       (Exact (lr_operation rq)) (PStr (lr_parameters_sha256 rq)) outcome resource_id resource_etag
       diagnostic_code"

record tenant_inputs =
  ti_deployment_key :: string
  ti_distribution_id :: string
  ti_connection_group_id :: string
  ti_viewer_domain :: string
  ti_origin_domain :: string

text \<open>\<open>casefold\<close> is applied to admitted (ASCII) domains only, where it is \<open>lower\<close>.\<close>

definition new_tenant_inputs :: "pyval \<Rightarrow> pyval \<Rightarrow> pyval \<Rightarrow> pyval \<Rightarrow> pyval \<Rightarrow> tenant_inputs res" where
  "new_tenant_inputs deployment_key distribution connection_group viewer_domain origin_domain =
     seq_res (ve_identity ''deployment-scoped technical key'' deployment_key) (
     seq_res (ve_identity ''multi-tenant distribution ID'' distribution) (
     seq_res (ve_identity ''CloudFront connection group ID'' connection_group) (
     seq_res (ve_domain ''Viewer domain'' viewer_domain) (
     seq_res (ve_domain ''OriginDomain'' origin_domain) (
     if py_lower (str_of viewer_domain) = py_lower (str_of origin_domain)
     then Inl (ContractError ''Viewer Host and OriginDomain must remain distinct'')
     else Inr \<lparr>ti_deployment_key = str_of deployment_key, ti_distribution_id = str_of distribution,
        ti_connection_group_id = str_of connection_group, ti_viewer_domain = str_of viewer_domain,
        ti_origin_domain = str_of origin_domain\<rparr>)))))"

record validation_token =
  vt_domain :: string
  vt_redirect_from :: string
  vt_redirect_to :: string

definition bounded_redirect :: "string \<Rightarrow> pyval \<Rightarrow> unit res" where
  "bounded_redirect label v = seq_res (ve_identity label v)
     (if 2048 < utf8_len (str_of v)
      then Inl (ContractError (label @ '' exceeds the bounded provider format'')) else Inr ())"

definition new_validation_token :: "pyval \<Rightarrow> pyval \<Rightarrow> pyval \<Rightarrow> validation_token res" where
  "new_validation_token domain redirect_from redirect_to =
     seq_res (ve_domain ''certificate validation domain'' domain) (
     seq_res (bounded_redirect ''certificate validation redirect source'' redirect_from) (
     seq_res (bounded_redirect ''certificate validation redirect target'' redirect_to) (
     Inr \<lparr>vt_domain = str_of domain, vt_redirect_from = str_of redirect_from,
          vt_redirect_to = str_of redirect_to\<rparr>)))"

record managed_certificate =
  mc_tenant_id :: string
  mc_status :: string
  mc_certificate_arn :: "string option"
  mc_validation_token_host :: "string option"
  mc_validation_tokens :: "validation_token list"

definition certificate_statuses :: "string list" where
  "certificate_statuses = [''pending-validation'', ''issued'', ''inactive'', ''expired'',
     ''validation-timed-out'', ''revoked'', ''failed'']"

definition new_managed_certificate ::
  "pyval \<Rightarrow> pyval \<Rightarrow> pyval \<Rightarrow> pyval \<Rightarrow> validation_token obj list obj \<Rightarrow> managed_certificate res" where
  "new_managed_certificate tenant_id status certificate_arn host tokens =
     seq_res (ve_identity ''inspected distribution tenant ID'' tenant_id) (
     bind_res (in_strings status certificate_statuses) (\<lambda>known.
     if \<not> known then Inl (ContractError ''unknown managed certificate status'')
     else seq_res (unless_none (ve_identity ''managed certificate ARN'') certificate_arn) (
     bind_res (in_strings host [''cloudfront'', ''self-hosted'']) (\<lambda>hosted.
     if host \<noteq> PNone \<and> \<not> hosted
     then Inl (ContractError ''unknown managed certificate validation token host'')
     else (case tokens of
         Alien \<Rightarrow> Inl (ContractError ''validation tokens are outside the bounded typed set'')
       | Exact items \<Rightarrow>
           if 5 < length items then Inl (ContractError ''validation tokens are outside the bounded typed set'')
           else (case exacts items of
               None \<Rightarrow> Inl (ContractError ''validation tokens are outside the bounded typed set'')
             | Some ts \<Rightarrow>
                 if status = PStr ''issued'' \<and> certificate_arn = PNone
                 then Inl (ContractError ''issued managed certificate requires its ARN'')
                 else Inr \<lparr>mc_tenant_id = str_of tenant_id, mc_status = str_of status,
                   mc_certificate_arn = opt_str_of certificate_arn,
                   mc_validation_token_host = opt_str_of host, mc_validation_tokens = ts\<rparr>))))))"

definition deployment_statuses :: "string list" where
  "deployment_statuses = [''InProgress'', ''Deployed'']"

record tenant_observation =
  to_tenant_id :: string
  to_distribution_id :: string
  to_connection_group_id :: string
  to_etag :: string
  to_enabled :: bool
  to_deployment_status :: string
  to_viewer_domain :: string
  to_domain_status :: string
  to_origin_domain :: string
  to_certificate_arn :: "string option"

fun bool_of :: "pyval \<Rightarrow> bool" where
  "bool_of (PBool b) = b"
| "bool_of _ = False"

definition new_tenant_observation ::
  "pyval \<Rightarrow> pyval \<Rightarrow> pyval \<Rightarrow> pyval \<Rightarrow> pyval \<Rightarrow> pyval \<Rightarrow> pyval \<Rightarrow> pyval \<Rightarrow> pyval \<Rightarrow> pyval \<Rightarrow>
   tenant_observation res" where
  "new_tenant_observation tenant_id distribution connection_group etag enabled deployment_status
      viewer_domain domain_status origin_domain certificate_arn =
     seq_res (ve_identity ''distribution tenant ID'' tenant_id) (
     seq_res (ve_identity ''multi-tenant distribution ID'' distribution) (
     seq_res (ve_identity ''CloudFront connection group ID'' connection_group) (
     seq_res (ve_etag etag) (
     if \<not> is_bool enabled then Inl (ContractError ''tenant enabled state must be boolean'')
     else bind_res (in_strings deployment_status deployment_statuses) (\<lambda>known.
     if \<not> known then Inl (ContractError ''unknown distribution tenant deployment status'')
     else seq_res (ve_domain ''observed Viewer domain'' viewer_domain) (
     seq_res (ve_domain ''observed OriginDomain'' origin_domain) (
     bind_res (in_strings domain_status [''active'', ''inactive'']) (\<lambda>known_domain.
     if \<not> known_domain then Inl (ContractError ''unknown distribution tenant domain status'')
     else seq_res (unless_none (ve_identity ''attached certificate ARN'') certificate_arn) (
     Inr \<lparr>to_tenant_id = str_of tenant_id, to_distribution_id = str_of distribution,
          to_connection_group_id = str_of connection_group, to_etag = str_of etag,
          to_enabled = bool_of enabled, to_deployment_status = str_of deployment_status,
          to_viewer_domain = str_of viewer_domain, to_domain_status = str_of domain_status,
          to_origin_domain = str_of origin_domain,
          to_certificate_arn = opt_str_of certificate_arn\<rparr>)))))))))"

record distribution_observation =
  do_distribution_id :: string
  do_etag :: string
  do_enabled :: bool
  do_deployment_status :: string

definition new_distribution_observation ::
  "pyval \<Rightarrow> pyval \<Rightarrow> pyval \<Rightarrow> pyval \<Rightarrow> distribution_observation res" where
  "new_distribution_observation distribution etag enabled deployment_status =
     seq_res (ve_identity ''multi-tenant distribution ID'' distribution) (
     seq_res (ve_etag etag) (
     if \<not> is_bool enabled then Inl (ContractError ''distribution enabled state must be boolean'')
     else bind_res (in_strings deployment_status deployment_statuses) (\<lambda>known.
     if \<not> known then Inl (ContractError ''unknown distribution deployment status'')
     else Inr \<lparr>do_distribution_id = str_of distribution, do_etag = str_of etag,
            do_enabled = bool_of enabled, do_deployment_status = str_of deployment_status\<rparr>)))"

record connection_group_observation =
  co_connection_group_id :: string
  co_etag :: string
  co_routing_endpoint :: string
  co_enabled :: bool
  co_deployment_status :: string
  co_is_default :: bool
  co_tenant_association_present :: bool

definition new_connection_group_observation ::
  "pyval \<Rightarrow> pyval \<Rightarrow> pyval \<Rightarrow> pyval \<Rightarrow> pyval \<Rightarrow> pyval \<Rightarrow> pyval \<Rightarrow> connection_group_observation res" where
  "new_connection_group_observation connection_group etag endpoint enabled deployment_status
      is_default association =
     seq_res (ve_identity ''CloudFront connection group ID'' connection_group) (
     seq_res (ve_etag etag) (
     seq_res (ve_domain ''CloudFront RoutingEndpoint'' endpoint) (
     if \<not> ends_with ''.cloudfront.net'' (py_lower (str_of endpoint))
     then Inl (ContractError ''connection group RoutingEndpoint is not CloudFront-owned'')
     else if \<not> is_bool enabled \<or> \<not> is_bool is_default
     then Inl (ContractError ''connection group flags must be boolean'')
     else if \<not> is_bool association
     then Inl (ContractError ''connection group association state must be explicit'')
     else bind_res (in_strings deployment_status deployment_statuses) (\<lambda>known.
     if \<not> known then Inl (ContractError ''unknown connection group deployment status'')
     else Inr \<lparr>co_connection_group_id = str_of connection_group, co_etag = str_of etag,
            co_routing_endpoint = str_of endpoint, co_enabled = bool_of enabled,
            co_deployment_status = str_of deployment_status, co_is_default = bool_of is_default,
            co_tenant_association_present = bool_of association\<rparr>))))"

record aws_plan =
  ap_operation :: ve_operation
  ap_api_operation :: string
  ap_resource_id :: "string option"
  ap_if_match :: "string option"
  ap_parameters :: pydict


section \<open>The parent distribution\<close>

definition VIEWER_METHODS :: "string list" where
  "VIEWER_METHODS = [''GET'', ''HEAD'', ''OPTIONS'', ''PUT'', ''POST'', ''PATCH'', ''DELETE'']"

definition strings :: "string list \<Rightarrow> pyval" where
  "strings xs = PList (map PStr xs)"

definition required_parameter :: pyval where
  "required_parameter = PList [PDict [(''Name'', PStr ORIGIN_PARAMETER),
     (''Definition'', PDict [(''StringSchema'', PDict [(''Required'', PBool True)])])]]"

definition only_tls12 :: pyval where
  "only_tls12 = PDict [(''Quantity'', PInt 1), (''Items'', strings [''TLSv1.2''])]"

definition distribution_baseline :: "string \<Rightarrow> pydict" where
  "distribution_baseline caller_reference =
     [(''CallerReference'', PStr caller_reference),
      (''Comment'', PStr ''SecPal portable PROTECTED Viewer Edge baseline''),
      (''ConnectionMode'', PStr ''tenant-only''),
      (''Enabled'', PBool True),
      (''TenantConfig'', PDict [(''ParameterDefinitions'', required_parameter)]),
      (''Origins'', PDict [(''Quantity'', PInt 1), (''Items'', PList [PDict [
         (''Id'', PStr ORIGIN_ID), (''DomainName'', PStr ORIGIN_TEMPLATE),
         (''CustomOriginConfig'', PDict [(''HTTPPort'', PInt 80), (''HTTPSPort'', PInt 443),
            (''OriginProtocolPolicy'', PStr ''https-only''),
            (''OriginSslProtocols'', only_tls12)])]])]),
      (''DefaultCacheBehavior'', PDict [(''TargetOriginId'', PStr ORIGIN_ID),
         (''ViewerProtocolPolicy'', PStr ''https-only''),
         (''AllowedMethods'', PDict [(''Quantity'', PInt (int (length VIEWER_METHODS))),
            (''Items'', strings VIEWER_METHODS),
            (''CachedMethods'', PDict [(''Quantity'', PInt 3),
               (''Items'', strings [''GET'', ''HEAD'', ''OPTIONS''])])]),
         (''CachePolicyId'', PStr CACHING_DISABLED_ID),
         (''OriginRequestPolicyId'', PStr ALL_VIEWER_EXCEPT_HOST_ID),
         (''Compress'', PBool False)]),
      (''CacheBehaviors'', PDict [(''Quantity'', PInt 0)])]"

definition build_distribution_config :: "pyval \<Rightarrow> pydict res" where
  "build_distribution_config caller_reference =
     seq_res (ve_identity ''CloudFront caller reference'' caller_reference)
       (Inr (distribution_baseline (str_of caller_reference)))"

definition require_exact_method_set :: "pyval \<Rightarrow> int \<Rightarrow> string set \<Rightarrow> unit res" where
  "require_exact_method_set methods quantity members =
     (case methods of
        PDict m \<Rightarrow> (case (dget m ''Quantity'', dget m ''Items'') of
            (PInt q, PList items) \<Rightarrow>
              if q \<noteq> quantity \<or> int (length items) \<noteq> quantity \<or> \<not> list_all is_str items
                \<or> \<not> distinct items \<or> set (map str_of items) \<noteq> members
              then Inl (ContractError ''the complete Viewer method baseline is mandatory'')
              else Inr ()
          | _ \<Rightarrow> Inl (ContractError ''the complete Viewer method baseline is mandatory''))
      | _ \<Rightarrow> Inl (ContractError ''the complete Viewer method baseline is mandatory''))"

text \<open>The checks of \<open>validate_distribution_config\<close> once the nested mappings are taken apart.\<close>

definition validate_members :: "pydict \<Rightarrow> pydict \<Rightarrow> pydict \<Rightarrow> pydict \<Rightarrow> pyval \<Rightarrow> pydict \<Rightarrow> pydict \<Rightarrow> unit res" where
  "validate_members config behavior origins origin definitions custom_origin allowed_methods =
     (if \<not> py_eq (dget config ''ConnectionMode'') (PStr ''tenant-only'')
      then Inl (ContractError ''parent must be a CloudFront multi-tenant distribution'')
      else if \<not> py_eq (dget behavior ''ViewerProtocolPolicy'') (PStr ''https-only'')
      then Inl (ContractError ''authenticated Viewer traffic requires https-only'')
      else if \<not> py_eq (dget behavior ''CachePolicyId'') (PStr CACHING_DISABLED_ID)
      then Inl (ContractError ''authenticated Viewer traffic requires CachingDisabled'')
      else if \<not> py_eq (dget behavior ''OriginRequestPolicyId'') (PStr ALL_VIEWER_EXCEPT_HOST_ID)
      then Inl (ContractError ''the reviewed Origin Request Policy is mandatory'')
      else if \<not> py_eq (dget behavior ''TargetOriginId'') (PStr ORIGIN_ID)
      then Inl (ContractError ''default behavior targets an unknown origin'')
      else seq_res (require_exact_method_set (PDict allowed_methods) 7 (set VIEWER_METHODS)) (
      seq_res (require_exact_method_set (dget allowed_methods ''CachedMethods'') 3
        {''GET'', ''HEAD'', ''OPTIONS''}) (
      if \<not> py_eq (dget config ''CacheBehaviors'') (PDict [(''Quantity'', PInt 0)])
      then Inl (ContractError ''unqualified route-specific cache behaviors are forbidden'')
      else if \<not> py_eq (dget origins ''Quantity'') (PInt 1)
      then Inl (ContractError ''the bounded baseline requires exactly one parameterized origin'')
      else if \<not> py_eq (dget origin ''Id'') (PStr ORIGIN_ID)
        \<or> \<not> py_eq (dget origin ''DomainName'') (PStr ORIGIN_TEMPLATE)
      then Inl (ContractError ''OriginDomain must be a required tenant parameter'')
      else if \<not> py_eq (dget custom_origin ''OriginProtocolPolicy'') (PStr ''https-only'')
      then Inl (ContractError ''the PROTECTED Origin seam requires https-only'')
      else if \<not> py_eq (dget custom_origin ''OriginSslProtocols'') only_tls12
      then Inl (ContractError ''the PROTECTED Origin seam requires only TLSv1.2'')
      else if \<not> py_eq definitions required_parameter
      then Inl (ContractError ''OriginDomain must be the sole required tenant parameter'')
      else Inr ())))"

definition validate_distribution_config :: "pyval \<Rightarrow> unit res" where
  "validate_distribution_config config =
     (case config of
        PDict c \<Rightarrow> (case (map_of c ''DefaultCacheBehavior'', map_of c ''Origins'', map_of c ''TenantConfig'') of
            (Some (PDict behavior), Some (PDict origins), Some (PDict tenant_config)) \<Rightarrow>
              (case dget origins ''Items'' of
                 PList [origin] \<Rightarrow>
                   (case (origin, dget tenant_config ''ParameterDefinitions'') of
                      (PDict og, PList definitions) \<Rightarrow>
                        (case (dget og ''CustomOriginConfig'', dget behavior ''AllowedMethods'') of
                           (PDict custom, PDict allowed) \<Rightarrow>
                             validate_members c behavior origins og (PList definitions) custom allowed
                         | _ \<Rightarrow> Inl (ContractError ''distribution behavior contains malformed nested mappings''))
                    | _ \<Rightarrow> Inl (ContractError ''distribution configuration contains malformed nested values''))
               | _ \<Rightarrow> Inl (ContractError ''the bounded baseline requires exactly one parameterized origin''))
          | (Some _, Some _, Some _) \<Rightarrow>
              Inl (ContractError ''distribution configuration contains malformed mappings'')
          | _ \<Rightarrow> Inl (ContractError ''distribution configuration is incomplete''))
      | _ \<Rightarrow> Inl (ContractError ''distribution configuration must be one mapping''))"

definition plan_create_distribution :: "pyval \<Rightarrow> aws_plan res" where
  "plan_create_distribution caller_reference =
     bind_res (build_distribution_config caller_reference) (\<lambda>config.
     seq_res (validate_distribution_config (PDict config))
       (Inr \<lparr>ap_operation = CREATE_DISTRIBUTION, ap_api_operation = ''CreateDistribution'',
          ap_resource_id = None, ap_if_match = None,
          ap_parameters = [(''DistributionConfig'', PDict config)]\<rparr>))"

definition plan_create_connection_group :: "pyval \<Rightarrow> aws_plan res" where
  "plan_create_connection_group name =
     seq_res (ve_identity ''CloudFront connection group name'' name)
       (Inr \<lparr>ap_operation = CREATE_CONNECTION_GROUP, ap_api_operation = ''CreateConnectionGroup'',
          ap_resource_id = None, ap_if_match = None,
          ap_parameters = [(''Name'', name), (''Enabled'', PBool True)]\<rparr>)"

section \<open>Tenant bootstrap and inspection\<close>

definition build_create_tenant_request :: "tenant_inputs obj \<Rightarrow> pydict res" where
  "build_create_tenant_request inputs = (case inputs of
       Alien \<Rightarrow> Inl (ContractError ''typed tenant inputs are required'')
     | Exact i \<Rightarrow> Inr
         [(''DistributionId'', PStr (ti_distribution_id i)), (''Name'', PStr (ti_deployment_key i)),
          (''Domains'', PList [PDict [(''Domain'', PStr (ti_viewer_domain i))]]),
          (''Parameters'', PList [PDict [(''Name'', PStr ORIGIN_PARAMETER), (''Value'', PStr (ti_origin_domain i))]]),
          (''ConnectionGroupId'', PStr (ti_connection_group_id i)),
          (''ManagedCertificateRequest'', PDict [(''ValidationTokenHost'', PStr ''cloudfront''),
             (''PrimaryDomainName'', PStr (ti_viewer_domain i)),
             (''CertificateTransparencyLoggingPreference'', PStr ''enabled'')]),
          (''Enabled'', PBool True)])"

definition validate_connection_group_observation ::
  "connection_group_observation obj \<Rightarrow> cloudfront_target obj \<Rightarrow> bool \<Rightarrow> unit res" where
  "validate_connection_group_observation observation target qualification_owned =
     (case (observation, target) of
        (Exact ob, Exact t) \<Rightarrow>
          if ct_connection_group_id t \<noteq> Some (co_connection_group_id ob)
          then Inl (ContractError ''connection group observation mismatches the exact target'')
          else if qualification_owned \<and> co_is_default ob
          then Inl (ContractError ''qualification-owned connection group must be custom'')
          else Inr ()
      | _ \<Rightarrow> Inl (ContractError ''typed connection group admission inputs are required''))"

definition plan_create_tenant ::
  "tenant_inputs obj \<Rightarrow> cloudfront_target obj \<Rightarrow> connection_group_observation obj \<Rightarrow> aws_plan res" where
  "plan_create_tenant inputs target connection_group =
     (case (inputs, target, connection_group) of
        (Exact i, Exact t, Exact g) \<Rightarrow>
          if ct_distribution_id t \<noteq> Some (ti_distribution_id i)
            \<or> ct_connection_group_id t \<noteq> Some (ti_connection_group_id i)
          then Inl (ContractError ''Tenant bootstrap mismatches the exact CloudFront target'')
          else seq_res (validate_connection_group_observation connection_group target False) (
            if \<not> co_enabled g \<or> co_deployment_status g \<noteq> ''Deployed''
            then Inl (ContractError ''Tenant bootstrap requires a deployed enabled routing prerequisite'')
            else bind_res (build_create_tenant_request inputs) (\<lambda>request.
              Inr \<lparr>ap_operation = CREATE_TENANT, ap_api_operation = ''CreateDistributionTenant'',
                ap_resource_id = None, ap_if_match = None, ap_parameters = request\<rparr>))
      | _ \<Rightarrow> Inl (ContractError ''typed Tenant bootstrap inputs are required''))"

definition plan_inspection :: "ve_operation obj \<Rightarrow> cloudfront_target obj \<Rightarrow> aws_plan res" where
  "plan_inspection operation target =
     (case (operation, target) of
        (Exact op, Exact t) \<Rightarrow>
          bind_res
            (case op of
               INSPECT_DISTRIBUTION \<Rightarrow> Inr (ct_distribution_id t, ''GetDistributionConfig'')
             | INSPECT_CONNECTION_GROUP \<Rightarrow> Inr (ct_connection_group_id t, ''GetConnectionGroup'')
             | INSPECT_TENANT \<Rightarrow> Inr (ct_tenant_id t, ''GetDistributionTenant'')
             | INSPECT_CERTIFICATE \<Rightarrow> Inr (ct_tenant_id t, ''GetManagedCertificateDetails'')
             | _ \<Rightarrow> Inl (ContractError ''operation is not a CloudFront inspection''))
            (\<lambda>(resource_id, api_operation).
               if resource_id = None
               then Inl (ContractError ''inspection requires the strongest provider-native ID'')
               else Inr \<lparr>ap_operation = op, ap_api_operation = api_operation,
                      ap_resource_id = resource_id, ap_if_match = None, ap_parameters = []\<rparr>)
      | _ \<Rightarrow> Inl (ContractError ''typed CloudFront inspection inputs are required''))"

section \<open>Normalisation of responses\<close>

definition normalize_connection_group_response :: "pyval \<Rightarrow> pyval \<Rightarrow> connection_group_observation res" where
  "normalize_connection_group_response response association =
     (case response of
        PDict r \<Rightarrow> (case dget r ''ConnectionGroup'' of
            PDict g \<Rightarrow> lookup_guard ''CloudFront connection group response is incomplete'' (
              bind_res (ditem g ''Id'') (\<lambda>group_id.
              bind_res (ditem r ''ETag'') (\<lambda>etag.
              bind_res (ditem g ''RoutingEndpoint'') (\<lambda>endpoint.
              bind_res (ditem g ''Enabled'') (\<lambda>enabled.
              bind_res (ditem g ''Status'') (\<lambda>status.
              bind_res (ditem g ''IsDefault'') (\<lambda>is_default.
              new_connection_group_observation group_id etag endpoint enabled status is_default association)))))))
          | _ \<Rightarrow> Inl (ContractError ''CloudFront connection group response is outside the reviewed shape''))
      | _ \<Rightarrow> Inl (ContractError ''CloudFront connection group response is outside the reviewed shape''))"

definition origin_values :: "pyval list \<Rightarrow> pyval list" where
  "origin_values parameters = map (\<lambda>v. dget (dict_of v) ''Value'')
     (filter (\<lambda>v. is_dict v \<and> py_eq (dget (dict_of v) ''Name'') (PStr ORIGIN_PARAMETER)) parameters)"

definition customized_certificate :: "pyval \<Rightarrow> pyval res" where
  "customized_certificate customizations =
     (case customizations of
        PNone \<Rightarrow> Inr PNone
      | PDict c \<Rightarrow> (case dget c ''Certificate'' of
            PNone \<Rightarrow> Inr PNone
          | PDict k \<Rightarrow> Inr (dget k ''Arn'')
          | _ \<Rightarrow> Inl (ContractError ''tenant certificate customization is malformed''))
      | _ \<Rightarrow> Inl (ContractError ''tenant customizations are outside the reviewed shape''))"

definition normalize_tenant_response :: "pyval \<Rightarrow> tenant_observation res" where
  "normalize_tenant_response response =
     (case response of
        PDict r \<Rightarrow> (case dget r ''DistributionTenant'' of
            PDict t \<Rightarrow> (case dget t ''Domains'' of
                PList [PDict domain] \<Rightarrow> (case dget t ''Parameters'' of
                    PList parameters \<Rightarrow> (case origin_values parameters of
                        [origin] \<Rightarrow>
                          bind_res (customized_certificate (dget t ''Customizations'')) (\<lambda>certificate.
                          lookup_guard ''CloudFront tenant response is incomplete'' (
                            bind_res (ditem t ''Id'') (\<lambda>tenant_id.
                            bind_res (ditem t ''DistributionId'') (\<lambda>distribution.
                            bind_res (ditem t ''ConnectionGroupId'') (\<lambda>connection_group.
                            bind_res (ditem r ''ETag'') (\<lambda>etag.
                            bind_res (ditem t ''Enabled'') (\<lambda>enabled.
                            bind_res (ditem t ''Status'') (\<lambda>status.
                            bind_res (ditem domain ''Domain'') (\<lambda>viewer_domain.
                            bind_res (ditem domain ''Status'') (\<lambda>domain_status.
                            new_tenant_observation tenant_id distribution connection_group etag enabled
                              status viewer_domain domain_status origin certificate))))))))))
                      | _ \<Rightarrow> Inl (ContractError ''tenant response has missing or ambiguous OriginDomain''))
                  | _ \<Rightarrow> Inl (ContractError ''tenant response has no parameter read-back''))
              | _ \<Rightarrow> Inl (ContractError ''tenant response requires exactly one Viewer domain''))
          | _ \<Rightarrow> Inl (ContractError ''CloudFront tenant response is outside the reviewed shape''))
      | _ \<Rightarrow> Inl (ContractError ''CloudFront tenant response is outside the reviewed shape''))"

definition token_of :: "pyval \<Rightarrow> validation_token res" where
  "token_of token =
     bind_res (pitem token ''Domain'') (\<lambda>domain.
     bind_res (pitem token ''RedirectFrom'') (\<lambda>redirect_from.
     bind_res (pitem token ''RedirectTo'') (\<lambda>redirect_to.
     new_validation_token domain redirect_from redirect_to)))"

definition normalize_certificate_response :: "pyval \<Rightarrow> pyval \<Rightarrow> managed_certificate res" where
  "normalize_certificate_response response tenant_id =
     seq_res (ve_identity ''inspected distribution tenant ID'' tenant_id)
       (case response of
          PDict r \<Rightarrow> (case dget r ''ManagedCertificateDetails'' of
              PDict details \<Rightarrow> (case dget_default details ''ValidationTokenDetails'' (PList []) of
                  PList raw_tokens \<Rightarrow> lookup_guard ''managed certificate response is incomplete'' (
                    bind_res (map_res token_of raw_tokens) (\<lambda>tokens.
                    bind_res (ditem details ''CertificateStatus'') (\<lambda>status.
                    new_managed_certificate tenant_id status (dget details ''CertificateArn'')
                      (dget details ''ValidationTokenHost'') (Exact (map Exact tokens)))))
                | _ \<Rightarrow> Inl (ContractError ''managed certificate validation details are malformed''))
            | _ \<Rightarrow> Inl (ContractError ''managed certificate response is outside the reviewed shape''))
        | _ \<Rightarrow> Inl (ContractError ''managed certificate response is outside the reviewed shape''))"


section \<open>Tenants and certificates\<close>

definition validate_tenant_observation ::
  "tenant_observation obj \<Rightarrow> tenant_inputs obj \<Rightarrow> cloudfront_target obj \<Rightarrow> unit res" where
  "validate_tenant_observation observation inputs target =
     (case (observation, inputs, target) of
        (Exact ob, Exact i, Exact t) \<Rightarrow>
          if ct_tenant_id t = None
            \<or> Some (to_tenant_id ob) \<noteq> ct_tenant_id t
            \<or> to_distribution_id ob \<noteq> ti_distribution_id i
            \<or> Some (to_distribution_id ob) \<noteq> ct_distribution_id t
            \<or> to_connection_group_id ob \<noteq> ti_connection_group_id i
            \<or> Some (to_connection_group_id ob) \<noteq> ct_connection_group_id t
            \<or> to_viewer_domain ob \<noteq> ti_viewer_domain i
            \<or> to_origin_domain ob \<noteq> ti_origin_domain i
          then Inl (ContractError ''tenant observation mismatches the exact target or parameters'')
          else Inr ()
      | _ \<Rightarrow> Inl (ContractError ''typed tenant admission inputs are required''))"

definition admit_cloudfront_certificate :: "managed_certificate obj \<Rightarrow> managed_certificate res" where
  "admit_cloudfront_certificate certificate =
     (case certificate of
        Alien \<Rightarrow> Inl (ContractError ''managed certificate observation is invalid'')
      | Exact c \<Rightarrow>
          if mc_validation_token_host c = Some ''self-hosted''
          then Inl (ContractError ''self-hosted validation contradicts the CloudFront-hosted lifecycle'')
          else Inr c)"

definition classify_certificate_state ::
  "tenant_observation obj \<Rightarrow> managed_certificate obj option \<Rightarrow> certificate_state res" where
  "classify_certificate_state tenant certificate =
     (case tenant of
        Alien \<Rightarrow> Inl (ContractError ''one typed tenant observation is required'')
      | Exact t \<Rightarrow> (case certificate of
          None \<Rightarrow> Inr Cs_REQUESTED
        | Some cert \<Rightarrow> bind_res (admit_cloudfront_certificate cert) (\<lambda>c.
            if mc_tenant_id c \<noteq> to_tenant_id t
            then Inl (ContractError ''managed certificate observation mismatches the exact tenant'')
            else if mc_status c = ''pending-validation'' then Inr Cs_VALIDATION_REQUIRED
            else if mc_status c = ''inactive'' then Inr Cs_INACTIVE
            else if mc_status c \<in> {''expired'', ''validation-timed-out'', ''revoked'', ''failed''}
            then Inr Cs_FAILED
            else if mc_status c \<noteq> ''issued'' then Inl AssertionError
            else if to_certificate_arn t \<noteq> mc_certificate_arn c then Inr Cs_ISSUED
            else if to_enabled t \<and> to_deployment_status t = ''Deployed'' \<and> to_domain_status t = ''active''
            then Inr Cs_ACTIVE
            else Inr Cs_ATTACHED)))"

definition replace_inputs_origin :: "tenant_inputs \<Rightarrow> string \<Rightarrow> tenant_inputs res" where
  "replace_inputs_origin i origin_domain =
     new_tenant_inputs (PStr (ti_deployment_key i)) (PStr (ti_distribution_id i))
       (PStr (ti_connection_group_id i)) (PStr (ti_viewer_domain i)) (PStr origin_domain)"

definition admit_mutation_target ::
  "cloudfront_target obj \<Rightarrow> tenant_observation \<Rightarrow> tenant_inputs \<Rightarrow> pyval \<Rightarrow> unit res" where
  "admit_mutation_target target tenant inputs admitted_etag =
     bind_res (replace_inputs_origin inputs (to_origin_domain tenant)) (\<lambda>current.
     seq_res (validate_tenant_observation (Exact tenant) (Exact current) target) (
     seq_res (ve_etag admitted_etag) (
     if admitted_etag \<noteq> PStr (to_etag tenant)
     then Inl (ContractError ''admitted ETag is missing, stale, or mismatched'')
     else Inr ())))"

definition attached_certificate :: "cloudfront_target \<Rightarrow> managed_certificate obj option \<Rightarrow> string res" where
  "attached_certificate t certificate =
     (case certificate of
        None \<Rightarrow> Inl (ContractError ''only an issued managed certificate may be attached'')
      | Some cert \<Rightarrow> bind_res (admit_cloudfront_certificate cert) (\<lambda>c.
          if Some (mc_tenant_id c) \<noteq> ct_tenant_id t
          then Inl (ContractError ''managed certificate observation mismatches the exact target'')
          else if mc_status c \<noteq> ''issued''
          then Inl (ContractError ''only an issued managed certificate may be attached'')
          else (case mc_certificate_arn c of None \<Rightarrow> Inl AssertionError | Some arn \<Rightarrow> Inr arn)))"

definition tenant_mutation_parameters ::
  "ve_operation \<Rightarrow> cloudfront_target \<Rightarrow> tenant_observation \<Rightarrow> tenant_inputs \<Rightarrow>
   managed_certificate obj option \<Rightarrow> (pydict \<times> string) res" where
  "tenant_mutation_parameters op t tenant inputs certificate =
     (case op of
        ATTACH_CERTIFICATE \<Rightarrow> bind_res (attached_certificate t certificate) (\<lambda>arn.
          Inr ([(''Customizations'', PDict [(''Certificate'', PDict [(''Arn'', PStr arn)])])],
               ''UpdateDistributionTenant''))
      | UPDATE_TENANT \<Rightarrow>
          Inr ([(''Parameters'', PList [PDict [(''Name'', PStr ORIGIN_PARAMETER),
                  (''Value'', PStr (ti_origin_domain inputs))]])], ''UpdateDistributionTenant'')
      | DISABLE_TENANT \<Rightarrow> Inr ([(''Enabled'', PBool False)], ''UpdateDistributionTenant'')
      | _ \<Rightarrow>
          if to_enabled tenant \<or> to_deployment_status tenant \<noteq> ''Deployed''
          then Inl (ContractError ''tenant must be disabled and deployed before deletion'')
          else Inr ([], ''DeleteDistributionTenant''))"

definition plan_tenant_mutation ::
  "ve_operation obj \<Rightarrow> cloudfront_target obj \<Rightarrow> tenant_observation \<Rightarrow> tenant_inputs \<Rightarrow> pyval \<Rightarrow>
   managed_certificate obj option \<Rightarrow> aws_plan res" where
  "plan_tenant_mutation operation target tenant inputs admitted_etag certificate =
     (case operation of
        Alien \<Rightarrow> Inl (ContractError ''operation is not a tenant mutation'')
      | Exact op \<Rightarrow>
          if op \<notin> {ATTACH_CERTIFICATE, UPDATE_TENANT, DISABLE_TENANT, DELETE_TENANT}
          then Inl (ContractError ''operation is not a tenant mutation'')
          else seq_res (admit_mutation_target target tenant inputs admitted_etag) (case target of
            Alien \<Rightarrow> Inl AttributeError
          | Exact t \<Rightarrow>
              if ct_tenant_id t = None then Inl AssertionError
              else bind_res (tenant_mutation_parameters op t tenant inputs certificate)
                (\<lambda>(parameters, api_operation).
                  Inr \<lparr>ap_operation = op, ap_api_operation = api_operation,
                    ap_resource_id = ct_tenant_id t, ap_if_match = Some (to_etag tenant),
                    ap_parameters = parameters\<rparr>)))"

section \<open>Connection groups and distributions\<close>

definition plan_connection_group_mutation ::
  "ve_operation obj \<Rightarrow> cloudfront_target obj \<Rightarrow> connection_group_observation obj \<Rightarrow> pyval \<Rightarrow> aws_plan res" where
  "plan_connection_group_mutation operation target observation admitted_etag =
     (case operation of
        Alien \<Rightarrow> Inl (ContractError ''operation is not a connection group mutation'')
      | Exact op \<Rightarrow>
          if op \<notin> {DISABLE_CONNECTION_GROUP, DELETE_CONNECTION_GROUP}
          then Inl (ContractError ''operation is not a connection group mutation'')
          else seq_res (validate_connection_group_observation observation target True) (
            seq_res (ve_etag admitted_etag) (case observation of
              Alien \<Rightarrow> Inl AttributeError
            | Exact ob \<Rightarrow>
                if admitted_etag \<noteq> PStr (co_etag ob)
                then Inl (ContractError ''admitted connection group ETag is stale or mismatched'')
                else if co_is_default ob
                then Inl (ContractError ''default connection groups are never mutated by this lifecycle'')
                else if co_tenant_association_present ob
                then Inl (ContractError ''connection group mutation requires cleared tenant associations'')
                else bind_res
                  (if op = DISABLE_CONNECTION_GROUP
                   then Inr ([(''Enabled'', PBool False)], ''UpdateConnectionGroup'')
                   else if co_enabled ob \<or> co_deployment_status ob \<noteq> ''Deployed''
                     \<or> co_tenant_association_present ob
                   then Inl (ContractError ''custom connection group must be unassociated, disabled, and deployed before deletion'')
                   else Inr ([], ''DeleteConnectionGroup''))
                  (\<lambda>(parameters, api_operation).
                    Inr \<lparr>ap_operation = op, ap_api_operation = api_operation,
                      ap_resource_id = Some (co_connection_group_id ob), ap_if_match = Some (co_etag ob),
                      ap_parameters = parameters\<rparr>))))"

definition distribution_mutation_parameters ::
  "ve_operation \<Rightarrow> distribution_observation \<Rightarrow> pyval \<Rightarrow> (pydict \<times> string) res" where
  "distribution_mutation_parameters op distribution current_config =
     (if op \<in> {UPDATE_DISTRIBUTION, DISABLE_DISTRIBUTION}
      then (case current_config of
          PDict _ \<Rightarrow>
            let config = deep_copy current_config in
            seq_res (validate_distribution_config config)
              (Inr ([(''DistributionConfig'',
                  if op = DISABLE_DISTRIBUTION then PDict (dput ''Enabled'' (PBool False) (dict_of config))
                  else config)], ''UpdateDistribution''))
        | _ \<Rightarrow> Inl (ContractError ''distribution update requires its complete current configuration''))
      else if op = DELETE_DISTRIBUTION
      then (if do_enabled distribution \<or> do_deployment_status distribution \<noteq> ''Deployed''
            then Inl (ContractError ''distribution must be disabled and deployed before deletion'')
            else Inr ([], ''DeleteDistribution''))
      else Inl (ContractError ''operation is not a parent teardown mutation''))"

definition plan_distribution_mutation ::
  "ve_operation obj \<Rightarrow> cloudfront_target \<Rightarrow> distribution_observation \<Rightarrow> pyval \<Rightarrow> pyval \<Rightarrow> aws_plan res" where
  "plan_distribution_mutation operation target distribution admitted_etag current_config =
     (case operation of
        Alien \<Rightarrow> Inl (ContractError ''operation is not a parent teardown mutation'')
      | Exact op \<Rightarrow>
          if ct_distribution_id target = None
            \<or> ct_distribution_id target \<noteq> Some (do_distribution_id distribution)
          then Inl (ContractError ''distribution observation mismatches the exact target'')
          else seq_res (ve_etag admitted_etag) (
            if admitted_etag \<noteq> PStr (do_etag distribution)
            then Inl (ContractError ''admitted distribution ETag is stale or mismatched'')
            else bind_res (distribution_mutation_parameters op distribution current_config)
              (\<lambda>(parameters, api_operation).
                Inr \<lparr>ap_operation = op, ap_api_operation = api_operation,
                  ap_resource_id = Some (do_distribution_id distribution),
                  ap_if_match = Some (do_etag distribution), ap_parameters = parameters\<rparr>)))"

definition next_teardown_operation ::
  "tenant_observation option \<Rightarrow> connection_group_observation option \<Rightarrow> distribution_observation \<Rightarrow>
   ve_operation res" where
  "next_teardown_operation tenant connection_group distribution =
     (case tenant of
        Some t \<Rightarrow>
          if to_enabled t then Inr DISABLE_TENANT
          else if to_deployment_status t \<noteq> ''Deployed'' then Inr INSPECT_TENANT
          else Inr DELETE_TENANT
      | None \<Rightarrow> (case connection_group of
          Some g \<Rightarrow>
            if co_is_default g
            then Inl (ContractError ''default connection groups remain caller-owned prerequisites'')
            else if co_tenant_association_present g
            then Inl (ContractError ''connection group teardown requires cleared tenant associations'')
            else if co_enabled g then Inr DISABLE_CONNECTION_GROUP
            else if co_deployment_status g \<noteq> ''Deployed'' then Inr INSPECT_CONNECTION_GROUP
            else Inr DELETE_CONNECTION_GROUP
        | None \<Rightarrow>
            if do_enabled distribution then Inr DISABLE_DISTRIBUTION
            else if do_deployment_status distribution \<noteq> ''Deployed'' then Inr INSPECT_DISTRIBUTION
            else Inr DELETE_DISTRIBUTION))"

section \<open>Admission\<close>

definition tenant_operations :: "ve_operation set" where
  "tenant_operations = {INSPECT_TENANT, INSPECT_CERTIFICATE, ATTACH_CERTIFICATE, UPDATE_TENANT,
     DISABLE_TENANT, DELETE_TENANT}"

definition connection_group_operations :: "ve_operation set" where
  "connection_group_operations = {INSPECT_CONNECTION_GROUP, DISABLE_CONNECTION_GROUP,
     DELETE_CONNECTION_GROUP, CREATE_TENANT, INSPECT_TENANT, INSPECT_CERTIFICATE, ATTACH_CERTIFICATE,
     UPDATE_TENANT, DISABLE_TENANT, DELETE_TENANT}"

definition ve_admit_request :: "lifecycle_request obj \<Rightarrow> ve_authority obj \<Rightarrow> unit res" where
  "ve_admit_request request authority =
     (case (request, authority) of
        (Exact rq, Exact au) \<Rightarrow>
          if lr_adapter_id rq \<noteq> va_adapter_id au
            \<or> lr_source_revision rq \<noteq> va_source_revision au
            \<or> lr_provider_context rq \<noteq> va_provider_context au
            \<or> lr_target rq \<noteq> va_target au
            \<or> lr_parameters_sha256 rq \<noteq> va_parameters_sha256 au
          then Inl (ContractError ''request does not match the exact authorized target'')
          else if lr_operation rq \<notin> va_operations au
          then Inl (ContractError ''operation is not authorized for this exact target'')
          else if lr_operation rq \<noteq> CREATE_DISTRIBUTION \<and> ct_distribution_id (lr_target rq) = None
          then Inl (ContractError ''operation requires a provider-native distribution ID'')
          else if lr_operation rq \<in> connection_group_operations
            \<and> ct_connection_group_id (lr_target rq) = None
          then Inl (ContractError ''operation requires a provider-native connection group ID'')
          else if lr_operation rq \<in> tenant_operations \<and> ct_tenant_id (lr_target rq) = None
          then Inl (ContractError ''tenant operation requires a provider-native tenant ID'')
          else Inr ()
      | _ \<Rightarrow> Inl (ContractError ''request and authority are required''))"

definition expected_outcome :: "ve_operation \<Rightarrow> ve_outcome" where
  "expected_outcome op =
     (if op \<in> {INSPECT_DISTRIBUTION, INSPECT_CONNECTION_GROUP, INSPECT_TENANT, INSPECT_CERTIFICATE}
      then Ve_OBSERVED
      else if op \<in> {DELETE_DISTRIBUTION, DELETE_CONNECTION_GROUP, DELETE_TENANT} then Ve_DELETED
      else Ve_APPLIED)"

definition expected_resource :: "lifecycle_request \<Rightarrow> string option" where
  "expected_resource rq =
     (if lr_operation rq \<in> {CREATE_CONNECTION_GROUP, CREATE_TENANT} then None
      else if lr_operation rq \<in> tenant_operations then ct_tenant_id (lr_target rq)
      else if lr_operation rq \<in> {INSPECT_CONNECTION_GROUP, DISABLE_CONNECTION_GROUP, DELETE_CONNECTION_GROUP}
      then ct_connection_group_id (lr_target rq)
      else ct_distribution_id (lr_target rq))"

definition ve_admit_result :: "lifecycle_request obj \<Rightarrow> lifecycle_result obj \<Rightarrow> unit res" where
  "ve_admit_result request result =
     (case (request, result) of
        (Exact rq, Exact rs) \<Rightarrow>
          if ls_request_id rs \<noteq> lr_request_id rq
            \<or> ls_adapter_id rs \<noteq> lr_adapter_id rq
            \<or> ls_source_revision rs \<noteq> lr_source_revision rq
            \<or> ls_provider_context rs \<noteq> lr_provider_context rq
            \<or> ls_target rs \<noteq> lr_target rq
            \<or> ls_operation rs \<noteq> lr_operation rq
            \<or> ls_parameters_sha256 rs \<noteq> lr_parameters_sha256 rq
          then Inl (ContractError ''result is not bound to the exact request'')
          else if ls_outcome rs \<notin> {expected_outcome (lr_operation rq), Ve_FAILED}
          then Inl (ContractError ''result outcome is incompatible with the requested operation'')
          else if ls_resource_id rs \<noteq> None \<and> expected_resource rq \<noteq> None
            \<and> ls_resource_id rs \<noteq> expected_resource rq
          then Inl (ContractError ''result resource identity mismatches the target'')
          else if ls_outcome rs = Ve_DELETED \<and> (ls_resource_id rs \<noteq> None \<or> ls_resource_etag rs \<noteq> None)
          then Inl (ContractError ''deleted result must not imply retained mutable state'')
          else Inr ()
      | _ \<Rightarrow> Inl (ContractError ''request and result are required''))"

definition qualification_operations :: "ve_operation list" where
  "qualification_operations =
     [CREATE_DISTRIBUTION, INSPECT_DISTRIBUTION, CREATE_CONNECTION_GROUP, INSPECT_CONNECTION_GROUP,
      CREATE_TENANT, INSPECT_TENANT, INSPECT_CERTIFICATE, ATTACH_CERTIFICATE, INSPECT_TENANT,
      INSPECT_CERTIFICATE, UPDATE_TENANT, INSPECT_TENANT, DISABLE_TENANT, INSPECT_TENANT, DELETE_TENANT,
      DISABLE_CONNECTION_GROUP, INSPECT_CONNECTION_GROUP, DELETE_CONNECTION_GROUP,
      DISABLE_DISTRIBUTION, INSPECT_DISTRIBUTION, DELETE_DISTRIBUTION]"

end
