(* ===== verification/Viewer_Edge_Facts.thy ===== *)
theory Viewer_Edge_Facts
  imports Viewer_Edge
begin

text \<open>
  What \<open>scripts/cloudfront-viewer-edge.py\<close> guarantees: normalised observations are well formed
  and bounded and every malformed response fails closed; the parent configuration it admits is
  exactly the reviewed baseline; mutations are bound to the observed revision and deletions to a
  disabled, deployed resource; and tear-down reaches the end.
\<close>

section \<open>Names, ETags, errors\<close>

definition dns_name :: "string \<Rightarrow> bool" where
  "dns_name s \<longleftrightarrow> is_ascii s \<and> s = py_lower s \<and> length s \<le> 253 \<and>
     1 < length (py_split CHR ''.'' s) \<and> (\<forall>p \<in> set (py_split CHR ''.'' s). \<not> bad_label p)"

lemma py_split_length: "CHR ''.'' \<in> set s \<longleftrightarrow> 1 < length (py_split CHR ''.'' s)"
proof (induction s)
  case (Cons x xs)
  obtain w ws where "py_split CHR ''.'' xs = w # ws" by (meson list.exhaust py_split_nonempty)
  with Cons show ?case by auto
qed simp

lemma py_split_snoc: "py_split c (r @ [c]) = py_split c r @ [[]]"
  by (induction r) (auto split: list.splits)

lemma last_label_empty: "ends_with ''.'' s \<Longrightarrow> [] \<in> set (py_split CHR ''.'' s)"
proof -
  assume "ends_with ''.'' s"
  then obtain r where "rev s = ''.'' @ r" by (auto simp: ends_with_def starts_with_iff)
  then have "s = rev r @ ''.''" by (simp add: rev_swap)
  then show ?thesis by (simp add: py_split_snoc)
qed

lemma bad_label_cases: "bad_label []" "63 < length p \<Longrightarrow> bad_label p"
  by (simp_all add: bad_label_def)

lemma idna_of_good_labels:
  assumes "\<forall>p \<in> set (py_split CHR ''.'' s). \<not> bad_label p"
  shows "idna_ascii s = Inr s"
proof -
  have "p \<noteq> [] \<and> length p \<le> 63" if "p \<in> set (py_split CHR ''.'' s)" for p
    using assms that bad_label_cases by (metis not_less)
  then show ?thesis
    by (auto simp: idna_ascii_def Let_def list_ex_iff dest: in_set_butlastD
        simp flip: not_le intro!: last_in_set)
qed

lemma ve_domain_iff: "ve_domain l v = Inr () \<longleftrightarrow> (\<exists>s. v = PStr s \<and> good_identity s \<and> dns_name s)"
proof (cases v)
  case (PStr s)
  have "ve_domain l v = Inr () \<longleftrightarrow> good_identity s \<and> is_ascii s \<and> idna_ascii s = Inr s \<and> s = py_lower s \<and>
      length s \<le> 253 \<and> \<not> ends_with ''.'' s \<and> CHR ''.'' \<in> set s \<and> (\<forall>p \<in> set (py_split CHR ''.'' s). \<not> bad_label p)"
    using PStr
    by (cases "idna_ascii s")
      (auto simp: ve_domain_def seq_res_Inr_iff list_ex_iff dest: idna_ascii_Inr split: if_splits)
  then show ?thesis
    using PStr last_label_empty bad_label_cases(1) idna_of_good_labels py_split_length
    unfolding dns_name_def by (metis pyval.inject(4))
qed (simp_all add: ve_domain_def seq_res_Inr_iff ve.check_ok)

lemma ve_domain_error: "ve_domain l v = Inl e \<Longrightarrow> \<exists>m. e = ContractError m"
proof (cases v)
  case (PStr s)
  then show "ve_domain l v = Inl e \<Longrightarrow> ?thesis"
    by (cases "idna_ascii s")
      (auto simp: ve_domain_def seq_res_Inl_iff dest: ve.check_error split: if_splits)
qed (auto simp: ve_domain_def seq_res_Inl_iff ve.check_ok dest: ve.check_error)

definition good_etag :: "string \<Rightarrow> bool" where
  "good_etag s \<longleftrightarrow> fullmatch ETAG s"

lemma ve_etag_iff: "ve_etag v = Inr () \<longleftrightarrow> (\<exists>s. v = PStr s \<and> good_etag s)"
  by (auto simp: ve_etag_def good_etag_def matches_str_iff)

lemma good_etag_length: "good_etag s \<Longrightarrow> 1 \<le> length s \<and> length s \<le> 128"
  by (simp add: good_etag_def ETAG_def)

lemma ve_etag_error: "ve_etag v = Inl e \<Longrightarrow> \<exists>m. e = ContractError m"
  by (auto simp: ve_etag_def split: if_splits)

text \<open>An error is a \<open>ContractError\<close>; and one that a look-up guard may still have to convert.\<close>

definition contract_only :: "'a res \<Rightarrow> bool" where
  "contract_only r \<longleftrightarrow> (\<forall>e. r = Inl e \<longrightarrow> (\<exists>m. e = ContractError m))"

definition guardable :: "'a res \<Rightarrow> bool" where
  "guardable r \<longleftrightarrow> (\<forall>e. r = Inl e \<longrightarrow> e = KeyError \<or> e = TypeError \<or> (\<exists>m. e = ContractError m))"

named_theorems failing \<open>which errors a computation can raise\<close>

lemma contract_only_simps [simp]: "contract_only (Inr x)" "contract_only (Inl (ContractError m))"
  "guardable (Inr x)" "guardable (Inl (ContractError m))" "guardable (Inl KeyError)" "guardable (Inl TypeError)"
  by (simp_all add: contract_only_def guardable_def)

lemma guard_contract [failing]: "guardable r \<Longrightarrow> contract_only (lookup_guard m r)"
  unfolding contract_only_def guardable_def by (auto dest!: lookup_guard_Inl)

lemma contract_guardable: "contract_only r \<Longrightarrow> guardable r"
  by (simp add: contract_only_def guardable_def)

lemma guardable_combinators [failing]:
  "guardable m \<Longrightarrow> guardable k \<Longrightarrow> guardable (seq_res m k)"
  "guardable n \<Longrightarrow> (\<And>x. guardable (f x)) \<Longrightarrow> guardable (bind_res n f)"
  "guardable a \<Longrightarrow> guardable b \<Longrightarrow> guardable (if P then a else b)"
  by (auto simp: guardable_def seq_res_Inl_iff bind_res_Inl_iff split: if_splits)

lemma contract_combinators [failing]:
  "contract_only m \<Longrightarrow> contract_only k \<Longrightarrow> contract_only (seq_res m k)"
  "contract_only n \<Longrightarrow> (\<And>x. contract_only (f x)) \<Longrightarrow> contract_only (bind_res n f)"
  by (auto simp: contract_only_def seq_res_Inl_iff bind_res_Inl_iff)

lemma guardable_checks [failing]:
  "guardable (ve_identity l v)" "guardable (unless_none (ve_identity l) v)" "guardable (ve_domain l v)"
  "guardable (ve_etag v)" "guardable (in_strings v ns)" "guardable (ditem d k)" "guardable (pitem v k)"
  by (auto simp: guardable_def unless_none_def in_strings_def ditem_def pitem_def
      dest: ve.check_error ve_domain_error ve_etag_error split: if_splits option.splits pyval.splits)

lemma guardable_map_res [failing]: "(\<And>x. guardable (f x)) \<Longrightarrow> guardable (map_res f xs)"
  by (induction xs) (auto intro!: failing)

lemma guardable_constructors [failing]:
  "guardable (new_tenant_observation a b c d e f g h i j)"
  "guardable (new_connection_group_observation a b c d e f g)"
  "guardable (token_of v)"
  by (simp_all add: new_tenant_observation_def new_connection_group_observation_def token_of_def
      new_validation_token_def bounded_redirect_def failing)

lemma guardable_certificate [failing]: "guardable (new_managed_certificate a b c d e)"
  unfolding new_managed_certificate_def
  by (intro failing) (auto intro!: failing split: obj.split option.split)

text \<open>Property C33: normalisation fails closed: whatever the provider's response is (any decoded
  value, with any key missing, any value of another type, nested or not), each of the three
  normalisers returns a typed observation or raises \<open>ContractError\<close>; no \<open>KeyError\<close>,
  \<open>TypeError\<close> or \<open>AttributeError\<close> escapes.\<close>

theorem normalisation_fails_closed:
  "contract_only (normalize_tenant_response r) \<and>
   contract_only (normalize_connection_group_response r association) \<and>
   contract_only (normalize_certificate_response r tenant_id)"
proof -
  have c: "contract_only (customized_certificate v)" for v
    by (simp add: customized_certificate_def split: pyval.split)
  have "contract_only (normalize_tenant_response r)"
    unfolding normalize_tenant_response_def
    by (simp split: pyval.split list.split) (intro allI impI failing c)
  moreover have "contract_only (normalize_connection_group_response r association)"
    unfolding normalize_connection_group_response_def
    by (simp split: pyval.split) (intro allI impI failing)
  moreover have "contract_only (ve_identity l v)" for l v
    by (auto simp: contract_only_def dest: ve.check_error)
  then have "contract_only (normalize_certificate_response r tenant_id)"
    unfolding normalize_certificate_response_def
    by (intro contract_combinators) (simp_all split: pyval.split, intro allI impI failing)
  ultimately show ?thesis by blast
qed


section \<open>Well-formed observations\<close>

definition wf_tenant :: "tenant_observation \<Rightarrow> bool" where
  "wf_tenant t \<longleftrightarrow> good_identity (to_tenant_id t) \<and> good_identity (to_distribution_id t) \<and>
     good_identity (to_connection_group_id t) \<and> good_etag (to_etag t) \<and>
     to_deployment_status t \<in> {''InProgress'', ''Deployed''} \<and>
     to_domain_status t \<in> {''active'', ''inactive''} \<and>
     good_identity (to_viewer_domain t) \<and> dns_name (to_viewer_domain t) \<and>
     good_identity (to_origin_domain t) \<and> dns_name (to_origin_domain t) \<and> good_opt (to_certificate_arn t)"

definition wf_certificate :: "managed_certificate \<Rightarrow> bool" where
  "wf_certificate c \<longleftrightarrow> good_identity (mc_tenant_id c) \<and> mc_status c \<in> set certificate_statuses \<and>
     good_opt (mc_certificate_arn c) \<and>
     mc_validation_token_host c \<in> {None, Some ''cloudfront'', Some ''self-hosted''} \<and>
     length (mc_validation_tokens c) \<le> 5 \<and>
     (\<forall>t \<in> set (mc_validation_tokens c). good_identity (vt_domain t) \<and> dns_name (vt_domain t) \<and>
        good_identity (vt_redirect_from t) \<and> utf8_len (vt_redirect_from t) \<le> 2048 \<and>
        good_identity (vt_redirect_to t) \<and> utf8_len (vt_redirect_to t) \<le> 2048) \<and>
     (mc_status c = ''issued'' \<longrightarrow> mc_certificate_arn c \<noteq> None)"

definition wf_group :: "connection_group_observation \<Rightarrow> bool" where
  "wf_group g \<longleftrightarrow> good_identity (co_connection_group_id g) \<and> good_etag (co_etag g) \<and>
     good_identity (co_routing_endpoint g) \<and> dns_name (co_routing_endpoint g) \<and>
     ends_with ''.cloudfront.net'' (co_routing_endpoint g) \<and>
     co_deployment_status g \<in> {''InProgress'', ''Deployed''}"

lemma dns_lower: "dns_name s \<Longrightarrow> py_lower s = s"
  by (simp add: dns_name_def)

lemma unless_none_opt:
  "unless_none (ve_identity l) v = Inr () \<Longrightarrow> good_opt (opt_str_of v) \<and> (v = PNone \<longleftrightarrow> opt_str_of v = None)"
  by (auto simp: ve.optional)

lemma new_tenant_observation_wf:
  "new_tenant_observation a b c d e f g h i j = Inr t \<Longrightarrow> wf_tenant t"
  by (auto simp: new_tenant_observation_def seq_res_Inr_iff bind_res_Inr_iff raise_Inr_iff ve.check_ok
      ve_domain_iff ve_etag_iff in_strings_iff deployment_statuses_def wf_tenant_def dest!: unless_none_opt)

lemma new_connection_group_wf:
  "new_connection_group_observation a b c d e f g = Inr t \<Longrightarrow> wf_group t"
  by (auto simp: new_connection_group_observation_def seq_res_Inr_iff bind_res_Inr_iff raise_Inr_iff ve.check_ok
      ve_domain_iff ve_etag_iff in_strings_iff deployment_statuses_def wf_group_def dns_lower)

lemma bounded_redirect_iff:
  "bounded_redirect l v = Inr () \<longleftrightarrow> (\<exists>s. v = PStr s \<and> good_identity s \<and> utf8_len s \<le> 2048)"
  by (auto simp: bounded_redirect_def seq_res_Inr_iff ve.check_ok not_less)

definition wf_token :: "validation_token \<Rightarrow> bool" where
  "wf_token t \<longleftrightarrow> good_identity (vt_domain t) \<and> dns_name (vt_domain t) \<and>
        good_identity (vt_redirect_from t) \<and> utf8_len (vt_redirect_from t) \<le> 2048 \<and>
        good_identity (vt_redirect_to t) \<and> utf8_len (vt_redirect_to t) \<le> 2048"

lemma new_validation_token_wf: "new_validation_token a b c = Inr t \<Longrightarrow> wf_token t"
  by (auto simp: new_validation_token_def seq_res_Inr_iff ve_domain_iff bounded_redirect_iff wf_token_def)

lemma token_of_wf: "token_of v = Inr t \<Longrightarrow> wf_token t"
  by (auto simp: token_of_def bind_res_Inr_iff dest: new_validation_token_wf)

lemma new_managed_certificate_wf:
  assumes "new_managed_certificate a b c d (Exact (map Exact ts)) = Inr m" and "\<forall>t \<in> set ts. wf_token t"
  shows "wf_certificate m" "PStr (mc_tenant_id m) = a"
  using assms
  by (auto simp: new_managed_certificate_def seq_res_Inr_iff bind_res_Inr_iff raise_Inr_iff ve.check_ok
      in_strings_iff wf_certificate_def wf_token_def dest!: unless_none_opt)

lemma normalized_certificate_wf:
  assumes "normalize_certificate_response r tid = Inr m"
  shows "wf_certificate m" "tid = PStr (mc_tenant_id m)"
proof -
  have "\<exists>xs ts status arn host. map_res token_of xs = Inr ts \<and>
      new_managed_certificate tid status arn host (Exact (map Exact ts)) = Inr m"
    using assms
    by (auto simp: normalize_certificate_response_def seq_res_Inr_iff bind_res_Inr_iff split: pyval.splits) blast
  then obtain xs ts status arn host where t: "map_res token_of xs = Inr ts"
    and m: "new_managed_certificate tid status arn host (Exact (map Exact ts)) = Inr m" by blast
  have "\<forall>t \<in> set ts. wf_token t"
  proof
    fix k assume "k \<in> set ts"
    then obtain i where "i < length ts" "k = ts ! i" by (auto simp: in_set_conv_nth)
    then have "token_of (xs ! i) = Inr k" using t by (simp add: map_res_Inr_iff list_all2_conv_all_nth)
    then show "wf_token k" by (rule token_of_wf)
  qed
  from new_managed_certificate_wf [OF m this] show "wf_certificate m" "tid = PStr (mc_tenant_id m)" by auto
qed

lemma normalised_tenant_wf: "normalize_tenant_response r = Inr t \<Longrightarrow> wf_tenant t"
  by (auto simp: normalize_tenant_response_def bind_res_Inr_iff split: pyval.splits list.splits
      dest: new_tenant_observation_wf)


text \<open>The characters of the provider's text that a certificate observation keeps.\<close>

definition retained_bytes :: "managed_certificate \<Rightarrow> nat" where
  "retained_bytes c = utf8_len (mc_tenant_id c) + utf8_len (mc_status c) +
     (case mc_certificate_arn c of None \<Rightarrow> 0 | Some s \<Rightarrow> utf8_len s) +
     (case mc_validation_token_host c of None \<Rightarrow> 0 | Some s \<Rightarrow> utf8_len s) +
     sum_list (map (\<lambda>t. utf8_len (vt_domain t) + utf8_len (vt_redirect_from t) + utf8_len (vt_redirect_to t))
       (mc_validation_tokens c))"

lemma utf8_len_ascii: "is_ascii s \<Longrightarrow> utf8_len s = length s"
  by (induction s) (auto simp: is_ascii_def utf8_len_def)

text \<open>What is retained of a managed-certificate response is bounded, however large the
  response: at most five validation tokens and 29 968 bytes of text in all.\<close>

theorem normalised_certificate_is_bounded:
  assumes "normalize_certificate_response r tid = Inr c"
  shows "length (mc_validation_tokens c) \<le> 5 \<and> retained_bytes c \<le> 29968"
proof -
  note w = normalized_certificate_wf(1) [OF assms]
  have id: "utf8_len s \<le> 4096" if "good_identity s" for s
    using that by (simp add: good_identity_def MAX_IDENTITY_BYTES_def)
  have st: "utf8_len (mc_status c) \<le> 20" using w by (auto simp: wf_certificate_def certificate_statuses_def utf8_len_def)
  have host: "(case mc_validation_token_host c of None \<Rightarrow> 0 | Some s \<Rightarrow> utf8_len s) \<le> 11"
    using w by (auto simp: wf_certificate_def utf8_len_def)
  have arn: "(case mc_certificate_arn c of None \<Rightarrow> 0 | Some s \<Rightarrow> utf8_len s) \<le> 4096"
    using w id by (auto simp: wf_certificate_def split: option.split)
  have "utf8_len (vt_domain t) + utf8_len (vt_redirect_from t) + utf8_len (vt_redirect_to t) \<le> 4349"
    if "t \<in> set (mc_validation_tokens c)" for t
  proof -
    have "is_ascii (vt_domain t)" "length (vt_domain t) \<le> 253" "utf8_len (vt_redirect_from t) \<le> 2048"
      "utf8_len (vt_redirect_to t) \<le> 2048"
      using w that by (auto simp: wf_certificate_def dns_name_def)
    then show ?thesis using utf8_len_ascii [of "vt_domain t"] by simp
  qed
  then have "sum_list (map (\<lambda>t. utf8_len (vt_domain t) + utf8_len (vt_redirect_from t) + utf8_len (vt_redirect_to t))
      (mc_validation_tokens c)) \<le> length (mc_validation_tokens c) * 4349"
    using sum_list_mono [of "mc_validation_tokens c" "\<lambda>t. utf8_len (vt_domain t) +
        utf8_len (vt_redirect_from t) + utf8_len (vt_redirect_to t)" "\<lambda>_. 4349"]
    by (simp add: sum_list_triv)
  moreover have l: "length (mc_validation_tokens c) \<le> 5" using w by (simp add: wf_certificate_def)
  then have "length (mc_validation_tokens c) * 4349 \<le> 5 * 4349" by (rule mult_le_mono1)
  moreover have "utf8_len (mc_tenant_id c) \<le> 4096" using w id by (simp add: wf_certificate_def)
  ultimately have "retained_bytes c \<le> 4096 + 20 + 4096 + 11 + 5 * 4349"
    using st host arn unfolding retained_bytes_def by linarith
  then show ?thesis using l by simp
qed


section \<open>The admitted baseline\<close>

text \<open>A place in a nested value: keys of dictionaries and indices of lists.\<close>

datatype place = Key string | Index nat

fun at_place :: "pyval \<Rightarrow> place list \<Rightarrow> pyval" where
  "at_place v [] = v"
| "at_place (PDict d) (Key k # ps) = at_place (dget d k) ps"
| "at_place (PList xs) (Index i # ps) = (if i < length xs then at_place (xs ! i) ps else PNone)"
| "at_place _ (_ # ps) = PNone"

text \<open>The reviewed settings, as a table of places and required values.\<close>

definition baseline_table :: "(place list \<times> pyval) list" where
  "baseline_table =
     [([Key ''ConnectionMode''], PStr ''tenant-only''),
      ([Key ''DefaultCacheBehavior'', Key ''ViewerProtocolPolicy''], PStr ''https-only''),
      ([Key ''DefaultCacheBehavior'', Key ''CachePolicyId''], PStr CACHING_DISABLED_ID),
      ([Key ''DefaultCacheBehavior'', Key ''OriginRequestPolicyId''], PStr ALL_VIEWER_EXCEPT_HOST_ID),
      ([Key ''DefaultCacheBehavior'', Key ''TargetOriginId''], PStr ORIGIN_ID),
      ([Key ''CacheBehaviors''], PDict [(''Quantity'', PInt 0)]),
      ([Key ''Origins'', Key ''Quantity''], PInt 1),
      ([Key ''Origins'', Key ''Items'', Index 0, Key ''Id''], PStr ORIGIN_ID),
      ([Key ''Origins'', Key ''Items'', Index 0, Key ''DomainName''], PStr ORIGIN_TEMPLATE),
      ([Key ''Origins'', Key ''Items'', Index 0, Key ''CustomOriginConfig'', Key ''OriginProtocolPolicy''],
        PStr ''https-only''),
      ([Key ''Origins'', Key ''Items'', Index 0, Key ''CustomOriginConfig'', Key ''OriginSslProtocols''],
        only_tls12),
      ([Key ''TenantConfig'', Key ''ParameterDefinitions''], required_parameter)]"

text \<open>A method list of the given size that is, in some order, exactly the given set.\<close>

definition method_list :: "pyval \<Rightarrow> string set \<Rightarrow> bool" where
  "method_list v A \<longleftrightarrow> (\<exists>ms. at_place v [Key ''Quantity''] = PInt (int (card A)) \<and>
     at_place v [Key ''Items''] = PList (map PStr ms) \<and> distinct ms \<and> set ms = A)"

definition baseline :: "pyval \<Rightarrow> bool" where
  "baseline v \<longleftrightarrow>
     (\<forall>(p, e) \<in> set baseline_table. py_eq (at_place v p) e) \<and>
     (\<exists>origin. at_place v [Key ''Origins'', Key ''Items''] = PList [origin]) \<and>
     method_list (at_place v [Key ''DefaultCacheBehavior'', Key ''AllowedMethods'']) (set VIEWER_METHODS) \<and>
     method_list (at_place v [Key ''DefaultCacheBehavior'', Key ''AllowedMethods'', Key ''CachedMethods''])
       {''GET'', ''HEAD'', ''OPTIONS''}"

lemma strs_of: "list_all is_str xs \<Longrightarrow> xs = map PStr (map str_of xs)"
  by (induction xs) (auto simp: is_str_iff)

lemma method_set_iff:
  assumes "finite A"
  shows "require_exact_method_set v (int (card A)) A = Inr () \<longleftrightarrow> method_list v A"
proof
  assume "require_exact_method_set v (int (card A)) A = Inr ()"
  then obtain m items where i: "v = PDict m" "dget m ''Quantity'' = PInt (int (card A))" "dget m ''Items'' = PList items"
    "list_all is_str items" "distinct items" "set (map str_of items) = A"
    by (auto simp: require_exact_method_set_def split: pyval.splits if_splits)
  have "items = map PStr (map str_of items)" using strs_of [OF i(4)] .
  moreover from this have "distinct (map str_of items)" using i(5) by (metis distinct_map)
  ultimately show "method_list v A"
    using i unfolding method_list_def by (intro exI [of _ "map str_of items"]) simp
next
  assume "method_list v A"
  then obtain ms where m: "at_place v [Key ''Quantity''] = PInt (int (card A))"
    "at_place v [Key ''Items''] = PList (map PStr ms)" "distinct ms" "set ms = A"
    by (auto simp: method_list_def)
  from m(1) obtain d where d: "v = PDict d" by (cases v) auto
  moreover have "length ms = card A" using m(3,4) distinct_card by metis
  moreover have "distinct (map PStr ms)" using m(3) by (simp add: distinct_map inj_on_def)
  moreover have "set (map str_of (map PStr ms)) = A" using m(4) by (simp add: comp_def)
  ultimately show "require_exact_method_set v (int (card A)) A = Inr ()"
    using m(1,2) by (simp add: require_exact_method_set_def list_all_iff)
qed

lemma card_methods: "card (set VIEWER_METHODS) = 7" "card {''GET'', ''HEAD'', ''OPTIONS''} = 3"
  by (simp_all add: VIEWER_METHODS_def)

lemmas method_checks = method_set_iff [of "set VIEWER_METHODS", unfolded card_methods, simplified]
  method_set_iff [of "{''GET'', ''HEAD'', ''OPTIONS''}", unfolded card_methods, simplified]

lemma validate_members_iff:
  assumes "map_of c ''DefaultCacheBehavior'' = Some (PDict b)" "map_of c ''Origins'' = Some (PDict og)"
    "map_of c ''TenantConfig'' = Some (PDict tc)" "dget og ''Items'' = PList [PDict o1]"
    "dget o1 ''CustomOriginConfig'' = PDict cu" "dget b ''AllowedMethods'' = PDict al"
  shows "validate_members c b og o1 (dget tc ''ParameterDefinitions'') cu al = Inr () \<longleftrightarrow> baseline (PDict c)"
proof -
  have d: "dget c ''DefaultCacheBehavior'' = PDict b" "dget c ''Origins'' = PDict og" "dget c ''TenantConfig'' = PDict tc"
    using assms(1-3) by (simp_all add: dget_def)
  show ?thesis
    unfolding validate_members_def raise_Inr_iff seq_res_Inr_iff method_checks baseline_def baseline_table_def
    using d assms(4-6) by (simp add: conj_ac del: py_eq.simps)
qed


text \<open>What the table needs of the nesting.\<close>

lemma at_place_steps [simp]:
  "at_place v (Key k # ps) = PStr s \<longleftrightarrow> (\<exists>d. v = PDict d \<and> at_place (dget d k) ps = PStr s)"
  "at_place v (Key k # ps) = PList xs \<longleftrightarrow> (\<exists>d. v = PDict d \<and> at_place (dget d k) ps = PList xs)"
  "at_place v (Key k # ps) = PInt i \<longleftrightarrow> (\<exists>d. v = PDict d \<and> at_place (dget d k) ps = PInt i)"
  by (cases v; simp)+

lemma py_eq_list_kind: "py_eq v (PList xs) \<Longrightarrow> \<exists>ys. v = PList ys"
  by (cases v) (auto elim: scalar_eq.elims)

lemma dget_dict: "dget d k = PDict x \<Longrightarrow> map_of d k = Some (PDict x)"
  by (simp add: dget_def split: option.splits)

lemma baseline_shape:
  assumes "baseline v"
  obtains c b og tc o1 cu al defs where "v = PDict c" "map_of c ''DefaultCacheBehavior'' = Some (PDict b)"
    "map_of c ''Origins'' = Some (PDict og)" "map_of c ''TenantConfig'' = Some (PDict tc)"
    "dget og ''Items'' = PList [PDict o1]" "dget o1 ''CustomOriginConfig'' = PDict cu"
    "dget b ''AllowedMethods'' = PDict al" "dget tc ''ParameterDefinitions'' = PList defs"
proof -
  have t: "py_eq (at_place v p) e" if "(p, e) \<in> set baseline_table" for p e
    using assms that by (auto simp: baseline_def)
  obtain c b where c: "v = PDict c" "dget c ''DefaultCacheBehavior'' = PDict b"
    using t [of "[Key ''DefaultCacheBehavior'', Key ''ViewerProtocolPolicy'']" "PStr ''https-only''"]
    by (simp add: baseline_table_def) blast
  obtain og o1 cu where o1: "dget c ''Origins'' = PDict og" "at_place (dget og ''Items'') [Index 0] = PDict o1"
    "dget o1 ''CustomOriginConfig'' = PDict cu"
    using c t [of "[Key ''Origins'', Key ''Items'', Index 0, Key ''CustomOriginConfig'', Key ''OriginProtocolPolicy'']"
        "PStr ''https-only''"]
    by (cases "dget c ''Origins''"; simp add: baseline_table_def)
      (cases "dget (dict_of (dget c ''Origins'')) ''Items''"; force split: if_splits)
  obtain x where "dget og ''Items'' = PList [x]"
    using assms c o1(1) unfolding baseline_def by auto
  then have items: "dget og ''Items'' = PList [PDict o1]" using o1(2) by simp
  obtain defs where "at_place v [Key ''TenantConfig'', Key ''ParameterDefinitions''] = PList defs"
    using t [of "[Key ''TenantConfig'', Key ''ParameterDefinitions'']" required_parameter]
    unfolding required_parameter_def by (auto simp: baseline_table_def required_parameter_def dest!: py_eq_list_kind)
  then obtain tc where tc: "dget c ''TenantConfig'' = PDict tc" "dget tc ''ParameterDefinitions'' = PList defs"
    using c by auto
  obtain al where al: "dget b ''AllowedMethods'' = PDict al"
    using assms c unfolding baseline_def method_list_def by auto
  show thesis
    using that [OF c(1) dget_dict dget_dict dget_dict items o1(3) al tc(2)] c(2) o1(1) tc(1) by blast
qed

lemma validate_distribution_config_iff: "validate_distribution_config v = Inr () \<longleftrightarrow> baseline v"
proof
  assume a: "validate_distribution_config v = Inr ()"
  then obtain c b og tc o1 cu al defs where "v = PDict c" "map_of c ''DefaultCacheBehavior'' = Some (PDict b)"
    "map_of c ''Origins'' = Some (PDict og)" "map_of c ''TenantConfig'' = Some (PDict tc)"
    "dget og ''Items'' = PList [PDict o1]" "dget o1 ''CustomOriginConfig'' = PDict cu"
    "dget b ''AllowedMethods'' = PDict al" "dget tc ''ParameterDefinitions'' = PList defs"
    by (auto simp: validate_distribution_config_def
        split: pyval.splits option.splits list.splits)
  with a show "baseline v"
    using validate_members_iff [of c b og tc o1 cu al] by (simp add: validate_distribution_config_def)
next
  assume "baseline v"
  then show "validate_distribution_config v = Inr ()"
  proof (rule baseline_shape)
    fix c b og tc o1 cu al defs
    assume "v = PDict c" "map_of c ''DefaultCacheBehavior'' = Some (PDict b)"
      "map_of c ''Origins'' = Some (PDict og)" "map_of c ''TenantConfig'' = Some (PDict tc)"
      "dget og ''Items'' = PList [PDict o1]" "dget o1 ''CustomOriginConfig'' = PDict cu"
      "dget b ''AllowedMethods'' = PDict al" "dget tc ''ParameterDefinitions'' = PList defs"
    with \<open>baseline v\<close> show ?thesis
      using validate_members_iff [of c b og tc o1 cu al] by (simp add: validate_distribution_config_def)
  qed
qed

text \<open>Property C32: the nested, ordered checks of \<open>validate_distribution_config\<close> accept exactly the
  configurations that agree with a table of reviewed settings (https only, caching disabled, the
  reviewed request policy, TLS 1.2 only, one parameterised origin, no other behaviours, the sole
  required parameter) and whose method lists are the reviewed sets in any order. The code's
  equality is Python's, so a number may stand for an equal number of another type. In
  particular the configuration the code builds is accepted for every caller reference.\<close>

theorem admitted_configuration_is_the_baseline:
  "(validate_distribution_config v = Inr () \<longleftrightarrow> baseline v) \<and>
   validate_distribution_config (PDict (distribution_baseline caller_reference)) = Inr ()"
proof -
  have "validate_distribution_config (PDict (distribution_baseline s)) = Inr ()" for s
    unfolding distribution_baseline_def validate_distribution_config_def validate_members_def
      require_exact_method_set_def VIEWER_METHODS_def strings_def required_parameter_def only_tls12_def
    by (simp add: dget_def)
  then show ?thesis by (simp add: validate_distribution_config_iff)
qed


section \<open>Witnesses\<close>

definition sample_tenant :: tenant_observation where
  "sample_tenant = \<lparr>to_tenant_id = ''T1'', to_distribution_id = ''D1'', to_connection_group_id = ''G1'',
     to_etag = ''E1'', to_enabled = True, to_deployment_status = ''Deployed'',
     to_viewer_domain = ''app.example.org'', to_domain_status = ''active'',
     to_origin_domain = ''origin.example.net'', to_certificate_arn = Some ''arn:1''\<rparr>"

definition sample_tenant_response :: pyval where
  "sample_tenant_response = PDict [(''ETag'', PStr ''E1''), (''DistributionTenant'', PDict
     [(''Id'', PStr ''T1''), (''DistributionId'', PStr ''D1''), (''ConnectionGroupId'', PStr ''G1''),
      (''Enabled'', PBool True), (''Status'', PStr ''Deployed''),
      (''Domains'', PList [PDict [(''Domain'', PStr ''app.example.org''), (''Status'', PStr ''active'')]]),
      (''Parameters'', PList [PDict [(''Name'', PStr ORIGIN_PARAMETER), (''Value'', PStr ''origin.example.net'')]]),
      (''Customizations'', PDict [(''Certificate'', PDict [(''Arn'', PStr ''arn:1'')])])])]"

lemma sample_tenant_normalises: "normalize_tenant_response sample_tenant_response = Inr sample_tenant"
  by code_simp


definition sample_certificate :: managed_certificate where
  "sample_certificate = \<lparr>mc_tenant_id = ''T1'', mc_status = ''issued'', mc_certificate_arn = Some ''arn:1'',
     mc_validation_token_host = Some ''cloudfront'',
     mc_validation_tokens = [\<lparr>vt_domain = ''app.example.org'', vt_redirect_from = ''a'', vt_redirect_to = ''b''\<rparr>]\<rparr>"

lemma sample_certificate_normalises:
  "normalize_certificate_response (PDict [(''ManagedCertificateDetails'', PDict
     [(''CertificateStatus'', PStr ''issued''), (''CertificateArn'', PStr ''arn:1''),
      (''ValidationTokenHost'', PStr ''cloudfront''),
      (''ValidationTokenDetails'', PList [PDict [(''Domain'', PStr ''app.example.org''),
         (''RedirectFrom'', PStr ''a''), (''RedirectTo'', PStr ''b'')]])])]) (PStr ''T1'') = Inr sample_certificate"
  by code_simp

theorem normalised_certificate_is_bounded_witness: "retained_bytes sample_certificate \<le> 29968"
  using normalised_certificate_is_bounded [OF sample_certificate_normalises] by blast

end
