(* ===== verification/Viewer_Edge_Runs.thy ===== *)
theory Viewer_Edge_Runs
  imports Viewer_Edge_Facts
begin

text \<open>
  Runs of the Viewer Edge lifecycle (\<open>scripts/cloudfront-viewer-edge.py\<close>): which mutations are
  planned for which observation, tear-down as a step relation over the observations, and the
  closed order of the qualification run.
\<close>

section \<open>Certificates\<close>

text \<open>A certificate is reported active only for a tenant that is enabled, deployed and
  has an active domain, with the issued certificate of this very tenant attached to it; and the
  classification of well-formed observations of one tenant always returns (the code's final
  assertion cannot fail), unless the certificate is validated outside CloudFront.\<close>

theorem certificate_state_is_observed:
  assumes "wf_certificate c" and "mc_tenant_id c = to_tenant_id t"
    and "mc_validation_token_host c \<noteq> Some ''self-hosted''"
  shows "\<exists>s. classify_certificate_state (Exact t) (Some (Exact c)) = Inr s \<and>
    (s = Cs_ACTIVE \<longleftrightarrow> mc_status c = ''issued'' \<and> to_certificate_arn t = mc_certificate_arn c \<and>
       to_enabled t \<and> to_deployment_status t = ''Deployed'' \<and> to_domain_status t = ''active'') \<and>
    (s \<in> {Cs_ISSUED, Cs_ATTACHED, Cs_ACTIVE} \<longleftrightarrow> mc_status c = ''issued'')"
  using assms
  by (auto simp: classify_certificate_state_def admit_cloudfront_certificate_def wf_certificate_def
      certificate_statuses_def)

section \<open>Mutations\<close>

text \<open>A mutation of exactly one resource, under the revision that was observed and acknowledged.\<close>

definition bound_to :: "aws_plan \<Rightarrow> string \<Rightarrow> string \<Rightarrow> pyval \<Rightarrow> bool" where
  "bound_to p resource etag admitted \<longleftrightarrow>
     ap_resource_id p = Some resource \<and> ap_if_match p = Some etag \<and> admitted = PStr etag"

lemma admit_mutation_target_Inr:
  assumes "admit_mutation_target target t i e = Inr ()"
  obtains tg where "target = Exact tg" "ct_tenant_id tg = Some (to_tenant_id t)"
    "ct_distribution_id tg = Some (to_distribution_id t)"
    "ct_connection_group_id tg = Some (to_connection_group_id t)" "to_viewer_domain t = ti_viewer_domain i"
    "e = PStr (to_etag t)"
  using assms
  by (cases target)
    (auto simp: admit_mutation_target_def bind_res_Inr_iff seq_res_Inr_iff raise_Inr_iff
      validate_tenant_observation_def replace_inputs_origin_def new_tenant_inputs_def)

lemma plan_tenant_mutation_Inr:
  assumes "plan_tenant_mutation (Exact op) target t i e cert = Inr p"
  shows "bound_to p (to_tenant_id t) (to_etag t) e"
    and "op = DELETE_TENANT \<Longrightarrow> \<not> to_enabled t \<and> to_deployment_status t = ''Deployed''"
    and "op \<in> {ATTACH_CERTIFICATE, UPDATE_TENANT, DISABLE_TENANT, DELETE_TENANT}"
    and "op = ATTACH_CERTIFICATE \<Longrightarrow> \<exists>c. cert = Some (Exact c) \<and> mc_tenant_id c = to_tenant_id t \<and> mc_status c = ''issued''"
    and "ap_api_operation p = ''DeleteDistributionTenant'' \<longleftrightarrow> op = DELETE_TENANT"
proof -
  have a: "admit_mutation_target target t i e = Inr ()"
    "op \<in> {ATTACH_CERTIFICATE, UPDATE_TENANT, DISABLE_TENANT, DELETE_TENANT}"
    using assms by (auto simp: plan_tenant_mutation_def seq_res_Inr_iff split: if_splits)
  obtain tg where tg: "target = Exact tg" "ct_tenant_id tg = Some (to_tenant_id t)" "e = PStr (to_etag t)"
    using a(1) by (rule admit_mutation_target_Inr)
  obtain ps api where m: "tenant_mutation_parameters op tg t i cert = Inr (ps, api)"
    "p = \<lparr>ap_operation = op, ap_api_operation = api, ap_resource_id = Some (to_tenant_id t),
       ap_if_match = Some (to_etag t), ap_parameters = ps\<rparr>"
    using assms a tg by (auto simp: plan_tenant_mutation_def seq_res_Inr_iff bind_res_Inr_iff split: if_splits)
  show "bound_to p (to_tenant_id t) (to_etag t) e" using m(2) tg(3) by (simp add: bound_to_def)
  show "op = DELETE_TENANT \<Longrightarrow> \<not> to_enabled t \<and> to_deployment_status t = ''Deployed''"
    using m(1) by (simp add: tenant_mutation_parameters_def split: if_splits)
  show "op \<in> {ATTACH_CERTIFICATE, UPDATE_TENANT, DISABLE_TENANT, DELETE_TENANT}" by (fact a(2))
  show "op = ATTACH_CERTIFICATE \<Longrightarrow> \<exists>c. cert = Some (Exact c) \<and> mc_tenant_id c = to_tenant_id t \<and> mc_status c = ''issued''"
    using m(1) tg(2)
    by (auto simp: tenant_mutation_parameters_def attached_certificate_def admit_cloudfront_certificate_def
        bind_res_Inr_iff split: option.splits obj.splits if_splits)
  show "ap_api_operation p = ''DeleteDistributionTenant'' \<longleftrightarrow> op = DELETE_TENANT"
    using a(2) m by (auto simp: tenant_mutation_parameters_def bind_res_Inr_iff split: if_splits)
qed

text \<open>Property C34: a tenant mutation names the one observed tenant under the observed revision, which
  is the acknowledged one; a tenant is deleted only when it was observed disabled and deployed;
  and only the issued certificate of the same tenant is attached.\<close>

theorem tenant_mutation_is_exact:
  assumes "plan_tenant_mutation (Exact op) target t i e cert = Inr p"
  shows "bound_to p (to_tenant_id t) (to_etag t) e \<and> ap_operation p = op \<and>
    (ap_api_operation p = ''DeleteDistributionTenant'' \<longrightarrow> \<not> to_enabled t \<and> to_deployment_status t = ''Deployed'') \<and>
    (op = ATTACH_CERTIFICATE \<longrightarrow> (\<exists>c. cert = Some (Exact c) \<and> mc_tenant_id c = to_tenant_id t \<and> mc_status c = ''issued''))"
proof -
  have "ap_operation p = op"
    using assms by (auto simp: plan_tenant_mutation_def seq_res_Inr_iff bind_res_Inr_iff split: obj.splits if_splits)
  then show ?thesis using plan_tenant_mutation_Inr [OF assms] by blast
qed

section \<open>Tear-down\<close>

text \<open>
  What is left of a deployment: its observations. \<open>None\<close> is a deleted resource.
\<close>

record remaining =
  rm_tenant :: "tenant_observation option"
  rm_group :: "connection_group_observation option"
  rm_distribution :: "distribution_observation option"

definition gone :: remaining where
  "gone = \<lparr>rm_tenant = None, rm_group = None, rm_distribution = None\<rparr>"

text \<open>
  The provider's side of a step, as its interface documents it: a disabled resource is being
  deployed or deployed, a later read may see the deployment finished, a deleted one is gone,
  and with the tenant its association. The revision may change with every step.
\<close>

inductive provider_step :: "remaining \<Rightarrow> ve_operation \<Rightarrow> remaining \<Rightarrow> bool" where
  disable_tenant: "rm_tenant s = Some t \<Longrightarrow> st \<in> {''InProgress'', ''Deployed''} \<Longrightarrow> good_etag e \<Longrightarrow>
    provider_step s DISABLE_TENANT
      (s\<lparr>rm_tenant := Some (t\<lparr>to_enabled := False, to_deployment_status := st, to_etag := e\<rparr>)\<rparr>)"
| inspect_tenant: "rm_tenant s = Some t \<Longrightarrow> st \<in> {''InProgress'', ''Deployed''} \<Longrightarrow> good_etag e \<Longrightarrow>
    provider_step s INSPECT_TENANT (s\<lparr>rm_tenant := Some (t\<lparr>to_deployment_status := st, to_etag := e\<rparr>)\<rparr>)"
| delete_tenant: "rm_tenant s = Some t \<Longrightarrow>
    provider_step s DELETE_TENANT (s\<lparr>rm_tenant := None,
      rm_group := map_option (\<lambda>g. g\<lparr>co_tenant_association_present := False\<rparr>) (rm_group s)\<rparr>)"
| disable_group: "rm_group s = Some g \<Longrightarrow> st \<in> {''InProgress'', ''Deployed''} \<Longrightarrow> good_etag e \<Longrightarrow>
    provider_step s DISABLE_CONNECTION_GROUP
      (s\<lparr>rm_group := Some (g\<lparr>co_enabled := False, co_deployment_status := st, co_etag := e\<rparr>)\<rparr>)"
| inspect_group: "rm_group s = Some g \<Longrightarrow> st \<in> {''InProgress'', ''Deployed''} \<Longrightarrow> good_etag e \<Longrightarrow>
    provider_step s INSPECT_CONNECTION_GROUP (s\<lparr>rm_group := Some (g\<lparr>co_deployment_status := st, co_etag := e\<rparr>)\<rparr>)"
| delete_group: "rm_group s = Some g \<Longrightarrow> provider_step s DELETE_CONNECTION_GROUP (s\<lparr>rm_group := None\<rparr>)"
| disable_distribution: "rm_distribution s = Some d \<Longrightarrow> st \<in> {''InProgress'', ''Deployed''} \<Longrightarrow> good_etag e \<Longrightarrow>
    provider_step s DISABLE_DISTRIBUTION
      (s\<lparr>rm_distribution := Some (d\<lparr>do_enabled := False, do_deployment_status := st, do_etag := e\<rparr>)\<rparr>)"
| inspect_distribution: "rm_distribution s = Some d \<Longrightarrow> st \<in> {''InProgress'', ''Deployed''} \<Longrightarrow> good_etag e \<Longrightarrow>
    provider_step s INSPECT_DISTRIBUTION
      (s\<lparr>rm_distribution := Some (d\<lparr>do_deployment_status := st, do_etag := e\<rparr>)\<rparr>)"
| delete_distribution: "rm_distribution s = Some d \<Longrightarrow>
    provider_step s DELETE_DISTRIBUTION (s\<lparr>rm_distribution := None\<rparr>)"

inductive_simps provider_steps [simp]:
  "provider_step s DISABLE_TENANT s'" "provider_step s INSPECT_TENANT s'" "provider_step s DELETE_TENANT s'"
  "provider_step s DISABLE_CONNECTION_GROUP s'" "provider_step s INSPECT_CONNECTION_GROUP s'"
  "provider_step s DELETE_CONNECTION_GROUP s'" "provider_step s DISABLE_DISTRIBUTION s'"
  "provider_step s INSPECT_DISTRIBUTION s'" "provider_step s DELETE_DISTRIBUTION s'"

text \<open>The planner that is asked for the operation the tear-down proposes.\<close>

definition planned :: "cloudfront_target \<Rightarrow> tenant_inputs \<Rightarrow> pyval \<Rightarrow> remaining \<Rightarrow> ve_operation \<Rightarrow> aws_plan res" where
  "planned tg i config s op =
     (case (rm_tenant s, rm_group s, rm_distribution s) of
        (Some t, _, _) \<Rightarrow>
          if op = INSPECT_TENANT then plan_inspection (Exact op) (Exact tg)
          else plan_tenant_mutation (Exact op) (Exact tg) t i (PStr (to_etag t)) None
      | (None, Some g, _) \<Rightarrow>
          if op = INSPECT_CONNECTION_GROUP then plan_inspection (Exact op) (Exact tg)
          else plan_connection_group_mutation (Exact op) (Exact tg) (Exact g) (PStr (co_etag g))
      | (None, None, Some d) \<Rightarrow>
          if op = INSPECT_DISTRIBUTION then plan_inspection (Exact op) (Exact tg)
          else plan_distribution_mutation (Exact op) tg d (PStr (do_etag d)) config
      | _ \<Rightarrow> Inl AssertionError)"

text \<open>
  One step of a tear-down: the operation the code proposes is planned, and the provider does
  it. The label tells whether the step was a read that still saw the deployment in progress.
\<close>

definition proposed :: "remaining \<Rightarrow> ve_operation res" where
  "proposed s = (case rm_distribution s of
     None \<Rightarrow> Inl AssertionError
   | Some d \<Rightarrow> next_teardown_operation (rm_tenant s) (rm_group s) d)"

inductive teardown_step ::
  "cloudfront_target \<Rightarrow> tenant_inputs \<Rightarrow> pyval \<Rightarrow> remaining \<Rightarrow> bool \<Rightarrow> remaining \<Rightarrow> bool" for tg i config where
  teardown: "proposed s = Inr op \<Longrightarrow> ok (planned tg i config s op) \<Longrightarrow> provider_step s op s' \<Longrightarrow>
    waits = (op \<in> {INSPECT_TENANT, INSPECT_CONNECTION_GROUP, INSPECT_DISTRIBUTION} \<and> proposed s' = Inr op) \<Longrightarrow>
    teardown_step tg i config s waits s'"

inductive teardown_run ::
  "cloudfront_target \<Rightarrow> tenant_inputs \<Rightarrow> pyval \<Rightarrow> remaining \<Rightarrow> bool list \<Rightarrow> remaining \<Rightarrow> bool" for tg i config where
  run_done: "teardown_run tg i config s [] s"
| run_step: "teardown_run tg i config s ws s' \<Longrightarrow> teardown_step tg i config s' w s'' \<Longrightarrow>
    teardown_run tg i config s (ws @ [w]) s''"

text \<open>The invariant: the observations are those of the target, and the group is not the default one.\<close>

definition owned :: "cloudfront_target \<Rightarrow> tenant_inputs \<Rightarrow> remaining \<Rightarrow> bool" where
  "owned tg i s \<longleftrightarrow>
     (\<forall>t. rm_tenant s = Some t \<longrightarrow> wf_tenant t \<and> ct_tenant_id tg = Some (to_tenant_id t) \<and>
        ct_distribution_id tg = Some (to_distribution_id t) \<and>
        ct_connection_group_id tg = Some (to_connection_group_id t) \<and>
        ti_distribution_id i = to_distribution_id t \<and> ti_connection_group_id i = to_connection_group_id t \<and>
        ti_viewer_domain i = to_viewer_domain t \<and> to_origin_domain t \<noteq> to_viewer_domain t) \<and>
     (\<forall>g. rm_group s = Some g \<longrightarrow> wf_group g \<and> ct_connection_group_id tg = Some (co_connection_group_id g) \<and>
        \<not> co_is_default g \<and> (rm_tenant s = None \<longrightarrow> \<not> co_tenant_association_present g)) \<and>
     (\<forall>d. rm_distribution s = Some d \<longrightarrow> good_etag (do_etag d) \<and>
        ct_distribution_id tg = Some (do_distribution_id d) \<and>
        do_deployment_status d \<in> {''InProgress'', ''Deployed''}) \<and>
     (rm_distribution s = None \<longrightarrow> rm_tenant s = None \<and> rm_group s = None) \<and>
     good_identity (ti_deployment_key i)"

fun stage :: "bool \<Rightarrow> string \<Rightarrow> nat" where
  "stage enabled status = (if enabled then 3 else if status \<noteq> ''Deployed'' then 2 else 1)"

definition rank :: "remaining \<Rightarrow> nat" where
  "rank s = (case rm_tenant s of None \<Rightarrow> 0 | Some t \<Rightarrow> stage (to_enabled t) (to_deployment_status t)) +
     (case rm_group s of None \<Rightarrow> 0 | Some g \<Rightarrow> stage (co_enabled g) (co_deployment_status g)) +
     (case rm_distribution s of None \<Rightarrow> 0 | Some d \<Rightarrow> stage (do_enabled d) (do_deployment_status d))"

lemma proposed_cases:
  assumes "proposed s = Inr op"
  obtains (tenant) t where "rm_tenant s = Some t" "rm_distribution s \<noteq> None"
      "op = (if to_enabled t then DISABLE_TENANT else if to_deployment_status t \<noteq> ''Deployed''
        then INSPECT_TENANT else DELETE_TENANT)"
  | (group) g where "rm_tenant s = None" "rm_group s = Some g" "rm_distribution s \<noteq> None"
      "op = (if co_enabled g then DISABLE_CONNECTION_GROUP else if co_deployment_status g \<noteq> ''Deployed''
        then INSPECT_CONNECTION_GROUP else DELETE_CONNECTION_GROUP)"
  | (distribution) d where "rm_tenant s = None" "rm_group s = None" "rm_distribution s = Some d"
      "op = (if do_enabled d then DISABLE_DISTRIBUTION else if do_deployment_status d \<noteq> ''Deployed''
        then INSPECT_DISTRIBUTION else DELETE_DISTRIBUTION)"
  using assms
  by (auto simp: proposed_def next_teardown_operation_def split: option.splits if_splits)

text \<open>The nine kinds of step, with the state each leads to.\<close>

lemma step_cases:
  assumes "teardown_step tg i config s w s'"
  obtains
    (t1) t st e where "rm_tenant s = Some t" "to_enabled t" "st \<in> {''InProgress'', ''Deployed''}" "good_etag e" "\<not> w"
      "s' = s\<lparr>rm_tenant := Some (t\<lparr>to_enabled := False, to_deployment_status := st, to_etag := e\<rparr>)\<rparr>"
  | (t2) t st e where "rm_tenant s = Some t" "\<not> to_enabled t" "to_deployment_status t \<noteq> ''Deployed''"
      "st \<in> {''InProgress'', ''Deployed''}" "good_etag e" "w \<longleftrightarrow> st \<noteq> ''Deployed''"
      "s' = s\<lparr>rm_tenant := Some (t\<lparr>to_deployment_status := st, to_etag := e\<rparr>)\<rparr>"
  | (t3) t where "rm_tenant s = Some t" "\<not> to_enabled t" "to_deployment_status t = ''Deployed''" "\<not> w"
      "s' = s\<lparr>rm_tenant := None, rm_group := map_option (\<lambda>g. g\<lparr>co_tenant_association_present := False\<rparr>) (rm_group s)\<rparr>"
  | (g1) g st e where "rm_tenant s = None" "rm_group s = Some g" "co_enabled g" "st \<in> {''InProgress'', ''Deployed''}"
      "good_etag e" "\<not> w" "s' = s\<lparr>rm_group := Some (g\<lparr>co_enabled := False, co_deployment_status := st, co_etag := e\<rparr>)\<rparr>"
  | (g2) g st e where "rm_tenant s = None" "rm_group s = Some g" "\<not> co_enabled g" "co_deployment_status g \<noteq> ''Deployed''"
      "st \<in> {''InProgress'', ''Deployed''}" "good_etag e" "w \<longleftrightarrow> st \<noteq> ''Deployed''"
      "s' = s\<lparr>rm_group := Some (g\<lparr>co_deployment_status := st, co_etag := e\<rparr>)\<rparr>"
  | (g3) g where "rm_tenant s = None" "rm_group s = Some g" "\<not> co_enabled g" "co_deployment_status g = ''Deployed''"
      "\<not> w" "s' = s\<lparr>rm_group := None\<rparr>"
  | (d1) d st e where "rm_tenant s = None" "rm_group s = None" "rm_distribution s = Some d" "do_enabled d"
      "st \<in> {''InProgress'', ''Deployed''}" "good_etag e" "\<not> w"
      "s' = s\<lparr>rm_distribution := Some (d\<lparr>do_enabled := False, do_deployment_status := st, do_etag := e\<rparr>)\<rparr>"
  | (d2) d st e where "rm_tenant s = None" "rm_group s = None" "rm_distribution s = Some d" "\<not> do_enabled d"
      "do_deployment_status d \<noteq> ''Deployed''" "st \<in> {''InProgress'', ''Deployed''}" "good_etag e"
      "w \<longleftrightarrow> st \<noteq> ''Deployed''"
      "s' = s\<lparr>rm_distribution := Some (d\<lparr>do_deployment_status := st, do_etag := e\<rparr>)\<rparr>"
  | (d3) d where "rm_tenant s = None" "rm_group s = None" "rm_distribution s = Some d" "\<not> do_enabled d"
      "do_deployment_status d = ''Deployed''" "\<not> w" "s' = s\<lparr>rm_distribution := None\<rparr>"
  using assms
proof cases
  case (teardown op)
  have nxt: "proposed s' = next_teardown_operation (rm_tenant s') (rm_group s') d"
    if "rm_distribution s' = Some d" for d using that by (simp add: proposed_def)
  from teardown(1) show thesis
  proof (cases rule: proposed_cases)
    case (tenant t)
    then obtain d where d: "rm_distribution s = Some d" by blast
    consider "to_enabled t" | "\<not> to_enabled t" "to_deployment_status t \<noteq> ''Deployed''"
      | "\<not> to_enabled t" "to_deployment_status t = ''Deployed''" by blast
    then show ?thesis
    proof cases
      case 1
      then show ?thesis using teardown tenant t1 by auto
    next
      case 2
      then show ?thesis using teardown tenant d nxt t2
        by (auto simp: next_teardown_operation_def)
    next
      case 3
      then show ?thesis using teardown tenant t3 by auto
    qed
  next
    case (group g)
    then obtain d where d: "rm_distribution s = Some d" by blast
    have ok: "\<not> co_is_default g" "\<not> co_tenant_association_present g"
      using teardown(1) group d by (auto simp: proposed_def next_teardown_operation_def split: if_splits)
    consider "co_enabled g" | "\<not> co_enabled g" "co_deployment_status g \<noteq> ''Deployed''"
      | "\<not> co_enabled g" "co_deployment_status g = ''Deployed''" by blast
    then show ?thesis
    proof cases
      case 1
      then show ?thesis using teardown group g1 by auto
    next
      case 2
      then show ?thesis using teardown group d ok nxt g2
        by (auto simp: next_teardown_operation_def)
    next
      case 3
      then show ?thesis using teardown group g3 by auto
    qed
  next
    case (distribution d)
    consider "do_enabled d" | "\<not> do_enabled d" "do_deployment_status d \<noteq> ''Deployed''"
      | "\<not> do_enabled d" "do_deployment_status d = ''Deployed''" by blast
    then show ?thesis
    proof cases
      case 1
      then show ?thesis using teardown distribution d1 by auto
    next
      case 2
      then show ?thesis using teardown distribution nxt d2
        by (auto simp: next_teardown_operation_def)
    next
      case 3
      then show ?thesis using teardown distribution d3 by auto
    qed
  qed
qed

lemma step_rank:
  assumes "teardown_step tg i config s w s'"
  shows "rank s' + (if w then 0 else 1) \<le> rank s"
  using assms by (cases rule: step_cases) (auto simp: rank_def split: option.split)

lemma step_owned:
  assumes "owned tg i s" and "teardown_step tg i config s w s'"
  shows "owned tg i s'"
  using assms(2,1)
  by (cases rule: step_cases) (auto simp: owned_def wf_tenant_def wf_group_def split: option.splits)


lemma ok_seq [simp]: "ok (seq_res m k) \<longleftrightarrow> m = Inr () \<and> ok k"
  by (cases m) auto

lemma tenant_is_planned:
  assumes "owned tg i s" and "rm_tenant s = Some t"
    and "op = DISABLE_TENANT \<or> op = DELETE_TENANT \<and> \<not> to_enabled t \<and> to_deployment_status t = ''Deployed''"
  shows "ok (plan_tenant_mutation (Exact op) (Exact tg) t i (PStr (to_etag t)) None)"
proof -
  note o = assms(1)[unfolded owned_def, THEN conjunct1, rule_format, OF assms(2)]
  have "good_identity (ti_deployment_key i)" using assms(1) by (simp add: owned_def)
  then have "replace_inputs_origin i (to_origin_domain t) = Inr (i\<lparr>ti_origin_domain := to_origin_domain t\<rparr>)"
  proof -
    have dom: "ve_domain l (PStr x) = Inr ()" "py_lower x = x" if "good_identity x" "dns_name x" for l x
      using that by (simp_all add: ve_domain_iff dns_lower)
    have idn: "ve_identity l (PStr x) = Inr ()" if "good_identity x" for l x
      using that by simp
    show ?thesis
      using o \<open>good_identity (ti_deployment_key i)\<close>
      by (cases i) (auto simp: replace_inputs_origin_def new_tenant_inputs_def wf_tenant_def dom idn)
  qed
  moreover have "ve_etag (PStr (to_etag t)) = Inr ()" using o by (simp add: ve_etag_iff wf_tenant_def)
  ultimately have "admit_mutation_target (Exact tg) t i (PStr (to_etag t)) = Inr ()"
    using o by (simp add: admit_mutation_target_def validate_tenant_observation_def)
  then show ?thesis
    using o assms(3) by (auto simp: plan_tenant_mutation_def tenant_mutation_parameters_def)
qed

lemma group_is_planned:
  assumes "owned tg i s" and "rm_tenant s = None" and "rm_group s = Some g"
    and "op = DISABLE_CONNECTION_GROUP \<or>
      op = DELETE_CONNECTION_GROUP \<and> \<not> co_enabled g \<and> co_deployment_status g = ''Deployed''"
  shows "ok (plan_connection_group_mutation (Exact op) (Exact tg) (Exact g) (PStr (co_etag g)))"
proof -
  have g: "ve_etag (PStr (co_etag g)) = Inr ()" "ct_connection_group_id tg = Some (co_connection_group_id g)"
    "\<not> co_is_default g" "\<not> co_tenant_association_present g"
    using assms(1-3) by (simp_all add: owned_def ve_etag_iff wf_group_def)
  then show ?thesis
    using assms(4)
    by (auto simp: plan_connection_group_mutation_def validate_connection_group_observation_def)
qed

lemma distribution_is_planned:
  assumes "owned tg i s" and "rm_distribution s = Some d" and "validate_distribution_config config = Inr ()"
    and "op = DISABLE_DISTRIBUTION \<or>
      op = DELETE_DISTRIBUTION \<and> \<not> do_enabled d \<and> do_deployment_status d = ''Deployed''"
  shows "ok (plan_distribution_mutation (Exact op) tg d (PStr (do_etag d)) config)"
proof -
  have d: "ve_etag (PStr (do_etag d)) = Inr ()" "ct_distribution_id tg = Some (do_distribution_id d)"
    using assms(1,2) by (simp_all add: owned_def ve_etag_iff)
  obtain c where "config = PDict c"
    using assms(3) by (cases config) (simp_all add: validate_distribution_config_def)
  then show ?thesis
    using d assms(3,4)
    by (auto simp: plan_distribution_mutation_def distribution_mutation_parameters_def Let_def deep_copy_def)
qed

text \<open>A step is always possible until everything is gone.\<close>

lemma step_exists:
  assumes o: "owned tg i s" and c: "validate_distribution_config config = Inr ()" and g: "s \<noteq> gone"
  shows "\<exists>w s'. teardown_step tg i config s w s'"
proof -
  have step: "\<exists>w s'. teardown_step tg i config s w s'"
    if "proposed s = Inr op" "ok (planned tg i config s op)" "\<exists>s'. provider_step s op s'" for op
    using that teardown_step.intros by blast
  have et: "\<exists>e. good_etag e"
    unfolding good_etag_def ETAG_def by (rule exI [of _ "''a''"], subst fullmatch_range_cls) (simp_all add: alnum_char_def lower_char_def)
  have ex: "\<exists>st. st = ''InProgress'' \<or> st = ''Deployed''" "\<exists>e. good_etag e" using et by blast+
  note forms = proposed_def next_teardown_operation_def planned_def plan_inspection_def
  obtain d where d: "rm_distribution s = Some d"
    using o g by (cases "rm_distribution s") (auto simp: owned_def gone_def intro: remaining.equality)
  have dd: "ct_distribution_id tg = Some (do_distribution_id d)" using o d by (simp add: owned_def)
  consider (t) t where "rm_tenant s = Some t" | (g) g where "rm_tenant s = None" "rm_group s = Some g"
    | (d) "rm_tenant s = None" "rm_group s = None" by (cases "rm_tenant s"; cases "rm_group s") auto
  then show ?thesis
  proof cases
    case t
    have "ct_tenant_id tg = Some (to_tenant_id t)" using o t by (simp add: owned_def)
    note h = this t d
    consider "to_enabled t" | "\<not> to_enabled t" "to_deployment_status t \<noteq> ''Deployed''"
      | "\<not> to_enabled t" "to_deployment_status t = ''Deployed''" by blast
    then show ?thesis
    proof cases
      case 1
      then show ?thesis using h tenant_is_planned [OF o t]
        by (intro step [of DISABLE_TENANT]) (simp_all add: forms ex)
    next
      case 2
      then show ?thesis using h
        by (intro step [of INSPECT_TENANT]) (simp_all add: forms ex)
    next
      case 3
      then show ?thesis using h tenant_is_planned [OF o t]
        by (intro step [of DELETE_TENANT]) (simp_all add: forms ex)
    qed
  next
    case g
    have "ct_connection_group_id tg = Some (co_connection_group_id g)" "\<not> co_is_default g"
      "\<not> co_tenant_association_present g" using o g by (simp_all add: owned_def)
    note h = this g d
    consider "co_enabled g" | "\<not> co_enabled g" "co_deployment_status g \<noteq> ''Deployed''"
      | "\<not> co_enabled g" "co_deployment_status g = ''Deployed''" by blast
    then show ?thesis
    proof cases
      case 1
      then show ?thesis using h group_is_planned [OF o g]
        by (intro step [of DISABLE_CONNECTION_GROUP]) (simp_all add: forms ex)
    next
      case 2
      then show ?thesis using h
        by (intro step [of INSPECT_CONNECTION_GROUP]) (simp_all add: forms ex)
    next
      case 3
      then show ?thesis using h group_is_planned [OF o g]
        by (intro step [of DELETE_CONNECTION_GROUP]) (simp_all add: forms ex)
    qed
  next
    case d
    note h = this dd \<open>rm_distribution s = Some d\<close>
    consider "do_enabled d" | "\<not> do_enabled d" "do_deployment_status d \<noteq> ''Deployed''"
      | "\<not> do_enabled d" "do_deployment_status d = ''Deployed''" by blast
    then show ?thesis
    proof cases
      case 1
      then show ?thesis using h distribution_is_planned [OF o \<open>rm_distribution s = Some d\<close> c]
        by (intro step [of DISABLE_DISTRIBUTION]) (simp_all add: forms ex)
    next
      case 2
      then show ?thesis using h
        by (intro step [of INSPECT_DISTRIBUTION]) (simp_all add: forms ex)
    next
      case 3
      then show ?thesis using h distribution_is_planned [OF o \<open>rm_distribution s = Some d\<close> c]
        by (intro step [of DELETE_DISTRIBUTION]) (simp_all add: forms ex)
    qed
  qed
qed

lemma run_owned: "teardown_run tg i config s ws s' \<Longrightarrow> owned tg i s \<Longrightarrow> owned tg i s'"
  by (induction rule: teardown_run.induct) (auto intro: step_owned)

lemma run_rank: "teardown_run tg i config s ws s' \<Longrightarrow> length (filter Not ws) + rank s' \<le> rank s"
proof (induction rule: teardown_run.induct)
  case (run_step s ws s' w s'')
  then show ?case using step_rank [OF run_step.hyps(2)] by auto
qed simp

text \<open>Property C31: tear-down always gets to the end. From observations of the target (with a custom
  connection group and an admitted parent configuration), every operation the code proposes is
  one its own planner accepts; no run is stuck before all three resources are gone; and a run
  makes at most nine steps besides the reads that still find a deployment in progress.\<close>

theorem teardown_completes:
  assumes "owned tg i s" and "validate_distribution_config config = Inr ()"
    and "teardown_run tg i config s ws s'"
  shows "length (filter Not ws) \<le> 9 \<and> (s' = gone \<or> (\<exists>w s''. teardown_step tg i config s' w s''))"
proof -
  have r: "length (filter Not ws) + rank s' \<le> rank s" using run_rank [OF assms(3)] .
  moreover have "rank s \<le> 9" by (auto simp: rank_def split: option.split)
  moreover have "s' = gone \<or> (\<exists>w s''. teardown_step tg i config s' w s'')"
    using step_exists [OF run_owned [OF assms(3,1)] assms(2)] by blast
  ultimately show ?thesis by simp
qed


section \<open>The qualification run\<close>

text \<open>
  The effect of each operation on the existence and the state of the three resources: a small
  lifecycle automaton, against which the closed order of the qualification run is checked.
\<close>

datatype phase = Absent | Enabled | Disabled | Settled

record lifecycle =
  lc_distribution :: phase
  lc_group :: phase
  lc_tenant :: phase
  lc_certificate_seen :: bool

definition lifecycle_start :: lifecycle where
  "lifecycle_start = \<lparr>lc_distribution = Absent, lc_group = Absent, lc_tenant = Absent, lc_certificate_seen = False\<rparr>"

fun inspected :: "phase \<Rightarrow> phase" where
  "inspected Disabled = Settled"
| "inspected p = p"

fun lifecycle_step :: "ve_operation \<Rightarrow> lifecycle \<Rightarrow> lifecycle option" where
  "lifecycle_step CREATE_DISTRIBUTION l = (if lc_distribution l = Absent then Some (l\<lparr>lc_distribution := Enabled\<rparr>) else None)"
| "lifecycle_step INSPECT_DISTRIBUTION l = (if lc_distribution l = Absent then None
     else Some (l\<lparr>lc_distribution := inspected (lc_distribution l)\<rparr>))"
| "lifecycle_step UPDATE_DISTRIBUTION l = (if lc_distribution l = Enabled then Some l else None)"
| "lifecycle_step CREATE_CONNECTION_GROUP l = (if lc_distribution l = Enabled \<and> lc_group l = Absent
     then Some (l\<lparr>lc_group := Enabled\<rparr>) else None)"
| "lifecycle_step INSPECT_CONNECTION_GROUP l = (if lc_group l = Absent then None
     else Some (l\<lparr>lc_group := inspected (lc_group l)\<rparr>))"
| "lifecycle_step DISABLE_CONNECTION_GROUP l = (if lc_group l = Enabled \<and> lc_tenant l = Absent
     then Some (l\<lparr>lc_group := Disabled\<rparr>) else None)"
| "lifecycle_step DELETE_CONNECTION_GROUP l = (if lc_group l = Settled \<and> lc_tenant l = Absent
     then Some (l\<lparr>lc_group := Absent\<rparr>) else None)"
| "lifecycle_step CREATE_TENANT l = (if lc_distribution l = Enabled \<and> lc_group l = Enabled \<and> lc_tenant l = Absent
     then Some (l\<lparr>lc_tenant := Enabled, lc_certificate_seen := False\<rparr>) else None)"
| "lifecycle_step INSPECT_TENANT l = (if lc_tenant l = Absent then None
     else Some (l\<lparr>lc_tenant := inspected (lc_tenant l)\<rparr>))"
| "lifecycle_step INSPECT_CERTIFICATE l = (if lc_tenant l = Absent then None else Some (l\<lparr>lc_certificate_seen := True\<rparr>))"
| "lifecycle_step ATTACH_CERTIFICATE l = (if lc_tenant l = Enabled \<and> lc_certificate_seen l then Some l else None)"
| "lifecycle_step UPDATE_TENANT l = (if lc_tenant l = Enabled then Some l else None)"
| "lifecycle_step DISABLE_TENANT l = (if lc_tenant l = Enabled then Some (l\<lparr>lc_tenant := Disabled\<rparr>) else None)"
| "lifecycle_step DELETE_TENANT l = (if lc_tenant l = Settled then Some (l\<lparr>lc_tenant := Absent\<rparr>) else None)"
| "lifecycle_step DISABLE_DISTRIBUTION l = (if lc_distribution l = Enabled \<and> lc_group l = Absent \<and> lc_tenant l = Absent
     then Some (l\<lparr>lc_distribution := Disabled\<rparr>) else None)"
| "lifecycle_step DELETE_DISTRIBUTION l = (if lc_distribution l = Settled then Some (l\<lparr>lc_distribution := Absent\<rparr>) else None)"

text \<open>The identities known when an operation runs: those of the resources that exist.\<close>

definition known_target :: "string \<Rightarrow> string \<Rightarrow> string \<Rightarrow> string \<Rightarrow> lifecycle \<Rightarrow> cloudfront_target" where
  "known_target key d g t l = \<lparr>ct_requested_key = key,
     ct_distribution_id = (if lc_distribution l = Absent then None else Some d),
     ct_connection_group_id = (if lc_group l = Absent then None else Some g),
     ct_tenant_id = (if lc_tenant l = Absent then None else Some t)\<rparr>"

text \<open>\<open>run_admitted P l ops\<close>: each operation satisfies \<open>P\<close> where it runs, and the state after all.\<close>

fun run_admitted :: "(lifecycle \<Rightarrow> ve_operation \<Rightarrow> bool) \<Rightarrow> lifecycle \<Rightarrow> ve_operation list \<Rightarrow> lifecycle option" where
  "run_admitted P l [] = Some l"
| "run_admitted P l (op # ops) = (if P l op then
     (case lifecycle_step op l of None \<Rightarrow> None | Some l' \<Rightarrow> run_admitted P l' ops) else None)"

definition admitted_when :: "string \<Rightarrow> string \<Rightarrow> string \<Rightarrow> string \<Rightarrow> ve_authority \<Rightarrow> string \<Rightarrow> lifecycle \<Rightarrow> ve_operation \<Rightarrow> bool" where
  "admitted_when key d g t au rid l op \<longleftrightarrow>
     ve_admit_request (Exact \<lparr>lr_request_id = rid, lr_adapter_id = va_adapter_id au,
        lr_source_revision = va_source_revision au, lr_provider_context = va_provider_context au,
        lr_target = known_target key d g t l, lr_operation = op,
        lr_parameters_sha256 = va_parameters_sha256 au\<rparr>)
       (Exact (au\<lparr>va_target := known_target key d g t l\<rparr>)) = Inr ()"

lemma admitted_when_iff:
  "admitted_when key d g t au rid l op \<longleftrightarrow> op \<in> va_operations au \<and>
     (op = CREATE_DISTRIBUTION \<or> lc_distribution l \<noteq> Absent) \<and>
     (op \<in> connection_group_operations \<longrightarrow> lc_group l \<noteq> Absent) \<and>
     (op \<in> tenant_operations \<longrightarrow> lc_tenant l \<noteq> Absent)"
  by (auto simp: admitted_when_def ve_admit_request_def known_target_def)



section \<open>Witnesses\<close>

lemma certificate_state_is_observed_fixture:
  "wf_certificate sample_certificate" "mc_tenant_id sample_certificate = to_tenant_id sample_tenant"
  "mc_validation_token_host sample_certificate \<noteq> Some ''self-hosted''"
  using normalized_certificate_wf(1) [OF sample_certificate_normalises]
  by (simp_all add: sample_certificate_def sample_tenant_def)

theorem certificate_state_is_observed_witness:
  "classify_certificate_state (Exact sample_tenant) (Some (Exact sample_certificate)) = Inr Cs_ACTIVE"
  using certificate_state_is_observed [OF certificate_state_is_observed_fixture]
  by (auto simp: sample_certificate_def sample_tenant_def)

definition sample_cf_target :: cloudfront_target where
  "sample_cf_target = \<lparr>ct_requested_key = ''k'', ct_distribution_id = Some ''D1'',
     ct_connection_group_id = Some ''G1'', ct_tenant_id = Some ''T1''\<rparr>"

definition sample_inputs :: tenant_inputs where
  "sample_inputs = \<lparr>ti_deployment_key = ''k'', ti_distribution_id = ''D1'', ti_connection_group_id = ''G1'',
     ti_viewer_domain = ''app.example.org'', ti_origin_domain = ''new.example.net''\<rparr>"

theorem tenant_mutation_is_exact_witness:
  "\<exists>p. plan_tenant_mutation (Exact UPDATE_TENANT) (Exact sample_cf_target) sample_tenant sample_inputs
     (PStr ''E1'') None = Inr p \<and> bound_to p ''T1'' ''E1'' (PStr ''E1'')"
proof -
  have "ok (plan_tenant_mutation (Exact UPDATE_TENANT) (Exact sample_cf_target) sample_tenant sample_inputs
     (PStr ''E1'') None)" by code_simp
  then obtain p where p: "plan_tenant_mutation (Exact UPDATE_TENANT) (Exact sample_cf_target) sample_tenant
     sample_inputs (PStr ''E1'') None = Inr p" by (auto simp: ok_iff)
  moreover have "to_tenant_id sample_tenant = ''T1''" "to_etag sample_tenant = ''E1''"
    by (simp_all add: sample_tenant_def)
  ultimately show ?thesis using tenant_mutation_is_exact [OF p] by auto
qed

definition sample_group :: connection_group_observation where
  "sample_group = \<lparr>co_connection_group_id = ''G1'', co_etag = ''E2'', co_routing_endpoint = ''d1.cloudfront.net'',
     co_enabled = True, co_deployment_status = ''Deployed'', co_is_default = False,
     co_tenant_association_present = True\<rparr>"

definition sample_remaining :: remaining where
  "sample_remaining = \<lparr>rm_tenant = Some sample_tenant, rm_group = Some sample_group,
     rm_distribution = Some \<lparr>do_distribution_id = ''D1'', do_etag = ''E3'', do_enabled = True,
       do_deployment_status = ''Deployed''\<rparr>\<rparr>"

lemma sample_owned_remaining: "owned sample_cf_target sample_inputs sample_remaining"
proof -
  have g: "wf_group sample_group" by code_simp
  have e: "good_etag ''E3''" "good_identity ''k''" by code_simp+
  show ?thesis
    using g e normalised_tenant_wf [OF sample_tenant_normalises]
    by (simp add: owned_def sample_remaining_def sample_cf_target_def sample_inputs_def)
      (simp add: sample_tenant_def sample_group_def)
qed

theorem teardown_completes_witness:
  "\<exists>w s'. teardown_step sample_cf_target sample_inputs (PDict (distribution_baseline ''r''))
     sample_remaining w s'"
proof -
  have "validate_distribution_config (PDict (distribution_baseline ''r'')) = Inr ()"
    by code_simp
  from teardown_completes [OF sample_owned_remaining this run_done] show ?thesis
    by (auto simp: sample_remaining_def gone_def)
qed

end
