(* ===== verification/Py_Text.thy ===== *)
theory Py_Text
  imports Json_Codec
begin

text \<open>
  Text templates: a template is the list of its lines; \<open>str.replace\<close>, with and without a count
  of one; and the lines of a text, which the values put into a template cannot change unless
  they hold a newline.
\<close>

section \<open>Templates\<close>

definition newline :: char where "newline = CHR 0x0A"

definition text_lines :: "string list \<Rightarrow> string" where
  "text_lines ls = concat (map (\<lambda>l. l @ [CHR 0x0A]) ls)"

definition quoted :: "string \<Rightarrow> string" where
  "quoted s = [dquote] @ s @ [dquote]"

text \<open>\<open>' '.join(words)\<close> and \<open>', '.join(words)\<close>.\<close>

definition words :: "string list \<Rightarrow> string" where
  "words ws = join_str CHR '' '' ws"

fun comma_list :: "string list \<Rightarrow> string" where
  "comma_list [] = []"
| "comma_list [w] = w"
| "comma_list (w # v # ws) = w @ '', '' @ comma_list (v # ws)"

section \<open>Replacement\<close>

text \<open>\<open>s.replace(old, new)\<close> and \<open>s.replace(old, new, 1)\<close>, for an \<open>old\<close> that is not empty.\<close>

function replace_all :: "string \<Rightarrow> string \<Rightarrow> string \<Rightarrow> string" where
  "replace_all old new [] = []"
| "replace_all old new (c # s) =
     (if old \<noteq> [] \<and> starts_with old (c # s) then new @ replace_all old new (drop (length old) (c # s))
      else c # replace_all old new s)"
  by pat_completeness auto
termination
  by (relation "measure (\<lambda>(old, new, s). length s)") auto

fun replace_first :: "string \<Rightarrow> string \<Rightarrow> string \<Rightarrow> string" where
  "replace_first old new [] = []"
| "replace_first old new (c # s) =
     (if old \<noteq> [] \<and> starts_with old (c # s) then new @ drop (length old) (c # s)
      else c # replace_first old new s)"

text \<open>A first line without a character of \<open>old\<close> is left alone, if \<open>old\<close> stays within a line.\<close>

lemma prefix_within:
  assumes "starts_with old (a @ newline # b)" and "newline \<notin> set old"
  shows "set old \<subseteq> set a"
proof -
  obtain r where r: "a @ newline # b = old @ r" using assms(1) by (auto simp: starts_with_iff)
  have "length old \<le> length a"
  proof (rule ccontr)
    assume n: "\<not> length old \<le> length a"
    then have "(old @ r) ! length a = old ! length a" by (simp add: nth_append)
    moreover have "(old @ r) ! length a = newline" unfolding r [symmetric] by simp
    ultimately have "newline \<in> set old" using n nth_mem [of "length a" old] by simp
    then show False using assms(2) by simp
  qed
  then have "old = take (length old) a" using arg_cong [OF r, of "take (length old)"] by simp
  then show ?thesis by (metis set_take_subset)
qed

lemma replace_all_line:
  assumes "x \<in> set old" and "x \<notin> set a" and "newline \<notin> set old"
  shows "replace_all old new (a @ newline # b) = a @ replace_all old new (newline # b)"
  using assms(2)
proof (induction a)
  case (Cons c a)
  have "\<not> starts_with old (c # a @ newline # b)"
    using prefix_within [of old "c # a" b] assms(1,3) Cons.prems by auto
  with Cons show ?case by simp
qed simp

lemma replace_all_newline:
  "newline \<notin> set old \<Longrightarrow> replace_all old new (newline # b) = newline # replace_all old new b"
  by (cases old) (auto simp: starts_with_def)

section \<open>Lines\<close>

definition line_count :: "string \<Rightarrow> nat" where
  "line_count s = length (filter (\<lambda>c. c = newline) s)"

lemma line_count_simps [simp]:
  "line_count [] = 0" "line_count (c # s) = (if c = newline then Suc (line_count s) else line_count s)"
  "line_count (s @ t) = line_count s + line_count t"
  by (simp_all add: line_count_def)

lemma line_count_zero: "newline \<notin> set s \<Longrightarrow> line_count s = 0"
  by (induction s) auto

text \<open>The first line.\<close>

definition first_line :: "string \<Rightarrow> string" where
  "first_line s = takeWhile (\<lambda>c. c \<noteq> newline) s"

lemma first_line_append: "newline \<notin> set a \<Longrightarrow> first_line (a @ newline # b) = a"
  unfolding first_line_def by (induction a) auto

end
