(* ===== verification/Waf.thy ===== *)
theory Waf
  imports Capability Py_Response Canonical_Digest Py_Text
begin

text \<open>
  \<open>scripts/cloudfront-waf.py\<close>: the contract of the web ACL in front of a PROTECTED
  distribution. It builds the one reviewed configuration, admits provider read-backs by an
  equality without scalar coercion, freezes the parameters of every planned operation, plans
  association, update, logging and clean-up from fresh observations, and admits requests and
  results against a separately held authority.

  Conventions as in \<open>Capability\<close> and \<open>Viewer_Edge\<close>. Names shared with another contract carry
  the prefix \<open>waf\<close>.
\<close>

section \<open>Constants and enumerations\<close>

definition DDOS_REQUEST_LABEL :: string where
  "DDOS_REQUEST_LABEL = ''awswaf:managed:aws:anti-ddos:ddos-request''"
definition MANAGED_VENDOR :: string where "MANAGED_VENDOR = ''AWS''"
definition MANAGED_NAME :: string where "MANAGED_NAME = ''AWSManagedRulesAntiDDoSRuleSet''"
definition QUALIFIED_VERSION :: string where "QUALIFIED_VERSION = ''Version_1.0''"
definition WAF_SCOPE :: string where "WAF_SCOPE = ''CLOUDFRONT''"

definition SENSITIVE_HEADERS :: "string list" where
  "SENSITIVE_HEADERS = [''authorization'', ''cookie'', ''x-secpal-origin-token'',
     ''x-secpal-viewer-host'', ''x-secpal-viewer-ip'']"

definition SUPPORTED_FIELDS :: "string list" where
  "SUPPORTED_FIELDS = [''DataProtectionConfig'', ''DefaultAction'', ''Rules'', ''VisibilityConfig'']"

definition UNSUPPORTED_FIELDS :: "string list" where
  "UNSUPPORTED_FIELDS = [''ApplicationConfig'', ''AssociationConfig'', ''CaptchaConfig'',
     ''ChallengeConfig'', ''CustomResponseBodies'', ''Description'', ''MonetizationConfig'',
     ''OnSourceDDoSProtectionConfig'', ''TokenDomains'']"

definition RESPONSE_ONLY_FIELDS :: "string list" where
  "RESPONSE_ONLY_FIELDS = [''ARN'', ''Capacity'', ''Id'', ''LabelNamespace'',
     ''ManagedByFirewallManager'', ''Name'', ''PostProcessFirewallManagerRuleGroups'',
     ''PreProcessFirewallManagerRuleGroups'', ''RetrofittedByFirewallManager'']"

definition PROVIDER_FIELDS :: "string list" where
  "PROVIDER_FIELDS = SUPPORTED_FIELDS @ UNSUPPORTED_FIELDS @ RESPONSE_ONLY_FIELDS"

definition EMPTY_MAPPING_FIELDS :: "string list" where
  "EMPTY_MAPPING_FIELDS = [''ApplicationConfig'', ''AssociationConfig'', ''CaptchaConfig'',
     ''ChallengeConfig'', ''MonetizationConfig'']"

definition ACCOUNT_ID :: rx where "ACCOUNT_ID = rx_rep 12 (Cls digit_char)"

datatype managed_rule_mode = QUALIFICATION_COUNT | ENFORCEMENT

datatype waf_operation =
    Waf_DISCOVER_MANAGED_RULE | Waf_CHECK_CAPACITY | Waf_CREATE_WEB_ACL | Waf_INSPECT_WEB_ACL
  | Waf_UPDATE_WEB_ACL | Waf_ASSOCIATE_DISTRIBUTION | Waf_INSPECT_DISTRIBUTION | Waf_INSPECT_TENANT
  | Waf_PUT_LOGGING | Waf_INSPECT_LOGGING | Waf_DELETE_LOGGING | Waf_DISASSOCIATE_DISTRIBUTION
  | Waf_DELETE_WEB_ACL

datatype waf_outcome = Waf_APPLIED | Waf_OBSERVED | Waf_FAILED

section \<open>Values\<close>

definition waf_identity :: "string \<Rightarrow> pyval \<Rightarrow> unit res" where
  "waf_identity label v =
     (case v of
        PStr s \<Rightarrow>
          (if s = [] \<or> s \<noteq> py_strip s
           then Inl (ContractError (label @ '' requires one explicit non-empty identity''))
           else if \<not> py_isprintable s \<or> 4096 < utf8_len s
           then Inl (ContractError (label @ '' is outside the bounded identity format''))
           else Inr ())
      | _ \<Rightarrow> Inl (ContractError (label @ '' requires one explicit non-empty identity'')))"

interpretation waf: identity_checker waf_identity
  by unfold_locales
    (auto simp: waf_identity_def good_identity_def MAX_IDENTITY_BYTES_def split: pyval.splits if_splits)

definition waf_token :: "string \<Rightarrow> pyval \<Rightarrow> unit res" where
  "waf_token label v = seq_res (waf_identity label v)
     (if 4096 < length (str_of v) then Inl (ContractError (label @ '' is too long'')) else Inr ())"

definition waf_mapping :: "string \<Rightarrow> pyval \<Rightarrow> pydict res" where
  "waf_mapping label v = (case v of PDict d \<Rightarrow> Inr d
     | _ \<Rightarrow> Inl (ContractError (label @ '' is outside the reviewed response shape'')))"

text \<open>\<open>type(a) is type(b)\<close>, for values that are neither a dictionary nor a list.\<close>

fun same_type :: "pyval \<Rightarrow> pyval \<Rightarrow> bool" where
  "same_type PNone b = (b = PNone)"
| "same_type (PBool _) b = is_bool b"
| "same_type (PInt _) b = is_int b"
| "same_type (PFloat _) b = (case b of PFloat _ \<Rightarrow> True | _ \<Rightarrow> False)"
| "same_type (PStr _) b = is_str b"
| "same_type (PBytes _) b = (case b of PBytes _ \<Rightarrow> True | _ \<Rightarrow> False)"
| "same_type (PTuple _) b = (case b of PTuple _ \<Rightarrow> True | _ \<Rightarrow> False)"
| "same_type (PList _) b = is_list b"
| "same_type (PDict _) b = is_dict b"
| "same_type (POther _) b = (case b of POther _ \<Rightarrow> True | _ \<Rightarrow> False)"

function typed_equal :: "pyval \<Rightarrow> pyval \<Rightarrow> bool" where
  "typed_equal a (PDict ys) = (case a of
     PDict xs \<Rightarrow> dkeys xs = dkeys ys \<and> list_all (\<lambda>(k, y). typed_equal (dget xs k) y) ys
   | _ \<Rightarrow> False)"
| "typed_equal a (PList ys) = (case a of
     PList xs \<Rightarrow> length xs = length ys \<and> list_all (\<lambda>(x, y). typed_equal x y) (zip xs ys)
   | _ \<Rightarrow> False)"
| "typed_equal a PNone = (a = PNone)"
| "typed_equal a (PBool b) = (same_type a (PBool b) \<and> py_eq a (PBool b))"
| "typed_equal a (PInt b) = (same_type a (PInt b) \<and> py_eq a (PInt b))"
| "typed_equal a (PFloat b) = (same_type a (PFloat b) \<and> py_eq a (PFloat b))"
| "typed_equal a (PStr b) = (same_type a (PStr b) \<and> py_eq a (PStr b))"
| "typed_equal a (PBytes b) = (same_type a (PBytes b) \<and> py_eq a (PBytes b))"
| "typed_equal a (PTuple b) = (same_type a (PTuple b) \<and> py_eq a (PTuple b))"
| "typed_equal a (POther b) = (same_type a (POther b) \<and> py_eq a (POther b))"
  by pat_completeness auto
termination
proof (relation "measure (\<lambda>(a, b). size b)", goal_cases)
  case (2 a ys xs z k y)
  then show ?case
    using size_list_estimation' [of "(k, y)" ys "size y" "size_prod (\<lambda>_. 0) size"] by auto
next
  case (3 a ys xs z x y)
  then show ?case
    using size_list_estimation' [of y ys "size y" size] by (auto dest: set_zip_rightD)
qed simp

text \<open>
  Frozen parameters: a \<open>MappingProxyType\<close> over frozen items, a tuple of frozen items, or a
  scalar of type \<open>str\<close>, \<open>int\<close>, \<open>bool\<close> or \<open>None\<close>.
\<close>

datatype frozen_value = FMap "(string \<times> frozen_value) list" | FTuple "frozen_value list" | FScalar pyval

fun freeze :: "pyval \<Rightarrow> frozen_value res" where
  "freeze (PDict d) = bind_res (map_res (\<lambda>(k, v). bind_res (freeze v) (\<lambda>f. Inr (k, f))) d) (\<lambda>fs. Inr (FMap fs))"
| "freeze (PList xs) = bind_res (map_res freeze xs) (\<lambda>fs. Inr (FTuple fs))"
| "freeze (PStr s) = Inr (FScalar (PStr s))"
| "freeze (PInt i) = Inr (FScalar (PInt i))"
| "freeze (PBool b) = Inr (FScalar (PBool b))"
| "freeze PNone = Inr (FScalar PNone)"
| "freeze _ = Inl (ContractError ''provider parameters are outside the immutable request shape'')"

fun materialize :: "frozen_value \<Rightarrow> pyval" where
  "materialize (FMap fs) = PDict (map (\<lambda>(k, f). (k, materialize f)) fs)"
| "materialize (FTuple fs) = PList (map materialize fs)"
| "materialize (FScalar v) = v"

section \<open>Logging destinations\<close>

text \<open>\<open>pattern.fullmatch(v) is None\<close>: a \<open>TypeError\<close> for anything but a string.\<close>

definition no_match :: "rx \<Rightarrow> pyval \<Rightarrow> bool res" where
  "no_match r v = (case v of PStr s \<Rightarrow> Inr (\<not> fullmatch r s) | _ \<Rightarrow> Inl TypeError)"

record waf_context =
  wc_partition :: string
  wc_account_id :: string
  wc_waf_region :: string

definition new_waf_context :: "pyval \<Rightarrow> pyval \<Rightarrow> pyval \<Rightarrow> waf_context res" where
  "new_waf_context aws_partition account_id region =
     (if \<not> py_eq aws_partition (PStr ''aws'') \<or> \<not> py_eq region (PStr ''us-east-1'')
      then Inl (ContractError ''PROTECTED WAF requires aws/us-east-1'')
      else bind_res (no_match ACCOUNT_ID account_id) (\<lambda>bad.
        if bad then Inl (ContractError ''AWS account identity must contain exactly 12 digits'')
        else Inr \<lparr>wc_partition = str_of aws_partition, wc_account_id = str_of account_id,
               wc_waf_region = str_of region\<rparr>))"

definition LOGS_PREFIX :: string where "LOGS_PREFIX = ''aws-waf-logs-''"

definition name_rx :: "(char \<Rightarrow> bool) \<Rightarrow> rx" where
  "name_rx P = Seq (rx_lit LOGS_PREFIX) (rx_plus (Cls P))"

definition valid_destination_name :: "string \<Rightarrow> string \<Rightarrow> bool" where
  "valid_destination_name service name =
     (if service = ''logs''
      then length name \<le> 512 \<and> fullmatch (name_rx (\<lambda>c. alnum_char c \<or> c \<in> set ''._/#-'')) name
      else if service = ''firehose''
      then length name \<le> 64 \<and> fullmatch (name_rx (\<lambda>c. alnum_char c \<or> c \<in> set ''._-'')) name
      else length name \<le> 63 \<and> fullmatch (name_rx (\<lambda>c. lower_alnum c \<or> c \<in> set ''.-'')) name
        \<and> \<not> contains_str ''..'' name \<and> \<not> contains_str ''.-'' name \<and> \<not> contains_str ''-.'' name)"

text \<open>The name part of the resource, after the checks of region and account.\<close>

definition destination_name :: "string \<Rightarrow> string \<Rightarrow> string \<Rightarrow> string \<Rightarrow> waf_context option \<Rightarrow> string res" where
  "destination_name service region account_id resource ctx =
     (if service = ''s3''
      then (if region \<noteq> [] \<or> account_id \<noteq> []
            then Inl (ContractError ''S3 logging destination has invalid ARN authority fields'')
            else Inr resource)
      else if region \<noteq> ''us-east-1'' \<or> \<not> fullmatch ACCOUNT_ID account_id
      then Inl (ContractError ''logging destination region or account is invalid'')
      else if (case ctx of None \<Rightarrow> False | Some c \<Rightarrow> region \<noteq> wc_waf_region c \<or> account_id \<noteq> wc_account_id c)
      then Inl (ContractError ''logging destination does not match provider context'')
      else let prefix = (if service = ''logs'' then ''log-group:'' else ''deliverystream/'') in
        if \<not> starts_with prefix resource
        then Inl (ContractError ''logging destination resource form is invalid'')
        else Inr (remove_prefix prefix resource))"

definition validate_logging_destination_arn :: "pyval \<Rightarrow> waf_context obj option \<Rightarrow> unit res" where
  "validate_logging_destination_arn arn provider_context =
     seq_res (waf_identity ''logging destination ARN'' arn)
       (case provider_context of
          Some Alien \<Rightarrow> Inl (ContractError ''typed AWS provider context is required'')
        | _ \<Rightarrow>
          let ctx = (case provider_context of Some (Exact c) \<Rightarrow> Some c | _ \<Rightarrow> None) in
          (case py_split_max CHR '':'' 5 (str_of arn) of
             [p0, aws_partition, service, region, account_id, resource] \<Rightarrow>
               if p0 \<noteq> ''arn'' \<or> aws_partition \<noteq> ''aws''
               then Inl (ContractError ''logging destination must use the qualified aws partition'')
               else if service \<notin> {''logs'', ''s3'', ''firehose''}
               then Inl (ContractError ''logging destination is not a supported AWS WAF destination'')
               else if (case ctx of None \<Rightarrow> False | Some c \<Rightarrow> aws_partition \<noteq> wc_partition c)
               then Inl (ContractError ''logging destination partition does not match provider context'')
               else bind_res (destination_name service region account_id resource ctx) (\<lambda>name.
                 if \<not> starts_with LOGS_PREFIX name
                 then Inl (ContractError ''logging destination name lacks aws-waf-logs- prefix'')
                 else if \<not> valid_destination_name service name
                 then Inl (ContractError ''logging destination name is outside the bounded form'')
                 else Inr ())
           | _ \<Rightarrow> Inl (ContractError ''logging destination must use the qualified aws partition'')))"

record waf_target =
  wt_requested_key :: string
  wt_distribution_id :: string
  wt_web_acl_id :: "string option"
  wt_web_acl_arn :: "string option"
  wt_logging_destination_arn :: "string option"
  wt_qualification_owned :: bool

fun truth :: "pyval \<Rightarrow> bool" where
  "truth (PBool b) = b"
| "truth _ = False"

definition new_waf_target :: "pyval \<Rightarrow> pyval \<Rightarrow> pyval \<Rightarrow> pyval \<Rightarrow> pyval \<Rightarrow> pyval \<Rightarrow> waf_target res" where
  "new_waf_target requested_key distribution acl_id acl_arn logging_arn owned =
     (if \<not> is_bool owned then Inl (ContractError ''qualification ownership must be explicit boolean authority'')
      else seq_res (waf_identity ''requested WAF key'' requested_key) (
      seq_res (waf_identity ''CloudFront distribution identity'' distribution) (
      if (acl_id = PNone) \<noteq> (acl_arn = PNone)
      then Inl (ContractError ''Web ACL ID and ARN must be present together'')
      else seq_res (unless_none (waf_identity ''Web ACL identity'') acl_id) (
      seq_res (unless_none (waf_identity ''Web ACL ARN'') acl_arn) (
      seq_res (unless_none (\<lambda>v. validate_logging_destination_arn v None) logging_arn) (
      Inr \<lparr>wt_requested_key = str_of requested_key, wt_distribution_id = str_of distribution,
           wt_web_acl_id = opt_str_of acl_id, wt_web_acl_arn = opt_str_of acl_arn,
           wt_logging_destination_arn = opt_str_of logging_arn, wt_qualification_owned = truth owned\<rparr>))))))"

section \<open>Provider discovery\<close>

record managed_rule_version =
  mv_name :: string
  mv_forecasted_lifetime :: "string option"

definition new_managed_rule_version :: "pyval \<Rightarrow> pyval \<Rightarrow> managed_rule_version res" where
  "new_managed_rule_version name lifetime =
     seq_res (waf_identity ''managed-rule version'' name) (
     seq_res (unless_none (waf_identity ''managed-rule forecasted lifetime'') lifetime) (
     Inr \<lparr>mv_name = str_of name, mv_forecasted_lifetime = opt_str_of lifetime\<rparr>))"

record managed_rule =
  mr_name :: string
  mr_action :: string

definition new_managed_rule :: "pyval \<Rightarrow> pyval \<Rightarrow> managed_rule res" where
  "new_managed_rule name action =
     seq_res (waf_identity ''managed-rule name'' name) (
     seq_res (waf_identity ''managed-rule action'' action) (
     Inr \<lparr>mr_name = str_of name, mr_action = str_of action\<rparr>))"

record provider_discovery =
  pd_current_default_version :: string
  pd_available_versions :: "managed_rule_version list"
  pd_capacity :: pyval
  pd_check_capacity :: pyval
  pd_web_acl_capacity_ceiling :: pyval
  pd_available_rules :: "managed_rule list"
  pd_available_labels :: "string set"
  pd_consumed_labels :: "string set"
  pd_challenge_usage_values :: "string set"
  pd_block_sensitivity_values :: "string set"

text \<open>A field that must be a \<open>frozenset\<close> of strings.\<close>

definition string_set :: "string \<Rightarrow> string obj pyset \<Rightarrow> string set res" where
  "string_set label v = (case v of
     FrozenSet A \<Rightarrow> if Alien \<in> A then Inl (ContractError (label @ '' are outside the reviewed shape''))
                   else Inr (exact_members A)
   | _ \<Rightarrow> Inl (ContractError (label @ '' are outside the reviewed shape'')))"

definition new_provider_discovery ::
  "pyval \<Rightarrow> pyval \<Rightarrow> pyval \<Rightarrow> pyval \<Rightarrow> managed_rule_version obj list \<Rightarrow> pyval \<Rightarrow> pyval \<Rightarrow> pyval \<Rightarrow>
   managed_rule obj list \<Rightarrow> string obj pyset \<Rightarrow> string obj pyset \<Rightarrow> string obj pyset \<Rightarrow> string obj pyset \<Rightarrow>
   provider_discovery res" where
  "new_provider_discovery vendor name scope default_version versions capacity check_capacity ceiling
      rules labels consumed challenge sensitivity =
     (if \<not> py_eq vendor (PStr MANAGED_VENDOR)
      then Inl (ContractError ''managed-rule vendor is not the accepted provider identity'')
      else if \<not> py_eq name (PStr MANAGED_NAME)
      then Inl (ContractError ''managed-rule name is not the accepted provider identity'')
      else if \<not> py_eq scope (PStr WAF_SCOPE)
      then Inl (ContractError ''managed-rule scope is not the accepted provider identity'')
      else seq_res (waf_identity ''current default managed-rule version'' default_version)
        (case (versions, exacts versions) of
           (_ # _, Some vs) \<Rightarrow> (case (rules, exacts rules) of
               (_ # _, Some rs) \<Rightarrow>
                 bind_res (string_set ''available labels'' labels) (\<lambda>l.
                 bind_res (string_set ''consumed labels'' consumed) (\<lambda>c.
                 bind_res (string_set ''challenge usage values'' challenge) (\<lambda>u.
                 bind_res (string_set ''block sensitivity values'' sensitivity) (\<lambda>b.
                 Inr \<lparr>pd_current_default_version = str_of default_version, pd_available_versions = vs,
                   pd_capacity = capacity, pd_check_capacity = check_capacity,
                   pd_web_acl_capacity_ceiling = ceiling, pd_available_rules = rs,
                   pd_available_labels = l, pd_consumed_labels = c, pd_challenge_usage_values = u,
                   pd_block_sensitivity_values = b\<rparr>))))
             | _ \<Rightarrow> Inl (ContractError ''managed-rule inventory is outside the reviewed shape''))
         | _ \<Rightarrow> Inl (ContractError ''managed-rule versions are outside the reviewed shape'')))"

definition admit_provider_discovery :: "provider_discovery obj \<Rightarrow> unit res" where
  "admit_provider_discovery discovery = (case discovery of
       Alien \<Rightarrow> Inl (ContractError ''typed provider discovery is required'')
     | Exact d \<Rightarrow>
         if pd_current_default_version d \<notin> mv_name ` set (pd_available_versions d)
         then Inl (ContractError ''current default managed-rule version is unresolved'')
         else if pd_current_default_version d \<noteq> QUALIFIED_VERSION
         then Inl (ContractError ''provider default changed; requalification is required'')
         else (case (pd_capacity d, pd_check_capacity d, pd_web_acl_capacity_ceiling d) of
             (PInt capacity, PInt check_capacity, PInt ceiling) \<Rightarrow>
               if capacity \<le> 0 \<or> check_capacity \<le> 0 \<or> ceiling \<le> 0
               then Inl (ContractError ''provider capacity facts must be positive'')
               else if check_capacity \<noteq> capacity
               then Inl (ContractError ''exact CheckCapacity does not admit the managed-rule capacity'')
               else if ceiling < check_capacity
               then Inl (ContractError ''exact WAF configuration exceeds the current Web ACL ceiling'')
               else if DDOS_REQUEST_LABEL \<notin> pd_available_labels d
               then Inl (ContractError ''reviewed anti-DDoS logging label is absent'')
               else if ''DISABLED'' \<notin> pd_challenge_usage_values d
               then Inl (ContractError ''provider no longer supports disabled client-side challenge'')
               else if ''LOW'' \<notin> pd_block_sensitivity_values d
               then Inl (ContractError ''provider no longer supports low block sensitivity'')
               else Inr ()
           | _ \<Rightarrow> Inl (ContractError ''provider capacity facts must be positive'')))"

section \<open>The web ACL configuration\<close>

definition visibility :: "string \<Rightarrow> pyval" where
  "visibility metric_name = PDict [(''CloudWatchMetricsEnabled'', PBool True),
     (''MetricName'', PStr metric_name), (''SampledRequestsEnabled'', PBool False)]"

definition managed_rule_entry :: "managed_rule_mode \<Rightarrow> pyval" where
  "managed_rule_entry mode = PDict
     [(''Name'', PStr ''secpal-anti-ddos''), (''Priority'', PInt 0),
      (''Statement'', PDict [(''ManagedRuleGroupStatement'', PDict
         [(''VendorName'', PStr MANAGED_VENDOR), (''Name'', PStr MANAGED_NAME),
          (''ManagedRuleGroupConfigs'', PList [PDict [(''AWSManagedRulesAntiDDoSRuleSet'', PDict
             [(''ClientSideActionConfig'', PDict [(''Challenge'', PDict [(''UsageOfAction'', PStr ''DISABLED'')])]),
              (''SensitivityToBlock'', PStr ''LOW'')])]])])]),
      (''OverrideAction'', PDict [(if mode = QUALIFICATION_COUNT then ''Count'' else ''None'', PDict [])]),
      (''VisibilityConfig'', visibility ''secpal-anti-ddos'')]"

definition build_managed_rule :: "managed_rule_mode obj \<Rightarrow> pyval res" where
  "build_managed_rule mode = (case mode of
     Alien \<Rightarrow> Inl (ContractError ''managed-rule mode must be closed'')
   | Exact m \<Rightarrow> Inr (managed_rule_entry m))"

definition production_enforcement_accepted :: "managed_rule_mode obj \<Rightarrow> bool res" where
  "production_enforcement_accepted mode = (case mode of
     Alien \<Rightarrow> Inl (ContractError ''managed-rule mode must be closed'')
   | Exact m \<Rightarrow> Inr (m = ENFORCEMENT))"

definition data_protection :: "pydict \<Rightarrow> pyval" where
  "data_protection field = PDict [(''Action'', PStr ''SUBSTITUTION''), (''Field'', PDict field),
     (''ExcludeRateBasedDetails'', PBool False), (''ExcludeRuleMatchDetails'', PBool False)]"

definition data_protections :: pyval where
  "data_protections = PList [data_protection [(''FieldType'', PStr ''BODY'')],
     data_protection [(''FieldType'', PStr ''QUERY_STRING'')],
     data_protection [(''FieldType'', PStr ''SINGLE_HEADER''),
       (''FieldKeys'', PList (map PStr SENSITIVE_HEADERS))]]"

definition web_acl_configuration :: "managed_rule_mode \<Rightarrow> pydict" where
  "web_acl_configuration mode =
     [(''Scope'', PStr WAF_SCOPE), (''DefaultAction'', PDict [(''Allow'', PDict [])]),
      (''Rules'', PList [managed_rule_entry mode]),
      (''VisibilityConfig'', visibility ''secpal-protected-waf''),
      (''DataProtectionConfig'', PDict [(''DataProtections'', data_protections)])]"

text \<open>All string values inside a value, keys not included, in the order of the traversal.\<close>

fun walk_strings :: "pyval \<Rightarrow> string list" where
  "walk_strings (PDict d) = concat (map (\<lambda>(k, v). walk_strings v) d)"
| "walk_strings (PList xs) = concat (map walk_strings xs)"
| "walk_strings (PStr s) = [s]"
| "walk_strings _ = []"

definition validate_waf_rule_trust :: "pyval \<Rightarrow> unit res" where
  "validate_waf_rule_trust configuration =
     bind_res (waf_mapping ''WAF configuration'' configuration) (\<lambda>config.
     case dget config ''Rules'' of
       PList [rule] \<Rightarrow>
         if list_ex (\<lambda>v. py_lower v \<in> set (drop 2 SENSITIVE_HEADERS)) (walk_strings (PList [rule]))
         then Inl (ContractError ''WAF rule configuration trusts a Function-bound header'')
         else Inr ()
     | _ \<Rightarrow> Inl (ContractError ''shared WAF requires exactly one managed rule entry''))"

definition accepted_modes :: "bool \<Rightarrow> managed_rule_mode list" where
  "accepted_modes qualification_owned =
     (if qualification_owned then [QUALIFICATION_COUNT, ENFORCEMENT] else [ENFORCEMENT])"

definition validate_complete_web_acl :: "pyval \<Rightarrow> bool \<Rightarrow> unit res" where
  "validate_complete_web_acl configuration qualification_owned =
     bind_res (waf_mapping ''complete WAF configuration'' configuration) (\<lambda>config.
     seq_res (validate_waf_rule_trust (PDict config)) (
     if \<not> list_ex (\<lambda>mode. typed_equal (PDict config) (PDict (web_acl_configuration mode)))
         (accepted_modes qualification_owned)
     then Inl (ContractError ''complete WAF configuration escapes the shared baseline'')
     else Inr ()))"

definition build_web_acl :: "managed_rule_mode obj \<Rightarrow> bool \<Rightarrow> pydict res" where
  "build_web_acl mode qualification_owned = (case mode of
     Alien \<Rightarrow> Inl (ContractError ''managed-rule mode must be closed'')
   | Exact m \<Rightarrow> seq_res (validate_complete_web_acl (PDict (web_acl_configuration m)) qualification_owned)
       (Inr (web_acl_configuration m)))"

definition waf_contract_for_viewer_headers :: "pyval \<Rightarrow> pydict res" where
  "waf_contract_for_viewer_headers headers = (case headers of
     PDict d \<Rightarrow> if \<not> list_all (is_str \<circ> snd) d
       then Inl (ContractError ''Viewer headers must be ordinary string request data'')
       else build_web_acl (Exact ENFORCEMENT) False
   | _ \<Rightarrow> Inl (ContractError ''Viewer headers must be ordinary string request data''))"

section \<open>Logging\<close>

definition redacted_fields :: pyval where
  "redacted_fields = PList ([PDict [(''UriPath'', PDict [])], PDict [(''QueryString'', PDict [])]] @
     map (\<lambda>h. PDict [(''SingleHeader'', PDict [(''Name'', PStr h)])]) SENSITIVE_HEADERS)"

definition logging_configuration :: "string \<Rightarrow> string \<Rightarrow> pydict" where
  "logging_configuration acl_arn destination =
     [(''ResourceArn'', PStr acl_arn), (''LogDestinationConfigs'', PList [PStr destination]),
      (''RedactedFields'', redacted_fields),
      (''LoggingFilter'', PDict [(''DefaultBehavior'', PStr ''DROP''),
         (''Filters'', PList [PDict [(''Behavior'', PStr ''KEEP''), (''Requirement'', PStr ''MEETS_ANY''),
            (''Conditions'', PList [PDict [(''LabelNameCondition'',
               PDict [(''LabelName'', PStr DDOS_REQUEST_LABEL)])]])]])])]"

definition build_logging_configuration :: "waf_target obj \<Rightarrow> pydict res" where
  "build_logging_configuration target = (case target of
     Alien \<Rightarrow> Inl (ContractError ''logging requires the exact Web ACL ARN'')
   | Exact t \<Rightarrow> (case wt_web_acl_arn t of
       None \<Rightarrow> Inl (ContractError ''logging requires the exact Web ACL ARN'')
     | Some arn \<Rightarrow> (case wt_logging_destination_arn t of
         None \<Rightarrow> Inl (ContractError ''logging requires one exact caller-supplied destination'')
       | Some destination \<Rightarrow> Inr (logging_configuration arn destination))))"

record logging_observation =
  lo_resource_arn :: string
  lo_configuration :: "frozen_value option"

definition new_logging_observation :: "pyval \<Rightarrow> pyval \<Rightarrow> logging_observation res" where
  "new_logging_observation resource_arn configuration =
     seq_res (waf_identity ''logging observation resource ARN'' resource_arn)
       (if configuration = PNone
        then Inr \<lparr>lo_resource_arn = str_of resource_arn, lo_configuration = None\<rparr>
        else bind_res (waf_mapping ''logging observation configuration'' configuration) (\<lambda>c.
          bind_res (freeze (PDict c)) (\<lambda>f.
          Inr \<lparr>lo_resource_arn = str_of resource_arn, lo_configuration = Some f\<rparr>)))"

definition validate_logging_observation ::
  "logging_observation obj \<Rightarrow> waf_target obj \<Rightarrow> waf_context obj \<Rightarrow> unit res" where
  "validate_logging_observation observation target provider_context =
     (case (observation, target, provider_context) of
        (Exact ob, Exact t, Exact ctx) \<Rightarrow>
          if Some (lo_resource_arn ob) \<noteq> wt_web_acl_arn t
          then Inl (ContractError ''logging observation does not match the exact Web ACL'')
          else (case lo_configuration ob of
              None \<Rightarrow> Inl (ContractError ''required logging configuration is absent'')
            | Some f \<Rightarrow>
                let configuration = materialize f in
                (case dget (dict_of configuration) ''LogDestinationConfigs'' of
                   PList [destination] \<Rightarrow>
                     seq_res (validate_logging_destination_arn destination (Some (Exact ctx))) (
                     bind_res (build_logging_configuration target) (\<lambda>expected.
                     if \<not> typed_equal configuration (PDict expected)
                     then Inl (ContractError ''logging observation weakens the admitted configuration'')
                     else Inr ()))
                 | _ \<Rightarrow> Inl (ContractError ''logging observation requires one exact destination'')))
      | _ \<Rightarrow> Inl (ContractError ''typed logging observation inputs are required''))"

definition normalize_logging_observation ::
  "pyval \<Rightarrow> waf_target obj \<Rightarrow> waf_context obj \<Rightarrow> logging_observation res" where
  "normalize_logging_observation response target provider_context =
     (case (target, provider_context) of
        (Exact t, Exact ctx) \<Rightarrow>
          bind_res (waf_mapping ''GetLoggingConfiguration response'' response) (\<lambda>r.
          let configuration = dget r ''LoggingConfiguration'' in
          if configuration = PNone
          then (case wt_web_acl_arn t of
              None \<Rightarrow> Inl (ContractError ''logging observation requires the exact Web ACL ARN'')
            | Some arn \<Rightarrow> new_logging_observation (PStr arn) PNone)
          else bind_res (waf_mapping ''GetLoggingConfiguration configuration'' configuration) (\<lambda>c.
            bind_res (new_logging_observation (dget c ''ResourceArn'') (PDict c)) (\<lambda>ob.
            seq_res (validate_logging_observation (Exact ob) target provider_context) (Inr ob))))
      | _ \<Rightarrow> Inl (ContractError ''typed logging observation context is required''))"

section \<open>Observations\<close>

record tenant_waf_observation =
  tw_tenant_id :: string
  tw_distribution_id :: string

definition normalize_tenant_waf_observation :: "pyval \<Rightarrow> waf_target obj \<Rightarrow> tenant_waf_observation res" where
  "normalize_tenant_waf_observation response target = (case target of
     Alien \<Rightarrow> Inl (ContractError ''typed WAF target is required'')
   | Exact t \<Rightarrow>
       bind_res (waf_mapping ''response'' response) (\<lambda>r.
       bind_res (waf_mapping ''Distribution Tenant response'' (dget r ''DistributionTenant'')) (\<lambda>tenant.
       let tenant_id = dget tenant ''Id''; distribution = dget tenant ''DistributionId'';
           observed = \<lparr>tw_tenant_id = str_of tenant_id, tw_distribution_id = str_of distribution\<rparr> in
       seq_res (waf_identity ''Distribution Tenant identity'' tenant_id) (
       if \<not> py_eq distribution (PStr (wt_distribution_id t))
       then Inl (ContractError ''tenant does not belong to the exact shared distribution'')
       else if dget tenant ''Customizations'' = PNone then Inr observed
       else bind_res (waf_mapping ''tenant customizations'' (dget tenant ''Customizations'')) (\<lambda>customizations.
       if dget customizations ''WebAcl'' = PNone then Inr observed
       else bind_res (waf_mapping ''tenant WebAcl customization'' (dget customizations ''WebAcl'')) (\<lambda>web_acl.
       bind_res (in_strings (dget web_acl ''Action'') [''override'', ''disable'']) (\<lambda>known.
       if known then Inl (ContractError ''tenant WAF override or disable escapes the shared baseline'')
       else Inl (ContractError ''tenant WebAcl customization has an unknown action''))))))))"

record waf_distribution_observation =
  wd_distribution_id :: string
  wd_etag :: string
  wd_web_acl_arn :: "string option"

definition new_waf_distribution_observation :: "pyval \<Rightarrow> pyval \<Rightarrow> pyval \<Rightarrow> waf_distribution_observation res" where
  "new_waf_distribution_observation distribution etag acl_arn =
     seq_res (waf_identity ''distribution identity'' distribution) (
     seq_res (waf_token ''CloudFront ETag'' etag) (
     seq_res (unless_none (waf_identity ''observed distribution Web ACL ARN'') acl_arn) (
     Inr \<lparr>wd_distribution_id = str_of distribution, wd_etag = str_of etag,
          wd_web_acl_arn = opt_str_of acl_arn\<rparr>)))"

record web_acl_observation =
  wo_web_acl_id :: string
  wo_web_acl_arn :: string
  wo_web_acl_name :: string
  wo_lock_token :: string
  wo_configuration :: pydict

definition new_web_acl_observation ::
  "pyval \<Rightarrow> pyval \<Rightarrow> pyval \<Rightarrow> pyval \<Rightarrow> pyval \<Rightarrow> web_acl_observation res" where
  "new_web_acl_observation acl_id acl_arn acl_name lock_token configuration =
     seq_res (waf_identity ''Web ACL identity'' acl_id) (
     seq_res (waf_identity ''Web ACL ARN'' acl_arn) (
     seq_res (waf_identity ''Web ACL name'' acl_name) (
     seq_res (waf_token ''WAF LockToken'' lock_token) (
     bind_res (waf_mapping ''complete Web ACL configuration'' configuration) (\<lambda>c.
     Inr \<lparr>wo_web_acl_id = str_of acl_id, wo_web_acl_arn = str_of acl_arn,
          wo_web_acl_name = str_of acl_name, wo_lock_token = str_of lock_token, wo_configuration = c\<rparr>)))))"

text \<open>
  An unsupported field counts as absent when its value is \<open>None\<close> or the empty value of its kind.
  The code visits these fields in the order of a set; the model visits them in alphabetical
  order, which only decides which of several offending fields the message names.
\<close>

definition semantically_absent :: "string \<Rightarrow> pyval \<Rightarrow> bool" where
  "semantically_absent field v \<longleftrightarrow>
     (if field = ''Description'' then v = PStr []
      else if field = ''TokenDomains'' then v = PList []
      else if field = ''CustomResponseBodies'' then v = PDict []
      else if field \<in> set EMPTY_MAPPING_FIELDS then v = PDict []
      else False)"

definition check_unsupported :: "pydict \<Rightarrow> string \<Rightarrow> unit res" where
  "check_unsupported response field = (case map_of response field of
     None \<Rightarrow> Inr ()
   | Some v \<Rightarrow>
       if v = PNone \<or> semantically_absent field v then Inr ()
       else Inl (ContractError (''unsupported mutable Web ACL field '' @ field @ '' is configured'')))"

definition project_web_acl_configuration :: "pyval \<Rightarrow> pydict res" where
  "project_web_acl_configuration web_acl =
     bind_res (waf_mapping ''GetWebACL WebACL'' web_acl) (\<lambda>response.
     let unclassified = filter (\<lambda>k. k \<notin> set PROVIDER_FIELDS) (map fst response) in
     if unclassified \<noteq> []
     then Inl (ContractError (''unclassified Web ACL provider fields: '' @ comma_list (sort unclassified)))
     else seq_res (each (check_unsupported response) UNSUPPORTED_FIELDS)
       (Inr ((''Scope'', PStr WAF_SCOPE) #
          filter (\<lambda>(k, v). k \<in> set SUPPORTED_FIELDS) response)))"

definition exact_web_acl :: "waf_target \<Rightarrow> web_acl_observation \<Rightarrow> unit res" where
  "exact_web_acl t ob =
     (if wt_web_acl_id t \<noteq> Some (wo_web_acl_id ob) \<or> wt_web_acl_arn t \<noteq> Some (wo_web_acl_arn ob)
        \<or> wt_requested_key t \<noteq> wo_web_acl_name ob
      then Inl (ContractError ''Web ACL observation does not match the exact target'') else Inr ())"

definition normalize_web_acl_observation :: "pyval \<Rightarrow> waf_target obj \<Rightarrow> web_acl_observation res" where
  "normalize_web_acl_observation response target = (case target of
     Alien \<Rightarrow> Inl (ContractError ''typed WAF target is required'')
   | Exact t \<Rightarrow>
       bind_res (waf_mapping ''GetWebACL response'' response) (\<lambda>r.
       bind_res (waf_mapping ''GetWebACL WebACL'' (dget r ''WebACL'')) (\<lambda>acl.
       bind_res (project_web_acl_configuration (PDict acl)) (\<lambda>configuration.
       bind_res (new_web_acl_observation (dget acl ''Id'') (dget acl ''ARN'') (dget acl ''Name'')
           (dget r ''LockToken'') (PDict configuration)) (\<lambda>ob.
       seq_res (exact_web_acl t ob) (Inr ob))))))"

definition normalize_distribution_observation ::
  "pyval \<Rightarrow> waf_target obj \<Rightarrow> waf_distribution_observation res" where
  "normalize_distribution_observation response target = (case target of
     Alien \<Rightarrow> Inl (ContractError ''typed WAF target is required'')
   | Exact t \<Rightarrow>
       bind_res (waf_mapping ''GetDistributionConfig response'' response) (\<lambda>r.
       bind_res (waf_mapping ''distribution configuration'' (dget r ''DistributionConfig'')) (\<lambda>config.
       let acl = dget config ''WebACLId''; acl_arn = (if py_eq acl (PStr []) then PNone else acl) in
       bind_res (new_waf_distribution_observation
           (dget_default r ''Id'' (PStr (wt_distribution_id t))) (dget r ''ETag'') acl_arn) (\<lambda>ob.
       if wd_distribution_id ob \<noteq> wt_distribution_id t
       then Inl (ContractError ''distribution observation does not match the exact target'')
       else Inr ob))))"

section \<open>Plans\<close>

record waf_plan =
  wp_operation :: waf_operation
  wp_api_operation :: string
  wp_resource_id :: string
  wp_parameters :: frozen_value
  wp_if_match :: "string option"
  wp_lock_token :: "string option"

definition new_waf_plan ::
  "waf_operation \<Rightarrow> string \<Rightarrow> string \<Rightarrow> pyval \<Rightarrow> string option \<Rightarrow> string option \<Rightarrow> waf_plan res" where
  "new_waf_plan op api resource parameters if_match lock_token =
     bind_res (waf_mapping ''provider parameters'' parameters) (\<lambda>p.
     bind_res (freeze (PDict p)) (\<lambda>f.
     Inr \<lparr>wp_operation = op, wp_api_operation = api, wp_resource_id = resource, wp_parameters = f,
          wp_if_match = if_match, wp_lock_token = lock_token\<rparr>))"

definition materialize_parameters :: "waf_plan \<Rightarrow> pyval" where
  "materialize_parameters p = materialize (wp_parameters p)"

text \<open>\<open>{"Name": name, **d}\<close>.\<close>

definition named :: "string \<Rightarrow> pydict \<Rightarrow> pydict" where
  "named name d = foldl (\<lambda>acc (k, v). dput k v acc) [(''Name'', PStr name)] d"

definition plan_create_web_acl :: "waf_target obj \<Rightarrow> managed_rule_mode obj \<Rightarrow> waf_plan res" where
  "plan_create_web_acl target mode = (case target of
     Alien \<Rightarrow> Inl (ContractError ''typed WAF target is required'')
   | Exact t \<Rightarrow>
       if wt_web_acl_id t \<noteq> None \<or> wt_web_acl_arn t \<noteq> None
       then Inl (ContractError ''create requires a target without an existing Web ACL'')
       else bind_res (build_web_acl mode (wt_qualification_owned t)) (\<lambda>c.
         new_waf_plan Waf_CREATE_WEB_ACL ''CreateWebACL'' (wt_requested_key t)
           (PDict (named (wt_requested_key t) c)) None None))"

definition plan_associate_distribution ::
  "waf_target obj \<Rightarrow> waf_distribution_observation obj \<Rightarrow> pyval \<Rightarrow> waf_plan option res" where
  "plan_associate_distribution target observation admitted_etag =
     (case (target, observation) of
        (Exact t, Exact ob) \<Rightarrow>
          if wd_distribution_id ob \<noteq> wt_distribution_id t \<or> \<not> py_eq admitted_etag (PStr (wd_etag ob))
          then Inl (ContractError ''distribution ETag is missing, stale, or mismatched'')
          else (case wt_web_acl_arn t of
              None \<Rightarrow> Inl (ContractError ''association requires the exact shared Web ACL ARN'')
            | Some arn \<Rightarrow>
                if wd_web_acl_arn ob = Some arn then Inr None
                else if wd_web_acl_arn ob \<noteq> None
                then Inl (ContractError ''distribution Web ACL association ownership mismatch'')
                else bind_res (new_waf_plan Waf_ASSOCIATE_DISTRIBUTION ''AssociateDistributionWebACL''
                    (wt_distribution_id t) (PDict [(''WebACLArn'', PStr arn)]) (Some (wd_etag ob)) None)
                  (\<lambda>p. Inr (Some p)))
      | _ \<Rightarrow> Inl (ContractError ''typed association inputs are required''))"

definition plan_update_web_acl ::
  "waf_target obj \<Rightarrow> web_acl_observation obj \<Rightarrow> pyval \<Rightarrow> pyval \<Rightarrow> waf_plan res" where
  "plan_update_web_acl target observation admitted_lock_token desired =
     (case (target, observation) of
        (Exact t, Exact ob) \<Rightarrow>
          seq_res (exact_web_acl t ob) (
          if \<not> py_eq admitted_lock_token (PStr (wo_lock_token ob))
          then Inl (ContractError ''WAF LockToken is missing, stale, or mismatched'')
          else seq_res (validate_complete_web_acl desired (wt_qualification_owned t))
            (new_waf_plan Waf_UPDATE_WEB_ACL ''UpdateWebACL'' (wo_web_acl_id ob)
              (PDict (named (wo_web_acl_name ob) (dict_of desired))) None (Some (wo_lock_token ob))))
      | _ \<Rightarrow> Inl (ContractError ''typed Web ACL update inputs are required''))"

definition plan_rollback ::
  "waf_target obj \<Rightarrow> web_acl_observation obj \<Rightarrow> pyval \<Rightarrow> pyval \<Rightarrow> waf_plan res" where
  "plan_rollback target current admitted_lock_token prior =
     plan_update_web_acl target current admitted_lock_token prior"

definition plan_logging_configuration :: "waf_target obj \<Rightarrow> waf_operation obj \<Rightarrow> waf_plan res" where
  "plan_logging_configuration target operation =
     (case target of
        Alien \<Rightarrow> Inl (ContractError ''logging lifecycle requires the exact Web ACL ARN'')
      | Exact t \<Rightarrow> (case wt_web_acl_arn t of
          None \<Rightarrow> Inl (ContractError ''logging lifecycle requires the exact Web ACL ARN'')
        | Some arn \<Rightarrow> (case operation of
            Alien \<Rightarrow> Inl (ContractError ''logging operation must be closed'')
          | Exact op \<Rightarrow>
              if op = Waf_PUT_LOGGING
              then bind_res (build_logging_configuration target) (\<lambda>c.
                new_waf_plan op ''PutLoggingConfiguration'' arn (PDict c) None None)
              else if op = Waf_INSPECT_LOGGING
              then new_waf_plan op ''GetLoggingConfiguration'' arn (PDict [(''ResourceArn'', PStr arn)]) None None
              else if op = Waf_DELETE_LOGGING
              then new_waf_plan op ''DeleteLoggingConfiguration'' arn (PDict [(''ResourceArn'', PStr arn)]) None None
              else Inl (ContractError ''operation is not a logging lifecycle operation''))))"

definition plan_cleanup ::
  "waf_target obj \<Rightarrow> web_acl_observation \<Rightarrow> waf_distribution_observation \<Rightarrow> logging_observation obj \<Rightarrow>
   pyval \<Rightarrow> pyval \<Rightarrow> waf_plan list res" where
  "plan_cleanup target web_acl distribution logging admitted_lock_token admitted_etag =
     (case (target, logging) of
        (Exact t, Exact lg) \<Rightarrow>
          if \<not> wt_qualification_owned t
          then Inl (ContractError ''only exact qualification-owned resources authorize cleanup'')
          else seq_res (exact_web_acl t web_acl) (
          if wd_distribution_id distribution \<noteq> wt_distribution_id t
          then Inl (ContractError ''cleanup distribution does not match the exact target'')
          else if \<not> py_eq admitted_lock_token (PStr (wo_lock_token web_acl))
            \<or> \<not> py_eq admitted_etag (PStr (wd_etag distribution))
          then Inl (ContractError ''cleanup requires fresh WAF LockToken and CloudFront ETag'')
          else if wd_web_acl_arn distribution \<noteq> None \<and> wd_web_acl_arn distribution \<noteq> wt_web_acl_arn t
          then Inl (ContractError ''cleanup Web ACL association ownership mismatch'')
          else if Some (lo_resource_arn lg) \<noteq> wt_web_acl_arn t
          then Inl (ContractError ''cleanup logging observation does not match the exact target'')
          else if lo_configuration lg \<noteq> None
          then bind_res (plan_logging_configuration target (Exact Waf_DELETE_LOGGING)) (\<lambda>p. Inr [p])
          else if wd_web_acl_arn distribution = wt_web_acl_arn t
          then bind_res (new_waf_plan Waf_DISASSOCIATE_DISTRIBUTION ''DisassociateDistributionWebACL''
              (wd_distribution_id distribution) (PDict []) (Some (wd_etag distribution)) None) (\<lambda>p. Inr [p])
          else bind_res (new_waf_plan Waf_DELETE_WEB_ACL ''DeleteWebACL'' (wo_web_acl_id web_acl)
              (PDict []) None (Some (wo_lock_token web_acl))) (\<lambda>p. Inr [p]))
      | _ \<Rightarrow> Inl (ContractError ''only exact qualification-owned resources authorize cleanup''))"

section \<open>Authority, requests and results\<close>

text \<open>\<open>SHA1.fullmatch(a) is None or SHA256.fullmatch(b) is None\<close>.\<close>

definition bad_digests :: "pyval \<Rightarrow> pyval \<Rightarrow> bool res" where
  "bad_digests source parameters =
     bind_res (no_match SHA1 source) (\<lambda>bad. if bad then Inr True else no_match SHA256 parameters)"

definition check_target_logging :: "waf_target \<Rightarrow> waf_context \<Rightarrow> unit res" where
  "check_target_logging t c = (case wt_logging_destination_arn t of
     None \<Rightarrow> Inr () | Some arn \<Rightarrow> validate_logging_destination_arn (PStr arn) (Some (Exact c)))"

record waf_authority =
  wa_authorization_id :: string
  wa_adapter_id :: string
  wa_source_revision :: string
  wa_provider_context :: waf_context
  wa_target :: waf_target
  wa_operations :: "waf_operation set"
  wa_parameters_sha256 :: string
  wa_credential_mechanism :: string

definition new_waf_authority ::
  "pyval \<Rightarrow> pyval \<Rightarrow> pyval \<Rightarrow> waf_context obj \<Rightarrow> waf_target obj \<Rightarrow> waf_operation obj pyset \<Rightarrow> pyval \<Rightarrow>
   pyval \<Rightarrow> waf_authority res" where
  "new_waf_authority authorization_id adapter_id source_revision ctx target operations parameters_sha256
      credential_mechanism =
     seq_res (waf_identity ''authorization identity'' authorization_id) (
     seq_res (waf_identity ''adapter identity'' adapter_id) (
     seq_res (waf_identity ''credential mechanism'' credential_mechanism) (
     bind_res (bad_digests source_revision parameters_sha256) (\<lambda>bad.
     if bad then Inl (ContractError ''authority requires exact source and parameter digests'')
     else (case (ctx, target) of
         (Exact c, Exact t) \<Rightarrow>
           seq_res (check_target_logging t c) (case operations of
               FrozenSet ops \<Rightarrow>
                 if ops = {} \<or> Alien \<in> ops
                 then Inl (ContractError ''authority requires closed WAF operations'')
                 else Inr \<lparr>wa_authorization_id = str_of authorization_id, wa_adapter_id = str_of adapter_id,
                   wa_source_revision = str_of source_revision, wa_provider_context = c, wa_target = t,
                   wa_operations = exact_members ops, wa_parameters_sha256 = str_of parameters_sha256,
                   wa_credential_mechanism = str_of credential_mechanism\<rparr>
             | _ \<Rightarrow> Inl (ContractError ''authority requires closed WAF operations''))
       | _ \<Rightarrow> Inl (ContractError ''authority requires exact provider context and target''))))))"

record waf_request =
  wq_request_id :: string
  wq_adapter_id :: string
  wq_source_revision :: string
  wq_provider_context :: waf_context
  wq_target :: waf_target
  wq_operation :: waf_operation
  wq_parameters_sha256 :: string

definition new_waf_request ::
  "pyval \<Rightarrow> pyval \<Rightarrow> pyval \<Rightarrow> waf_context obj \<Rightarrow> waf_target obj \<Rightarrow> waf_operation obj \<Rightarrow> pyval \<Rightarrow>
   waf_request res" where
  "new_waf_request request_id adapter_id source_revision ctx target operation parameters_sha256 =
     seq_res (waf_identity ''request identity'' request_id) (
     seq_res (waf_identity ''adapter identity'' adapter_id) (
     bind_res (bad_digests source_revision parameters_sha256) (\<lambda>bad.
     if bad then Inl (ContractError ''request requires exact source and parameter digests'')
     else (case (ctx, target, operation) of
         (Exact c, Exact t, Exact op) \<Rightarrow>
           seq_res (check_target_logging t c)
             (Inr \<lparr>wq_request_id = str_of request_id, wq_adapter_id = str_of adapter_id,
                wq_source_revision = str_of source_revision, wq_provider_context = c, wq_target = t,
                wq_operation = op, wq_parameters_sha256 = str_of parameters_sha256\<rparr>)
       | _ \<Rightarrow> Inl (ContractError ''request is outside the closed WAF contract'')))))"

text \<open>
  A result checks only its outcome and its diagnostic code when it is made; the strings that
  bind it to a request are kept as given. Its context, target and operation are instances.
\<close>

record waf_result =
  wr_request_id :: pyval
  wr_adapter_id :: pyval
  wr_source_revision :: pyval
  wr_provider_context :: waf_context
  wr_target :: waf_target
  wr_operation :: waf_operation
  wr_parameters_sha256 :: pyval
  wr_outcome :: waf_outcome
  wr_diagnostic_code :: "string option"
  wr_logging_observation :: "logging_observation obj option"

definition new_waf_result ::
  "pyval \<Rightarrow> pyval \<Rightarrow> pyval \<Rightarrow> waf_context \<Rightarrow> waf_target \<Rightarrow> waf_operation \<Rightarrow> pyval \<Rightarrow> waf_outcome obj \<Rightarrow>
   pyval \<Rightarrow> logging_observation obj option \<Rightarrow> waf_result res" where
  "new_waf_result request_id adapter_id source_revision ctx target operation parameters_sha256 outcome
      diagnostic_code logging =
     (case outcome of
        Alien \<Rightarrow> Inl (ContractError ''result outcome is outside the closed WAF contract'')
      | Exact out \<Rightarrow>
          seq_res (unless_none (waf_identity ''bounded diagnostic code'') diagnostic_code) (
          if diagnostic_code \<noteq> PNone \<and> \<not> matches_str DIAGNOSTIC diagnostic_code
          then Inl (ContractError ''diagnostic code is outside the bounded format'')
          else Inr \<lparr>wr_request_id = request_id, wr_adapter_id = adapter_id,
            wr_source_revision = source_revision, wr_provider_context = ctx, wr_target = target,
            wr_operation = operation, wr_parameters_sha256 = parameters_sha256, wr_outcome = out,
            wr_diagnostic_code = opt_str_of diagnostic_code, wr_logging_observation = logging\<rparr>))"

definition waf_admit_request :: "waf_request obj \<Rightarrow> waf_authority obj \<Rightarrow> unit res" where
  "waf_admit_request request authority =
     (case (request, authority) of
        (Exact rq, Exact au) \<Rightarrow>
          if (wq_adapter_id rq, wq_source_revision rq, wq_provider_context rq, wq_target rq, wq_parameters_sha256 rq)
            \<noteq> (wa_adapter_id au, wa_source_revision au, wa_provider_context au, wa_target au, wa_parameters_sha256 au)
          then Inl (ContractError ''request is not bound to the exact execution authority'')
          else if wq_operation rq \<notin> wa_operations au
          then Inl (ContractError ''WAF operation is not authorized'')
          else if wq_operation rq = Waf_DELETE_WEB_ACL \<and> \<not> wt_qualification_owned (wq_target rq)
          then Inl (ContractError ''Web ACL deletion requires qualification cleanup ownership'')
          else Inr ()
      | _ \<Rightarrow> Inl (ContractError ''typed request and authority are required''))"

fun successful_outcome :: "waf_operation \<Rightarrow> waf_outcome" where
  "successful_outcome Waf_DISCOVER_MANAGED_RULE = Waf_OBSERVED"
| "successful_outcome Waf_CHECK_CAPACITY = Waf_OBSERVED"
| "successful_outcome Waf_CREATE_WEB_ACL = Waf_APPLIED"
| "successful_outcome Waf_INSPECT_WEB_ACL = Waf_OBSERVED"
| "successful_outcome Waf_UPDATE_WEB_ACL = Waf_APPLIED"
| "successful_outcome Waf_ASSOCIATE_DISTRIBUTION = Waf_APPLIED"
| "successful_outcome Waf_INSPECT_DISTRIBUTION = Waf_OBSERVED"
| "successful_outcome Waf_INSPECT_TENANT = Waf_OBSERVED"
| "successful_outcome Waf_PUT_LOGGING = Waf_APPLIED"
| "successful_outcome Waf_INSPECT_LOGGING = Waf_OBSERVED"
| "successful_outcome Waf_DELETE_LOGGING = Waf_APPLIED"
| "successful_outcome Waf_DISASSOCIATE_DISTRIBUTION = Waf_APPLIED"
| "successful_outcome Waf_DELETE_WEB_ACL = Waf_APPLIED"

definition result_logging :: "waf_request \<Rightarrow> waf_result \<Rightarrow> unit res" where
  "result_logging rq rs =
     (if wr_outcome rs = Waf_FAILED
      then (if wr_logging_observation rs \<noteq> None
            then Inl (ContractError ''failed result cannot carry admitted logging state'') else Inr ())
      else if wq_operation rq = Waf_INSPECT_LOGGING
      then (case wr_logging_observation rs of
          Some (Exact ob) \<Rightarrow>
            validate_logging_observation (Exact ob) (Exact (wq_target rq)) (Exact (wq_provider_context rq))
        | _ \<Rightarrow> Inl (ContractError ''logging inspection requires semantic observation''))
      else if wr_logging_observation rs \<noteq> None
      then Inl (ContractError ''operation cannot carry a logging observation'')
      else Inr ())"

definition waf_admit_result :: "waf_request obj \<Rightarrow> waf_result obj \<Rightarrow> unit res" where
  "waf_admit_result request result =
     (case (request, result) of
        (Exact rq, Exact rs) \<Rightarrow>
          if \<not> py_eq (wr_request_id rs) (PStr (wq_request_id rq))
            \<or> \<not> py_eq (wr_adapter_id rs) (PStr (wq_adapter_id rq))
            \<or> \<not> py_eq (wr_source_revision rs) (PStr (wq_source_revision rq))
            \<or> wr_provider_context rs \<noteq> wq_provider_context rq
            \<or> wr_target rs \<noteq> wq_target rq \<or> wr_operation rs \<noteq> wq_operation rq
            \<or> \<not> py_eq (wr_parameters_sha256 rs) (PStr (wq_parameters_sha256 rq))
          then Inl (ContractError ''result is not bound to the exact WAF request'')
          else if wr_outcome rs = Waf_FAILED \<and> wr_diagnostic_code rs = None
          then Inl (ContractError ''failed result requires a bounded diagnostic code'')
          else if wr_outcome rs \<noteq> Waf_FAILED \<and> wr_diagnostic_code rs \<noteq> None
          then Inl (ContractError ''successful result cannot carry a failure diagnostic'')
          else seq_res (result_logging rq rs) (
            if wr_outcome rs \<notin> {successful_outcome (wq_operation rq), Waf_FAILED}
            then Inl (ContractError ''result outcome is incompatible with the WAF operation'')
            else Inr ())
      | _ \<Rightarrow> Inl (ContractError ''typed request and result are required''))"

end
