(* ===== verification/Waf_Facts.thy ===== *)
theory Waf_Facts
  imports Waf
begin

text \<open>
  What \<open>scripts/cloudfront-waf.py\<close> guarantees: its typed equality is equality of canonical
  documents, freezing loses nothing, only the reviewed configuration is admitted, what is put
  is what is read back, logging destinations are bounded and in the account, and clean-up runs
  to its end without touching anything foreign.
\<close>

section \<open>Typed equality\<close>

text \<open>Python dictionaries have distinct keys, at every depth.\<close>

fun proper :: "pyval \<Rightarrow> bool" where
  "proper (PList xs) = list_all proper xs"
| "proper (PTuple xs) = list_all proper xs"
| "proper (PDict kvs) = (distinct (map fst kvs) \<and> list_all (\<lambda>(k, v). proper v) kvs)"
| "proper _ = True"

lemma plain_proper: "plain v \<Longrightarrow> proper v"
  by (induction v rule: plain.induct) (auto simp: list_all_iff)

lemma scalar_typed:
  "same_type a (PBool b) \<and> py_eq a (PBool b) \<longleftrightarrow> a = PBool b"
  "same_type a (PInt i) \<and> py_eq a (PInt i) \<longleftrightarrow> a = PInt i"
  "same_type a (PStr s) \<and> py_eq a (PStr s) \<longleftrightarrow> a = PStr s"
  by (cases a; auto)+

lemma canon_shape:
  "canon a = PNone \<longleftrightarrow> a = PNone" "canon a = PBool b \<longleftrightarrow> a = PBool b" "canon a = PInt i \<longleftrightarrow> a = PInt i"
  "canon a = PStr s \<longleftrightarrow> a = PStr s" "canon a = PList ys \<longleftrightarrow> (\<exists>xs. a = PList xs \<and> map canon xs = ys)"
  "canon a = PDict d \<longleftrightarrow> (\<exists>e. a = PDict e \<and> canon (PDict e) = PDict d)"
  by (cases a; auto)+

lemma canon_dict_map:
  assumes "distinct (map fst xs)" and "distinct (map fst ys)"
  shows "canon (PDict xs) = canon (PDict ys) \<longleftrightarrow>
    dkeys xs = dkeys ys \<and> (\<forall>(k, y) \<in> set ys. canon (dget xs k) = canon y)"
proof -
  have g: "dget d k = v" if "(k, v) \<in> set d" "distinct (map fst d)" for k v and d :: pydict
    using that by (simp add: dget_def)
  have "(\<lambda>(k, v). (k, canon v)) ` set xs = (\<lambda>(k, v). (k, canon v)) ` set ys \<longleftrightarrow>
      dkeys xs = dkeys ys \<and> (\<forall>(k, y) \<in> set ys. canon (dget xs k) = canon y)" (is "?l = ?r \<longleftrightarrow> ?keys \<and> ?vals")
  proof
    assume e: "?l = ?r"
    then have "fst ` ?l = fst ` ?r" by simp
    then have ?keys by (simp add: dkeys_def image_image case_prod_beta)
    moreover have ?vals
    proof clarify
      fix k y assume "(k, y) \<in> set ys"
      then have "(k, canon y) \<in> ?l" using e by force
      then obtain x where "(k, x) \<in> set xs" "canon x = canon y" by auto
      then show "canon (dget xs k) = canon y" using g [OF _ assms(1)] by simp
    qed
    ultimately show "?keys \<and> ?vals" by blast
  next
    assume e: "?keys \<and> ?vals"
    show "?l = ?r"
    proof (rule set_eqI, clarify)
      fix k c
      have "(k, c) \<in> ?r \<longleftrightarrow> k \<in> dkeys ys \<and> c = canon (dget ys k)"
        using g [OF _ assms(2)] by (force simp: dkeys_def)
      moreover have "(k, c) \<in> ?l \<longleftrightarrow> k \<in> dkeys xs \<and> c = canon (dget xs k)"
        using g [OF _ assms(1)] by (force simp: dkeys_def)
      moreover have "canon (dget xs k) = canon (dget ys k)" if "k \<in> dkeys ys"
        using that e g [OF _ assms(2)] by (force simp: dkeys_def)
      ultimately show "(k, c) \<in> ?l \<longleftrightarrow> (k, c) \<in> ?r" using e by auto
    qed
  qed
  then show ?thesis using canon_dict_iff [OF assms] by simp
qed

lemma proper_dget: "proper (PDict d) \<Longrightarrow> proper (dget d k)"
  by (auto simp: dget_def list_all_iff split: option.split dest: map_of_SomeD)

lemma typed_equal_iff: "plain e \<Longrightarrow> proper a \<Longrightarrow> typed_equal a e \<longleftrightarrow> canon a = canon e"
proof (induction a e rule: typed_equal.induct)
  case (1 a ys)
  show ?case
  proof (cases a)
    case (PDict xs)
    have "typed_equal (dget xs k) y \<longleftrightarrow> canon (dget xs k) = canon y" if "(k, y) \<in> set ys" for k y
      using "1.IH" [OF PDict that refl] "1.prems" PDict that proper_dget [of xs k] by (auto simp: list_all_iff)
    then show ?thesis
      using "1.prems" PDict canon_dict_map [of xs ys] by (auto simp: list_all_iff)
  qed (simp_all add: eq_commute [of _ "canon (PDict ys)"] canon_shape)
next
  case (2 a ys)
  show ?case
  proof (cases a)
    case (PList xs)
    have "typed_equal x y \<longleftrightarrow> canon x = canon y" if "(x, y) \<in> set (zip xs ys)" for x y
      using "2.IH" [OF PList that refl] "2.prems" PList that
      by (auto simp: list_all_iff dest: set_zip_leftD set_zip_rightD)
    then have "typed_equal a (PList ys) \<longleftrightarrow> length xs = length ys \<and> (\<forall>(x, y) \<in> set (zip xs ys). canon x = canon y)"
      using PList by (auto simp: list_all_iff)
    also have "\<dots> \<longleftrightarrow> list_all2 (\<lambda>x y. canon x = canon y) xs ys" by (auto simp: list_all2_iff)
    also have "\<dots> \<longleftrightarrow> map canon xs = map canon ys"
      by (auto simp: list_all2_conv_all_nth list_eq_iff_nth_eq)
    finally show ?thesis using PList by simp
  qed (simp_all add: eq_commute [of _ "PList _"])
qed (auto simp: canon_shape scalar_typed)

section \<open>Freezing\<close>

lemma map_res_materialize:
  assumes "\<And>x f. x \<in> set xs \<Longrightarrow> g x = Inr f \<Longrightarrow> m f = x" and "map_res g xs = Inr fs"
  shows "map m fs = xs"
  using assms by (induction xs arbitrary: fs) (auto simp: bind_res_Inr_iff)

lemma materialize_freeze: "freeze v = Inr f \<Longrightarrow> materialize f = v"
proof (induction v arbitrary: f rule: freeze.induct)
  case (1 d)
  obtain fs where f: "f = FMap fs" "map_res (\<lambda>(k, v). bind_res (freeze v) (\<lambda>f. Inr (k, f))) d = Inr fs"
    using "1.prems" by (auto simp: bind_res_Inr_iff)
  have "map (\<lambda>(k, f). (k, materialize f)) fs = d"
    by (rule map_res_materialize [OF _ f(2)]) (auto simp: bind_res_Inr_iff dest: "1.IH")
  then show ?case using f(1) by simp
next
  case (2 xs)
  then obtain fs where f: "f = FTuple fs" "map_res freeze xs = Inr fs" by (auto simp: bind_res_Inr_iff)
  have "map materialize fs = xs" by (rule map_res_materialize [OF _ f(2)]) (auto dest: "2.IH")
  then show ?case using f(1) by simp
qed auto

lemma map_res_total: "(\<And>x. x \<in> set xs \<Longrightarrow> \<exists>y. g x = Inr y) \<Longrightarrow> \<exists>ys. map_res g xs = Inr ys"
  by (induction xs) force+

lemma freeze_plain: "plain v \<Longrightarrow> \<exists>f. freeze v = Inr f"
proof (induction v rule: freeze.induct)
  case (1 d)
  have "\<exists>y. (\<lambda>(k, v). bind_res (freeze v) (\<lambda>f. Inr (k, f))) kv = Inr y" if mem: "kv \<in> set d" for kv
  proof -
    obtain k v where kv: "kv = (k, v)" by (cases kv) blast
    then have "plain v" using "1.prems" mem by (auto simp: list_all_iff)
    then obtain f where "freeze v = Inr f" using "1.IH" [of "(k, v)" k v] mem kv by auto
    then show ?thesis using kv by simp
  qed
  from map_res_total [of d "\<lambda>(k, v). bind_res (freeze v) (\<lambda>f. Inr (k, f))", OF this] show ?case by auto
next
  case (2 xs)
  then have "\<exists>f. freeze x = Inr f" if "x \<in> set xs" for x using that by (auto simp: list_all_iff)
  from map_res_total [of xs freeze, OF this] show ?case by auto
qed auto

text \<open>Freezing a payload and materialising it again gives the payload back, for every
  payload that can be frozen; and every plain document (dictionaries, lists, strings, integers,
  booleans, \<open>None\<close>) can be. So an operation sends exactly the parameters that were admitted.\<close>

theorem frozen_parameters_roundtrip:
  assumes "plain v"
  shows "\<exists>f. freeze v = Inr f \<and> materialize f = v"
  using freeze_plain [OF assms] materialize_freeze by blast

section \<open>The admitted configuration\<close>

lemma plain_configuration: "plain (PDict (web_acl_configuration m))"
  by (simp add: web_acl_configuration_def managed_rule_entry_def visibility_def data_protections_def
      data_protection_def SENSITIVE_HEADERS_def)

lemma trusted_configuration: "validate_waf_rule_trust (PDict (web_acl_configuration m)) = Inr ()"
  by (cases m) code_simp+

text \<open>The strings of a value do not depend on the order of its keys.\<close>

lemma walk_canon: "set (walk_strings (canon v)) = set (walk_strings v)"
  by (induction v rule: walk_strings.induct) (auto simp: comp_def)

lemma trust_canon:
  assumes "canon (PDict c) = canon (PDict d)" and "distinct (map fst c)" and "distinct (map fst d)"
    and "validate_waf_rule_trust (PDict d) = Inr ()"
  shows "validate_waf_rule_trust (PDict c) = Inr ()"
proof -
  obtain r where r: "dget d ''Rules'' = PList [r]"
    and t: "\<not> list_ex (\<lambda>v. py_lower v \<in> set (drop 2 SENSITIVE_HEADERS)) (walk_strings (PList [r]))"
    using assms(4)
    by (auto simp: validate_waf_rule_trust_def waf_mapping_def split: pyval.splits list.splits if_splits)
  have "''Rules'' \<in> dkeys d" using r by (auto simp: in_dkeys_iff dget_def split: option.splits)
  then obtain y where "(''Rules'', y) \<in> set d" by (auto simp: dkeys_def)
  then have "y = PList [r]" "canon (dget c ''Rules'') = canon y"
    using assms(1-3) r canon_dict_map [of c d] by (auto simp: dget_def)
  then obtain r' where r': "dget c ''Rules'' = PList [r']" "canon r' = canon r"
    by (auto simp: canon_shape)
  have "set (walk_strings r') = set (walk_strings r)" using walk_canon r'(2) by metis
  then show ?thesis using t r'(1) by (simp add: validate_waf_rule_trust_def waf_mapping_def list_ex_iff)
qed

lemma validate_complete_iff:
  assumes "proper c"
  shows "validate_complete_web_acl c owned = Inr () \<longleftrightarrow>
    (\<exists>m \<in> set (accepted_modes owned). canon c = canon (PDict (web_acl_configuration m)))"
proof (cases c)
  case (PDict d)
  have t: "typed_equal c (PDict (web_acl_configuration m)) \<longleftrightarrow> canon c = canon (PDict (web_acl_configuration m))" for m
    using typed_equal_iff [OF plain_configuration assms] .
  have "distinct (map fst (web_acl_configuration m))" for m using plain_configuration [of m] by simp
  then have tr: "validate_waf_rule_trust c = Inr ()" if "canon c = canon (PDict (web_acl_configuration m))" for m
    using trust_canon [of d "web_acl_configuration m"] that assms PDict trusted_configuration by simp
  show ?thesis
    using t tr PDict
    by (auto simp: validate_complete_web_acl_def waf_mapping_def seq_res_Inr_iff list_ex_iff raise_Inr_iff)
next
  case (PList x)
  then show ?thesis by (auto simp: validate_complete_web_acl_def waf_mapping_def)
qed (auto simp: validate_complete_web_acl_def waf_mapping_def)

lemma build_web_acl_Inr:
  "build_web_acl (Exact m) owned = Inr c \<longleftrightarrow> m \<in> set (accepted_modes owned) \<and> c = web_acl_configuration m"
proof -
  have "canon (PDict (web_acl_configuration m)) = canon (PDict (web_acl_configuration k)) \<longleftrightarrow> m = k" for m k
  proof -
    have "\<not> typed_equal (PDict (web_acl_configuration QUALIFICATION_COUNT)) (PDict (web_acl_configuration ENFORCEMENT))"
      "\<not> typed_equal (PDict (web_acl_configuration ENFORCEMENT)) (PDict (web_acl_configuration QUALIFICATION_COUNT))"
      by code_simp+
    then show ?thesis
      unfolding typed_equal_iff [OF plain_configuration plain_proper [OF plain_configuration]]
      by (cases m; cases k) (simp_all del: canon.simps)
  qed
  then show ?thesis
    using validate_complete_iff [OF plain_proper [OF plain_configuration], of m owned]
    by (auto simp: build_web_acl_def seq_res_Inr_iff)
qed

text \<open>Property C37: a web ACL configuration is admitted exactly when, up to the order of keys, it is the
  reviewed configuration: the enforcing one, or for a qualification-owned target also the counting
  one. Type differences (\<open>1\<close> for \<open>True\<close>, \<open>0.0\<close> for \<open>0\<close>) are not tolerated, and no extra key.\<close>

theorem admitted_web_acl_is_the_baseline:
  assumes "proper c"
  shows "validate_complete_web_acl c owned = Inr () \<longleftrightarrow>
    canon c = canon (PDict (web_acl_configuration ENFORCEMENT)) \<or>
    owned \<and> canon c = canon (PDict (web_acl_configuration QUALIFICATION_COUNT))"
  using validate_complete_iff [OF assms] by (auto simp: accepted_modes_def)

section \<open>Logging\<close>

lemma plain_logging: "plain (PDict (logging_configuration a d))"
  by (simp add: logging_configuration_def redacted_fields_def SENSITIVE_HEADERS_def)

lemma new_waf_plan_Inr:
  "new_waf_plan op api r (PDict ps) i l = Inr p \<Longrightarrow> materialize_parameters p = PDict ps \<and> wp_operation p = op \<and>
     wp_api_operation p = api \<and> wp_resource_id p = r \<and> wp_if_match p = i \<and> wp_lock_token p = l"
  by (auto simp: new_waf_plan_def waf_mapping_def bind_res_Inr_iff materialize_parameters_def
      simp del: freeze.simps dest: materialize_freeze)

lemma put_logging_plan:
  assumes "plan_logging_configuration (Exact t) (Exact Waf_PUT_LOGGING) = Inr p"
  obtains arn destination where "wt_web_acl_arn t = Some arn" "wt_logging_destination_arn t = Some destination"
    "materialize_parameters p = PDict (logging_configuration arn destination)"
  using assms
  by (auto simp: plan_logging_configuration_def build_logging_configuration_def bind_res_Inr_iff
      split: option.splits dest!: new_waf_plan_Inr)

lemma logging_fields:
  assumes "canon c = canon (PDict (logging_configuration a d))" and "proper c"
  obtains e where "c = PDict e" "dget e ''ResourceArn'' = PStr a" "dget e ''LogDestinationConfigs'' = PList [PStr d]"
proof -
  obtain e where c: "c = PDict e" using assms(1) canon_shape(6) [of c] by (cases c) auto
  have "distinct (map fst e)" "distinct (map fst (logging_configuration a d))"
    using assms(2) c plain_logging [of a d] by simp_all
  then have "\<forall>(k, y) \<in> set (logging_configuration a d). canon (dget e k) = canon y"
    using canon_dict_map assms(1) c by blast
  then have "canon (dget e ''ResourceArn'') = PStr a" "canon (dget e ''LogDestinationConfigs'') = PList [PStr d]"
    by (simp_all add: logging_configuration_def)
  then show thesis using that c by (auto simp: canon_shape)
qed

text \<open>Property C38: logging is read back exactly. For a target whose destination its own context
  admits, the provider's answer to the read is admitted as the required logging state if and
  only if it is, up to the order of keys, the configuration that was put: the same ACL, the one
  destination, every redacted field, and dropping by default. Nothing weaker passes, and what
  was put always does.\<close>

theorem logging_read_back_is_exact:
  assumes "plan_logging_configuration (Exact t) (Exact Waf_PUT_LOGGING) = Inr p"
    and "check_target_logging t ctx = Inr ()" and "good_opt (wt_web_acl_arn t)"
    and "plain c" and "c \<noteq> PNone"
  shows "ok (normalize_logging_observation (PDict [(''LoggingConfiguration'', c)]) (Exact t) (Exact ctx)) \<longleftrightarrow>
    canon c = canon (materialize_parameters p)"
proof -
  obtain arn destination where t: "wt_web_acl_arn t = Some arn" "wt_logging_destination_arn t = Some destination"
    and m: "materialize_parameters p = PDict (logging_configuration arn destination)"
    using assms(1) by (rule put_logging_plan)
  let ?expected = "PDict (logging_configuration arn destination)"
  have v: "validate_logging_destination_arn (PStr destination) (Some (Exact ctx)) = Inr ()"
    using assms(2) t by (simp add: check_target_logging_def)
  have eq: "typed_equal c ?expected \<longleftrightarrow> canon c = canon ?expected"
    using typed_equal_iff [OF plain_logging plain_proper [OF assms(4)]] .
  have g: "dget [(''LoggingConfiguration'', c)] ''LoggingConfiguration'' = c" by (simp add: dget_def)
  show ?thesis unfolding m
  proof
    assume "ok (normalize_logging_observation (PDict [(''LoggingConfiguration'', c)]) (Exact t) (Exact ctx))"
    then obtain ob where "normalize_logging_observation (PDict [(''LoggingConfiguration'', c)]) (Exact t) (Exact ctx) = Inr ob"
      by (auto simp: ok_iff)
    then obtain e f where "c = PDict e" "freeze (PDict e) = Inr f"
      "validate_logging_observation (Exact \<lparr>lo_resource_arn = str_of (dget e ''ResourceArn''), lo_configuration = Some f\<rparr>)
         (Exact t) (Exact ctx) = Inr ()"
      using assms(5) g
      by (auto simp: normalize_logging_observation_def new_logging_observation_def waf_mapping_def Let_def
          bind_res_Inr_iff seq_res_Inr_iff simp del: freeze.simps split: pyval.splits)
    moreover from this have "materialize f = c" using materialize_freeze by blast
    ultimately have "typed_equal c ?expected"
      using t by (auto simp: validate_logging_observation_def Let_def build_logging_configuration_def
          bind_res_Inr_iff seq_res_Inr_iff raise_Inr_iff simp del: typed_equal.simps split: pyval.splits list.splits)
    then show "canon c = canon ?expected" using eq by blast
  next
    assume cn: "canon c = canon ?expected"
    obtain e where e: "c = PDict e" "dget e ''ResourceArn'' = PStr arn" "dget e ''LogDestinationConfigs'' = PList [PStr destination]"
      using logging_fields [OF cn plain_proper [OF assms(4)]] .
    obtain f where f: "freeze c = Inr f" "materialize f = c" using freeze_plain [OF assms(4)] materialize_freeze by blast
    have id: "waf_identity l (PStr arn) = Inr ()" for l using assms(3) t by simp
    let ?ob = "\<lparr>lo_resource_arn = arn, lo_configuration = Some f\<rparr>"
    have "typed_equal c ?expected" using eq cn by blast
    then have ob: "validate_logging_observation (Exact ?ob) (Exact t) (Exact ctx) = Inr ()"
      using e f(2) t v
      by (simp add: validate_logging_observation_def Let_def build_logging_configuration_def del: typed_equal.simps)
    have "normalize_logging_observation (PDict [(''LoggingConfiguration'', c)]) (Exact t) (Exact ctx) = Inr ?ob"
      unfolding normalize_logging_observation_def new_logging_observation_def Let_def waf_mapping_def
      using e f(1) ob g by (simp add: id del: freeze.simps)
    then show "ok (normalize_logging_observation (PDict [(''LoggingConfiguration'', c)]) (Exact t) (Exact ctx))"
      by simp
  qed
qed

section \<open>Destinations\<close>

lemma join_split_max: "join_str c (py_split_max c n s) = s"
proof (induction c n s rule: py_split_max.induct)
  case (2 c n x xs)
  show ?case
  proof (cases "x = c \<and> 0 < n")
    case True
    obtain w ws where "py_split_max c (n - 1) xs = w # ws" by (meson list.exhaust py_split_max_nonempty)
    then show ?thesis using 2(1) [OF True] True by simp
  next
    case False
    obtain w ws where "py_split_max c n xs = w # ws" by (meson list.exhaust py_split_max_nonempty)
    then show ?thesis using 2(2) [OF False] False by (cases ws) auto
  qed
qed simp

lemma remove_prefixD: "starts_with p s \<Longrightarrow> s = p @ remove_prefix p s"
  by (auto simp: starts_with_iff)

lemma destination_name_Inr:
  assumes "destination_name service region account resource (Some ctx) = Inr name"
  shows "service = ''s3'' \<and> region = [] \<and> account = [] \<and> resource = name \<or>
    service \<noteq> ''s3'' \<and> region = ''us-east-1'' \<and> account = wc_account_id ctx \<and>
    fullmatch ACCOUNT_ID account \<and>
    resource = (if service = ''logs'' then ''log-group:'' else ''deliverystream/'') @ name"
  using assms
  by (auto simp: destination_name_def Let_def simp del: append_Cons dest!: remove_prefixD split: if_splits)

text \<open>An admitted logging destination is bounded and belongs to the account: it is an
  S3, CloudWatch Logs or Firehose ARN of at most 558 characters whose name starts with
  \<open>aws-waf-logs-\<close>, and a destination that carries a region and an account carries exactly
  \<open>us-east-1\<close> and the account of the provider context.\<close>

theorem logging_destination_is_bounded:
  assumes "validate_logging_destination_arn (PStr s) (Some (Exact ctx)) = Inr ()"
  shows "length s \<le> 558 \<and> (\<exists>name. starts_with LOGS_PREFIX name \<and>
    s \<in> {''arn:aws:s3:::'' @ name,
         ''arn:aws:logs:us-east-1:'' @ wc_account_id ctx @ '':log-group:'' @ name,
         ''arn:aws:firehose:us-east-1:'' @ wc_account_id ctx @ '':deliverystream/'' @ name})"
proof -
  obtain service region account resource name where
    split: "py_split_max CHR '':'' 5 s = [''arn'', ''aws'', service, region, account, resource]"
    and sv: "service \<in> {''logs'', ''s3'', ''firehose''}"
    and n: "destination_name service region account resource (Some ctx) = Inr name"
    "starts_with LOGS_PREFIX name" "valid_destination_name service name"
    using assms
    by (auto simp: validate_logging_destination_arn_def Let_def seq_res_Inr_iff bind_res_Inr_iff raise_Inr_iff
        split: list.splits if_splits)
  have s: "s = join_str CHR '':'' [''arn'', ''aws'', service, region, account, resource]"
    using join_split_max [of "CHR '':''" 5 s] unfolding split by (rule sym)
  have acc: "length account = 12" if "fullmatch ACCOUNT_ID account" using that by (simp add: ACCOUNT_ID_def)
  have len: "length name \<le> (if service = ''logs'' then 512 else if service = ''firehose'' then 64 else 63)"
    using n(3) by (auto simp: valid_destination_name_def split: if_splits)
  from destination_name_Inr [OF n(1)] show ?thesis
  proof
    assume "service = ''s3'' \<and> region = [] \<and> account = [] \<and> resource = name"
    then show ?thesis using s n(2) len by auto
  next
    assume d: "service \<noteq> ''s3'' \<and> region = ''us-east-1'' \<and> account = wc_account_id ctx \<and>
      fullmatch ACCOUNT_ID account \<and>
      resource = (if service = ''logs'' then ''log-group:'' else ''deliverystream/'') @ name"
    then have "length (wc_account_id ctx) = 12" using acc by blast
    then show ?thesis using s n(2) len sv d by auto
  qed
qed

section \<open>Updates\<close>

lemma named_distinct:
  "distinct (map fst d) \<Longrightarrow> ''Name'' \<notin> set (map fst d) \<Longrightarrow> named n d = (''Name'', PStr n) # d"
proof -
  have "foldl (\<lambda>acc (k, v). dput k v acc) pre d = pre @ d"
    if "distinct (map fst d)" "set (map fst d) \<inter> set (map fst pre) = {}" for pre d :: pydict
    using that
  proof (induction d arbitrary: pre)
    case (Cons kv d)
    obtain k v where kv: "kv = (k, v)" by (cases kv)
    have "dput k v pre = pre @ [(k, v)]" using Cons.prems(2) kv by (intro dput_new) auto
    moreover have "foldl (\<lambda>acc (k, v). dput k v acc) (pre @ [(k, v)]) d = (pre @ [(k, v)]) @ d"
      by (rule Cons.IH) (use Cons.prems kv in auto)
    ultimately show ?case using kv by simp
  qed simp
  then show "distinct (map fst d) \<Longrightarrow> ''Name'' \<notin> set (map fst d) \<Longrightarrow> ?thesis"
    by (simp add: named_def)
qed

lemma configuration_keys:
  "dkeys (web_acl_configuration m) = {''Scope'', ''DefaultAction'', ''Rules'', ''VisibilityConfig'', ''DataProtectionConfig''}"
  by (simp add: web_acl_configuration_def dkeys_def)

lemma named_canon:
  assumes "canon (PDict d) = canon (PDict (web_acl_configuration m))" and "proper (PDict d)"
  shows "canon (PDict (named n d)) = canon (PDict ((''Name'', PStr n) # web_acl_configuration m))"
proof -
  have p: "distinct (map fst d)" "distinct (map fst (web_acl_configuration m))"
    using assms(2) plain_configuration [of m] by simp_all
  have i: "dkeys d = dkeys (web_acl_configuration m)"
    "\<forall>(k, y) \<in> set (web_acl_configuration m). canon (dget d k) = canon y"
    using canon_dict_map [OF p] assms(1) by simp_all
  then have nn: "''Name'' \<notin> set (map fst d)" "''Name'' \<notin> set (map fst (web_acl_configuration m))"
    using configuration_keys [of m] by (auto simp: dkeys_def)
  let ?c = "(''Name'', PStr n) # d" and ?e = "(''Name'', PStr n) # web_acl_configuration m"
  have "dkeys ?c = dkeys ?e" using i(1) by (simp add: dkeys_def)
  moreover have "\<forall>(k, y) \<in> set ?e. canon (dget ?c k) = canon y"
    using i(2) nn(2) by (force simp: dget_def)
  moreover have "distinct (map fst ?c)" "distinct (map fst ?e)" using p nn by simp_all
  ultimately have "canon (PDict ?c) = canon (PDict ?e)" using canon_dict_map [of ?c ?e] by blast
  then show ?thesis using named_distinct [OF p(1) nn(1)] by simp
qed

text \<open>A planned update, and so a planned rollback, replaces exactly the owned web ACL, under
  the lock token of the observation it was planned from, and what it sends is the ACL's own name
  with one of the configurations the target accepts, nothing else.\<close>

theorem update_sends_the_baseline:
  assumes "plan_rollback (Exact t) (Exact ob) token desired = Inr p" and "proper desired"
  shows "wt_web_acl_id t = Some (wp_resource_id p) \<and> wp_lock_token p = Some (wo_lock_token ob) \<and>
    token = PStr (wo_lock_token ob) \<and>
    (\<exists>m \<in> set (accepted_modes (wt_qualification_owned t)).
      canon (materialize_parameters p) = canon (PDict ((''Name'', PStr (wt_requested_key t)) # web_acl_configuration m)))"
proof -
  have e: "exact_web_acl t ob = Inr ()" "py_eq token (PStr (wo_lock_token ob))"
    and v: "validate_complete_web_acl desired (wt_qualification_owned t) = Inr ()"
    and p: "new_waf_plan Waf_UPDATE_WEB_ACL ''UpdateWebACL'' (wo_web_acl_id ob)
        (PDict (named (wo_web_acl_name ob) (dict_of desired))) None (Some (wo_lock_token ob)) = Inr p"
    using assms(1)
    by (auto simp: plan_rollback_def plan_update_web_acl_def seq_res_Inr_iff split: if_splits)
  obtain m where m: "m \<in> set (accepted_modes (wt_qualification_owned t))"
    "canon desired = canon (PDict (web_acl_configuration m))"
    using v validate_complete_iff [OF assms(2)] by blast
  obtain d where d: "desired = PDict d" using m(2) canon_shape(6) [of desired] by (cases desired) auto
  have "canon (PDict (named (wo_web_acl_name ob) d)) =
      canon (PDict ((''Name'', PStr (wo_web_acl_name ob)) # web_acl_configuration m))"
    by (rule named_canon) (use m(2) d assms(2) in simp_all)
  then show ?thesis
    using new_waf_plan_Inr [OF p] e m(1) d
    by (auto simp: exact_web_acl_def raise_Inr_iff simp del: canon.simps split: if_splits)
qed

section \<open>Clean-up\<close>

text \<open>
  The provider's side of a clean-up: what the three observations show, and what each mutation
  changes. Each plan is made from a fresh observation of all three, as the planner asks for.
\<close>

record waf_world =
  ww_acl :: "web_acl_observation option"
  ww_distribution :: waf_distribution_observation
  ww_logging :: logging_observation

definition coherent_cleanup :: "waf_target \<Rightarrow> waf_world \<Rightarrow> bool" where
  "coherent_cleanup t w \<longleftrightarrow> wt_qualification_owned t \<and>
     (case ww_acl w of None \<Rightarrow> False | Some acl \<Rightarrow> exact_web_acl t acl = Inr ()) \<and>
     wd_distribution_id (ww_distribution w) = wt_distribution_id t \<and>
     (wd_web_acl_arn (ww_distribution w) = None \<or> wd_web_acl_arn (ww_distribution w) = wt_web_acl_arn t) \<and>
     Some (lo_resource_arn (ww_logging w)) = wt_web_acl_arn t"

text \<open>\<open>tag\<close> is the distribution's new ETag, chosen by the provider.\<close>

fun apply_cleanup :: "(string \<Rightarrow> string) \<Rightarrow> waf_operation \<Rightarrow> waf_world \<Rightarrow> waf_world" where
  "apply_cleanup tag Waf_DELETE_LOGGING w =
     w\<lparr>ww_logging := (ww_logging w)\<lparr>lo_configuration := None\<rparr>\<rparr>"
| "apply_cleanup tag Waf_DISASSOCIATE_DISTRIBUTION w =
     w\<lparr>ww_distribution := (ww_distribution w)\<lparr>wd_web_acl_arn := None, wd_etag := tag (wd_etag (ww_distribution w))\<rparr>\<rparr>"
| "apply_cleanup tag Waf_DELETE_WEB_ACL w = w\<lparr>ww_acl := None\<rparr>"
| "apply_cleanup tag _ w = w"

text \<open>Plan, execute, observe again, until the ACL is gone; \<open>None\<close> when the fuel does not suffice.\<close>

fun cleanup_run :: "nat \<Rightarrow> (string \<Rightarrow> string) \<Rightarrow> waf_target \<Rightarrow> waf_world \<Rightarrow> waf_operation list res option" where
  "cleanup_run fuel tag t w = (case ww_acl w of
     None \<Rightarrow> Some (Inr [])
   | Some acl \<Rightarrow> (case fuel of
       0 \<Rightarrow> None
     | Suc n \<Rightarrow> (case plan_cleanup (Exact t) acl (ww_distribution w) (Exact (ww_logging w))
           (PStr (wo_lock_token acl)) (PStr (wd_etag (ww_distribution w))) of
         Inl e \<Rightarrow> Some (Inl e)
       | Inr ps \<Rightarrow> map_option (map_sum id (\<lambda>ops. map wp_operation ps @ ops))
           (cleanup_run n tag t (fold (apply_cleanup tag) (map wp_operation ps) w)))))"

declare cleanup_run.simps [simp del]

lemma new_waf_plan_empty:
  "new_waf_plan op api r (PDict []) i l =
     Inr \<lparr>wp_operation = op, wp_api_operation = api, wp_resource_id = r, wp_parameters = FMap [], wp_if_match = i, wp_lock_token = l\<rparr>"
  by (simp add: new_waf_plan_def waf_mapping_def)

lemma delete_logging_plan:
  "wt_web_acl_arn t = Some arn \<Longrightarrow> \<exists>p. plan_logging_configuration (Exact t) (Exact Waf_DELETE_LOGGING) = Inr p \<and>
     wp_operation p = Waf_DELETE_LOGGING \<and> wp_resource_id p = arn"
  by (simp add: plan_logging_configuration_def new_waf_plan_def waf_mapping_def)

definition next_cleanup :: "waf_target \<Rightarrow> waf_world \<Rightarrow> waf_operation" where
  "next_cleanup t w = (if lo_configuration (ww_logging w) \<noteq> None then Waf_DELETE_LOGGING
     else if wd_web_acl_arn (ww_distribution w) = wt_web_acl_arn t then Waf_DISASSOCIATE_DISTRIBUTION
     else Waf_DELETE_WEB_ACL)"

lemma coherent_plan:
  assumes "coherent_cleanup t w" and "ww_acl w = Some acl"
  shows "\<exists>p. plan_cleanup (Exact t) acl (ww_distribution w) (Exact (ww_logging w))
    (PStr (wo_lock_token acl)) (PStr (wd_etag (ww_distribution w))) = Inr [p] \<and> wp_operation p = next_cleanup t w"
proof -
  have c: "wt_qualification_owned t" "exact_web_acl t acl = Inr ()"
    "wd_distribution_id (ww_distribution w) = wt_distribution_id t"
    "wd_web_acl_arn (ww_distribution w) = None \<or> wd_web_acl_arn (ww_distribution w) = wt_web_acl_arn t"
    "wt_web_acl_arn t = Some (lo_resource_arn (ww_logging w))"
    using assms by (auto simp: coherent_cleanup_def)
  show ?thesis
    using c delete_logging_plan [OF c(5)]
    by (auto simp: plan_cleanup_def next_cleanup_def new_waf_plan_empty)
qed

lemma append_single: "(@) [x] = (#) x"
  by (rule ext) simp

lemma cleanup_step:
  assumes "coherent_cleanup t w" and "ww_acl w = Some acl"
  shows "cleanup_run (Suc n) tag t w = map_option (map_sum id (\<lambda>ops. next_cleanup t w # ops))
    (cleanup_run n tag t (apply_cleanup tag (next_cleanup t w) w))"
  using coherent_plan [OF assms] assms(2) by (subst cleanup_run.simps) (auto simp: append_single)

lemma cleanup_done: "ww_acl w = None \<Longrightarrow> cleanup_run n tag t w = Some (Inr [])"
  by (subst cleanup_run.simps) simp

lemma cleanup_delete:
  assumes "coherent_cleanup t w" and "lo_configuration (ww_logging w) = None"
    and "wd_web_acl_arn (ww_distribution w) = None"
  shows "cleanup_run (Suc n) tag t w = Some (Inr [Waf_DELETE_WEB_ACL])"
proof -
  obtain acl where a: "ww_acl w = Some acl" using assms(1) by (auto simp: coherent_cleanup_def split: option.splits)
  have "wt_web_acl_arn t = Some (lo_resource_arn (ww_logging w))" using assms(1) by (simp add: coherent_cleanup_def)
  then have "next_cleanup t w = Waf_DELETE_WEB_ACL" using assms(2,3) by (auto simp: next_cleanup_def)
  then show ?thesis using cleanup_step [OF assms(1) a] by (simp add: cleanup_done)
qed

lemma cleanup_disassociate:
  assumes "coherent_cleanup t w" and "lo_configuration (ww_logging w) = None"
  shows "cleanup_run (Suc (Suc n)) tag t w = Some (Inr
    ((if wd_web_acl_arn (ww_distribution w) \<noteq> None then [Waf_DISASSOCIATE_DISTRIBUTION] else []) @ [Waf_DELETE_WEB_ACL]))"
proof (cases "wd_web_acl_arn (ww_distribution w) = None")
  case False
  obtain acl where a: "ww_acl w = Some acl" using assms(1) by (auto simp: coherent_cleanup_def split: option.splits)
  have n: "next_cleanup t w = Waf_DISASSOCIATE_DISTRIBUTION"
    using assms False by (auto simp: next_cleanup_def coherent_cleanup_def)
  have "coherent_cleanup t (apply_cleanup tag (next_cleanup t w) w)"
    using assms(1) unfolding n by (simp add: coherent_cleanup_def)
  from cleanup_delete [OF this] show ?thesis
    using cleanup_step [OF assms(1) a, of "Suc n" tag] assms(2) False by (simp add: n)
qed (use cleanup_delete [OF assms] in simp)

text \<open>Property C39: a clean-up of owned resources never gets stuck and runs in the one safe order. From
  any state in which the ACL, its distribution and its logging are the target's own, planning,
  executing and observing again removes logging if there is any, then the association if there is
  one, then the ACL, and nothing else; three rounds are always enough, whatever ETags the provider
  hands out on the way.\<close>

theorem cleanup_runs_in_order:
  assumes "coherent_cleanup t w"
  shows "cleanup_run 3 tag t w = Some (Inr (
    (if lo_configuration (ww_logging w) \<noteq> None then [Waf_DELETE_LOGGING] else []) @
    (if wd_web_acl_arn (ww_distribution w) \<noteq> None then [Waf_DISASSOCIATE_DISTRIBUTION] else []) @
    [Waf_DELETE_WEB_ACL]))"
proof (cases "lo_configuration (ww_logging w) = None")
  case False
  obtain acl where a: "ww_acl w = Some acl" using assms by (auto simp: coherent_cleanup_def split: option.splits)
  have n: "next_cleanup t w = Waf_DELETE_LOGGING" using False by (simp add: next_cleanup_def)
  have "coherent_cleanup t (apply_cleanup tag (next_cleanup t w) w)"
    using assms unfolding n by (simp add: coherent_cleanup_def)
  from cleanup_disassociate [OF this] show ?thesis
    using cleanup_step [OF assms a, of 2 tag] False by (simp add: n numeral_3_eq_3 numeral_2_eq_2)
qed (use cleanup_disassociate [OF assms, of 1] in \<open>simp add: numeral_3_eq_3\<close>)

text \<open>A clean-up plan is one mutation of owned resources only. Whatever the three
  observations are, if a plan is made then the target is qualification-owned, the ACL is exactly
  its ACL and the distribution its distribution, associated with that ACL or with none; the tokens
  are those just observed; and the ACL is deleted only when it carries neither logging nor an
  association.\<close>

theorem cleanup_touches_only_owned:
  assumes "plan_cleanup (Exact t) acl d (Exact lg) token etag = Inr ps"
  shows "wt_qualification_owned t \<and> exact_web_acl t acl = Inr () \<and>
    wd_distribution_id d = wt_distribution_id t \<and> wd_web_acl_arn d \<in> {None, wt_web_acl_arn t} \<and>
    token = PStr (wo_lock_token acl) \<and> etag = PStr (wd_etag d) \<and>
    (\<exists>p. ps = [p] \<and> (wp_operation p, wp_resource_id p) \<in>
      (if lo_configuration lg \<noteq> None then {(Waf_DELETE_LOGGING, wo_web_acl_arn acl)}
       else if wd_web_acl_arn d \<noteq> None then {(Waf_DISASSOCIATE_DISTRIBUTION, wt_distribution_id t)}
       else {(Waf_DELETE_WEB_ACL, wo_web_acl_id acl)}))"
proof -
  have c: "wt_qualification_owned t" "exact_web_acl t acl = Inr ()" "wd_distribution_id d = wt_distribution_id t"
    "py_eq token (PStr (wo_lock_token acl))" "py_eq etag (PStr (wd_etag d))"
    "wd_web_acl_arn d = None \<or> wd_web_acl_arn d = wt_web_acl_arn t"
    using assms by (auto simp: plan_cleanup_def seq_res_Inr_iff split: if_splits)
  have arn: "wt_web_acl_arn t = Some (wo_web_acl_arn acl)"
    using c(2) by (auto simp: exact_web_acl_def split: if_splits)
  have "\<exists>p. ps = [p] \<and> (wp_operation p, wp_resource_id p) \<in>
      (if lo_configuration lg \<noteq> None then {(Waf_DELETE_LOGGING, wo_web_acl_arn acl)}
       else if wd_web_acl_arn d \<noteq> None then {(Waf_DISASSOCIATE_DISTRIBUTION, wt_distribution_id t)}
       else {(Waf_DELETE_WEB_ACL, wo_web_acl_id acl)})"
    using assms c arn delete_logging_plan [OF arn]
    by (auto simp: plan_cleanup_def seq_res_Inr_iff new_waf_plan_empty split: if_splits)
  then show ?thesis using c by simp
qed

section \<open>A malformed tenant answer\<close>

text \<open>The tenant check does not always fail with its own error. A tenant customization whose
  \<open>Action\<close> is a list or an object raises \<open>TypeError\<close> (an unhashable value is looked up in a set),
  not the \<open>ContractError\<close> every other malformed response raises.\<close>

theorem tenant_action_type_error:
  "normalize_tenant_waf_observation
     (PDict [(''DistributionTenant'', PDict [(''Id'', PStr ''tenant''), (''DistributionId'', PStr ''d''),
        (''Customizations'', PDict [(''WebAcl'', PDict [(''Action'', PList [])])])])])
     (Exact \<lparr>wt_requested_key = ''k'', wt_distribution_id = ''d'', wt_web_acl_id = None, wt_web_acl_arn = None,
        wt_logging_destination_arn = None, wt_qualification_owned = False\<rparr>) = Inl TypeError"
  by code_simp

section \<open>Witnesses\<close>

definition sample_waf_context :: waf_context where
  "sample_waf_context = \<lparr>wc_partition = ''aws'', wc_account_id = ''123456789012'', wc_waf_region = ''us-east-1''\<rparr>"

definition sample_waf_target :: waf_target where
  "sample_waf_target = \<lparr>wt_requested_key = ''k'', wt_distribution_id = ''d'', wt_web_acl_id = Some ''i'',
     wt_web_acl_arn = Some ''a'', wt_logging_destination_arn = Some ''arn:aws:s3:::aws-waf-logs-x'',
     wt_qualification_owned = True\<rparr>"

definition sample_acl :: web_acl_observation where
  "sample_acl = \<lparr>wo_web_acl_id = ''i'', wo_web_acl_arn = ''a'', wo_web_acl_name = ''k'', wo_lock_token = ''l'',
     wo_configuration = web_acl_configuration ENFORCEMENT\<rparr>"

definition sample_waf_world :: waf_world where
  "sample_waf_world = \<lparr>ww_acl = Some sample_acl,
     ww_distribution = \<lparr>wd_distribution_id = ''d'', wd_etag = ''e'', wd_web_acl_arn = Some ''a''\<rparr>,
     ww_logging = \<lparr>lo_resource_arn = ''a'', lo_configuration = Some (FMap [])\<rparr>\<rparr>"

theorem frozen_parameters_roundtrip_witness:
  "\<exists>f. freeze (PDict [(''Logging'', PList [PStr ''x'', PInt 1, PNone])]) = Inr f \<and>
     materialize f = PDict [(''Logging'', PList [PStr ''x'', PInt 1, PNone])]"
  by (rule frozen_parameters_roundtrip) simp

theorem admitted_web_acl_is_the_baseline_witness:
  "validate_complete_web_acl (PDict (rev (web_acl_configuration ENFORCEMENT))) False = Inr () \<longleftrightarrow>
     canon (PDict (rev (web_acl_configuration ENFORCEMENT))) = canon (PDict (web_acl_configuration ENFORCEMENT)) \<or>
     False \<and> canon (PDict (rev (web_acl_configuration ENFORCEMENT))) = canon (PDict (web_acl_configuration QUALIFICATION_COUNT))"
  by (rule admitted_web_acl_is_the_baseline) code_simp

theorem logging_read_back_is_exact_witness:
  "\<exists>p. plan_logging_configuration (Exact sample_waf_target) (Exact Waf_PUT_LOGGING) = Inr p \<and>
     ok (normalize_logging_observation (PDict [(''LoggingConfiguration'',
         PDict (logging_configuration ''a'' ''arn:aws:s3:::aws-waf-logs-x''))])
       (Exact sample_waf_target) (Exact sample_waf_context))"
proof -
  have c: "check_target_logging sample_waf_target sample_waf_context = Inr ()" by code_simp
  have g: "good_opt (wt_web_acl_arn sample_waf_target)" by code_simp
  have "build_logging_configuration (Exact sample_waf_target) =
      Inr (logging_configuration ''a'' ''arn:aws:s3:::aws-waf-logs-x'')"
    by (simp add: build_logging_configuration_def sample_waf_target_def)
  moreover obtain f where "freeze (PDict (logging_configuration ''a'' ''arn:aws:s3:::aws-waf-logs-x'')) = Inr f"
    using freeze_plain [OF plain_logging] by blast
  ultimately obtain p where p: "plan_logging_configuration (Exact sample_waf_target) (Exact Waf_PUT_LOGGING) = Inr p"
    and m: "materialize_parameters p = PDict (logging_configuration ''a'' ''arn:aws:s3:::aws-waf-logs-x'')"
    using that by (auto simp: plan_logging_configuration_def sample_waf_target_def new_waf_plan_def waf_mapping_def
        materialize_parameters_def simp del: freeze.simps dest: materialize_freeze)
  show ?thesis
    using logging_read_back_is_exact [OF p c g plain_logging, of "''a''" "''arn:aws:s3:::aws-waf-logs-x''"] p m by simp
qed

theorem logging_destination_is_bounded_witness:
  "\<exists>name. starts_with LOGS_PREFIX name \<and> ''arn:aws:s3:::aws-waf-logs-x'' \<in>
     {''arn:aws:s3:::'' @ name,
      ''arn:aws:logs:us-east-1:'' @ wc_account_id sample_waf_context @ '':log-group:'' @ name,
      ''arn:aws:firehose:us-east-1:'' @ wc_account_id sample_waf_context @ '':deliverystream/'' @ name}"
proof -
  have "validate_logging_destination_arn (PStr ''arn:aws:s3:::aws-waf-logs-x'') (Some (Exact sample_waf_context)) = Inr ()"
    by code_simp
  from logging_destination_is_bounded [OF this] show ?thesis by (rule conjunct2)
qed

theorem update_sends_the_baseline_witness:
  "\<exists>p. plan_rollback (Exact sample_waf_target) (Exact sample_acl) (PStr ''l'')
       (PDict (web_acl_configuration QUALIFICATION_COUNT)) = Inr p \<and> wp_lock_token p = Some ''l''"
proof -
  have v: "validate_complete_web_acl (PDict (web_acl_configuration QUALIFICATION_COUNT)) True = Inr ()"
    unfolding validate_complete_iff [OF plain_proper [OF plain_configuration]] accepted_modes_def by simp
  have "plain (PDict (named ''k'' (web_acl_configuration QUALIFICATION_COUNT)))" by code_simp
  then obtain f where "freeze (PDict (named ''k'' (web_acl_configuration QUALIFICATION_COUNT))) = Inr f"
    using freeze_plain by blast
  then have "ok (plan_rollback (Exact sample_waf_target) (Exact sample_acl) (PStr ''l'')
      (PDict (web_acl_configuration QUALIFICATION_COUNT)))"
    using v by (simp add: plan_rollback_def plan_update_web_acl_def sample_waf_target_def sample_acl_def
        exact_web_acl_def new_waf_plan_def waf_mapping_def del: freeze.simps)
  then obtain p where p: "plan_rollback (Exact sample_waf_target) (Exact sample_acl) (PStr ''l'')
      (PDict (web_acl_configuration QUALIFICATION_COUNT)) = Inr p"
    unfolding ok_iff by blast
  have "wp_lock_token p = Some (wo_lock_token sample_acl)"
    using update_sends_the_baseline [OF p plain_proper [OF plain_configuration]] by (elim conjE)
  then have "wp_lock_token p = Some ''l''" by (simp add: sample_acl_def)
  with p show ?thesis by blast
qed

theorem cleanup_runs_in_order_witness:
  "cleanup_run 3 id sample_waf_target sample_waf_world =
     Some (Inr [Waf_DELETE_LOGGING, Waf_DISASSOCIATE_DISTRIBUTION, Waf_DELETE_WEB_ACL])"
proof -
  have "coherent_cleanup sample_waf_target sample_waf_world" by code_simp
  from cleanup_runs_in_order [OF this, of id] show ?thesis by (simp add: sample_waf_world_def)
qed

theorem cleanup_touches_only_owned_witness:
  "\<exists>ps. plan_cleanup (Exact sample_waf_target) sample_acl (ww_distribution sample_waf_world)
      (Exact (ww_logging sample_waf_world)) (PStr ''l'') (PStr ''e'') = Inr ps \<and>
    wd_web_acl_arn (ww_distribution sample_waf_world) \<in> {None, wt_web_acl_arn sample_waf_target}"
proof -
  have "ok (plan_cleanup (Exact sample_waf_target) sample_acl (ww_distribution sample_waf_world)
      (Exact (ww_logging sample_waf_world)) (PStr ''l'') (PStr ''e''))"
    by code_simp
  then obtain ps where "plan_cleanup (Exact sample_waf_target) sample_acl (ww_distribution sample_waf_world)
      (Exact (ww_logging sample_waf_world)) (PStr ''l'') (PStr ''e'') = Inr ps"
    by (auto simp: ok_iff)
  from this cleanup_touches_only_owned [OF this] show ?thesis by blast
qed

end
