(* ===== verification/Host_Firewall.thy ===== *)
theory Host_Firewall
  imports Prefix_Facts Py_Response
begin

text \<open>
  \<open>scripts/host_firewall_contract.py\<close>: the owner's configuration, the ingress policy as native
  nft JSON, the batch that installs it, the projection of an observed table, and the admission
  of a remediation decision. JSON objects are \<open>pyval\<close> dictionaries in the order the code
  builds them; the prefix authority is the contract of \<open>Prefix_Lkg\<close>.
\<close>

definition TABLE :: string where "TABLE = ''secpal_host''"
definition MAX_DECISIONS :: int where "MAX_DECISIONS = 4096"
definition MAX_TTL :: int where "MAX_TTL = 3600"

section \<open>Configuration\<close>

text \<open>\<open>except ContractError: raise ValueError(m)\<close>.\<close>

definition contract_to :: "string \<Rightarrow> 'a res \<Rightarrow> 'a res" where
  "contract_to m r = catch_res r (\<lambda>e. case e of ContractError _ \<Rightarrow> Inl (ValueError m) | _ \<Rightarrow> Inl e)"

definition interface_char :: "char \<Rightarrow> bool" where
  "interface_char c \<longleftrightarrow> alnum_char c \<or> c \<in> set ''_.:-''"

definition interface_name :: "pyval \<Rightarrow> bool" where
  "interface_name v = (case v of
     PStr s \<Rightarrow> s \<noteq> ''lo'' \<and> 1 \<le> length s \<and> length s \<le> 15 \<and> list_all interface_char s
   | _ \<Rightarrow> False)"

text \<open>\<open>sorted(set(strings))\<close>.\<close>

definition sorted_strings :: "string list \<Rightarrow> string list" where
  "sorted_strings ss = sort (remdups ss)"

definition dhcp_uplinks :: "pyval \<Rightarrow> unit res" where
  "dhcp_uplinks v = (case v of
     PList names \<Rightarrow>
       if \<not> (1 \<le> length names \<and> length names \<le> 8) \<or> list_ex (\<lambda>n. \<not> interface_name n) names
         \<or> \<not> py_eq v (PList (map PStr (sorted_strings (map the_str names))))
       then Inl (ValueError ''admit-dhcp-uplinks'') else Inr ()
   | _ \<Rightarrow> Inl (ValueError ''admit-dhcp-uplinks''))"

definition management_prefixes :: "pyval \<Rightarrow> nat \<Rightarrow> unit res" where
  "management_prefixes v family = (case v of
     PList entries \<Rightarrow>
       if 64 < length entries then Inl (ValueError ''admit-management-prefixes'')
       else bind_res (contract_to ''admit-management-prefixes'' (map_res (\<lambda>e. parse_network e family) entries))
         (\<lambda>normalized. if \<not> py_eq v (PList (map PStr (sorted_strings normalized)))
            then Inl (ValueError ''admit-management-prefixes'') else Inr ())
   | _ \<Rightarrow> Inl (ValueError ''admit-management-prefixes''))"

definition CONFIGURATION_KEYS :: "string list" where
  "CONFIGURATION_KEYS = [''edge_mode'', ''management_ipv4'', ''management_ipv6'', ''dhcp_interfaces'']"

definition configuration :: "pyval \<Rightarrow> pydict res" where
  "configuration value = (case value of
     PDict d \<Rightarrow>
       if dkeys d \<noteq> set CONFIGURATION_KEYS
         \<or> dget d ''edge_mode'' \<notin> {PStr ''DIRECT'', PStr ''PROTECTED''}
       then Inl (ValueError ''admit-host-firewall-configuration'')
       else seq_res (dhcp_uplinks (dget d ''dhcp_interfaces'')) (
         seq_res (management_prefixes (dget d ''management_ipv4'') 4) (
         seq_res (management_prefixes (dget d ''management_ipv6'') 6) (
         if dget d ''management_ipv4'' = PList [] \<and> dget d ''management_ipv6'' = PList []
         then Inl (ValueError ''admit-management-required'')
         else Inr d)))
   | _ \<Rightarrow> Inl (ValueError ''admit-host-firewall-configuration''))"

definition fw_scope :: "(string \<Rightarrow> string) \<Rightarrow> pyval \<Rightarrow> pyval \<Rightarrow> pydict res" where
  "fw_scope sha config source =
     bind_res (configuration config) (\<lambda>c.
     if dget c ''edge_mode'' = PStr ''PROTECTED''
     then seq_res (contract_to ''admit-origin-prefix-authority'' (validate_candidate sha source)) (Inr c)
     else if source \<noteq> PNone
     then Inl (ValueError ''admit-direct-without-cloudfront-authority'')
     else Inr c)"

section \<open>The policy\<close>

definition fw_match_op :: "pyval \<Rightarrow> pyval \<Rightarrow> string \<Rightarrow> pyval" where
  "fw_match_op left right op = PDict [(''match'', PDict [(''op'', PStr op), (''left'', left), (''right'', right)])]"

definition fw_match :: "pyval \<Rightarrow> pyval \<Rightarrow> pyval" where
  "fw_match left right = fw_match_op left right ''==''"

definition payload :: "string \<Rightarrow> string \<Rightarrow> pyval" where
  "payload family what = PDict [(''payload'', PDict [(''protocol'', PStr family), (''field'', PStr what)])]"

definition max_prefixlen :: "nat \<Rightarrow> nat" where
  "max_prefixlen version = (if version = 4 then 32 else 128)"

text \<open>\<open>str(network.network_address)\<close>.\<close>

definition address_str :: "nat \<Rightarrow> int \<Rightarrow> string" where
  "address_str version a = (if version = 4 then ip4_str a else ip6_str a)"

definition network_expr :: "network \<Rightarrow> pyval" where
  "network_expr n =
     (if nw_prefixlen n = max_prefixlen (nw_version n) then PStr (address_str (nw_version n) (nw_address n))
      else PDict [(''prefix'', PDict [(''addr'', PStr (address_str (nw_version n) (nw_address n))),
                                     (''len'', PInt (int (nw_prefixlen n)))])])"

definition fw_network :: "pyval \<Rightarrow> pyval res" where
  "fw_network v = (case v of
     PStr s \<Rightarrow> bind_res (ip_network s) (\<lambda>n. Inr (network_expr n)) | _ \<Rightarrow> Inl (ValueError ''not a network''))"

definition in_table :: "pydict \<Rightarrow> pyval" where
  "in_table d = PDict ([(''family'', PStr ''inet''), (''table'', PStr TABLE)] @ d)"

definition fw_chain :: "string \<Rightarrow> string \<Rightarrow> pyval" where
  "fw_chain name hook = PDict [(''chain'', in_table [(''name'', PStr name), (''type'', PStr ''filter''),
     (''hook'', PStr hook), (''prio'', PInt 0), (''policy'', PStr ''drop'')])]"

definition fw_set :: "string \<Rightarrow> string \<Rightarrow> pyval" where
  "fw_set name kind = PDict [(''set'', in_table [(''name'', PStr name), (''type'', PStr kind),
     (''flags'', PList [PStr ''timeout'']), (''timeout'', PInt MAX_TTL), (''size'', PInt MAX_DECISIONS)])]"

definition fw_rule :: "pyval list \<Rightarrow> pyval" where
  "fw_rule expressions = PDict [(''rule'', in_table [(''chain'', PStr ''ingress''), (''expr'', PList expressions)])]"

definition accept_verdict :: pyval where "accept_verdict = PDict [(''accept'', PNone)]"
definition drop_verdict :: pyval where "drop_verdict = PDict [(''drop'', PNone)]"

definition fw_allow :: "pyval list \<Rightarrow> pyval" where
  "fw_allow expressions = fw_rule (expressions @ [accept_verdict])"

definition fw_drop :: "pyval list \<Rightarrow> pyval" where
  "fw_drop expressions = fw_rule (expressions @ [drop_verdict])"

definition tcp_port :: "pyval \<Rightarrow> pyval" where
  "tcp_port v = fw_match (payload ''tcp'' ''dport'') v"

definition meta_key :: "string \<Rightarrow> pyval" where
  "meta_key k = PDict [(''meta'', PDict [(''key'', PStr k)])]"

definition ct_key :: "string \<Rightarrow> pyval" where
  "ct_key k = PDict [(''ct'', PDict [(''key'', PStr k)])]"

definition any_of :: "pyval list \<Rightarrow> pyval" where
  "any_of vs = PDict [(''set'', PList vs)]"

text \<open>The networks the policy itself names.\<close>

definition LOOPBACK4 :: network where "LOOPBACK4 = \<lparr>nw_version = 4, nw_address = 127 * 2 ^ 24, nw_prefixlen = 8\<rparr>"
definition LOOPBACK6 :: network where "LOOPBACK6 = \<lparr>nw_version = 6, nw_address = 1, nw_prefixlen = 128\<rparr>"
definition LINK_LOCAL :: network where "LINK_LOCAL = \<lparr>nw_version = 6, nw_address = 0xfe80 * 2 ^ 112, nw_prefixlen = 10\<rparr>"

lemma policy_networks:
  "ip_network ''127.0.0.0/8'' = Inr LOOPBACK4" "ip_network ''::1/128'' = Inr LOOPBACK6"
  "ip_network ''fe80::/10'' = Inr LINK_LOCAL"
  by code_simp+

definition fw_objects :: "pyval list" where
  "fw_objects = [PDict [(''table'', PDict [(''family'', PStr ''inet''), (''name'', PStr TABLE)])],
     fw_chain ''ingress'' ''input'', fw_chain ''transit'' ''forward'',
     fw_set ''remediation4'' ''ipv4_addr'', fw_set ''remediation6'' ''ipv6_addr'']"

definition head_rules :: "pyval list" where
  "head_rules = [fw_drop [fw_match (ct_key ''state'') (PStr ''invalid'')],
     fw_allow [fw_match (meta_key ''iifname'') (PStr ''lo'')],
     fw_drop [fw_match (payload ''ip'' ''saddr'') (network_expr LOOPBACK4)],
     fw_drop [fw_match (payload ''ip6'' ''saddr'') (network_expr LOOPBACK6)]]"

definition dhcp_rules :: "pyval \<Rightarrow> pyval list" where
  "dhcp_rules interface = (let uplink = fw_match (meta_key ''iifname'') interface in
     [fw_allow [uplink, fw_match (meta_key ''nfproto'') (PStr ''ipv4''),
        fw_match (payload ''udp'' ''sport'') (PInt 67), fw_match (payload ''udp'' ''dport'') (PInt 68)],
      fw_allow [uplink, fw_match (payload ''ip6'' ''saddr'') (network_expr LINK_LOCAL),
        fw_match (payload ''udp'' ''sport'') (PInt 547), fw_match (payload ''udp'' ''dport'') (PInt 546)]])"

text \<open>One rule per network of a list: from that source to that port.\<close>

definition source_rules :: "string \<Rightarrow> int \<Rightarrow> pyval list \<Rightarrow> pyval list res" where
  "source_rules family port networks =
     map_res (\<lambda>v. bind_res (fw_network v) (\<lambda>n.
       Inr (fw_allow [fw_match (payload family ''saddr'') n, tcp_port (PInt port)]))) networks"

definition middle_rules :: "pyval list" where
  "middle_rules =
     [fw_drop [fw_match (payload ''ip'' ''saddr'') (PStr ''@remediation4'')],
      fw_drop [fw_match (payload ''ip6'' ''saddr'') (PStr ''@remediation6'')],
      fw_allow [fw_match (ct_key ''direction'') (PStr ''reply''),
        fw_match (ct_key ''state'') (any_of [PStr ''established'', PStr ''related''])],
      fw_allow [fw_match (payload ''icmp'' ''type'')
        (any_of [PStr ''destination-unreachable'', PStr ''time-exceeded'', PStr ''parameter-problem''])],
      fw_allow [fw_match (payload ''icmpv6'' ''type'')
        (any_of [PStr ''destination-unreachable'', PStr ''packet-too-big'', PStr ''time-exceeded'', PStr ''parameter-problem''])],
      fw_allow [fw_match (payload ''ip6'' ''hoplimit'') (PInt 255),
        fw_match (payload ''icmpv6'' ''type'') (any_of [PStr ''nd-neighbor-solicit'', PStr ''nd-neighbor-advert''])],
      fw_allow [fw_match (payload ''ip6'' ''saddr'') (network_expr LINK_LOCAL),
        fw_match (payload ''ip6'' ''hoplimit'') (PInt 255),
        fw_match (payload ''icmpv6'' ''type'') (PStr ''nd-router-advert'')]]"

definition service_rules :: "pydict \<Rightarrow> pyval \<Rightarrow> pyval list res" where
  "service_rules c source =
     (if dget c ''edge_mode'' = PStr ''DIRECT'' then Inr [fw_allow [tcp_port (any_of [PInt 80, PInt 443])]]
      else bind_res (source_rules ''ip'' 443 (list_of (dget (dict_of source) ''ipv4_prefixes''))) (\<lambda>r4.
           bind_res (source_rules ''ip6'' 443 (list_of (dget (dict_of source) ''ipv6_prefixes''))) (\<lambda>r6.
           Inr (r4 @ r6))))"

definition fw_policy :: "(string \<Rightarrow> string) \<Rightarrow> pyval \<Rightarrow> pyval \<Rightarrow> pyval list res" where
  "fw_policy sha config source =
     bind_res (fw_scope sha config source) (\<lambda>c.
     bind_res (source_rules ''ip'' 22 (list_of (dget c ''management_ipv4''))) (\<lambda>m4.
     bind_res (source_rules ''ip6'' 22 (list_of (dget c ''management_ipv6''))) (\<lambda>m6.
     bind_res (service_rules c source) (\<lambda>service.
     Inr (fw_objects @ head_rules @ concat (map dhcp_rules (list_of (dget c ''dhcp_interfaces'')))
            @ m4 @ m6 @ middle_rules @ service)))))"

definition is_rule :: "pyval \<Rightarrow> bool" where
  "is_rule v \<longleftrightarrow> ''rule'' \<in> dkeys (dict_of v)"

definition fw_command :: "string \<Rightarrow> pyval \<Rightarrow> pyval" where
  "fw_command verb object = PDict [(verb, object)]"

definition flush_chain :: "string \<Rightarrow> pyval" where
  "flush_chain name = fw_command ''flush'' (PDict [(''chain'',
     PDict [(''family'', PStr ''inet''), (''table'', PStr TABLE), (''name'', PStr name)])])"

definition fw_batch :: "(string \<Rightarrow> string) \<Rightarrow> pyval \<Rightarrow> pyval \<Rightarrow> bool \<Rightarrow> pyval res" where
  "fw_batch sha config source initial =
     bind_res (fw_policy sha config source) (\<lambda>objects.
     Inr (PDict [(''nftables'', PList (
       (if initial then map (fw_command ''create'') (filter (Not \<circ> is_rule) objects)
        else [flush_chain ''ingress'', flush_chain ''transit''])
       @ map (fw_command ''add'') (filter is_rule objects)))]))"

section \<open>Observation\<close>

text \<open>One entry of the observed table: \<open>None\<close> for the metainfo entry, which is skipped.\<close>

definition normalize_item :: "pyval \<Rightarrow> pyval option res" where
  "normalize_item item = (case item of
     PDict [(kind, value)] \<Rightarrow>
       if kind = ''metainfo''
       then (case value of
           PDict d \<Rightarrow> if \<not> py_eq (dget d ''json_schema_version'') (PInt 1)
             then Inl (ValueError ''admit-nft-json-schema'') else Inr None
         | _ \<Rightarrow> Inl (ValueError ''admit-nft-json-schema''))
       else (case value of
           PDict d \<Rightarrow> if kind \<notin> {''table'', ''set'', ''chain'', ''rule''}
             then Inl (ValueError ''admit-firewall-authority'')
             else Inr (Some (PDict [(kind, PDict (without_key ''handle'' d))]))
         | _ \<Rightarrow> Inl (ValueError ''admit-firewall-authority''))
   | _ \<Rightarrow> Inl (ValueError ''admit-firewall-observation''))"

definition normalize_table :: "pyval \<Rightarrow> pyval list res" where
  "normalize_table document = (case document of
     PDict d \<Rightarrow>
       if dkeys d \<noteq> {''nftables''} then Inl (ValueError ''admit-firewall-observation'')
       else (case dget d ''nftables'' of
           PList items \<Rightarrow> bind_res (map_res normalize_item items) (\<lambda>objects. Inr (List.map_filter id objects))
         | _ \<Rightarrow> Inl (ValueError ''admit-firewall-observation''))
   | _ \<Rightarrow> Inl (ValueError ''admit-firewall-observation''))"

definition admit_table :: "(string \<Rightarrow> string) \<Rightarrow> pyval \<Rightarrow> pyval \<Rightarrow> pyval \<Rightarrow> unit res" where
  "admit_table sha document config source =
     bind_res (normalize_table document) (\<lambda>observed.
     bind_res (fw_policy sha config source) (\<lambda>objects.
     if \<not> py_eq (PList observed) (PList objects)
     then Inl (ValueError ''admit-effective-host-firewall'') else Inr ()))"

section \<open>Remediation\<close>

text \<open>\<open>ip_address(text)\<close> as its version and number; \<open>None\<close> when it raises \<open>ValueError\<close>.\<close>

definition ip_address :: "string \<Rightarrow> (nat \<times> int) option res" where
  "ip_address s = (case ip4_int s of
     Some a \<Rightarrow> Inr (Some (4, a))
   | None \<Rightarrow> if CHR ''/'' \<notin> set s \<and> CHR ''%'' \<in> set s then Inl (Unmodelled ''IPv6 scope identifier'')
       else Inr (map_option (Pair 6) (ip6_int s)))"

definition is_loopback :: "nat \<Rightarrow> int \<Rightarrow> bool" where
  "is_loopback version a = (if version = 4 then a div 2 ^ 24 = 127 else a = 1)"

definition is_multicast :: "nat \<Rightarrow> int \<Rightarrow> bool" where
  "is_multicast version a = (if version = 4 then a div 2 ^ 28 = 14 else a div 2 ^ 120 = 255)"

text \<open>\<open>address in network\<close>.\<close>

definition in_network :: "nat \<Rightarrow> int \<Rightarrow> network \<Rightarrow> bool" where
  "in_network version a n \<longleftrightarrow> nw_version n = version \<and>
     (let block = 2 ^ (max_prefixlen version - nw_prefixlen n) in a div block * block = nw_address n)"

definition network_of :: "pyval \<Rightarrow> network res" where
  "network_of v = (case v of PStr s \<Rightarrow> ip_network s | _ \<Rightarrow> Inl (ValueError ''not a network''))"

definition family_key :: "string \<Rightarrow> nat \<Rightarrow> string \<Rightarrow> string" where
  "family_key a version b = a @ show_nat version @ b"

definition remediation ::
  "(string \<Rightarrow> string) \<Rightarrow> pyval \<Rightarrow> pyval \<Rightarrow> pyval \<Rightarrow> pyval \<Rightarrow> (string \<times> string) res" where
  "remediation sha config source address ttl =
     bind_res (fw_scope sha config source) (\<lambda>c. case address of
       PStr s \<Rightarrow> bind_res (ip_address s) (\<lambda>peer. case peer of
           None \<Rightarrow> Inl (ValueError ''admit-remediation-address'')
         | Some (version, a) \<Rightarrow>
             if address_str version a \<noteq> s \<or> is_loopback version a \<or> is_multicast version a \<or> a = 0
             then Inl (ValueError ''admit-remediation-address'')
             else (case ttl of
                 PInt n \<Rightarrow>
                   if \<not> (1 \<le> n \<and> n \<le> MAX_TTL) then Inl (ValueError ''admit-remediation-lifetime'')
                   else let protected = list_of (dget c (family_key ''management_ipv'' version []))
                       @ (if source = PNone then []
                          else list_of (dget (dict_of source) (family_key ''ipv'' version ''_prefixes''))) in
                     bind_res (map_res network_of protected) (\<lambda>networks.
                     if list_ex (in_network version a) networks
                     then Inl (ValueError ''admit-remediation-protected-peer'')
                     else Inr (family_key ''remediation'' version [], address_str version a))
               | _ \<Rightarrow> Inl (ValueError ''admit-remediation-lifetime'')))
     | _ \<Rightarrow> Inl (ValueError ''admit-remediation-address''))"

end
