(* ===== verification/Ip_Collapse.thy ===== *)
theory Ip_Collapse
  imports Host_Firewall
begin

text \<open>
  \<open>ipaddress.collapse_addresses\<close> on networks of one family, as \<open>scripts/host-firewall.py\<close> uses it
  to see whether a network is still covered by a new list. The main fact is that collapsing never
  covers an address the list did not cover (\<open>collapse_covers\<close>).
\<close>

section \<open>The algorithm\<close>

definition block :: "network \<Rightarrow> int" where
  "block n = 2 ^ (max_prefixlen (nw_version n) - nw_prefixlen n)"

definition supernet :: "network \<Rightarrow> network" where
  "supernet n = (if nw_prefixlen n = 0 then n
     else n\<lparr>nw_address := nw_address n div (2 * block n) * (2 * block n), nw_prefixlen := nw_prefixlen n - 1\<rparr>)"

text \<open>The first loop: the work list is popped from its end, so it is kept reversed.\<close>

function merge_subnets :: "network list \<Rightarrow> (network \<times> network) list \<Rightarrow> (network \<times> network) list" where
  "merge_subnets [] subnets = subnets"
| "merge_subnets (net # work) subnets =
     (case map_of subnets (supernet net) of
        None \<Rightarrow> merge_subnets work ((supernet net, net) # subnets)
      | Some existing \<Rightarrow>
          if existing \<noteq> net
          then merge_subnets (supernet net # work) (filter (\<lambda>(k, _). k \<noteq> supernet net) subnets)
          else merge_subnets work subnets)"
  by pat_completeness auto
termination
proof (relation "measure (\<lambda>(work, subnets). 2 * length work + length subnets)", goal_cases)
  case (3 net work subnets existing)
  then have "(supernet net, existing) \<in> set subnets" by (simp add: map_of_SomeD)
  then have "length (filter (\<lambda>(k, _). k \<noteq> supernet net) subnets) < length subnets"
    by (auto intro: length_filter_less)
  then show ?case by simp
qed auto

definition broadcast :: "network \<Rightarrow> int" where
  "broadcast n = nw_address n + block n - 1"

text \<open>The second loop, over the networks sorted by address and mask.\<close>

fun drop_subsumed :: "network option \<Rightarrow> network list \<Rightarrow> network list" where
  "drop_subsumed _ [] = []"
| "drop_subsumed hi (net # nets) =
     (if (case hi of None \<Rightarrow> False | Some l \<Rightarrow> broadcast net \<le> broadcast l)
      then drop_subsumed hi nets
      else net # drop_subsumed (Some net) nets)"

definition collapse_internal :: "network list \<Rightarrow> network list" where
  "collapse_internal addresses = drop_subsumed None
     (sort_key (\<lambda>n. (nw_address n, nw_prefixlen n)) (map snd (merge_subnets (rev addresses) [])))"

text \<open>Single addresses first become ranges, and the ranges networks again.\<close>

fun address_ranges :: "int \<Rightarrow> int \<Rightarrow> int list \<Rightarrow> (int \<times> int) list" where
  "address_ranges lo hi [] = [(lo, hi)]"
| "address_ranges lo hi (ip # ips) =
     (if ip \<noteq> hi + 1 then (lo, hi) # address_ranges ip ip ips else address_ranges lo ip ips)"

fun zero_bits :: "int \<Rightarrow> nat \<Rightarrow> nat" where
  "zero_bits n 0 = 0"
| "zero_bits n (Suc bits) = (if n mod 2 = 0 then Suc (zero_bits (n div 2) bits) else 0)"

text \<open>\<open>n.bit_length() - 1\<close> of a positive number.\<close>

function log2_floor :: "int \<Rightarrow> nat" where
  "log2_floor n = (if n < 2 then 0 else Suc (log2_floor (n div 2)))"
  by auto
termination by (relation "measure nat") auto

declare log2_floor.simps [simp del]

lemma log2_floor_le: "1 \<le> n \<Longrightarrow> 2 ^ log2_floor n \<le> n"
proof (induction n rule: log2_floor.induct)
  case (1 n)
  show ?case
  proof (cases "n < 2")
    case True
    then show ?thesis using 1 by (subst log2_floor.simps) simp
  next
    case False
    then have "2 ^ log2_floor (n div 2) \<le> n div 2" using 1 by simp
    then show ?thesis using False by (subst log2_floor.simps) simp
  qed
qed

lemma zero_bits_dvd: "2 ^ zero_bits n bits dvd n"
proof (induction n bits rule: zero_bits.induct)
  case (2 n bits)
  then show ?case
    by (auto simp: mod_eq_0_iff_dvd elim!: dvdE)
qed simp

lemma zero_bits_le: "zero_bits n bits \<le> bits"
  by (induction n bits rule: zero_bits.induct) auto

definition range_bits :: "nat \<Rightarrow> int \<Rightarrow> int \<Rightarrow> nat" where
  "range_bits width lo hi = min (zero_bits lo width) (log2_floor (hi - lo + 1))"

function summarize_range :: "nat \<Rightarrow> int \<Rightarrow> int \<Rightarrow> network list" where
  "summarize_range version lo hi =
     (if lo \<le> hi
      then let nbits = range_bits (max_prefixlen version) lo hi in
        \<lparr>nw_version = version, nw_address = lo, nw_prefixlen = max_prefixlen version - nbits\<rparr>
          # summarize_range version (lo + 2 ^ nbits) hi
      else [])"
  by auto
termination
proof (relation "measure (\<lambda>(_, lo, hi). nat (hi - lo + 1))", goal_cases)
  case (2 version lo hi x)
  have "(1 :: int) \<le> 2 ^ x" by simp
  then show ?case using 2 by (auto simp: nat_less_iff)
qed simp

declare summarize_range.simps [simp del]

definition collapse_addresses :: "nat \<Rightarrow> network list \<Rightarrow> network list" where
  "collapse_addresses version networks =
     (let single = (\<lambda>n. nw_prefixlen n = max_prefixlen version);
          ips = sorted_list_of_set (nw_address ` {n \<in> set networks. single n});
          addrs = (case ips of [] \<Rightarrow> []
            | ip # rest \<Rightarrow> concat (map (\<lambda>(a, b). summarize_range version a b) (address_ranges ip ip rest)))
      in collapse_internal (addrs @ filter (Not \<circ> single) networks))"

definition subnet_of :: "network \<Rightarrow> network \<Rightarrow> bool" where
  "subnet_of a b \<longleftrightarrow> nw_address b \<le> nw_address a \<and> broadcast a \<le> broadcast b"

section \<open>What is covered\<close>

definition aligned :: "nat \<Rightarrow> network \<Rightarrow> bool" where
  "aligned v n \<longleftrightarrow> nw_version n = v \<and> nw_prefixlen n \<le> max_prefixlen v \<and> nw_address n mod block n = 0"

definition covered :: "network \<Rightarrow> int set" where
  "covered n = {nw_address n .. broadcast n}"

lemma block_pos [simp]: "0 < block n"
  by (simp add: block_def)

lemma block_nonzero [simp]: "block n \<noteq> 0"
  using block_pos [of n] by linarith

lemma in_network_covered: "aligned v n \<Longrightarrow> in_network v a n \<longleftrightarrow> a \<in> covered n"
proof -
  assume n: "aligned v n"
  have e: "in_network v a n \<longleftrightarrow> a div block n * block n = nw_address n"
    using n by (simp add: in_network_def aligned_def block_def Let_def)
  have "block n dvd nw_address n" using n by (simp add: aligned_def mod_eq_0_iff_dvd)
  then obtain q where q: "nw_address n = q * block n" by (metis dvdE mult.commute)
  have "a div block n * block n = q * block n \<longleftrightarrow> a div block n = q" by simp
  also have "\<dots> \<longleftrightarrow> q * block n \<le> a \<and> a < (q + 1) * block n"
  proof
    assume "a div block n = q"
    then have e: "a = block n * q + a mod block n" using mult_div_mod_eq [of "block n" a] by simp
    obtain r where r: "a mod block n = r" "0 \<le> r" "r < block n" by simp
    show "q * block n \<le> a \<and> a < (q + 1) * block n"
      using r(2,3) e unfolding r(1) by (simp add: algebra_simps)
  next
    assume "q * block n \<le> a \<and> a < (q + 1) * block n"
    then show "a div block n = q"
      by (intro int_div_pos_eq [of a "block n" q "a - q * block n"]) (simp_all add: algebra_simps)
  qed
  finally show ?thesis using e q by (auto simp: covered_def broadcast_def algebra_simps)
qed

lemma aligned_multiple:
  assumes "aligned v n"
  obtains x where "nw_address n = block n * x"
  using assms by (metis aligned_def dvdE mod_eq_0_iff_dvd)

lemma supernet_fields:
  assumes "nw_prefixlen n \<noteq> 0" and "aligned v n"
  shows "nw_version (supernet n) = v" and "nw_prefixlen (supernet n) = nw_prefixlen n - 1"
    and "nw_address (supernet n) = nw_address n div (2 * block n) * (2 * block n)"
    and "block (supernet n) = 2 * block n"
proof -
  have "max_prefixlen v - (nw_prefixlen n - 1) = Suc (max_prefixlen v - nw_prefixlen n)"
    using assms by (auto simp: aligned_def)
  then show "block (supernet n) = 2 * block n" using assms by (simp add: supernet_def block_def aligned_def)
qed (use assms in \<open>simp_all add: supernet_def aligned_def\<close>)

lemma aligned_supernet: "aligned v n \<Longrightarrow> aligned v (supernet n)"
proof (cases "nw_prefixlen n = 0")
  case False
  assume "aligned v n"
  from supernet_fields [OF False this] show ?thesis
    using \<open>aligned v n\<close> by (auto simp: aligned_def)
qed (simp add: supernet_def)

lemma supernet_covers:
  assumes "aligned v a" and "aligned v b" and "a \<noteq> b" and "supernet a = supernet b"
  shows "covered (supernet a) \<subseteq> covered a \<union> covered b"
proof (cases "nw_prefixlen a = 0 \<or> nw_prefixlen b = 0")
  case True
  then show ?thesis using assms(4) by (metis Un_upper1 Un_upper2 supernet_def)
next
  case False
  note fa = supernet_fields [of a v] and fb = supernet_fields [of b v]
  have p: "nw_prefixlen a = nw_prefixlen b"
    using False fa(2) fb(2) assms by (metis One_nat_def Suc_pred not_gr_zero)
  then have bl: "block a = block b" using assms(1,2) by (simp add: block_def aligned_def)
  obtain x y where x: "nw_address a = block b * x" and y: "nw_address b = block b * y"
    using aligned_multiple [OF assms(1)] aligned_multiple [OF assms(2)] bl by metis
  have "block b * x div (2 * block b) = block b * y div (2 * block b)"
    using False fa(3) fb(3) assms x y bl by simp
  then have h: "x div 2 = y div 2" by (simp add: div_mult_mult1 mult.commute [of 2])
  define z where "z = y div 2"
  have "x \<noteq> y" using assms(1-3) p x y by (auto simp: aligned_def)
  then have z: "x = 2 * z \<and> y = 2 * z + 1 \<or> x = 2 * z + 1 \<and> y = 2 * z" using h z_def by presburger
  have s: "nw_address (supernet a) = block b * (2 * z)" "block (supernet a) = 2 * block b"
    using False fa(3,4) assms x bl h z_def by (simp_all add: div_mult_mult1 mult.commute [of 2])
  from z show ?thesis
    using x y bl s by (elim disjE conjE) (auto simp: covered_def broadcast_def algebra_simps)
qed

lemma merge_covers:
  assumes "\<forall>n \<in> set work. aligned v n" and "\<forall>(k, n) \<in> set subnets. aligned v n \<and> supernet n = k"
    and "(k, n) \<in> set (merge_subnets work subnets)"
  shows "aligned v n \<and> covered n \<subseteq> \<Union> (covered ` (set work \<union> snd ` set subnets))"
  using assms
proof (induction work subnets rule: merge_subnets.induct)
  case (1 subnets)
  then show ?case by force
next
  case (2 net work subnets)
  have net: "aligned v net" using "2.prems"(1) by simp
  show ?case
  proof (cases "map_of subnets (supernet net)")
    case None
    then show ?thesis using "2.IH"(1) [OF None] "2.prems" net by (auto simp: split_beta)
  next
    case (Some existing)
    then have ex: "(supernet net, existing) \<in> set subnets" by (rule map_of_SomeD)
    then have e: "aligned v existing" "supernet existing = supernet net" using "2.prems"(2) by auto
    show ?thesis
    proof (cases "existing = net")
      case True
      then show ?thesis using "2.IH"(3) [OF Some] "2.prems" Some by auto
    next
      case False
      have "aligned v n \<and> covered n \<subseteq>
          \<Union> (covered ` (set (supernet net # work) \<union> snd ` set (filter (\<lambda>(k, _). k \<noteq> supernet net) subnets)))"
        using "2.IH"(2) [OF Some] False "2.prems" Some aligned_supernet [OF net] by auto
      moreover have "covered (supernet net) \<subseteq> covered existing \<union> covered net"
        using supernet_covers [OF e(1) net False e(2)] e(2) by simp
      ultimately show ?thesis using ex by force
    qed
  qed
qed

lemma set_drop_subsumed: "set (drop_subsumed l ns) \<subseteq> set ns"
  by (induction l ns rule: drop_subsumed.induct) auto

lemma internal_covers:
  assumes "\<forall>n \<in> set ns. aligned v n" and "m \<in> set (collapse_internal ns)"
  shows "aligned v m \<and> covered m \<subseteq> \<Union> (covered ` set ns)"
proof -
  have "m \<in> snd ` set (merge_subnets (rev ns) [])"
    using assms(2) set_drop_subsumed unfolding collapse_internal_def by fastforce
  then obtain k where "(k, m) \<in> set (merge_subnets (rev ns) [])" by force
  from merge_covers [OF _ _ this, of v] show ?thesis using assms(1) by simp
qed

lemma ranges_cover:
  "lo \<le> hi \<Longrightarrow> (a, b) \<in> set (address_ranges lo hi ips) \<Longrightarrow> {a .. b} \<subseteq> {lo .. hi} \<union> set ips"
proof (induction lo hi ips rule: address_ranges.induct)
  case (2 lo hi ip ips)
  show ?case
  proof (cases "ip = hi + 1")
    case True
    then have "{a .. b} \<subseteq> {lo .. ip} \<union> set ips" using 2 by simp
    then show ?thesis using True by auto
  next
    case False
    then have "(a, b) = (lo, hi) \<or> {a .. b} \<subseteq> {ip .. ip} \<union> set ips" using 2 by auto
    then show ?thesis by auto
  qed
qed simp

lemma summarize_covers:
  "n \<in> set (summarize_range v lo hi) \<Longrightarrow> aligned v n \<and> covered n \<subseteq> {lo .. hi}"
proof (induction v lo hi rule: summarize_range.induct)
  case (1 v lo hi)
  define k where "k = range_bits (max_prefixlen v) lo hi"
  have le: "lo \<le> hi" using "1.prems" by (subst (asm) summarize_range.simps) (simp split: if_splits)
  have k: "k \<le> max_prefixlen v" "k \<le> zero_bits lo (max_prefixlen v)" "k \<le> log2_floor (hi - lo + 1)"
    using zero_bits_le [of lo "max_prefixlen v"] by (simp_all add: k_def range_bits_def)
  have d: "(2 :: int) ^ k dvd lo"
    using le_imp_power_dvd [OF k(2)] zero_bits_dvd dvd_trans by blast
  have "(2 :: int) ^ k \<le> 2 ^ log2_floor (hi - lo + 1)" using k(3) by simp
  also have "\<dots> \<le> hi - lo + 1" using log2_floor_le [of "hi - lo + 1"] le by simp
  finally have b: "lo + 2 ^ k - 1 \<le> hi" by simp
  let ?n = "\<lparr>nw_version = v, nw_address = lo, nw_prefixlen = max_prefixlen v - k\<rparr>"
  have "block ?n = 2 ^ k" using k(1) by (simp add: block_def)
  then have "aligned v ?n \<and> covered ?n \<subseteq> {lo .. hi}"
    using d b by (simp add: aligned_def covered_def broadcast_def mod_eq_0_iff_dvd)
  moreover have "n = ?n \<or> n \<in> set (summarize_range v (lo + 2 ^ k) hi)"
    using "1.prems" le by (subst (asm) summarize_range.simps) (simp add: Let_def k_def)
  moreover have "{lo + 2 ^ k .. hi} \<subseteq> {lo .. hi}" by auto
  ultimately show ?case using "1.IH" [OF le] k_def by blast
qed

lemma collapse_covers:
  assumes "\<forall>n \<in> set ns. aligned v n" and "m \<in> set (collapse_addresses v ns)"
  shows "aligned v m \<and> covered m \<subseteq> \<Union> (covered ` set ns)"
proof -
  let ?single = "\<lambda>n. nw_prefixlen n = max_prefixlen v"
  let ?ips = "sorted_list_of_set (nw_address ` {n \<in> set ns. ?single n})"
  let ?addrs = "case ?ips of [] \<Rightarrow> [] | ip # rest \<Rightarrow>
    concat (map (\<lambda>(a, b). summarize_range v a b) (address_ranges ip ip rest))"
  have ips: "a \<in> \<Union> (covered ` set ns)" if "a \<in> set ?ips" for a
    using that by (force simp: covered_def broadcast_def)
  have addrs: "aligned v n \<and> covered n \<subseteq> \<Union> (covered ` set ns)" if "n \<in> set ?addrs" for n
  proof -
    have "?ips \<noteq> []"
    proof
      assume "?ips = []"
      then show False using that unfolding \<open>?ips = []\<close> by simp
    qed
    then obtain ip rest where i: "?ips = ip # rest" by (meson neq_Nil_conv)
    then have "n \<in> set (concat (map (\<lambda>(a, b). summarize_range v a b) (address_ranges ip ip rest)))"
      using that unfolding i by simp
    then obtain a b where r: "?ips = ip # rest" "(a, b) \<in> set (address_ranges ip ip rest)" "n \<in> set (summarize_range v a b)"
      using i by auto
    have "{a .. b} \<subseteq> set ?ips" using ranges_cover [OF _ r(2)] r(1) by auto
    then show ?thesis using summarize_covers [OF r(3)] ips by blast
  qed
  have parts: "aligned v n \<and> covered n \<subseteq> \<Union> (covered ` set ns)" if "n \<in> set (?addrs @ filter (Not \<circ> ?single) ns)" for n
    using that addrs assms(1) unfolding set_append set_filter by blast
  have "m \<in> set (collapse_internal (?addrs @ filter (Not \<circ> ?single) ns))"
    using assms(2) unfolding collapse_addresses_def Let_def .
  from internal_covers [OF _ this] parts show ?thesis by blast
qed

lemma subnet_covered: "subnet_of a b \<Longrightarrow> covered a \<subseteq> covered b"
  by (auto simp: subnet_of_def covered_def)

end
