(* ===== verification/Host_Controller.thy ===== *)
theory Host_Controller
  imports Ip_Collapse Prefix_Store Json_Default
begin

text \<open>
  \<open>scripts/host-firewall.py\<close>: the administrator's controller of the host firewall. Its state is
  the private directory with the accepted document and the kernel's ruleset, which it reaches
  only through the nft binary. The binary is a parameter: from the arguments, the JSON document
  on its standard input and the kernel's state it gives an exit and a new state.
\<close>

section \<open>Computations over files and the kernel\<close>

type_synonym ('a, 'k) hio = "os \<times> 'k \<Rightarrow> 'a res \<times> (os \<times> 'k)"

definition hret :: "'a res \<Rightarrow> ('a, 'k) hio" where
  "hret r w = (r, w)"

definition hbind :: "('a, 'k) hio \<Rightarrow> ('a \<Rightarrow> ('b, 'k) hio) \<Rightarrow> ('b, 'k) hio" where
  "hbind m f w = (case m w of (Inl e, w') \<Rightarrow> (Inl e, w') | (Inr x, w') \<Rightarrow> f x w')"

definition hcatch :: "('a, 'k) hio \<Rightarrow> (exc \<Rightarrow> ('a, 'k) hio) \<Rightarrow> ('a, 'k) hio" where
  "hcatch m h w = (case m w of (Inl e, w') \<Rightarrow> h e w' | (Inr x, w') \<Rightarrow> (Inr x, w'))"

definition hfinally :: "('a, 'k) hio \<Rightarrow> (unit, 'k) hio \<Rightarrow> ('a, 'k) hio" where
  "hfinally m k w = (case m w of (r, w') \<Rightarrow>
     (case k w' of (Inl e, w'') \<Rightarrow> (Inl e, w'') | (Inr _, w'') \<Rightarrow> (r, w'')))"

text \<open>A computation over the files alone.\<close>

definition files :: "'a io \<Rightarrow> ('a, 'k) hio" where
  "files m w = (case m (fst w) of (r, os) \<Rightarrow> (r, (os, snd w)))"

fun heach :: "('a \<Rightarrow> (unit, 'k) hio) \<Rightarrow> 'a list \<Rightarrow> (unit, 'k) hio" where
  "heach f [] = hret (Inr ())"
| "heach f (x # xs) = hbind (f x) (\<lambda>_. heach f xs)"

text \<open>The lock of the store, around a computation that also uses the kernel.\<close>

definition host_lock :: "os_env \<Rightarrow> path \<Rightarrow> ('a, 'k) hio \<Rightarrow> ('a, 'k) hio" where
  "host_lock env directory body =
     hbind (files (os_error_to (ContractError ''state lock is unsafe or unavailable'')
        (open_nofollow env (directory @ [LOCK_FILE]) True (Some 0x180)))) (\<lambda>_.
     hfinally
       (hbind (files (os_error_to (ContractError ''state lock is unsafe or unavailable'')
          (bind_io (lstat env (directory @ [LOCK_FILE])) (\<lambda>opened.
           bind_io (lstat env (directory @ [LOCK_FILE])) (\<lambda>linked. lift_io (Inr (opened, linked)))))))
          (\<lambda>(opened, linked).
        if \<not> private_file env opened \<or> nd_ino opened \<noteq> nd_ino linked
        then hret (Inl (ContractError ''state lock is unsafe''))
        else hbind (files (acquire_lock env)) (\<lambda>_. body)))
       (files (ignore_os_error (touch_call env))))"

section \<open>The nft binary\<close>

definition MAX_OUTPUT :: int where "MAX_OUTPUT = 32 * 1024 * 1024"

text \<open>
  \<open>Nft_Broken\<close>: \<open>subprocess.run\<close> raised \<open>OSError\<close> or \<open>SubprocessError\<close> (it timed out).
  \<open>Nft_Undecodable\<close>: its output is not text.
\<close>

datatype nft_exit = Nft_Broken | Nft_Undecodable | Nft_Exit int string string

type_synonym 'k nft = "string list \<Rightarrow> pyval option \<Rightarrow> 'k \<Rightarrow> nft_exit \<times> 'k"

definition nft_run :: "'k nft \<Rightarrow> string \<Rightarrow> string list \<Rightarrow> pyval option \<Rightarrow> (string, 'k) hio" where
  "nft_run nft operation arguments document w =
     (case nft arguments document (snd w) of (exit, k) \<Rightarrow>
        ((case exit of
            Nft_Broken \<Rightarrow> Inl (NftFailure operation)
          | Nft_Undecodable \<Rightarrow> Inl UnicodeError
          | Nft_Exit code out err \<Rightarrow>
              if code \<noteq> 0 \<or> MAX_OUTPUT < int (utf8_len out) \<or> 4096 < utf8_len err
              then Inl (NftFailure operation) else Inr out), (fst w, k)))"

definition observed_json :: "'k nft \<Rightarrow> string \<Rightarrow> string list \<Rightarrow> (pyval, 'k) hio" where
  "observed_json nft operation arguments =
     hbind (nft_run nft operation arguments None) (\<lambda>out. hret (json_loads default_hooks out))"

text \<open>Iteration over a decoded value.\<close>

definition py_iter :: "pyval \<Rightarrow> pyval list res" where
  "py_iter v = (case v of
     PList xs \<Rightarrow> Inr xs | PTuple xs \<Rightarrow> Inr xs
   | PDict d \<Rightarrow> Inr (map (PStr \<circ> fst) d) | PStr s \<Rightarrow> Inr (map (\<lambda>c. PStr [c]) s)
   | _ \<Rightarrow> Inl TypeError)"

definition get_or :: "pyval \<Rightarrow> string \<Rightarrow> pyval \<Rightarrow> pyval res" where
  "get_or v k v0 = (case v of PDict d \<Rightarrow> Inr (dget_default d k v0) | _ \<Rightarrow> Inl AttributeError)"

fun table_present :: "pyval list \<Rightarrow> bool res" where
  "table_present [] = Inr False"
| "table_present (row # rows) =
     bind_res (get_or row ''table'' (PDict [])) (\<lambda>table.
     bind_res (get_or table ''family'' PNone) (\<lambda>family.
     bind_res (get_or table ''name'' PNone) (\<lambda>name.
     if family = PStr ''inet'' \<and> name = PStr TABLE then Inr True else table_present rows)))"

definition nft_snapshot :: "'k nft \<Rightarrow> (pyval option, 'k) hio" where
  "nft_snapshot nft =
     hbind (observed_json nft ''observe-firewall-tables'' [''--json'', ''list'', ''tables'']) (\<lambda>tables.
     hbind (hret (bind_res (pitem tables ''nftables'') (\<lambda>v. bind_res (py_iter v) table_present))) (\<lambda>present.
     if \<not> present then hret (Inr None)
     else hbind (observed_json nft ''observe-host-firewall''
         [''--json'', ''--terse'', ''list'', ''table'', ''inet'', TABLE]) (\<lambda>v. hret (Inr (Some v)))))"

definition nft_validate :: "'k nft \<Rightarrow> pyval \<Rightarrow> (unit, 'k) hio" where
  "nft_validate nft document =
     hbind (nft_run nft ''validate-host-firewall'' [''--check'', ''--json'', ''--file'', ''-''] (Some document))
       (\<lambda>_. hret (Inr ()))"

definition nft_commit :: "'k nft \<Rightarrow> pyval \<Rightarrow> (unit, 'k) hio" where
  "nft_commit nft document =
     hbind (nft_run nft ''apply-host-firewall'' [''--json'', ''--file'', ''-''] (Some document))
       (\<lambda>_. hret (Inr ()))"

text \<open>\<open>row["set"]\<close> if \<open>"set" in row\<close>; a string that contains it, or a list that holds it, has no such item.\<close>

definition set_row :: "pyval \<Rightarrow> pyval option res" where
  "set_row row = (case row of
     PDict d \<Rightarrow> Inr (map_of d ''set'')
   | PStr s \<Rightarrow> if contains_str ''set'' s then Inl TypeError else Inr None
   | PList xs \<Rightarrow> if PStr ''set'' \<in> set xs then Inl TypeError else Inr None
   | PTuple xs \<Rightarrow> if PStr ''set'' \<in> set xs then Inl TypeError else Inr None
   | _ \<Rightarrow> Inl TypeError)"

definition nft_decisions :: "'k nft \<Rightarrow> string \<Rightarrow> (pyval, 'k) hio" where
  "nft_decisions nft name =
     hbind (observed_json nft ''observe-remediation'' [''--json'', ''list'', ''set'', ''inet'', TABLE, name]) (\<lambda>observed.
     hret (bind_res (pitem observed ''nftables'') (\<lambda>v. bind_res (py_iter v) (\<lambda>rows.
       bind_res (map_res set_row rows) (\<lambda>found. case List.map_filter id found of
           [s] \<Rightarrow> get_or s ''elem'' (PList [])
         | _ \<Rightarrow> Inl (ValueError ''admit-remediation-observation''))))))"

section \<open>The accepted document\<close>

definition ACCEPTED_FILE :: string where "ACCEPTED_FILE = ''accepted.json''"

record host_document =
  hd_configuration :: pyval
  hd_prefixes :: pyval

definition document_json :: "host_document \<Rightarrow> pydict" where
  "document_json d = [(''configuration'', hd_configuration d), (''prefixes'', hd_prefixes d)]"

definition host_source :: "host_document \<Rightarrow> pyval res" where
  "host_source d = bind_res (pitem (hd_configuration d) ''edge_mode'') (\<lambda>mode.
     Inr (if mode = PStr ''PROTECTED'' then hd_prefixes d else PNone))"

definition document_policy :: "(string \<Rightarrow> string) \<Rightarrow> host_document \<Rightarrow> pyval list res" where
  "document_policy sha d = bind_res (host_source d) (\<lambda>source. fw_policy sha (hd_configuration d) source)"

definition admit_document :: "(string \<Rightarrow> string) \<Rightarrow> pyval \<Rightarrow> host_document res" where
  "admit_document sha value = (case value of
     PDict d \<Rightarrow>
       if dkeys d \<noteq> {''configuration'', ''prefixes''} then Inl (ValueError ''admit-firewall-state'')
       else let document = \<lparr>hd_configuration = dget d ''configuration'', hd_prefixes = dget d ''prefixes''\<rparr> in
         seq_res (if hd_prefixes document = PNone then Inr () else validate_candidate sha (hd_prefixes document))
           (bind_res (document_policy sha document) (\<lambda>_. Inr document))
   | _ \<Rightarrow> Inl (ValueError ''admit-firewall-state''))"

definition host_read :: "(string \<Rightarrow> string) \<Rightarrow> os_env \<Rightarrow> path \<Rightarrow> host_document option io" where
  "host_read sha env directory =
     bind_io (state_file env directory ACCEPTED_FILE False) (\<lambda>found. case found of
       None \<Rightarrow> lift_io (Inr None)
     | Some p \<Rightarrow>
         bind_io (open_nofollow env p False None) (\<lambda>_.
         bind_io (finally_io (read_bytes env p (MAX_STATE_BYTES + 1)) (touch_call env)) (\<lambda>raw.
         if MAX_STATE_BYTES < int (length raw) then lift_io (Inl (ValueError ''admit-firewall-state-bound''))
         else lift_io (bind_res (decode_json raw) (\<lambda>v. bind_res (admit_document sha v) (\<lambda>d. Inr (Some d)))))))"

definition host_save :: "os_env \<Rightarrow> path \<Rightarrow> host_document \<Rightarrow> unit io" where
  "host_save env directory d =
     catch_io (bind_io (lift_io (canonical_bytes (document_json d))) (\<lambda>content.
         atomic_write env directory ACCEPTED_FILE content))
       (\<lambda>e. lift_io (Inl (case e of
          OSError _ \<Rightarrow> NftFailure ''persist-accepted-host-firewall''
        | ContractError _ \<Rightarrow> NftFailure ''persist-accepted-host-firewall''
        | _ \<Rightarrow> e)))"

section \<open>Checks\<close>

definition same_table :: "(string \<Rightarrow> string) \<Rightarrow> pyval option \<Rightarrow> host_document \<Rightarrow> bool res" where
  "same_table sha observed d = (case observed of
     None \<Rightarrow> Inr False
   | Some v \<Rightarrow> bind_res (normalize_table v) (\<lambda>objects.
       bind_res (document_policy sha d) (\<lambda>policy. Inr (py_eq (PList objects) (PList policy)))))"

definition preserves :: "nat \<Rightarrow> pydict \<Rightarrow> pydict \<Rightarrow> unit res" where
  "preserves version previous candidate =
     (let key = family_key ''management_ipv'' version [] in
      bind_res (map_res network_of (list_of (dget candidate key))) (\<lambda>offered.
      let new = collapse_addresses version offered in
      each (\<lambda>v. bind_res (network_of v) (\<lambda>old.
        if list_ex (subnet_of old) new then Inr () else Inl (ValueError ''admit-management-preservation'')))
        (list_of (dget previous key))))"

definition management_transition :: "host_document option \<Rightarrow> pydict \<Rightarrow> unit res" where
  "management_transition previous candidate = (case previous of
     None \<Rightarrow> Inr ()
   | Some d \<Rightarrow>
       let c = dict_of (hd_configuration d) in
       if \<not> set (list_of (dget c ''dhcp_interfaces'')) \<subseteq> set (list_of (dget candidate ''dhcp_interfaces''))
       then Inl (ValueError ''admit-dhcp-uplink-preservation'')
       else seq_res (preserves 4 c candidate) (preserves 6 c candidate))"

definition py_len :: "pyval \<Rightarrow> nat res" where
  "py_len v = (case v of
     PList xs \<Rightarrow> Inr (length xs) | PTuple xs \<Rightarrow> Inr (length xs) | PDict d \<Rightarrow> Inr (length d)
   | PStr s \<Rightarrow> Inr (length s) | PBytes s \<Rightarrow> Inr (length s) | _ \<Rightarrow> Inl TypeError)"

definition admit_decision :: "(string \<Rightarrow> string) \<Rightarrow> host_document \<Rightarrow> string \<Rightarrow> pyval \<Rightarrow> unit res" where
  "admit_decision sha d name entry =
     (case entry of
        PDict [(''elem'', PDict value)] \<Rightarrow>
          if \<not> {''val'', ''timeout'', ''expires''} \<subseteq> dkeys value
          then Inl (ValueError ''admit-remediation-element'')
          else (case (dget value ''timeout'', dget value ''expires'') of
              (PInt t, PInt x) \<Rightarrow>
                if \<not> (0 < t \<and> t \<le> MAX_TTL) \<or> \<not> (0 \<le> x \<and> x \<le> t)
                then Inl (ValueError ''admit-remediation-lifetime'')
                else bind_res (host_source d) (\<lambda>source.
                  bind_res (remediation sha (hd_configuration d) source (dget value ''val'') (PInt 1)) (\<lambda>(actual, peer).
                  if name \<noteq> actual then Inl (ValueError ''admit-remediation-family'') else Inr ()))
            | _ \<Rightarrow> Inl (ValueError ''admit-remediation-lifetime''))
      | _ \<Rightarrow> Inl (ValueError ''admit-remediation-element''))"

definition admit_set :: "(string \<Rightarrow> string) \<Rightarrow> host_document \<Rightarrow> string \<Rightarrow> pyval \<Rightarrow> unit res" where
  "admit_set sha d name entries =
     bind_res (py_len entries) (\<lambda>n.
     if MAX_DECISIONS < int n then Inl (ValueError ''admit-remediation-capacity'')
     else bind_res (py_iter entries) (\<lambda>es. each (admit_decision sha d name) es))"

definition admit_decisions :: "(string \<Rightarrow> string) \<Rightarrow> 'k nft \<Rightarrow> host_document \<Rightarrow> (unit, 'k) hio" where
  "admit_decisions sha nft d =
     heach (\<lambda>name. hbind (nft_decisions nft name) (\<lambda>entries. hret (admit_set sha d name entries)))
       [''remediation4'', ''remediation6'']"

section \<open>Operations\<close>

text \<open>\<open>except ValueError\<close>: also its subclasses.\<close>

fun is_value_error :: "exc \<Rightarrow> bool" where
  "is_value_error (ValueError _) = True"
| "is_value_error (NftFailure _) = True"
| "is_value_error UnicodeError = True"
| "is_value_error _ = False"

definition shown :: "(string \<Rightarrow> string) \<Rightarrow> 'k nft \<Rightarrow> host_document \<Rightarrow> (bool, 'k) hio" where
  "shown sha nft d = hbind (nft_snapshot nft) (\<lambda>observed. hret (same_table sha observed d))"

definition commit_policy :: "(string \<Rightarrow> string) \<Rightarrow> 'k nft \<Rightarrow> pyval \<Rightarrow> host_document \<Rightarrow> (unit, 'k) hio" where
  "commit_policy sha nft commands d =
     hbind (nft_validate nft commands) (\<lambda>_.
     hbind (hcatch (nft_commit nft commands) (\<lambda>e.
         if is_value_error e
         then hbind (shown sha nft d) (\<lambda>same. if same then hret (Inr ()) else hret (Inl e))
         else hret (Inl e))) (\<lambda>_.
     hbind (shown sha nft d) (\<lambda>same.
     if same then hret (Inr ()) else hret (Inl (ValueError ''admit-applied-firewall'')))))"

text \<open>\<open>apply\<close> under the lock, in four parts: the installation of the policy,\<close>

definition install ::
  "(string \<Rightarrow> string) \<Rightarrow> os_env \<Rightarrow> 'k nft \<Rightarrow> path \<Rightarrow> pyval \<Rightarrow> bool \<Rightarrow> host_document \<Rightarrow> (unit, 'k) hio" where
  "install sha env nft directory source initial value =
     hbind (hret (fw_batch sha (hd_configuration value) source initial)) (\<lambda>commands.
     hbind (commit_policy sha nft commands value) (\<lambda>_.
     hbind (admit_decisions sha nft value) (\<lambda>_.
     files (host_save env directory value))))"

text \<open>the checks on an observed table (\<open>True\<close> if it already is the new policy),\<close>

definition prior_shown :: "(string \<Rightarrow> string) \<Rightarrow> host_document option \<Rightarrow> pyval option \<Rightarrow> unit res" where
  "prior_shown sha previous observed =
     (if observed = None then Inr ()
      else case previous of
        None \<Rightarrow> Inl (ValueError ''admit-prior-firewall'')
      | Some d \<Rightarrow> bind_res (same_table sha observed d) (\<lambda>prior.
          if prior then Inr () else Inl (ValueError ''admit-prior-firewall'')))"

definition already_shown :: "(string \<Rightarrow> string) \<Rightarrow> 'k nft \<Rightarrow> pyval option \<Rightarrow> host_document \<Rightarrow> (bool, 'k) hio" where
  "already_shown sha nft observed value =
     (if observed = None then hret (Inr False)
      else hbind (admit_decisions sha nft value) (\<lambda>_. hret (same_table sha observed value)))"

text \<open>the reconciliation with the kernel,\<close>

definition host_reconcile ::
  "(string \<Rightarrow> string) \<Rightarrow> os_env \<Rightarrow> 'k nft \<Rightarrow> path \<Rightarrow> pyval \<Rightarrow> host_document option \<Rightarrow> host_document \<Rightarrow> (unit, 'k) hio" where
  "host_reconcile sha env nft directory source previous value =
     hbind (nft_snapshot nft) (\<lambda>observed.
     hbind (already_shown sha nft observed value) (\<lambda>same.
     if same then files (host_save env directory value)
     else hbind (hret (prior_shown sha previous observed)) (\<lambda>_.
       install sha env nft directory source (observed = None) value)))"

text \<open>and the document it is about, after the checks against the accepted one.\<close>

definition apply_locked ::
  "(string \<Rightarrow> string) \<Rightarrow> os_env \<Rightarrow> 'k nft \<Rightarrow> path \<Rightarrow> pydict \<Rightarrow> pyval \<Rightarrow> (unit, 'k) hio" where
  "apply_locked sha env nft directory config source =
     hbind (files (host_read sha env directory)) (\<lambda>previous.
     hbind (hret (management_transition previous config)) (\<lambda>_.
     let kept = (case previous of None \<Rightarrow> PNone | Some d \<Rightarrow> hd_prefixes d);
         value = \<lparr>hd_configuration = PDict config, hd_prefixes = (if source = PNone then kept else source)\<rparr> in
     hbind (hret (if kept \<noteq> PNone \<and> source \<noteq> PNone
         then admit_successor sha (Some (dict_of kept)) (dict_of source) else Inr ())) (\<lambda>_.
     host_reconcile sha env nft directory source previous value)))"

definition host_apply ::
  "(string \<Rightarrow> string) \<Rightarrow> os_env \<Rightarrow> 'k nft \<Rightarrow> path \<Rightarrow> pyval \<Rightarrow> pyval \<Rightarrow> (unit, 'k) hio" where
  "host_apply sha env nft directory config source =
     hbind (hret (configuration config)) (\<lambda>c.
     hbind (hret (fw_policy sha (PDict c) source)) (\<lambda>_.
     host_lock env directory (apply_locked sha env nft directory c source)))"

definition restore_locked :: "(string \<Rightarrow> string) \<Rightarrow> os_env \<Rightarrow> 'k nft \<Rightarrow> path \<Rightarrow> (unit, 'k) hio" where
  "restore_locked sha env nft directory =
     hbind (files (host_read sha env directory)) (\<lambda>found. case found of
       None \<Rightarrow> hret (Inl (ValueError ''admit-accepted-firewall-required''))
     | Some value \<Rightarrow>
         hbind (nft_snapshot nft) (\<lambda>observed.
         hbind (if observed = None
             then hbind (hret (bind_res (host_source value) (\<lambda>source.
                 fw_batch sha (hd_configuration value) source True))) (\<lambda>commands.
               commit_policy sha nft commands value)
             else hret (Inr ())) (\<lambda>_.
         hbind (shown sha nft value) (\<lambda>same.
         if \<not> same then hret (Inl (ValueError ''admit-restored-firewall''))
         else admit_decisions sha nft value))))"

definition host_restore :: "(string \<Rightarrow> string) \<Rightarrow> os_env \<Rightarrow> 'k nft \<Rightarrow> path \<Rightarrow> (unit, 'k) hio" where
  "host_restore sha env nft directory = host_lock env directory (restore_locked sha env nft directory)"

text \<open>The accepted document, if the kernel shows its policy.\<close>

definition effective_document :: "(string \<Rightarrow> string) \<Rightarrow> os_env \<Rightarrow> 'k nft \<Rightarrow> path \<Rightarrow> (host_document, 'k) hio" where
  "effective_document sha env nft directory =
     hbind (files (host_read sha env directory)) (\<lambda>found. case found of
       None \<Rightarrow> hret (Inl (ValueError ''admit-effective-host-firewall''))
     | Some value \<Rightarrow> hbind (shown sha nft value) (\<lambda>same.
         if same then hret (Inr value) else hret (Inl (ValueError ''admit-effective-host-firewall''))))"

definition host_check :: "(string \<Rightarrow> string) \<Rightarrow> os_env \<Rightarrow> 'k nft \<Rightarrow> path \<Rightarrow> (unit, 'k) hio" where
  "host_check sha env nft directory = host_lock env directory
     (hbind (effective_document sha env nft directory) (admit_decisions sha nft))"

definition remediation_commands :: "string \<Rightarrow> string \<Rightarrow> pyval \<Rightarrow> bool \<Rightarrow> pyval" where
  "remediation_commands name peer ttl removing =
     (let identity = [(''family'', PStr ''inet''), (''table'', PStr TABLE), (''name'', PStr name)];
          element = (\<lambda>e. PDict [(''element'', PDict (identity @ [(''elem'', PList [e])]))]) in
      PDict [(''nftables'', PList (fw_command ''destroy'' (element (PStr peer)) #
        (if removing then [] else [fw_command ''add'' (element (PDict [(''elem'',
           PDict [(''val'', PStr peer), (''timeout'', ttl)])]))])))])"

text \<open>The entries of a set that name the peer, as \<open>entry.get("elem", {})\<close>.\<close>

definition peer_entries :: "string \<Rightarrow> pyval \<Rightarrow> pyval list res" where
  "peer_entries peer entries =
     bind_res (py_iter entries) (\<lambda>es.
     bind_res (map_res (\<lambda>e. bind_res (get_or e ''elem'' (PDict [])) (\<lambda>v.
         bind_res (get_or v ''val'' PNone) (\<lambda>a. Inr (v, a)))) es) (\<lambda>pairs.
     Inr (map fst (filter (\<lambda>(_, a). py_eq a (PStr peer)) pairs))))"

definition decided :: "pyval list \<Rightarrow> pyval \<Rightarrow> bool \<Rightarrow> bool" where
  "decided found ttl removing = (if removing then found = []
     else (case found of [v] \<Rightarrow> py_eq (dget (dict_of v) ''timeout'') ttl | _ \<Rightarrow> False))"

definition remediate_locked ::
  "(string \<Rightarrow> string) \<Rightarrow> os_env \<Rightarrow> 'k nft \<Rightarrow> path \<Rightarrow> pyval \<Rightarrow> pyval \<Rightarrow> bool \<Rightarrow> (unit, 'k) hio" where
  "remediate_locked sha env nft directory address ttl removing =
     hbind (effective_document sha env nft directory) (\<lambda>value.
     hbind (hret (bind_res (host_source value) (\<lambda>source.
         remediation sha (hd_configuration value) source address ttl))) (\<lambda>(name, peer).
     hbind (admit_decisions sha nft value) (\<lambda>_.
     let document = remediation_commands name peer ttl removing in
     hbind (nft_validate nft document) (\<lambda>_.
     hbind (hcatch (hbind (nft_commit nft document) (\<lambda>_. hret (Inr None))) (\<lambda>e.
         hret (if is_value_error e then Inr (Some e) else Inl e))) (\<lambda>failure.
     hbind (nft_decisions nft name) (\<lambda>entries.
     hbind (hret (peer_entries peer entries)) (\<lambda>found.
     if \<not> decided found ttl removing
     then hret (Inl (case failure of Some e \<Rightarrow> e | None \<Rightarrow> ValueError ''admit-remediation-readback''))
     else admit_decisions sha nft value)))))))"

definition host_remediate ::
  "(string \<Rightarrow> string) \<Rightarrow> os_env \<Rightarrow> 'k nft \<Rightarrow> path \<Rightarrow> pyval \<Rightarrow> pyval \<Rightarrow> bool \<Rightarrow> (unit, 'k) hio" where
  "host_remediate sha env nft directory address ttl removing =
     host_lock env directory (remediate_locked sha env nft directory address ttl removing)"

section \<open>The command line\<close>

text \<open>\<open>trusted\<close>: the path and everything above it belongs to root and is not group- or world-writable.\<close>

fun trusted_entries :: "os_env \<Rightarrow> path list \<Rightarrow> unit io" where
  "trusted_entries env [] = lift_io (Inr ())"
| "trusted_entries env (p # ps) =
     bind_io (lstat env p) (\<lambda>info.
     if nd_uid info \<noteq> 0 \<or> nd_mode info AND 0x12 \<noteq> 0 \<or> nd_kind info = K_Lnk
     then lift_io (Inl (ValueError ''admit-host-firewall-source'')) else trusted_entries env ps)"

definition trusted :: "os_env \<Rightarrow> path \<Rightarrow> bool \<Rightarrow> unit io" where
  "trusted env p regular =
     bind_io (trusted_entries env (map (\<lambda>n. take n p) (rev [0..<Suc (length p)]))) (\<lambda>_.
     bind_io (lstat env p) (\<lambda>info.
     if regular \<and> (nd_kind info \<noteq> K_Reg \<or> nd_nlink info \<noteq> 1)
     then lift_io (Inl (ValueError ''admit-host-firewall-source'')) else lift_io (Inr ())))"

definition DESIRED :: path where "DESIRED = [''etc'', ''secpal'', ''host-firewall.json'']"
definition STATE :: path where "STATE = [''var'', ''lib'', ''secpal'', ''host-firewall'']"
definition PREFIX_STATE :: path where "PREFIX_STATE = [''var'', ''lib'', ''secpal'', ''cloudfront-origin-prefixes'']"

definition rooted :: "path \<Rightarrow> py_path" where
  "rooted p = \<lparr>pp_absolute = True, pp_parts = p\<rparr>"

text \<open>The accepted prefixes, in \<open>PROTECTED\<close> mode.\<close>

definition desired_source :: "(string \<Rightarrow> string) \<Rightarrow> os_env \<Rightarrow> pydict \<Rightarrow> pyval io" where
  "desired_source sha env config =
     (if dget config ''edge_mode'' = PStr ''PROTECTED''
      then bind_io (trusted env PREFIX_STATE False) (\<lambda>_.
        bind_io (read_lkg sha env (rooted PREFIX_STATE)) (\<lambda>found.
        lift_io (Inr (case found of None \<Rightarrow> PNone | Some d \<Rightarrow> PDict d))))
      else lift_io (Inr PNone))"

definition desired_input :: "(string \<Rightarrow> string) \<Rightarrow> os_env \<Rightarrow> (pydict \<times> pyval) io" where
  "desired_input sha env =
     bind_io (trusted env DESIRED True) (\<lambda>_.
     bind_io (lstat env DESIRED) (\<lambda>info.
     if \<not> (0 < length (nd_bytes info) \<and> length (nd_bytes info) \<le> 65536)
     then lift_io (Inl (ValueError ''admit-desired-firewall-size''))
     else bind_io (open_nofollow env DESIRED False None) (\<lambda>_.
       bind_io (finally_io (read_bytes env DESIRED 65536) (touch_call env)) (\<lambda>raw.
       bind_io (lift_io (bind_res (decode_json raw) configuration)) (\<lambda>config.
       bind_io (desired_source sha env config) (\<lambda>source. lift_io (Inr (config, source))))))))"

datatype host_action = Apply | Restore | Check | Remediate pyval pyval bool

definition host_main :: "(string \<Rightarrow> string) \<Rightarrow> os_env \<Rightarrow> 'k nft \<Rightarrow> host_action \<Rightarrow> (unit, 'k) hio" where
  "host_main sha env nft action =
     hbind (files (trusted env (butlast STATE) False)) (\<lambda>_.
     hbind (files (assert_safe_directory env (rooted STATE) True)) (\<lambda>directory.
     case action of
       Apply \<Rightarrow> hbind (files (desired_input sha env)) (\<lambda>(config, source).
         host_apply sha env nft directory (PDict config) source)
     | Restore \<Rightarrow> host_restore sha env nft directory
     | Check \<Rightarrow> host_check sha env nft directory
     | Remediate address ttl removing \<Rightarrow> host_remediate sha env nft directory address ttl removing))"

text \<open>The exit status; \<open>None\<close> is an exception that escapes \<open>main\<close>.\<close>

definition exit_status :: "unit res \<Rightarrow> int option" where
  "exit_status r = (case r of
     Inr _ \<Rightarrow> Some 0
   | Inl (CommitStateUncertain _) \<Rightarrow> Some 2
   | Inl (OSError _) \<Rightarrow> Some 1
   | Inl (ContractError _) \<Rightarrow> Some 1
   | Inl e \<Rightarrow> if is_value_error e then Some 1 else None)"

end
