(* ===== verification/Host_Firewall_Facts.thy ===== *)
theory Host_Firewall_Facts
  imports Host_Firewall
begin

text \<open>
  What the policy of \<open>scripts/host_firewall_contract.py\<close> means for a packet. How nft decides a
  single match expression is the parameter \<open>m\<close>, with the documented meaning of the few
  expressions the policy uses as the assumptions of the locale \<open>nft_matching\<close>; a chain is read
  as nft reads it: rule by rule, the first rule whose matches all hold gives the verdict,
  and the chain's policy decides what no rule decides.
\<close>

section \<open>Packets and rules\<close>

text \<open>\<open>pk_tcp_port\<close> is the destination port of a TCP segment, \<open>None\<close> for anything else.\<close>

record packet =
  pk_version :: nat
  pk_source :: int
  pk_interface :: string
  pk_invalid :: bool
  pk_reply :: bool
  pk_established :: bool
  pk_tcp_port :: "int option"

definition family_of :: "nat \<Rightarrow> string" where
  "family_of version = (if version = 4 then ''ip'' else ''ip6'')"

fun decide_rule :: "(pyval \<Rightarrow> packet \<Rightarrow> bool) \<Rightarrow> packet \<Rightarrow> pyval list \<Rightarrow> bool option" where
  "decide_rule m p [] = None"
| "decide_rule m p (e # es) =
     (if e = accept_verdict then Some True
      else if e = drop_verdict then Some False
      else if m e p then decide_rule m p es else None)"

definition rule_body :: "pyval \<Rightarrow> pyval list" where
  "rule_body r = list_of (dget (dict_of (dget (dict_of r) ''rule'')) ''expr'')"

definition rule_chain :: "pyval \<Rightarrow> pyval" where
  "rule_chain r = dget (dict_of (dget (dict_of r) ''rule'')) ''chain''"

fun decide :: "(pyval \<Rightarrow> packet \<Rightarrow> bool) \<Rightarrow> packet \<Rightarrow> pyval list \<Rightarrow> bool option" where
  "decide m p [] = None"
| "decide m p (r # rs) = (case decide_rule m p (rule_body r) of Some v \<Rightarrow> Some v | None \<Rightarrow> decide m p rs)"

definition chain_accepts :: "pyval list \<Rightarrow> string \<Rightarrow> bool" where
  "chain_accepts objects name = list_ex (\<lambda>ob. let d = dict_of (dget (dict_of ob) ''chain'') in
     dget d ''name'' = PStr name \<and> dget d ''policy'' = PStr ''accept'') objects"

definition admits :: "(pyval \<Rightarrow> packet \<Rightarrow> bool) \<Rightarrow> pyval list \<Rightarrow> string \<Rightarrow> packet \<Rightarrow> bool" where
  "admits m objects chain p =
     (case decide m p (filter (\<lambda>ob. is_rule ob \<and> rule_chain ob = PStr chain) objects) of
        Some v \<Rightarrow> v | None \<Rightarrow> chain_accepts objects chain)"

text \<open>A network that its own text denotes, as every network of the policy is.\<close>

definition proper_network :: "network \<Rightarrow> bool" where
  "proper_network n \<longleftrightarrow> ip_network (network_str n) = Inr n \<and> nw_version n \<in> {4, 6}"

locale nft_matching =
  fixes m :: "pyval \<Rightarrow> packet \<Rightarrow> bool" and blocked :: "nat \<Rightarrow> int \<Rightarrow> bool"
  assumes invalid: "m (fw_match (ct_key ''state'') (PStr ''invalid'')) p \<longleftrightarrow> pk_invalid p"
    and interface: "m (fw_match (meta_key ''iifname'') (PStr i)) p \<longleftrightarrow> pk_interface p = i"
    and source: "proper_network n \<Longrightarrow>
      m (fw_match (payload (family_of (nw_version n)) ''saddr'') (network_expr n)) p \<longleftrightarrow>
        in_network (pk_version p) (pk_source p) n"
    and blocked4: "m (fw_match (payload ''ip'' ''saddr'') (PStr ''@remediation4'')) p \<longleftrightarrow>
      pk_version p = 4 \<and> blocked 4 (pk_source p)"
    and blocked6: "m (fw_match (payload ''ip6'' ''saddr'') (PStr ''@remediation6'')) p \<longleftrightarrow>
      pk_version p = 6 \<and> blocked 6 (pk_source p)"
    and reply: "m (fw_match (ct_key ''direction'') (PStr ''reply'')) p \<longleftrightarrow> pk_reply p"
    and established: "m (fw_match (ct_key ''state'') (any_of [PStr ''established'', PStr ''related''])) p \<longleftrightarrow>
      pk_established p"
    and tcp: "m (tcp_port (PInt k)) p \<longleftrightarrow> pk_tcp_port p = Some k"
    and tcp_any: "m (tcp_port (any_of [PInt k, PInt l])) p \<longleftrightarrow> pk_tcp_port p \<in> {Some k, Some l}"
    and not_tcp: "pk_tcp_port p \<noteq> None \<Longrightarrow> proto \<in> {''udp'', ''icmp'', ''icmpv6''} \<Longrightarrow>
      \<not> m (fw_match (payload proto what) v) p"
begin

lemmas laws = invalid interface blocked4 blocked6 reply established tcp tcp_any

end

section \<open>Reading the policy\<close>

lemma match_not_verdict [simp]:
  "fw_match l r \<noteq> accept_verdict" "fw_match l r \<noteq> drop_verdict" "accept_verdict \<noteq> drop_verdict"
  "drop_verdict \<noteq> accept_verdict" "tcp_port v \<noteq> accept_verdict" "tcp_port v \<noteq> drop_verdict"
  by (simp_all add: fw_match_def fw_match_op_def accept_verdict_def drop_verdict_def tcp_port_def)

lemma rule_body_simps [simp]:
  "rule_body (fw_rule es) = es" "is_rule (fw_rule es)" "rule_chain (fw_rule es) = PStr ''ingress''"
  by (simp_all add: rule_body_def rule_chain_def fw_rule_def in_table_def dget_def is_rule_def dkeys_def)

lemma decide_append:
  "decide m p (rs @ ss) = (case decide m p rs of Some v \<Rightarrow> Some v | None \<Rightarrow> decide m p ss)"
  by (induction rs) (auto split: option.splits)

lemma decide_none: "(\<And>r. r \<in> set rs \<Longrightarrow> decide_rule m p (rule_body r) = None) \<Longrightarrow> decide m p rs = None"
  by (induction rs) simp_all

text \<open>A list of accepting rules decides \<open>True\<close> or nothing.\<close>

lemma decide_accepts:
  assumes "\<And>r. r \<in> set rs \<Longrightarrow> decide_rule m p (rule_body r) = (if q r then Some True else None)"
  shows "decide m p rs = (if \<exists>r \<in> set rs. q r then Some True else None)"
  using assms by (induction rs) simp_all

lemma body_rules [simp]:
  "rule_body (fw_allow es) = es @ [accept_verdict]" "rule_body (fw_drop es) = es @ [drop_verdict]"
  "is_rule (fw_allow es)" "is_rule (fw_drop es)"
  "rule_chain (fw_allow es) = PStr ''ingress''" "rule_chain (fw_drop es) = PStr ''ingress''"
  by (simp_all add: fw_allow_def fw_drop_def)

lemma parse_network_proper:
  "parse_network v f = Inr s \<Longrightarrow> \<exists>n. v = PStr s \<and> ip_network s = Inr n \<and> nw_version n = f \<and> network_str n = s"
  by (auto simp: parse_network_def bind_res_Inr_iff catch_res_def split: pyval.splits if_splits sum.splits exc.splits)

text \<open>The source address of a packet is in one of the listed networks.\<close>

definition listed :: "pyval list \<Rightarrow> packet \<Rightarrow> bool" where
  "listed vs p \<longleftrightarrow> (\<exists>v \<in> set vs. case network_of v of
     Inl _ \<Rightarrow> False | Inr n \<Rightarrow> in_network (pk_version p) (pk_source p) n)"

text \<open>Admitted lists of networks: texts of one family.\<close>

definition family_list :: "nat \<Rightarrow> pyval list \<Rightarrow> bool" where
  "family_list f vs \<longleftrightarrow> f \<in> {4, 6} \<and> (\<forall>v \<in> set vs. \<exists>s. parse_network v f = Inr s)"

lemma source_rule_decides:
  assumes "nft_matching m blocked" and "parse_network v f = Inr s" and "f \<in> {4, 6}"
    and "fw_network v = Inr e"
  shows "decide_rule m p [fw_match (payload (family_of f) ''saddr'') e, tcp_port (PInt k), accept_verdict] =
    (if (case network_of v of Inl _ \<Rightarrow> False | Inr n \<Rightarrow> in_network (pk_version p) (pk_source p) n)
        \<and> pk_tcp_port p = Some k then Some True else None)"
proof -
  obtain n where n: "v = PStr s" "ip_network s = Inr n" "nw_version n = f" "network_str n = s"
    using parse_network_proper [OF assms(2)] by blast
  then have "proper_network n" "e = network_expr n"
    using assms(3,4) by (auto simp: proper_network_def fw_network_def)
  then show ?thesis
    using n nft_matching.source [OF assms(1)] nft_matching.tcp [OF assms(1)] by (auto simp: network_of_def)
qed

lemma source_rules_decide:
  assumes "nft_matching m blocked" and "family_list f vs"
    and "source_rules (family_of f) k vs = Inr rs"
  shows "decide m p rs = (if listed vs p \<and> pk_tcp_port p = Some k then Some True else None)"
    and "set rs \<subseteq> range fw_rule"
proof -
  have "list_all2 (\<lambda>v r. \<exists>e. fw_network v = Inr e \<and>
      r = fw_allow [fw_match (payload (family_of f) ''saddr'') e, tcp_port (PInt k)]) vs rs"
    using assms(3) unfolding source_rules_def by (auto simp: map_res_Inr_iff bind_res_Inr_iff elim!: list_all2_mono)
  then show "decide m p rs = (if listed vs p \<and> pk_tcp_port p = Some k then Some True else None)"
    "set rs \<subseteq> range fw_rule"
    using assms(2)
  proof (induction rule: list_all2_induct)
    case Nil
    case 1 show ?case by (simp add: listed_def)
    case 2 show ?case by simp
  next
    case (Cons v vs r rs)
    obtain e where e: "fw_network v = Inr e"
      "r = fw_allow [fw_match (payload (family_of f) ''saddr'') e, tcp_port (PInt k)]"
      using Cons.hyps by blast
    {
      case 1
      then obtain s where s: "parse_network v f = Inr s" "f \<in> {4, 6}" "family_list f vs"
        by (auto simp: family_list_def)
      show ?case
        using source_rule_decides [OF assms(1) s(1,2) e(1), of p k] Cons.IH(1) [OF s(3)] e(2)
        by (auto simp: listed_def)
    next
      case 2
      then show ?case using Cons.IH(2) e(2) by (auto simp: family_list_def fw_allow_def)
    }
  qed
qed

lemma policy_rules_proper: "proper_network LOOPBACK4" "proper_network LOOPBACK6" "proper_network LINK_LOCAL"
  by code_simp+

lemma named_versions: "nw_version LOOPBACK4 = 4" "nw_version LOOPBACK6 = 6" "nw_version LINK_LOCAL = 6"
  by (simp_all add: LOOPBACK4_def LOOPBACK6_def LINK_LOCAL_def)

lemma family_names: "family_of 4 = ''ip''" "family_of 6 = ''ip6''"
  by (simp_all add: family_of_def)

definition from_loopback :: "packet \<Rightarrow> bool" where
  "from_loopback p \<longleftrightarrow> in_network (pk_version p) (pk_source p) LOOPBACK4 \<or>
     in_network (pk_version p) (pk_source p) LOOPBACK6"

lemma head_decides:
  assumes "nft_matching m blocked"
  shows "decide m p head_rules =
    (if pk_invalid p then Some False else if pk_interface p = ''lo'' then Some True
     else if from_loopback p then Some False else None)"
proof -
  note s = nft_matching.source [OF assms policy_rules_proper(1), unfolded named_versions family_names]
    nft_matching.source [OF assms policy_rules_proper(2), unfolded named_versions family_names]
  show ?thesis
    using nft_matching.invalid [OF assms] nft_matching.interface [OF assms] s
    by (auto simp: head_rules_def from_loopback_def)
qed

lemma dhcp_decides:
  assumes "nft_matching m blocked" and "pk_tcp_port p \<noteq> None"
  shows "decide m p (concat (map dhcp_rules is)) = None"
  using nft_matching.not_tcp [OF assms] by (intro decide_none) (auto simp: dhcp_rules_def Let_def)

lemma middle_decides:
  assumes "nft_matching m blocked" and "pk_tcp_port p \<noteq> None" and "pk_version p \<in> {4, 6}"
  shows "decide m p middle_rules =
    (if blocked (pk_version p) (pk_source p) then Some False
     else if pk_reply p \<and> pk_established p then Some True else None)"
proof -
  have icmp: "\<not> m (fw_match (payload proto ''type'') v) p" if "proto \<in> {''icmp'', ''icmpv6''}" for proto v
    using nft_matching.not_tcp [OF assms(1,2), of proto] that by auto
  show ?thesis
    using assms(3) icmp nft_matching.blocked4 [OF assms(1)] nft_matching.blocked6 [OF assms(1)]
      nft_matching.reply [OF assms(1)] nft_matching.established [OF assms(1)]
    by (auto simp: middle_rules_def)
qed

lemma ingress_rules: "set rs \<subseteq> range fw_rule \<Longrightarrow>
    filter (\<lambda>ob. is_rule ob \<and> rule_chain ob = PStr ''ingress'') (fw_objects @ rs) = rs"
proof -
  let ?q = "\<lambda>ob. is_rule ob \<and> rule_chain ob = PStr ''ingress''"
  assume "set rs \<subseteq> range fw_rule"
  then have "filter ?q rs = rs" by (intro filter_True) auto
  moreover have "filter ?q fw_objects = []"
    by (simp add: fw_objects_def is_rule_def fw_chain_def fw_set_def dkeys_def)
  ultimately show ?thesis by (simp only: filter_append append_Nil)
qed

lemma policy_drops: "set rs \<subseteq> range fw_rule \<Longrightarrow> \<not> chain_accepts (fw_objects @ rs) chain"
proof -
  have "dget (dict_of (fw_rule es)) ''chain'' = PNone" for es by (simp add: fw_rule_def dget_def)
  then show "set rs \<subseteq> range fw_rule \<Longrightarrow> ?thesis"
    by (auto simp: chain_accepts_def list_ex_iff fw_objects_def Let_def fw_chain_def fw_set_def in_table_def dget_def)
qed

lemma management_list:
  assumes "management_prefixes v f = Inr ()" and "f \<in> {4, 6}"
  shows "family_list f (list_of v)"
  using assms
  by (auto simp: management_prefixes_def family_list_def bind_res_Inr_iff contract_to_def catch_res_def
      map_res_Inr_iff list_all2_conv_all_nth in_set_conv_nth split: pyval.splits if_splits sum.splits exc.splits)

lemma candidate_list:
  assumes "check_family v f = Inr ()" and "f \<in> {4, 6}"
  shows "family_list f (list_of v)"
  using assms
  by (auto simp: check_family_def family_list_def bind_res_Inr_iff
      map_res_Inr_iff list_all2_conv_all_nth in_set_conv_nth split: pyval.splits if_splits)

section \<open>What the policy admits\<close>

lemma configuration_Inr:
  assumes "configuration config = Inr c"
  shows "config = PDict c" and "dget c ''edge_mode'' \<in> {PStr ''DIRECT'', PStr ''PROTECTED''}"
    and "management_prefixes (dget c ''management_ipv4'') 4 = Inr ()"
    and "management_prefixes (dget c ''management_ipv6'') 6 = Inr ()"
    and "dhcp_uplinks (dget c ''dhcp_interfaces'') = Inr ()"
  using assms by (auto simp: configuration_def seq_res_Inr_iff split: pyval.splits if_splits)

lemma fw_scope_Inr:
  assumes "fw_scope sha config source = Inr c"
  shows "configuration config = Inr c"
    and "dget c ''edge_mode'' = PStr ''PROTECTED'' \<Longrightarrow> validate_candidate sha source = Inr ()"
    and "dget c ''edge_mode'' \<noteq> PStr ''PROTECTED'' \<Longrightarrow> source = PNone"
  using assms
  by (auto simp: fw_scope_def bind_res_Inr_iff seq_res_Inr_iff contract_to_def catch_res_def
      split: if_splits sum.splits exc.splits)

lemma valid_lists:
  assumes "validate_candidate sha source = Inr ()"
  shows "check_family (dget (dict_of source) ''ipv4_prefixes'') 4 = Inr ()"
    and "check_family (dget (dict_of source) ''ipv6_prefixes'') 6 = Inr ()"
  using assms
  by (auto simp: validate_candidate_def bind_res_Inr_iff seq_res_Inr_iff split: pyval.splits if_splits)

lemma constant_rules:
  "set head_rules \<subseteq> range fw_rule" "set (dhcp_rules i) \<subseteq> range fw_rule" "set middle_rules \<subseteq> range fw_rule"
  by (auto simp: head_rules_def dhcp_rules_def middle_rules_def fw_allow_def fw_drop_def Let_def)

text \<open>The networks a service is open to: everyone in \<open>DIRECT\<close> mode, the accepted prefixes otherwise.\<close>

definition service_open :: "pydict \<Rightarrow> pyval \<Rightarrow> packet \<Rightarrow> bool" where
  "service_open c source p \<longleftrightarrow>
     (if dget c ''edge_mode'' = PStr ''DIRECT'' then pk_tcp_port p \<in> {Some 80, Some 443}
      else pk_tcp_port p = Some 443 \<and> listed (list_of (dget (dict_of source) ''ipv4_prefixes'')
        @ list_of (dget (dict_of source) ''ipv6_prefixes'')) p)"

definition managed :: "pydict \<Rightarrow> packet \<Rightarrow> bool" where
  "managed c p \<longleftrightarrow> pk_tcp_port p = Some 22 \<and>
     listed (list_of (dget c ''management_ipv4'') @ list_of (dget c ''management_ipv6'')) p"

lemma listed_append: "listed (a @ b) p \<longleftrightarrow> listed a p \<or> listed b p"
  by (auto simp: listed_def)

lemma service_decides:
  assumes "nft_matching m blocked" and "service_rules c source = Inr rs" and "fw_scope sha config source = Inr c"
  shows "decide m p rs = (if service_open c source p then Some True else None)"
    and "set rs \<subseteq> range fw_rule"
proof -
  have "decide m p rs = (if service_open c source p then Some True else None) \<and> set rs \<subseteq> range fw_rule"
  proof (cases "dget c ''edge_mode'' = PStr ''DIRECT''")
    case True
    then have "rs = [fw_allow [tcp_port (any_of [PInt 80, PInt 443])]]"
      using assms(2) by (simp add: service_rules_def)
    then show ?thesis
      using True nft_matching.tcp_any [OF assms(1), of 80 443 p] by (simp add: service_open_def fw_allow_def)
  next
    case False
    then have p: "dget c ''edge_mode'' = PStr ''PROTECTED''"
      using configuration_Inr(2) [OF fw_scope_Inr(1) [OF assms(3)]] by simp
    note l = valid_lists [OF fw_scope_Inr(2) [OF assms(3) p]]
    obtain r4 r6 where r: "rs = r4 @ r6"
      "source_rules (family_of 4) 443 (list_of (dget (dict_of source) ''ipv4_prefixes'')) = Inr r4"
      "source_rules (family_of 6) 443 (list_of (dget (dict_of source) ''ipv6_prefixes'')) = Inr r6"
      using assms(2) False by (auto simp: service_rules_def bind_res_Inr_iff family_names)
    note s = source_rules_decide [OF assms(1) candidate_list [OF l(1)] r(2)]
      source_rules_decide [OF assms(1) candidate_list [OF l(2)] r(3)]
    show ?thesis
      using s r(1) False by (auto simp: decide_append service_open_def listed_append)
  qed
  then show "decide m p rs = (if service_open c source p then Some True else None)" "set rs \<subseteq> range fw_rule"
    by simp_all
qed

lemma policy_admits:
  assumes m: "nft_matching m blocked" and pol: "fw_policy sha config source = Inr objs"
    and p: "pk_tcp_port p \<noteq> None" "pk_version p \<in> {4, 6}"
  obtains c where "configuration config = Inr c"
    "admits m objs ''ingress'' p \<longleftrightarrow> \<not> pk_invalid p \<and>
      (pk_interface p = ''lo'' \<or> \<not> from_loopback p \<and>
        (managed c p \<or> \<not> blocked (pk_version p) (pk_source p) \<and>
          (pk_reply p \<and> pk_established p \<or> service_open c source p)))"
proof -
  obtain c m4 m6 sv where c: "fw_scope sha config source = Inr c"
    and r4: "source_rules (family_of 4) 22 (list_of (dget c ''management_ipv4'')) = Inr m4"
    and r6: "source_rules (family_of 6) 22 (list_of (dget c ''management_ipv6'')) = Inr m6"
    and sv: "service_rules c source = Inr sv"
    and o: "objs = fw_objects @ head_rules @ concat (map dhcp_rules (list_of (dget c ''dhcp_interfaces'')))
      @ m4 @ m6 @ middle_rules @ sv"
    using pol by (auto simp: fw_policy_def bind_res_Inr_iff family_names)
  note conf = configuration_Inr [OF fw_scope_Inr(1) [OF c]]
  note s4 = source_rules_decide [OF m management_list [OF conf(3)] r4]
  note s6 = source_rules_decide [OF m management_list [OF conf(4)] r6]
  note s = service_decides [OF m sv c]
  let ?rs = "head_rules @ concat (map dhcp_rules (list_of (dget c ''dhcp_interfaces''))) @ m4 @ m6 @ middle_rules @ sv"
  have "set ?rs \<subseteq> range fw_rule"
    using s4(2) s6(2) s(2) constant_rules(1,3) by (auto dest: subsetD [OF constant_rules(2)])
  then have "admits m objs ''ingress'' p \<longleftrightarrow> decide m p ?rs = Some True"
    using ingress_rules [of ?rs] policy_drops [of ?rs] o by (auto simp: admits_def split: option.splits)
  moreover have "decide m p ?rs = Some True \<longleftrightarrow> \<not> pk_invalid p \<and>
      (pk_interface p = ''lo'' \<or> \<not> from_loopback p \<and>
        (managed c p \<or> \<not> blocked (pk_version p) (pk_source p) \<and>
          (pk_reply p \<and> pk_established p \<or> service_open c source p)))"
    using s4(1) [of p] s6(1) [of p] s(1) [of p]
    by (simp add: decide_append head_decides [OF m] dhcp_decides [OF m p(1)] middle_decides [OF m p]
        managed_def listed_append) blast
  ultimately show thesis using that fw_scope_Inr(1) [OF c] by blast
qed

text \<open>Property C13: the host firewall admits exactly what the owner's configuration says. For every
  TCP segment, the policy the code builds accepts it if and only if it is not invalid and
  comes over the loopback interface, or does not claim a loopback source and
  either is SSH from a management network, or its source is not blocked and it is a reply of an
  established connection or for an open service. An open service is port 80 or 443 in \<open>DIRECT\<close>
  mode, and in \<open>PROTECTED\<close> mode port 443 from an accepted origin prefix and nothing else; a
  blocked management network keeps SSH. Everything else falls to the chain's policy, drop.\<close>

theorem firewall_admits_exactly:
  assumes "nft_matching m blocked" and "fw_policy sha (PDict c) source = Inr objs"
    and "pk_tcp_port p \<noteq> None" and "pk_version p \<in> {4, 6}"
  shows "admits m objs ''ingress'' p \<longleftrightarrow> \<not> pk_invalid p \<and>
    (pk_interface p = ''lo'' \<or> \<not> from_loopback p \<and>
      (managed c p \<or> \<not> blocked (pk_version p) (pk_source p) \<and>
        (pk_reply p \<and> pk_established p \<or> service_open c source p)))"
  by (rule policy_admits [OF assms]) (auto dest: configuration_Inr(1))

section \<open>Remediation\<close>

lemma map_res_member: "map_res f xs = Inr ys \<Longrightarrow> x \<in> set xs \<Longrightarrow> f x = Inr y \<Longrightarrow> y \<in> set ys"
  by (induction xs arbitrary: ys) (auto simp: bind_res_Inr_iff)

lemma remediation_Inr:
  assumes "remediation sha config source address ttl = Inr (name, peer)"
  shows "\<exists>c s v a n ns. fw_scope sha config source = Inr c \<and> address = PStr s \<and>
    ip_address s = Inr (Some (v, a)) \<and> address_str v a = s \<and>
    \<not> is_loopback v a \<and> \<not> is_multicast v a \<and> a \<noteq> 0 \<and> ttl = PInt n \<and> 1 \<le> n \<and> n \<le> MAX_TTL \<and>
    map_res network_of (list_of (dget c (family_key ''management_ipv'' v []))
      @ (if source = PNone then [] else list_of (dget (dict_of source) (family_key ''ipv'' v ''_prefixes'')))) = Inr ns \<and>
    \<not> list_ex (in_network v a) ns \<and> name = family_key ''remediation'' v [] \<and> peer = s"
proof (cases address)
  case (PStr s)
  then obtain v a where i: "ip_address s = Inr (Some (v, a))"
    using assms by (auto simp: remediation_def bind_res_Inr_iff split: option.splits)
  obtain n where t: "ttl = PInt n"
    using assms PStr i by (cases ttl) (auto simp: remediation_def bind_res_Inr_iff split: if_splits)
  obtain c where c: "fw_scope sha config source = Inr c"
    using assms by (auto simp: remediation_def bind_res_Inr_iff)
  let ?vs = "list_of (dget c (family_key ''management_ipv'' v []))
      @ (if source = PNone then [] else list_of (dget (dict_of source) (family_key ''ipv'' v ''_prefixes'')))"
  have r: "\<not> (address_str v a \<noteq> s \<or> is_loopback v a \<or> is_multicast v a \<or> a = 0)" "1 \<le> n \<and> n \<le> MAX_TTL"
    "bind_res (map_res network_of ?vs) (\<lambda>ns. if list_ex (in_network v a) ns
       then Inl (ValueError ''admit-remediation-protected-peer'')
       else Inr (family_key ''remediation'' v [], address_str v a)) = Inr (name, peer)"
    using assms by (simp_all add: remediation_def c PStr t i Let_def split: if_splits)
  then obtain ns where ns: "map_res network_of ?vs = Inr ns" "\<not> list_ex (in_network v a) ns"
    "name = family_key ''remediation'' v []" "peer = s"
    unfolding bind_res_Inr_iff raise_Inr_iff by force
  show ?thesis
    by (intro exI [of _ c] exI [of _ s] exI [of _ v] exI [of _ a] exI [of _ n] exI [of _ ns] conjI)
      (use c PStr t i r(1,2) ns in blast)+
qed (use assms in \<open>auto simp: remediation_def bind_res_Inr_iff\<close>)

text \<open>A remediation decision never names a peer the owner protects. An admitted decision
  goes to the set of the peer's family, for at most an hour, and the peer is a single unicast
  address in canonical text that lies in no management network and, in \<open>PROTECTED\<close> mode, in
  no accepted origin prefix.\<close>

theorem remediation_spares_protected:
  assumes "remediation sha (PDict c) source address ttl = Inr (name, peer)"
  shows "\<exists>v a n. address = PStr peer \<and> ip_address peer = Inr (Some (v, a)) \<and> address_str v a = peer \<and>
    name = family_key ''remediation'' v [] \<and> ttl = PInt n \<and> 1 \<le> n \<and> n \<le> 3600 \<and>
    \<not> is_loopback v a \<and> \<not> is_multicast v a \<and> a \<noteq> 0 \<and>
    (\<forall>e \<in> set (list_of (dget c (family_key ''management_ipv'' v []))). \<forall>k.
       network_of e = Inr k \<longrightarrow> \<not> in_network v a k) \<and>
    (dget c ''edge_mode'' = PStr ''PROTECTED'' \<longrightarrow>
      (\<forall>e \<in> set (list_of (dget (dict_of source) (family_key ''ipv'' v ''_prefixes''))). \<forall>k.
        network_of e = Inr k \<longrightarrow> \<not> in_network v a k))"
proof -
  obtain c' s v a n ns where "fw_scope sha (PDict c) source = Inr c'"
    and s: "address = PStr s" "ip_address s = Inr (Some (v, a))" "address_str v a = s"
    "\<not> is_loopback v a" "\<not> is_multicast v a" "a \<noteq> 0"
    and t: "ttl = PInt n" "1 \<le> n" "n \<le> MAX_TTL"
    and ns': "map_res network_of (list_of (dget c' (family_key ''management_ipv'' v []))
        @ (if source = PNone then [] else list_of (dget (dict_of source) (family_key ''ipv'' v ''_prefixes'')))) = Inr ns"
    and f: "\<not> list_ex (in_network v a) ns" "name = family_key ''remediation'' v []" "peer = s"
    using remediation_Inr [OF assms] by blast
  moreover from this have "c' = c" using configuration_Inr(1) [OF fw_scope_Inr(1)] by auto
  ultimately have sc: "fw_scope sha (PDict c) source = Inr c" by simp
  note ns = ns' [unfolded \<open>c' = c\<close>]
  have out: "\<not> in_network v a k" if "e \<in> set (list_of (dget c (family_key ''management_ipv'' v []))
        @ (if source = PNone then [] else list_of (dget (dict_of source) (family_key ''ipv'' v ''_prefixes''))))"
      "network_of e = Inr k" for e k
  proof -
    have "k \<in> set ns"
      using map_res_member [OF ns that] .
    then show ?thesis using f(1) by (auto simp: list_ex_iff)
  qed
  have "source \<noteq> PNone" if "dget c ''edge_mode'' = PStr ''PROTECTED''"
    using fw_scope_Inr(2) [OF sc that] by (auto simp: validate_candidate_def)
  then have "\<forall>e \<in> set (list_of (dget (dict_of source) (family_key ''ipv'' v ''_prefixes''))). \<forall>k.
      network_of e = Inr k \<longrightarrow> \<not> in_network v a k" if "dget c ''edge_mode'' = PStr ''PROTECTED''"
    using out that by simp blast
  moreover have "\<forall>e \<in> set (list_of (dget c (family_key ''management_ipv'' v []))). \<forall>k.
      network_of e = Inr k \<longrightarrow> \<not> in_network v a k"
    using out by simp blast
  ultimately show ?thesis using s t f unfolding MAX_TTL_def by blast
qed

section \<open>A matching function\<close>

text \<open>The meaning of the expressions as a program: addresses are read back from their text.\<close>

definition text_network :: "nat \<Rightarrow> pyval \<Rightarrow> network res" where
  "text_network version e = (case e of
     PStr a \<Rightarrow> ip_network (a @ CHR ''/'' # show_nat (max_prefixlen version))
   | _ \<Rightarrow> (let d = dict_of (dget (dict_of e) ''prefix'') in
       case (dget d ''addr'', dget d ''len'') of
         (PStr a, PInt n) \<Rightarrow> ip_network (a @ CHR ''/'' # show_nat (nat n))
       | _ \<Rightarrow> Inl TypeError))"

definition source_in :: "nat \<Rightarrow> pyval \<Rightarrow> packet \<Rightarrow> bool" where
  "source_in version e p = (case text_network version e of
     Inl _ \<Rightarrow> False | Inr n \<Rightarrow> in_network (pk_version p) (pk_source p) n)"

definition port_is :: "packet \<Rightarrow> pyval \<Rightarrow> bool" where
  "port_is p v = (case v of PInt k \<Rightarrow> pk_tcp_port p = Some k | _ \<Rightarrow> False)"

definition nft_match :: "(nat \<Rightarrow> int \<Rightarrow> bool) \<Rightarrow> pyval \<Rightarrow> packet \<Rightarrow> bool" where
  "nft_match blocked e p =
     (let d = dict_of (dget (dict_of e) ''match''); l = dget d ''left''; r = dget d ''right'' in
      if l = ct_key ''state'' then (if r = PStr ''invalid'' then pk_invalid p else pk_established p)
      else if l = ct_key ''direction'' then pk_reply p
      else if l = meta_key ''iifname'' then r = PStr (pk_interface p)
      else if l = payload ''tcp'' ''dport''
      then port_is p r \<or> list_ex (port_is p) (list_of (dget (dict_of r) ''set''))
      else if l = payload ''ip'' ''saddr''
      then (if r = PStr ''@remediation4'' then pk_version p = 4 \<and> blocked 4 (pk_source p) else source_in 4 r p)
      else if l = payload ''ip6'' ''saddr''
      then (if r = PStr ''@remediation6'' then pk_version p = 6 \<and> blocked 6 (pk_source p) else source_in 6 r p)
      else False)"

lemma text_network_expr:
  assumes "proper_network n"
  shows "text_network (nw_version n) (network_expr n) = Inr n"
    and "network_expr n \<noteq> PStr ''@remediation4''" and "network_expr n \<noteq> PStr ''@remediation6''"
proof -
  have s: "network_str n = address_str (nw_version n) (nw_address n) @ CHR ''/'' # show_nat (nw_prefixlen n)"
    by (simp add: network_str_def address_str_def)
  show "text_network (nw_version n) (network_expr n) = Inr n"
    using assms s by (auto simp: text_network_def network_expr_def proper_network_def dget_def Let_def)
  have r: "\<not> ok (ip_network ''@remediation4/32'')" "\<not> ok (ip_network ''@remediation4/128'')"
    "\<not> ok (ip_network ''@remediation6/32'')" "\<not> ok (ip_network ''@remediation6/128'')"
    by code_simp+
  have l: "show_nat 32 = ''32''" "show_nat 128 = ''128''" by code_simp+
  have "network_expr n \<noteq> PStr a"
    if "\<not> ok (ip_network (a @ ''/32''))" "\<not> ok (ip_network (a @ ''/128''))" for a
    using assms s that l by (auto simp: network_expr_def proper_network_def max_prefixlen_def split: if_splits)
  from this [of "''@remediation4''"] this [of "''@remediation6''"] r
  show "network_expr n \<noteq> PStr ''@remediation4''" "network_expr n \<noteq> PStr ''@remediation6''" by simp_all
qed

lemma match_parts:
  "dict_of (dget (dict_of (fw_match l r)) ''match'') = [(''op'', PStr ''==''), (''left'', l), (''right'', r)]"
  "dget [(''op'', PStr ''==''), (''left'', l), (''right'', r)] ''left'' = l"
  "dget [(''op'', PStr ''==''), (''left'', l), (''right'', r)] ''right'' = r"
  by (simp_all add: fw_match_def fw_match_op_def dget_def)

lemma left_keys:
  "ct_key ''direction'' \<noteq> ct_key ''state''" "meta_key k \<noteq> ct_key j" "payload f w \<noteq> ct_key j" "payload f w \<noteq> meta_key k"
  "payload f w = payload f' w' \<longleftrightarrow> f = f' \<and> w = w'"
  by (simp_all add: ct_key_def meta_key_def payload_def)

lemma any_of_parts: "list_of (dget (dict_of (any_of vs)) ''set'') = vs"
  by (simp add: any_of_def dget_def)

interpretation nft: nft_matching "nft_match blocked" blocked
proof (unfold_locales, goal_cases)
  case (3 n p)
  then have "nw_version n = 4 \<or> nw_version n = 6" by (auto simp: proper_network_def)
  then have "source_in (nw_version n) (network_expr n) p \<longleftrightarrow> in_network (pk_version p) (pk_source p) n"
    using text_network_expr(1) [OF 3] by (auto simp: source_in_def)
  with \<open>nw_version n = 4 \<or> nw_version n = 6\<close> show ?case
    using text_network_expr(2,3) [OF 3]
    by (auto simp: nft_match_def match_parts left_keys family_of_def)
next
  case (10 p proto v)
  then show ?case by (auto simp: nft_match_def match_parts left_keys)
next
  case (2 i p)
  then show ?case by (auto simp: nft_match_def match_parts left_keys)
next
  case (8 k p)
  then show ?case
    by (simp add: nft_match_def match_parts left_keys tcp_port_def port_is_def dget_def [of "[]"])
next
  case (9 k l p)
  have "\<not> port_is p (any_of vs)" for vs by (simp add: port_is_def any_of_def)
  then show ?case
    by (simp add: nft_match_def match_parts left_keys tcp_port_def any_of_parts) (simp add: port_is_def)
qed (simp_all add: nft_match_def match_parts left_keys any_of_def)

section \<open>Witnesses\<close>

definition sample_host :: pydict where
  "sample_host = [(''edge_mode'', PStr ''DIRECT''), (''management_ipv4'', PList [PStr ''192.0.2.0/24'']),
     (''management_ipv6'', PList []), (''dhcp_interfaces'', PList [PStr ''eth0''])]"

definition sample_packet :: packet where
  "sample_packet = \<lparr>pk_version = 4, pk_source = 198 * 2 ^ 24 + 51 * 2 ^ 16 + 100 * 2 ^ 8 + 7, pk_interface = ''eth0'',
     pk_invalid = False, pk_reply = False, pk_established = False, pk_tcp_port = Some 22\<rparr>"

theorem firewall_admits_exactly_witness:
  "\<exists>objs. fw_policy id (PDict sample_host) PNone = Inr objs \<and>
     \<not> admits (nft_match (\<lambda>_ _. False)) objs ''ingress'' sample_packet \<and>
     admits (nft_match (\<lambda>_ _. False)) objs ''ingress'' (sample_packet\<lparr>pk_tcp_port := Some 443\<rparr>)"
proof -
  have "ok (fw_policy id (PDict sample_host) PNone)" by code_simp
  then obtain objs where objs: "fw_policy id (PDict sample_host) PNone = Inr objs" unfolding ok_iff by blast
  have m: "nft_matching (nft_match (\<lambda>_ _. False)) (\<lambda>_ _. False)" by (rule nft.nft_matching_axioms)
  have out: "\<not> managed sample_host sample_packet" "\<not> service_open sample_host PNone sample_packet"
    "\<not> from_loopback (sample_packet\<lparr>pk_tcp_port := Some 443\<rparr>)"
    "service_open sample_host PNone (sample_packet\<lparr>pk_tcp_port := Some 443\<rparr>)"
    by code_simp+
  show ?thesis
    using firewall_admits_exactly [OF m objs, of sample_packet]
      firewall_admits_exactly [OF m objs, of "sample_packet\<lparr>pk_tcp_port := Some 443\<rparr>"] objs out
    by (simp add: sample_packet_def)
qed

theorem remediation_spares_protected_witness:
  "remediation id (PDict sample_host) PNone (PStr ''198.51.100.7'') (PInt 60) = Inr (''remediation4'', ''198.51.100.7'') \<and>
     (\<exists>v a. ip_address ''198.51.100.7'' = Inr (Some (v, a)) \<and> ''remediation4'' = family_key ''remediation'' v [])"
proof -
  have r: "remediation id (PDict sample_host) PNone (PStr ''198.51.100.7'') (PInt 60) =
      Inr (''remediation4'', ''198.51.100.7'')"
    by code_simp
  from remediation_spares_protected [OF this] r show ?thesis by blast
qed

end
