(* ===== verification/Host_Controller_Facts.thy ===== *)
theory Host_Controller_Facts
  imports Host_Controller Host_Firewall_Facts Prefix_Store_Facts
begin

text \<open>
  What the controller of \<open>scripts/host-firewall.py\<close> guarantees: the kernel's ruleset changes only
  after the owner's management access was shown to survive, and a command that returns leaves
  the kernel showing exactly the policy of the document in the store.
\<close>

section \<open>Rules for computations\<close>

lemma hbind_Inr_iff:
  "hbind m f s = (Inr y, s') \<longleftrightarrow> (\<exists>x s1. m s = (Inr x, s1) \<and> f x s1 = (Inr y, s'))"
  by (cases "m s"; cases "fst (m s)") (auto simp: hbind_def)

lemma hbind_eq:
  "hbind m f s = (r, s') \<longleftrightarrow> (\<exists>e. m s = (Inl e, s') \<and> r = Inl e) \<or>
     (\<exists>x s1. m s = (Inr x, s1) \<and> f x s1 = (r, s'))"
  by (cases "m s"; cases "fst (m s)") (auto simp: hbind_def)

lemma hret_simps [simp]: "hret r s = (r', s') \<longleftrightarrow> r = r' \<and> s' = s" "fst (hret r s) = r" "snd (hret r s) = s"
  by (auto simp: hret_def)

lemma files_eq: "files m (w, k) = (r, s') \<longleftrightarrow> (\<exists>w'. m w = (r, w') \<and> s' = (w', k))"
  by (cases "m w") (auto simp: files_def)

text \<open>A computation that leaves the kernel alone.\<close>

definition keeps :: "('a, 'k) hio \<Rightarrow> bool" where
  "keeps m \<longleftrightarrow> (\<forall>s. snd (snd (m s)) = snd s)"

named_theorems keeps_intros

lemma keeps_hret [keeps_intros]: "keeps (hret r)"
  by (simp add: keeps_def)

lemma keeps_files [keeps_intros]: "keeps (files m)"
  by (simp add: keeps_def files_def split: prod.split)

lemma keeps_hbind [keeps_intros]: "keeps m \<Longrightarrow> (\<And>x. keeps (f x)) \<Longrightarrow> keeps (hbind m f)"
  unfolding keeps_def hbind_def by (auto split: prod.splits sum.splits) (metis snd_conv)+

lemma keeps_heach [keeps_intros]: "(\<And>x. keeps (f x)) \<Longrightarrow> keeps (heach f xs)"
  by (induction xs) (auto intro: keeps_intros)

lemma keepsD: "keeps m \<Longrightarrow> m (w, k) = (r, (w', k')) \<Longrightarrow> k' = k"
  by (metis keeps_def snd_conv)

text \<open>Listing and checking do not change the ruleset.\<close>

definition read_only :: "'k nft \<Rightarrow> bool" where
  "read_only nft \<longleftrightarrow> (\<forall>arguments document k.
     ''list'' \<in> set arguments \<or> ''--check'' \<in> set arguments \<longrightarrow> snd (nft arguments document k) = k)"

lemma keeps_run:
  "read_only nft \<Longrightarrow> ''list'' \<in> set arguments \<or> ''--check'' \<in> set arguments \<Longrightarrow>
     keeps (nft_run nft operation arguments document)"
  by (auto simp: keeps_def nft_run_def read_only_def split: prod.splits) (metis snd_conv)+

lemma keeps_reads:
  assumes "read_only nft"
  shows "keeps (nft_snapshot nft)" and "keeps (nft_decisions nft name)" and "keeps (nft_validate nft document)"
    and "keeps (shown sha nft d)" and "keeps (admit_decisions sha nft d)"
proof -
  have r: "keeps (observed_json nft operation arguments)" if "''list'' \<in> set arguments" for operation arguments
    unfolding observed_json_def using that by (intro keeps_intros keeps_run [OF assms]) simp
  show s: "keeps (nft_snapshot nft)"
    unfolding nft_snapshot_def by (auto intro!: keeps_intros r)
  show d: "keeps (nft_decisions nft name)" for name
    unfolding nft_decisions_def by (auto intro!: keeps_intros r)
  show "keeps (nft_validate nft document)"
    unfolding nft_validate_def by (auto intro!: keeps_intros keeps_run [OF assms])
  show "keeps (shown sha nft d)"
    unfolding shown_def by (auto intro!: keeps_intros s)
  show "keeps (admit_decisions sha nft d)"
    unfolding admit_decisions_def by (auto intro!: keeps_intros d)
qed

section \<open>The lock\<close>

lemma host_lock_state_lock:
  "host_lock env d body (w, k) =
    (case state_lock env d (\<lambda>w1. case body (w1, k) of (r, (w2, k')) \<Rightarrow> (Inr (r, k'), w2)) w of
       (Inr (r, k'), w') \<Rightarrow> (r, (w', k')) | (Inl e, w') \<Rightarrow> (Inl e, (w', k)))"
proof -
  have close: "ignore_os_error (touch_call env) v \<noteq> (Inl e, v')" for v e v'
    by (auto dest: ignored_touch)
  show ?thesis
    unfolding host_lock_def state_lock_def hbind_def bind_io_def hfinally_def finally_io_def files_def
    by (auto simp: close split: prod.splits sum.splits if_splits)
qed

lemma host_lock_spec:
  assumes "host_lock env d body (w, k) = (r, (w', k'))"
  shows "(\<exists>w1 w2. frame {d @ [LOCK_FILE]} w w1 \<and> body (w1, k) = (r, (w2, k')) \<and> os_nodes w' = os_nodes w2) \<or>
    (frame {d @ [LOCK_FILE]} w w' \<and> k' = k \<and> (\<exists>m. r = Inl (ContractError m)))"
proof -
  let ?m = "\<lambda>w1. case body (w1, k) of (r, (w2, k')) \<Rightarrow> (Inr (r, k'), w2)"
  obtain q v where l: "state_lock env d ?m w = (q, v)" by (cases "state_lock env d ?m w")
  from state_lock_spec [OF this] show ?thesis
  proof (elim disjE)
    assume "\<exists>w1 w2. frame {d @ [LOCK_FILE]} w w1 \<and> ?m w1 = (q, w2) \<and> os_nodes v = os_nodes w2 \<and>
       (\<exists>n. os_nodes w1 (d @ [LOCK_FILE]) = Some n \<and> private_file env n)"
    then obtain w1 w2 where 1: "frame {d @ [LOCK_FILE]} w w1" "?m w1 = (q, w2)" "os_nodes v = os_nodes w2"
      by blast
    obtain r0 w0 k0 where b: "body (w1, k) = (r0, (w0, k0))" by (cases "body (w1, k)") auto
    then have q: "q = Inr (r0, k0)" "w2 = w0" using 1(2) by auto
    have "(r, (w', k')) = (r0, (v, k0))"
      using assms l q unfolding host_lock_state_lock by simp
    then show ?thesis using 1 b q by blast
  next
    assume "frame {d @ [LOCK_FILE]} w v \<and> (\<exists>m. q = Inl (ContractError m))"
    then obtain m where 1: "frame {d @ [LOCK_FILE]} w v" "q = Inl (ContractError m)" by blast
    have "r = Inl (ContractError m)" "w' = v" "k' = k"
      using assms l 1(2) unfolding host_lock_state_lock by auto
    then show ?thesis using 1 by blast
  qed
qed

section \<open>Networks of the configuration\<close>


lemma prefix_of_ip_int: "prefix_from_ip_int w m = Some p \<Longrightarrow> p \<le> w"
  unfolding prefix_from_ip_int_def by (auto simp: find_Some_iff nth_append split: if_splits)

lemma ip4_mask_bound: "ip4_mask m = Some p \<Longrightarrow> p \<le> 32"
  by (auto simp: ip4_mask_def prefix_from_string_def dest!: prefix_of_ip_int split: option.splits if_splits)

lemma make_network_aligned:
  "make_network v (max_prefixlen v) a p = Inr n \<Longrightarrow> p \<le> max_prefixlen v \<Longrightarrow> aligned v n"
  by (auto simp: make_network_def aligned_def block_def split: if_splits)

lemma ip_network_aligned: "ip_network s = Inr n \<Longrightarrow> aligned (nw_version n) n"
proof -
  assume n: "ip_network s = Inr n"
  have 4: "aligned 4 n" if "ip4_network s = Some (Inr n)"
    using that make_network_aligned [of 4] ip4_mask_bound
    by (fastforce simp: ip4_network_def max_prefixlen_def split: list.splits option.splits)
  have 6: "aligned 6 n" if "ip6_network s = Some (Inr n)"
    using that make_network_aligned [of 6]
    by (fastforce simp: ip6_network_def max_prefixlen_def prefix_from_string_def
        split: list.splits option.splits if_splits)
  show ?thesis
    using n 4 6 by (auto simp: ip_network_def aligned_def split: option.splits)
qed

text \<open>The networks of an admitted list are aligned, and of its family.\<close>

lemma family_list_network:
  assumes "family_list f vs" and "v \<in> set vs"
  obtains n where "network_of v = Inr n" "aligned f n"
proof -
  obtain s where "parse_network v f = Inr s" using assms unfolding family_list_def by blast
  from parse_network_proper [OF this] obtain n where
    "v = PStr s" "ip_network s = Inr n" "nw_version n = f" by blast
  then show thesis using that ip_network_aligned by (auto simp: network_of_def)
qed

section \<open>The owner's access survives\<close>

lemma listed_iff:
  "listed vs p \<longleftrightarrow> (\<exists>v \<in> set vs. \<exists>n. network_of v = Inr n \<and> in_network (pk_version p) (pk_source p) n)"
proof -
  have "(case network_of v of Inl _ \<Rightarrow> False | Inr n \<Rightarrow> in_network (pk_version p) (pk_source p) n) \<longleftrightarrow>
      (\<exists>n. network_of v = Inr n \<and> in_network (pk_version p) (pk_source p) n)" for v
    by (cases "network_of v") auto
  then show ?thesis by (simp add: listed_def)
qed

lemma preserves_listed:
  assumes "preserves f previous candidate = Inr ()"
    and "family_list f (list_of (dget previous (family_key ''management_ipv'' f [])))"
    and c: "family_list f (list_of (dget candidate (family_key ''management_ipv'' f [])))"
    and l: "listed (list_of (dget previous (family_key ''management_ipv'' f []))) p"
  shows "listed (list_of (dget candidate (family_key ''management_ipv'' f []))) p"
proof -
  let ?old = "list_of (dget previous (family_key ''management_ipv'' f []))"
  let ?new = "list_of (dget candidate (family_key ''management_ipv'' f []))"
  let ?a = "pk_source p"
  obtain ns where ns: "map_res network_of ?new = Inr ns"
    and each: "each (\<lambda>v. bind_res (network_of v) (\<lambda>old.
        if list_ex (subnet_of old) (collapse_addresses f ns) then Inr ()
        else Inl (ValueError ''admit-management-preservation''))) ?old = Inr ()"
    using assms(1) by (auto simp: preserves_def Let_def bind_res_Inr_iff)
  have member: "\<exists>v \<in> set ?new. network_of v = Inr n" if "n \<in> set ns" for n
    using ns that unfolding map_res_Inr_iff list_all2_conv_all_nth in_set_conv_nth by (metis nth_mem)
  have al: "\<forall>n \<in> set ns. aligned f n"
    using member family_list_network [OF c] by (metis sum.inject(2))
  obtain v old where v: "v \<in> set ?old" "network_of v = Inr old" and i: "in_network (pk_version p) ?a old"
    using l unfolding listed_iff by blast
  have old: "aligned f old" using family_list_network [OF assms(2) v(1)] v(2) by auto
  then have ver: "pk_version p = f" using i by (auto simp: in_network_def aligned_def)
  obtain m where m: "m \<in> set (collapse_addresses f ns)" "subnet_of old m"
    using each v by (auto simp: each_Inr_iff bind_res_Inr_iff list_ex_iff split: if_splits)
  have "?a \<in> covered old" using i old ver in_network_covered by blast
  then have "?a \<in> \<Union> (covered ` set ns)"
    using collapse_covers [OF al m(1)] subnet_covered [OF m(2)] by blast
  then obtain n where n: "n \<in> set ns" "?a \<in> covered n" by blast
  obtain u where "u \<in> set ?new" "network_of u = Inr n" using member [OF n(1)] by blast
  moreover have "in_network (pk_version p) ?a n" using n al ver in_network_covered by blast
  ultimately show ?thesis unfolding listed_iff by blast
qed

definition access_kept :: "host_document option \<Rightarrow> pydict \<Rightarrow> bool" where
  "access_kept previous candidate \<longleftrightarrow>
     (\<forall>d p. previous = Some d \<and> managed (dict_of (hd_configuration d)) p \<longrightarrow> managed candidate p)"

lemma transition_keeps_access:
  assumes t: "management_transition previous candidate = Inr ()"
    and c: "configuration config = Inr candidate"
    and d: "\<And>d. previous = Some d \<Longrightarrow> ok (configuration (hd_configuration d))"
  shows "access_kept previous candidate"
  unfolding access_kept_def
proof (intro allI impI)
  fix d p
  assume a: "previous = Some d \<and> managed (dict_of (hd_configuration d)) p"
  then obtain e where e: "configuration (hd_configuration d) = Inr e" using d unfolding ok_iff by blast
  then have h: "hd_configuration d = PDict e" by (rule configuration_Inr(1))
  have k: "family_key ''management_ipv'' 4 [] = ''management_ipv4''"
    "family_key ''management_ipv'' 6 [] = ''management_ipv6''" by code_simp+
  have "preserves 4 e candidate = Inr ()" "preserves 6 e candidate = Inr ()"
    using t a h by (auto simp: management_transition_def Let_def seq_res_Inr_iff split: if_splits)
  moreover have "family_list 4 (list_of (dget e ''management_ipv4''))" "family_list 6 (list_of (dget e ''management_ipv6''))"
    "family_list 4 (list_of (dget candidate ''management_ipv4''))"
    "family_list 6 (list_of (dget candidate ''management_ipv6''))"
    using configuration_Inr(3,4) [OF e] configuration_Inr(3,4) [OF c] management_list by auto
  ultimately have "listed (list_of (dget e ''management_ipv4'')) p \<Longrightarrow> listed (list_of (dget candidate ''management_ipv4'')) p"
    "listed (list_of (dget e ''management_ipv6'')) p \<Longrightarrow> listed (list_of (dget candidate ''management_ipv6'')) p"
    using preserves_listed [of 4 e candidate p] preserves_listed [of 6 e candidate p] unfolding k by blast+
  then show "managed candidate p"
    using a h by (auto simp: managed_def listed_append)
qed

lemma admit_document_Inr:
  assumes "admit_document sha v = Inr d"
  shows "ok (document_policy sha d)"
proof (cases v)
  case (PDict e)
  then show ?thesis
    using assms by (auto simp: admit_document_def Let_def seq_res_Inr_iff bind_res_Inr_iff ok_iff split: if_splits)
qed (use assms in \<open>simp_all add: admit_document_def\<close>)

lemma host_read_admitted:
  assumes "host_read sha env directory w = (Inr (Some d), w')"
  shows "ok (document_policy sha d)" and "ok (configuration (hd_configuration d))"
proof -
  obtain v where "admit_document sha v = Inr d"
    using assms by (auto simp: host_read_def bind_io_eq bind_res_Inr_iff split: option.splits if_splits)
  then show p: "ok (document_policy sha d)" by (rule admit_document_Inr)
  then show "ok (configuration (hd_configuration d))"
    by (auto simp: document_policy_def fw_policy_def fw_scope_def ok_iff bind_res_Inr_iff)
qed

section \<open>What \<open>apply\<close> does\<close>

lemma hbind_change:
  assumes "hbind m f (w, k) = (r, (w', k'))" and "k' \<noteq> k" and "keeps m"
  obtains x w1 where "m (w, k) = (Inr x, (w1, k))" "f x (w1, k) = (r, (w', k'))"
proof -
  obtain q w1 k1 where m: "m (w, k) = (q, (w1, k1))" by (cases "m (w, k)") auto
  have "k1 = k" using keepsD [OF assms(3) m] .
  with m assms(1,2) that show thesis by (cases q) (auto simp: hbind_def)
qed

text \<open>A change of the ruleset comes after every check of \<open>apply\<close>.\<close>

lemma host_reconcile_change:
  assumes "host_reconcile sha env nft directory source previous value (w, k) = (r, (w', k'))"
    and "k' \<noteq> k" and r: "read_only nft"
  shows "\<exists>w2 observed. nft_snapshot nft (w, k) = (Inr observed, (w2, k)) \<and>
    (observed = None \<or> (\<exists>d. previous = Some d \<and> same_table sha observed d = Inr True))"
proof -
  have keep: "keeps (already_shown sha nft observed value)" for observed
    unfolding already_shown_def using keeps_reads [OF r] by (auto intro: keeps_intros)
  let ?rest = "\<lambda>observed same. if same then files (host_save env directory value)
     else hbind (hret (prior_shown sha previous observed)) (\<lambda>_.
       install sha env nft directory source (observed = None) value)"
  obtain observed w2 where 1: "nft_snapshot nft (w, k) = (Inr observed, (w2, k))"
    and 2: "hbind (already_shown sha nft observed value) (?rest observed) (w2, k) = (r, (w', k'))"
    using hbind_change [OF assms(1) [unfolded host_reconcile_def] assms(2) keeps_reads(1) [OF r]] by blast
  obtain same w3 where 3: "?rest observed same (w3, k) = (r, (w', k'))"
    using hbind_change [OF 2 assms(2) keep] by blast
  have "\<not> same" using 3 assms(2) by (auto simp: files_eq)
  then have "prior_shown sha previous observed = Inr ()"
    using 3 assms(2) by (auto simp: hbind_eq)
  then have "observed = None \<or> (\<exists>d. previous = Some d \<and> same_table sha observed d = Inr True)"
    by (auto simp: prior_shown_def bind_res_Inr_iff split: option.splits if_splits)
  with 1 show ?thesis by blast
qed

lemma apply_locked_change:
  assumes "apply_locked sha env nft directory c source (w, k) = (r, (w', k'))"
    and "k' \<noteq> k" and "read_only nft"
  shows "\<exists>previous w1 w2 observed. host_read sha env directory w = (Inr previous, w1) \<and>
    management_transition previous c = Inr () \<and> nft_snapshot nft (w1, k) = (Inr observed, (w2, k)) \<and>
    (observed = None \<or> (\<exists>d. previous = Some d \<and> same_table sha observed d = Inr True))"
proof -
  obtain previous w1 d where 1: "host_read sha env directory w = (Inr previous, w1)"
    and m: "management_transition previous c = Inr ()"
    and 2: "host_reconcile sha env nft directory source previous d (w1, k) = (r, (w', k'))"
    using assms(1,2) by (auto simp: apply_locked_def Let_def hbind_eq files_eq)
  then show ?thesis using host_reconcile_change [OF 2 assms(2,3)] by blast
qed

section \<open>What a successful \<open>apply\<close> leaves\<close>

text \<open>The kernel shows the policy: its table, read back, is the list of objects the code builds.\<close>

definition enforced :: "(string \<Rightarrow> string) \<Rightarrow> 'k nft \<Rightarrow> os \<times> 'k \<Rightarrow> host_document \<Rightarrow> bool" where
  "enforced sha nft s d \<longleftrightarrow> fst (shown sha nft d s) = Inr True"

text \<open>A computation that neither reads nor changes the files.\<close>

definition kernel_only :: "('a, 'k) hio \<Rightarrow> bool" where
  "kernel_only m \<longleftrightarrow> (\<exists>f. \<forall>w k. m (w, k) = (fst (f k), (w, snd (f k))))"

lemma kernel_only_hret: "kernel_only (hret r)"
  by (auto simp: kernel_only_def hret_def intro!: exI [of _ "\<lambda>k. (r, k)"])

lemma kernel_only_run: "kernel_only (nft_run nft operation arguments document)"
  unfolding kernel_only_def nft_run_def
  by (intro exI [of _ "\<lambda>k. let s = nft_run nft operation arguments document (undefined, k) in (fst s, snd (snd s))"])
    (simp add: nft_run_def split: prod.splits)

lemma kernel_only_hbind:
  assumes "kernel_only m" and "\<And>x. kernel_only (f x)"
  shows "kernel_only (hbind m f)"
proof -
  obtain g where g: "\<And>w k. m (w, k) = (fst (g k), (w, snd (g k)))" using assms(1) unfolding kernel_only_def by blast
  have "\<forall>x. \<exists>h. \<forall>w k. f x (w, k) = (fst (h k), (w, snd (h k)))" using assms(2) unfolding kernel_only_def by blast
  then obtain h where h: "\<And>x w k. f x (w, k) = (fst (h x k), (w, snd (h x k)))" by metis
  show ?thesis
    unfolding kernel_only_def
    by (intro exI [of _ "\<lambda>k. case fst (g k) of Inl e \<Rightarrow> (Inl e, snd (g k)) | Inr x \<Rightarrow> h x (snd (g k))"])
      (simp add: hbind_def g h split: sum.split)
qed

lemma kernel_only_shown: "kernel_only (nft_snapshot nft)" "kernel_only (shown sha nft d)"
proof -
  show s: "kernel_only (nft_snapshot nft)"
    unfolding nft_snapshot_def observed_json_def
    by (auto intro!: kernel_only_hbind kernel_only_hret kernel_only_run)
  show "kernel_only (shown sha nft d)"
    unfolding shown_def by (intro kernel_only_hbind kernel_only_hret s)
qed

lemma kernel_only_world: "kernel_only m \<Longrightarrow> fst (m (w, k)) = fst (m (v, k))"
  unfolding kernel_only_def by force

lemma enforced_world: "enforced sha nft (w, k) d \<longleftrightarrow> enforced sha nft (v, k) d"
  unfolding enforced_def using kernel_only_world [OF kernel_only_shown(2)] by metis

lemma keeps_shown_state:
  "read_only nft \<Longrightarrow> shown sha nft d (w, k) = (q, (w', k')) \<Longrightarrow> w' = w \<and> k' = k"
  using keeps_reads(4) [of nft sha d] kernel_only_shown(2) [of sha nft d]
  unfolding keeps_def kernel_only_def by (metis fst_conv snd_conv)

lemma commit_policy_enforced:
  assumes "commit_policy sha nft commands d s = (Inr (), (w', k'))" and r: "read_only nft"
  shows "enforced sha nft (w', k') d"
proof -
  obtain w1 k1 where s: "shown sha nft d (w1, k1) = (Inr True, (w', k'))"
    using assms(1) by (auto simp: commit_policy_def hbind_Inr_iff split: if_splits)
  then show ?thesis using keeps_shown_state [OF r s] by (simp add: enforced_def)
qed

lemma install_enforced:
  assumes "install sha env nft directory source initial d (w, k) = (Inr (), (w', k'))" and r: "read_only nft"
  shows "enforced sha nft (w', k') d \<and> (\<exists>v. host_save env directory d v = (Inr (), w'))"
proof -
  obtain commands w1 k1 w2 k2 where 1: "commit_policy sha nft commands d (w, k) = (Inr (), (w1, k1))"
    and 2: "admit_decisions sha nft d (w1, k1) = (Inr (), (w2, k2))"
    and 3: "host_save env directory d w2 = (Inr (), w')" "k' = k2"
    using assms(1) by (auto simp: install_def hbind_Inr_iff files_eq)
  have "k2 = k1" using keepsD [OF keeps_reads(5) [OF r] 2] .
  then show ?thesis
    using commit_policy_enforced [OF 1 r] enforced_world 3 by metis
qed

lemma host_reconcile_enforced:
  assumes "host_reconcile sha env nft directory source previous d (w, k) = (Inr (), (w', k'))" and r: "read_only nft"
  shows "enforced sha nft (w', k') d \<and> (\<exists>v. host_save env directory d v = (Inr (), w'))"
proof -
  obtain observed w1 k1 same w2 k2 where 1: "nft_snapshot nft (w, k) = (Inr observed, (w1, k1))"
    and 2: "already_shown sha nft observed d (w1, k1) = (Inr same, (w2, k2))"
    and 3: "(if same then files (host_save env directory d)
      else hbind (hret (prior_shown sha previous observed)) (\<lambda>_.
        install sha env nft directory source (observed = None) d)) (w2, k2) = (Inr (), (w', k'))"
    using assms(1) by (auto simp: host_reconcile_def hbind_Inr_iff)
  show ?thesis
  proof (cases same)
    case True
    have "k1 = k" using keepsD [OF keeps_reads(1) [OF r] 1] .
    obtain w3 k3 where a: "admit_decisions sha nft d (w1, k1) = (Inr (), (w3, k3))"
      and t: "same_table sha observed d = Inr True" "k2 = k3"
      using 2 True by (auto simp: already_shown_def hbind_Inr_iff split: if_splits)
    have "k2 = k" using keepsD [OF keeps_reads(5) [OF r] a] \<open>k1 = k\<close> t by simp
    moreover have "enforced sha nft (w, k) d"
      using 1 t by (simp add: enforced_def shown_def hbind_def)
    ultimately show ?thesis
      using 3 True enforced_world [of sha nft w' k d w] by (auto simp: files_eq)
  next
    case False
    then obtain w3 k3 where "install sha env nft directory source (observed = None) d (w3, k3) = (Inr (), (w', k'))"
      using 3 by (auto simp: hbind_Inr_iff)
    then show ?thesis by (rule install_enforced [OF _ r])
  qed
qed

lemma host_save_published:
  assumes "host_save env directory d w = (Inr (), w')"
  obtains bytes where "canonical_bytes (document_json d) = Inr bytes"
    "published env (directory @ [ACCEPTED_FILE]) bytes w'"
proof -
  obtain bytes where b: "canonical_bytes (document_json d) = Inr bytes"
    and "atomic_write env directory ACCEPTED_FILE bytes w = (Inr (), w')"
    using assms by (auto simp: host_save_def catch_io_def bind_io_eq split: prod.splits sum.splits)
  from atomic_write_spec [OF this(2)] b that show thesis by simp
qed

lemma value_policy:
  assumes c: "configuration config = Inr c" and p: "fw_policy sha (PDict c) source = Inr policy"
    and d: "hd_configuration d = PDict c" "source \<noteq> PNone \<Longrightarrow> hd_prefixes d = source"
  shows "document_policy sha d = Inr policy"
proof -
  have "''edge_mode'' \<in> dkeys c"
    using c by (auto simp: configuration_def CONFIGURATION_KEYS_def seq_res_Inr_iff split: pyval.splits if_splits)
  then have m: "pitem (PDict c) ''edge_mode'' = Inr (dget c ''edge_mode'')"
    by (auto simp: pitem_def ditem_def dget_def dkeys_def map_of_eq_None_iff split: option.splits)
  obtain c' where s: "fw_scope sha (PDict c) source = Inr c'"
    using p by (auto simp: fw_policy_def bind_res_Inr_iff)
  have "c' = c" using configuration_Inr(1) [OF fw_scope_Inr(1) [OF s]] by simp
  then have "source \<noteq> PNone" if "dget c ''edge_mode'' = PStr ''PROTECTED''"
    using fw_scope_Inr(2) [OF s] that by (auto simp: validate_candidate_def)
  then have "source = (if dget c ''edge_mode'' = PStr ''PROTECTED'' then hd_prefixes d else PNone)"
    using fw_scope_Inr(3) [OF s] d(2) \<open>c' = c\<close> by auto
  then have "host_source d = Inr source" by (simp add: host_source_def d(1) m)
  then show ?thesis using p d(1) by (simp add: document_policy_def)
qed

lemma enforced_snapshot:
  assumes "enforced sha nft (w, k) d"
  obtains table where "fst (nft_snapshot nft (w, k)) = Inr (Some table)" "same_table sha (Some table) d = Inr True"
proof -
  obtain observed s where s: "nft_snapshot nft (w, k) = (Inr observed, s)" and t: "same_table sha observed d = Inr True"
    using assms unfolding enforced_def shown_def hbind_def hret_def
    by (auto split: prod.splits sum.splits)
  then obtain table where "observed = Some table" by (cases observed) (auto simp: same_table_def)
  with s t that show thesis by simp
qed

section \<open>Guarantees\<close>

lemma host_apply_locked:
  assumes "host_apply sha env nft directory config source s = (r, s')" and "snd s' \<noteq> snd s \<or> r = Inr ()"
  obtains c policy where "configuration config = Inr c" "fw_policy sha (PDict c) source = Inr policy"
    "host_lock env directory (apply_locked sha env nft directory c source) s = (r, s')"
  using assms by (auto simp: host_apply_def hbind_eq)



lemma kernel_only_decisions: "kernel_only (nft_decisions nft name)"
  unfolding nft_decisions_def observed_json_def
  by (auto intro!: kernel_only_hbind kernel_only_hret kernel_only_run)

lemma effective_document_shown:
  assumes "effective_document sha env nft directory s = (Inr d, s')"
  shows "\<exists>w. fst (host_read sha env directory (fst s)) = Inr (Some d) \<and> enforced sha nft (w, snd s) d"
  using assms unfolding effective_document_def
  by (cases s) (auto simp: hbind_Inr_iff files_eq enforced_def split: option.splits if_splits, metis fst_conv)

text \<open>Property C30: a remediation that returns was read back. The accepted document was the one the kernel
  shows, the decision is one the document admits, and after the command the family's set, listed
  again, has exactly one entry for the peer, with the requested lifetime, or for a removal none;
  whatever the binary reported about the commit itself.\<close>

theorem remediation_is_read_back:
  assumes "host_remediate sha env nft directory address ttl removing (w, k) = (Inr (), (w', k'))"
    and "read_only nft"
  shows "\<exists>d v source name peer entries found. enforced sha nft (v, k) d \<and> host_source d = Inr source \<and>
    remediation sha (hd_configuration d) source address ttl = Inr (name, peer) \<and>
    fst (nft_decisions nft name (w', k')) = Inr entries \<and> peer_entries peer entries = Inr found \<and>
    (if removing then found = [] else \<exists>e. found = [e] \<and> py_eq (dget (dict_of e) ''timeout'') ttl)"
proof -
  have l: "host_lock env directory (remediate_locked sha env nft directory address ttl removing) (w, k) = (Inr (), (w', k'))"
    using assms(1) by (simp add: host_remediate_def)
  from host_lock_spec [OF l] obtain w1 w2 where
    "remediate_locked sha env nft directory address ttl removing (w1, k) = (Inr (), (w2, k'))" by blast
  then obtain d s1 source name peer s5 failure entries w6 k6 found where
    1: "effective_document sha env nft directory (w1, k) = (Inr d, s1)"
    and s: "host_source d = Inr source" "remediation sha (hd_configuration d) source address ttl = Inr (name, peer)"
    and 2: "nft_decisions nft name s5 = (Inr entries, (w6, k6))" "peer_entries peer entries = Inr found"
    and d: "decided found ttl removing"
    and 3: "admit_decisions sha nft d (w6, k6) = (Inr (), (w2, k'))"
    by (auto simp: remediate_locked_def hbind_Inr_iff Let_def bind_res_Inr_iff split: prod.splits if_splits)
  obtain v where e: "enforced sha nft (v, k) d"
    using effective_document_shown [OF 1] by auto
  have "snd s5 = k6"
    using keepsD [OF keeps_reads(2) [OF assms(2)], of name "fst s5" "snd s5"] 2(1) by simp
  moreover have "k' = k6" using keepsD [OF keeps_reads(5) [OF assms(2)] 3] .
  ultimately have "fst (nft_decisions nft name (w', k')) = Inr entries"
    using kernel_only_world [OF kernel_only_decisions, of nft name w' k' "fst s5"] 2(1) by (cases s5) simp
  moreover have "if removing then found = [] else \<exists>e. found = [e] \<and> py_eq (dget (dict_of e) ''timeout'') ttl"
    using d by (auto simp: decided_def split: list.splits if_splits)
  ultimately show ?thesis using e s 2(2) by blast
qed

section \<open>A binary that shows a table\<close>

text \<open>The length of the text of a value, from its structure.\<close>

fun count_chars :: "string \<Rightarrow> int" where
  "count_chars [] = 0"
| "count_chars (c # s) = count_chars s + 1"

lemma count_chars_length [simp]: "count_chars s = int (length s)"
  by (induction s) auto

fun text_size :: "pyval \<Rightarrow> int" where
  "text_size (PStr s) = 2 + 6 * count_chars s"
| "text_size (PInt i) = 2 + \<bar>i\<bar>"
| "text_size (PList xs) = 2 + sum_list (map (\<lambda>x. 1 + text_size x) xs)"
| "text_size (PTuple xs) = 2 + sum_list (map (\<lambda>x. 1 + text_size x) xs)"
| "text_size (PDict kvs) = 2 + sum_list (map (\<lambda>(k, x). 4 + 6 * count_chars k + text_size x) kvs)"
| "text_size _ = 5"

lemma length_quote: "length (quote_str s) \<le> 2 + 6 * length s"
proof -
  have "length (escape_char c) \<le> 6" for c
    by (simp add: escape_char_def Let_def)
  then have "length (concat (map escape_char s)) \<le> 6 * length s"
    by (induction s) (auto intro: add_mono)
  then show ?thesis by (simp add: quote_str_def)
qed

lemma length_show_int: "int (length (show_int i)) \<le> 2 + \<bar>i\<bar>"
proof -
  have "length (show_nat n) \<le> Suc n" for n
  proof (induction n rule: show_nat.induct)
    case (1 n)
    then show ?case by (subst show_nat.simps) auto
  qed
  from this [of "nat i"] this [of "nat (- i)"] show ?thesis
    by (auto simp: show_int_def)
qed

lemma length_commas: "int (length (commas ss)) \<le> sum_list (map (\<lambda>s. 1 + int (length s)) ss)"
  by (induction ss rule: commas.induct) auto

lemma sum_list_all2_mono:
  "list_all2 (\<lambda>x s. g s \<le> (f x :: int)) xs ss \<Longrightarrow> sum_list (map g ss) \<le> sum_list (map f xs)"
  by (induction rule: list_all2_induct) auto

lemma ser_size: "ser v = Inr s \<Longrightarrow> int (length s) \<le> text_size v"
proof (induction v arbitrary: s rule: ser.induct)
  case (5 xs)
  then obtain ss where s: "s = ''['' @ commas ss @ '']''" "list_all2 (\<lambda>x t. ser x = Inr t) xs ss"
    by (auto simp: bind_res_Inr_iff map_res_Inr_iff)
  then have "list_all2 (\<lambda>x t. 1 + int (length t) \<le> 1 + text_size x) xs ss"
    using "5.IH" by (auto simp: list_all2_conv_all_nth)
  from sum_list_all2_mono [OF this] length_commas [of ss] s(1) show ?case by simp
next
  case (6 xs)
  then obtain ss where s: "s = ''['' @ commas ss @ '']''" "list_all2 (\<lambda>x t. ser x = Inr t) xs ss"
    by (auto simp: bind_res_Inr_iff map_res_Inr_iff)
  then have "list_all2 (\<lambda>x t. 1 + int (length t) \<le> 1 + text_size x) xs ss"
    using "6.IH" by (auto simp: list_all2_conv_all_nth)
  from sum_list_all2_mono [OF this] length_commas [of ss] s(1) show ?case by simp
next
  case (7 kvs)
  then obtain ss where s: "s = ''{'' @ commas ss @ ''}''"
    "list_all2 (\<lambda>p t. (case p of (k, x) \<Rightarrow> bind_res (ser x) (\<lambda>u. Inr (quote_str k @ CHR '':'' # u))) = Inr t) kvs ss"
    by (auto simp: bind_res_Inr_iff map_res_Inr_iff)
  have "1 + int (length t) \<le> (case p of (k, x) \<Rightarrow> 4 + 6 * count_chars k + text_size x)"
    if m: "p \<in> set kvs" and c: "(case p of (k, x) \<Rightarrow> bind_res (ser x) (\<lambda>u. Inr (quote_str k @ CHR '':'' # u))) = Inr t" for p t
  proof (cases p)
    case (Pair k x)
    obtain u where u: "ser x = Inr u" "t = quote_str k @ CHR '':'' # u"
      using c Pair by (auto simp: bind_res_Inr_iff)
    from "7.IH" [OF m _ u(1)] Pair length_quote [of k] u(2) show ?thesis by simp
  qed
  then have "list_all2 (\<lambda>p t. 1 + int (length t) \<le> (case p of (k, x) \<Rightarrow> 4 + 6 * count_chars k + text_size x)) kvs ss"
    using s(2) unfolding list_all2_conv_all_nth by (meson nth_mem)
  from sum_list_all2_mono [OF this] length_commas [of ss] s(1) show ?case by simp
next
  case (4 t)
  then show ?case using length_quote [of t] by auto
qed (use length_show_int in \<open>auto split: if_splits\<close>)

lemma utf8_len_bound: "utf8_len s \<le> 2 * length s"
  by (induction s) (auto simp: utf8_len_def)

definition nft_text :: "pyval \<Rightarrow> string" where
  "nft_text v = (case ser v of Inl _ \<Rightarrow> [] | Inr s \<Rightarrow> s)"

lemma nft_text_read:
  assumes "plain v" and "2 * text_size v \<le> MAX_OUTPUT"
  shows "json_loads default_hooks (nft_text v) = Inr v" and "int (utf8_len (nft_text v)) \<le> MAX_OUTPUT"
proof -
  obtain s where s: "ser v = Inr s" "text_of default_hooks v s"
    using ser_text_of [OF closing_default assms(1)] by blast
  then have t: "nft_text v = s" by (simp add: nft_text_def)
  have "skip_ws s = s" using s(2) skip_ws_start [of s "[]"] by (simp add: text_of_def)
  moreover have "parse_val default_hooks (Suc (2 * length s)) (s @ []) = Inr (v, [])"
    using s(2) unfolding text_of_def by (metis lessI stop_simps(1))
  ultimately show "json_loads default_hooks (nft_text v) = Inr v"
    by (simp add: t json_loads_def skip_ws_def)
  have "int (utf8_len s) \<le> 2 * int (length s)" using utf8_len_bound [of s] by simp
  also have "\<dots> \<le> 2 * text_size v" using ser_size [OF s(1)] by simp
  finally have "int (utf8_len s) \<le> 2 * text_size v" .
  from order_trans [OF this assms(2)] show "int (utf8_len (nft_text v)) \<le> MAX_OUTPUT" by (simp only: t)
qed

section \<open>Witnesses\<close>

text \<open>A binary without our table, for which every accepted batch is counted.\<close>

definition counting_nft :: "nat nft" where
  "counting_nft arguments document k =
     (if ''list'' \<in> set arguments \<or> ''--check'' \<in> set arguments
      then (Nft_Exit 0 (if document = None then quoted ''{|nftables|:[]}'' else []) [], k)
      else (Nft_Exit 0 [] [], Suc k))"

lemma counting_read_only: "read_only counting_nft"
  by (simp add: read_only_def counting_nft_def)

text \<open>A store with an accepted document, and the same owner network in two halves.\<close>

definition accepted_bytes :: string where
  "accepted_bytes = quoted (''{|configuration|:{|edge_mode|:|DIRECT|,|management_ipv4|:[|192.0.2.0/24|],|management_ipv6|:'' @
     ''[],|dhcp_interfaces|:[|eth0|]},|prefixes|:null}'') @ [CHR 0x0A]"

definition sample_document :: host_document where
  "sample_document = \<lparr>hd_configuration = PDict sample_host, hd_prefixes = PNone\<rparr>"

definition host_world :: os where
  "host_world = set_node [''state'', ACCEPTED_FILE] (Some (file_node accepted_bytes)) sample_world"

definition halved_host :: pydict where
  "halved_host = [(''edge_mode'', PStr ''DIRECT''),
     (''management_ipv4'', PList [PStr ''192.0.2.0/25'', PStr ''192.0.2.128/25'']),
     (''management_ipv6'', PList []), (''dhcp_interfaces'', PList [PStr ''eth0''])]"

lemma counting_applies:
  "snd (snd (host_apply id calm_env counting_nft [''state''] (PDict halved_host) PNone (host_world, 0))) = 1"
  by code_simp


text \<open>A binary that shows the policy of \<open>sample_host\<close>, with one decision in force.\<close>

definition host_objects :: "pyval list" where
  "host_objects = (case fw_policy id (PDict sample_host) PNone of Inr objects \<Rightarrow> objects | Inl _ \<Rightarrow> [])"

definition host_table :: pyval where "host_table = PDict [(''nftables'', PList host_objects)]"

definition blocked_peer :: pyval where
  "blocked_peer = PDict [(''elem'', PDict [(''val'', PStr ''198.51.100.7''), (''timeout'', PInt 60), (''expires'', PInt 30)])]"

definition showing_nft :: "nat nft" where
  "showing_nft arguments document k = (Nft_Exit 0
     (if document \<noteq> None then []
      else if ''tables'' \<in> set arguments
      then quoted ''{|nftables|:[{|table|:{|family|:|inet|,|name|:|secpal_host|}}]}''
      else if ''table'' \<in> set arguments then nft_text host_table
      else if ''remediation4'' \<in> set arguments
      then quoted ''{|nftables|:[{|set|:{|elem|:[{|elem|:{|val|:|198.51.100.7|,|timeout|:60,|expires|:30}}]}}]}''
      else quoted ''{|nftables|:[{|set|:{}}]}'') [], k)"

lemma showing_read_only: "read_only showing_nft"
  by (simp add: read_only_def showing_nft_def)

lemma host_objects_policy: "fw_policy id (PDict sample_host) PNone = Inr host_objects"
proof -
  have "ok (fw_policy id (PDict sample_host) PNone)" by code_simp
  then show ?thesis by (auto simp: ok_iff host_objects_def)
qed

lemma host_table_text:
  "json_loads default_hooks (nft_text host_table) = Inr host_table" "int (utf8_len (nft_text host_table)) \<le> MAX_OUTPUT"
proof -
  have "plain host_table" by code_simp
  moreover have "2 * text_size host_table \<le> MAX_OUTPUT" by code_simp
  ultimately show "json_loads default_hooks (nft_text host_table) = Inr host_table"
    "int (utf8_len (nft_text host_table)) \<le> MAX_OUTPUT" by (rule nft_text_read)+
qed

lemma showing_texts:
  "json_loads default_hooks (quoted ''{|nftables|:[{|table|:{|family|:|inet|,|name|:|secpal_host|}}]}'') =
     Inr (PDict [(''nftables'', PList [PDict [(''table'', PDict [(''family'', PStr ''inet''), (''name'', PStr ''secpal_host'')])]])])"
  "json_loads default_hooks (quoted
     ''{|nftables|:[{|set|:{|elem|:[{|elem|:{|val|:|198.51.100.7|,|timeout|:60,|expires|:30}}]}}]}'') =
     Inr (PDict [(''nftables'', PList [PDict [(''set'', PDict [(''elem'', PList [blocked_peer])])]])])"
  "json_loads default_hooks (quoted ''{|nftables|:[{|set|:{}}]}'') =
     Inr (PDict [(''nftables'', PList [PDict [(''set'', PDict [])]])])"
  by code_simp+

lemma showing_lengths:
  "int (utf8_len (quoted ''{|nftables|:[{|table|:{|family|:|inet|,|name|:|secpal_host|}}]}'')) \<le> MAX_OUTPUT"
  "int (utf8_len (quoted ''{|nftables|:[{|set|:{|elem|:[{|elem|:{|val|:|198.51.100.7|,|timeout|:60,|expires|:30}}]}}]}'')) \<le> MAX_OUTPUT"
  "int (utf8_len (quoted ''{|nftables|:[{|set|:{}}]}'')) \<le> MAX_OUTPUT"
  by code_simp+

lemma observed_json_exit:
  assumes "nft arguments None k = (Nft_Exit 0 out [], k)" and "int (utf8_len out) \<le> MAX_OUTPUT"
    and "json_loads default_hooks out = Inr v"
  shows "observed_json nft operation arguments (w, k) = (Inr v, (w, k))"
  using assms by (simp add: observed_json_def hbind_def nft_run_def hret_def utf8_len_def)

lemma showing_snapshot: "nft_snapshot showing_nft (w, k) = (Inr (Some host_table), (w, k))"
proof -
  have 1: "observed_json showing_nft ''observe-firewall-tables'' [''--json'', ''list'', ''tables''] (w, k) =
      (Inr (PDict [(''nftables'', PList [PDict [(''table'', PDict [(''family'', PStr ''inet''), (''name'', PStr ''secpal_host'')])]])]), (w, k))"
    by (rule observed_json_exit [OF _ showing_lengths(1) showing_texts(1)]) (simp add: showing_nft_def)
  have "observed_json showing_nft ''observe-host-firewall''
      [''--json'', ''--terse'', ''list'', ''table'', ''inet'', TABLE] (w, k) = (Inr host_table, (w, k))"
    by (rule observed_json_exit [OF _ host_table_text(2,1)]) (simp add: showing_nft_def TABLE_def)
  note 2 = this [unfolded TABLE_def]
  show ?thesis
    unfolding nft_snapshot_def
    by (simp add: hbind_def 1 2 hret_def pitem_def ditem_def py_iter_def get_or_def dget_default_def TABLE_def
        bind_res_def)
qed

lemma showing_decisions:
  "nft_decisions showing_nft ''remediation4'' (w, k) = (Inr (PList [blocked_peer]), (w, k))"
  "nft_decisions showing_nft ''remediation6'' (w, k) = (Inr (PList []), (w, k))"
proof -
  have 1: "observed_json showing_nft ''observe-remediation'' [''--json'', ''list'', ''set'', ''inet'', TABLE, ''remediation4''] (w, k) =
      (Inr (PDict [(''nftables'', PList [PDict [(''set'', PDict [(''elem'', PList [blocked_peer])])]])]), (w, k))"
    by (rule observed_json_exit [OF _ showing_lengths(2) showing_texts(2)]) (simp add: showing_nft_def TABLE_def)
  have 2: "observed_json showing_nft ''observe-remediation'' [''--json'', ''list'', ''set'', ''inet'', TABLE, ''remediation6''] (w, k) =
      (Inr (PDict [(''nftables'', PList [PDict [(''set'', PDict [])]])]), (w, k))"
    by (rule observed_json_exit [OF _ showing_lengths(3) showing_texts(3)]) (simp add: showing_nft_def TABLE_def)
  note rows = hbind_def hret_def pitem_def ditem_def py_iter_def get_or_def dget_default_def bind_res_def
    set_row_def map_filter_simps
  show "nft_decisions showing_nft ''remediation4'' (w, k) = (Inr (PList [blocked_peer]), (w, k))"
    unfolding nft_decisions_def by (simp add: 1 rows)
  show "nft_decisions showing_nft ''remediation6'' (w, k) = (Inr (PList []), (w, k))"
    unfolding nft_decisions_def by (simp add: 2 rows)
qed

lemma sample_checks:
  "document_policy id sample_document = Inr host_objects"
  "same_table id (Some host_table) sample_document = Inr True"
  "admit_set id sample_document ''remediation4'' (PList [blocked_peer]) = Inr ()"
  "admit_set id sample_document ''remediation6'' (PList []) = Inr ()"
proof -
  show p: "document_policy id sample_document = Inr host_objects"
    using value_policy [OF _ host_objects_policy, of "PDict sample_host" sample_document]
    by (simp add: sample_document_def) code_simp
  have "normalize_table host_table = Inr host_objects" "py_eq (PList host_objects) (PList host_objects)"
    by code_simp+
  then show "same_table id (Some host_table) sample_document = Inr True"
    by (simp add: same_table_def p)
  show "admit_set id sample_document ''remediation4'' (PList [blocked_peer]) = Inr ()"
    "admit_set id sample_document ''remediation6'' (PList []) = Inr ()"
    by code_simp+
qed

lemma showing_admits: "admit_decisions id showing_nft sample_document (w, k) = (Inr (), (w, k))"
  by (simp add: admit_decisions_def hbind_def hret_def showing_decisions sample_checks(3,4))

lemma showing_reconciles:
  "host_reconcile id env showing_nft directory source previous sample_document (w, k) =
     files (host_save env directory sample_document) (w, k)"
  by (simp add: host_reconcile_def already_shown_def hbind_def hret_def showing_snapshot showing_admits sample_checks(2))

text \<open>The runs, after what they read in the store: any continuation serves for another content.\<close>

lemma sample_store_runs:
  "fst (host_lock calm_env [''state''] (hbind (files (host_read id calm_env [''state'']))
     (\<lambda>p. if p = None then files (host_save calm_env [''state''] sample_document) else G p)) (sample_world, 0)) = Inr ()"
  "fst (host_lock calm_env [''state''] (hbind (files (host_read id calm_env [''state'']))
     (\<lambda>p. if p = Some sample_document then hret (Inr ()) else H p)) (host_world, 0)) = Inr ()"
  by code_simp+

lemma sample_apply:
  "fst (host_apply id calm_env showing_nft [''state''] (PDict sample_host) PNone (sample_world, 0)) = Inr ()"
proof -
  have c: "configuration (PDict sample_host) = Inr sample_host" by code_simp
  define G where "G previous = hbind (hret (management_transition previous sample_host)) (\<lambda>_.
     let kept = (case previous of None \<Rightarrow> PNone | Some d \<Rightarrow> hd_prefixes d);
         value = \<lparr>hd_configuration = PDict sample_host, hd_prefixes = (if PNone = PNone then kept else PNone)\<rparr> in
     hbind (hret (if kept \<noteq> PNone \<and> PNone \<noteq> PNone
         then admit_successor id (Some (dict_of kept)) (dict_of PNone) else Inr ())) (\<lambda>_.
     host_reconcile id calm_env showing_nft [''state''] PNone previous value))" for previous
  have "G None = files (host_save calm_env [''state''] sample_document)"
    by (rule ext) (simp add: G_def management_transition_def hbind_def hret_def sample_document_def [symmetric]
        showing_reconciles split_paired_all)
  then have "apply_locked id calm_env showing_nft [''state''] sample_host PNone =
      hbind (files (host_read id calm_env [''state'']))
        (\<lambda>p. if p = None then files (host_save calm_env [''state''] sample_document) else G p)"
    unfolding apply_locked_def G_def [symmetric] by (intro arg_cong [where f = "hbind _"] ext) auto
  then show ?thesis
    using sample_store_runs(1) [of G]
    by (simp add: host_apply_def hbind_def [of "hret _"] hret_def c host_objects_policy)
qed


lemma hbind_assoc: "hbind (hbind m f) g = hbind m (\<lambda>x. hbind (f x) g)"
  by (rule ext) (simp add: hbind_def split: prod.split sum.split)

lemma showing_writes:
  "nft_validate showing_nft (PDict d) (w, k) = (Inr (), (w, k))" "nft_commit showing_nft (PDict d) (w, k) = (Inr (), (w, k))"
  by (simp_all add: nft_validate_def nft_commit_def hbind_def hret_def nft_run_def showing_nft_def utf8_len_def MAX_OUTPUT_def)

lemma sample_remediates:
  "fst (host_remediate id calm_env showing_nft [''state''] (PStr ''198.51.100.7'') (PInt 60) False (host_world, 0)) = Inr ()"
proof -
  define H where "H found = hbind (case found of
       None \<Rightarrow> hret (Inl (ValueError ''admit-effective-host-firewall''))
     | Some value \<Rightarrow> hbind (shown id showing_nft value) (\<lambda>same.
         if same then hret (Inr value) else hret (Inl (ValueError ''admit-effective-host-firewall''))))
     (\<lambda>value. hbind (hret (bind_res (host_source value) (\<lambda>source.
         remediation id (hd_configuration value) source (PStr ''198.51.100.7'') (PInt 60)))) (\<lambda>(name, peer).
     hbind (admit_decisions id showing_nft value) (\<lambda>_.
     let document = remediation_commands name peer (PInt 60) False in
     hbind (nft_validate showing_nft document) (\<lambda>_.
     hbind (hcatch (hbind (nft_commit showing_nft document) (\<lambda>_. hret (Inr None))) (\<lambda>e.
         hret (if is_value_error e then Inr (Some e) else Inl e))) (\<lambda>failure.
     hbind (nft_decisions showing_nft name) (\<lambda>entries.
     hbind (hret (peer_entries peer entries)) (\<lambda>found.
     if \<not> decided found (PInt 60) False
     then hret (Inl (case failure of Some e \<Rightarrow> e | None \<Rightarrow> ValueError ''admit-remediation-readback''))
     else admit_decisions id showing_nft value)))))))" for found
  have r: "bind_res (host_source sample_document) (\<lambda>source.
      remediation id (hd_configuration sample_document) source (PStr ''198.51.100.7'') (PInt 60)) = Inr (''remediation4'', ''198.51.100.7'')"
    by code_simp
  obtain found where f: "peer_entries ''198.51.100.7'' (PList [blocked_peer]) = Inr found" "decided found (PInt 60) False"
  proof -
    have "peer_entries ''198.51.100.7'' (PList [blocked_peer]) =
        Inr [PDict [(''val'', PStr ''198.51.100.7''), (''timeout'', PInt 60), (''expires'', PInt 30)]]" by code_simp
    moreover have "decided [PDict [(''val'', PStr ''198.51.100.7''), (''timeout'', PInt 60), (''expires'', PInt 30)]] (PInt 60) False"
      by code_simp
    ultimately show thesis by (rule that)
  qed
  have "H (Some sample_document) = hret (Inr ())"
    by (rule ext) (simp add: H_def hbind_def hcatch_def hret_def shown_def showing_snapshot sample_checks(2) r showing_admits
        showing_decisions(1) f Let_def remediation_commands_def showing_writes split_paired_all)
  then have "remediate_locked id calm_env showing_nft [''state''] (PStr ''198.51.100.7'') (PInt 60) False =
      hbind (files (host_read id calm_env [''state'']))
        (\<lambda>p. if p = Some sample_document then hret (Inr ()) else H p)"
    unfolding remediate_locked_def effective_document_def hbind_assoc H_def [symmetric]
    by (intro arg_cong [where f = "hbind _"] ext) auto
  then show ?thesis
    using sample_store_runs(2) [of H] by (simp add: host_remediate_def)
qed

theorem remediation_is_read_back_witness:
  "\<exists>s' (d :: host_document) source name peer entries found.
     host_remediate id calm_env showing_nft [''state''] (PStr ''198.51.100.7'') (PInt 60) False (host_world, 0) = (Inr (), s') \<and>
     remediation id (hd_configuration d) source (PStr ''198.51.100.7'') (PInt 60) = Inr (name, peer) \<and>
     fst (nft_decisions showing_nft name s') = Inr entries \<and> peer_entries peer entries = Inr [found]"
proof -
  let ?m = "host_remediate id calm_env showing_nft [''state''] (PStr ''198.51.100.7'') (PInt 60) False"
  obtain w' k' where e: "?m (host_world, 0) = (Inr (), (w', k'))"
    using sample_remediates by (cases "?m (host_world, 0)") auto
  from remediation_is_read_back [OF e showing_read_only] obtain d :: host_document and source name peer entries found e where
    1: "remediation id (hd_configuration d) source (PStr ''198.51.100.7'') (PInt 60) = Inr (name, peer)"
    and 2: "fst (nft_decisions showing_nft name (w', k')) = Inr entries" "peer_entries peer entries = Inr found"
      "found = [e]"
    unfolding if_False by blast
  from 1 2(1,2) show ?thesis unfolding e 2(3) by blast
qed

end
