(* ===== verification/Publication.thy ===== *)
theory Publication
  imports Prefix_Store Json_Default
begin

text \<open>
  \<open>scripts/haproxy_config_lifecycle.py\<close>: the publication of a reviewed configuration or certificate
  over the serving file, with a journal of the pending generation, the compensation when the
  reload fails, and the recovery of an interrupted publication. The callbacks \<open>validate\<close>,
  \<open>reload\<close>, \<open>prepare\<close> and \<open>recover\<close> are parameters, computations over the same files.

  Every system call may fail, as in \<open>File_System\<close>. An environment in which every call from some
  point on fails leaves the files as a crash at that point would. Not modelled: the target of
  a symbolic link (asking whether a link exists is \<open>Unmodelled\<close>), and a write that is
  interrupted half-way, which can only concern a staged file.
\<close>

section \<open>Calls\<close>

definition MAX_CONFIG_BYTES :: nat where "MAX_CONFIG_BYTES = 65536"

text \<open>\<open>Path.exists\<close>, \<open>Path.is_symlink\<close>, \<open>Path.stat().st_size\<close>, \<open>Path.is_file\<close>, \<open>Path.read_bytes\<close>.\<close>

definition path_exists :: "os_env \<Rightarrow> path \<Rightarrow> bool io" where
  "path_exists env p = sys env (\<lambda>w. case os_nodes w p of
     None \<Rightarrow> (Inr False, w)
   | Some n \<Rightarrow> if nd_kind n = K_Lnk then (Inl (Unmodelled ''symbolic link''), w) else (Inr True, w))"

definition is_symlink :: "os_env \<Rightarrow> path \<Rightarrow> bool io" where
  "is_symlink env p = sys env (\<lambda>w. (Inr (case os_nodes w p of None \<Rightarrow> False | Some n \<Rightarrow> nd_kind n = K_Lnk), w))"

definition stat :: "os_env \<Rightarrow> path \<Rightarrow> node io" where
  "stat env p = bind_io (lstat env p) (\<lambda>n.
     lift_io (if nd_kind n = K_Lnk then Inl (Unmodelled ''symbolic link'') else Inr n))"

definition is_file :: "os_env \<Rightarrow> path \<Rightarrow> bool io" where
  "is_file env p = sys env (\<lambda>w. case os_nodes w p of
     None \<Rightarrow> (Inr False, w)
   | Some n \<Rightarrow> if nd_kind n = K_Lnk then (Inl (Unmodelled ''symbolic link''), w) else (Inr (nd_kind n = K_Reg), w))"

definition read_all :: "os_env \<Rightarrow> path \<Rightarrow> string io" where
  "read_all env p = bind_io (open_nofollow env p False None) (\<lambda>_. finally_io
     (sys env (\<lambda>w. case os_nodes w p of
        None \<Rightarrow> (Inl ENOENT, w)
      | Some n \<Rightarrow> if nd_kind n = K_Dir then (Inl (OSError ''EISDIR''), w) else (Inr (nd_bytes n), w)))
     (touch_call env))"

text \<open>\<open>unlink(missing_ok=True)\<close>.\<close>

definition unlink_missing :: "os_env \<Rightarrow> path \<Rightarrow> unit io" where
  "unlink_missing env p = catch_io (unlink env p) (\<lambda>e. lift_io (if e = ENOENT then Inr () else Inl e))"

definition flush_directory :: "os_env \<Rightarrow> path \<Rightarrow> unit io" where
  "flush_directory env directory =
     bind_io (open_directory env directory) (\<lambda>_. finally_io (touch_call env) (touch_call env))"

text \<open>The outcome of a computation as its value.\<close>

definition attempt_io :: "'a io \<Rightarrow> 'a res io" where
  "attempt_io m w = (case m w of (r, w') \<Rightarrow> (Inr r, w'))"

section \<open>Staging\<close>

definition STAGED :: string where "STAGED = ''.secpal-candidate-''"

text \<open>\<open>fdopen\<close>, write, flush, fsync, close.\<close>

definition fill_staged :: "os_env \<Rightarrow> path \<Rightarrow> string \<Rightarrow> unit io" where
  "fill_staged env candidate data =
     bind_io (touch_call env) (\<lambda>_.
     finally_io
       (bind_io (write_bytes env candidate data) (\<lambda>_. bind_io (touch_call env) (\<lambda>_. touch_call env)))
       (touch_call env))"

definition stage_file :: "os_env \<Rightarrow> path \<Rightarrow> string \<Rightarrow> (path \<Rightarrow> unit io) \<Rightarrow> mode \<Rightarrow> path io" where
  "stage_file env directory data prepare mode =
     bind_io (mkstemp env directory STAGED) (\<lambda>candidate.
     catch_io
       (bind_io (fill_staged env candidate data) (\<lambda>_.
        bind_io (fchmod env candidate mode) (\<lambda>_.
        bind_io (prepare candidate) (\<lambda>_. lift_io (Inr candidate)))))
       (\<lambda>e. bind_io (unlink_missing env candidate) (\<lambda>_. lift_io (Inl e))))"

section \<open>The journal\<close>

definition lower_hex :: "char \<Rightarrow> bool" where
  "lower_hex c \<longleftrightarrow> c \<in> set ''0123456789abcdef''"

definition digest_value :: "pyval \<Rightarrow> bool" where
  "digest_value v = (case v of PStr s \<Rightarrow> length s = 64 \<and> list_all lower_hex s | _ \<Rightarrow> False)"

definition admit_publication_record :: "pyval \<Rightarrow> pydict res" where
  "admit_publication_record record = (case record of
     PDict d \<Rightarrow>
       if dkeys d \<noteq> {''previous_sha256'', ''candidate_sha256''}
         \<or> list_ex (\<lambda>(_, v). v \<noteq> PNone \<and> \<not> digest_value v) d
         \<or> dget d ''candidate_sha256'' = PNone
       then Inl (ValueError ''admit-publication-journal'') else Inr d
   | _ \<Rightarrow> Inl (ValueError ''admit-publication-journal''))"

text \<open>\<open>json.dumps(..., sort_keys=True).encode()\<close> of the two digests, with its default separators.\<close>

definition record_member :: "string \<Rightarrow> string option \<Rightarrow> string" where
  "record_member k v = quote_str k @ '': '' @ (case v of None \<Rightarrow> ''null'' | Some s \<Rightarrow> quote_str s)"

definition publication_record :: "(string \<Rightarrow> string) \<Rightarrow> string option \<Rightarrow> string \<Rightarrow> string" where
  "publication_record sha previous data =
     ''{'' @ record_member ''candidate_sha256'' (Some (sha data)) @ '', ''
         @ record_member ''previous_sha256'' (map_option sha previous) @ ''}''"

definition backup_of :: "path \<Rightarrow> path" where
  "backup_of journal = butlast journal @ [last journal @ ''.pem'']"

section \<open>Recovery\<close>

definition recover_serving ::
  "(string \<Rightarrow> string) \<Rightarrow> os_env \<Rightarrow> path \<Rightarrow> path \<Rightarrow> (path \<Rightarrow> unit io) \<Rightarrow> pyval \<Rightarrow> unit io" where
  "recover_serving sha env serving journal prepare previous =
     (if previous = PNone then unlink_missing env serving
      else bind_io (is_file env (backup_of journal)) (\<lambda>file.
        if \<not> file then lift_io (Inl (ValueError ''admit-publication-predecessor''))
        else bind_io (stat env (backup_of journal)) (\<lambda>info.
        if MAX_CONFIG_BYTES < length (nd_bytes info) then lift_io (Inl (ValueError ''admit-publication-predecessor''))
        else bind_io (read_all env (backup_of journal)) (\<lambda>data.
        if PStr (sha data) \<noteq> previous then lift_io (Inl (ValueError ''admit-publication-predecessor''))
        else bind_io (stage_file env (butlast serving) data prepare 0x180) (\<lambda>candidate.
          replace env candidate serving)))))"

definition recover_publication ::
  "(string \<Rightarrow> string) \<Rightarrow> os_env \<Rightarrow> path \<Rightarrow> path \<Rightarrow> (path \<Rightarrow> unit io) \<Rightarrow> unit io \<Rightarrow> bool io" where
  "recover_publication sha env serving journal prepare recover =
     bind_io (path_exists env journal) (\<lambda>pending.
     if \<not> pending then lift_io (Inr False)
     else bind_io (stat env journal) (\<lambda>info.
       if 1024 < length (nd_bytes info) then lift_io (Inl (ValueError ''admit-publication-journal''))
       else bind_io (read_all env journal) (\<lambda>raw.
       bind_io (lift_io (bind_res (bytes_loads default_hooks raw) admit_publication_record)) (\<lambda>record.
       bind_io (recover_serving sha env serving journal prepare (dget record ''previous_sha256'')) (\<lambda>_.
       bind_io (flush_directory env (butlast serving)) (\<lambda>_.
       bind_io recover (\<lambda>_.
       bind_io (unlink env journal) (\<lambda>_.
       bind_io (flush_directory env (butlast journal)) (\<lambda>_.
       bind_io (unlink_missing env (backup_of journal)) (\<lambda>_.
       bind_io (flush_directory env (butlast journal)) (\<lambda>_.
       lift_io (Inr True))))))))))))"

section \<open>Publication\<close>

text \<open>What the serving file holds; \<open>None\<close> if there is none.\<close>

definition serving_bytes :: "os_env \<Rightarrow> path \<Rightarrow> string option io" where
  "serving_bytes env serving =
     bind_io (bind_io (path_exists env serving) (\<lambda>p. if p then lift_io (Inr True) else is_symlink env serving)) (\<lambda>present.
     if \<not> present then lift_io (Inr None)
     else bind_io (lstat env serving) (\<lambda>info.
       if nd_kind info \<noteq> K_Reg \<or> nd_nlink info \<noteq> 1
         \<or> \<not> (0 < length (nd_bytes info) \<and> length (nd_bytes info) \<le> MAX_CONFIG_BYTES)
       then lift_io (Inl (ValueError ''admit-serving-file''))
       else bind_io (read_all env serving) (\<lambda>b. lift_io (Inr (Some b)))))"

definition write_record ::
  "(string \<Rightarrow> string) \<Rightarrow> os_env \<Rightarrow> path \<Rightarrow> string option \<Rightarrow> string \<Rightarrow> mode \<Rightarrow> unit io" where
  "write_record sha env journal previous data mode =
     bind_io (stage_file env (butlast journal) (publication_record sha previous data) (\<lambda>_. lift_io (Inr ())) mode) (\<lambda>saved.
     bind_io (replace env saved journal) (\<lambda>_. flush_directory env (butlast journal)))"

definition write_journal ::
  "(string \<Rightarrow> string) \<Rightarrow> os_env \<Rightarrow> path \<Rightarrow> string option \<Rightarrow> string \<Rightarrow> (path \<Rightarrow> unit io) \<Rightarrow> mode \<Rightarrow> unit io" where
  "write_journal sha env journal previous data prepare mode =
     bind_io (case previous of
         None \<Rightarrow> lift_io (Inr ())
       | Some b \<Rightarrow> bind_io (stage_file env (butlast journal) b prepare mode) (\<lambda>saved.
           replace env saved (backup_of journal))) (\<lambda>_.
     write_record sha env journal previous data mode)"

text \<open>The handler of a failure after the replacement: the bytes, the journal, the live generation.\<close>

definition compensate ::
  "(string \<Rightarrow> string) \<Rightarrow> os_env \<Rightarrow> path \<Rightarrow> path option \<Rightarrow> string option \<Rightarrow> string \<Rightarrow> mode \<Rightarrow> unit io \<Rightarrow>
     path option \<Rightarrow> unit io" where
  "compensate sha env serving journal previous data mode recover rollback =
     bind_io (case rollback of Some p \<Rightarrow> replace env p serving | None \<Rightarrow> unlink_missing env serving) (\<lambda>_.
     bind_io (finally_io (flush_directory env (butlast serving))
        (finally_io (case journal of
             None \<Rightarrow> lift_io (Inr ())
           | Some j \<Rightarrow> bind_io (path_exists env j) (\<lambda>p.
               if p then lift_io (Inr ()) else write_record sha env j previous data mode))
          recover)) (\<lambda>_.
     case journal of
       None \<Rightarrow> lift_io (Inr ())
     | Some j \<Rightarrow> bind_io (unlink_missing env j) (\<lambda>_. flush_directory env (butlast j))))"

text \<open>The replacement. The value is what \<open>publish\<close> returns: \<open>True\<close>, or \<open>False\<close> when activation is deferred.\<close>

definition activate ::
  "(string \<Rightarrow> string) \<Rightarrow> os_env \<Rightarrow> path \<Rightarrow> path option \<Rightarrow> string option \<Rightarrow> string \<Rightarrow> mode \<Rightarrow> bool \<Rightarrow> unit io \<Rightarrow>
     unit io \<Rightarrow> path \<Rightarrow> path option \<Rightarrow> bool option io" where
  "activate sha env serving journal previous data mode prepare_initial reload recover candidate rollback =
     bind_io (replace env candidate serving) (\<lambda>_.
     catch_io
       (bind_io (flush_directory env (butlast serving)) (\<lambda>_.
        if prepare_initial then lift_io (Inr (Some False))
        else bind_io reload (\<lambda>_.
          bind_io (case journal of
              None \<Rightarrow> lift_io (Inr ())
            | Some j \<Rightarrow> bind_io (unlink env j) (\<lambda>_. flush_directory env (butlast j))) (\<lambda>_.
          lift_io (Inr (Some True))))))
       (\<lambda>e. bind_io (compensate sha env serving journal previous data mode recover rollback) (\<lambda>_. lift_io (Inl e))))"

text \<open>The last \<open>finally\<close>: staged files go, and the backup when no journal needs it.\<close>

definition clean_up :: "os_env \<Rightarrow> path option \<Rightarrow> path \<Rightarrow> path option \<Rightarrow> unit io" where
  "clean_up env journal candidate rollback =
     bind_io (unlink_missing env candidate) (\<lambda>_.
     bind_io (case rollback of None \<Rightarrow> lift_io (Inr ()) | Some p \<Rightarrow> unlink_missing env p) (\<lambda>_.
     case journal of
       None \<Rightarrow> lift_io (Inr ())
     | Some j \<Rightarrow> bind_io (path_exists env j) (\<lambda>p.
         if p then lift_io (Inr ()) else unlink_missing env (backup_of j))))"

text \<open>Before the replacement: \<open>None\<close> if the bytes are the serving ones, else the staged predecessor.\<close>

definition prepare_rollback ::
  "os_env \<Rightarrow> path \<Rightarrow> string option \<Rightarrow> string \<Rightarrow> mode \<Rightarrow> (path \<Rightarrow> unit io) \<Rightarrow> unit io \<Rightarrow> (path \<Rightarrow> unit io) \<Rightarrow> path \<Rightarrow>
     path option option io" where
  "prepare_rollback env serving previous data mode validate reload prepare candidate =
     bind_io (validate candidate) (\<lambda>_.
     if previous = Some data then bind_io reload (\<lambda>_. lift_io (Inr None))
     else case previous of
       None \<Rightarrow> lift_io (Inr (Some None))
     | Some b \<Rightarrow> bind_io (stage_file env (butlast serving) b prepare mode) (\<lambda>p. lift_io (Inr (Some (Some p)))))"

definition publish_candidate ::
  "(string \<Rightarrow> string) \<Rightarrow> os_env \<Rightarrow> path \<Rightarrow> path option \<Rightarrow> string option \<Rightarrow> string \<Rightarrow> mode \<Rightarrow> bool \<Rightarrow> (path \<Rightarrow> unit io) \<Rightarrow>
     unit io \<Rightarrow> (path \<Rightarrow> unit io) \<Rightarrow> unit io \<Rightarrow> path \<Rightarrow> bool option io" where
  "publish_candidate sha env serving journal previous data mode prepare_initial validate reload prepare recover candidate =
     bind_io (attempt_io (prepare_rollback env serving previous data mode validate reload prepare candidate)) (\<lambda>found.
     case found of
       Inl e \<Rightarrow> finally_io (lift_io (Inl e)) (clean_up env journal candidate None)
     | Inr None \<Rightarrow> finally_io (lift_io (Inr None)) (clean_up env journal candidate None)
     | Inr (Some rollback) \<Rightarrow> finally_io
         (bind_io (case journal of
             None \<Rightarrow> lift_io (Inr ())
           | Some j \<Rightarrow> write_journal sha env j previous data prepare mode) (\<lambda>_.
          activate sha env serving journal previous data mode prepare_initial reload recover candidate rollback))
         (clean_up env journal candidate rollback))"

definition publish ::
  "(string \<Rightarrow> string) \<Rightarrow> os_env \<Rightarrow> path \<Rightarrow> string \<Rightarrow> (path \<Rightarrow> unit io) \<Rightarrow> unit io \<Rightarrow> (path \<Rightarrow> unit io) \<Rightarrow> unit io \<Rightarrow>
     mode \<Rightarrow> path option \<Rightarrow> bool \<Rightarrow> bool option io" where
  "publish sha env serving data validate reload prepare recover mode journal prepare_initial =
     (if \<not> (0 < length data \<and> length data \<le> MAX_CONFIG_BYTES) then lift_io (Inl (ValueError ''admit-candidate-size''))
      else if mode \<notin> {0x124, 0x180} \<or> (journal \<noteq> None \<and> mode \<noteq> 0x180)
      then lift_io (Inl (ValueError ''admit-publication-mode''))
      else bind_io (case journal of None \<Rightarrow> lift_io (Inr False) | Some j \<Rightarrow> path_exists env j) (\<lambda>pending.
      if pending then lift_io (Inl (ValueError ''recover-pending-publication-first''))
      else bind_io (if \<not> prepare_initial then lift_io (Inr False)
          else if journal = None then lift_io (Inr True) else path_exists env serving) (\<lambda>refused.
      if refused then lift_io (Inl (ValueError ''admit-first-certificate-preparation''))
      else bind_io (serving_bytes env serving) (\<lambda>previous.
        bind_io (stage_file env (butlast serving) data prepare mode) (\<lambda>candidate.
        publish_candidate sha env serving journal previous data mode prepare_initial validate reload prepare recover candidate)))))"

end
