(* ===== verification/Publication_Calls.thy ===== *)
theory Publication_Calls
  imports Publication
begin

text \<open>
  A calculus for the publication: triples over what the files hold (their kind and bytes), with
  one postcondition for a value and one for an exception. Every rule quantifies over the
  environment, so each covers the failure of any call; for an environment without failures the
  exceptional postcondition is \<open>False\<close>.
\<close>

section \<open>Triples\<close>

type_synonym contents = "path \<Rightarrow> (kind \<times> string) option"

definition contents :: "os \<Rightarrow> contents" where
  "contents w p = map_option (\<lambda>n. (nd_kind n, nd_bytes n)) (os_nodes w p)"

definition ends_in :: "('a \<Rightarrow> contents \<Rightarrow> bool) \<Rightarrow> (contents \<Rightarrow> bool) \<Rightarrow> 'a res \<Rightarrow> contents \<Rightarrow> bool" where
  "ends_in Q E r c = (case r of Inl _ \<Rightarrow> E c | Inr x \<Rightarrow> Q x c)"

lemma ends_in_simps [simp]: "ends_in Q E (Inl e) c = E c" "ends_in Q E (Inr x) c = Q x c"
  by (simp_all add: ends_in_def)

definition triple :: "(contents \<Rightarrow> bool) \<Rightarrow> 'a io \<Rightarrow> ('a \<Rightarrow> contents \<Rightarrow> bool) \<Rightarrow> (contents \<Rightarrow> bool) \<Rightarrow> bool" where
  "triple P m Q E \<longleftrightarrow>
     (\<forall>w r w'. P (contents w) \<longrightarrow> m w = (r, w') \<longrightarrow> ends_in Q E r (contents w'))"

lemma tripleI:
  "(\<And>w r w'. P (contents w) \<Longrightarrow> m w = (r, w') \<Longrightarrow> ends_in Q E r (contents w')) \<Longrightarrow> triple P m Q E"
  by (simp add: triple_def)

lemma tripleD: "triple P m Q E \<Longrightarrow> P (contents w) \<Longrightarrow> m w = (r, w') \<Longrightarrow> ends_in Q E r (contents w')"
  by (simp add: triple_def)

lemma triple_pre: "triple P m Q E \<Longrightarrow> (\<And>c. P' c \<Longrightarrow> P c) \<Longrightarrow> triple P' m Q E"
  by (auto simp: triple_def)

lemma ends_in_mono:
  "ends_in Q E r c \<Longrightarrow> (\<And>x. Q x c \<Longrightarrow> Q' x c) \<Longrightarrow> (E c \<Longrightarrow> E' c) \<Longrightarrow> ends_in Q' E' r c"
  by (cases r) auto

lemma triple_post:
  "triple P m Q E \<Longrightarrow> (\<And>x c. Q x c \<Longrightarrow> Q' x c) \<Longrightarrow> (\<And>c. E c \<Longrightarrow> E' c) \<Longrightarrow> triple P m Q' E'"
  unfolding triple_def by (blast intro: ends_in_mono)

lemma triple_lift: "triple (\<lambda>c. ends_in Q E r c) (lift_io r) Q E"
  by (rule tripleI) simp

lemma triple_bind:
  assumes f: "\<And>x. triple (B x) (f x) Q E" and m: "triple A m B E"
  shows "triple A (bind_io m f) Q E"
proof (rule tripleI)
  fix w r w' assume a: "A (contents w)" and e: "bind_io m f w = (r, w')"
  obtain r1 w1 where 1: "m w = (r1, w1)" by (cases "m w")
  then show "ends_in Q E r (contents w')"
    using e tripleD [OF m a 1] tripleD [OF f, of _ w1 r w'] by (cases r1) (auto simp: bind_io_def)
qed

lemma triple_catch:
  assumes h: "\<And>e. triple H (h e) Q E" and m: "triple A m Q H"
  shows "triple A (catch_io m h) Q E"
proof (rule tripleI)
  fix w r w' assume a: "A (contents w)" and e: "catch_io m h w = (r, w')"
  obtain r1 w1 where 1: "m w = (r1, w1)" by (cases "m w")
  then show "ends_in Q E r (contents w')"
    using e tripleD [OF m a 1] tripleD [OF h, of w1 _ r w'] by (cases r1) (auto simp: catch_io_def)
qed

lemma triple_finally:
  assumes k: "\<And>x. triple (B x) k (\<lambda>_. Q x) E" and h: "triple H k (\<lambda>_. E) E" and m: "triple A m B H"
  shows "triple A (finally_io m k) Q E"
proof (rule tripleI)
  fix w r w' assume a: "A (contents w)" and e: "finally_io m k w = (r, w')"
  obtain r1 w1 where 1: "m w = (r1, w1)" by (cases "m w")
  obtain r2 w2 where 2: "k w1 = (r2, w2)" by (cases "k w1")
  have "w' = w2" "r = (case r2 of Inl e \<Rightarrow> Inl e | Inr _ \<Rightarrow> r1)"
    using e 1 2 by (auto simp: finally_io_def split: sum.splits)
  moreover have "ends_in B H r1 (contents w1)" by (rule tripleD [OF m a 1])
  ultimately show "ends_in Q E r (contents w')"
    using tripleD [OF k _ 2] tripleD [OF h _ 2] by (cases r1; cases r2) auto
qed

lemma triple_attempt:
  assumes "triple A m (\<lambda>x. Q (Inr x)) (\<lambda>c. \<forall>e. Q (Inl e) c)"
  shows "triple A (attempt_io m) Q E"
proof (rule tripleI)
  fix w r w' assume a: "A (contents w)" and e: "attempt_io m w = (r, w')"
  obtain r1 w1 where 1: "m w = (r1, w1)" by (cases "m w")
  from tripleD [OF assms a 1] show "ends_in Q E r (contents w')"
    using e 1 by (cases r1) (auto simp: attempt_io_def)
qed

lemma triple_if:
  "triple A m Q E \<Longrightarrow> triple B n Q E \<Longrightarrow> triple (\<lambda>c. (b \<longrightarrow> A c) \<and> (\<not> b \<longrightarrow> B c)) (if b then m else n) Q E"
  by (auto simp: triple_def)

lemma triple_option:
  "triple A m Q E \<Longrightarrow> (\<And>y. triple (B y) (n y) Q E) \<Longrightarrow>
     triple (\<lambda>c. (x = None \<longrightarrow> A c) \<and> (\<forall>y. x = Some y \<longrightarrow> B y c)) (case x of None \<Rightarrow> m | Some y \<Rightarrow> n y) Q E"
  by (auto simp: triple_def split: option.splits)

definition faulty :: "os_env \<Rightarrow> bool" where
  "faulty env \<longleftrightarrow> (\<exists>n. env_fault env n)"

lemma triple_sys:
  assumes "triple P f Q E"
  shows "triple (\<lambda>c. P c \<and> (faulty env \<longrightarrow> E c)) (sys env f) Q E"
proof (rule tripleI)
  fix w r w' assume p: "P (contents w) \<and> (faulty env \<longrightarrow> E (contents w))" and e: "sys env f w = (r, w')"
  let ?w = "w\<lparr>os_calls := Suc (os_calls w), os_clock := os_clock w + int (env_delay env (os_calls w))\<rparr>"
  have c: "contents ?w = contents w" by (simp add: contents_def fun_eq_iff)
  show "ends_in Q E r (contents w')"
  proof (cases "env_fault env (os_calls w)")
    case True
    then have "r = Inl (OSError ''EIO'')" "contents w' = contents w" "faulty env"
      using e c by (auto simp: sys_def Let_def faulty_def)
    then show ?thesis using p by simp
  next
    case False
    then have "f ?w = (r, w')" using e by (simp add: sys_def Let_def)
    from tripleD [OF assms(1) _ this] show ?thesis using p c by simp
  qed
qed

lemma triple_sysI:
  assumes "\<And>w r w'. P (contents w) \<Longrightarrow> f w = (r, w') \<Longrightarrow> ends_in Q E r (contents w')"
    and "\<And>c. P c \<Longrightarrow> faulty env \<Longrightarrow> E c"
  shows "triple P (sys env f) Q E"
proof -
  have "triple P f Q E" by (rule tripleI) (rule assms(1))
  from triple_pre [OF triple_sys [OF this, of env]] show ?thesis using assms(2) by simp
qed

section \<open>Calls\<close>

lemma contents_None [simp]: "contents w p = None \<longleftrightarrow> os_nodes w p = None"
  by (simp add: contents_def)

lemma contents_Some: "contents w p = Some (k, b) \<longleftrightarrow> (\<exists>n. os_nodes w p = Some n \<and> nd_kind n = k \<and> nd_bytes n = b)"
  by (auto simp: contents_def)

lemma contents_set_node: "contents (set_node p v w) = (contents w)(p := map_option (\<lambda>n. (nd_kind n, nd_bytes n)) v)"
  by (simp add: contents_def set_node_def fun_eq_iff)

lemma triple_touch: "triple (\<lambda>c. Q () c \<and> (faulty env \<longrightarrow> E c)) (touch_call env) Q E"
  unfolding touch_call_def by (rule triple_sys) (rule triple_pre [OF triple_lift], simp)

lemma triple_exists:
  "triple (\<lambda>c. (c p = None \<longrightarrow> Q False c) \<and> (c p \<noteq> None \<longrightarrow> Q True c) \<and> (\<forall>b. c p = Some (K_Lnk, b) \<longrightarrow> E c) \<and>
     (faulty env \<longrightarrow> E c)) (path_exists env p) Q E"
  unfolding path_exists_def
  by (rule triple_sysI) (auto simp: contents_Some split: option.splits if_splits)

lemma triple_is_symlink:
  "triple (\<lambda>c. (\<forall>x. x = (\<exists>b. c p = Some (K_Lnk, b)) \<longrightarrow> Q x c) \<and> (faulty env \<longrightarrow> E c)) (is_symlink env p) Q E"
  unfolding is_symlink_def
  by (rule triple_sysI) (auto simp: contents_Some split: option.splits)

lemma triple_lstat:
  "triple (\<lambda>c. (c p = None \<longrightarrow> E c) \<and> (\<forall>n. c p = Some (nd_kind n, nd_bytes n) \<longrightarrow> Q n c) \<and> (faulty env \<longrightarrow> E c))
     (lstat env p) Q E"
  unfolding lstat_def
  by (rule triple_sysI) (auto simp: contents_Some split: option.splits)

lemma triple_is_file:
  "triple (\<lambda>c. (c p = None \<longrightarrow> Q False c) \<and> (\<forall>k b. c p = Some (k, b) \<longrightarrow> (if k = K_Lnk then E c else Q (k = K_Reg) c)) \<and>
     (faulty env \<longrightarrow> E c)) (is_file env p) Q E"
  unfolding is_file_def
  by (rule triple_sysI) (auto simp: contents_Some split: option.splits if_splits)

lemma triple_open_read:
  "triple (\<lambda>c. (c p = None \<longrightarrow> E c) \<and>
     (\<forall>k b. c p = Some (k, b) \<longrightarrow> (if k = K_Lnk then E c else Q () c)) \<and> (faulty env \<longrightarrow> E c)) (open_nofollow env p False None) Q E"
  unfolding open_nofollow_def
  by (rule triple_sysI) (auto simp: contents_Some split: option.splits if_splits)

lemma triple_open_directory:
  "triple (\<lambda>c. (\<forall>k b. c p = Some (k, b) \<longrightarrow> k = K_Dir \<longrightarrow> Q () c) \<and> ((\<forall>b. c p \<noteq> Some (K_Dir, b)) \<longrightarrow> E c) \<and>
     (faulty env \<longrightarrow> E c)) (open_directory env p) Q E"
  unfolding open_directory_def
  by (rule triple_sysI) (auto simp: contents_Some split: option.splits if_splits)

lemma triple_unlink:
  "triple (\<lambda>c. (c p = None \<longrightarrow> E c) \<and> (c p \<noteq> None \<longrightarrow> Q () (c(p := None))) \<and> (faulty env \<longrightarrow> E c)) (unlink env p) Q E"
  unfolding unlink_def
  by (rule triple_sysI) (auto simp: contents_set_node split: option.splits)

lemma triple_unlink_missing:
  "triple (\<lambda>c. Q () (c(p := None)) \<and> (faulty env \<longrightarrow> E c)) (unlink_missing env p) Q E"
proof (rule tripleI)
  fix w r w' assume a: "Q () ((contents w)(p := None)) \<and> (faulty env \<longrightarrow> E (contents w))"
    and e: "unlink_missing env p w = (r, w')"
  have same: "contents (v\<lparr>os_calls := n, os_clock := t\<rparr>) = contents v" for v n t
    by (simp add: contents_def fun_eq_iff)
  have gone: "(contents w)(p := None) = contents w" if "os_nodes w p = None"
    using that by (simp add: contents_def fun_eq_iff)
  show "ends_in Q E r (contents w')"
  proof (cases "env_fault env (os_calls w)")
    case True
    then have "faulty env" by (auto simp: faulty_def)
    then show ?thesis
      using a e True by (auto simp: unlink_missing_def catch_io_def unlink_def sys_def Let_def ENOENT_def same)
  next
    case False
    then show ?thesis
      using a e gone by (cases "os_nodes w p")
        (auto simp: unlink_missing_def catch_io_def unlink_def sys_def Let_def ENOENT_def same contents_set_node)
  qed
qed

lemma triple_replace:
  "triple (\<lambda>c. (c src = None \<longrightarrow> E c) \<and> (\<forall>b. c dst = Some (K_Dir, b) \<longrightarrow> E c) \<and>
     (\<forall>v. c src = Some v \<longrightarrow> Q () (c(src := None, dst := Some v))) \<and> (faulty env \<longrightarrow> E c)) (replace env src dst) Q E"
  unfolding replace_def
  by (rule triple_sysI) (auto simp: contents_set_node contents_Some split: option.splits if_splits)

lemma triple_stat:
  "triple (\<lambda>c. (c p = None \<longrightarrow> E c) \<and>
     (\<forall>n. c p = Some (nd_kind n, nd_bytes n) \<longrightarrow> (if nd_kind n = K_Lnk then E c else Q n c)) \<and> (faulty env \<longrightarrow> E c))
     (stat env p) Q E"
  unfolding stat_def
  by (rule triple_bind [OF triple_lift], rule triple_pre [OF triple_lstat]) (fastforce simp: ends_in_def split: if_splits)

lemma triple_read_all:
  "triple (\<lambda>c. (c p = None \<longrightarrow> E c) \<and>
     (\<forall>k b. c p = Some (k, b) \<longrightarrow> (if k = K_Lnk \<or> k = K_Dir then E c else Q b c)) \<and> (faulty env \<longrightarrow> E c))
     (read_all env p) Q E"
  unfolding read_all_def
proof (rule triple_bind [OF triple_finally [OF triple_touch triple_touch]])
  show "triple (\<lambda>c. (c p = None \<longrightarrow> E c) \<and> (\<forall>k b. c p = Some (k, b) \<longrightarrow> (if k = K_Dir then E c else Q b c)) \<and> (faulty env \<longrightarrow> E c))
     (sys env (\<lambda>w. case os_nodes w p of None \<Rightarrow> (Inl ENOENT, w)
        | Some n \<Rightarrow> if nd_kind n = K_Dir then (Inl (OSError ''EISDIR''), w) else (Inr (nd_bytes n), w)))
     (\<lambda>x c. Q x c \<and> (faulty env \<longrightarrow> E c)) (\<lambda>c. E c \<and> (faulty env \<longrightarrow> E c))"
    by (rule triple_sysI) (auto simp: contents_Some split: option.splits if_splits)
qed (rule triple_pre [OF triple_open_read], fastforce split: if_splits)

lemma triple_flush:
  "triple (\<lambda>c. (\<forall>b. c d = Some (K_Dir, b) \<longrightarrow> Q () c) \<and> ((\<forall>b. c d \<noteq> Some (K_Dir, b)) \<longrightarrow> E c) \<and> (faulty env \<longrightarrow> E c))
     (flush_directory env d) Q E"
  unfolding flush_directory_def
  by (rule triple_bind [OF triple_finally [OF triple_touch triple_touch triple_touch]],
      rule triple_pre [OF triple_open_directory]) auto

lemma triple_update:
  assumes "\<And>n. nd_kind (f n) = nd_kind n" and "\<And>n. nd_bytes (f n) = g (nd_bytes n)"
  shows "triple (\<lambda>c. (c p = None \<longrightarrow> E c) \<and> (\<forall>k b. c p = Some (k, b) \<longrightarrow> Q () (c(p := Some (k, g b)))) \<and> (faulty env \<longrightarrow> E c))
     (sys env (update_node p f)) Q E"
  by (rule triple_sysI) (auto simp: update_node_def contents_Some contents_set_node assms split: option.splits)

lemma triple_chmod:
  "triple (\<lambda>c. (c p = None \<longrightarrow> E c) \<and> (c p \<noteq> None \<longrightarrow> Q () c) \<and> (faulty env \<longrightarrow> E c)) (fchmod env p m) Q E"
  unfolding fchmod_def
  by (rule triple_pre [OF triple_update [of _ id]]) (auto simp: fun_upd_idem)

lemma triple_write:
  "triple (\<lambda>c. (c p = None \<longrightarrow> E c) \<and> (\<forall>k b. c p = Some (k, b) \<longrightarrow> Q () (c(p := Some (k, b @ data)))) \<and> (faulty env \<longrightarrow> E c))
     (write_bytes env p data) Q E"
  unfolding write_bytes_def
  by (rule triple_update) auto

lemma triple_mkstemp:
  "triple (\<lambda>c. (\<forall>x. c (d @ [pre @ x]) = None \<longrightarrow> Q (d @ [pre @ x]) (c(d @ [pre @ x] := Some (K_Reg, [])))) \<and>
     ((\<exists>n. c (d @ [pre @ env_temp env n]) \<noteq> None) \<longrightarrow> E c) \<and> (faulty env \<longrightarrow> E c)) (mkstemp env d pre) Q E"
proof -
  have n: "contents (new_node q k u m w) = (contents w)(q := Some (k, []))" for q k u m w
    by (simp add: contents_def new_node_def set_node_def fun_eq_iff)
  let ?P = "\<lambda>c. (\<forall>x. c (d @ [pre @ x]) = None \<longrightarrow> Q (d @ [pre @ x]) (c(d @ [pre @ x] := Some (K_Reg, [])))) \<and>
     ((\<exists>n. c (d @ [pre @ env_temp env n]) \<noteq> None) \<longrightarrow> E c) \<and> (faulty env \<longrightarrow> E c)"
  have "triple ?P (sys env (\<lambda>w. let p = d @ [pre @ env_temp env k] in
     (case os_nodes w p of
        Some _ \<Rightarrow> (Inl (OSError ''EEXIST''), w)
      | None \<Rightarrow> (Inr p, new_node p K_Reg (env_euid env) 0x180 w)))) Q E" for k
    by (rule triple_sysI) (auto simp: Let_def n split: option.splits)
  then show ?thesis
    unfolding mkstemp_def triple_def by blast
qed

text \<open>Callbacks: \<open>quiet\<close> ones leave the kind and the bytes of every file, \<open>sure\<close> ones also succeed.\<close>

definition quiet :: "'a io \<Rightarrow> bool" where
  "quiet m \<longleftrightarrow> (\<forall>w. contents (snd (m w)) = contents w)"

definition sure :: "'a io \<Rightarrow> bool" where
  "sure m \<longleftrightarrow> quiet m \<and> (\<forall>w. ok (fst (m w)))"

lemma triple_quiet: "quiet m \<Longrightarrow> triple (\<lambda>c. (\<forall>x. Q x c) \<and> (\<not> sure m \<longrightarrow> E c)) m Q E"
proof (rule tripleI)
  fix w r w'
  assume "quiet m" "(\<forall>x. Q x (contents w)) \<and> (\<not> sure m \<longrightarrow> E (contents w))" "m w = (r, w')"
  then have "contents w' = contents w" unfolding quiet_def by (metis snd_conv)
  moreover have "\<not> sure m" if "r = Inl e" for e
  proof -
    have "\<not> ok (fst (m w))" using that \<open>m w = (r, w')\<close> by (simp add: ok_def)
    then show ?thesis by (auto simp: sure_def)
  qed
  ultimately show "ends_in Q E r (contents w')"
    using \<open>_ \<and> _\<close> by (cases r) auto
qed

lemma sure_quiet: "sure m \<Longrightarrow> quiet m"
  by (simp add: sure_def)

section \<open>Staging\<close>

lemma triple_fill:
  "triple (\<lambda>c. (c p = None \<longrightarrow> E c) \<and> (\<forall>k b. c p = Some (k, b) \<longrightarrow> Q () (c(p := Some (k, b @ data))) \<and>
     (faulty env \<longrightarrow> E (c(p := Some (k, b @ data))))) \<and> (faulty env \<longrightarrow> E c)) (fill_staged env p data) Q E"
  unfolding fill_staged_def
  by (rule triple_bind [OF triple_finally [OF triple_touch triple_touch
        triple_bind [OF triple_bind [OF triple_touch triple_touch] triple_write]]],
      rule triple_pre [OF triple_touch]) auto

text \<open>A staged file is new; whatever fails, nothing else is touched.\<close>

lemma triple_stage:
  assumes "\<And>p. quiet (prepare p)"
  shows "triple (\<lambda>c. (\<forall>x. c (d @ [STAGED @ x]) = None \<longrightarrow>
       Q (d @ [STAGED @ x]) (c(d @ [STAGED @ x] := Some (K_Reg, data))) \<and>
       (faulty env \<or> \<not> sure (prepare (d @ [STAGED @ x])) \<longrightarrow> (\<forall>v. E (c(d @ [STAGED @ x] := v))))) \<and>
     ((\<exists>n. c (d @ [STAGED @ env_temp env n]) \<noteq> None) \<longrightarrow> E c) \<and> (faulty env \<longrightarrow> E c))
     (stage_file env d data prepare mode) Q E"
  unfolding stage_file_def
proof (rule triple_bind [OF triple_catch])
  fix p e
  show "triple (\<lambda>c. E (c(p := None)) \<and> (faulty env \<longrightarrow> E c))
      (bind_io (unlink_missing env p) (\<lambda>_. lift_io (Inl e))) Q E"
    by (rule triple_bind [OF triple_lift], rule triple_pre [OF triple_unlink_missing]) auto
next
  fix p
  let ?H = "\<lambda>c. E (c(p := None)) \<and> (faulty env \<longrightarrow> E c)"
  show "triple (\<lambda>c. c p = Some (K_Reg, []) \<and> Q p (c(p := Some (K_Reg, data))) \<and>
       (faulty env \<or> \<not> sure (prepare p) \<longrightarrow> (\<forall>v. E (c(p := v)))))
     (bind_io (fill_staged env p data) (\<lambda>_. bind_io (fchmod env p mode) (\<lambda>_.
        bind_io (prepare p) (\<lambda>_. lift_io (Inr p))))) Q ?H"
    by (rule triple_bind [OF triple_bind [OF triple_bind [OF triple_lift triple_quiet [OF assms]] triple_chmod]],
        rule triple_pre [OF triple_fill]) (auto, (metis fun_upd_triv)+)
next
  show "triple (\<lambda>c. (\<forall>x. c (d @ [STAGED @ x]) = None \<longrightarrow>
       Q (d @ [STAGED @ x]) (c(d @ [STAGED @ x] := Some (K_Reg, data))) \<and>
       (faulty env \<or> \<not> sure (prepare (d @ [STAGED @ x])) \<longrightarrow> (\<forall>v. E (c(d @ [STAGED @ x] := v))))) \<and>
     ((\<exists>n. c (d @ [STAGED @ env_temp env n]) \<noteq> None) \<longrightarrow> E c) \<and> (faulty env \<longrightarrow> E c))
     (mkstemp env d STAGED) (\<lambda>p c. c p = Some (K_Reg, []) \<and> Q p (c(p := Some (K_Reg, data))) \<and>
       (faulty env \<or> \<not> sure (prepare p) \<longrightarrow> (\<forall>v. E (c(p := v))))) E"
    by (rule triple_pre [OF triple_mkstemp]) auto
qed

end
