(* ===== verification/Publication_Facts.thy ===== *)
theory Publication_Facts
  imports Publication_Calls
begin

text \<open>
  What the publication guarantees under every failure: the serving file is the old one or the
  complete new one, and while the journal exists the predecessor can be restored, so that a
  recovery after a crash at any point puts it back.
\<close>

section \<open>The invariant\<close>

definition staged :: "path \<Rightarrow> bool" where
  "staged p \<longleftrightarrow> (\<exists>d x. p = d @ [STAGED @ x])"

text \<open>The serving file, the journal and its backup are three files, none of them a staged one.\<close>

definition places :: "path \<Rightarrow> path option \<Rightarrow> bool" where
  "places s journal \<longleftrightarrow> \<not> staged s \<and> (\<forall>j. journal = Some j \<longrightarrow>
     \<not> staged j \<and> \<not> staged (backup_of j) \<and> j \<noteq> s \<and> backup_of j \<noteq> s \<and> j \<noteq> backup_of j)"

definition own_paths :: "path \<Rightarrow> path option \<Rightarrow> path set" where
  "own_paths s journal = {s} \<union> (case journal of None \<Rightarrow> {} | Some j \<Rightarrow> {j, backup_of j})"

text \<open>
  Old or new bytes, nothing else touched but staged files, and a journal only with its predecessor.
\<close>

definition recoverable ::
  "(string \<Rightarrow> string) \<Rightarrow> path \<Rightarrow> path option \<Rightarrow> string option \<Rightarrow> string \<Rightarrow> contents \<Rightarrow> contents \<Rightarrow> bool" where
  "recoverable sha s journal previous data c0 c \<longleftrightarrow>
     (\<forall>q. \<not> staged q \<and> q \<notin> own_paths s journal \<longrightarrow> c q = c0 q) \<and>
     (c s = c0 s \<or> c s = Some (K_Reg, data)) \<and>
     (\<forall>j. journal = Some j \<longrightarrow> c j = None \<or>
        c j = Some (K_Reg, publication_record sha previous data) \<and>
        (\<forall>b. previous = Some b \<longrightarrow> c (backup_of j) = Some (K_Reg, b)))"

text \<open>What was read as the predecessor.\<close>

definition predecessor :: "path \<Rightarrow> string option \<Rightarrow> contents \<Rightarrow> bool" where
  "predecessor s previous c \<longleftrightarrow> (case previous of
     None \<Rightarrow> c s = None
   | Some b \<Rightarrow> c s = Some (K_Reg, b) \<and> b \<noteq> [] \<and> length b \<le> MAX_CONFIG_BYTES)"

lemma staged_staged [simp]: "staged (d @ [STAGED @ x])"
  by (auto simp: staged_def)

lemma recoverable_start:
  "(\<And>j. journal = Some j \<Longrightarrow> c0 j = None) \<Longrightarrow> recoverable sha s journal previous data c0 c0"
  by (simp add: recoverable_def)

lemma places_staged:
  assumes "places s journal" and "staged p"
  shows "p \<noteq> s" and "p \<notin> own_paths s journal" and "journal = Some j \<Longrightarrow> p \<noteq> j" and "journal = Some j \<Longrightarrow> p \<noteq> backup_of j"
  using assms by (auto simp: places_def own_paths_def split: option.splits)

lemma recoverable_staged:
  assumes "places s journal" and "staged p" and "recoverable sha s journal previous data c0 c"
  shows "recoverable sha s journal previous data c0 (c(p := v))"
  using assms(3) places_staged [OF assms(1,2)] assms(2) unfolding recoverable_def by auto

lemma recoverable_serving:
  assumes "places s journal" and "recoverable sha s journal previous data c0 c"
    and "v = c0 s \<or> v = Some (K_Reg, data)"
  shows "recoverable sha s journal previous data c0 (c(s := v))"
  using assms unfolding recoverable_def places_def own_paths_def by (auto split: option.splits)

lemma recoverable_journal_gone:
  assumes "places s journal" and "recoverable sha s journal previous data c0 c" and "journal = Some j"
  shows "recoverable sha s journal previous data c0 (c(j := None))"
  using assms unfolding recoverable_def places_def own_paths_def by auto

lemma recoverable_backup:
  assumes "places s journal" and "recoverable sha s journal previous data c0 c" and "journal = Some j"
    and "c j = None"
  shows "recoverable sha s journal previous data c0 (c(backup_of j := v))"
  using assms unfolding recoverable_def places_def own_paths_def by auto

lemma recoverable_record:
  assumes "places s journal" and "recoverable sha s journal previous data c0 c" and "journal = Some j"
    and "\<And>b. previous = Some b \<Longrightarrow> c (backup_of j) = Some (K_Reg, b)"
  shows "recoverable sha s journal previous data c0 (c(j := Some (K_Reg, publication_record sha previous data)))"
  using assms unfolding recoverable_def places_def own_paths_def by auto

section \<open>The parts\<close>

lemma bind_io_assoc: "bind_io (bind_io m f) g = bind_io m (\<lambda>x. bind_io (f x) g)"
  by (rule ext) (simp add: bind_io_def split: prod.split sum.split)

text \<open>Staging a file and renaming it over its target.\<close>

lemma triple_install:
  assumes "\<And>p. quiet (prepare p)" and t: "\<not> staged target"
  shows "triple (\<lambda>c. Q () (c(target := Some (K_Reg, data))) \<and>
     (faulty env \<or> (\<exists>p. \<not> sure (prepare p)) \<or> (\<exists>n. c (d @ [STAGED @ env_temp env n]) \<noteq> None) \<or> (\<exists>b. c target = Some (K_Dir, b)) \<longrightarrow>
       E c \<and> (\<forall>x v. staged x \<and> c x = None \<longrightarrow> E (c(x := v)))))
     (bind_io (stage_file env d data prepare mode) (\<lambda>p. replace env p target)) Q E"
proof (rule triple_bind [OF triple_replace], rule triple_pre [OF triple_stage [OF assms(1)]])
  fix c
  assume a: "Q () (c(target := Some (K_Reg, data))) \<and>
     (faulty env \<or> (\<exists>p. \<not> sure (prepare p)) \<or> (\<exists>n. c (d @ [STAGED @ env_temp env n]) \<noteq> None) \<or> (\<exists>b. c target = Some (K_Dir, b)) \<longrightarrow>
       E c \<and> (\<forall>x v. staged x \<and> c x = None \<longrightarrow> E (c(x := v))))"
  have u: "(c(p := Some v))(p := None, target := w) = c(target := w)" if "c p = None" "p \<noteq> target" for p v w
    using that by (auto simp: fun_eq_iff)
  have ne: "d @ [STAGED @ x] \<noteq> target" for x using t by (metis staged_staged)
  let ?R = "\<lambda>p c. (c p = None \<longrightarrow> E c) \<and> (\<forall>b. c target = Some (K_Dir, b) \<longrightarrow> E c) \<and>
     (\<forall>v. c p = Some v \<longrightarrow> Q () (c(p := None, target := Some v))) \<and> (faulty env \<longrightarrow> E c)"
  have "?R (d @ [STAGED @ x]) (c(d @ [STAGED @ x] := Some (K_Reg, data)))" if n: "c (d @ [STAGED @ x]) = None" for x
    using a n ne [of x] u [OF n ne] by auto
  moreover have "faulty env \<or> \<not> sure (prepare (d @ [STAGED @ x])) \<longrightarrow> (\<forall>v. E (c(d @ [STAGED @ x] := v)))"
    if "c (d @ [STAGED @ x]) = None" for x
    using a that staged_staged by blast
  moreover have "((\<exists>n. c (d @ [STAGED @ env_temp env n]) \<noteq> None) \<longrightarrow> E c) \<and> (faulty env \<longrightarrow> E c)"
    using a by blast
  ultimately show "(\<forall>x. c (d @ [STAGED @ x]) = None \<longrightarrow>
      ?R (d @ [STAGED @ x]) (c(d @ [STAGED @ x] := Some (K_Reg, data))) \<and>
      (faulty env \<or> \<not> sure (prepare (d @ [STAGED @ x])) \<longrightarrow> (\<forall>v. E (c(d @ [STAGED @ x] := v))))) \<and>
    ((\<exists>n. c (d @ [STAGED @ env_temp env n]) \<noteq> None) \<longrightarrow> E c) \<and> (faulty env \<longrightarrow> E c)"
    by blast
qed

text \<open>The record, and the directory after it.\<close>

lemma triple_write_record:
  assumes "\<not> staged j" and "butlast j \<noteq> j"
  shows "triple (\<lambda>c. Q () (c(j := Some (K_Reg, publication_record sha previous data))) \<and> E c \<and>
       E (c(j := Some (K_Reg, publication_record sha previous data))) \<and>
       (\<forall>x v. staged x \<and> c x = None \<longrightarrow> E (c(x := v))))
     (write_record sha env j previous data mode) Q E"
proof -
  have q: "quiet (lift_io (Inr ()))" by (simp add: quiet_def)
  show ?thesis
    unfolding write_record_def bind_io_assoc [symmetric]
    by (rule triple_bind [OF triple_flush], rule triple_pre [OF triple_install]) (use q assms in auto)
qed

lemma triple_ghost: "(\<And>c1. P c1 \<Longrightarrow> triple (\<lambda>c. c = c1) m Q E) \<Longrightarrow> triple P m Q E"
  by (auto simp: triple_def)

text \<open>While the journal may have to be written again, the backup is kept.\<close>

definition backed :: "path option \<Rightarrow> string option \<Rightarrow> contents \<Rightarrow> bool" where
  "backed journal previous c \<longleftrightarrow> (\<forall>j b. journal = Some j \<and> previous = Some b \<longrightarrow> c (backup_of j) = Some (K_Reg, b))"

text \<open>Everything outside is as before, but for the given staged files, which are new.\<close>

definition tidy :: "path \<Rightarrow> path option \<Rightarrow> path set \<Rightarrow> contents \<Rightarrow> contents \<Rightarrow> bool" where
  "tidy s journal T c0 c \<longleftrightarrow> (\<forall>q \<in> T. staged q \<and> c0 q = None) \<and>
     (\<forall>q. q \<notin> own_paths s journal \<longrightarrow> q \<notin> T \<longrightarrow> c q = c0 q)"

text \<open>The staged files hold what they are for.\<close>

definition staging :: "string \<Rightarrow> string option \<Rightarrow> path \<Rightarrow> path option \<Rightarrow> contents \<Rightarrow> bool" where
  "staging data previous candidate rollback c \<longleftrightarrow> staged candidate \<and> c candidate = Some (K_Reg, data) \<and>
     rollback \<noteq> Some candidate \<and> (rollback = None \<longleftrightarrow> previous = None) \<and>
     (\<forall>p b. rollback = Some p \<and> previous = Some b \<longrightarrow> staged p \<and> c p = Some (K_Reg, b))"

lemma own_pathsI [simp]: "s \<in> own_paths s journal" "j \<in> own_paths s (Some j)" "backup_of j \<in> own_paths s (Some j)"
  by (auto simp: own_paths_def)

lemma staging_own:
  assumes "places s journal" and "staging data previous candidate rollback c" and "p \<in> own_paths s journal"
  shows "staging data previous candidate rollback (c(p := v))"
  using assms places_staged(2) [OF assms(1)] unfolding staging_def by (auto simp: fun_upd_def)

lemma tidy_own: "p \<in> own_paths s journal \<Longrightarrow> tidy s journal T c0 c \<Longrightarrow> tidy s journal T c0 (c(p := v))"
  by (auto simp: tidy_def)

lemma triple_clean_up:
  assumes p: "places s journal" and c: "staged candidate" "\<And>p. rollback = Some p \<Longrightarrow> staged p"
    and R: "recoverable sha s journal previous data c0 c1"
  shows "triple (\<lambda>c. c = c1) (clean_up env journal candidate rollback)
     (\<lambda>_ c'. recoverable sha s journal previous data c0 c' \<and> c' s = c1 s \<and>
       (\<forall>j. journal = Some j \<longrightarrow> c' j = c1 j \<and> (c1 j = None \<longrightarrow> c' (backup_of j) = None)) \<and>
       (\<forall>q. q \<notin> own_paths s journal \<longrightarrow> c' q = (if q \<in> insert candidate (set_option rollback) then None else c1 q)))
     (recoverable sha s journal previous data c0)"
proof -
  define c2 where "c2 = c1(candidate := None)"
  define c3 where "c3 = (case rollback of None \<Rightarrow> c2 | Some p \<Rightarrow> c2(p := None))"
  have R2: "recoverable sha s journal previous data c0 c2"
    unfolding c2_def by (rule recoverable_staged [OF p c(1) R])
  have R3: "recoverable sha s journal previous data c0 c3"
    using recoverable_staged [OF p c(2) R2] R2 by (auto simp: c3_def split: option.splits)
  have own: "c3 q = c1 q" if "q \<in> own_paths s journal" for q
    using that places_staged(2) [OF p] c by (auto simp: c2_def c3_def split: option.splits)
  have out: "c3 q = (if q \<in> insert candidate (set_option rollback) then None else c1 q)" for q
    by (auto simp: c2_def c3_def split: option.splits)
  have R4: "recoverable sha s (Some j) previous data c0 (c3(backup_of j := None))"
    if "journal = Some j" "c1 j = None" for j
    using recoverable_backup [OF p R3 that(1)] own [of j] that by simp
  have last: "triple (\<lambda>c. c = c3) (case journal of None \<Rightarrow> lift_io (Inr ())
     | Some j \<Rightarrow> bind_io (path_exists env j) (\<lambda>p. if p then lift_io (Inr ()) else unlink_missing env (backup_of j)))
     (\<lambda>_ c'. recoverable sha s journal previous data c0 c' \<and> c' s = c1 s \<and>
       (\<forall>j. journal = Some j \<longrightarrow> c' j = c1 j \<and> (c1 j = None \<longrightarrow> c' (backup_of j) = None)) \<and>
       (\<forall>q. q \<notin> own_paths s journal \<longrightarrow> c' q = (if q \<in> insert candidate (set_option rollback) then None else c1 q)))
     (recoverable sha s journal previous data c0)"
  proof (cases journal)
    case None
    then show ?thesis using R3 own out by (auto simp: triple_def)
  next
    case (Some j)
    have d: "j \<noteq> backup_of j" "s \<noteq> backup_of j" using p Some by (auto simp: places_def)
    show ?thesis
      unfolding Some option.case
      by (rule triple_bind [OF triple_if [OF triple_lift triple_unlink_missing]], rule triple_pre [OF triple_exists])
        (use R3 R4 own out Some d in auto)
  qed
  have mid: "triple (\<lambda>c. c = c2) (case rollback of None \<Rightarrow> lift_io (Inr ()) | Some p \<Rightarrow> unlink_missing env p)
      (\<lambda>_ c. c = c3) (recoverable sha s journal previous data c0)"
  proof (cases rollback)
    case None
    then show ?thesis by (auto simp: triple_def c3_def)
  next
    case (Some p)
    then show ?thesis using R2 by (auto intro!: triple_pre [OF triple_unlink_missing] simp: c3_def)
  qed
  show ?thesis
    unfolding clean_up_def
    by (rule triple_bind [OF triple_bind [OF last mid]], rule triple_pre [OF triple_unlink_missing])
      (use R in \<open>auto simp: c2_def\<close>)
qed

lemma butlast_differs: "j \<noteq> [] \<Longrightarrow> butlast j \<noteq> (j :: path)"
  by (metis length_butlast diff_less length_greater_0_conv less_irrefl zero_less_one)

lemma recoverable_staged_all:
  "places s journal \<Longrightarrow> recoverable sha s journal previous data c0 c \<Longrightarrow>
     recoverable sha s journal previous data c0 c \<and>
     (\<forall>x v. staged x \<and> c x = None \<longrightarrow> recoverable sha s journal previous data c0 (c(x := v)))"
  using recoverable_staged by blast

lemma triple_write_journal:
  assumes p: "places s (Some j)" and q: "\<And>p. quiet (prepare p)" and j: "j \<noteq> []"
  shows "triple (\<lambda>c. recoverable sha s (Some j) previous data c0 c \<and> tidy s (Some j) T c0 c \<and> c j = None \<and> c s = c0 s \<and>
       staging data previous candidate rollback c)
     (write_journal sha env j previous data prepare mode)
     (\<lambda>_ c. recoverable sha s (Some j) previous data c0 c \<and> tidy s (Some j) T c0 c \<and> c j \<noteq> None \<and> c s = c0 s \<and>
       staging data previous candidate rollback c \<and> backed (Some j) previous c)
     (recoverable sha s (Some j) previous data c0)"
proof -
  let ?R = "recoverable sha s (Some j) previous data c0"
  let ?K = "\<lambda>c. ?R c \<and> tidy s (Some j) T c0 c \<and> c s = c0 s \<and> staging data previous candidate rollback c"
  let ?rec = "publication_record sha previous data"
  have d: "\<not> staged j" "\<not> staged (backup_of j)" "j \<noteq> s" "backup_of j \<noteq> s" "j \<noteq> backup_of j"
    using p by (auto simp: places_def)
  note b = butlast_differs [OF j]
  have step: "?K (c(j := Some (K_Reg, ?rec))) \<and> backed (Some j) previous (c(j := Some (K_Reg, ?rec)))"
    if "?K c" "backed (Some j) previous c" for c
    using that recoverable_record [OF p, of sha previous data c0 c j] tidy_own [of j s "Some j" T c0 c]
      staging_own [OF p, of data previous candidate rollback c j] d
    by (auto simp: backed_def)
  have 2: "triple (\<lambda>c. ?K c \<and> backed (Some j) previous c) (write_record sha env j previous data mode)
      (\<lambda>_ c. ?K c \<and> c j \<noteq> None \<and> backed (Some j) previous c) ?R"
    by (rule triple_pre [OF triple_write_record [OF d(1) b]]) (use step recoverable_staged [OF p] in \<open>auto 0 3\<close>)
  have "triple (\<lambda>c. ?K c \<and> c j = None) (case previous of None \<Rightarrow> lift_io (Inr ())
     | Some b \<Rightarrow> bind_io (stage_file env (butlast j) b prepare mode) (\<lambda>saved. replace env saved (backup_of j)))
     (\<lambda>_ c. ?K c \<and> backed (Some j) previous c) ?R"
  proof (cases previous)
    case None
    then show ?thesis by (auto simp: triple_def backed_def)
  next
    case (Some b)
    have "?K (c(backup_of j := Some (K_Reg, b))) \<and> backed (Some j) previous (c(backup_of j := Some (K_Reg, b)))"
      if "?K c" "c j = None" for c
      using that recoverable_backup [OF p, of sha previous data c0 c j] tidy_own [of "backup_of j" s "Some j" T c0 c]
        staging_own [OF p, of data previous candidate rollback c "backup_of j"] d Some
      by (auto simp: backed_def)
    then show ?thesis
      unfolding Some option.case
      by (intro triple_pre [OF triple_install [OF q d(2)]]) (use Some recoverable_staged [OF p] in \<open>auto 0 3\<close>)
  qed
  from triple_bind [OF 2 this] show ?thesis
    unfolding write_journal_def
    by (rule triple_post [OF triple_pre]) auto
qed

text \<open>The handler keeps the invariant, whether it succeeds or fails on the way.\<close>

lemma triple_compensate:
  assumes p: "places s journal" and r: "quiet recover" and j: "\<And>j. journal = Some j \<Longrightarrow> j \<noteq> []"
    and pre: "predecessor s previous c0"
  shows "triple (\<lambda>c. recoverable sha s journal previous data c0 c \<and> backed journal previous c \<and>
       (rollback = None \<longleftrightarrow> previous = None) \<and>
       (\<forall>p b. rollback = Some p \<and> previous = Some b \<longrightarrow> staged p \<and> c p = Some (K_Reg, b)))
     (compensate sha env s journal previous data mode recover rollback)
     (\<lambda>_. recoverable sha s journal previous data c0) (recoverable sha s journal previous data c0)"
proof -
  let ?R = "recoverable sha s journal previous data c0"
  let ?B = "\<lambda>c. ?R c \<and> backed journal previous c"
  have s: "\<not> staged s" using p by (simp add: places_def)
  have last: "triple ?R (case journal of None \<Rightarrow> lift_io (Inr ())
     | Some j \<Rightarrow> bind_io (unlink_missing env j) (\<lambda>_. flush_directory env (butlast j))) (\<lambda>_. ?R) ?R"
  proof (cases journal)
    case (Some j)
    have "?R (c(j := None))" if "?R c" for c
      using recoverable_journal_gone [OF p that Some] .
    then show ?thesis
      unfolding Some option.case
      by (intro triple_bind [OF triple_flush] triple_pre [OF triple_unlink_missing]) (use Some in auto)
  qed (simp add: triple_def)
  have rewrite: "triple ?B (case journal of None \<Rightarrow> lift_io (Inr ())
     | Some j \<Rightarrow> bind_io (path_exists env j) (\<lambda>p. if p then lift_io (Inr ()) else write_record sha env j previous data mode))
     (\<lambda>_. ?R) ?R"
  proof (cases journal)
    case (Some j)
    have d: "\<not> staged j" using p Some by (simp add: places_def)
    have "?R (c(j := Some (K_Reg, publication_record sha previous data)))" if "?B c" for c
      using recoverable_record [OF p _ Some] that Some by (auto simp: backed_def)
    then show ?thesis
      unfolding Some option.case
      by (intro triple_bind [OF triple_if [OF triple_lift triple_write_record [OF d butlast_differs [OF j [OF Some]]]]]
          triple_pre [OF triple_exists]) (use Some recoverable_staged [OF p] in auto)
  qed (auto simp: triple_def)
  have live: "triple ?B (finally_io (flush_directory env (butlast s))
       (finally_io (case journal of None \<Rightarrow> lift_io (Inr ())
         | Some j \<Rightarrow> bind_io (path_exists env j) (\<lambda>p. if p then lift_io (Inr ()) else write_record sha env j previous data mode))
       recover)) (\<lambda>_. ?R) ?R"
  proof (rule triple_finally)
    have q: "triple ?R recover (\<lambda>_. ?R) ?R" by (rule triple_pre [OF triple_quiet [OF r]]) simp
    note rec = triple_finally [OF q q rewrite]
    show "triple ?B (finally_io (case journal of None \<Rightarrow> lift_io (Inr ())
         | Some j \<Rightarrow> bind_io (path_exists env j) (\<lambda>p. if p then lift_io (Inr ()) else write_record sha env j previous data mode))
       recover) (\<lambda>_. ?R) ?R" for x :: unit
      by (rule rec)
    show "triple ?B (finally_io (case journal of None \<Rightarrow> lift_io (Inr ())
         | Some j \<Rightarrow> bind_io (path_exists env j) (\<lambda>p. if p then lift_io (Inr ()) else write_record sha env j previous data mode))
       recover) (\<lambda>_. ?R) ?R"
      by (rule rec)
    show "triple ?B (flush_directory env (butlast s)) (\<lambda>_. ?B) ?B"
      by (rule triple_pre [OF triple_flush]) auto
  qed
  have "triple (\<lambda>c. ?B c \<and> (rollback = None \<longleftrightarrow> previous = None) \<and>
       (\<forall>p b. rollback = Some p \<and> previous = Some b \<longrightarrow> staged p \<and> c p = Some (K_Reg, b)))
     (case rollback of Some p \<Rightarrow> replace env p s | None \<Rightarrow> unlink_missing env s) (\<lambda>_. ?B) ?R"
  proof (cases rollback)
    case None
    have "?B (c(s := None))" if "?B c" "previous = None" for c
      using recoverable_serving [OF p] that pre by (auto simp: predecessor_def backed_def)
    then show ?thesis
      unfolding None option.case by (intro triple_pre [OF triple_unlink_missing]) auto
  next
    case (Some t)
    have "?B (c(t := None, s := Some (K_Reg, b)))" if "?B c" "previous = Some b" "staged t" for c b
    proof -
      have "?R (c(t := None))" by (rule recoverable_staged [OF p that(3)]) (use that in simp)
      from recoverable_serving [OF p this] have "?R (c(t := None, s := Some (K_Reg, b)))"
        using pre that(2) by (simp add: predecessor_def)
      then show ?thesis
        using that places_staged [OF p that(3)] p by (auto simp: backed_def places_def)
    qed
    then show ?thesis
      unfolding Some option.case by (intro triple_pre [OF triple_replace]) auto
  qed
  from triple_bind [OF triple_bind [OF last live] this] show ?thesis
    unfolding compensate_def by (rule triple_pre) simp
qed

lemma triple_activate:
  assumes p: "places s journal" and r: "quiet recover" "quiet reload" and j: "\<And>j. journal = Some j \<Longrightarrow> j \<noteq> []"
    and pre: "predecessor s previous c0"
  shows "triple (\<lambda>c. recoverable sha s journal previous data c0 c \<and> tidy s journal (insert candidate (set_option rollback)) c0 c \<and>
       staging data previous candidate rollback c \<and> backed journal previous c \<and> (\<forall>j. journal = Some j \<longrightarrow> c j \<noteq> None))
     (activate sha env s journal previous data mode prepare_initial reload recover candidate rollback)
     (\<lambda>v c. recoverable sha s journal previous data c0 c \<and> tidy s journal (insert candidate (set_option rollback)) c0 c \<and>
       c s = Some (K_Reg, data) \<and>
       (v = Some True \<and> (\<forall>j. journal = Some j \<longrightarrow> c j = None) \<or>
        v = Some False \<and> prepare_initial \<and> (\<forall>j. journal = Some j \<longrightarrow> c j \<noteq> None)))
     (recoverable sha s journal previous data c0)"
proof -
  let ?R = "recoverable sha s journal previous data c0" and ?T = "tidy s journal (insert candidate (set_option rollback)) c0"
  let ?H = "\<lambda>c. ?R c \<and> backed journal previous c \<and> (rollback = None \<longleftrightarrow> previous = None) \<and>
       (\<forall>p b. rollback = Some p \<and> previous = Some b \<longrightarrow> staged p \<and> c p = Some (K_Reg, b))"
  let ?N = "\<lambda>c. ?H c \<and> ?T c \<and> c s = Some (K_Reg, data)"
  let ?Q = "\<lambda>v c. ?R c \<and> ?T c \<and> c s = Some (K_Reg, data) \<and>
       (v = Some True \<and> (\<forall>j. journal = Some j \<longrightarrow> c j = None) \<or>
        v = Some False \<and> prepare_initial \<and> (\<forall>j. journal = Some j \<longrightarrow> c j \<noteq> None))"
  have unjournal: "triple ?N (case journal of None \<Rightarrow> lift_io (Inr ())
      | Some j \<Rightarrow> bind_io (unlink env j) (\<lambda>_. flush_directory env (butlast j)))
      (\<lambda>_ c. ?Q (Some True) c) ?H"
  proof (cases journal)
    case (Some j)
    have "?H (c(j := None)) \<and> ?T (c(j := None)) \<and> (c(j := None)) s = Some (K_Reg, data)" if "?N c" for c
      using that recoverable_journal_gone [OF p _ Some, of sha previous data c0 c] tidy_own [of j s journal] p Some
      by (auto simp: backed_def places_def)
    moreover have "\<not> staged j" using p Some by (simp add: places_def)
    ultimately show ?thesis
      unfolding Some option.case by (intro triple_bind [OF triple_flush] triple_pre [OF triple_unlink]) (use Some in auto)
  qed (auto simp: triple_def)
  have body: "triple (\<lambda>c. ?N c \<and> (\<forall>j. journal = Some j \<longrightarrow> c j \<noteq> None))
     (bind_io (flush_directory env (butlast s)) (\<lambda>_.
        if prepare_initial then lift_io (Inr (Some False))
        else bind_io reload (\<lambda>_. bind_io (case journal of None \<Rightarrow> lift_io (Inr ())
            | Some j \<Rightarrow> bind_io (unlink env j) (\<lambda>_. flush_directory env (butlast j))) (\<lambda>_. lift_io (Inr (Some True))))))
     ?Q ?H"
  proof (rule triple_bind [OF triple_if [OF triple_lift triple_bind [OF triple_bind [OF triple_lift]]]])
    show "triple ?N (case journal of None \<Rightarrow> lift_io (Inr ())
      | Some j \<Rightarrow> bind_io (unlink env j) (\<lambda>_. flush_directory env (butlast j)))
      (\<lambda>_. ends_in ?Q ?H (Inr (Some True))) ?H" for x :: unit
      by (rule triple_post [OF unjournal], simp only: ends_in_simps, assumption)
    show "triple ?N reload (\<lambda>_. ?N) ?H" by (rule triple_pre [OF triple_quiet [OF r(2)]]) simp
    show "triple (\<lambda>c. ?N c \<and> (\<forall>j. journal = Some j \<longrightarrow> c j \<noteq> None)) (flush_directory env (butlast s))
        (\<lambda>_ c. (prepare_initial \<longrightarrow> ends_in ?Q ?H (Inr (Some False)) c) \<and> (\<not> prepare_initial \<longrightarrow> ?N c)) ?H"
      by (rule triple_pre [OF triple_flush]) auto
  qed
  have handler: "triple ?H (bind_io (compensate sha env s journal previous data mode recover rollback) (\<lambda>_. lift_io (Inl e))) ?Q ?R" for e
    by (rule triple_bind [OF triple_lift], rule triple_post [OF triple_compensate [OF p r(1) j pre]]) auto
  have step: "?N (c(candidate := None, s := Some (K_Reg, data)))"
    if "?R c" "?T c" "staging data previous candidate rollback c" "backed journal previous c" for c
  proof -
    have c: "staged candidate" "rollback \<noteq> Some candidate" using that(3) by (auto simp: staging_def)
    note ne = places_staged [OF p c(1)]
    have "?R (c(candidate := None))" by (rule recoverable_staged [OF p c(1) that(1)])
    from recoverable_serving [OF p this] have "?R (c(candidate := None, s := Some (K_Reg, data)))" by simp
    moreover have "?T (c(candidate := None, s := Some (K_Reg, data)))"
      using that(2) tidy_own [of s s journal] by (auto simp: tidy_def)
    moreover have "backed journal previous (c(candidate := None, s := Some (K_Reg, data)))"
      using that(4) ne p by (auto simp: backed_def places_def)
    moreover have "staged q \<and> (c(candidate := None, s := Some (K_Reg, data))) q = Some (K_Reg, b)"
      if "rollback = Some q" "previous = Some b" for q b
    proof -
      have q: "staged q" "c q = Some (K_Reg, b)" "q \<noteq> candidate"
        using \<open>staging data previous candidate rollback c\<close> that c by (auto simp: staging_def)
      with places_staged(1) [OF p q(1)] show ?thesis by simp
    qed
    ultimately show ?thesis using that(3) by (auto simp: staging_def)
  qed
  show ?thesis
    unfolding activate_def
  proof (rule triple_bind [OF triple_catch [OF handler body]], rule triple_pre [OF triple_replace])
    fix c assume a: "?R c \<and> ?T c \<and> staging data previous candidate rollback c \<and> backed journal previous c \<and> (\<forall>j. journal = Some j \<longrightarrow> c j \<noteq> None)"
    then have "c candidate = Some (K_Reg, data)" "staged candidate" by (auto simp: staging_def)
    moreover have "\<forall>j. journal = Some j \<longrightarrow> (c(candidate := None, s := Some (K_Reg, data))) j \<noteq> None"
      using a places_staged(3) [OF p \<open>staged candidate\<close>] p by (auto simp: places_def)
    ultimately show "(c candidate = None \<longrightarrow> ?R c) \<and> (\<forall>b. c s = Some (K_Dir, b) \<longrightarrow> ?R c) \<and>
       (\<forall>v. c candidate = Some v \<longrightarrow> ?N (c(candidate := None, s := Some v)) \<and>
          (\<forall>j. journal = Some j \<longrightarrow> (c(candidate := None, s := Some v)) j \<noteq> None)) \<and> (faulty env \<longrightarrow> ?R c)"
      using a step [of c] by simp
  qed
qed

section \<open>The whole publication\<close>

text \<open>What a value of \<open>publish\<close> says: \<open>None\<close> for bytes that were serving already, \<open>True\<close>, or
  \<open>False\<close> for a deferred activation.\<close>

definition published_as :: "path \<Rightarrow> path option \<Rightarrow> string \<Rightarrow> bool \<Rightarrow> contents \<Rightarrow> bool option \<Rightarrow> contents \<Rightarrow> bool" where
  "published_as s journal data prepare_initial c0 v c \<longleftrightarrow>
     c s = Some (K_Reg, data) \<and> (v = None \<longrightarrow> c0 s = Some (K_Reg, data)) \<and> (v = Some False \<longrightarrow> prepare_initial) \<and>
     (\<forall>q. q \<notin> own_paths s journal \<longrightarrow> c q = c0 q) \<and>
     (v \<noteq> Some False \<longrightarrow> (\<forall>j. journal = Some j \<longrightarrow> c j = None \<and> c (backup_of j) = None))"

lemma triple_prepare_rollback:
  assumes p: "places s journal" and q: "\<And>p. quiet (prepare p)" "\<And>p. quiet (validate p)" "quiet reload"
    and c: "staged candidate" "c0 candidate = None" and j: "\<And>j. journal = Some j \<Longrightarrow> c0 j = None"
  shows "triple (\<lambda>c. c = c0(candidate := Some (K_Reg, data)))
     (prepare_rollback env s previous data mode validate reload prepare candidate)
     (\<lambda>x c. recoverable sha s journal previous data c0 c \<and> c s = c0 s \<and> (\<forall>j. journal = Some j \<longrightarrow> c j = None) \<and>
       (case x of None \<Rightarrow> previous = Some data \<and> tidy s journal {candidate} c0 c
        | Some rollback \<Rightarrow> tidy s journal (insert candidate (set_option rollback)) c0 c \<and>
            staging data previous candidate rollback c))
     (recoverable sha s journal previous data c0)"
proof -
  let ?c = "c0(candidate := Some (K_Reg, data))"
  let ?R = "recoverable sha s journal previous data c0"
  let ?Q = "\<lambda>x c. ?R c \<and> c s = c0 s \<and> (\<forall>j. journal = Some j \<longrightarrow> c j = None) \<and>
       (case x of None \<Rightarrow> previous = Some data \<and> tidy s journal {candidate} c0 c
        | Some rollback \<Rightarrow> tidy s journal (insert candidate (set_option rollback)) c0 c \<and>
            staging data previous candidate rollback c)"
  have "?R c0" using recoverable_start j by blast
  note R = recoverable_staged [OF p _ this]
  have c1: "?R ?c" by (rule R [OF c(1)])
  have own: "?c s = c0 s" "\<forall>j. journal = Some j \<longrightarrow> ?c j = None"
    using places_staged [OF p c(1)] j by auto
  have tidy: "tidy s journal {candidate} c0 ?c" using c by (auto simp: tidy_def)
  have rb: "?Q (Some (Some q)) (?c(q := Some (K_Reg, b)))"
    if "previous = Some b" "staged q" "?c q = None" for q b
  proof -
    have "q \<noteq> candidate" "c0 q = None" using that(3) by (auto split: if_splits)
    moreover have "?R (?c(q := Some (K_Reg, b)))" by (rule recoverable_staged [OF p that(2) c1])
    ultimately show ?thesis
      using that c own places_staged [OF p that(2)] by (auto simp: tidy_def staging_def)
  qed
  have choice: "triple (\<lambda>c. c = ?c) (case previous of None \<Rightarrow> lift_io (Inr (Some None))
     | Some b \<Rightarrow> bind_io (stage_file env (butlast s) b prepare mode) (\<lambda>p. lift_io (Inr (Some (Some p))))) ?Q ?R"
  proof (cases previous)
    case None
    then show ?thesis using c1 own tidy c by (auto simp: triple_def staging_def)
  next
    case (Some b)
    have "triple (\<lambda>c. c = ?c) (stage_file env (butlast s) b prepare mode) (\<lambda>p c. ?Q (Some (Some p)) c) ?R"
      by (rule triple_pre [OF triple_stage [OF q(1)]])
        (use rb [OF Some] recoverable_staged [OF p _ c1] c1 in \<open>simp del: fun_upd_apply\<close>)
    then show ?thesis
      unfolding Some option.case by (intro triple_bind [OF triple_lift]) simp
  qed
  have same: "triple (\<lambda>c. c = ?c \<and> previous = Some data) (bind_io reload (\<lambda>_. lift_io (Inr None))) ?Q ?R"
    by (rule triple_bind [OF triple_lift], rule triple_pre [OF triple_quiet [OF q(3)]]) (use c1 own tidy in auto)
  have "triple (\<lambda>c. c = ?c) (if previous = Some data then bind_io reload (\<lambda>_. lift_io (Inr None))
     else case previous of None \<Rightarrow> lift_io (Inr (Some None))
     | Some b \<Rightarrow> bind_io (stage_file env (butlast s) b prepare mode) (\<lambda>p. lift_io (Inr (Some (Some p))))) ?Q ?R"
    by (rule triple_pre [OF triple_if [OF same choice]]) simp
  moreover have "triple (\<lambda>c. c = ?c) (validate candidate) (\<lambda>_ c. c = ?c) ?R"
    by (rule triple_pre [OF triple_quiet [OF q(2)]]) (use c1 in simp)
  ultimately show ?thesis
    unfolding prepare_rollback_def by (rule triple_bind)
qed

text \<open>The last clean-up, after a state where only staged files are left over.\<close>

lemma triple_tidied:
  assumes p: "places s journal" and c: "staged candidate" "\<And>p. rollback = Some p \<Longrightarrow> staged p"
  shows "triple (\<lambda>c. recoverable sha s journal previous data c0 c \<and> tidy s journal (insert candidate (set_option rollback)) c0 c \<and>
       c s = Some (K_Reg, data) \<and> (v = None \<longrightarrow> c0 s = Some (K_Reg, data)) \<and> (v = Some False \<longrightarrow> prepare_initial) \<and>
       (v \<noteq> Some False \<longrightarrow> (\<forall>j. journal = Some j \<longrightarrow> c j = None)))
     (clean_up env journal candidate rollback)
     (\<lambda>_ c. recoverable sha s journal previous data c0 c \<and> published_as s journal data prepare_initial c0 v c)
     (recoverable sha s journal previous data c0)"
proof (rule triple_ghost, elim conjE)
  fix c1
  assume R: "recoverable sha s journal previous data c0 c1"
    and t: "tidy s journal (insert candidate (set_option rollback)) c0 c1" "c1 s = Some (K_Reg, data)"
    "v = None \<longrightarrow> c0 s = Some (K_Reg, data)" "v = Some False \<longrightarrow> prepare_initial"
    "v \<noteq> Some False \<longrightarrow> (\<forall>j. journal = Some j \<longrightarrow> c1 j = None)"
  have "(if q \<in> insert candidate (set_option rollback) then None else c1 q) = c0 q" if "q \<notin> own_paths s journal" for q
    using t(1) that unfolding tidy_def by auto
  then show "triple (\<lambda>c. c = c1) (clean_up env journal candidate rollback)
     (\<lambda>_ c. recoverable sha s journal previous data c0 c \<and> published_as s journal data prepare_initial c0 v c)
     (recoverable sha s journal previous data c0)"
    by (rule_tac triple_post [OF triple_clean_up [OF p c R]]) (use t in \<open>auto simp: published_as_def\<close>)
qed

lemma triple_clean_recoverable:
  assumes p: "places s journal" and c: "staged candidate" "\<And>p. rollback = Some p \<Longrightarrow> staged p"
  shows "triple (recoverable sha s journal previous data c0) (clean_up env journal candidate rollback)
     (\<lambda>_. recoverable sha s journal previous data c0) (recoverable sha s journal previous data c0)"
  by (rule triple_ghost, rule triple_post [OF triple_clean_up [OF p c]]) auto

lemma triple_publish_candidate:
  assumes p: "places s journal" and q: "\<And>p. quiet (prepare p)" "\<And>p. quiet (validate p)" "quiet reload" "quiet recover"
    and c: "staged candidate" "c0 candidate = None" and j: "\<And>j. journal = Some j \<Longrightarrow> c0 j = None \<and> j \<noteq> []"
    and pre: "predecessor s previous c0"
  shows "triple (\<lambda>c. c = c0(candidate := Some (K_Reg, data)))
     (publish_candidate sha env s journal previous data mode prepare_initial validate reload prepare recover candidate)
     (\<lambda>v c. recoverable sha s journal previous data c0 c \<and> published_as s journal data prepare_initial c0 v c)
     (recoverable sha s journal previous data c0)"
proof -
  let ?R = "recoverable sha s journal previous data c0"
  let ?Q = "\<lambda>v c. ?R c \<and> published_as s journal data prepare_initial c0 v c"
  let ?I = "\<lambda>c. ?R c \<and> c s = c0 s \<and> (\<forall>j. journal = Some j \<longrightarrow> c j = None)"
  let ?T = "\<lambda>rollback. tidy s journal (insert candidate (set_option rollback)) c0"
  let ?F = "\<lambda>x c. ?I c \<and> (case x of None \<Rightarrow> previous = Some data \<and> tidy s journal {candidate} c0 c
        | Some rollback \<Rightarrow> ?T rollback c \<and> staging data previous candidate rollback c)"
  have first: "triple (\<lambda>c. c = c0(candidate := Some (K_Reg, data)))
      (attempt_io (prepare_rollback env s previous data mode validate reload prepare candidate))
      (\<lambda>found c. case found of Inl _ \<Rightarrow> ?R c | Inr x \<Rightarrow> ?F x c) ?R"
    by (rule triple_attempt, rule triple_post [OF triple_prepare_rollback [where prepare = prepare and validate = validate and candidate = candidate and ?c0.0 = c0, OF p q(1,2,3) c]]) (use j in auto)
  have failed: "triple ?R (finally_io (lift_io (Inl e)) (clean_up env journal candidate None)) ?Q ?R" for e
    by (rule triple_finally [where B = "\<lambda>_ _. False"], simp add: triple_def,
        rule triple_clean_recoverable [OF p c(1)], simp, simp add: triple_def)
  have unchanged: "triple (\<lambda>c. ?F None c) (finally_io (lift_io (Inr None)) (clean_up env journal candidate None)) ?Q ?R"
  proof (rule triple_finally [where H = "?R"])
    show "triple (\<lambda>c. ?R c \<and> tidy s journal (insert candidate (set_option None)) c0 c \<and>
       c s = Some (K_Reg, data) \<and> (x = None \<longrightarrow> c0 s = Some (K_Reg, data)) \<and> (x = Some False \<longrightarrow> prepare_initial) \<and>
       (x \<noteq> Some False \<longrightarrow> (\<forall>j. journal = Some j \<longrightarrow> c j = None))) (clean_up env journal candidate None) (\<lambda>_. ?Q x) ?R" for x
      by (rule triple_tidied [OF p c(1)]) simp
    show "triple ?R (clean_up env journal candidate None) (\<lambda>_. ?R) ?R"
      by (rule triple_clean_recoverable [OF p c(1)]) simp
    show "triple (?F None) (lift_io (Inr None)) (\<lambda>x c. ?R c \<and> tidy s journal (insert candidate (set_option None)) c0 c \<and>
       c s = Some (K_Reg, data) \<and> (x = None \<longrightarrow> c0 s = Some (K_Reg, data)) \<and> (x = Some False \<longrightarrow> prepare_initial) \<and>
       (x \<noteq> Some False \<longrightarrow> (\<forall>j. journal = Some j \<longrightarrow> c j = None))) ?R"
      by (rule triple_pre [OF triple_lift]) (use pre in \<open>auto simp: predecessor_def\<close>)
  qed
  have second: "triple (\<lambda>c. ?F (Some rollback) c) (finally_io
         (bind_io (case journal of None \<Rightarrow> lift_io (Inr ())
           | Some j \<Rightarrow> write_journal sha env j previous data prepare mode) (\<lambda>_.
          activate sha env s journal previous data mode prepare_initial reload recover candidate rollback))
         (clean_up env journal candidate rollback)) ?Q ?R" for rollback
  proof (rule triple_ghost)
    fix c1 assume F: "?F (Some rollback) c1"
    then have st: "\<And>p. rollback = Some p \<Longrightarrow> staged p"
      by (auto simp: staging_def)
    have jj: "\<And>j. journal = Some j \<Longrightarrow> j \<noteq> []" using j by blast
    have written: "triple (\<lambda>c. ?F (Some rollback) c) (case journal of None \<Rightarrow> lift_io (Inr ())
           | Some j \<Rightarrow> write_journal sha env j previous data prepare mode)
        (\<lambda>_ c. ?R c \<and> ?T rollback c \<and> staging data previous candidate rollback c \<and> backed journal previous c \<and>
          (\<forall>j. journal = Some j \<longrightarrow> c j \<noteq> None)) ?R"
    proof (cases journal)
      case (Some j)
      from triple_write_journal [OF p [unfolded Some] q(1) jj [OF Some]]
      show ?thesis unfolding Some option.case by (rule triple_post [OF triple_pre]) auto
    qed (auto simp: triple_def backed_def)
    have go: "triple (\<lambda>c. ?F (Some rollback) c) (bind_io (case journal of None \<Rightarrow> lift_io (Inr ())
           | Some j \<Rightarrow> write_journal sha env j previous data prepare mode) (\<lambda>_.
          activate sha env s journal previous data mode prepare_initial reload recover candidate rollback))
        (\<lambda>x c. ?R c \<and> ?T rollback c \<and> c s = Some (K_Reg, data) \<and> (x = None \<longrightarrow> c0 s = Some (K_Reg, data)) \<and>
          (x = Some False \<longrightarrow> prepare_initial) \<and> (x \<noteq> Some False \<longrightarrow> (\<forall>j. journal = Some j \<longrightarrow> c j = None))) ?R"
      by (rule triple_bind [OF _ written], rule triple_post [OF triple_activate [OF p q(4,3) jj pre]]) auto
    have all: "triple (\<lambda>c. ?F (Some rollback) c) (finally_io
         (bind_io (case journal of None \<Rightarrow> lift_io (Inr ())
           | Some j \<Rightarrow> write_journal sha env j previous data prepare mode) (\<lambda>_.
          activate sha env s journal previous data mode prepare_initial reload recover candidate rollback))
         (clean_up env journal candidate rollback)) ?Q ?R"
      by (rule triple_finally [OF triple_tidied [OF p c(1) st] triple_clean_recoverable [OF p c(1) st] go])
    show "triple (\<lambda>c. c = c1) (finally_io
         (bind_io (case journal of None \<Rightarrow> lift_io (Inr ())
           | Some j \<Rightarrow> write_journal sha env j previous data prepare mode) (\<lambda>_.
          activate sha env s journal previous data mode prepare_initial reload recover candidate rollback))
         (clean_up env journal candidate rollback)) ?Q ?R"
      by (rule triple_pre [OF all], hypsubst, rule F)
  qed
  show ?thesis
    unfolding publish_candidate_def
  proof (rule triple_bind [OF _ first])
    fix found
    show "triple (\<lambda>c. case found of Inl _ \<Rightarrow> ?R c | Inr x \<Rightarrow> ?F x c)
      (case found of Inl e \<Rightarrow> finally_io (lift_io (Inl e)) (clean_up env journal candidate None)
       | Inr None \<Rightarrow> finally_io (lift_io (Inr None)) (clean_up env journal candidate None)
       | Inr (Some rollback) \<Rightarrow> finally_io
         (bind_io (case journal of None \<Rightarrow> lift_io (Inr ())
             | Some j \<Rightarrow> write_journal sha env j previous data prepare mode) (\<lambda>_.
          activate sha env s journal previous data mode prepare_initial reload recover candidate rollback))
         (clean_up env journal candidate rollback)) ?Q ?R"
    proof (cases found)
      case (Inl e)
      show ?thesis unfolding Inl sum.case by (rule failed)
    next
      case (Inr x)
      show ?thesis
      proof (cases x)
        case None
        show ?thesis unfolding Inr None sum.case option.case using unchanged [unfolded option.case] .
      next
        case (Some rollback)
        show ?thesis unfolding Inr Some sum.case option.case using second [of rollback, unfolded option.case] .
      qed
    qed
  qed
qed

lemma triple_serving_bytes:
  "triple (\<lambda>c. c = c0) (serving_bytes env s) (\<lambda>previous c. c = c0 \<and> predecessor s previous c0) (\<lambda>c. c = c0)"
proof -
  let ?Q = "\<lambda>previous c. c = c0 \<and> predecessor s previous c0" and ?E = "\<lambda>c. c = c0"
  have content: "triple (\<lambda>c. c = c0 \<and> c0 s = Some (nd_kind n, nd_bytes n))
      (if nd_kind n \<noteq> K_Reg \<or> nd_nlink n \<noteq> 1 \<or> \<not> (0 < length (nd_bytes n) \<and> length (nd_bytes n) \<le> MAX_CONFIG_BYTES)
       then lift_io (Inl (ValueError ''admit-serving-file''))
       else bind_io (read_all env s) (\<lambda>b. lift_io (Inr (Some b)))) ?Q ?E" for n
    by (rule triple_pre [OF triple_if [OF triple_lift triple_bind [OF triple_lift triple_read_all]]])
      (auto simp: predecessor_def)
  have whole: "triple ?E (bind_io (lstat env s) (\<lambda>n.
      if nd_kind n \<noteq> K_Reg \<or> nd_nlink n \<noteq> 1 \<or> \<not> (0 < length (nd_bytes n) \<and> length (nd_bytes n) \<le> MAX_CONFIG_BYTES)
       then lift_io (Inl (ValueError ''admit-serving-file''))
       else bind_io (read_all env s) (\<lambda>b. lift_io (Inr (Some b))))) ?Q ?E"
    by (rule triple_bind [OF content], rule triple_pre [OF triple_lstat]) auto
  have present: "triple ?E (bind_io (path_exists env s) (\<lambda>p. if p then lift_io (Inr True) else is_symlink env s))
      (\<lambda>present c. c = c0 \<and> (\<not> present \<longrightarrow> c0 s = None)) ?E"
    by (rule triple_bind [OF triple_if [OF triple_lift triple_is_symlink]], rule triple_pre [OF triple_exists]) auto
  show ?thesis
    unfolding serving_bytes_def
    by (rule triple_bind [OF triple_if [OF triple_lift whole]], rule triple_post [OF present])
      (auto simp: predecessor_def)
qed

text \<open>The environment of a publication: where its files are, and callbacks that leave files alone.\<close>

definition publication_setting ::
  "path \<Rightarrow> path option \<Rightarrow> (path \<Rightarrow> unit io) \<Rightarrow> unit io \<Rightarrow> (path \<Rightarrow> unit io) \<Rightarrow> unit io \<Rightarrow> bool" where
  "publication_setting s journal validate reload prepare recover \<longleftrightarrow>
     places s journal \<and> (\<forall>j. journal = Some j \<longrightarrow> j \<noteq> []) \<and>
     (\<forall>p. quiet (validate p) \<and> quiet (prepare p)) \<and> quiet reload \<and> quiet recover"

text \<open>The state after a failure: as before, or recoverable with the predecessor that was read.\<close>

definition interrupted ::
  "(string \<Rightarrow> string) \<Rightarrow> path \<Rightarrow> path option \<Rightarrow> string \<Rightarrow> contents \<Rightarrow> contents \<Rightarrow> bool" where
  "interrupted sha s journal data c0 c \<longleftrightarrow> c = c0 \<or>
     (\<exists>previous. predecessor s previous c0 \<and> recoverable sha s journal previous data c0 c)"

lemma triple_publish:
  assumes "publication_setting s journal validate reload prepare recover"
  shows "triple (\<lambda>c. c = c0) (publish sha env s data validate reload prepare recover mode journal prepare_initial)
     (\<lambda>v c. published_as s journal data prepare_initial c0 v c \<and> interrupted sha s journal data c0 c)
     (interrupted sha s journal data c0)"
proof -
  have p: "places s journal" and j: "\<And>j. journal = Some j \<Longrightarrow> j \<noteq> []"
    and q: "\<And>p. quiet (prepare p)" "\<And>p. quiet (validate p)" "quiet reload" "quiet recover"
    using assms by (auto simp: publication_setting_def)
  let ?Q = "\<lambda>v c. published_as s journal data prepare_initial c0 v c \<and> interrupted sha s journal data c0 c"
  let ?E = "interrupted sha s journal data c0"
  let ?none = "\<forall>j. journal = Some j \<longrightarrow> c0 j = None"
  have run: "triple (\<lambda>c. c = c0 \<and> predecessor s previous c0 \<and> ?none) (bind_io (stage_file env (butlast s) data prepare mode) (\<lambda>candidate.
        publish_candidate sha env s journal previous data mode prepare_initial validate reload prepare recover candidate)) ?Q ?E"
    for previous
  proof (rule triple_ghost, elim conjE)
    fix c1 assume c1: "c1 = c0" and pre: "predecessor s previous c0" and none: ?none
    have none': "\<And>j. journal = Some j \<Longrightarrow> c0 j = None \<and> j \<noteq> []" using none j by blast
    have R: "recoverable sha s journal previous data c0 c0" using recoverable_start none by blast
    have cand: "triple (\<lambda>c. c = c0(candidate := Some (K_Reg, data)) \<and> staged candidate \<and> c0 candidate = None)
        (publish_candidate sha env s journal previous data mode prepare_initial validate reload prepare recover candidate) ?Q ?E"
      for candidate
    proof (rule triple_ghost, elim conjE)
      fix c2 assume c2: "c2 = c0(candidate := Some (K_Reg, data))" "staged candidate" "c0 candidate = None"
      have "triple (\<lambda>c. c = c0(candidate := Some (K_Reg, data)))
        (publish_candidate sha env s journal previous data mode prepare_initial validate reload prepare recover candidate) ?Q ?E"
        by (rule triple_post [OF triple_publish_candidate [OF p q c2(2,3) none' pre]])
          (use pre in \<open>auto simp: interrupted_def\<close>)
      then show "triple (\<lambda>c. c = c2)
        (publish_candidate sha env s journal previous data mode prepare_initial validate reload prepare recover candidate) ?Q ?E"
        by (simp only: c2(1))
    qed
    have left: "?E (c0(d := v))" if "staged d" for d v
      using recoverable_staged [OF p that R] pre by (auto simp: interrupted_def)
    have "?E c0" by (simp add: interrupted_def)
    then show "triple (\<lambda>c. c = c1) (bind_io (stage_file env (butlast s) data prepare mode) (\<lambda>candidate.
        publish_candidate sha env s journal previous data mode prepare_initial validate reload prepare recover candidate)) ?Q ?E"
      unfolding c1 by (intro triple_bind [OF cand] triple_pre [OF triple_stage [OF q(1)]]) (use left in \<open>simp del: fun_upd_apply\<close>)
  qed
  have serve: "triple (\<lambda>c. c = c0 \<and> ?none) (bind_io (serving_bytes env s) (\<lambda>previous.
        bind_io (stage_file env (butlast s) data prepare mode) (\<lambda>candidate.
        publish_candidate sha env s journal previous data mode prepare_initial validate reload prepare recover candidate))) ?Q ?E"
  proof (rule triple_ghost, elim conjE)
    fix c1 assume c1: "c1 = c0" and none: ?none
    have "triple (\<lambda>c. c = c0) (serving_bytes env s) (\<lambda>previous c. c = c0 \<and> predecessor s previous c0 \<and> ?none) ?E"
      by (rule triple_post [OF triple_serving_bytes]) (use none in \<open>auto simp: interrupted_def\<close>)
    from triple_bind [OF run this] show "triple (\<lambda>c. c = c1) (bind_io (serving_bytes env s) (\<lambda>previous.
        bind_io (stage_file env (butlast s) data prepare mode) (\<lambda>candidate.
        publish_candidate sha env s journal previous data mode prepare_initial validate reload prepare recover candidate))) ?Q ?E"
      unfolding c1 .
  qed
  have same: "?E c0" by (simp add: interrupted_def)
  have refuse: "triple (\<lambda>c. c = c0) (lift_io (Inl e)) ?Q ?E" for e
    by (rule triple_pre [OF triple_lift]) (simp add: same)
  have initial: "triple (\<lambda>c. c = c0 \<and> ?none) (if \<not> prepare_initial then lift_io (Inr False)
          else if journal = None then lift_io (Inr True) else path_exists env s) (\<lambda>_ c. c = c0 \<and> ?none) ?E"
    by (rule triple_pre [OF triple_if [OF triple_lift triple_if [OF triple_lift triple_exists]]]) (use same in auto)
  have pending: "triple (\<lambda>c. c = c0) (case journal of None \<Rightarrow> lift_io (Inr False) | Some j \<Rightarrow> path_exists env j)
      (\<lambda>pending c. c = c0 \<and> (\<not> pending \<longrightarrow> ?none)) ?E"
    by (rule triple_pre [OF triple_option [OF triple_lift triple_exists]]) (use same in auto)
  show ?thesis
    unfolding publish_def
    by (rule triple_pre [OF triple_if [OF refuse triple_if [OF refuse
          triple_bind [OF triple_if [OF refuse triple_bind [OF triple_if [OF refuse serve]]]]]]])
      ((rule triple_post [OF initial] triple_post [OF pending]; simp)+, blast)
qed

end
