(* ===== verification/Publication_Recovery.thy ===== *)
theory Publication_Recovery
  imports Publication_Facts
begin

text \<open>
  The journal's record is read back, and with it the recovery after a crash: in an environment
  without failures it puts the predecessor back and removes the journal.
\<close>

section \<open>The record\<close>

lemma parse_obj_spaced:
  assumes t: "text_of H v t" and n: "2 * length t < n"
  shows "parse_obj H (Suc n) (quote_str k @ '': '' @ t @ CHR ''}'' # r) = Inr ([(k, v)], r)"
    and "parse_obj H n (skip_ws q) = Inr (kvs, z) \<Longrightarrow>
      parse_obj H (Suc n) (quote_str k @ '': '' @ t @ CHR '','' # q) = Inr ((k, v) # kvs, z)"
proof -
  have k: "parse_str (concat (map escape_char k) @ dquote # u) = Inr (k, u)" for u
    by (rule parse_str_quote)
  have s: "skip_ws (CHR '' '' # t @ u) = t @ u" for u
    using t skip_ws_start [of t u] by (simp add: text_of_def skip_ws_def json_ws_def)
  have p: "parse_val H n (t @ u) = Inr (v, u)" if "stop u" for u
    using t n that by (simp add: text_of_def)
  show "parse_obj H (Suc n) (quote_str k @ '': '' @ t @ CHR ''}'' # r) = Inr ([(k, v)], r)"
    using k p [of "CHR ''}'' # r"] s [of "CHR ''}'' # r"] by (simp add: quote_str_def)
  show "parse_obj H (Suc n) (quote_str k @ '': '' @ t @ CHR '','' # q) = Inr ((k, v) # kvs, z)"
    if "parse_obj H n (skip_ws q) = Inr (kvs, z)"
    using k p [of "CHR '','' # q"] s [of "CHR '','' # q"] that by (simp add: quote_str_def)
qed

definition option_text :: "string option \<Rightarrow> string" where
  "option_text v = (case v of None \<Rightarrow> ''null'' | Some s \<Rightarrow> quote_str s)"

definition option_value :: "string option \<Rightarrow> pyval" where
  "option_value v = (case v of None \<Rightarrow> PNone | Some s \<Rightarrow> PStr s)"

lemma option_text_of: "text_of H (option_value v) (option_text v)"
  by (cases v) (simp_all add: option_text_def option_value_def text_of_scalar)

lemma record_member_text: "record_member k v = quote_str k @ '': '' @ option_text v"
  by (simp add: record_member_def option_text_def)

lemma record_value:
  "bytes_loads default_hooks (publication_record sha previous data) =
     Inr (PDict [(''candidate_sha256'', PStr (sha data)), (''previous_sha256'', option_value (map_option sha previous))])"
    (is "_ = Inr ?v")
proof -
  let ?c = "option_text (Some (sha data))" and ?p = "option_text (map_option sha previous)"
  let ?m2 = "quote_str ''previous_sha256'' @ '': '' @ ?p @ ''}''"
  let ?m1 = "quote_str ''candidate_sha256'' @ '': '' @ ?c @ CHR '','' # CHR '' '' # ?m2"
  let ?s = "publication_record sha previous data"
  have s: "?s = CHR ''{'' # ?m1"
    by (simp add: publication_record_def record_member_text)
  obtain n where n: "2 * length ?s = Suc (Suc n)" "2 * length ?c < Suc n" "2 * length ?p < n"
    using that [of "2 * length ?s - 2"] by (simp add: s quote_str_def)
  have ws: "skip_ws (CHR '' '' # quote_str k @ r) = quote_str k @ r" "skip_ws (quote_str k @ r) = quote_str k @ r" for k r
    by (simp_all add: skip_ws_def json_ws_def quote_str_def dquote_def)
  have 2: "parse_obj default_hooks (Suc n) (skip_ws (CHR '' '' # ?m2)) =
      Inr ([(''previous_sha256'', option_value (map_option sha previous))], [])"
    using parse_obj_spaced(1) [OF option_text_of n(3), where H = default_hooks and k = "''previous_sha256''" and r = "[]"]
    by (simp add: ws)
  have 1: "parse_obj default_hooks (Suc (Suc n)) ?m1 = Inr ([(''candidate_sha256'', PStr (sha data)),
      (''previous_sha256'', option_value (map_option sha previous))], [])"
    using parse_obj_spaced(2) [OF option_text_of n(2) 2, where k = "''candidate_sha256''"]
    by (simp add: option_value_def)
  have h: "pairs_hook default_hooks [(''candidate_sha256'', PStr (sha data)),
      (''previous_sha256'', option_value (map_option sha previous))] = Inr ?v"
    using closing_default by (simp add: closing_hooks_def)
  obtain m1 r where m1: "?m1 = m1" "m1 = dquote # r" by (simp add: quote_str_def)
  have "skip_ws m1 = m1" by (simp add: m1(2))
  then have "parse_val default_hooks (Suc (2 * length ?s)) (CHR ''{'' # m1) = Inr (?v, [])"
    using 1 [unfolded m1(1)] h m1(2) by (simp add: n(1) del: parse_obj.simps)
  then have "parse_val default_hooks (Suc (2 * length ?s)) (CHR ''{'' # ?m1) = Inr (?v, [])"
    unfolding m1(1) .
  moreover have "skip_ws ?s = ?s" by (simp add: s skip_ws_def json_ws_def)
  ultimately have "json_loads default_hooks ?s = Inr ?v"
    by (simp add: json_loads_def s skip_ws_def)
  moreover have "ascii ?s"
    by (simp add: s option_text_def split: option.split)
  moreover have "(of_char c :: nat) \<noteq> 0" if "c \<in> set (take 4 ?s)" for c
  proof -
    have "quote_str ''candidate_sha256'' = CHR 0x22 # ''candidate_sha256'' @ [CHR 0x22]" by code_simp
    then have "take 4 ?s = [CHR ''{'', CHR 0x22, CHR ''c'', CHR ''a'']" by (simp add: s)
    then show ?thesis using that by auto
  qed
  ultimately show ?thesis
    by (auto simp: bytes_loads_def utf8_decode_ascii list_ex_iff s)
qed

section \<open>Recovery\<close>

text \<open>The digest is 64 characters in lower-case hexadecimal, as \<open>hexdigest\<close> documents.\<close>

definition hex_digest :: "(string \<Rightarrow> string) \<Rightarrow> bool" where
  "hex_digest sha \<longleftrightarrow> (\<forall>x. length (sha x) = 64 \<and> list_all lower_hex (sha x))"

lemma record_admitted:
  assumes "hex_digest sha"
  shows "bind_res (bytes_loads default_hooks (publication_record sha previous data)) admit_publication_record =
    Inr [(''candidate_sha256'', PStr (sha data)), (''previous_sha256'', option_value (map_option sha previous))]"
  using assms
  by (auto simp: record_value admit_publication_record_def dkeys_def dget_def digest_value_def hex_digest_def
      option_value_def split: option.split)

lemma length_hex_quote: "list_all lower_hex s \<Longrightarrow> length (quote_str s) = length s + 2"
proof -
  have "escape_char c = [c]" if "lower_hex c" for c
    using that by (auto simp: lower_hex_def escape_char_def bslash_def dquote_def Let_def)
  then have "list_all lower_hex s \<Longrightarrow> length (concat (map escape_char s)) = length s"
    by (induction s) auto
  then show "list_all lower_hex s \<Longrightarrow> length (quote_str s) = length s + 2" by (simp add: quote_str_def)
qed

lemma record_length: "hex_digest sha \<Longrightarrow> length (publication_record sha previous data) \<le> 1024"
proof -
  assume h: "hex_digest sha"
  have "length (quote_str (sha x)) = 66" for x
    using h length_hex_quote [of "sha x"] by (simp add: hex_digest_def)
  moreover have "length (quote_str ''candidate_sha256'') = 18" "length (quote_str ''previous_sha256'') = 17"
    by code_simp+
  ultimately show ?thesis
    by (auto simp: publication_record_def record_member_def split: option.split)
qed

text \<open>A place where a recovery runs without failures: no call fails, the directories exist, the names
  \<open>mkstemp\<close> picks are new, and the callbacks succeed.\<close>

definition calm_place :: "os_env \<Rightarrow> path \<Rightarrow> path \<Rightarrow> contents \<Rightarrow> bool" where
  "calm_place env s j c \<longleftrightarrow> \<not> faulty env \<and> (\<exists>b. c (butlast s) = Some (K_Dir, b)) \<and> (\<exists>b. c (butlast j) = Some (K_Dir, b)) \<and>
     butlast s \<notin> {s, j, backup_of j} \<and> butlast j \<notin> {s, j, backup_of j} \<and>
     (\<forall>n. c (butlast s @ [STAGED @ env_temp env n]) = None)"

lemma triple_recover_serving:
  assumes p: "places s (Some j)" and f: "\<not> faulty env" and pr: "\<And>p. sure (prepare p)"
    and pre: "predecessor s previous c0"
    and c: "recoverable sha s (Some j) previous data c0 c1" "c1 j \<noteq> None"
    and n: "\<forall>n. c1 (butlast s @ [STAGED @ env_temp env n]) = None"
  shows "triple (\<lambda>c. c = c1) (recover_serving sha env s j prepare (option_value (map_option sha previous)))
     (\<lambda>_ c. c = c1(s := c0 s)) (\<lambda>_. False)"
proof (cases previous)
  case None
  then have "c0 s = None" using pre by (simp add: predecessor_def)
  then show ?thesis
    using f None
    by (auto simp: recover_serving_def option_value_def intro!: triple_pre [OF triple_unlink_missing])
next
  case (Some b)
  have b: "c1 (backup_of j) = Some (K_Reg, b)" "c0 s = Some (K_Reg, b)" "length b \<le> MAX_CONFIG_BYTES"
    using c pre Some by (auto simp: recoverable_def predecessor_def)
  have s: "\<not> staged s" using p by (simp add: places_def)
  have sd: "\<forall>x. c1 s \<noteq> Some (K_Dir, x)" using c b(2) by (auto simp: recoverable_def)
  have q: "\<And>p. quiet (prepare p)" using pr sure_quiet by blast
  have install: "triple (\<lambda>c. c = c1) (bind_io (stage_file env (butlast s) b prepare 0x180) (\<lambda>candidate. replace env candidate s))
      (\<lambda>_ c. c = c1(s := c0 s)) (\<lambda>_. False)"
    by (rule triple_pre [OF triple_install [OF q s]]) (use f pr n sd b in auto)
  have check: "triple (\<lambda>c. c = c1 \<and> data = b) (if PStr (sha data) \<noteq> PStr (sha b)
      then lift_io (Inl (ValueError ''admit-publication-predecessor''))
      else bind_io (stage_file env (butlast s) data prepare 0x180) (\<lambda>candidate. replace env candidate s))
      (\<lambda>_ c. c = c1(s := c0 s)) (\<lambda>_. False)" for data
    using install by (auto simp: triple_def)
  have ne: "(PStr (sha b) = PNone) = False" by simp
  show ?thesis
    unfolding recover_serving_def Some option.map option_value_def option.case ne if_False
    by (rule triple_bind [OF triple_if [OF triple_lift triple_bind [OF triple_if [OF triple_lift
          triple_bind [OF check triple_read_all]] triple_stat]]], rule triple_pre [OF triple_is_file])
      (use f b in auto)
qed

text \<open>The predecessor is back, the journal is gone, and nothing else is touched.\<close>

definition restored :: "path \<Rightarrow> path \<Rightarrow> contents \<Rightarrow> contents \<Rightarrow> bool" where
  "restored s j c0 c \<longleftrightarrow> c s = c0 s \<and> c j = None \<and> c (backup_of j) = None \<and>
     (\<forall>q. \<not> staged q \<and> q \<notin> {s, j, backup_of j} \<longrightarrow> c q = c0 q)"

lemma triple_recover_publication:
  assumes h: "hex_digest sha" and p: "places s (Some j)" and cb: "\<And>p. sure (prepare p)" "sure recover"
    and pre: "predecessor s previous c0" and c: "recoverable sha s (Some j) previous data c0 c1" "c1 j \<noteq> None"
    and calm: "calm_place env s j c1"
  shows "triple (\<lambda>c. c = c1) (recover_publication sha env s j prepare recover)
     (\<lambda>v c. v \<and> restored s j c0 c) (\<lambda>_. False)"
proof -
  have f: "\<not> faulty env" using calm by (simp add: calm_place_def)
  have jc: "c1 j = Some (K_Reg, publication_record sha previous data)"
    using c by (auto simp: recoverable_def)
  let ?c2 = "c1(s := c0 s)" and ?c3 = "c1(s := c0 s, j := None)"
  let ?c4 = "c1(s := c0 s, j := None, backup_of j := None)"
  obtain ds dj where dirs: "c1 (butlast s) = Some (K_Dir, ds)" "c1 (butlast j) = Some (K_Dir, dj)"
    "butlast s \<notin> {s, j, backup_of j}" "butlast j \<notin> {s, j, backup_of j}"
    using calm unfolding calm_place_def by blast
  have d: "j \<noteq> s" "j \<noteq> backup_of j" "backup_of j \<noteq> s" using p by (auto simp: places_def)
  have "restored s j c0 ?c4"
    using c(1) d by (auto simp: restored_def recoverable_def own_paths_def)
  then have tail: "triple (\<lambda>c. c = ?c4) (bind_io (flush_directory env (butlast j)) (\<lambda>_. lift_io (Inr True)))
      (\<lambda>v c. v \<and> restored s j c0 c) (\<lambda>_. False)"
    by (intro triple_bind [OF triple_lift] triple_pre [OF triple_flush]) (use dirs f in auto)
  have backup: "triple (\<lambda>c. c = ?c3) (unlink_missing env (backup_of j)) (\<lambda>_ c. c = ?c4) (\<lambda>_. False)"
    by (rule triple_pre [OF triple_unlink_missing]) (use f in simp)
  have sync: "triple (\<lambda>c. c = ?c3) (flush_directory env (butlast j)) (\<lambda>_ c. c = ?c3) (\<lambda>_. False)"
    by (rule triple_pre [OF triple_flush]) (use dirs f in auto)
  have gone: "triple (\<lambda>c. c = ?c2) (unlink env j) (\<lambda>_ c. c = ?c3) (\<lambda>_. False)"
    by (rule triple_pre [OF triple_unlink]) (use f jc d in auto)
  have live: "triple (\<lambda>c. c = ?c2) recover (\<lambda>_ c. c = ?c2) (\<lambda>_. False)"
    by (rule triple_pre [OF triple_quiet [OF sure_quiet [OF cb(2)]]]) (use cb in simp)
  have sync': "triple (\<lambda>c. c = ?c2) (flush_directory env (butlast s)) (\<lambda>_ c. c = ?c2) (\<lambda>_. False)"
    by (rule triple_pre [OF triple_flush]) (use dirs f in auto)
  have n: "\<forall>n. c1 (butlast s @ [STAGED @ env_temp env n]) = None"
    using calm by (simp add: calm_place_def)
  note serve = triple_recover_serving [OF p f cb(1) pre c n]
  note rest = triple_bind [OF triple_bind [OF triple_bind [OF triple_bind [OF triple_bind [OF triple_bind [OF tail backup] sync] gone] live] sync'] serve]
  have body: "triple (\<lambda>c. c = c1 \<and> raw = publication_record sha previous data)
      (bind_io (lift_io (bind_res (bytes_loads default_hooks raw) admit_publication_record)) (\<lambda>record.
       bind_io (recover_serving sha env s j prepare (dget record ''previous_sha256'')) (\<lambda>_.
       bind_io (flush_directory env (butlast s)) (\<lambda>_.
       bind_io recover (\<lambda>_.
       bind_io (unlink env j) (\<lambda>_.
       bind_io (flush_directory env (butlast j)) (\<lambda>_.
       bind_io (unlink_missing env (backup_of j)) (\<lambda>_.
       bind_io (flush_directory env (butlast j)) (\<lambda>_.
       lift_io (Inr True)))))))))) (\<lambda>v c. v \<and> restored s j c0 c) (\<lambda>_. False)" for raw
  proof (cases "raw = publication_record sha previous data")
    case True
    have g: "dget [(''candidate_sha256'', PStr (sha data)), (''previous_sha256'', option_value (map_option sha previous))]
        ''previous_sha256'' = option_value (map_option sha previous)"
      by (simp add: dget_def)
    have e: "bind_io (lift_io (Inr x)) k = k x" for x :: pydict and k :: "pydict \<Rightarrow> bool io"
      by (rule ext) (simp add: bind_io_def)
    show ?thesis unfolding True record_admitted [OF h] e g by (rule triple_pre [OF rest]) simp
  qed (simp add: triple_def)
  show ?thesis
    unfolding recover_publication_def
    by (rule triple_bind [OF triple_if [OF triple_lift triple_bind [OF triple_if [OF triple_lift
          triple_bind [OF body triple_read_all]] triple_stat]]], rule triple_pre [OF triple_exists])
      (use f jc record_length [OF h, of previous data] in auto)
qed

section \<open>What is guaranteed\<close>

text \<open>Property C15: a publication is all or nothing. Whatever system calls and callbacks fail, and
  wherever a crash cuts the run, the serving file is exactly what it was or exactly the complete new
  bytes, and no file but the journal, its backup and the staged files is touched. A value means more:
  the new bytes are serving, no staged file is left, and unless activation was deferred neither
  journal nor backup remains.\<close>

theorem publication_is_atomic:
  assumes "publication_setting s journal validate reload prepare recover"
    and "publish sha env s data validate reload prepare recover mode journal prepare_initial w = (r, w')"
  shows "(contents w' s = contents w s \<or> contents w' s = Some (K_Reg, data)) \<and>
    (\<forall>q. \<not> staged q \<and> q \<notin> own_paths s journal \<longrightarrow> contents w' q = contents w q) \<and>
    (\<forall>v. r = Inr v \<longrightarrow> published_as s journal data prepare_initial (contents w) v (contents w'))"
proof -
  have o: "ends_in (\<lambda>v c. published_as s journal data prepare_initial (contents w) v c \<and> interrupted sha s journal data (contents w) c)
      (interrupted sha s journal data (contents w)) r (contents w')"
    by (rule tripleD [OF triple_publish [OF assms(1)] _ assms(2)]) simp
  then have "interrupted sha s journal data (contents w) (contents w')"
    by (cases r) auto
  then show ?thesis
    using o by (auto simp: interrupted_def recoverable_def)
qed

text \<open>Property C14: a crash is recovered from. If a publication with a journal ends anywhere with the
  journal still there, a later recovery that meets no failure returns \<open>True\<close>: the serving file is
  again what it was before the publication (or absent again), journal and backup are gone, and
  every other file is as before, but for staged files. No interrupted generation is ever taken as
  accepted.\<close>

theorem recovery_restores_predecessor:
  assumes "publication_setting s (Some j) validate reload prepare recover"
    and "publish sha env s data validate reload prepare recover mode (Some j) prepare_initial w = (r, w')"
    and "os_nodes w j = None" and "os_nodes w' j \<noteq> None"
    and "hex_digest sha" and "calm_place env' s j (contents w')"
    and "\<And>p. sure (prepare' p)" and "sure recover'"
    and "recover_publication sha env' s j prepare' recover' w' = (r', w'')"
  shows "r' = Inr True \<and> restored s j (contents w) (contents w'')"
proof -
  let ?I = "interrupted sha s (Some j) data (contents w)"
  have p: "places s (Some j)" using assms(1) by (simp add: publication_setting_def)
  have "ends_in (\<lambda>v c. published_as s (Some j) data prepare_initial (contents w) v c \<and> ?I c) ?I r (contents w')"
    by (rule tripleD [OF triple_publish [OF assms(1)] _ assms(2)]) simp
  then have "?I (contents w')" by (cases r) auto
  moreover have j: "contents w j = None" "contents w' j \<noteq> None" using assms(3,4) by simp_all
  ultimately obtain previous where pre: "predecessor s previous (contents w)"
    and R: "recoverable sha s (Some j) previous data (contents w) (contents w')"
    unfolding interrupted_def by metis
  have "ends_in (\<lambda>v c. v \<and> restored s j (contents w) c) (\<lambda>_. False) r' (contents w'')"
    by (rule tripleD [OF triple_recover_publication [OF assms(5) p assms(7,8) pre R j(2) assms(6)] _ assms(9)]) simp
  then show ?thesis by (cases r') auto
qed

section \<open>Witnesses\<close>

text \<open>A publication whose calls fail from the \<open>k\<close>-th on, and a later recovery without failures.\<close>

definition crash_env :: "nat \<Rightarrow> os_env" where
  "crash_env k = \<lparr>env_euid = 0, env_umask = 0x12, env_fault = (\<lambda>n. k \<le> n), env_delay = (\<lambda>_. 1),
     env_flock = (\<lambda>_. Locked), env_temp = (\<lambda>n. if n < 10 then ''a'' else ''b'')\<rparr>"

definition later_env :: os_env where
  "later_env = \<lparr>env_euid = 0, env_umask = 0x12, env_fault = (\<lambda>_. False), env_delay = (\<lambda>_. 1),
     env_flock = (\<lambda>_. Locked), env_temp = (\<lambda>_. ''later'')\<rparr>"

definition plain_node :: "kind \<Rightarrow> string \<Rightarrow> node" where
  "plain_node k b = \<lparr>nd_kind = k, nd_uid = 0, nd_mode = 0x180, nd_nlink = 1, nd_ino = 3, nd_bytes = b\<rparr>"

definition SERVING :: path where "SERVING = [''etc'', ''viewer.pem'']"
definition JOURNAL :: path where "JOURNAL = [''srv'', ''journal'']"

definition serving_world :: os where
  "serving_world = \<lparr>os_nodes = (\<lambda>p. if p = [''etc''] \<or> p = [''srv''] then Some (plain_node K_Dir [])
       else if p = SERVING then Some (plain_node K_Reg ''old'') else None),
     os_next_ino = 10, os_calls = 0, os_clock = 0\<rparr>"

definition no_action :: "unit io" where "no_action = lift_io (Inr ())"

definition sample_hex :: "string \<Rightarrow> string" where "sample_hex s = replicate 64 CHR ''a''"

definition sample_publish :: "path option \<Rightarrow> nat \<Rightarrow> bool option res \<times> os" where
  "sample_publish journal k = publish sample_hex (crash_env k) SERVING ''new'' (\<lambda>_. no_action) no_action (\<lambda>_. no_action) no_action
     0x180 journal False serving_world"

text \<open>The definitions that run it.\<close>

lemmas run_defs = sample_publish_def publish_def publish_candidate_def prepare_rollback_def clean_up_def activate_def
  compensate_def write_journal_def write_record_def serving_bytes_def stage_file_def fill_staged_def attempt_io_def
  flush_directory_def unlink_missing_def read_all_def is_symlink_def path_exists_def bind_io_def catch_io_def
  finally_io_def lift_io_def sys_def lstat_def open_nofollow_def open_directory_def touch_call_def mkstemp_def
  update_node_def fchmod_def write_bytes_def replace_def unlink_def set_node_def new_node_def ENOENT_def Let_def
  crash_env_def serving_world_def plain_node_def SERVING_def JOURNAL_def no_action_def backup_of_def STAGED_def
  MAX_CONFIG_BYTES_def

lemma sure_no_action: "sure no_action" "quiet no_action"
  by (simp_all add: sure_def quiet_def no_action_def ok_def)

lemma sample_setting: "publication_setting SERVING (Some JOURNAL) (\<lambda>_. no_action) no_action (\<lambda>_. no_action) no_action"
proof -
  have "\<not> staged SERVING" "\<not> staged JOURNAL" "\<not> staged (backup_of JOURNAL)"
    by (auto simp: staged_def SERVING_def JOURNAL_def backup_of_def STAGED_def append_eq_Cons_conv)
  moreover have "JOURNAL \<noteq> SERVING" "backup_of JOURNAL \<noteq> SERVING" "JOURNAL \<noteq> backup_of JOURNAL" "JOURNAL \<noteq> []"
    by code_simp+
  ultimately show ?thesis by (auto simp: publication_setting_def places_def sure_no_action)
qed

theorem publication_is_atomic_witness:
  "\<exists>w'. sample_publish None 100 = (Inr (Some True), w') \<and> contents w' SERVING = Some (K_Reg, ''new'') \<and>
     (\<forall>q. q \<noteq> SERVING \<longrightarrow> contents w' q = contents serving_world q)"
proof -
  have "(case sample_publish None 100 of (r, w) \<Rightarrow> r = Inr (Some True))" by (simp add: run_defs)
  then obtain w' where e: "sample_publish None 100 = (Inr (Some True), w')" by (cases "sample_publish None 100") auto
  have "publication_setting SERVING None (\<lambda>_. no_action) no_action (\<lambda>_. no_action) no_action"
    using sample_setting by (auto simp: publication_setting_def places_def)
  from publication_is_atomic [OF this e [unfolded sample_publish_def]] e show ?thesis
    by (auto simp: published_as_def own_paths_def)
qed

lemma sample_crash:
  "(case sample_publish (Some JOURNAL) 41 of (r, w) \<Rightarrow> os_nodes w JOURNAL \<noteq> None \<and>
     map_option (\<lambda>n. (nd_kind n, nd_bytes n)) (os_nodes w SERVING) = Some (K_Reg, ''new'') \<and>
     map_option nd_kind (os_nodes w [''etc'']) = Some K_Dir \<and> map_option nd_kind (os_nodes w [''srv'']) = Some K_Dir \<and>
     os_nodes w [''etc'', STAGED @ ''later''] = None)"
  by (simp add: run_defs)

theorem recovery_restores_predecessor_witness:
  "\<exists>r w' w''. sample_publish (Some JOURNAL) 41 = (r, w') \<and>
     recover_publication sample_hex later_env SERVING JOURNAL (\<lambda>_. no_action) no_action w' = (Inr True, w'') \<and>
     contents w' SERVING = Some (K_Reg, ''new'') \<and> contents w'' SERVING = Some (K_Reg, ''old'') \<and> contents w'' JOURNAL = None"
proof -
  obtain r w' where e: "sample_publish (Some JOURNAL) 41 = (r, w')" by (cases "sample_publish (Some JOURNAL) 41")
  obtain r' w'' where f: "recover_publication sample_hex later_env SERVING JOURNAL (\<lambda>_. no_action) no_action w' = (r', w'')"
    by (cases "recover_publication sample_hex later_env SERVING JOURNAL (\<lambda>_. no_action) no_action w'")
  note c = sample_crash [unfolded e prod.case]
  have "lower_hex CHR ''a''" by code_simp
  then have hex: "hex_digest sample_hex" by (simp add: hex_digest_def sample_hex_def list_all_iff)
  have parents: "butlast SERVING = [''etc'']" "butlast JOURNAL = [''srv'']" by code_simp+
  have apart: "[''etc''] \<notin> {SERVING, JOURNAL, backup_of JOURNAL}" "[''srv''] \<notin> {SERVING, JOURNAL, backup_of JOURNAL}"
    by code_simp+
  have "\<not> faulty later_env" by (simp add: faulty_def later_env_def)
  moreover have "\<exists>b. contents w' [''etc''] = Some (K_Dir, b)" "\<exists>b. contents w' [''srv''] = Some (K_Dir, b)"
    using c by (auto simp: contents_def)
  moreover have "contents w' ([''etc''] @ [STAGED @ env_temp later_env n]) = None" for n
    using c by (simp add: later_env_def)
  ultimately have calm: "calm_place later_env SERVING JOURNAL (contents w')"
    unfolding calm_place_def parents using apart by blast
  have before: "os_nodes serving_world JOURNAL = None" "contents serving_world SERVING = Some (K_Reg, ''old'')"
    by (simp_all add: serving_world_def JOURNAL_def SERVING_def contents_def plain_node_def)
  have "os_nodes w' JOURNAL \<noteq> None" using c by blast
  note g = recovery_restores_predecessor [OF sample_setting e [unfolded sample_publish_def] before(1) this hex calm sure_no_action(1) sure_no_action(1) f]
  then have "r' = Inr True" "contents w'' SERVING = Some (K_Reg, ''old'')" "contents w'' JOURNAL = None"
    using before(2) by (auto simp: restored_def)
  moreover have "contents w' SERVING = Some (K_Reg, ''new'')"
    using c by (simp add: contents_def)
  ultimately show ?thesis using e f before(2) by auto
qed

end
