(* ===== verification/Public_Findings.thy ===== *)
theory Public_Findings
  imports Viewer_Tls Json_Bytes
begin

text \<open>
  \<open>scripts/public_findings.py\<close>: the admission of one public finding, the projection of the TLS
  health fact into a finding, one notification attempt, and the adapter that writes
  notifications to a binary stream.

  The digest function is the parameter \<open>sha\<close>. A delivery adapter is a function on a state of
  its own that may raise; the stream behind \<open>stream_adapter\<close> is the record \<open>stream_ops\<close> of its
  two operations on a state \<open>'s\<close>. The adapter's lock serialises the calls, which are a sequence here.
\<close>

definition MAX_BYTES :: nat where "MAX_BYTES = 4096"

section \<open>Sources\<close>

definition dash_alnum :: "char \<Rightarrow> bool" where
  "dash_alnum c \<longleftrightarrow> alnum_char c \<or> c = CHR ''-''"

text \<open>The patterns \<open>[a-z][a-z0-9-]{0,63}\<close>, \<open>[A-Za-z][A-Za-z0-9-]{0,63}\<close> and \<open>[A-Z][A-Z0-9_-]{0,63}\<close>.\<close>

definition code_rx :: "(char \<Rightarrow> bool) \<Rightarrow> (char \<Rightarrow> bool) \<Rightarrow> rx" where
  "code_rx first rest = Seq (Cls first) (rx_range 0 63 (Cls rest))"

definition CODE :: rx where
  "CODE = code_rx lower_char (\<lambda>c. lower_alnum c \<or> c = CHR ''-'')"

definition CAPABILITY :: rx where
  "CAPABILITY = code_rx (\<lambda>c. upper_char c \<or> lower_char c) dash_alnum"

definition CONDITION :: rx where
  "CONDITION = code_rx upper_char (\<lambda>c. upper_char c \<or> digit_char c \<or> c = CHR ''_'' \<or> c = CHR ''-'')"

definition is_code :: "rx \<Rightarrow> pyval \<Rightarrow> bool" where
  "is_code pattern v = (case v of PStr s \<Rightarrow> fullmatch pattern s | _ \<Rightarrow> False)"

definition is_digest :: "pyval \<Rightarrow> bool" where
  "is_digest v = is_code SHA256 v"

record finding_source =
  fs_producer :: string
  fs_category :: string
  fs_capability :: string
  fs_codes :: "(string \<times> string) set"
  fs_freshness :: int

definition CATEGORIES :: "string list" where
  "CATEGORIES = [''health'', ''security'', ''update'', ''conformance'', ''integrity'']"

definition code_pair :: "pyval \<Rightarrow> (string \<times> string) option" where
  "code_pair v = (case v of
     PTuple [PStr c, PStr r] \<Rightarrow> if fullmatch CONDITION c \<and> fullmatch CODE r then Some (c, r) else None
   | _ \<Rightarrow> None)"

definition string_of :: "pyval \<Rightarrow> string" where
  "string_of v = (case v of PStr s \<Rightarrow> s | _ \<Rightarrow> [])"

definition new_source :: "pyval \<Rightarrow> pyval \<Rightarrow> pyval \<Rightarrow> pyval pyset \<Rightarrow> pyval \<Rightarrow> finding_source res" where
  "new_source producer category capability codes freshness =
     (case (codes, freshness) of
        (FrozenSet pairs, PInt f) \<Rightarrow>
          if \<not> is_code CODE producer \<or> category \<notin> PStr ` set CATEGORIES
            \<or> \<not> is_code CAPABILITY capability \<or> \<not> (1 \<le> f \<and> f \<le> 31536000)
            \<or> \<not> (1 \<le> card pairs \<and> card pairs \<le> 128) \<or> (\<exists>pair \<in> pairs. code_pair pair = None)
          then Inl (ValueError ''finding-source-contract'')
          else Inr \<lparr>fs_producer = string_of producer, fs_category = string_of category,
                    fs_capability = string_of capability,
                    fs_codes = (\<lambda>pair. the (code_pair pair)) ` pairs, fs_freshness = f\<rparr>
      | _ \<Rightarrow> Inl (ValueError ''finding-source-contract''))"

section \<open>Admission of a finding\<close>

fun finding_pairs :: "pydict \<Rightarrow> pydict \<Rightarrow> pyval res" where
  "finding_pairs result [] = Inr (PDict result)"
| "finding_pairs result ((key, v) # pairs) =
     (if key \<in> dkeys result then Inl (ValueError ''finding-duplicate-field'')
      else finding_pairs (result @ [(key, v)]) pairs)"

definition finding_hooks :: json_hooks where
  "finding_hooks = \<lparr>pairs_hook = finding_pairs [], constants_ok = True\<rparr>"

text \<open>\<open>except (ValueError, UnicodeError, RecursionError)\<close>.\<close>

definition finding_json :: "'a res \<Rightarrow> 'a res" where
  "finding_json r = catch_res r (\<lambda>e. case e of
     ValueError _ \<Rightarrow> Inl (ValueError ''finding-json'')
   | UnicodeError \<Rightarrow> Inl (ValueError ''finding-json'')
   | _ \<Rightarrow> Inl e)"

definition FINDING_FIELDS :: "string list" where
  "FINDING_FIELDS = [''schema_version'', ''producer'', ''category'', ''capability'', ''subject_sha256'',
     ''evidence_sha256'', ''condition'', ''reason'', ''observed_at'']"

text \<open>The checks on the decoded object.\<close>

definition admit_finding :: "finding_source \<Rightarrow> pyval \<Rightarrow> pyval \<Rightarrow> int \<Rightarrow> pyval \<Rightarrow> string res" where
  "admit_finding source subject evidence now document =
     (case document of
        PDict d \<Rightarrow>
          if dkeys d \<noteq> set FINDING_FIELDS then Inl (ValueError ''finding-fields'')
          else if dget d ''schema_version'' \<noteq> PInt 1
            \<or> dget d ''producer'' \<noteq> PStr (fs_producer source)
            \<or> dget d ''category'' \<noteq> PStr (fs_category source)
            \<or> dget d ''capability'' \<noteq> PStr (fs_capability source)
            \<or> dget d ''subject_sha256'' \<noteq> subject \<or> dget d ''evidence_sha256'' \<noteq> evidence
            \<or> \<not> is_str (dget d ''condition'') \<or> \<not> is_str (dget d ''reason'')
            \<or> (string_of (dget d ''condition''), string_of (dget d ''reason'')) \<notin> fs_codes source
          then Inl (ValueError ''finding-provenance-or-vocabulary'')
          else if dget d ''observed_at'' \<noteq> PNone \<and> \<not> int_between 0 (dget d ''observed_at'') now
          then Inl (ValueError ''finding-observation-time'')
          else if dget d ''condition'' \<noteq> PStr ''UNKNOWN'' \<and>
            (case time_of (dget d ''observed_at'') of None \<Rightarrow> True | Some t \<Rightarrow> fs_freshness source < now - t)
          then Inl (ValueError ''finding-stale-observation'')
          else dumps document
      | _ \<Rightarrow> Inl (ValueError ''finding-fields''))"

definition accept :: "pyval \<Rightarrow> finding_source obj \<Rightarrow> pyval \<Rightarrow> pyval \<Rightarrow> pyval \<Rightarrow> string res" where
  "accept raw source subject evidence now =
     (case (raw, source, now) of
        (PBytes bytes, Exact src, PInt t) \<Rightarrow>
          if \<not> (0 < length bytes \<and> length bytes \<le> MAX_BYTES)
            \<or> \<not> is_digest subject \<or> \<not> is_digest evidence \<or> \<not> (0 \<le> t \<and> t < 2 ^ 63)
          then Inl (ValueError ''finding-input'')
          else bind_res (finding_json (bytes_loads finding_hooks bytes))
            (admit_finding src subject evidence t)
      | _ \<Rightarrow> Inl (ValueError ''finding-input''))"

section \<open>The TLS finding\<close>

definition tls_finding :: "(string \<Rightarrow> string) \<Rightarrow> pyval \<Rightarrow> pyval \<Rightarrow> pyval \<Rightarrow> int \<Rightarrow> string res" where
  "tls_finding sha observation subject evidence now =
     bind_res (dumps (PDict [(''observation'', observation), (''evaluated_at'', PInt now)])) (\<lambda>context.
     if PStr (sha context) \<noteq> evidence then Inl (ValueError ''finding-tls-evidence'')
     else bind_res (health observation now) (\<lambda>fact.
       bind_res (new_source (dget fact ''producer'') (PStr ''health'') (dget fact ''capability'')
         (FrozenSet {PTuple [dget fact ''state'', dget fact ''reason'']}) (PInt OBSERVATION_FRESHNESS_SECONDS))
         (\<lambda>source.
       bind_res (dumps (PDict [(''schema_version'', PInt 1), (''producer'', dget fact ''producer''),
         (''category'', PStr (fs_category source)), (''capability'', dget fact ''capability''),
         (''subject_sha256'', subject), (''evidence_sha256'', evidence),
         (''condition'', dget fact ''state''), (''reason'', dget fact ''reason''),
         (''observed_at'', dget fact ''observed_at'')])) (\<lambda>raw.
       accept (PBytes raw) (Exact source) subject evidence (PInt now)))))"

section \<open>Notification\<close>

type_synonym 'a sender = "string \<Rightarrow> 'a \<Rightarrow> pyval res \<times> 'a"

text \<open>A \<open>sender\<close> argument that is not callable is \<open>Alien\<close>.\<close>

definition notify ::
  "(string \<Rightarrow> string) \<Rightarrow> pyval \<Rightarrow> finding_source obj \<Rightarrow> pyval \<Rightarrow> pyval \<Rightarrow> pyval \<Rightarrow> pyval \<Rightarrow>
   'a sender obj \<Rightarrow> pyval \<Rightarrow> 'a \<Rightarrow> pydict res \<times> 'a" where
  "notify sha raw source subject evidence now notification_id send silent w =
     (case accept raw source subject evidence now of
        Inl e \<Rightarrow> (Inl e, w)
      | Inr accepted \<Rightarrow>
          (case (send, silent) of
             (Exact deliver, PBool quiet) \<Rightarrow>
               if \<not> is_digest notification_id then (Inl (ValueError ''finding-notification-input''), w)
               else let result = (\<lambda>delivery. [(''schema_version'', PInt 1), (''notification_id'', notification_id),
                      (''finding_sha256'', PStr (sha accepted)), (''delivery'', PStr delivery)]) in
                 if quiet then (Inr (result ''SILENCED''), w)
                 else (case bind_res (bytes_loads default_hooks accepted) (\<lambda>finding.
                     dumps (PDict [(''schema_version'', PInt 1), (''notification_id'', notification_id),
                       (''finding'', finding)])) of
                    Inl e \<Rightarrow> (Inl e, w)
                  | Inr envelope \<Rightarrow> (case deliver envelope w of
                      (outcome, w') \<Rightarrow>
                        (Inr (result (if outcome = Inr (PBool True) then ''DELIVERED'' else ''FAILED'')), w')))
           | _ \<Rightarrow> (Inl (ValueError ''finding-notification-input''), w)))"

section \<open>The stream adapter\<close>

record 's stream_ops =
  stream_write :: "string \<Rightarrow> 's \<Rightarrow> pyval res \<times> 's"
  stream_flush :: "'s \<Rightarrow> unit res \<times> 's"

record 's adapter =
  ad_usable :: bool
  ad_stream :: 's

text \<open>The loop that writes what is left of the record; \<open>Inr False\<close> is its \<open>return False\<close>.\<close>

function write_record :: "'s stream_ops \<Rightarrow> string \<Rightarrow> 's \<Rightarrow> bool res \<times> 's" where
  "write_record ops left s =
     (if left = [] then (Inr True, s)
      else (case stream_write ops left s of
          (Inl e, s') \<Rightarrow> (Inl e, s')
        | (Inr count, s') \<Rightarrow>
            if int_between 1 count (int (length left))
            then write_record ops (drop (nat (the_time count)) left) s'
            else (Inr False, s')))"
  by pat_completeness auto
termination
  by (relation "measure (\<lambda>(ops, left, s). length left)")
    (auto simp: int_between_def the_time_def split: pyval.splits)

declare write_record.simps [simp del]

definition stream_send :: "'s stream_ops \<Rightarrow> 's adapter sender" where
  "stream_send ops envelope a =
     (if \<not> ad_usable a then (Inr (PBool False), a)
      else (case write_record ops (envelope @ [CHR 0x0A]) (ad_stream a) of
          (Inl e, s) \<Rightarrow> (Inl e, \<lparr>ad_usable = False, ad_stream = s\<rparr>)
        | (Inr False, s) \<Rightarrow> (Inr (PBool False), \<lparr>ad_usable = False, ad_stream = s\<rparr>)
        | (Inr True, s) \<Rightarrow> (case stream_flush ops s of
            (Inl e, s') \<Rightarrow> (Inl e, \<lparr>ad_usable = False, ad_stream = s'\<rparr>)
          | (Inr _, s') \<Rightarrow> (Inr (PBool True), \<lparr>ad_usable = True, ad_stream = s'\<rparr>))))"

definition stream_adapter :: "'s \<Rightarrow> 's adapter" where
  "stream_adapter s = \<lparr>ad_usable = True, ad_stream = s\<rparr>"

end
