(* ===== verification/Nft_Chains.thy ===== *)
theory Nft_Chains
  imports Py_Value
begin

text \<open>
  The chains of a table in native nft JSON whose rules only reject: a list of table, chain and
  rule objects, the expressions of a rule in order, and what such a chain lets through. The
  meaning \<open>m\<close> of a match expression for a packet is a parameter.
\<close>

definition is_reject :: "pyval \<Rightarrow> bool" where
  "is_reject e \<longleftrightarrow> (case e of PDict ((k, _) # _) \<Rightarrow> k = ''reject'' | _ \<Rightarrow> False)"

fun rejects :: "(pyval \<Rightarrow> 'p \<Rightarrow> bool) \<Rightarrow> 'p \<Rightarrow> pyval list \<Rightarrow> bool" where
  "rejects m p [] = False"
| "rejects m p (e # es) = (if is_reject e then True else m e p \<and> rejects m p es)"

definition rule_in :: "string \<Rightarrow> pyval \<Rightarrow> pyval list" where
  "rule_in chain ob = (case ob of
     PDict [(kind, PDict d)] \<Rightarrow>
       (if kind = ''rule'' \<and> dget d ''chain'' = PStr chain
        then (case dget d ''expr'' of PList es \<Rightarrow> es | _ \<Rightarrow> []) else [])
   | _ \<Rightarrow> [])"

text \<open>A chain whose policy is to accept lets through what no rule of it rejects.\<close>

definition passes :: "(pyval \<Rightarrow> 'p \<Rightarrow> bool) \<Rightarrow> pyval list \<Rightarrow> string \<Rightarrow> 'p \<Rightarrow> bool" where
  "passes m objects chain p \<longleftrightarrow> \<not> list_ex (\<lambda>ob. rejects m p (rule_in chain ob)) objects"

lemma rule_in_rule:
  "rule_in c (PDict [(''rule'', PDict [(''family'', f), (''table'', t), (''chain'', PStr c'), (''expr'', PList es)])]) =
     (if c' = c then es else [])"
  by (simp add: rule_in_def dget_def)

lemma rule_in_other: "kind \<noteq> ''rule'' \<Longrightarrow> rule_in c (PDict [(kind, x)]) = []"
  by (cases x) (simp_all add: rule_in_def)

lemma passes_append: "passes m (a @ b) c p \<longleftrightarrow> passes m a c p \<and> passes m b c p"
  by (auto simp: passes_def)

end
