(* ===== verification/Viewer_Tls_Facts.thy ===== *)
theory Viewer_Tls_Facts
  imports Viewer_Tls Nft_Chains
begin

text \<open>
  What the TLS contract guarantees: the material an admission publishes is the material a later
  read of the serving file admits again; the health fact never improves without a new
  observation; and the host policy of the ACME port keeps the challenge responder to the
  proxy and the administrator.
\<close>

section \<open>Health\<close>

text \<open>What an admitted observation holds, and the fact it gives.\<close>

record facts =
  fa_observed :: "int option"
  fa_expiry :: "int option"
  fa_served :: string
  fa_renewal :: string
  fa_renewal_at :: "int option"

definition time_value :: "int option \<Rightarrow> pyval" where
  "time_value t = (case t of None \<Rightarrow> PNone | Some i \<Rightarrow> PInt i)"

lemma time_of_value [simp]: "time_of (time_value t) = t"
  by (simp add: time_of_def time_value_def split: option.splits)

definition observes :: "pydict \<Rightarrow> int \<Rightarrow> facts \<Rightarrow> bool" where
  "observes d now f \<longleftrightarrow> dkeys d = set HEALTH_FIELDS
     \<and> dget d ''observed_at'' = time_value (fa_observed f) \<and> dget d ''not_after'' = time_value (fa_expiry f)
     \<and> dget d ''renewal_at'' = time_value (fa_renewal_at f)
     \<and> dget d ''served'' = PStr (fa_served f) \<and> dget d ''renewal'' = PStr (fa_renewal f)
     \<and> fa_served f \<in> {''MATCH'', ''MISMATCH'', ''UNKNOWN''}
     \<and> fa_renewal f \<in> {''SUCCESS'', ''FAILURE'', ''UNKNOWN''}
     \<and> (\<forall>t. fa_observed f = Some t \<longrightarrow> 0 \<le> t \<and> t \<le> now) \<and> (\<forall>t. fa_expiry f = Some t \<longrightarrow> 0 \<le> t)
     \<and> (\<forall>t. fa_renewal_at f = Some t \<longrightarrow> 0 \<le> t \<and> t \<le> now)"

definition facts_condition :: "int \<Rightarrow> facts \<Rightarrow> string \<times> string" where
  "facts_condition now f = condition now (fa_observed f) (fa_expiry f) (PStr (fa_served f))
     (PStr (fa_renewal f)) (fa_renewal_at f)"

lemma health_time_Inr:
  "health_time now d k = Inr u \<longleftrightarrow>
     (\<exists>t. dget d k = time_value t \<and> (\<forall>i. t = Some i \<longrightarrow> 0 \<le> i \<and> (k \<noteq> ''not_after'' \<longrightarrow> i \<le> now)))"
  by (auto simp: health_time_def time_value_def split: pyval.splits option.splits
      intro: exI [of _ None] exI [of _ "Some _"])

lemma health_Inr:
  assumes "health observation now = Inr report"
  obtains d f where "observation = PDict d" "observes d now f"
    "dget report ''state'' = PStr (fst (facts_condition now f))"
    "dget report ''reason'' = PStr (snd (facts_condition now f))"
    "dget report ''observed_at'' = time_value (fa_observed f)"
    "dget report ''producer'' = PStr ''direct-viewer-tls''" "dget report ''capability'' = PStr ''Security''"
proof -
  obtain d where d: "observation = PDict d" using assms by (auto simp: health_def split: pyval.splits)
  note a = assms [unfolded d]
  obtain s r where s: "dget d ''served'' = PStr s" "s \<in> {''MATCH'', ''MISMATCH'', ''UNKNOWN''}"
      "dget d ''renewal'' = PStr r" "r \<in> {''SUCCESS'', ''FAILURE'', ''UNKNOWN''}"
    and k: "dkeys d = set HEALTH_FIELDS"
    and t: "health_time now d ''observed_at'' = Inr ()" "health_time now d ''not_after'' = Inr ()"
      "health_time now d ''renewal_at'' = Inr ()"
    using a by (auto simp: health_def seq_res_Inr_iff split: if_splits)
  obtain ob ex re where v: "dget d ''observed_at'' = time_value ob" "dget d ''not_after'' = time_value ex"
    "dget d ''renewal_at'' = time_value re"
    "\<And>i. ob = Some i \<Longrightarrow> 0 \<le> i \<and> i \<le> now" "\<And>i. ex = Some i \<Longrightarrow> 0 \<le> i" "\<And>i. re = Some i \<Longrightarrow> 0 \<le> i \<and> i \<le> now"
    using t unfolding health_time_Inr by auto
  let ?f = "\<lparr>fa_observed = ob, fa_expiry = ex, fa_served = s, fa_renewal = r, fa_renewal_at = re\<rparr>"
  have "observes d now ?f" using s k v by (simp add: observes_def)
  moreover have "dget report ''state'' = PStr (fst (facts_condition now ?f))"
    "dget report ''reason'' = PStr (snd (facts_condition now ?f))"
    "dget report ''observed_at'' = time_value ob"
    "dget report ''producer'' = PStr ''direct-viewer-tls''" "dget report ''capability'' = PStr ''Security''"
    using a s k t v(1-3)
    by (auto simp: health_def seq_res_Inr_iff facts_condition_def dget_def split: if_splits prod.splits)
  ultimately show thesis using that d by simp
qed

text \<open>The conditions the fact can carry.\<close>

definition CONDITIONS :: "(string \<times> string) list" where
  "CONDITIONS = [(''FAILED'', ''certificate-expired''), (''FAILED'', ''served-certificate-mismatch''),
     (''UNKNOWN'', ''observation-unavailable''), (''UNKNOWN'', ''renewal-observation-unavailable''),
     (''DEGRADED'', ''renewal-failed''), (''DEGRADED'', ''certificate-near-expiry''),
     (''HEALTHY'', ''certificate-current'')]"

lemma condition_vocabulary: "facts_condition now f \<in> set CONDITIONS"
  by (simp add: facts_condition_def condition_def CONDITIONS_def Let_def)

lemma healthy_iff:
  assumes "fa_served f \<in> {''MATCH'', ''MISMATCH'', ''UNKNOWN''}"
    and "fa_renewal f \<in> {''SUCCESS'', ''FAILURE'', ''UNKNOWN''}"
  shows "fst (facts_condition now f) = ''HEALTHY'' \<longleftrightarrow>
     fa_served f = ''MATCH'' \<and> fa_renewal f = ''SUCCESS''
     \<and> (\<exists>t e r. fa_observed f = Some t \<and> 0 \<le> now - t \<and> now - t \<le> OBSERVATION_FRESHNESS_SECONDS
          \<and> fa_expiry f = Some e \<and> EXPIRY_WARNING_SECONDS < e - now
          \<and> fa_renewal_at f = Some r \<and> now - r \<le> 2 * OBSERVATION_FRESHNESS_SECONDS)"
  using assms
  by (auto simp: facts_condition_def condition_def recently_def Let_def EXPIRY_WARNING_SECONDS_def
      OBSERVATION_FRESHNESS_SECONDS_def split: option.splits if_splits)

lemma observes_unique: "observes d now f \<Longrightarrow> observes d now' g \<Longrightarrow> f = g"
  by (rule facts.equality) (auto simp: observes_def dest: arg_cong [of "time_value _" _ time_of])


section \<open>Serving material\<close>

text \<open>What the library documents of its PEM encoders and loaders.\<close>

definition pem_body :: "string \<Rightarrow> bool" where
  "pem_body b \<longleftrightarrow> b \<noteq> [] \<and> list_all (\<lambda>c. alnum_char c \<or> c \<in> set ''+/='' \<or> c = CHR 0x0A) b"

definition armoured :: "string \<Rightarrow> string \<Rightarrow> string" where
  "armoured what b = ''-----BEGIN '' @ what @ ''-----'' @ [CHR 0x0A] @ b @ [CHR 0x0A] @ ''-----END '' @ what @ ''-----'' @ [CHR 0x0A]"

definition pem_library :: "('c, 'k) x509_library \<Rightarrow> bool" where
  "pem_library lib \<longleftrightarrow>
     (\<forall>c. \<exists>b. pem_body b \<and> certificate_pem lib c = armoured ''CERTIFICATE'' b)
     \<and> (\<forall>k. \<exists>b. pem_body b \<and> private_key_pem lib k = armoured ''PRIVATE KEY'' b)
     \<and> (\<forall>cs. cs \<noteq> [] \<longrightarrow> load_pem_x509_certificates lib (concat (map (certificate_pem lib) cs)) = Inr cs)
     \<and> (\<forall>k. load_pem_private_key lib (private_key_pem lib k) = Inr k)
     \<and> (\<forall>s cs. load_pem_x509_certificates lib s = Inr cs \<longrightarrow>
          unspaced (concat (pem_blocks s)) = unspaced s \<longrightarrow> length cs = length (pem_blocks s))"

lemma pem_laws:
  assumes "pem_library lib"
  shows "\<exists>b. pem_body b \<and> certificate_pem lib c = armoured ''CERTIFICATE'' b"
    and "\<exists>b. pem_body b \<and> private_key_pem lib k = armoured ''PRIVATE KEY'' b"
    and "cs \<noteq> [] \<Longrightarrow> load_pem_x509_certificates lib (concat (map (certificate_pem lib) cs)) = Inr cs"
    and "load_pem_private_key lib (private_key_pem lib k) = Inr k"
    and "load_pem_x509_certificates lib s = Inr cs \<Longrightarrow> unspaced (concat (pem_blocks s)) = unspaced s \<Longrightarrow>
      length cs = length (pem_blocks s)"
  using assms unfolding pem_library_def by simp_all

definition block_of :: "string \<Rightarrow> string" where
  "block_of b = BEGIN_CERTIFICATE @ [CHR 0x0A] @ b @ [CHR 0x0A] @ END_CERTIFICATE"

lemma armoured_block: "armoured ''CERTIFICATE'' b = block_of b @ [CHR 0x0A]"
  by (simp add: armoured_def block_of_def BEGIN_CERTIFICATE_def END_CERTIFICATE_def)

lemma base64_simps [simp]: "byte_space CHR 0x0A" "base64_char CHR 0x0A" "\<not> base64_char CHR ''-''"
  "\<not> byte_space CHR ''-''"
  by (simp_all add: byte_space_def base64_char_def Let_def alnum_char_def lower_char_def upper_char_def
      digit_char_def less_eq_char_def)

lemma body_base64: "pem_body b \<Longrightarrow> list_all base64_char b"
  unfolding pem_body_def list_all_iff by (metis base64_char_def base64_simps(2))

lemma takeWhile_all: "list_all P xs \<Longrightarrow> \<not> P y \<Longrightarrow> takeWhile P (xs @ y # ys) = xs"
  by (induction xs) auto

lemma pem_block_run:
  assumes "list_all base64_char body" and "2 \<le> length body" and "byte_space (hd body)"
  shows "pem_block (BEGIN_CERTIFICATE @ body @ END_CERTIFICATE @ rest) = Some (BEGIN_CERTIFICATE @ body @ END_CERTIFICATE)"
proof -
  have "takeWhile base64_char (body @ END_CERTIFICATE @ rest) = body"
    using takeWhile_all [of base64_char body "CHR ''-''"] assms(1) by (simp add: END_CERTIFICATE_def)
  moreover have "hd (body @ x) = hd body" for x using assms(2) by (cases body) auto
  ultimately show ?thesis
    using assms(2,3) unfolding pem_block_def Let_def
    by (simp only: starts_with_append append_assoc drop_append append_eq_conv_conj if_True if_False
        drop_all[OF order_refl] diff_self_eq_0 drop0 append_Nil simp_thms)
qed

lemma pem_block_armoured:
  assumes "pem_body b"
  shows "pem_block (block_of b @ rest) = Some (block_of b)"
  using pem_block_run [of "[CHR 0x0A] @ b @ [CHR 0x0A]" rest] body_base64 [OF assms]
  by (simp add: block_of_def)

lemma pem_block_newline [simp]: "pem_block (CHR 0x0A # s) = None"
  by (simp add: pem_block_def BEGIN_CERTIFICATE_def)

lemma pem_blocks_armoured:
  assumes "pem_body b"
  shows "pem_blocks (armoured ''CERTIFICATE'' b @ rest) = block_of b # pem_blocks rest"
proof -
  obtain c s where cs: "block_of b @ [CHR 0x0A] @ rest = c # s"
    by (simp add: block_of_def BEGIN_CERTIFICATE_def)
  have "pem_blocks (block_of b @ [CHR 0x0A] @ rest) =
      block_of b # pem_blocks (drop (length (block_of b)) (block_of b @ [CHR 0x0A] @ rest))"
    using pem_block_armoured [OF assms, of "[CHR 0x0A] @ rest"] unfolding cs by simp
  then show ?thesis by (simp add: armoured_block)
qed

lemma chain_blocks:
  assumes "pem_library lib"
  shows "length (pem_blocks (concat (map (certificate_pem lib) cs))) = length cs"
    and "unspaced (concat (pem_blocks (concat (map (certificate_pem lib) cs)))) =
      unspaced (concat (map (certificate_pem lib) cs))"
proof (induction cs)
  case (Cons c cs)
  obtain b where b: "pem_body b" "certificate_pem lib c = armoured ''CERTIFICATE'' b"
    using pem_laws(1) [OF assms, of c] by blast
  case 1
  show ?case using Cons(1) by (simp add: b pem_blocks_armoured)
  case 2
  show ?case using Cons(2) by (simp add: b pem_blocks_armoured) (simp add: unspaced_def armoured_block)
qed (simp_all add: unspaced_def)

text \<open>In a chain, a space comes before a \<open>C\<close>; in a key marker it does not.\<close>

fun spaced :: "string \<Rightarrow> bool" where
  "spaced [] = True"
| "spaced (c # s) = ((c = CHR '' '' \<longrightarrow> s \<noteq> [] \<and> hd s = CHR ''C'') \<and> spaced s)"

lemma spaced_body: "CHR '' '' \<notin> set b \<Longrightarrow> spaced (b @ s) \<longleftrightarrow> spaced s"
  by (induction b) auto

lemma spaced_suffix: "spaced (t @ s) \<Longrightarrow> spaced s"
  by (induction t) auto

lemma spaced_certificate:
  assumes "pem_body b"
  shows "spaced (armoured ''CERTIFICATE'' b)"
proof -
  have "CHR '' '' \<notin> set b"
    using assms by (auto simp: pem_body_def list_all_iff alnum_char_def lower_char_def upper_char_def
        digit_char_def less_eq_char_def)
  then show ?thesis by (simp add: armoured_def spaced_body)
qed

lemma spaced_marker: "m \<in> set KEY_MARKERS \<Longrightarrow> \<not> spaced (m @ u)"
  by (auto simp: KEY_MARKERS_def)

lemma marker_no_newline: "m \<in> set KEY_MARKERS \<Longrightarrow> CHR 0x0A \<notin> set m"
  by (auto simp: KEY_MARKERS_def)

lemma no_marker:
  assumes "spaced (t @ [CHR 0x0A])"
  shows "\<not> key_starts (t @ [CHR 0x0A] @ rest)"
proof
  assume "key_starts (t @ [CHR 0x0A] @ rest)"
  then obtain m u where m: "m \<in> set KEY_MARKERS" "t @ [CHR 0x0A] @ rest = m @ u"
    by (auto simp: key_starts_def list_ex_iff starts_with_iff)
  then obtain v where "t @ [CHR 0x0A] = m @ v \<or> m = (t @ [CHR 0x0A]) @ v"
    by (metis append_assoc append_eq_append_conv2)
  then show False
    using assms spaced_marker [OF m(1)] marker_no_newline [OF m(1)] by auto
qed

lemma key_position_skip:
  "spaced (t @ [CHR 0x0A]) \<Longrightarrow>
    key_position (t @ [CHR 0x0A] @ rest) = map_option ((+) (Suc (length t))) (key_position rest)"
proof (induction t)
  case Nil
  show ?case using no_marker [of "[]" rest] Nil by (cases "key_position rest") simp_all
next
  case (Cons c t)
  then show ?case using no_marker [of "c # t" rest] by (cases "key_position rest") auto
qed

lemma key_position_chain:
  assumes "pem_library lib"
  shows "key_position (concat (map (certificate_pem lib) cs) @ key) =
    map_option ((+) (length (concat (map (certificate_pem lib) cs)))) (key_position key)"
proof (induction cs)
  case Nil
  show ?case by (cases "key_position key") simp_all
next
  case (Cons c cs)
  obtain b where b: "pem_body b" "certificate_pem lib c = block_of b @ [CHR 0x0A]"
    using pem_laws(1) [OF assms, of c] armoured_block by auto
  have "spaced (block_of b @ [CHR 0x0A])" using spaced_certificate [OF b(1)] by (simp add: armoured_block)
  from key_position_skip [OF this] Cons show ?case
    by (cases "key_position key") (simp_all add: b(2))
qed

lemma key_position_key:
  assumes "pem_library lib"
  shows "key_position (private_key_pem lib k) = Some 0"
proof -
  obtain b where "private_key_pem lib k = armoured ''PRIVATE KEY'' b"
    using pem_laws(2) [OF assms, of k] by blast
  then show ?thesis by (simp add: armoured_def key_starts_def KEY_MARKERS_def)
qed

lemma split_serving_material:
  assumes "pem_library lib"
  shows "split_serving (concat (map (certificate_pem lib) cs) @ private_key_pem lib k) =
    Inr (concat (map (certificate_pem lib) cs), private_key_pem lib k)"
  by (simp add: split_serving_def key_position_chain [OF assms] key_position_key [OF assms])

lemma matches_lit: "matches (rx_lit l) l"
  using m_seq [OF m_cls] by (induction l) (fastforce simp: rx_chr_def m_eps)+

lemma matches_plus: "w \<noteq> [] \<Longrightarrow> list_all P w \<Longrightarrow> matches (rx_plus (Cls P)) w"
  using fullmatch_plus_cls unfolding fullmatch_iff by blast

lemma key_block_matches:
  assumes "pem_library lib"
  shows "fullmatch KEY_BLOCK (private_key_pem lib k)"
proof -
  obtain b where b: "pem_body b" "private_key_pem lib k = armoured ''PRIVATE KEY'' b"
    using pem_laws(2) [OF assms, of k] by blast
  have parts: "armoured ''PRIVATE KEY'' b = ''-----BEGIN '' @ [] @ ''PRIVATE KEY-----'' @ [CHR 0x0A]
      @ (b @ [CHR 0x0A]) @ ''-----END '' @ [] @ ''PRIVATE KEY-----'' @ [CHR 0x0A]"
    by (simp add: armoured_def)
  have "matches KEY_NAMES []" by (simp add: KEY_NAMES_def)
  moreover have "matches (rx_plus (Cls byte_space)) [CHR 0x0A]" by (rule matches_plus) simp_all
  moreover have "matches (rx_plus (Cls base64_char)) (b @ [CHR 0x0A])"
    using body_base64 [OF b(1)] by (intro matches_plus) simp_all
  moreover have "matches (Star (Cls byte_space)) [CHR 0x0A]" by (simp add: matches_star_cls)
  ultimately show ?thesis
    unfolding fullmatch_iff KEY_BLOCK_def b(2) parts by (intro m_seq matches_lit)
qed

text \<open>What an admission returns.\<close>

lemma admit_certificate_Inr:
  assumes "admit_certificate lib fullchain private_key names now fresh expired = Inr c" and "pem_library lib"
  obtains certs key leaf rest where
    "certs = leaf # rest" "2 \<le> length certs" "length certs \<le> 5"
    "c_pem c = concat (map (certificate_pem lib) certs) @ private_key_pem lib key"
    "c_leaf c = certificate_pem lib leaf" "c_chain c = concat (map (certificate_pem lib) rest)"
    "c_not_before c = not_valid_before lib leaf" "c_not_after c = not_valid_after lib leaf"
    "\<And>later lax. c_not_before c \<le> later \<Longrightarrow> later < c_not_after c \<or> lax \<Longrightarrow>
      bind_res (decoded_material lib (concat (map (certificate_pem lib) certs)) (private_key_pem lib key))
        (admit_material lib names later False lax) = Inr c"
proof -
  obtain chain key_text where raw: "fullchain = PBytes chain" "private_key = PBytes key_text"
    using assms(1) by (auto simp: admit_certificate_def split: pyval.splits)
  have n: "2 \<le> length (pem_blocks chain)" "length (pem_blocks chain) \<le> 5"
    "unspaced (concat (pem_blocks chain)) = unspaced chain"
    and run: "bind_res (decoded_material lib chain key_text) (admit_material lib names now fresh expired) = Inr c"
    using assms(1) raw by (auto simp: admit_certificate_def Let_def split: if_splits)
  obtain m where m: "decoded_material lib chain key_text = Inr m" "admit_material lib names now fresh expired m = Inr c"
    using run by (auto simp: bind_res_Inr_iff)
  have dec: "decode_material r = Inr v \<longleftrightarrow> r = Inr v" for r :: "'x res" and v
    by (cases r) (auto simp: decode_material_def split: exc.splits)
  obtain certs key where l: "load_pem_x509_certificates lib chain = Inr certs" "load_pem_private_key lib key_text = Inr key"
    and ext: "(case certs of [] \<Rightarrow> Inl (Unmodelled ''IndexError'') | leaf # _ \<Rightarrow>
       bind_res (extension (subject_alternative_name lib leaf)) (\<lambda>san.
       bind_res (extension (extended_key_usage lib leaf)) (\<lambda>usage.
       bind_res (extension (basic_constraints_ca lib leaf)) (\<lambda>ca.
       bind_res (extension (digital_signature lib leaf)) (\<lambda>signs.
       Inr (certs, key, leaf, san, usage, ca, signs)))))) = Inr m"
    using m(1) unfolding decoded_material_def dec bind_res_Inr_iff by blast
  obtain leaf rest where certs: "certs = leaf # rest" using ext by (cases certs) simp_all
  obtain san usage ca signs where d: "m = (certs, key, leaf, san, usage, ca, signs)"
    using ext certs by (auto simp: bind_res_Inr_iff)
  have len: "length certs = length (pem_blocks chain)" using pem_laws(5) [OF assms(2) l(1) n(3)] .
  have "load_pem_x509_certificates lib (concat (map (certificate_pem lib) certs)) = Inr certs"
    using pem_laws(3) [OF assms(2), of certs] certs by simp
  then have again: "decoded_material lib (concat (map (certificate_pem lib) certs)) (private_key_pem lib key) = Inr m"
    using m(1) l pem_laws(4) [OF assms(2), of key] unfolding decoded_material_def by simp
  have c: "c_pem c = concat (map (certificate_pem lib) certs) @ private_key_pem lib key"
    "c_leaf c = certificate_pem lib leaf" "c_chain c = concat (map (certificate_pem lib) rest)"
    "c_not_before c = not_valid_before lib leaf" "c_not_after c = not_valid_after lib leaf"
    using m(2) d certs by (auto simp: admit_material_def Let_def split: if_splits prod.splits)
  have "admit_material lib names later False lax m = Inr c"
    if "c_not_before c \<le> later" "later < c_not_after c \<or> lax" for later lax
    using m(2) d that c(4,5) by (auto simp: admit_material_def Let_def split: if_splits prod.splits)
  then show thesis
    using that [of certs leaf rest key] certs n(1,2) len c again by simp
qed

text \<open>Property C25: what the lifecycle publishes is what it later reads: the serving file of an
  admitted certificate splits into its chain and its key, and reading it back admits the same
  certificate at every later time of its validity (and after it, for a caller that allows
  expired material), as long as the file is within the size limit.\<close>

theorem serving_material_is_readmitted:
  assumes "admit_certificate lib fullchain private_key names now fresh expired = Inr c"
    and "pem_library lib" and "length (c_pem c) \<le> MAX_PEM"
    and "c_not_before c \<le> later" and "later < c_not_after c \<or> lax"
  shows "read_certificate lib (c_pem c) names later False lax = Inr c \<and>
    (\<exists>key. split_serving (c_pem c) = Inr (c_leaf c @ c_chain c, key) \<and> c_pem c = c_leaf c @ c_chain c @ key)"
proof -
  obtain certs key leaf rest where m: "certs = leaf # rest" "2 \<le> length certs" "length certs \<le> 5"
    "c_pem c = concat (map (certificate_pem lib) certs) @ private_key_pem lib key"
    "c_leaf c = certificate_pem lib leaf" "c_chain c = concat (map (certificate_pem lib) rest)"
    "bind_res (decoded_material lib (concat (map (certificate_pem lib) certs)) (private_key_pem lib key))
        (admit_material lib names later False lax) = Inr c"
    using admit_certificate_Inr [OF assms(1,2)] assms(4,5) by metis
  let ?chain = "concat (map (certificate_pem lib) certs)" and ?key = "private_key_pem lib key"
  have split: "split_serving (c_pem c) = Inr (?chain, ?key)"
    using split_serving_material [OF assms(2)] m(4) by simp
  have "?key \<noteq> []" using pem_laws(2) [OF assms(2), of key] by (auto simp: armoured_def)
  then have "admit_certificate lib (PBytes ?chain) (PBytes ?key) names later False lax = Inr c"
    using m(2,3,4,7) assms(3) chain_blocks [OF assms(2), of certs] key_block_matches [OF assms(2), of key]
    unfolding admit_certificate_def by (simp add: Let_def)
  then have "read_certificate lib (c_pem c) names later False lax = Inr c"
    by (simp add: read_certificate_def split)
  then show ?thesis using split m(1,4-6) by simp
qed

section \<open>The ACME port\<close>

text \<open>A TCP segment as the two chains see it.\<close>

record segment =
  sg_version :: nat
  sg_destination :: int
  sg_interface :: string
  sg_owner :: int
  sg_port :: int

text \<open>The documented meaning of the match expressions the policy uses.\<close>

definition acme_meaning :: "(pyval \<Rightarrow> segment \<Rightarrow> bool) \<Rightarrow> bool" where
  "acme_meaning m \<longleftrightarrow>
     (\<forall>i p. m (acme_match (acme_meta ''iifname'') (PStr i) ''!='') p \<longleftrightarrow> sg_interface p \<noteq> i)
     \<and> (\<forall>k p. m (acme_match (acme_payload ''tcp'' ''dport'') (PInt k) ''=='') p \<longleftrightarrow> sg_port p = k)
     \<and> (\<forall>p. m (acme_match (acme_payload ''ip'' ''daddr'') loopback4 ''=='') p \<longleftrightarrow>
          sg_version p = 4 \<and> sg_destination p div 2 ^ 24 = 127)
     \<and> (\<forall>p. m (acme_match (acme_payload ''ip6'' ''daddr'') (PStr ''::1'') ''=='') p \<longleftrightarrow>
          sg_version p = 6 \<and> sg_destination p = 1)
     \<and> (\<forall>us p. m (acme_match (acme_meta ''skuid'') (PDict [(''set'', PList (map PInt us))]) ''!='') p \<longleftrightarrow>
          sg_owner p \<notin> set us)"

text \<open>Property C27: under the projected policy the ACME port is reached from the loopback interface
  only, over IPv4 loopback addresses by the administrator and the proxy account only, and never
  over the IPv6 loopback address; every other port is left alone.\<close>

theorem acme_port_is_isolated:
  assumes "acme_meaning m" and "policy_projection (PInt u) = Inr objects"
  shows "(passes m objects ''acme_input'' p \<longleftrightarrow> sg_port p \<noteq> ACME_PORT \<or> sg_interface p = ''lo'')
    \<and> (passes m objects ''acme_output'' p \<longleftrightarrow> sg_port p \<noteq> ACME_PORT \<or>
        (sg_version p = 4 \<and> sg_destination p div 2 ^ 24 = 127 \<longrightarrow> sg_owner p \<in> {0, u})
        \<and> \<not> (sg_version p = 6 \<and> sg_destination p = 1))
    \<and> 0 < u \<and> u < 1000"
proof -
  have objects: "objects =
     [PDict [(''table'', PDict [(''family'', PStr ''inet''), (''name'', PStr ''secpal_acme'')])]]
     @ map acme_chain [(''acme_input'', ''input''), (''acme_output'', ''output'')]
     @ [acme_rule ''acme_input'' [acme_match (acme_meta ''iifname'') (PStr ''lo'') ''!='', to_acme_port,
          reject_with ''icmpx''],
        acme_rule ''acme_output'' [acme_match (acme_payload ''ip'' ''daddr'') loopback4 ''=='', to_acme_port,
          acme_match (acme_meta ''skuid'') (PDict [(''set'', PList [PInt 0, PInt u])]) ''!='',
          reject_with ''icmp''],
        acme_rule ''acme_output'' [acme_match (acme_payload ''ip6'' ''daddr'') (PStr ''::1'') ''=='',
          to_acme_port, reject_with ''icmpv6'']]"
    and u: "0 < u" "u < 1000"
    using assms(2) by (auto simp: policy_projection_def acme_uid_def split: if_splits)
  have other: "rule_in c (PDict [(''table'', x)]) = []" "rule_in c (acme_chain y) = []" for c x y
    by (simp_all add: rule_in_other acme_chain_def split: prod.splits)
  have rule: "rule_in c (acme_rule c' es) = (if c' = c then es else [])" for c c' es
    by (simp add: acme_rule_def ACME_TABLE_def rule_in_rule)
  have kinds: "\<not> is_reject (acme_match a b c)" "\<not> is_reject to_acme_port" "is_reject (reject_with k)" for a b c k
    by (simp_all add: is_reject_def acme_match_def to_acme_port_def reject_with_def)
  have port: "m to_acme_port p \<longleftrightarrow> sg_port p = ACME_PORT"
    using assms(1) by (simp add: acme_meaning_def to_acme_port_def)
  have "m (acme_match (acme_meta ''skuid'') (PDict [(''set'', PList (map PInt [0, u]))]) ''!='') p
      \<longleftrightarrow> sg_owner p \<notin> set [0, u]"
    using assms(1) unfolding acme_meaning_def by blast
  then have owner: "m (acme_match (acme_meta ''skuid'') (PDict [(''set'', PList [PInt 0, PInt u])]) ''!='') p
      \<longleftrightarrow> sg_owner p \<notin> {0, u}"
    by simp
  have rest: "m (acme_match (acme_meta ''iifname'') (PStr ''lo'') ''!='') p \<longleftrightarrow> sg_interface p \<noteq> ''lo''"
    "m (acme_match (acme_payload ''ip'' ''daddr'') loopback4 ''=='') p \<longleftrightarrow>
       sg_version p = 4 \<and> sg_destination p div 2 ^ 24 = 127"
    "m (acme_match (acme_payload ''ip6'' ''daddr'') (PStr ''::1'') ''=='') p \<longleftrightarrow>
       sg_version p = 6 \<and> sg_destination p = 1"
    using assms(1) unfolding acme_meaning_def by blast+
  show ?thesis
    using u unfolding passes_def objects by (auto simp: other rule kinds port owner rest simp del: power.simps)
qed

section \<open>Witnesses\<close>

definition sample_body :: string where "sample_body = ''MIIB''"

definition sample_library :: "(unit, unit) x509_library" where
  "sample_library = \<lparr>load_pem_x509_certificates = (\<lambda>s. Inr (replicate (length (pem_blocks s)) ())),
     load_pem_private_key = (\<lambda>_. Inr ()),
     subject_alternative_name = (\<lambda>_. Some (2, [''b.example'', ''a.example''])),
     extended_key_usage = (\<lambda>_. Some [SERVER_AUTH]), basic_constraints_ca = (\<lambda>_. Some False),
     digital_signature = (\<lambda>_. Some True), class_of_key = (\<lambda>_. Ec ''secp256r1''),
     signature_hash = (\<lambda>_. ''sha256''), public_of_key = (\<lambda>_. []), public_of_certificate = (\<lambda>_. []),
     not_valid_before = (\<lambda>_. 1000), not_valid_after = (\<lambda>_. 1000 + 90 * 86400),
     certificate_pem = (\<lambda>_. armoured ''CERTIFICATE'' sample_body),
     private_key_pem = (\<lambda>_. armoured ''PRIVATE KEY'' sample_body), fingerprint_hex = (\<lambda>_. [])\<rparr>"

lemma sample_body_pem: "pem_body sample_body"
  by (simp add: pem_body_def sample_body_def alnum_char_def upper_char_def)

lemma sample_library_pem: "pem_library sample_library"
proof -
  have "pem_blocks (concat (map (\<lambda>_. armoured ''CERTIFICATE'' sample_body) cs)) =
      map (\<lambda>_. block_of sample_body) cs" for cs :: "unit list"
    by (induction cs) (simp_all add: pem_blocks_armoured [OF sample_body_pem])
  then show ?thesis
    using sample_body_pem by (auto simp: pem_library_def sample_library_def intro: nth_equalityI)
qed

definition sample_chain :: string where
  "sample_chain = armoured ''CERTIFICATE'' sample_body @ armoured ''CERTIFICATE'' sample_body"

definition sample_certificate :: certificate where
  "sample_certificate = \<lparr>c_pem = sample_chain @ armoured ''PRIVATE KEY'' sample_body,
     c_leaf = armoured ''CERTIFICATE'' sample_body, c_chain = armoured ''CERTIFICATE'' sample_body,
     c_fingerprint = [], c_not_before = 1000, c_not_after = 1000 + 90 * 86400,
     c_names = [''a.example'', ''b.example'']\<rparr>"

lemma sample_admitted:
  "admit_certificate sample_library (PBytes sample_chain) (PBytes (armoured ''PRIVATE KEY'' sample_body))
     [''a.example'', ''b.example''] 2000 True False = Inr sample_certificate"
  by code_simp

theorem serving_material_is_readmitted_witness:
  "read_certificate sample_library (c_pem sample_certificate) [''a.example'', ''b.example''] (1000 + 80 * 86400)
     False False = Inr sample_certificate"
  using serving_material_is_readmitted [OF sample_admitted sample_library_pem, of "1000 + 80 * 86400" False]
  by (simp add: sample_certificate_def sample_chain_def MAX_PEM_def armoured_def sample_body_def)

definition sample_observation :: pyval where
  "sample_observation = PDict [(''observed_at'', PInt 1000), (''not_after'', PInt 9000000),
     (''served'', PStr ''MATCH''), (''renewal'', PStr ''SUCCESS''), (''renewal_at'', PInt 900)]"


definition sample_meaning :: "pyval \<Rightarrow> segment \<Rightarrow> bool" where
  "sample_meaning e p \<longleftrightarrow>
     (\<exists>i. e = acme_match (acme_meta ''iifname'') (PStr i) ''!='' \<and> sg_interface p \<noteq> i)
     \<or> (\<exists>k. e = acme_match (acme_payload ''tcp'' ''dport'') (PInt k) ''=='' \<and> sg_port p = k)
     \<or> (e = acme_match (acme_payload ''ip'' ''daddr'') loopback4 ''==''
         \<and> sg_version p = 4 \<and> sg_destination p div 2 ^ 24 = 127)
     \<or> (e = acme_match (acme_payload ''ip6'' ''daddr'') (PStr ''::1'') ''=='' \<and> sg_version p = 6 \<and> sg_destination p = 1)
     \<or> (\<exists>us. e = acme_match (acme_meta ''skuid'') (PDict [(''set'', PList (map PInt us))]) ''!='' \<and> sg_owner p \<notin> set us)"

lemma sample_meaning_law: "acme_meaning sample_meaning"
proof -
  have "inj PInt" by (simp add: inj_def)
  then show ?thesis
    by (auto simp: acme_meaning_def sample_meaning_def acme_match_def acme_meta_def acme_payload_def loopback4_def
        dest: map_injective)
qed

theorem acme_port_is_isolated_witness:
  "\<exists>objects. policy_projection (PInt 188) = Inr objects
    \<and> \<not> passes sample_meaning objects ''acme_output''
        \<lparr>sg_version = 4, sg_destination = 127 * 2 ^ 24 + 1, sg_interface = [], sg_owner = 1000, sg_port = 18084\<rparr>"
proof -
  obtain objects where obj: "policy_projection (PInt 188) = Inr objects"
    by (simp add: policy_projection_def acme_uid_def)
  from acme_port_is_isolated [OF sample_meaning_law this,
      of "\<lparr>sg_version = 4, sg_destination = 127 * 2 ^ 24 + 1, sg_interface = [], sg_owner = 1000, sg_port = 18084\<rparr>"] obj
  show ?thesis by (auto simp: ACME_PORT_def)
qed

end
