(* ===== verification/Public_Findings_Facts.thy ===== *)
theory Public_Findings_Facts
  imports Public_Findings Viewer_Tls_Facts Canonical_Digest
begin

text \<open>
  What the findings of \<open>scripts/public_findings.py\<close> guarantee: an accepted finding is the one
  canonical document of its facts and is accepted again unchanged; the TLS finding carries
  the condition of the health fact; and a stream that notifications are delivered to holds the
  acknowledged envelopes, one per line, with at most one torn record, at the end.
\<close>

section \<open>Codes and sources\<close>

lemma fullmatch_code:
  "fullmatch (code_rx P Q) s \<longleftrightarrow> (\<exists>c cs. s = c # cs \<and> P c \<and> length cs \<le> 63 \<and> list_all Q cs)"
  using fullmatch_range_cls [of 0 63 Q] unfolding fullmatch_iff
  by (auto simp: code_rx_def matches_seq_cls)

definition dull :: "char \<Rightarrow> bool" where
  "dull c \<longleftrightarrow> alnum_char c \<or> c = CHR ''-'' \<or> c = CHR ''_''"

lemma dull_unescaped: "list_all dull s \<Longrightarrow> unescaped s"
proof -
  have "32 \<le> (of_char c :: nat) \<and> (of_char c :: nat) \<le> 126 \<and> c \<noteq> dquote \<and> c \<noteq> bslash" if "dull c" for c
  proof -
    have "alnum_char c \<Longrightarrow> 48 \<le> (of_char c :: nat) \<and> (of_char c :: nat) \<le> 122 \<and> c \<noteq> bslash"
      by (auto simp: alnum_char_def lower_char_def upper_char_def digit_char_def less_eq_char_def bslash_def)
    then show ?thesis using that by (auto simp: dull_def dquote_def bslash_def)
  qed
  then show "list_all dull s \<Longrightarrow> unescaped s" by (auto simp: unescaped_def list_all_iff)
qed

text \<open>A short string of code characters.\<close>

definition short_code :: "string \<Rightarrow> bool" where
  "short_code s \<longleftrightarrow> list_all dull s \<and> length s \<le> 64"

lemma short_codes:
  "fullmatch CODE s \<Longrightarrow> short_code s" "fullmatch CAPABILITY s \<Longrightarrow> short_code s"
  "fullmatch CONDITION s \<Longrightarrow> short_code s" "fullmatch SHA256 s \<Longrightarrow> short_code s"
  by (auto simp: CODE_def CAPABILITY_def CONDITION_def fullmatch_code short_code_def dull_def
      list_all_iff lower_alnum_def alnum_char_def dash_alnum_def is_sha256_def hex_char_def
      lower_char_def upper_char_def digit_char_def less_eq_char_def)

lemma is_digestE:
  assumes "is_digest v"
  obtains s where "v = PStr s" "short_code s"
  using assms short_codes(4) by (auto simp: is_digest_def is_code_def simp del: fullmatch_SHA256 split: pyval.splits)

definition wf_source :: "finding_source \<Rightarrow> bool" where
  "wf_source src \<longleftrightarrow> short_code (fs_producer src) \<and> short_code (fs_category src)
     \<and> short_code (fs_capability src)
     \<and> (\<forall>(c, r) \<in> fs_codes src. short_code c \<and> short_code r)"

lemma code_pair_short: "code_pair v = Some (c, r) \<Longrightarrow> short_code c \<and> short_code r"
  using short_codes by (auto simp: code_pair_def split: pyval.splits list.splits if_splits)

lemma new_source_wf:
  assumes "new_source p c cap codes f = Inr src"
  shows "wf_source src"
proof -
  have cat: "short_code s" if "s \<in> set CATEGORIES" for s
    using that by (auto simp: CATEGORIES_def short_code_def dull_def alnum_char_def lower_char_def)
  obtain pairs k where c: "codes = FrozenSet pairs" "f = PInt k"
    using assms by (auto simp: new_source_def split: pyset.splits pyval.splits)
  then have ok: "is_code CODE p" "c \<in> PStr ` set CATEGORIES" "is_code CAPABILITY cap"
      "\<forall>v \<in> pairs. code_pair v \<noteq> None"
    and src: "src = \<lparr>fs_producer = string_of p, fs_category = string_of c, fs_capability = string_of cap,
      fs_codes = (\<lambda>pair. the (code_pair pair)) ` pairs, fs_freshness = k\<rparr>"
    using assms by (simp_all add: new_source_def split: if_splits)
  have str: "fullmatch pattern (string_of v)" if "is_code pattern v" for pattern v
    using that by (simp add: is_code_def string_of_def split: pyval.splits)
  have "case the (code_pair v) of (a, b) \<Rightarrow> short_code a \<and> short_code b" if "v \<in> pairs" for v
    using ok(4) that code_pair_short [of v] by (cases "code_pair v") auto
  moreover have "short_code (string_of c)" using ok(2) cat by (auto simp: string_of_def)
  ultimately show ?thesis
    using short_codes(1) [OF str [OF ok(1)]] short_codes(2) [OF str [OF ok(3)]]
    by (auto simp: wf_source_def src)
qed

section \<open>The canonical document\<close>

definition finding_document :: "finding_source \<Rightarrow> string \<Rightarrow> string \<Rightarrow> string \<Rightarrow> string \<Rightarrow> int option \<Rightarrow> pydict" where
  "finding_document src subject evidence c r observed =
     [(''capability'', PStr (fs_capability src)), (''category'', PStr (fs_category src)),
      (''condition'', PStr c), (''evidence_sha256'', PStr evidence), (''observed_at'', time_value observed),
      (''producer'', PStr (fs_producer src)), (''reason'', PStr r), (''schema_version'', PInt 1),
      (''subject_sha256'', PStr subject)]"

text \<open>The observation time a condition may carry.\<close>

definition timely :: "finding_source \<Rightarrow> int \<Rightarrow> string \<Rightarrow> int option \<Rightarrow> bool" where
  "timely src now c observed \<longleftrightarrow>
     (case observed of None \<Rightarrow> c = ''UNKNOWN''
      | Some t \<Rightarrow> 0 \<le> t \<and> t \<le> now \<and> (c = ''UNKNOWN'' \<or> now - t \<le> fs_freshness src))"

lemma plain_finding: "plain (PDict (finding_document src s e c r t))"
  by (simp add: finding_document_def time_value_def split: option.splits)

lemma canon_finding: "canon (PDict (finding_document src s e c r t)) = PDict (finding_document src s e c r t)"
  by (simp add: finding_document_def time_value_def split: option.splits)

lemma finding_keys: "dkeys (finding_document src s e c r t) = set FINDING_FIELDS"
  by (auto simp: finding_document_def dkeys_def FINDING_FIELDS_def)

lemma finding_gets:
  "dget (finding_document src s e c r t) ''capability'' = PStr (fs_capability src)"
  "dget (finding_document src s e c r t) ''category'' = PStr (fs_category src)"
  "dget (finding_document src s e c r t) ''condition'' = PStr c"
  "dget (finding_document src s e c r t) ''evidence_sha256'' = PStr e"
  "dget (finding_document src s e c r t) ''observed_at'' = time_value t"
  "dget (finding_document src s e c r t) ''producer'' = PStr (fs_producer src)"
  "dget (finding_document src s e c r t) ''reason'' = PStr r"
  "dget (finding_document src s e c r t) ''schema_version'' = PInt 1"
  "dget (finding_document src s e c r t) ''subject_sha256'' = PStr s"
  by (simp_all add: finding_document_def dget_def)

lemma between_iff: "int_between l v h \<longleftrightarrow> (\<exists>i. v = PInt i \<and> l \<le> i \<and> i \<le> h)"
  by (simp add: int_between_def split: pyval.splits)

lemma time_value_cases:
  "v = PNone \<or> int_between 0 v now \<longleftrightarrow> (\<exists>t. v = time_value t \<and> (\<forall>i. t = Some i \<longrightarrow> 0 \<le> i \<and> i \<le> now))"
  by (auto simp: between_iff time_value_def split: option.splits intro: exI [of _ None] exI [of _ "Some _"])

text \<open>A dictionary with unique keys that passes the checks is the document of its facts, in some order.\<close>

lemma admit_finding_Inr:
  assumes "distinct (map fst d)"
  shows "admit_finding src (PStr s) (PStr e) now (PDict d) = Inr b \<longleftrightarrow>
    (\<exists>c r t. set d = set (finding_document src s e c r t) \<and> (c, r) \<in> fs_codes src \<and> timely src now c t
       \<and> dumps (PDict d) = Inr b)"
proof
  assume a: "admit_finding src (PStr s) (PStr e) now (PDict d) = Inr b"
  then have k: "dkeys d = set FINDING_FIELDS" and b: "dumps (PDict d) = Inr b"
    by (auto simp: admit_finding_def split: if_splits)
  obtain c r where cr: "dget d ''condition'' = PStr c" "dget d ''reason'' = PStr r" "(c, r) \<in> fs_codes src"
    using a by (auto simp: admit_finding_def is_str_iff string_of_def split: if_splits)
  obtain t where t: "dget d ''observed_at'' = time_value t" "\<And>i. t = Some i \<Longrightarrow> 0 \<le> i \<and> i \<le> now"
    using a time_value_cases [of "dget d ''observed_at''" now] by (auto simp: admit_finding_def split: if_splits)
  have "timely src now c t"
    using a cr t by (auto simp: admit_finding_def timely_def split: if_splits option.splits)
  moreover have "set d = set (finding_document src s e c r t)"
    unfolding set_of_gets [OF assms] k
    using a cr t by (auto simp: admit_finding_def finding_document_def FINDING_FIELDS_def split: if_splits)
  ultimately show "\<exists>c r t. set d = set (finding_document src s e c r t) \<and> (c, r) \<in> fs_codes src \<and>
      timely src now c t \<and> dumps (PDict d) = Inr b"
    using cr b by blast
next
  assume "\<exists>c r t. set d = set (finding_document src s e c r t) \<and> (c, r) \<in> fs_codes src \<and> timely src now c t
       \<and> dumps (PDict d) = Inr b"
  then obtain c r t where d: "set d = set (finding_document src s e c r t)" "(c, r) \<in> fs_codes src"
    "timely src now c t" "dumps (PDict d) = Inr b" by blast
  have "distinct (map fst (finding_document src s e c r t))" by (simp add: finding_document_def)
  then have "map_of d = map_of (finding_document src s e c r t)"
    using map_of_inject_set [OF assms] d(1) by blast
  then have "dget d k = dget (finding_document src s e c r t) k" for k by (simp add: dget_def)
  moreover have "dkeys d = set FINDING_FIELDS"
    using d(1) finding_keys [of src s e c r t] by (simp add: dkeys_def)
  ultimately show "admit_finding src (PStr s) (PStr e) now (PDict d) = Inr b"
    using d(2-4) by (auto simp: admit_finding_def finding_gets string_of_def timely_def time_value_def
        int_between_def time_of_def split: option.splits)
qed

section \<open>An accepted finding\<close>

lemma finding_pairs_append: "distinct (map fst (a @ d)) \<Longrightarrow> finding_pairs a d = Inr (PDict (a @ d))"
proof (induction d arbitrary: a)
  case (Cons x d)
  obtain k v where x: "x = (k, v)" by (cases x)
  with Cons.prems have "k \<notin> dkeys a" by (auto simp: dkeys_def)
  with Cons x show ?case by simp
qed simp

lemma closing_finding: "closing_hooks finding_hooks"
  by (simp add: closing_hooks_def finding_hooks_def finding_pairs_append)

lemma finding_pairs_distinct: "finding_pairs a d = Inr v \<Longrightarrow> distinct (map fst a) \<Longrightarrow>
    \<exists>d'. v = PDict d' \<and> distinct (map fst d')"
  by (induction a d rule: finding_pairs.induct) (auto simp: dkeys_def split: if_splits)

lemma loaded_distinct: "bytes_loads finding_hooks b = Inr (PDict d) \<Longrightarrow> distinct (map fst d)"
  using finding_pairs_distinct [of "[]"] by (fastforce simp: finding_hooks_def dest!: loaded_dict)

lemma finding_json_Inr: "finding_json r = Inr v \<longleftrightarrow> r = Inr v"
  by (cases r) (auto simp: finding_json_def split: exc.splits)

text \<open>The canonical text of a document, and how long it can be.\<close>

lemma quote_short: "short_code s \<Longrightarrow> quote_str s = [dquote] @ s @ [dquote]"
  by (simp add: short_code_def quote_unescaped dull_unescaped)

lemma length_time:
  assumes "\<And>i. t = Some i \<Longrightarrow> 0 \<le> i \<and> i < 2 ^ 63"
  obtains s where "ser (time_value t) = Inr s" "length s \<le> 19"
proof (cases t)
  case (Some i)
  then have i: "0 \<le> i" "i < 2 ^ 63" using assms by auto
  then have "nat i < 10 ^ Suc 18" by simp
  from length_show_nat [OF this] show thesis
    using i Some that [of "show_nat (nat i)"] by (simp add: time_value_def show_int_def)
qed (use that [of "''null''"] in \<open>simp add: time_value_def\<close>)

lemma finding_text:
  assumes "wf_source src" "(c, r) \<in> fs_codes src" "short_code s" "short_code e"
    and "\<And>i. t = Some i \<Longrightarrow> 0 \<le> i \<and> i < 2 ^ 63"
  obtains b where "ser (PDict (finding_document src s e c r t)) = Inr b" "0 < length b" "length b \<le> 1024"
proof -
  obtain u where u: "ser (time_value t) = Inr u" "length u \<le> 19" using length_time [OF assms(5)] by blast
  have sh: "short_code (fs_producer src)" "short_code (fs_category src)" "short_code (fs_capability src)"
    "short_code c" "short_code r"
    using assms(1,2) by (auto simp: wf_source_def)
  have key: "quote_str k = [dquote] @ k @ [dquote]" if "list_all dull k" for k
    using that by (simp add: quote_unescaped dull_unescaped)
  have keys: "list_all (list_all dull) FINDING_FIELDS"
    by (simp add: FINDING_FIELDS_def dull_def alnum_char_def lower_char_def digit_char_def)
  note q = quote_short [OF sh(1)] quote_short [OF sh(2)] quote_short [OF sh(3)] quote_short [OF sh(4)]
    quote_short [OF sh(5)] quote_short [OF assms(3)] quote_short [OF assms(4)]
  have k: "quote_str ''capability'' = [dquote] @ ''capability'' @ [dquote]"
    "quote_str ''category'' = [dquote] @ ''category'' @ [dquote]"
    "quote_str ''condition'' = [dquote] @ ''condition'' @ [dquote]"
    "quote_str ''evidence_sha256'' = [dquote] @ ''evidence_sha256'' @ [dquote]"
    "quote_str ''observed_at'' = [dquote] @ ''observed_at'' @ [dquote]"
    "quote_str ''producer'' = [dquote] @ ''producer'' @ [dquote]"
    "quote_str ''reason'' = [dquote] @ ''reason'' @ [dquote]"
    "quote_str ''schema_version'' = [dquote] @ ''schema_version'' @ [dquote]"
    "quote_str ''subject_sha256'' = [dquote] @ ''subject_sha256'' @ [dquote]"
    by (rule key, use keys in \<open>simp add: FINDING_FIELDS_def\<close>)+
  have one: "show_int 1 = ''1''"
    by code_simp
  let ?l = "\<lambda>x. length x \<le> 64"
  have l: "?l (fs_producer src)" "?l (fs_category src)" "?l (fs_capability src)" "?l c" "?l r" "?l s" "?l e"
    using sh assms(3,4) by (simp_all add: short_code_def)
  obtain b where b: "ser (PDict (finding_document src s e c r t)) = Inr b"
    and n: "length b \<le> 400 + length (fs_producer src) + length (fs_category src) + length (fs_capability src)
      + length c + length r + length s + length e + length u" "0 < length b"
    using u(1) by (simp add: finding_document_def k q one)
  have "length b \<le> 1024" using n l u(2) by linarith
  with that b n(2) show thesis by blast
qed

text \<open>What \<open>accept\<close> returns for a well-formed source and digests.\<close>

lemma accept_Inr:
  assumes "accept raw (Exact src) subject evidence now = Inr b" and "wf_source src"
  obtains bytes n s e c r t where "raw = PBytes bytes" "now = PInt n" "subject = PStr s" "evidence = PStr e"
    "0 \<le> n" "n < 2 ^ 63" "is_digest (PStr s)" "is_digest (PStr e)" "short_code s" "short_code e"
    "(c, r) \<in> fs_codes src" "timely src n c t" "ser (PDict (finding_document src s e c r t)) = Inr b"
proof -
  obtain bytes n where raw: "raw = PBytes bytes" "now = PInt n"
    and ok: "is_digest subject" "is_digest evidence" "0 \<le> n" "n < 2 ^ 63"
    and run: "bind_res (finding_json (bytes_loads finding_hooks bytes)) (admit_finding src subject evidence n) = Inr b"
    using assms(1) by (auto simp: accept_def split: pyval.splits if_splits)
  obtain s where s: "subject = PStr s" "short_code s" by (rule is_digestE [OF ok(1)])
  obtain e where e: "evidence = PStr e" "short_code e" by (rule is_digestE [OF ok(2)])
  obtain v where v: "bytes_loads finding_hooks bytes = Inr v" "admit_finding src subject evidence n v = Inr b"
    using run by (auto simp: bind_res_Inr_iff finding_json_Inr)
  then obtain d where d: "v = PDict d" by (auto simp: admit_finding_def split: pyval.splits)
  have dist: "distinct (map fst d)" using v(1) d loaded_distinct by simp
  obtain c r t where f: "set d = set (finding_document src s e c r t)" "(c, r) \<in> fs_codes src" "timely src n c t"
    "dumps (PDict d) = Inr b"
    using v(2) admit_finding_Inr [OF dist] d s(1) e(1) by blast
  have "distinct (map fst (finding_document src s e c r t))" by (simp add: finding_document_def)
  then have "canon (PDict d) = canon (PDict (finding_document src s e c r t))"
    using canon_dict_iff [OF dist] f(1) by blast
  then have "ser (PDict (finding_document src s e c r t)) = Inr b"
    using f(4) unfolding dumps_def canon_finding by simp
  from that [OF raw s(1) e(1) ok(3,4) _ _ s(2) e(2) f(2,3) this] show thesis
    using ok(1,2) s(1) e(1) by simp
qed

text \<open>Conversely, a text of facts is accepted exactly when they are timely, as their canonical text.\<close>

lemma finding_document_inj:
  "set (finding_document src s e c r t) = set (finding_document src s e c' r' t') \<Longrightarrow> c' = c \<and> r' = r \<and> t' = t"
proof -
  assume e: "set (finding_document src s e c r t) = set (finding_document src s e c' r' t')"
  have "distinct (map fst (finding_document src s e x y z))" for x y z by (simp add: finding_document_def)
  then have "map_of (finding_document src s e c r t) = map_of (finding_document src s e c' r' t')"
    using map_of_inject_set e by blast
  then have g: "dget (finding_document src s e c r t) k = dget (finding_document src s e c' r' t') k" for k
    by (simp add: dget_def)
  have "time_value t' = time_value t" using g [of "''observed_at''"] by (simp add: finding_gets)
  then have "t' = t" by (metis time_of_value)
  then show "c' = c \<and> r' = r \<and> t' = t"
    using g [of "''condition''"] g [of "''reason''"] by (simp add: finding_gets)
qed

lemma accept_document:
  assumes "wf_source src" "(c, r) \<in> fs_codes src" "\<And>i. t = Some i \<Longrightarrow> 0 \<le> i \<and> i \<le> n"
    and "dumps (PDict d) = Inr raw" "distinct (map fst d)" "set d = set (finding_document src s e c r t)"
  shows "accept (PBytes raw) (Exact src) (PStr s) (PStr e) (PInt n) = Inr b \<longleftrightarrow>
    is_digest (PStr s) \<and> is_digest (PStr e) \<and> 0 \<le> n \<and> n < 2 ^ 63 \<and> timely src n c t
    \<and> dumps (PDict (finding_document src s e c r t)) = Inr b"
proof (cases "is_digest (PStr s) \<and> is_digest (PStr e) \<and> 0 \<le> n \<and> n < 2 ^ 63")
  case True
  let ?doc = "finding_document src s e c r t"
  have sc: "short_code s" "short_code e"
    using True is_digestE [of "PStr s"] is_digestE [of "PStr e"] by auto
  have "0 \<le> i \<and> i < 2 ^ 63" if "t = Some i" for i using assms(3) [OF that] True by auto
  then obtain x where x: "ser (PDict ?doc) = Inr x" "0 < length x" "length x \<le> 1024"
    using finding_text [OF assms(1,2) sc] by metis
  have dist: "distinct (map fst ?doc)" by (simp add: finding_document_def)
  then have "canon (PDict d) = PDict ?doc"
    using canon_dict_iff [OF assms(5)] assms(6) canon_finding by metis
  then have raw: "raw = x" using assms(4) x(1) by (simp add: dumps_def)
  have dump: "dumps (PDict ?doc) = Inr x" using x(1) canon_finding by (simp add: dumps_def)
  then have "bytes_loads finding_hooks x = Inr (PDict ?doc)"
    using bytes_loads_dumps [OF closing_finding plain_finding] canon_finding by simp
  moreover have "admit_finding src (PStr s) (PStr e) n (PDict ?doc) = Inr b \<longleftrightarrow> timely src n c t \<and> x = b"
    unfolding admit_finding_Inr [OF dist] dump using assms(2) finding_document_inj [of src s e c r t] by auto
  ultimately show ?thesis
    using True x(2,3) raw dump by (auto simp: accept_def MAX_BYTES_def finding_json_def)
qed (auto simp: accept_def)

lemma accept_canonical:
  assumes "wf_source src" "(c, r) \<in> fs_codes src" "timely src n c t" "0 \<le> n" "n < 2 ^ 63"
    and "is_digest (PStr s)" "is_digest (PStr e)" "dumps (PDict (finding_document src s e c r t)) = Inr b"
  shows "accept (PBytes b) (Exact src) (PStr s) (PStr e) (PInt n) = Inr b" and "length b \<le> 1024"
proof -
  have t: "0 \<le> i \<and> i \<le> n" if "t = Some i" for i using assms(3) that by (auto simp: timely_def)
  have "distinct (map fst (finding_document src s e c r t))" by (simp add: finding_document_def)
  from accept_document [OF assms(1,2) t assms(8) this refl] show "accept (PBytes b) (Exact src) (PStr s) (PStr e) (PInt n) = Inr b"
    using assms(3-8) by simp
  have sc: "short_code s" "short_code e"
    using assms(6,7) is_digestE [of "PStr s"] is_digestE [of "PStr e"] by auto
  have "0 \<le> i \<and> i < 2 ^ 63" if "t = Some i" for i using t [OF that] assms(5) by auto
  then obtain x where "ser (PDict (finding_document src s e c r t)) = Inr x" "length x \<le> 1024"
    using finding_text [OF assms(1,2) sc] by metis
  then show "length b \<le> 1024" using assms(8) canon_finding by (simp add: dumps_def)
qed

text \<open>Property C24: an accepted finding is the one canonical text of its facts, at most 1024 bytes;
  it decodes to exactly these facts, which are in the vocabulary of the source and timely; and
  submitted again in place of the original it is accepted unchanged.\<close>

theorem accepted_finding_is_canonical:
  assumes "new_source producer category capability codes freshness = Inr src"
    and "accept raw (Exact src) subject evidence (PInt now) = Inr b"
  shows "\<exists>c r t. (c, r) \<in> fs_codes src \<and> timely src now c t
      \<and> bytes_loads finding_hooks b =
          Inr (PDict (finding_document src (string_of subject) (string_of evidence) c r t))
      \<and> dumps (PDict (finding_document src (string_of subject) (string_of evidence) c r t)) = Inr b
      \<and> length b \<le> 1024 \<and> accept (PBytes b) (Exact src) subject evidence (PInt now) = Inr b"
proof -
  obtain s e c r t where f: "subject = PStr s" "evidence = PStr e" "0 \<le> now" "now < 2 ^ 63"
    "is_digest (PStr s)" "is_digest (PStr e)" "(c, r) \<in> fs_codes src" "timely src now c t"
    "ser (PDict (finding_document src s e c r t)) = Inr b"
    using accept_Inr [OF assms(2) new_source_wf [OF assms(1)]] by (metis pyval.inject(2))
  let ?doc = "finding_document src s e c r t"
  have d: "dumps (PDict ?doc) = Inr b" using f(9) canon_finding by (simp add: dumps_def)
  have l: "bytes_loads finding_hooks b = Inr (PDict ?doc)"
    using bytes_loads_dumps [OF closing_finding plain_finding d] canon_finding by simp
  have "length b \<le> 1024" "accept (PBytes b) (Exact src) subject evidence (PInt now) = Inr b"
    using accept_canonical [OF new_source_wf [OF assms(1)] f(7,8,3,4,5,6) d] f(1,2) by simp_all
  with f d l show ?thesis by (auto simp: string_of_def)
qed

section \<open>The TLS finding\<close>

definition tls_source :: "string \<times> string \<Rightarrow> finding_source" where
  "tls_source cr = \<lparr>fs_producer = ''direct-viewer-tls'', fs_category = ''health'', fs_capability = ''Security'',
     fs_codes = {cr}, fs_freshness = OBSERVATION_FRESHNESS_SECONDS\<rparr>"

lemma tls_codes: "list_all (\<lambda>(c, r). fullmatch CONDITION c \<and> fullmatch CODE r) CONDITIONS"
  by code_simp

lemma tls_names: "fullmatch CODE ''direct-viewer-tls''" "fullmatch CAPABILITY ''Security''"
  by code_simp+

lemma new_tls_source:
  assumes "cr \<in> set CONDITIONS"
  shows "new_source (PStr ''direct-viewer-tls'') (PStr ''health'') (PStr ''Security'')
      (FrozenSet {PTuple [PStr (fst cr), PStr (snd cr)]}) (PInt OBSERVATION_FRESHNESS_SECONDS) = Inr (tls_source cr)"
proof -
  have "fullmatch CONDITION (fst cr) \<and> fullmatch CODE (snd cr)"
    using tls_codes assms by (auto simp: list_all_iff)
  then have "code_pair (PTuple [PStr (fst cr), PStr (snd cr)]) = Some cr" by (simp add: code_pair_def)
  then show ?thesis
    using tls_names by (simp add: new_source_def is_code_def CATEGORIES_def tls_source_def string_of_def
        OBSERVATION_FRESHNESS_SECONDS_def)
qed

lemma tls_timely:
  assumes "\<And>i. t = Some i \<Longrightarrow> 0 \<le> i \<and> i \<le> now"
  shows "timely (tls_source cr) now c t \<longleftrightarrow> c = ''UNKNOWN'' \<or> recently now t"
  using assms by (auto simp: timely_def tls_source_def recently_def split: option.splits)

text \<open>The document in the order the code builds it.\<close>

definition tls_document :: "string \<Rightarrow> string \<Rightarrow> string \<times> string \<Rightarrow> int option \<Rightarrow> pydict" where
  "tls_document s e cr t =
     [(''schema_version'', PInt 1), (''producer'', PStr ''direct-viewer-tls''), (''category'', PStr ''health''),
      (''capability'', PStr ''Security''), (''subject_sha256'', PStr s), (''evidence_sha256'', PStr e),
      (''condition'', PStr (fst cr)), (''reason'', PStr (snd cr)), (''observed_at'', time_value t)]"

lemma plain_tls_document: "plain (PDict (tls_document s e cr t))"
  by (simp add: tls_document_def time_value_def split: option.splits)

lemma tls_document_facts:
  "distinct (map fst (tls_document s e cr t))"
  "set (tls_document s e cr t) = set (finding_document (tls_source cr) s e (fst cr) (snd cr) t)"
  by (auto simp: tls_document_def finding_document_def tls_source_def)

lemma accept_tls:
  assumes "observes d now f" and "dumps (PDict (tls_document s e (facts_condition now f) (fa_observed f))) = Inr raw"
  shows "accept (PBytes raw) (Exact (tls_source (facts_condition now f))) (PStr s) (PStr e) (PInt now) = Inr b \<longleftrightarrow>
    is_digest (PStr s) \<and> is_digest (PStr e) \<and> 0 \<le> now \<and> now < 2 ^ 63
    \<and> timely (tls_source (facts_condition now f)) now (fst (facts_condition now f)) (fa_observed f)
    \<and> dumps (PDict (finding_document (tls_source (facts_condition now f)) s e
          (fst (facts_condition now f)) (snd (facts_condition now f)) (fa_observed f))) = Inr b"
  using accept_document [OF new_source_wf [OF new_tls_source [OF condition_vocabulary]] _ _ assms(2) tls_document_facts]
    assms(1) by (simp add: tls_source_def observes_def)

text \<open>Property C28: the TLS finding carries the health fact and nothing else: it is returned exactly
  when the evidence digest binds this observation and this evaluation time, the digests and the
  clock are well formed, health admits the observation, and its fact is either UNKNOWN or comes from
  an observation of the last day; its text is then the canonical document of that fact.\<close>

theorem tls_finding_is_the_health_fact:
  "tls_finding sha observation (PStr s) (PStr e) now = Inr b \<longleftrightarrow>
     (\<exists>ctx d f. dumps (PDict [(''observation'', observation), (''evaluated_at'', PInt now)]) = Inr ctx
        \<and> e = sha ctx \<and> is_digest (PStr s) \<and> is_digest (PStr e) \<and> 0 \<le> now \<and> now < 2 ^ 63
        \<and> ok (health observation now) \<and> observation = PDict d \<and> observes d now f
        \<and> (fst (facts_condition now f) = ''UNKNOWN'' \<or> recently now (fa_observed f))
        \<and> dumps (PDict (finding_document (tls_source (facts_condition now f)) s e
            (fst (facts_condition now f)) (snd (facts_condition now f)) (fa_observed f))) = Inr b)"
proof -
  have unfolded: "tls_finding sha observation (PStr s) (PStr e) now = Inr b \<longleftrightarrow>
     (\<exists>raw. dumps (PDict (tls_document s e (facts_condition now f) (fa_observed f))) = Inr raw
       \<and> accept (PBytes raw) (Exact (tls_source (facts_condition now f))) (PStr s) (PStr e) (PInt now) = Inr b)"
    if "dumps (PDict [(''observation'', observation), (''evaluated_at'', PInt now)]) = Inr ctx"
      "e = sha ctx" "health observation now = Inr report"
      "dget report ''state'' = PStr (fst (facts_condition now f))"
      "dget report ''reason'' = PStr (snd (facts_condition now f))"
      "dget report ''observed_at'' = time_value (fa_observed f)"
      "dget report ''producer'' = PStr ''direct-viewer-tls''" "dget report ''capability'' = PStr ''Security''"
    for ctx report f
    using that new_tls_source [OF condition_vocabulary [of now f]]
    by (simp add: tls_finding_def bind_res_Inr_iff tls_source_def tls_document_def)
  show ?thesis (is "?l \<longleftrightarrow> ?r")
  proof
    assume l: ?l
    then obtain ctx report where 1: "dumps (PDict [(''observation'', observation), (''evaluated_at'', PInt now)]) = Inr ctx"
      "e = sha ctx" "health observation now = Inr report"
      by (auto simp: tls_finding_def bind_res_Inr_iff split: if_splits)
    obtain d f where f: "observation = PDict d" "observes d now f"
      "dget report ''state'' = PStr (fst (facts_condition now f))"
      "dget report ''reason'' = PStr (snd (facts_condition now f))"
      "dget report ''observed_at'' = time_value (fa_observed f)"
      "dget report ''producer'' = PStr ''direct-viewer-tls''" "dget report ''capability'' = PStr ''Security''"
      by (rule health_Inr [OF 1(3)])
    let ?cr = "facts_condition now f"
    obtain raw where raw: "dumps (PDict (tls_document s e ?cr (fa_observed f))) = Inr raw"
      "accept (PBytes raw) (Exact (tls_source ?cr)) (PStr s) (PStr e) (PInt now) = Inr b"
      using l unfolding unfolded [OF 1 f(3-7)] by blast
    have "timely (tls_source ?cr) now (fst ?cr) (fa_observed f) \<longleftrightarrow> fst ?cr = ''UNKNOWN'' \<or> recently now (fa_observed f)"
      using f(2) by (intro tls_timely) (auto simp: observes_def)
    then show ?r
      using raw(2) 1 f(1,2) unfolding accept_tls [OF f(2) raw(1)] by auto
  next
    assume r: ?r
    then obtain ctx d f where 1: "dumps (PDict [(''observation'', observation), (''evaluated_at'', PInt now)]) = Inr ctx"
      "e = sha ctx" "ok (health observation now)" "observation = PDict d" "observes d now f"
      and 2: "is_digest (PStr s)" "is_digest (PStr e)" "0 \<le> now" "now < 2 ^ 63"
        "fst (facts_condition now f) = ''UNKNOWN'' \<or> recently now (fa_observed f)"
        "dumps (PDict (finding_document (tls_source (facts_condition now f)) s e
            (fst (facts_condition now f)) (snd (facts_condition now f)) (fa_observed f))) = Inr b"
      by blast
    obtain report where h: "health observation now = Inr report" using 1(3) by (auto simp: ok_iff)
    obtain d' f' where f: "observation = PDict d'" "observes d' now f'"
      "dget report ''state'' = PStr (fst (facts_condition now f'))"
      "dget report ''reason'' = PStr (snd (facts_condition now f'))"
      "dget report ''observed_at'' = time_value (fa_observed f')"
      "dget report ''producer'' = PStr ''direct-viewer-tls''" "dget report ''capability'' = PStr ''Security''"
      by (rule health_Inr [OF h])
    have same: "f' = f" using observes_unique f(1,2) 1(4,5) by blast
    obtain raw where raw: "dumps (PDict (tls_document s e (facts_condition now f) (fa_observed f))) = Inr raw"
      using dumps_plain [OF plain_tls_document] by blast
    have "timely (tls_source (facts_condition now f)) now (fst (facts_condition now f)) (fa_observed f)"
      using 1(5) 2(5) tls_timely [of "fa_observed f" now "facts_condition now f"] by (auto simp: observes_def)
    then have "accept (PBytes raw) (Exact (tls_source (facts_condition now f))) (PStr s) (PStr e) (PInt now) = Inr b"
      using 2 unfolding accept_tls [OF 1(5) raw] by simp
    then show ?l
      using raw unfolding unfolded [OF 1(1,2) h f(3-7) [unfolded same]] by blast
  qed
qed

section \<open>Witnesses\<close>

definition sample_now :: int where "sample_now = 2000000"

definition sample_source :: finding_source where
  "sample_source = \<lparr>fs_producer = ''host-conformance'', fs_category = ''conformance'', fs_capability = ''Security'',
     fs_codes = {(''HEALTHY'', ''baseline-current'')}, fs_freshness = 60\<rparr>"

lemma sample_source_new:
  "new_source (PStr ''host-conformance'') (PStr ''conformance'') (PStr ''Security'')
     (FrozenSet {PTuple [PStr ''HEALTHY'', PStr ''baseline-current'']}) (PInt 60) = Inr sample_source"
proof -
  have "fullmatch CODE ''host-conformance''" "fullmatch CAPABILITY ''Security''"
    "fullmatch CONDITION ''HEALTHY''" "fullmatch CODE ''baseline-current''"
    by code_simp+
  then show ?thesis
    by (simp add: new_source_def is_code_def code_pair_def CATEGORIES_def sample_source_def string_of_def)
qed

definition sample_subject :: string where "sample_subject = replicate 64 CHR ''a''"
definition sample_evidence :: string where "sample_evidence = replicate 64 CHR ''b''"

lemma sample_digests: "is_digest (PStr sample_subject)" "is_digest (PStr sample_evidence)"
  by (simp_all add: is_digest_def is_code_def is_sha256_def sample_subject_def sample_evidence_def
      list_all_iff hex_char_def digit_char_def)

lemma sample_accepted:
  "\<exists>b. accept (PBytes b) (Exact sample_source) (PStr sample_subject) (PStr sample_evidence) (PInt sample_now) = Inr b"
proof -
  let ?doc = "finding_document sample_source sample_subject sample_evidence ''HEALTHY'' ''baseline-current'' (Some sample_now)"
  obtain b where "dumps (PDict ?doc) = Inr b" using dumps_plain [OF plain_finding] by blast
  from accept_canonical(1) [where n = sample_now, OF new_source_wf [OF sample_source_new] _ _ _ _ sample_digests this]
  show ?thesis by (auto simp: sample_source_def timely_def sample_now_def)
qed

theorem accepted_finding_is_canonical_witness:
  "\<exists>b. accept (PBytes b) (Exact sample_source) (PStr sample_subject) (PStr sample_evidence) (PInt sample_now) = Inr b
    \<and> length b \<le> 1024"
proof -
  obtain b where "accept (PBytes b) (Exact sample_source) (PStr sample_subject) (PStr sample_evidence)
      (PInt sample_now) = Inr b"
    using sample_accepted by blast
  from accepted_finding_is_canonical [OF sample_source_new this] this show ?thesis by blast
qed

end
