(* ===== verification/Finding_Delivery.thy ===== *)
theory Finding_Delivery
  imports Public_Findings_Facts "HOL-Library.Sublist"
begin

text \<open>
  Notifications through the stream adapter of \<open>scripts/public_findings.py\<close>: a sequence of
  attempts over one stream, whose operations may fail at any point, as the interface
  \<open>byte_stream\<close> allows.
\<close>

section \<open>The stream\<close>

text \<open>
  What Python documents of a binary stream: a write appends a prefix of the data, as long as the
  count it returns (a raw stream may write less than it is given, and may fail after a part);
  a flush appends nothing.
\<close>

locale byte_stream =
  fixes content :: "'s \<Rightarrow> string" and ops :: "'s stream_ops"
  assumes appends: "stream_write ops data s = (r, s') \<Longrightarrow>
      \<exists>n \<le> length data. content s' = content s @ take n data
        \<and> (\<forall>k. r = Inr (PInt k) \<longrightarrow> 0 \<le> k \<and> k \<le> int (length data) \<longrightarrow> k = int n)"
    and flushes: "stream_flush ops s = (u, s') \<Longrightarrow> content s' = content s"
begin

text \<open>The loop appends a prefix of the record, and all of it when it ends well.\<close>

lemma write_record_prefix:
  "write_record ops left s = (r, s') \<Longrightarrow>
    \<exists>p. prefix p left \<and> content s' = content s @ p \<and> (r = Inr True \<longrightarrow> p = left)"
proof (induction "length left" arbitrary: left s rule: less_induct)
  case less
  show ?case
  proof (cases "left = []")
    case True
    then show ?thesis using less.prems by (simp add: write_record.simps [of ops "[]"])
  next
    case False
    obtain c s1 where w: "stream_write ops left s = (c, s1)" by (cases "stream_write ops left s") blast
    obtain n where n: "n \<le> length left" "content s1 = content s @ take n left"
      "\<And>k. c = Inr (PInt k) \<Longrightarrow> 0 \<le> k \<Longrightarrow> k \<le> int (length left) \<Longrightarrow> k = int n"
      using appends [OF w] by blast
    show ?thesis
    proof (cases "\<exists>k. c = Inr (PInt k) \<and> 1 \<le> k \<and> k \<le> int (length left)")
      case True
      then obtain k where k: "c = Inr (PInt k)" "1 \<le> k" "k \<le> int (length left)" by blast
      then have kn: "nat k = n" "0 < n" using n(3) [of k] by auto
      have "write_record ops (drop n left) s1 = (r, s')"
        using less.prems False w k kn by (simp add: write_record.simps [of _ left] int_between_def the_time_def)
      moreover have "length (drop n left) < length left" using kn n(1) False by simp
      ultimately obtain p where p: "prefix p (drop n left)" "content s' = content s1 @ p"
        "r = Inr True \<longrightarrow> p = drop n left"
        using less.hyps by blast
      then have "prefix (take n left @ p) left" by (metis append_take_drop_id same_prefix_prefix)
      with p n(2) show ?thesis by (intro exI [of _ "take n left @ p"]) auto
    next
      case stop: False
      then have "r \<noteq> Inr True \<and> s' = s1"
        using less.prems False w
        by (auto simp: write_record.simps [of _ left] int_between_def split: sum.splits pyval.splits if_splits)
      with n(2) show ?thesis using take_is_prefix by blast
    qed
  qed
qed

text \<open>One call of the adapter.\<close>

lemma send_refuses: "\<not> ad_usable a \<Longrightarrow> stream_send ops e a = (Inr (PBool False), a)"
  by (simp add: stream_send_def)

lemma send_cases:
  assumes "ad_usable a" and "stream_send ops e a = (r, a')"
  shows "if r = Inr (PBool True) then ad_usable a' \<and> content (ad_stream a') = content (ad_stream a) @ e @ [CHR 0x0A]
    else \<not> ad_usable a' \<and> (\<exists>p. prefix p (e @ [CHR 0x0A]) \<and> content (ad_stream a') = content (ad_stream a) @ p)"
proof -
  obtain w s1 where w: "write_record ops (e @ [CHR 0x0A]) (ad_stream a) = (w, s1)"
    by (cases "write_record ops (e @ [CHR 0x0A]) (ad_stream a)") blast
  obtain p where p: "prefix p (e @ [CHR 0x0A])" "content s1 = content (ad_stream a) @ p"
    "w = Inr True \<longrightarrow> p = e @ [CHR 0x0A]"
    using write_record_prefix [OF w] by blast
  obtain u s2 where u: "stream_flush ops s1 = (u, s2)" by (cases "stream_flush ops s1") blast
  show ?thesis
    using assms w u p flushes [OF u] unfolding stream_send_def
    by (auto split: sum.splits bool.splits if_splits)
qed

end

text \<open>
  A stream on a device with room for so many more bytes: a write takes what fits and fails when
  nothing does.
\<close>

record bounded =
  bd_content :: string
  bd_room :: nat

definition bounded_stream :: "bounded stream_ops" where
  "bounded_stream = \<lparr>stream_write = (\<lambda>data s.
       let n = min (bd_room s) (length data) in
       if n = 0 then (Inl (OSError ''ENOSPC''), s)
       else (Inr (PInt (int n)), \<lparr>bd_content = bd_content s @ take n data, bd_room = bd_room s - n\<rparr>)),
     stream_flush = (\<lambda>s. (Inr (), s))\<rparr>"

interpretation bounded: byte_stream bd_content bounded_stream
  by unfold_locales (auto simp: bounded_stream_def Let_def split: if_splits intro: exI [of _ "min _ _"])

section \<open>Runs of notifications\<close>

record notification =
  nt_raw :: pyval
  nt_source :: "finding_source obj"
  nt_subject :: pyval
  nt_evidence :: pyval
  nt_now :: pyval
  nt_id :: pyval
  nt_silent :: pyval

fun notify_run :: "(string \<Rightarrow> string) \<Rightarrow> 'a sender \<Rightarrow> notification list \<Rightarrow> 'a \<Rightarrow> pydict res list \<times> 'a" where
  "notify_run sha send [] w = ([], w)"
| "notify_run sha send (x # xs) w =
     (case notify sha (nt_raw x) (nt_source x) (nt_subject x) (nt_evidence x) (nt_now x) (nt_id x)
         (Exact send) (nt_silent x) w of
        (r, w1) \<Rightarrow> (case notify_run sha send xs w1 of (rs, w2) \<Rightarrow> (r # rs, w2)))"

text \<open>The line a notification puts on the stream, and the answers that acknowledge it.\<close>

definition envelope_line :: "notification \<Rightarrow> string" where
  "envelope_line x =
     (case bind_res (accept (nt_raw x) (nt_source x) (nt_subject x) (nt_evidence x) (nt_now x)) (\<lambda>accepted.
        bind_res (bytes_loads default_hooks accepted) (\<lambda>finding.
        dumps (PDict [(''schema_version'', PInt 1), (''notification_id'', nt_id x), (''finding'', finding)]))) of
       Inl _ \<Rightarrow> [] | Inr e \<Rightarrow> e @ [CHR 0x0A])"

definition delivered :: "pydict res \<Rightarrow> bool" where
  "delivered r \<longleftrightarrow> (case r of Inl _ \<Rightarrow> False | Inr d \<Rightarrow> dget d ''delivery'' = PStr ''DELIVERED'')"

definition acknowledged :: "notification list \<Rightarrow> pydict res list \<Rightarrow> string" where
  "acknowledged xs rs = concat (map (envelope_line \<circ> fst) (filter (delivered \<circ> snd) (zip xs rs)))"

text \<open>One attempt either leaves the adapter alone and is not delivered, or makes one call with the line.\<close>

lemma notify_cases:
  assumes "notify sha (nt_raw x) (nt_source x) (nt_subject x) (nt_evidence x) (nt_now x) (nt_id x)
      (Exact send) (nt_silent x) w = (r, w')"
  obtains "w' = w" "\<not> delivered r"
  | e out where "envelope_line x = e @ [CHR 0x0A]" "send e w = (out, w')" "delivered r \<longleftrightarrow> out = Inr (PBool True)"
proof (cases "accept (nt_raw x) (nt_source x) (nt_subject x) (nt_evidence x) (nt_now x)")
  case (Inl e)
  then show thesis using assms that(1) by (auto simp: notify_def delivered_def)
next
  case (Inr a)
  show thesis
  proof (cases "nt_silent x = PBool False \<and> is_digest (nt_id x)")
    case False
    then show thesis
      using assms that(1) Inr by (auto simp: notify_def delivered_def dget_def Let_def split: pyval.splits if_splits)
  next
    case True
    show thesis
    proof (cases "bind_res (bytes_loads default_hooks a) (\<lambda>finding.
        dumps (PDict [(''schema_version'', PInt 1), (''notification_id'', nt_id x), (''finding'', finding)]))")
      case Inl': (Inl e)
      then show thesis using assms that(1) Inr True by (auto simp: notify_def delivered_def Let_def)
    next
      case Inr': (Inr e)
      obtain out w1 where s: "send e w = (out, w1)" by (cases "send e w") blast
      then show thesis
        using assms Inr Inr' True that(2) [of e out]
        by (auto simp: notify_def delivered_def Let_def envelope_line_def dget_def split: if_splits)
    qed
  qed
qed

context byte_stream begin

lemma run_stopped:
  "\<not> ad_usable a \<Longrightarrow> notify_run sha (stream_send ops) xs a = (rs, a') \<Longrightarrow>
    a' = a \<and> (\<forall>r \<in> set rs. \<not> delivered r)"
proof (induction xs arbitrary: rs)
  case (Cons x xs)
  obtain r a1 where n: "notify sha (nt_raw x) (nt_source x) (nt_subject x) (nt_evidence x) (nt_now x) (nt_id x)
      (Exact (stream_send ops)) (nt_silent x) a = (r, a1)"
    by (cases "notify sha (nt_raw x) (nt_source x) (nt_subject x) (nt_evidence x) (nt_now x) (nt_id x)
      (Exact (stream_send ops)) (nt_silent x) a") blast
  have "a1 = a \<and> \<not> delivered r"
    using n by (rule notify_cases) (use Cons.prems(1) send_refuses in auto)
  with Cons n show ?case by (fastforce split: prod.splits)
qed simp

lemma acknowledged_none: "\<forall>r \<in> set rs. \<not> delivered r \<Longrightarrow> acknowledged xs rs = []"
  by (auto simp: acknowledged_def dest: set_zip_rightD)

lemma acknowledged_Cons:
  "acknowledged (x # xs) (r # rs) = (if delivered r then envelope_line x else []) @ acknowledged xs rs"
  by (simp add: acknowledged_def)

lemma run_content:
  "ad_usable a \<Longrightarrow> notify_run sha (stream_send ops) xs a = (rs, a') \<Longrightarrow>
    \<exists>torn. content (ad_stream a') = content (ad_stream a) @ acknowledged xs rs @ torn
      \<and> (ad_usable a' \<longrightarrow> torn = []) \<and> (torn = [] \<or> (\<exists>x \<in> set xs. prefix torn (envelope_line x)))"
proof (induction xs arbitrary: a rs)
  case Nil
  then show ?case by (simp add: acknowledged_def)
next
  case (Cons x xs)
  obtain r a1 where n: "notify sha (nt_raw x) (nt_source x) (nt_subject x) (nt_evidence x) (nt_now x) (nt_id x)
      (Exact (stream_send ops)) (nt_silent x) a = (r, a1)"
    by (cases "notify sha (nt_raw x) (nt_source x) (nt_subject x) (nt_evidence x) (nt_now x) (nt_id x)
      (Exact (stream_send ops)) (nt_silent x) a") blast
  obtain qs where q: "notify_run sha (stream_send ops) xs a1 = (qs, a')" "rs = r # qs"
    using Cons.prems(2) n by (auto split: prod.splits)
  from n consider "a1 = a" "\<not> delivered r"
    | e out where "envelope_line x = e @ [CHR 0x0A]" "stream_send ops e a = (out, a1)" "delivered r \<longleftrightarrow> out = Inr (PBool True)"
    by (rule notify_cases)
  then show ?case
  proof cases
    case 1
    with Cons.IH [OF _ q(1)] Cons.prems(1) q(2) show ?thesis by (auto simp: acknowledged_Cons)
  next
    case (2 e out)
    show ?thesis
    proof (cases "delivered r")
      case True
      then have "ad_usable a1" "content (ad_stream a1) = content (ad_stream a) @ envelope_line x"
        using send_cases [OF Cons.prems(1) 2(2)] 2(1,3) by auto
      with Cons.IH [OF _ q(1)] True q(2) show ?thesis by (auto simp: acknowledged_Cons)
    next
      case False
      then obtain p where p: "\<not> ad_usable a1" "prefix p (envelope_line x)"
        "content (ad_stream a1) = content (ad_stream a) @ p"
        using send_cases [OF Cons.prems(1) 2(2)] 2(1,3) by auto
      with run_stopped [OF p(1) q(1)] acknowledged_none [of qs xs] False q(2) show ?thesis
        by (auto simp: acknowledged_Cons)
    qed
  qed
qed

end

text \<open>Property C23: whatever fails, after any sequence of notifications through the adapter the stream
  holds what it held before, then exactly the envelopes of the notifications answered DELIVERED, one
  per line and in order, then at most one torn record; and when a record is torn the adapter
  takes no more, so that every later answer is another one.\<close>

theorem stream_holds_the_delivered_envelopes:
  assumes "byte_stream content ops"
    and "notify_run sha (stream_send ops) xs (stream_adapter s) = (rs, a)"
  shows "\<exists>torn. content (ad_stream a) = content s @ acknowledged xs rs @ torn
      \<and> (ad_usable a \<longrightarrow> torn = []) \<and> (torn = [] \<or> (\<exists>x \<in> set xs. prefix torn (envelope_line x)))
      \<and> (\<forall>ys qs b. \<not> ad_usable a \<longrightarrow> notify_run sha (stream_send ops) ys a = (qs, b) \<longrightarrow>
          b = a \<and> (\<forall>r \<in> set qs. \<not> delivered r))"
proof -
  have "ad_usable (stream_adapter s)" "ad_stream (stream_adapter s) = s" by (simp_all add: stream_adapter_def)
  with byte_stream.run_content [OF assms(1) _ assms(2)] byte_stream.run_stopped [OF assms(1)]
  show ?thesis by fastforce
qed

section \<open>Witnesses\<close>

definition sample_notification :: notification where
  "sample_notification = \<lparr>nt_raw = PBytes ''{}'', nt_source = Exact sample_source, nt_subject = PStr sample_subject,
     nt_evidence = PStr sample_evidence, nt_now = PInt sample_now, nt_id = PStr sample_subject, nt_silent = PBool False\<rparr>"

theorem stream_holds_the_delivered_envelopes_witness:
  "\<exists>b rs a torn. accept (PBytes b) (Exact sample_source) (PStr sample_subject) (PStr sample_evidence)
      (PInt sample_now) = Inr b
    \<and> notify_run (\<lambda>_. []) (stream_send bounded_stream) (replicate 2 (sample_notification\<lparr>nt_raw := PBytes b\<rparr>))
        (stream_adapter \<lparr>bd_content = [], bd_room = 500\<rparr>) = (rs, a)
    \<and> bd_content (ad_stream a) = acknowledged (replicate 2 (sample_notification\<lparr>nt_raw := PBytes b\<rparr>)) rs @ torn
    \<and> (ad_usable a \<longrightarrow> torn = [])"
proof -
  obtain b where b: "accept (PBytes b) (Exact sample_source) (PStr sample_subject) (PStr sample_evidence)
      (PInt sample_now) = Inr b"
    using sample_accepted by blast
  obtain rs a where r: "notify_run (\<lambda>_. []) (stream_send bounded_stream)
      (replicate 2 (sample_notification\<lparr>nt_raw := PBytes b\<rparr>)) (stream_adapter \<lparr>bd_content = [], bd_room = 500\<rparr>) = (rs, a)"
    by fastforce
  from stream_holds_the_delivered_envelopes [OF bounded.byte_stream_axioms r] b r show ?thesis by auto
qed

end
