(* ===== verification/Product_Backends.thy ===== *)
theory Product_Backends
  imports Py_Text Json_Default
begin

text \<open>
  \<open>scripts/product_backend_contract.py\<close>: the fixed HTTP backends, the publication lines of their
  containers, the host policy that binds them to the proxy account, the admission of that
  account, and the backend fragment.
\<close>

record backend =
  be_role :: string
  be_host_port :: int
  be_container_port :: int
  be_readiness_path :: string

definition be_endpoint :: "backend \<Rightarrow> string" where
  "be_endpoint b = ''127.0.0.1:'' @ show_int (be_host_port b)"

definition publication :: "backend \<Rightarrow> string" where
  "publication b = ''PublishPort='' @ be_endpoint b @ '':'' @ show_int (be_container_port b) @ ''/tcp''"

definition new_backend :: "string \<Rightarrow> int \<Rightarrow> backend" where
  "new_backend role port = \<lparr>be_role = role, be_host_port = port, be_container_port = 8080,
     be_readiness_path = ''/health/live''\<rparr>"

definition BACKENDS :: "(string \<times> backend) list" where
  "BACKENDS = [(''frontend'', new_backend ''frontend'' 18080), (''api'', new_backend ''api'' 18081)]"

definition publish_lines :: "string \<Rightarrow> string list" where
  "publish_lines role = (case map_of BACKENDS role of None \<Rightarrow> [] | Some b \<Rightarrow> [publication b])"

definition backend_ports :: string where
  "backend_ports = comma_list (map (\<lambda>(_, b). show_int (be_host_port b)) BACKENDS)"

definition backend_host_policy :: "pyval \<Rightarrow> pydict res" where
  "backend_host_policy haproxy_uid = (case haproxy_uid of
     PInt uid \<Rightarrow>
       if \<not> (1 \<le> uid \<and> uid < 2 ^ 32 - 1)
       then Inl (ValueError ''HAProxy must have a dedicated non-root numeric UID'')
       else let
           nft = text_lines [
             ''table inet secpal_product_backends {'',
             ''  chain backend_input {'',
             ''    type filter hook input priority -20; policy accept;'',
             ''    iifname != '' @ quoted ''lo'' @ '' tcp dport { '' @ backend_ports @ '' } reject'',
             ''  }'',
             ''  chain backend_output {'',
             ''    type filter hook output priority -20; policy accept;'',
             ''    ip daddr 127.0.0.1 tcp dport { '' @ backend_ports @ '' } meta skuid '' @ show_int uid @ '' accept'',
             ''    ip daddr 127.0.0.0/8 tcp dport { '' @ backend_ports @ '' } reject'',
             ''    ip6 daddr ::1 tcp dport { '' @ backend_ports @ '' } reject'',
             ''  }'',
             ''}''];
           cil = text_lines ([
             ''(type secpal_backend_port_t)'',
             ''(typeattributeset port_type (secpal_backend_port_t))'',
             ''(roletype object_r secpal_backend_port_t)'',
             ''(allow haproxy_t secpal_backend_port_t (tcp_socket (name_connect)))'',
             ''(allow container_runtime_t secpal_backend_port_t (tcp_socket (name_bind)))'',
             ''(allow pasta_t secpal_backend_port_t (tcp_socket (name_bind)))'']
             @ map (\<lambda>(_, b). ''(portcon tcp '' @ show_int (be_host_port b)
                 @ '' (system_u object_r secpal_backend_port_t ((s0) (s0))))'') BACKENDS)
         in Inr [(''product-backends.nft'', PStr nft), (''product-backends.cil'', PStr cil)]
   | _ \<Rightarrow> Inl (ValueError ''HAProxy must have a dedicated non-root numeric UID''))"

definition backend_policy_digest :: "(string \<Rightarrow> string) \<Rightarrow> pyval \<Rightarrow> string res" where
  "backend_policy_digest sha haproxy_uid = bind_res (backend_host_policy haproxy_uid) (\<lambda>p.
     bind_res (dumps (PDict p)) (\<lambda>s. Inr (sha s)))"

record account =
  pw_name :: string
  pw_uid :: int
  pw_gid :: int
  pw_shell :: string

definition admit_policy_account :: "account \<Rightarrow> int \<Rightarrow> int res" where
  "admit_policy_account a runtime_uid =
     (if pw_name a \<noteq> ''haproxy'' \<or> \<not> (1 \<le> pw_uid a \<and> pw_uid a < 1000) \<or> pw_uid a = runtime_uid
        \<or> pw_gid a \<le> 0 \<or> pw_shell a \<notin> {''/usr/sbin/nologin'', ''/sbin/nologin''}
      then Inl (ValueError ''HAProxy requires a distinct non-login system account'')
      else Inr (pw_uid a))"

definition haproxy_backends :: string where
  "haproxy_backends = join_str newline (map (\<lambda>(_, b). text_lines [
     ''backend secpal_'' @ be_role b,
     ''    mode http'',
     ''    timeout connect 3s'',
     ''    timeout server 30s'',
     ''    option httpchk'',
     ''    http-check send meth GET uri '' @ be_readiness_path b @ '' ver HTTP/1.1 hdr Host localhost'',
     ''    http-check expect status 200'',
     ''    server '' @ be_role b @ '' '' @ be_endpoint b @ '' check inter 5s fall 3 rise 2'']) BACKENDS)"

end
