(* ===== verification/Haproxy_Base.thy ===== *)
theory Haproxy_Base
  imports Product_Backends Host_Firewall
begin

text \<open>
  \<open>scripts/haproxy_base_contract.py\<close>: admitted routing and listeners, the decoder of the routing
  document, the generated configuration text with its embedded inputs and generation
  fingerprint, the listener unit, and the authentication of serving bytes by regeneration.

  Host names and addresses are checked to be ASCII, so \<open>encode()\<close> is the identity on every rendered
  text. A scoped IPv6 address is \<open>Unmodelled\<close>, as in \<open>Ip_Network\<close>.
\<close>

definition MAX_CONFIG_BYTES :: nat where "MAX_CONFIG_BYTES = 65536"

definition METHODS :: "string list" where
  "METHODS = [''GET'', ''HEAD'', ''POST'', ''PUT'', ''PATCH'', ''DELETE'', ''OPTIONS'']"

section \<open>Admission\<close>

text \<open>A label \<open>[a-z0-9](?:[a-z0-9-]{0,61}[a-z0-9])?\<close>.\<close>

definition LABEL :: rx where
  "LABEL = Seq (Cls lower_alnum) (Alt Eps (Seq (rx_range 0 61 (Cls (\<lambda>c. lower_alnum c \<or> c = CHR ''-''))) (Cls lower_alnum)))"

definition hostname :: "pyval \<Rightarrow> string res" where
  "hostname value = (case value of
     PStr s \<Rightarrow>
       if \<not> (3 \<le> length s \<and> length s \<le> 253) \<or> s \<noteq> py_lower s \<or> CHR ''.'' \<notin> set s
         \<or> list_ex (\<lambda>label. \<not> fullmatch LABEL label) (py_split CHR ''.'' s)
       then Inl (ValueError ''admit-origin-hostname'')
       else bind_res (ip_address s) (\<lambda>a. case a of
         None \<Rightarrow> Inr s | Some _ \<Rightarrow> Inl (ValueError ''admit-origin-hostname''))
   | _ \<Rightarrow> Inl (ValueError ''admit-origin-hostname''))"

record routing =
  rt_frontend_host :: string
  rt_api_host :: string

definition new_routing :: "pyval \<Rightarrow> pyval \<Rightarrow> routing res" where
  "new_routing frontend_host api_host =
     bind_res (hostname frontend_host) (\<lambda>f. bind_res (hostname api_host) (\<lambda>a.
     if f = a then Inl (ValueError ''admit-distinct-origins'')
     else Inr \<lparr>rt_frontend_host = f, rt_api_host = a\<rparr>))"

record listener =
  ls_address :: string
  ls_port :: int

definition new_listener :: "pyval \<Rightarrow> pyval \<Rightarrow> listener res" where
  "new_listener address port = (case address of
     PStr s \<Rightarrow> bind_res (ip_address s) (\<lambda>parsed. case parsed of
         None \<Rightarrow> Inl (ValueError ''admit-listener-address'')
       | Some (version, a) \<Rightarrow>
           if address_str version a \<noteq> s \<or> is_multicast version a \<or> \<not> (case port of PInt p \<Rightarrow> 1 \<le> p \<and> p \<le> 65535 | _ \<Rightarrow> False)
             \<or> port \<in> (\<lambda>(_, b). PInt (be_host_port b)) ` set BACKENDS
           then Inl (ValueError ''admit-listener-socket'')
           else Inr \<lparr>ls_address = s, ls_port = (case port of PInt p \<Rightarrow> p | _ \<Rightarrow> 0)\<rparr>)
   | _ \<Rightarrow> Inl (ValueError ''admit-listener-address''))"

definition endpoint :: "listener \<Rightarrow> string" where
  "endpoint l = (if CHR '':'' \<in> set (ls_address l) then ''['' @ ls_address l @ '']'' else ls_address l)
     @ '':'' @ show_int (ls_port l)"

definition listener_of_row :: "pyval \<Rightarrow> listener res" where
  "listener_of_row row = (case row of
     PDict d \<Rightarrow> if dkeys d \<noteq> {''address'', ''port''} then Inl (ValueError ''admit-listener-fields'')
       else new_listener (dget d ''address'') (dget d ''port'')
   | _ \<Rightarrow> Inl (ValueError ''admit-listener-fields''))"

definition base_from_document :: "pyval \<Rightarrow> (routing \<times> listener list) res" where
  "base_from_document document = (case document of
     PDict d \<Rightarrow>
       if dkeys d \<noteq> {''frontend_host'', ''api_host'', ''listeners''}
       then Inl (ValueError ''admit-routing-fields'')
       else bind_res (new_routing (dget d ''frontend_host'') (dget d ''api_host'')) (\<lambda>routing.
         case dget d ''listeners'' of
           PList rows \<Rightarrow>
             if \<not> (1 \<le> length rows \<and> length rows \<le> 8) then Inl (ValueError ''admit-listener-count'')
             else bind_res (map_res listener_of_row rows) (\<lambda>listeners.
               if \<not> distinct listeners then Inl (ValueError ''admit-listener-uniqueness'')
               else Inr (routing, listeners))
         | _ \<Rightarrow> Inl (ValueError ''admit-listener-count''))
   | _ \<Rightarrow> Inl (ValueError ''admit-routing-fields''))"

text \<open>The hook \<open>unique\<close>, and the constants that are not JSON numbers.\<close>

fun unique_pairs :: "pydict \<Rightarrow> pydict \<Rightarrow> pyval res" where
  "unique_pairs result [] = Inr (PDict result)"
| "unique_pairs result ((key, v) # pairs) =
     (if key \<in> dkeys result then Inl (ValueError ''admit-routing-duplicate-key'')
      else unique_pairs (result @ [(key, v)]) pairs)"

definition routing_hooks :: json_hooks where
  "routing_hooks = \<lparr>pairs_hook = unique_pairs [], constants_ok = False\<rparr>"

definition decode_json_document :: "string \<Rightarrow> pyval res" where
  "decode_json_document data =
     (if \<not> (0 < length data \<and> length data \<le> MAX_CONFIG_BYTES) then Inl (ValueError ''admit-routing-size'')
      else catch_res (bytes_loads routing_hooks data) (\<lambda>e.
        if e = json_error \<or> e = UnicodeError then Inl (ValueError ''decode-routing-document'')
        else if e = ValueError ''JSON constant'' then Inl (ValueError ''admit-json-number'')
        else Inl e))"

definition base_decode_document :: "string \<Rightarrow> (routing \<times> listener list) res" where
  "base_decode_document data = bind_res (decode_json_document data) base_from_document"

section \<open>Rendering\<close>

definition forwarding_sanitization :: "string list" where
  "forwarding_sanitization =
     [''http-request del-header Forwarded'', ''http-request del-header X-Forwarded- -m beg'',
      ''http-request del-header X-Real-IP'', ''http-request del-header X-SecPal- -m beg'',
      ''http-request del-header X-Request-ID'']"

definition sanitization_text :: string where
  "sanitization_text = text_lines (map (\<lambda>rule. ''    '' @ rule) forwarding_sanitization)"

definition origin_rules :: "routing \<Rightarrow> string" where
  "origin_rules r = text_lines [
     ''    acl supported_method method '' @ words METHODS,
     ''    http-request set-var(txn.security) str(method_rejected) unless supported_method'',
     ''    http-request deny deny_status 405 unless supported_method'',
     ''    http-request set-var(txn.method) method'',
     ''    acl origin_form url_beg /'',
     ''    acl options_star method OPTIONS'',
     ''    acl star_target url -m str *'',
     ''    http-request set-var(txn.security) str(target_rejected) if !origin_form !options_star'',
     ''    http-request deny deny_status 400 if !origin_form !options_star'',
     ''    http-request set-var(txn.security) str(target_rejected) if !origin_form !star_target'',
     ''    http-request deny deny_status 400 if !origin_form !star_target'',
     ''    acl one_host req.hdr_cnt(host) eq 1'',
     ''    http-request set-var(txn.security) str(host_rejected) unless one_host'',
     ''    http-request deny deny_status 400 unless one_host'',
     ''    acl frontend_origin req.hdr(host),lower -m str '' @ rt_frontend_host r @ '' '' @ rt_frontend_host r @ '':80 '' @ rt_frontend_host r @ '':443'',
     ''    acl api_origin req.hdr(host),lower -m str '' @ rt_api_host r @ '' '' @ rt_api_host r @ '':80 '' @ rt_api_host r @ '':443'',
     ''    http-request set-var(txn.security) str(origin_rejected) if !frontend_origin !api_origin'',
     ''    http-request deny deny_status 421 if !frontend_origin !api_origin'',
     ''    http-request set-var(txn.origin) str(frontend) if frontend_origin'',
     ''    http-request set-var(txn.origin) str(api) if api_origin'',
     ''    http-request set-var(txn.security) str(uri_rejected) if { url,length gt 8192 }'',
     ''    http-request return status 414 content-type text/plain string '' @ [dquote] @ ''URI too long'' @ [dquote] @ '' if { url,length gt 8192 }'']"

definition generation_rules :: "string \<Rightarrow> string" where
  "generation_rules g = text_lines [
     ''    acl generation_probe method GET'',
     ''    acl generation_path path -m str /_secpal/proxy-generation'',
     ''    acl generation_header req.hdr_cnt(X-SecPal-Runtime-Probe) eq 1'',
     ''    acl generation_value req.hdr(X-SecPal-Runtime-Probe) -m str '' @ g,
     ''    http-request set-var(txn.security) str(generation_probe) if generation_probe generation_path generation_header generation_value'',
     ''    http-request return status 204 hdr X-SecPal-Generation '' @ g @ '' hdr X-SecPal-Worker %pid if generation_probe generation_path generation_header generation_value'']"

definition accepted_rules :: string where
  "accepted_rules = text_lines [
     ''    http-request set-var(txn.security) str(accepted)'',
     ''    use_backend secpal_frontend if frontend_origin'',
     ''    use_backend secpal_api if api_origin'']"

definition backend_section :: "string \<times> backend \<Rightarrow> string" where
  "backend_section rb = (case rb of (role, b) \<Rightarrow>
     let path = (if role = ''api'' then ''/health/ready'' else be_readiness_path b) in text_lines [
     [],
     ''backend secpal_'' @ role,
     ''    option httpchk'',
     ''    http-check send meth GET uri '' @ path @ '' ver HTTP/1.1 hdr Host localhost'',
     ''    http-check expect status 200 on-error str(readiness_rejected) on-success str(ready)'',
     ''    server '' @ role @ '' '' @ be_endpoint b @ '' check inter 1s fastinter 1s downinter 1s fall 1 rise 2''])"

definition routing_sections :: "routing \<Rightarrow> string option \<Rightarrow> string res" where
  "routing_sections r generation =
     bind_res (case generation of
         None \<Rightarrow> Inr []
       | Some g \<Rightarrow> if \<not> fullmatch SHA256 g then Inl (ValueError ''admit-generation-fingerprint'')
           else Inr (generation_rules g))
       (\<lambda>probe. Inr (origin_rules r @ probe @ sanitization_text @ accepted_rules
          @ concat (map backend_section BACKENDS)))"

definition runtime_preamble :: string where
  "runtime_preamble = text_lines [
     ''# SPDX-FileCopyrightText: 2026 SecPal Contributors'',
     ''# SPDX-License-Identifier: MIT'',
     ''# Reviewed shared base; listener placement and canonical identity have separate owners.'',
     ''global'',
     ''    user haproxy'',
     ''    group haproxy'',
     ''    log stdout format raw local0 info'',
     ''    maxconn 4096'',
     ''    nbthread 2'',
     ''    tune.bufsize 16384'',
     ''    tune.maxrewrite 1024'',
     ''    tune.http.maxhdr 64'',
     ''    hard-stop-after 35s'',
     [],
     ''defaults'',
     ''    mode http'',
     ''    log global'',
     ''    timeout connect 3s'',
     ''    timeout client 30s'',
     ''    timeout server 30s'',
     ''    timeout http-request 5s'',
     ''    timeout http-keep-alive 5s'',
     ''    timeout queue 3s'',
     ''    timeout check 3s'',
     ''    timeout tunnel 30s'',
     ''    retries 0'',
     ''    unique-id-format %[uuid()]'',
     ''    log-format '' @ [dquote] @ ''peer=%ci request_id=%ID method=%[var(txn.method)] origin=%[var(txn.origin)] backend=%b server=%s status=%ST bytes=%B duration_ms=%Ta termination=%tsc security=%[var(txn.security)]'' @ [dquote],
     []]"

definition rejected_rules :: string where
  "rejected_rules = text_lines [
     ''    http-request set-var(txn.security) str(rejected)'',
     ''    http-request set-var(txn.method) str(unavailable)'',
     ''    http-request set-var(txn.origin) str(unavailable)'']"

definition base_document :: "routing \<Rightarrow> listener list \<Rightarrow> pydict" where
  "base_document r ls = [(''frontend_host'', PStr (rt_frontend_host r)), (''api_host'', PStr (rt_api_host r)),
     (''listeners'', PList (map (\<lambda>l. PDict [(''address'', PStr (ls_address l)), (''port'', PInt (ls_port l))]) ls))]"

definition base_render_with :: "routing \<Rightarrow> listener list \<Rightarrow> string option \<Rightarrow> string res" where
  "base_render_with r ls generation =
     (if \<not> (1 \<le> length ls \<and> length ls \<le> 8) \<or> \<not> distinct ls then Inl (ValueError ''admit-render-input'')
      else bind_res (routing_sections r generation) (\<lambda>sections.
        bind_res (dumps (PDict (base_document r ls))) (\<lambda>inputs.
        Inr (''# secpal-routing '' @ inputs @ [newline]
          @ runtime_preamble @ text_lines [''frontend secpal_ingress'']
          @ concat (map (\<lambda>l. text_lines [''    bind '' @ endpoint l]) ls)
          @ rejected_rules @ sections))))"

definition base_generation_id :: "(string \<Rightarrow> string) \<Rightarrow> routing \<Rightarrow> listener list \<Rightarrow> string res" where
  "base_generation_id sha r ls = bind_res (base_render_with r ls None) (\<lambda>text. Inr (sha text))"

definition base_render :: "(string \<Rightarrow> string) \<Rightarrow> routing \<Rightarrow> listener list \<Rightarrow> string res" where
  "base_render sha r ls = bind_res (base_generation_id sha r ls) (\<lambda>g. base_render_with r ls (Some g))"

definition base_listener_constraints :: "listener list \<Rightarrow> string res" where
  "base_listener_constraints ls =
     (if \<not> (1 \<le> length ls \<and> length ls \<le> 8) then Inl (ValueError ''admit-listener-unit'')
      else Inr (text_lines ([''# SPDX-FileCopyrightText: 2026 SecPal Contributors'',
        ''# SPDX-License-Identifier: MIT'', ''[Service]'', ''SocketBindAllow='']
        @ map (\<lambda>l. ''SocketBindAllow='' @ (if CHR '':'' \<in> set (ls_address l) then ''ipv6'' else ''ipv4'')
            @ '':tcp:'' @ show_int (ls_port l)) (sort_key endpoint ls))))"

definition base_from_config :: "(string \<Rightarrow> string) \<Rightarrow> string \<Rightarrow> (routing \<times> listener list) res" where
  "base_from_config sha data =
     (if \<not> (0 < length data \<and> length data \<le> MAX_CONFIG_BYTES) then Inl (ValueError ''admit-serving-size'')
      else let line = first_line data; prefix = ''# secpal-routing '' in
        if \<not> starts_with prefix line then Inl (ValueError ''admit-serving-inputs'')
        else bind_res (base_decode_document (drop (length prefix) line)) (\<lambda>(routing, listeners).
          bind_res (base_render sha routing listeners) (\<lambda>text.
          if text \<noteq> data then Inl (ValueError ''admit-serving-regeneration'')
          else Inr (routing, listeners))))"

end
