(* ===== verification/Haproxy_Direct.thy ===== *)
theory Haproxy_Direct
  imports Haproxy_Base Viewer_Tls
begin

text \<open>
  \<open>scripts/haproxy_direct_contract.py\<close> and \<open>scripts/haproxy_composition_contract.py\<close>: viewer and
  proxy listeners, the closed direct composition, its document and its generated configuration,
  the application peers, and the dispatch between the neutral and the direct documents.

  The three listener classes are the constructors of \<open>row\<close>. A constructor takes the raw
  value where the caller passes one that is not checked yet.
\<close>

definition VIEWER_PEM :: string where "VIEWER_PEM = ''/etc/haproxy/secpal-viewer.pem''"

definition DECODER_PORTS :: "(string \<times> int) list" where
  "DECODER_PORTS = [(''http'', 18082), (''https'', 18083)]"

definition decoder_port :: "string \<Rightarrow> int" where
  "decoder_port transport = (case map_of DECODER_PORTS transport of None \<Rightarrow> 0 | Some p \<Rightarrow> p)"

section \<open>Addresses\<close>

definition parse_address :: "string \<Rightarrow> (nat \<times> int) res" where
  "parse_address s = bind_res (ip_address s) (\<lambda>a. case a of
     None \<Rightarrow> Inl (ValueError ''not an address'') | Some p \<Rightarrow> Inr p)"

definition PRIVATE_NETWORKS :: "network list" where
  "PRIVATE_NETWORKS =
     [\<lparr>nw_version = 4, nw_address = 10 * 2 ^ 24, nw_prefixlen = 8\<rparr>,
      \<lparr>nw_version = 4, nw_address = 172 * 2 ^ 24 + 16 * 2 ^ 16, nw_prefixlen = 12\<rparr>,
      \<lparr>nw_version = 4, nw_address = 192 * 2 ^ 24 + 168 * 2 ^ 16, nw_prefixlen = 16\<rparr>,
      \<lparr>nw_version = 6, nw_address = 252 * 2 ^ 120, nw_prefixlen = 7\<rparr>]"

definition private_address :: "string \<Rightarrow> bool res" where
  "private_address s = bind_res (parse_address s) (\<lambda>(v, a).
     Inr (is_loopback v a \<or> list_ex (in_network v a) PRIVATE_NETWORKS))"

definition application_proxy_peer :: "pyval \<Rightarrow> string res" where
  "application_proxy_peer value = (case value of
     PStr s \<Rightarrow> bind_res (ip_address s) (\<lambda>peer. case peer of
         None \<Rightarrow> Inl (ValueError ''admit-application-proxy-peer'')
       | Some (v, a) \<Rightarrow>
           if address_str v a \<noteq> s then Inl (ValueError ''admit-application-proxy-peer'')
           else bind_res (private_address s) (\<lambda>private.
             if \<not> private \<or> is_multicast v a \<or> a = 0 then Inl (ValueError ''admit-application-proxy-peer'')
             else Inr s))
   | _ \<Rightarrow> Inl (ValueError ''admit-application-proxy-peer''))"

definition new_application_authority :: "string list \<Rightarrow> string list res" where
  "new_application_authority peers =
     (if \<not> (1 \<le> length peers \<and> length peers \<le> 2) \<or> \<not> distinct peers
      then Inl (ValueError ''admit-application-proxy-authority'')
      else seq_res (each (\<lambda>p. bind_res (application_proxy_peer (PStr p)) (\<lambda>_. Inr ())) peers) (Inr peers))"

definition application_proxy_peers :: "string list \<Rightarrow> string res" where
  "application_proxy_peers peers = bind_res (new_application_authority peers) (\<lambda>ps. Inr (join_str CHR '','' ps))"

section \<open>Listeners\<close>

datatype row =
    Neutral (row_socket: listener)
  | Viewer (row_socket: listener) (row_transport: string) (row_lifecycle: string)
  | Proxy (row_socket: listener) (row_transport: string) (row_peers: "string list")

definition public_port :: "string \<Rightarrow> int" where
  "public_port transport = (if transport = ''http'' then 80 else 443)"

definition new_viewer :: "listener \<Rightarrow> pyval \<Rightarrow> pyval \<Rightarrow> row res" where
  "new_viewer socket transport lifecycle =
     (if transport \<notin> {PStr ''http'', PStr ''https''} then Inl (ValueError ''admit-direct-listener'')
      else if lifecycle \<notin> {PStr ''legacy'', PStr ''http01'', PStr ''hsts''}
      then Inl (ValueError ''admit-direct-tls-lifecycle'')
      else bind_res (parse_address (ls_address socket)) (\<lambda>(v, a).
        if \<not> is_loopback v a \<and> ls_port socket \<noteq> public_port (the_str transport)
        then Inl (ValueError ''admit-direct-public-port'')
        else Inr (Viewer socket (the_str transport) (the_str lifecycle))))"

text \<open>\<open>len(set(values)) == len(values)\<close>.\<close>

fun py_distinct :: "pyval list \<Rightarrow> bool" where
  "py_distinct [] = True"
| "py_distinct (v # vs) = (\<not> list_ex (py_eq v) vs \<and> py_distinct vs)"

definition trusted_peer :: "pyval \<Rightarrow> string res" where
  "trusted_peer value = bind_res (application_proxy_peer value) (\<lambda>p.
     bind_res (private_address p) (\<lambda>private.
     if PStr p \<noteq> value \<or> \<not> private then Inl (ValueError ''admit-trusted-physical-peer'') else Inr p))"

definition new_proxy :: "listener \<Rightarrow> pyval \<Rightarrow> pyval list \<Rightarrow> row res" where
  "new_proxy socket transport peers =
     bind_res (new_viewer socket transport (PStr ''legacy'')) (\<lambda>_.
     bind_res (private_address (ls_address socket)) (\<lambda>private.
     if \<not> private \<or> ls_port socket \<in> snd ` set DECODER_PORTS \<or> \<not> (1 \<le> length peers \<and> length peers \<le> 32)
     then Inl (ValueError ''admit-private-proxy-listener'')
     else if \<not> list_all hashable peers then Inl TypeError
     else if \<not> py_distinct peers then Inl (ValueError ''admit-private-proxy-listener'')
     else bind_res (map_res trusted_peer peers) (\<lambda>trusted.
       bind_res (parse_address (ls_address socket)) (\<lambda>(family, _).
       bind_res (map_res parse_address trusted) (\<lambda>parsed.
       if family \<notin> fst ` set parsed then Inl (ValueError ''admit-trusted-peer-address-family'')
       else Inr (Proxy socket (the_str transport) trusted))))))"

section \<open>The composition\<close>

record direct =
  dr_routing :: routing
  dr_rows :: "row list"

definition is_proxy :: "row \<Rightarrow> bool" where
  "is_proxy row = (case row of Proxy _ _ _ \<Rightarrow> True | _ \<Rightarrow> False)"

definition is_viewer :: "row \<Rightarrow> bool" where
  "is_viewer row = (case row of Viewer _ _ _ \<Rightarrow> True | _ \<Rightarrow> False)"

text \<open>\<open>topology\<close> of a list of listeners of one class, and the sorted set of its transports.\<close>

definition topology :: "row list \<Rightarrow> string" where
  "topology rows = (if is_proxy (hd rows) then ''ha'' else ''single'')"

definition transports :: "row list \<Rightarrow> string list" where
  "transports rows = sorted_strings (map row_transport rows)"

text \<open>Two admitted sockets that cannot both be bound.\<close>

definition clash :: "listener \<Rightarrow> listener \<Rightarrow> bool" where
  "clash l m = (case (ip_address (ls_address l), ip_address (ls_address m)) of
     (Inr (Some (v, a)), Inr (Some (w, b))) \<Rightarrow> ls_port l = ls_port m \<and> v = w \<and> (a = b \<or> a = 0 \<or> b = 0)
   | _ \<Rightarrow> False)"

fun clashing :: "listener list \<Rightarrow> bool" where
  "clashing [] = False"
| "clashing (l # ls) = (list_ex (clash l) ls \<or> clashing ls)"

definition new_direct :: "routing \<Rightarrow> row list \<Rightarrow> direct res" where
  "new_direct r rows =
     (if \<not> (1 \<le> length rows \<and> length rows \<le> 8)
        \<or> \<not> (list_all is_viewer rows \<or> list_all is_proxy rows)
      then Inl (ValueError ''admit-direct-input'')
      else if topology rows = ''single'' \<and> card (set (map row_lifecycle rows)) \<noteq> 1
      then Inl (ValueError ''admit-one-direct-tls-lifecycle'')
      else if topology rows = ''single'' \<and> row_lifecycle (hd rows) \<noteq> ''legacy''
        \<and> \<not> list_ex (\<lambda>row. row_transport row = ''http'') rows
      then Inl (ValueError ''admit-http01-listener'')
      else if is_proxy (hd rows) \<and> 8 < length rows + length (transports rows)
      then Inl (ValueError ''admit-composed-listener-budget'')
      else if clashing (map row_socket rows) then Inl (ValueError ''admit-direct-distinct-sockets'')
      else Inr \<lparr>dr_routing = r, dr_rows = rows\<rparr>)"

definition decoder_socket :: "string \<Rightarrow> listener" where
  "decoder_socket transport = \<lparr>ls_address = ''127.0.0.1'', ls_port = decoder_port transport\<rparr>"

definition bound_sockets :: "row list \<Rightarrow> listener list" where
  "bound_sockets rows = map row_socket rows
     @ (if topology rows = ''ha'' then map decoder_socket (transports rows) else [])"

definition DIRECT_FIELDS :: "string list" where
  "DIRECT_FIELDS = [''topology'', ''frontend_host'', ''api_host'', ''listeners'']"

definition direct_row :: "bool \<Rightarrow> pyval \<Rightarrow> pyval \<Rightarrow> row res" where
  "direct_row ha lifecycle value = (case value of
     PDict d \<Rightarrow>
       if dkeys d \<noteq> {''address'', ''port'', ''transport''} \<union> (if ha then {''trusted_peers''} else {})
       then Inl (ValueError ''admit-direct-listener-fields'')
       else bind_res (new_listener (dget d ''address'') (dget d ''port'')) (\<lambda>socket.
         if ha then (case dget d ''trusted_peers'' of
             PList peers \<Rightarrow> new_proxy socket (dget d ''transport'') peers
           | _ \<Rightarrow> Inl (ValueError ''admit-trusted-physical-peers''))
         else new_viewer socket (dget d ''transport'') lifecycle)
   | _ \<Rightarrow> Inl (ValueError ''admit-direct-listener-fields''))"

definition direct_from_document :: "pyval \<Rightarrow> direct res" where
  "direct_from_document document = (case document of
     PDict d \<Rightarrow>
       if (dkeys d \<noteq> set DIRECT_FIELDS \<and> dkeys d \<noteq> insert ''tls_lifecycle'' (set DIRECT_FIELDS))
         \<or> dget d ''topology'' \<notin> {PStr ''single'', PStr ''ha''}
       then Inl (ValueError ''admit-direct-fields'')
       else let lifecycle = dget_default d ''tls_lifecycle'' (PStr ''legacy''); ha = dget d ''topology'' = PStr ''ha'' in
         if ''tls_lifecycle'' \<in> dkeys d \<and> (lifecycle \<notin> {PStr ''http01'', PStr ''hsts''} \<or> ha)
         then Inl (ValueError ''admit-direct-tls-lifecycle'')
         else (case dget d ''listeners'' of
             PList rows \<Rightarrow>
               if \<not> (1 \<le> length rows \<and> length rows \<le> 8) then Inl (ValueError ''admit-direct-listener-count'')
               else bind_res (map_res (direct_row ha lifecycle) rows) (\<lambda>listeners.
                 bind_res (new_routing (dget d ''frontend_host'') (dget d ''api_host'')) (\<lambda>routing.
                 new_direct routing listeners))
           | _ \<Rightarrow> Inl (ValueError ''admit-direct-listener-count''))
   | _ \<Rightarrow> Inl (ValueError ''admit-direct-fields''))"

definition direct_decode_document :: "string \<Rightarrow> direct res" where
  "direct_decode_document data = bind_res (decode_json_document data) direct_from_document"

definition row_document :: "row \<Rightarrow> pyval" where
  "row_document row = PDict ([(''address'', PStr (ls_address (row_socket row))), (''port'', PInt (ls_port (row_socket row))),
     (''transport'', PStr (row_transport row))]
     @ (if is_proxy row then [(''trusted_peers'', PList (map PStr (row_peers row)))] else []))"

definition direct_document :: "direct \<Rightarrow> pydict" where
  "direct_document spec = (let rows = dr_rows spec in
     [(''topology'', PStr (topology rows)), (''frontend_host'', PStr (rt_frontend_host (dr_routing spec)))]
     @ (if topology rows = ''single'' \<and> row_lifecycle (hd rows) \<noteq> ''legacy''
        then [(''tls_lifecycle'', PStr (row_lifecycle (hd rows)))] else [])
     @ [(''api_host'', PStr (rt_api_host (dr_routing spec))), (''listeners'', PList (map row_document rows))])"

section \<open>Rendering\<close>

definition v6only :: "listener \<Rightarrow> string" where
  "v6only l = (if CHR '':'' \<in> set (ls_address l) then '' v6only'' else [])"

definition preface_section :: "nat \<times> row \<Rightarrow> string" where
  "preface_section irow = (case irow of (i, row) \<Rightarrow>
     let l = row_socket row; peers = row_peers row; transport = row_transport row in text_lines [
     ''frontend secpal_preface_'' @ show_nat i,
     ''    mode tcp'',
     ''    bind '' @ endpoint l @ v6only l,
     ''    tcp-request connection reject unless { src '' @ words peers @ '' 127.0.0.1 ::1 '' @ ls_address l @ '' }'',
     ''    tcp-request inspect-delay 1s'',
     ''    acl v4 req.payload(0,16) -m bin 0d0a0d0a000d0a515549540a2111000c'',
     ''    acl v6 req.payload(0,16) -m bin 0d0a0d0a000d0a515549540a21210024'',
     ''    acl complete_v4 req.payload(0,28) -m found'',
     ''    acl complete_v6 req.payload(0,52) -m found'',
     ''    acl mapped_v6 req.payload(16,12) -m bin 00000000000000000000ffff'',
     ''    tcp-request content reject if v6 complete_v6 mapped_v6'',
     ''    tcp-request content accept if v4 complete_v4'',
     ''    tcp-request content accept if v6 complete_v6'',
     ''    tcp-request content reject if WAIT_END'',
     ''    option logasap'',
     ''    log-format '' @ [dquote] @ ''stage=admission worker=%pid peer=%ci edge=%[bc_src]:%[bc_src_port]>%[bc_dst]:%[bc_dst_port] termination=%ts'' @ [dquote],
     ''    default_backend secpal_decoder_'' @ transport])"

definition decoder_section :: "string \<Rightarrow> string" where
  "decoder_section transport = text_lines [
     ''backend secpal_decoder_'' @ transport,
     ''    mode tcp'',
     ''    server decoder 127.0.0.1:'' @ show_int (decoder_port transport)]"

definition preface_sections :: "row list \<Rightarrow> string" where
  "preface_sections rows = concat (map preface_section (enumerate 0 rows)) @ concat (map decoder_section (transports rows))"

definition bind_line :: "bool \<Rightarrow> row \<Rightarrow> string" where
  "bind_line ha row = text_lines [''    bind '' @ endpoint (row_socket row)
     @ (if ha then '' accept-proxy'' else []) @ v6only (row_socket row)
     @ (if row_transport row = ''https''
        then '' ssl crt '' @ VIEWER_PEM @ '' ssl-min-ver TLSv1.2 alpn h2,http/1.1'' else [])]"

definition canonical_rules :: string where
  "canonical_rules = text_lines [
     ''    http-request set-header X-Forwarded-For %[src]'',
     ''    http-request set-header X-Forwarded-Host %[req.hdr(host),lower,field(1,:)]'',
     ''    http-request set-header X-Forwarded-Proto http'',
     ''    http-request set-header X-Forwarded-Port 80'',
     ''    http-request set-header X-Forwarded-Proto https if { ssl_fc }'',
     ''    http-request set-header X-Forwarded-Port 443 if { ssl_fc }'']"

definition identity_rules :: string where
  "identity_rules = text_lines [
     ''    http-request deny deny_status 400 if { src 0.0.0.0 :: 224.0.0.0/4 ff00::/8 }'',
     ''    http-request deny deny_status 400 unless { src_port gt 0 }'']"

definition acme_rules :: "routing \<Rightarrow> string" where
  "acme_rules r = text_lines [
     ''    acl acme_prefix path,url_dec -i -m beg /.well-known/acme-challenge'',
     ''    acl acme_ambiguous path,url_dec -i -m beg //.well-known/acme-challenge'',
     ''    acl acme_target url -m reg ^/'' @ [bslash] @ ''.well-known/acme-challenge/[A-Za-z0-9_-]{43}$'',
     ''    acl acme_method method GET'',
     ''    http-request deny deny_status 400 if acme_ambiguous'',
     ''    http-request set-var(txn.security) str(acme_rejected) if acme_prefix !acme_target'',
     ''    http-request deny deny_status 400 if acme_prefix !acme_target'',
     ''    http-request deny deny_status 405 if acme_prefix !acme_method'',
     ''    http-request set-var(txn.security) str(acme_challenge) if acme_target acme_method !{ ssl_fc }'',
     ''    http-request set-var(txn.security) str(https_redirect) if !acme_target !{ ssl_fc }'',
     ''    http-request redirect code 308 location https://'' @ rt_frontend_host r @ ''/ if frontend_origin star_target !{ ssl_fc }'',
     ''    http-request redirect code 308 location https://'' @ rt_api_host r @ ''/ if api_origin star_target !{ ssl_fc }'',
     ''    http-request redirect code 308 prefix https://'' @ rt_frontend_host r @ '' if frontend_origin !acme_target !{ ssl_fc }'',
     ''    http-request redirect code 308 prefix https://'' @ rt_api_host r @ '' if api_origin !acme_target !{ ssl_fc }'',
     ''    http-request deny deny_status 404 if acme_target { ssl_fc }'']"

definition acme_backend :: string where
  "acme_backend = text_lines [
     [],
     ''backend secpal_acme'',
     ''    timeout connect 1s'',
     ''    timeout server 5s'',
     ''    http-request del-header X-Forwarded- -m beg'',
     ''    http-request set-header Host localhost'',
     ''    server certbot 127.0.0.1:'' @ show_int ACME_PORT]"

text \<open>The changes the TLS lifecycle makes to the routing sections.\<close>

definition probe_sources :: "row list \<Rightarrow> string list" where
  "probe_sources rows = sorted_strings ([''127.0.0.1'', ''::1'']
     @ filter (\<lambda>a. a \<notin> {''0.0.0.0'', ''::''}) (map (ls_address \<circ> row_socket) rows))"

definition probe_line :: "row list \<Rightarrow> string \<Rightarrow> string" where
  "probe_line rows line = (if starts_with ''    http-request return status 204 '' line
     then line @ '' { src '' @ words (probe_sources rows) @ '' }'' else line)"

definition lifecycle_sections :: "routing \<Rightarrow> row list \<Rightarrow> string \<Rightarrow> string" where
  "lifecycle_sections r rows sections0 =
     (let origin = text_lines [''    acl origin_form url_beg /''];
          sections1 = replace_first origin
            (text_lines [''    http-request set-uri %[pathq] if { req.ver 2.0 }''] @ origin) sections0;
          marker = text_lines [''    http-request set-var(txn.security) str(accepted)''];
          sections2 = join_str newline (map (probe_line rows) (py_split newline sections1));
          sections3 = replace_first marker (acme_rules r @ marker
            @ text_lines [''    use_backend secpal_acme if acme_target acme_method !{ ssl_fc }'']) sections2;
          sections4 = sections3 @ acme_backend
      in if row_lifecycle (hd rows) = ''hsts''
         then replace_first ''    use_backend secpal_frontend''
           (text_lines [''    http-response set-header Strict-Transport-Security '' @ quoted ''max-age=86400'' @ '' if { ssl_fc }'']
            @ ''    use_backend secpal_frontend'') sections4
         else sections4)"

definition decoder_rows :: "row list \<Rightarrow> row list" where
  "decoder_rows rows = map (\<lambda>transport. Viewer (decoder_socket transport) transport ''legacy'') (transports rows)"

definition direct_head :: "direct \<Rightarrow> string res" where
  "direct_head spec = bind_res (dumps (PDict (direct_document spec))) (\<lambda>inputs.
     let text = ''# secpal-direct '' @ inputs @ [newline]
           @ replace_all ''peer=%ci '' ''peer=%[fc_src] client=%ci '' runtime_preamble
     in Inr (if topology (dr_rows spec) = ''ha''
       then replace_all ''peer=%[fc_src] client=%ci ''
         ''stage=http worker=%pid edge=%[fc_src]:%[fc_src_port]>%[fc_dst]:%[fc_dst_port] client=%ci '' text
       else text))"

definition direct_render_with :: "direct \<Rightarrow> string option \<Rightarrow> string res" where
  "direct_render_with spec generation =
     (let r = dr_routing spec; rows = dr_rows spec; ha = topology rows = ''ha'' in
      bind_res (direct_head spec) (\<lambda>head.
      bind_res (routing_sections r generation) (\<lambda>routed.
      let sections = replace_first sanitization_text (sanitization_text @ canonical_rules) routed in
      Inr (head @ text_lines [''frontend secpal_ingress'']
        @ concat (map (bind_line ha) (if ha then decoder_rows rows else rows))
        @ rejected_rules @ (if ha then identity_rules else [])
        @ (if \<not> ha \<and> row_lifecycle (hd rows) \<noteq> ''legacy'' then lifecycle_sections r rows sections else sections)
        @ (if ha then preface_sections rows else [])))))"

definition direct_generation_id :: "(string \<Rightarrow> string) \<Rightarrow> direct \<Rightarrow> string res" where
  "direct_generation_id sha spec = bind_res (direct_render_with spec None) (\<lambda>text. Inr (sha text))"

definition direct_render :: "(string \<Rightarrow> string) \<Rightarrow> direct \<Rightarrow> string res" where
  "direct_render sha spec = bind_res (direct_generation_id sha spec) (\<lambda>g. direct_render_with spec (Some g))"

definition direct_from_config :: "(string \<Rightarrow> string) \<Rightarrow> string \<Rightarrow> direct res" where
  "direct_from_config sha data =
     (if \<not> (0 < length data \<and> length data \<le> MAX_CONFIG_BYTES) then Inl (ValueError ''admit-direct-serving-size'')
      else let line = first_line data; prefix = ''# secpal-direct '' in
        if \<not> starts_with prefix line then Inl (ValueError ''admit-direct-serving-input'')
        else bind_res (direct_decode_document (drop (length prefix) line)) (\<lambda>spec.
          bind_res (direct_render sha spec) (\<lambda>text.
          if text \<noteq> data then Inl (ValueError ''admit-direct-serving-regeneration'') else Inr spec)))"

section \<open>Neutral or direct\<close>

definition neutral_private :: "routing \<times> listener list \<Rightarrow> (routing \<times> row list) res" where
  "neutral_private spec = (case spec of (r, ls) \<Rightarrow>
     bind_res (map_res (\<lambda>l. parse_address (ls_address l)) ls) (\<lambda>parsed.
     if list_ex (\<lambda>(v, a). \<not> is_loopback v a) parsed then Inl (ValueError ''admit-neutral-loopback-only'')
     else Inr (r, map Neutral ls)))"

definition composed_decode_document :: "string \<Rightarrow> (routing \<times> row list) res" where
  "composed_decode_document data = bind_res (decode_json_document data) (\<lambda>document.
     if is_dict document \<and> ''topology'' \<in> dkeys (dict_of document)
     then bind_res (direct_from_document document) (\<lambda>spec. Inr (dr_routing spec, dr_rows spec))
     else bind_res (base_from_document document) neutral_private)"

definition direct_spec :: "routing \<Rightarrow> row list \<Rightarrow> direct option res" where
  "direct_spec r rows = (case rows of
     [] \<Rightarrow> Inr None
   | Neutral _ # _ \<Rightarrow> Inr None
   | _ \<Rightarrow> bind_res (new_direct r rows) (\<lambda>spec. Inr (Some spec)))"

text \<open>The neutral renderer refuses rows of another class.\<close>

definition neutral_listeners :: "row list \<Rightarrow> listener list res" where
  "neutral_listeners rows = (if list_ex (\<lambda>row. is_viewer row \<or> is_proxy row) rows
     then Inl (ValueError ''admit-render-input'') else Inr (map row_socket rows))"

definition composed_render :: "(string \<Rightarrow> string) \<Rightarrow> routing \<Rightarrow> row list \<Rightarrow> string res" where
  "composed_render sha r rows = bind_res (direct_spec r rows) (\<lambda>spec. case spec of
     Some s \<Rightarrow> direct_render sha s | None \<Rightarrow> bind_res (neutral_listeners rows) (base_render sha r))"

definition composed_generation_id :: "(string \<Rightarrow> string) \<Rightarrow> routing \<Rightarrow> row list \<Rightarrow> string res" where
  "composed_generation_id sha r rows = bind_res (direct_spec r rows) (\<lambda>spec. case spec of
     Some s \<Rightarrow> direct_generation_id sha s | None \<Rightarrow> bind_res (neutral_listeners rows) (base_generation_id sha r))"

definition composed_listener_constraints :: "row list \<Rightarrow> string res" where
  "composed_listener_constraints rows = (case rows of
     Viewer _ _ lifecycle # _ \<Rightarrow>
       bind_res (base_listener_constraints (map row_socket rows)) (\<lambda>text. Inr (
         (if lifecycle \<noteq> ''legacy'' then text_lines [''[Unit]'', ''BindsTo=secpal-acme-policy.service'',
            ''After=secpal-acme-policy.service'', []] else []) @ text))
   | Proxy _ _ _ # _ \<Rightarrow>
       bind_res (base_listener_constraints (bound_sockets rows)) (\<lambda>text. Inr (
         text_lines [''[Unit]'', ''BindsTo=secpal-direct-policy.service'',
           ''After=secpal-direct-policy.service'', []] @ text))
   | _ \<Rightarrow> base_listener_constraints (map row_socket rows))"

definition composed_from_config :: "(string \<Rightarrow> string) \<Rightarrow> string \<Rightarrow> (routing \<times> row list) res" where
  "composed_from_config sha data =
     (if starts_with ''# secpal-direct '' data
      then bind_res (direct_from_config sha data) (\<lambda>spec. Inr (dr_routing spec, dr_rows spec))
      else bind_res (base_from_config sha data) neutral_private)"

end
