(* ===== verification/Haproxy_Facts.thy ===== *)
theory Haproxy_Facts
  imports Haproxy_Base Json_Bytes Canonical_Digest
begin

text \<open>
  The generated proxy configurations: serving bytes are admitted exactly when they are what an
  admitted specification renders to, so that rendering and reading back are inverse; the
  generation fingerprint identifies the specification; and the sockets of an admitted direct
  composition can all be bound beside the backends.
\<close>

section \<open>Regeneration\<close>

text \<open>A configuration rendered without and then with its own fingerprint.\<close>

definition regenerate :: "(string \<Rightarrow> string) \<Rightarrow> (string option \<Rightarrow> string res) \<Rightarrow> string res" where
  "regenerate sha render = bind_res (render None) (\<lambda>text. render (Some (sha text)))"

lemma unique_pairs_append: "distinct (map fst (a @ d)) \<Longrightarrow> unique_pairs a d = Inr (PDict (a @ d))"
proof (induction d arbitrary: a)
  case (Cons x d)
  obtain k v where x: "x = (k, v)" by (cases x)
  with Cons.prems have "k \<notin> dkeys a" by (auto simp: dkeys_def)
  with Cons x show ?case by simp
qed simp

lemma closing_routing: "closing_hooks routing_hooks"
  by (simp add: closing_hooks_def routing_hooks_def unique_pairs_append)

lemma visible_no_newline: "visible s \<Longrightarrow> newline \<notin> set s"
  by (auto simp: visible_def list_all_iff newline_def)

lemma dumps_visible: "dumps v = Inr s \<Longrightarrow> visible s"
  unfolding dumps_def by (rule ser_visible)

lemma decode_dumps:
  assumes "plain (PDict d)" and "dumps (PDict d) = Inr s" and "length s \<le> MAX_CONFIG_BYTES"
  shows "decode_json_document s = Inr (canon (PDict d))"
proof -
  have "s \<noteq> []" using assms(2) by (auto simp: dumps_def bind_res_Inr_iff)
  then show ?thesis
    using bytes_loads_dumps [OF closing_routing assms(1,2)] assms(3) by (simp add: decode_json_document_def)
qed

text \<open>
  What the two rendering modules share: a document of every admitted specification that is
  admitted again, and a first line that holds it.
\<close>

locale regenerated =
  fixes tag :: string and document :: "'s \<Rightarrow> pydict" and admit :: "pyval \<Rightarrow> 's res" and valid :: "'s \<Rightarrow> bool"
    and render :: "'s \<Rightarrow> string option \<Rightarrow> string res" and serve :: "(string \<Rightarrow> string) \<Rightarrow> string \<Rightarrow> 's res"
  assumes tag: "newline \<notin> set tag"
    and plain_document: "plain (PDict (document s))"
    and admit_valid: "admit v = Inr s \<Longrightarrow> valid s"
    and admit_document: "valid s \<Longrightarrow> admit (canon (PDict (document s))) = Inr s"
    and head: "valid s \<Longrightarrow> render s g = Inr t \<Longrightarrow>
      \<exists>inputs rest. dumps (PDict (document s)) = Inr inputs \<and> t = tag @ inputs @ newline # rest"
    and serve: "serve sha data = Inr s \<longleftrightarrow> 0 < length data \<and> length data \<le> MAX_CONFIG_BYTES
      \<and> starts_with tag (first_line data)
      \<and> bind_res (decode_json_document (drop (length tag) (first_line data))) admit = Inr s
      \<and> regenerate sha (render s) = Inr data"
begin

lemma serve_iff:
  "serve sha data = Inr s \<longleftrightarrow> valid s \<and> length data \<le> MAX_CONFIG_BYTES \<and> regenerate sha (render s) = Inr data"
proof
  show "valid s \<and> length data \<le> MAX_CONFIG_BYTES \<and> regenerate sha (render s) = Inr data"
    if "serve sha data = Inr s"
    using that admit_valid by (auto simp: serve bind_res_Inr_iff)
next
  assume a: "valid s \<and> length data \<le> MAX_CONFIG_BYTES \<and> regenerate sha (render s) = Inr data"
  then obtain g where "valid s" "render s g = Inr data" by (auto simp: regenerate_def bind_res_Inr_iff)
  from head [OF this] obtain inputs rest where t: "dumps (PDict (document s)) = Inr inputs"
    "data = tag @ inputs @ newline # rest" by blast
  have "newline \<notin> set (tag @ inputs)" using tag dumps_visible [OF t(1)] visible_no_newline by simp
  then have line: "first_line data = tag @ inputs" using t(2) first_line_append [of "tag @ inputs"] by simp
  have "length inputs \<le> MAX_CONFIG_BYTES" using a t(2) by simp
  then have "decode_json_document inputs = Inr (canon (PDict (document s)))"
    using decode_dumps [OF plain_document t(1)] by blast
  then have "bind_res (decode_json_document inputs) admit = Inr s" using a admit_document [of s] by simp
  moreover have "starts_with tag (first_line data)" "drop (length tag) (first_line data) = inputs"
    by (simp_all add: line)
  moreover have "0 < length data" by (simp add: t(2))
  ultimately show "serve sha data = Inr s" unfolding serve using a by simp
qed

text \<open>Two specifications with one text are one specification.\<close>

lemma render_inj:
  assumes "valid s" "valid s'" "render s g = Inr t" "render s' g' = Inr t"
  shows "s = s'"
proof -
  obtain x r where 1: "dumps (PDict (document s)) = Inr x" "t = tag @ x @ newline # r"
    using head [OF assms(1,3)] by blast
  obtain x' r' where 2: "dumps (PDict (document s')) = Inr x'" "t = tag @ x' @ newline # r'"
    using head [OF assms(2,4)] by blast
  have n: "newline \<notin> set (tag @ x)" "newline \<notin> set (tag @ x')"
    using tag 1(1) 2(1) dumps_visible visible_no_newline by auto
  have "tag @ x = tag @ x'"
    using first_line_append [OF n(1), of r] first_line_append [OF n(2), of r'] 1(2) 2(2) by simp
  then have "dumps (PDict (document s)) = dumps (PDict (document s'))" using 1(1) 2(1) by simp
  then have "canon (PDict (document s)) = canon (PDict (document s'))"
    unfolding dumps_inj [OF plain_document plain_document] .
  then show ?thesis using admit_document [OF assms(1)] admit_document [OF assms(2)] by simp
qed

lemma generation_binds:
  assumes "valid s" "valid s'" "render s None = Inr t" "render s' None = Inr t'" "sha t = sha t'"
  shows "s = s' \<or> t \<noteq> t' \<and> sha t = sha t'"
  using render_inj [OF assms(1,2,3)] assms(4,5) by blast

end

section \<open>The neutral configuration\<close>

definition valid_routing :: "routing \<Rightarrow> bool" where
  "valid_routing r \<longleftrightarrow> new_routing (PStr (rt_frontend_host r)) (PStr (rt_api_host r)) = Inr r"

definition valid_listener :: "listener \<Rightarrow> bool" where
  "valid_listener l \<longleftrightarrow> new_listener (PStr (ls_address l)) (PInt (ls_port l)) = Inr l"

lemma hostname_Inr: "hostname v = Inr s \<Longrightarrow> v = PStr s"
  by (auto simp: hostname_def bind_res_Inr_iff split: pyval.splits if_splits option.splits)

lemma new_routing_Inr:
  assumes "new_routing f a = Inr r"
  shows "f = PStr (rt_frontend_host r)" and "a = PStr (rt_api_host r)" and "valid_routing r"
proof -
  obtain x y where h: "hostname f = Inr x" "hostname a = Inr y" "r = \<lparr>rt_frontend_host = x, rt_api_host = y\<rparr>"
    using assms by (auto simp: new_routing_def bind_res_Inr_iff split: if_splits)
  then show f: "f = PStr (rt_frontend_host r)" and a: "a = PStr (rt_api_host r)"
    using hostname_Inr by auto
  show "valid_routing r" using assms unfolding valid_routing_def f [symmetric] a [symmetric] .
qed

lemma new_listener_Inr:
  assumes "new_listener a p = Inr l"
  shows "a = PStr (ls_address l)" and "p = PInt (ls_port l)" and "valid_listener l"
proof -
  obtain s where s: "a = PStr s" using assms by (auto simp: new_listener_def split: pyval.splits)
  obtain k where k: "p = PInt k"
    using assms by (cases p) (auto simp: new_listener_def s bind_res_Inr_iff split: option.splits)
  have "l = \<lparr>ls_address = s, ls_port = k\<rparr>"
    using assms by (auto simp: new_listener_def s k bind_res_Inr_iff split: option.splits if_splits)
  then show a: "a = PStr (ls_address l)" and p: "p = PInt (ls_port l)" using s k by simp_all
  show "valid_listener l" using assms unfolding a p by (simp add: valid_listener_def)
qed

definition valid_base :: "routing \<times> listener list \<Rightarrow> bool" where
  "valid_base spec \<longleftrightarrow> (case spec of (r, ls) \<Rightarrow>
     valid_routing r \<and> list_all valid_listener ls \<and> 1 \<le> length ls \<and> length ls \<le> 8 \<and> distinct ls)"

lemma listener_of_row_Inr: "listener_of_row v = Inr l \<Longrightarrow> valid_listener l"
  using new_listener_Inr(3) by (auto simp: listener_of_row_def split: pyval.splits if_splits)

lemma all_valid: "map_res f vs = Inr xs \<Longrightarrow> (\<And>v x. f v = Inr x \<Longrightarrow> P x) \<Longrightarrow> list_all P xs \<and> length xs = length vs"
  unfolding map_res_Inr_iff by (induction rule: list_all2_induct) auto

lemma base_admit_valid:
  assumes "base_from_document v = Inr spec"
  shows "valid_base spec"
proof -
  obtain d where v: "v = PDict d" using assms by (auto simp: base_from_document_def split: pyval.splits)
  obtain r where r: "new_routing (dget d ''frontend_host'') (dget d ''api_host'') = Inr r"
    and run: "(case dget d ''listeners'' of
           PList rows \<Rightarrow>
             if \<not> (1 \<le> length rows \<and> length rows \<le> 8) then Inl (ValueError ''admit-listener-count'')
             else bind_res (map_res listener_of_row rows) (\<lambda>listeners.
               if \<not> distinct listeners then Inl (ValueError ''admit-listener-uniqueness'')
               else Inr (r, listeners))
         | _ \<Rightarrow> Inl (ValueError ''admit-listener-count'')) = Inr spec"
    using assms unfolding v base_from_document_def pyval.case raise_Inr_iff bind_res_Inr_iff by blast
  obtain rows where rows: "dget d ''listeners'' = PList rows" using run by (cases "dget d ''listeners''") simp_all
  obtain ls where ls: "1 \<le> length rows" "length rows \<le> 8" "map_res listener_of_row rows = Inr ls" "distinct ls"
    "spec = (r, ls)"
    using run unfolding rows pyval.case raise_Inr_iff bind_res_Inr_iff by auto
  from all_valid [OF ls(3), of valid_listener] listener_of_row_Inr new_routing_Inr(3) [OF r] ls(1,2,4,5)
  show ?thesis by (auto simp: valid_base_def)
qed

lemma plain_base_document: "plain (PDict (base_document r ls))"
  by (simp add: base_document_def list_all_iff)

lemma canon_listener_row:
  "canon (PDict [(''address'', a), (''port'', p)]) = PDict [(''address'', canon a), (''port'', canon p)]"
  by simp

lemma base_admit_document: "valid_base (r, ls) \<Longrightarrow> base_from_document (canon (PDict (base_document r ls))) = Inr (r, ls)"
proof -
  assume v: "valid_base (r, ls)"
  let ?row = "\<lambda>l. PDict [(''address'', PStr (ls_address l)), (''port'', PInt (ls_port l))]"
  have c: "canon (PDict (base_document r ls)) = PDict [(''api_host'', PStr (rt_api_host r)),
      (''frontend_host'', PStr (rt_frontend_host r)), (''listeners'', PList (map ?row ls))]"
    by (simp add: base_document_def)
  have "map_res listener_of_row (map ?row ls) = Inr ls"
    using v by (auto simp: valid_base_def map_res_Inr_iff list_all2_conv_all_nth list_all_length
        listener_of_row_def dkeys_def dget_def valid_listener_def)
  then show ?thesis
    using v unfolding c
    by (auto simp: base_from_document_def dkeys_def dget_def valid_base_def valid_routing_def)
qed

lemma base_head:
  "base_render_with r ls g = Inr t \<Longrightarrow>
    \<exists>inputs rest. dumps (PDict (base_document r ls)) = Inr inputs \<and> t = ''# secpal-routing '' @ inputs @ newline # rest"
  by (auto simp: base_render_with_def bind_res_Inr_iff split: if_splits)

lemma base_serve:
  "base_from_config sha data = Inr s \<longleftrightarrow> 0 < length data \<and> length data \<le> MAX_CONFIG_BYTES
      \<and> starts_with ''# secpal-routing '' (first_line data)
      \<and> bind_res (decode_json_document (drop (length ''# secpal-routing '') (first_line data))) base_from_document = Inr s
      \<and> regenerate sha (\<lambda>g. base_render_with (fst s) (snd s) g) = Inr data"
  by (cases s) (auto simp: base_from_config_def Let_def bind_res_Inr_iff base_decode_document_def base_render_def
      base_generation_id_def regenerate_def split: if_splits prod.splits)

interpretation neutral: regenerated "''# secpal-routing ''" "\<lambda>s. base_document (fst s) (snd s)" base_from_document
    valid_base "\<lambda>s. base_render_with (fst s) (snd s)" base_from_config
proof
  show "newline \<notin> set ''# secpal-routing ''" by (simp add: newline_def)
  show "base_from_config sha data = Inr s \<longleftrightarrow> 0 < length data \<and> length data \<le> MAX_CONFIG_BYTES
      \<and> starts_with ''# secpal-routing '' (first_line data)
      \<and> bind_res (decode_json_document (drop (length ''# secpal-routing '') (first_line data))) base_from_document = Inr s
      \<and> regenerate sha (base_render_with (fst s) (snd s)) = Inr data" for sha data s
    by (rule base_serve)
qed (use plain_base_document base_admit_valid base_admit_document base_head in auto)

end
