(* ===== verification/Ip_Roundtrip.thy ===== *)
theory Ip_Roundtrip
  imports Host_Firewall Json_Bytes
begin

text \<open>
  \<open>ip_address(str(a)) == a\<close>: the dotted form of an IPv4 address and the compressed form of an
  IPv6 address are read back as the number they were written from.
\<close>

section \<open>Splitting what was joined\<close>

lemma py_split_append: "c \<notin> set w \<Longrightarrow> py_split c (w @ c # s) = w # py_split c s"
  by (induction w) auto

lemma py_split_word: "c \<notin> set w \<Longrightarrow> py_split c w = [w]"
  by (induction w) auto

lemma py_split_join: "ws \<noteq> [] \<Longrightarrow> list_all (\<lambda>w. c \<notin> set w) ws \<Longrightarrow> py_split c (join_str c ws) = ws"
  by (induction c ws rule: join_str.induct) (simp_all add: py_split_append py_split_word)

section \<open>Digits\<close>

lemma those_append: "those xs = Some ys \<Longrightarrow> those zs = Some us \<Longrightarrow> those (xs @ zs) = Some (ys @ us)"
  by (induction xs arbitrary: ys) (auto split: option.splits)

lemma number_of_digits_append: "number_of_digits b (xs @ [d]) = number_of_digits b xs * b + d"
  by (simp add: number_of_digits_def)

lemma show_hex_read:
  "0 \<le> n \<Longrightarrow> \<exists>ds. those (map hex_val (show_hex n)) = Some ds \<and> number_of_digits 16 (map int ds) = n"
proof (induction n rule: show_hex.induct)
  case (1 n)
  show ?case
  proof (cases "n < 16")
    case True
    then show ?thesis
      using 1 by (subst show_hex.simps) (simp add: hex_val_hex_digit number_of_digits_def)
  next
    case False
    have "0 \<le> n div 16" using 1(2) by simp
    then obtain ds where "those (map hex_val (show_hex (n div 16))) = Some ds"
      "number_of_digits 16 (map int ds) = n div 16"
      using 1(1) [OF False] by auto
    moreover have "those (map hex_val [hex_digit (nat (n mod 16))]) = Some [nat (n mod 16)]"
      by (simp add: hex_val_hex_digit)
    ultimately have "those (map hex_val (show_hex (n div 16) @ [hex_digit (nat (n mod 16))])) = Some (ds @ [nat (n mod 16)])
        \<and> number_of_digits 16 (map int (ds @ [nat (n mod 16)])) = n"
      by (simp add: those_append number_of_digits_append)
    then show ?thesis using False by (subst (1) show_hex.simps) auto
  qed
qed

lemma show_hex_length: "0 < k \<Longrightarrow> 0 \<le> n \<Longrightarrow> n < 16 ^ k \<Longrightarrow> length (show_hex n) \<le> k"
proof (induction k arbitrary: n)
  case (Suc k)
  show ?case
  proof (cases "n < 16")
    case True
    then show ?thesis by (subst show_hex.simps) simp
  next
    case False
    then have "0 < k" using Suc.prems(3) by (cases k) auto
    moreover have "n div 16 < 16 ^ k" using Suc.prems(3) by (simp add: div_less_iff_less_mult mult.commute)
    ultimately have "length (show_hex (n div 16)) \<le> k" using Suc.IH [of "n div 16"] Suc.prems(2) by simp
    with False show ?thesis by (subst show_hex.simps) simp
  qed
qed simp

lemma hextet_read: "0 \<le> n \<Longrightarrow> n < 65536 \<Longrightarrow> parse_hextet (show_hex n) = Some n"
  using show_hex_read [of n] show_hex_length [of 4 n] by (auto simp: parse_hextet_def)

text \<open>The characters of a hextet are not among those an address is cut at.\<close>

lemma hex_char_not: "k < 16 \<Longrightarrow> hex_digit k \<notin> set '':.%''"
proof -
  have "list_all (\<lambda>c. c \<notin> set '':.%'') (map hex_digit [0..<16])" by code_simp
  then show "k < 16 \<Longrightarrow> hex_digit k \<notin> set '':.%''" by (simp add: list_all_iff)
qed

lemma show_hex_plain: "0 \<le> n \<Longrightarrow> c \<in> set '':.%'' \<Longrightarrow> c \<notin> set (show_hex n)"
proof (induction n rule: show_hex.induct)
  case (1 n)
  show ?case
  proof (cases "n < 16")
    case True
    then have "nat n < 16" by linarith
    then show ?thesis using True 1(3) hex_char_not [of "nat n"] by (subst show_hex.simps) auto
  next
    case False
    have "nat (n mod 16) < 16" "0 \<le> n div 16" using 1(2) by simp_all
    then show ?thesis
      using False 1(1) [OF False] 1(3) hex_char_not [of "nat (n mod 16)"] by (subst show_hex.simps) auto
  qed
qed

lemma show_int_plain: "0 \<le> n \<Longrightarrow> c \<in> set '':.%'' \<Longrightarrow> c \<notin> set (show_int n)"
proof -
  assume n: "0 \<le> n" and c: "c \<in> set '':.%''"
  have "list_all (\<lambda>c. \<not> digit_char c) '':.%''" by code_simp
  then show ?thesis using n c show_nat_digits [of "nat n"] by (auto simp: show_int_def list_all_iff)
qed

lemma join_str_char: "d \<noteq> c \<Longrightarrow> (\<And>w. w \<in> set ws \<Longrightarrow> d \<notin> set w) \<Longrightarrow> d \<notin> set (join_str c ws)"
  by (induction c ws rule: join_str.induct) auto

lemma compress_hextets_set: "set (compress_hextets hs) \<subseteq> insert [] (set hs)"
  by (auto simp: compress_hextets_def split: prod.splits if_splits dest: in_set_takeD in_set_dropD)

lemma ip6_str_chars:
  assumes "c \<in> set ''.%''"
  shows "c \<notin> set (ip6_str n)"
  unfolding ip6_str_def
proof (rule join_str_char)
  show "c \<noteq> CHR '':''" using assms by auto
  fix w
  assume "w \<in> set (compress_hextets (map (\<lambda>i. show_hex (n div 65536 ^ i mod 65536)) [7, 6, 5, 4, 3, 2, 1, 0]))"
  then have "w = [] \<or> w \<in> (\<lambda>i. show_hex (n div 65536 ^ i mod 65536)) ` set [7, 6, 5, 4, 3, 2, 1, 0]"
    using compress_hextets_set unfolding set_map [symmetric] by blast
  then consider "w = []" | i where "w = show_hex (n div 65536 ^ i mod 65536)" by blast
  then show "c \<notin> set w"
  proof cases
    case 2
    show ?thesis unfolding 2 by (rule show_hex_plain) (use assms in auto)
  qed simp
qed

text \<open>No written address has a scope.\<close>

lemma address_unscoped: "CHR ''%'' \<notin> set (address_str v n)"
proof (cases "v = 4")
  case True
  have "CHR ''%'' \<notin> set (ip4_str n)"
    unfolding ip4_str_def
  proof (rule join_str_char)
    fix w
    assume "w \<in> set (map (\<lambda>i. show_int (n div 256 ^ i mod 256)) [3, 2, 1, 0])"
    then obtain i where w: "w = show_int (n div 256 ^ i mod 256)" unfolding set_map by blast
    show "CHR ''%'' \<notin> set w" unfolding w by (rule show_int_plain) simp_all
  qed simp
  then show ?thesis using True by (simp add: address_str_def)
next
  case False
  then show ?thesis using ip6_str_chars [of "CHR ''%''" n] by (simp add: address_str_def)
qed

lemma octet_read: "0 \<le> n \<Longrightarrow> n < 256 \<Longrightarrow> parse_octet (show_int n) = Some n"
proof -
  assume n: "0 \<le> n" "n < 256"
  obtain c cs where s: "show_nat (nat n) = c # cs" "digit_char c" "list_all digit_char cs" "c = CHR ''0'' \<longrightarrow> cs = []"
    by (rule show_nat_leading [of "nat n"]) blast
  have "length (c # cs) \<le> Suc 2" unfolding s(1) [symmetric] using n by (intro length_show_nat) simp
  moreover have "nat_of_digits (c # cs) = nat n" using nat_of_digits_show_nat [of "nat n"] s(1) by simp
  ultimately have "parse_octet (c # cs) = Some n" using s(2-4) n by (auto simp: parse_octet_def)
  then show ?thesis using n s(1) by (simp add: show_int_def)
qed

lemma base_digits:
  fixes n b :: int
  assumes "1 < b" and "0 \<le> n" and "n < b ^ k"
  shows "number_of_digits b (map (\<lambda>i. n div b ^ i mod b) (rev [0..<k])) = n"
  using assms(2,3)
proof (induction k arbitrary: n)
  case 0
  then show ?case by (simp add: number_of_digits_def)
next
  case (Suc k)
  have "n div b < b ^ k"
  proof (rule ccontr)
    assume "\<not> n div b < b ^ k"
    then have "b * b ^ k \<le> b * (n div b)" using assms(1) by simp
    moreover have "b * (n div b) + n mod b = n" by (rule mult_div_mod_eq)
    moreover have "0 \<le> n mod b" using assms(1) by simp
    ultimately show False using Suc.prems(2) unfolding power_Suc by linarith
  qed
  then have "number_of_digits b (map (\<lambda>i. n div b div b ^ i mod b) (rev [0..<k])) = n div b"
    using Suc assms(1) by (simp add: pos_imp_zdiv_nonneg_iff)
  moreover have "map (\<lambda>i. n div b ^ i mod b) (rev [0..<Suc k]) =
      map (\<lambda>i. n div b div b ^ i mod b) (rev [0..<k]) @ [n mod b]"
  proof -
    have "n div b div b ^ i = n div b ^ Suc i" for i using assms(1) by (simp add: zdiv_zmult2_eq)
    moreover have "[0..<Suc k] = 0 # map Suc [0..<k]" by (simp add: upt_conv_Cons map_Suc_upt del: upt_Suc)
    then have "rev [0..<Suc k] = map Suc (rev [0..<k]) @ [0]" by (simp only: rev.simps rev_map)
    ultimately show ?thesis by (simp add: comp_def)
  qed
  ultimately show ?case by (simp add: number_of_digits_append)
qed

lemma dotted_read:
  assumes "list_all (\<lambda>d. 0 \<le> d \<and> d < 256) ds" and "length ds = 4"
  shows "ip4_int (join_str CHR ''.'' (map show_int ds)) = Some (number_of_digits 256 ds)"
proof -
  have "py_split CHR ''.'' (join_str CHR ''.'' (map show_int ds)) = map show_int ds"
    using assms show_int_plain by (intro py_split_join) (auto simp: list_all_iff)
  moreover have "those (map parse_octet (map show_int ds)) = Some ds"
    using assms(1) by (induction ds) (auto simp: octet_read)
  ultimately show ?thesis using assms(2) by (simp add: ip4_int_def Let_def)
qed

lemma ip4_read: "0 \<le> n \<Longrightarrow> n < 2 ^ 32 \<Longrightarrow> ip4_int (ip4_str n) = Some n"
proof -
  assume n: "0 \<le> n" "n < 2 ^ 32"
  let ?ds = "map (\<lambda>i. n div 256 ^ i mod 256) (rev [0..<4])"
  have up: "[3, 2, 1, 0] = rev [0..<4::nat]" by (simp add: upt_conv_Cons)
  have "map (\<lambda>i. show_int (n div 256 ^ i mod 256)) [3, 2, 1, 0] = map show_int ?ds" unfolding up by simp
  then have "ip4_str n = join_str CHR ''.'' (map show_int ?ds)" by (simp only: ip4_str_def)
  moreover have "number_of_digits 256 ?ds = n" using n by (intro base_digits) simp_all
  moreover have "list_all (\<lambda>d. 0 \<le> d \<and> d < 256) ?ds" "length ?ds = 4" by (simp_all add: list_all_iff)
  ultimately show ?thesis using dotted_read [of ?ds] by simp
qed

section \<open>The longest run of zero hextets\<close>

definition zero_run :: "string list \<Rightarrow> nat \<Rightarrow> nat \<Rightarrow> bool" where
  "zero_run hs b l \<longleftrightarrow> b + l \<le> length hs \<and> (\<forall>j. b \<le> j \<and> j < b + l \<longrightarrow> hs ! j = ''0'')"

lemma best_zeros_run:
  assumes "best_zeros i (start, len) (b, l) (drop i hs) = (b', l')" and "i \<le> length hs"
    and "zero_run hs b l" and "start = (if len = 0 then None else Some (i - len))" and "len \<le> i"
    and "zero_run hs (i - len) len"
  shows "zero_run hs b' l'"
  using assms
proof (induction "length hs - i" arbitrary: i start len b l)
  case 0
  then show ?case by simp
next
  case (Suc n)
  then have i: "i < length hs" by simp
  have d: "drop i hs = hs ! i # drop (Suc i) hs" using i by (rule Cons_nth_drop_Suc [symmetric])
  show ?case
  proof (cases "hs ! i = ''0''")
    case True
    have run: "zero_run hs (i - len) (Suc len)"
      using Suc.prems(5,6) i True by (auto simp: zero_run_def less_Suc_eq)
    let ?start = "case start of None \<Rightarrow> i | Some j \<Rightarrow> j"
    have st: "?start = i - len" using Suc.prems(4) by simp
    have "best_zeros (Suc i) (Some (i - len), Suc len) (if l < Suc len then (i - len, Suc len) else (b, l)) (drop (Suc i) hs) = (b', l')"
      using Suc.prems(1) unfolding d st [symmetric] by (simp add: True Let_def)
    then have *: "best_zeros (Suc i) (Some (i - len), Suc len) (if l < Suc len then i - len else b,
        if l < Suc len then Suc len else l) (drop (Suc i) hs) = (b', l')"
      by (simp split: if_splits)
    have "n = length hs - Suc i" using Suc.hyps(2) by simp
    then show ?thesis
      by (rule Suc.hyps(1) [OF _ *]) (use i run Suc.prems(3,5) in auto)
  next
    case False
    have "best_zeros (Suc i) (None, 0) (b, l) (drop (Suc i) hs) = (b', l')"
      using Suc.prems(1) unfolding d by (simp add: False)
    moreover have "n = length hs - Suc i" using Suc.hyps(2) by simp
    ultimately show ?thesis
      using Suc.hyps(1) [of "Suc i" None 0 b l] Suc.prems(3) i by (auto simp: zero_run_def)
  qed
qed

lemma best_zeros_zero_run: "best_zeros 0 (None, 0) (0, 0) hs = (b, l) \<Longrightarrow> zero_run hs b l"
  using best_zeros_run [of 0 None 0 0 0 hs b l] by (simp add: zero_run_def)

section \<open>The compressed form\<close>

lemma single_gap:
  assumes "x \<noteq> []" "y \<noteq> []" and "list_all (\<lambda>w. w \<noteq> []) (tl x)" and "list_all (\<lambda>w. w \<noteq> []) (butlast y)"
  shows "filter (\<lambda>i. (x @ [] # y) ! i = []) [1..<length (x @ [] # y) - 1] = [length x]"
proof -
  let ?ws = "x @ [] # y"
  have n: "1 \<le> length x" "1 \<le> length y" using assms(1,2) by (simp_all add: Suc_le_eq)
  have split: "[1..<length ?ws - 1] = [1..<length x] @ [length x] @ [Suc (length x)..<length ?ws - 1]"
  proof -
    have "[1..<length ?ws - 1] = [1..<length x] @ [length x..<length ?ws - 1]"
      using n upt_add_eq_append [of 1 "length x" "length y"] assms(2) by simp
    moreover have "[length x..<length ?ws - 1] = length x # [Suc (length x)..<length ?ws - 1]"
      using n assms(2) by (intro upt_conv_Cons) simp
    ultimately show ?thesis by simp
  qed
  have left: "?ws ! i \<noteq> []" if "1 \<le> i" "i < length x" for i
  proof -
    have "x ! i = tl x ! (i - 1)" using that by (cases x) auto
    moreover have "i - 1 < length (tl x)" using that by simp
    ultimately show ?thesis using assms(3) that by (simp add: nth_append list_all_length)
  qed
  have right: "?ws ! i \<noteq> []" if "length x < i" "i < length ?ws - 1" for i
  proof -
    have "?ws ! i = y ! (i - Suc (length x))" using that(1) by (simp add: nth_append)
    moreover have k: "i - Suc (length x) < length (butlast y)" using that by simp
    ultimately have "?ws ! i = butlast y ! (i - Suc (length x))" by (simp add: nth_butlast)
    then show ?thesis using assms(4) k by (simp add: list_all_length)
  qed
  show ?thesis unfolding split using left right by (simp add: filter_empty_conv)
qed

lemma compressed_parts:
  assumes "list_all (\<lambda>w. w \<noteq> []) (a @ b)" and "length a + length b < 8"
  shows "ip6_parts_int ((if a = [] then [[]] else a) @ [[]] @ (if b = [] then [[]] else b)) =
    hextets_int a (8 - (length a + length b)) b"
proof -
  let ?x = "if a = [] then [[]] else a" and ?y = "if b = [] then [[]] else b"
  let ?ws = "?x @ [] # ?y"
  have gap: "filter (\<lambda>i. ?ws ! i = []) [1..<length ?ws - 1] = [length ?x]"
    using assms(1) by (intro single_gap) (auto simp: list_all_iff dest: in_set_butlastD list.set_sel(2))
  have hd: "hd ?ws = [] \<longleftrightarrow> a = []" using assms(1) by (cases a) auto
  have last: "last ?ws = [] \<longleftrightarrow> b = []" using assms(1) by (auto simp: list_all_iff)
  have hi: "(if a = [] then length ?x - 1 else length ?x) = length a" by simp
  have lo: "(if b = [] then length ?ws - length ?x - 2 else length ?ws - length ?x - 1) = length b" by simp
  have short: "\<not> 9 < length ?ws" using assms(2) by auto
  have ends: "take (length a) ?ws = a" "drop (length ?ws - length b) ?ws = b" by auto
  have "ip6_parts_int ?ws = hextets_int (take (length a) ?ws) (8 - (length a + length b)) (drop (length ?ws - length b) ?ws)"
    unfolding ip6_parts_int_def gap if_not_P [OF short] list.case Let_def hd last hi lo using assms(2) by simp
  then show ?thesis unfolding ends by simp
qed

lemma hextets_read: "list_all (\<lambda>d. 0 \<le> d \<and> d < 65536) ds \<Longrightarrow> those (map parse_hextet (map show_hex ds)) = Some ds"
  by (induction ds) (auto simp: hextet_read)

lemma zero_word: "show_hex 0 = ''0''"
  by code_simp

lemma show_hex_zero: "0 \<le> d \<Longrightarrow> d < 65536 \<Longrightarrow> show_hex d = ''0'' \<Longrightarrow> d = 0"
  using hextet_read [of d] hextet_read [of 0] zero_word by simp

lemma compressed_read:
  assumes ds: "list_all (\<lambda>d. 0 \<le> d \<and> d < 65536) ds" and "length ds = 8"
  shows "ip6_parts_int (compress_hextets (map show_hex ds)) = Some (number_of_digits 65536 ds)"
proof -
  let ?hs = "map show_hex ds"
  obtain b l where bl: "best_zeros 0 (None, 0) (0, 0) ?hs = (b, l)" by (cases "best_zeros 0 (None, 0) (0, 0) ?hs")
  have run: "zero_run ?hs b l" by (rule best_zeros_zero_run [OF bl])
  have words: "list_all (\<lambda>w. w \<noteq> []) (map show_hex es)" for es by (simp add: list_all_iff)
  show ?thesis
  proof (cases "1 < l")
    case False
    then have c: "compress_hextets ?hs = ?hs" by (simp add: compress_hextets_def bl)
    have "filter (\<lambda>i. ?hs ! i = []) [1..<length ?hs - 1] = []" by (auto simp: filter_empty_conv)
    moreover have "hd ?hs \<noteq> []" "last ?hs \<noteq> []" using assms(2) by (cases ds; auto simp: last_map)+
    ultimately show ?thesis
      unfolding c ip6_parts_int_def using assms by (simp add: hextets_int_def hextets_read [OF ds, simplified])
  next
    case True
    let ?a = "take b ds" and ?b = "drop (b + l) ds"
    have n: "b + l \<le> 8" using run assms(2) by (simp add: zero_run_def)
    have c: "compress_hextets ?hs = (if map show_hex ?a = [] then [[]] else map show_hex ?a) @ [[]]
        @ (if map show_hex ?b = [] then [[]] else map show_hex ?b)"
      using True n assms(2) by (auto simp: compress_hextets_def bl take_map drop_map)
    have len: "length ?a + length ?b + l = 8" using n assms(2) by simp
    have "ds = ?a @ take l (drop b ds) @ ?b"
      by (metis append_take_drop_id drop_drop add.commute)
    moreover have "take l (drop b ds) = replicate l 0"
    proof (rule nth_equalityI)
      show "length (take l (drop b ds)) = length (replicate l (0 :: int))" using n assms(2) by simp
      fix i assume "i < length (take l (drop b ds))"
      then have i: "i < l" "b + i < length ds" by auto
      then have "?hs ! (b + i) = ''0''" using run unfolding zero_run_def by (metis le_add1 nat_add_left_cancel_less)
      then have "ds ! (b + i) = 0" using i ds by (intro show_hex_zero) (auto simp: list_all_length)
      then show "take l (drop b ds) ! i = replicate l 0 ! i" using i by (simp add: nth_append)
    qed
    ultimately have whole: "?a @ replicate l 0 @ ?b = ds" by simp
    have sub: "list_all (\<lambda>d. 0 \<le> d \<and> d < 65536) ?a" "list_all (\<lambda>d. 0 \<le> d \<and> d < 65536) ?b"
      using ds by (auto simp: list_all_iff dest: in_set_takeD in_set_dropD)
    have "8 - (length ?a + length ?b) = l" using len by simp
    moreover have "ip6_parts_int (compress_hextets ?hs) =
        hextets_int (map show_hex ?a) (8 - (length (map show_hex ?a) + length (map show_hex ?b))) (map show_hex ?b)"
      unfolding c using len True words [of "?a @ ?b"] by (intro compressed_parts) simp_all
    ultimately show ?thesis
      by (simp add: hextets_int_def hextets_read [OF sub(1), simplified] hextets_read [OF sub(2), simplified] whole)
  qed
qed

lemma compressed_plain:
  assumes "list_all (\<lambda>d. 0 \<le> d \<and> d < 65536) ds" and "w \<in> set (compress_hextets (map show_hex ds))" and "c \<in> set '':.%''"
  shows "c \<notin> set w"
proof -
  consider "w = []" | d where "d \<in> set ds" "w = show_hex d"
    using assms(2) compress_hextets_set [of "map show_hex ds"] by auto
  then show ?thesis
  proof cases
    case 2
    then show ?thesis using assms(1,3) show_hex_plain [of d c] by (simp add: list_all_iff)
  qed simp
qed

lemma compress_length:
  assumes "length hs = 8"
  shows "3 \<le> length (compress_hextets hs)"
proof -
  obtain b l where bl: "best_zeros 0 (None, 0) (0, 0) hs = (b, l)" by (cases "best_zeros 0 (None, 0) (0, 0) hs")
  have "b + l \<le> 8" using best_zeros_zero_run [OF bl] assms by (simp add: zero_run_def)
  then show ?thesis using assms by (auto simp: compress_hextets_def bl)
qed

lemma ip6_read:
  assumes "0 \<le> n" and "n < 2 ^ 128"
  shows "ip6_int (ip6_str n) = Some n"
proof -
  let ?ds = "map (\<lambda>i. n div 65536 ^ i mod 65536) (rev [0..<8])"
  have up: "[7, 6, 5, 4, 3, 2, 1, 0] = rev [0..<8::nat]" by (simp add: upt_conv_Cons)
  have ds: "list_all (\<lambda>d. 0 \<le> d \<and> d < 65536) ?ds" "length ?ds = 8" by (simp_all add: list_all_iff)
  let ?ws = "compress_hextets (map show_hex ?ds)"
  have form: "ip6_str n = join_str CHR '':'' ?ws" unfolding ip6_str_def up by (simp add: comp_def)
  have plain: "c \<notin> set w" if "w \<in> set ?ws" "c \<in> set '':.%''" for w c
    by (rule compressed_plain [OF ds(1) that])
  have long: "3 \<le> length ?ws" by (rule compress_length) simp
  then have "?ws \<noteq> []" by auto
  then have split: "py_split CHR '':'' (ip6_str n) = ?ws"
    unfolding form using plain by (intro py_split_join) (auto simp: list_all_iff)
  have "last ?ws \<in> set ?ws" using \<open>?ws \<noteq> []\<close> by simp
  then have tail: "expand_ip4_tail ?ws = Some ?ws" using plain by (simp add: expand_ip4_tail_def)
  have sum: "number_of_digits 65536 ?ds = n" using assms by (intro base_digits) simp_all
  show ?thesis
    unfolding ip6_int_def split Let_def tail using long compressed_read [OF ds] sum by simp
qed

text \<open>The IPv6 form is never an IPv4 form.\<close>

lemma ip6_not_ip4: "ip4_int (ip6_str n) = None"
proof -
  have "py_split CHR ''.'' (ip6_str n) = [ip6_str n]" by (rule py_split_word) (rule ip6_str_chars, simp)
  then show ?thesis by (simp add: ip4_int_def)
qed

lemma address_read:
  assumes "v = 4 \<and> 0 \<le> n \<and> n < 2 ^ 32 \<or> v = 6 \<and> 0 \<le> n \<and> n < 2 ^ 128"
  shows "ip_address (address_str v n) = Inr (Some (v, n))"
proof (cases "v = 4")
  case True
  then show ?thesis using assms ip4_read [of n] by (simp add: ip_address_def address_str_def)
next
  case False
  then have n: "v = 6" "0 \<le> n" "n < 2 ^ 128" using assms by auto
  then show ?thesis
    using ip6_read [of n] ip6_not_ip4 [of n] address_unscoped [of 6 n] by (simp add: ip_address_def address_str_def)
qed

end
