(* ===== verification/Haproxy_Direct_Facts.thy ===== *)
theory Haproxy_Direct_Facts
  imports Haproxy_Direct Haproxy_Facts Ip_Roundtrip
begin

text \<open>
  The direct proxy configuration: its document is admitted again, its first line holds the
  document whatever is replaced in the rest of the text, and so serving bytes are admitted
  exactly when they are what an admitted composition renders to. The sockets of an admitted
  composition can all be bound, beside the backends and the decoders.
\<close>

section \<open>Characters of addresses and hostnames\<close>

definition unpercent :: "char \<Rightarrow> bool" where "unpercent c \<longleftrightarrow> c \<noteq> CHR ''%''"

fun rx_only :: "(char \<Rightarrow> bool) \<Rightarrow> rx \<Rightarrow> bool" where
  "rx_only P Empty = True"
| "rx_only P Eps = True"
| "rx_only P (Cls Q) = (\<forall>c. Q c \<longrightarrow> P c)"
| "rx_only P (Seq r s) = (rx_only P r \<and> rx_only P s)"
| "rx_only P (Alt r s) = (rx_only P r \<and> rx_only P s)"
| "rx_only P (Star r) = rx_only P r"

lemma matches_only: "matches r w \<Longrightarrow> rx_only P r \<Longrightarrow> list_all P w"
  by (induction rule: matches.induct) auto

lemma rx_only_range: "rx_only P r \<Longrightarrow> rx_only P (rx_range m n r)"
proof -
  assume r: "rx_only P r"
  have "rx_only P (rx_rep k r)" "rx_only P (rx_upto k r)" for k using r by (induction k) auto
  then show ?thesis by (simp add: rx_range_def)
qed

lemma list_all_join: "P c \<Longrightarrow> list_all (list_all P) ws \<Longrightarrow> list_all P (join_str c ws)"
  by (induction c ws rule: join_str.induct) auto

lemma label_unpercent: "fullmatch LABEL s \<Longrightarrow> list_all unpercent s"
  unfolding fullmatch_iff LABEL_def
  by (erule matches_only) (auto simp: lower_alnum_def lower_char_def digit_char_def unpercent_def intro!: rx_only_range)

lemma hostname_unpercent:
  assumes "hostname (PStr s) = Inr t"
  shows "list_all unpercent s"
proof -
  have "list_all (fullmatch LABEL) (py_split CHR ''.'' s)"
    using assms by (auto simp: hostname_def list_all_iff list_ex_iff split: if_splits)
  then have "list_all (list_all unpercent) (py_split CHR ''.'' s)"
    using label_unpercent by (auto simp: list_all_iff)
  then have "list_all unpercent (join_str CHR ''.'' (py_split CHR ''.'' s))"
    by (intro list_all_join) (simp add: unpercent_def)
  then show ?thesis by (simp add: join_py_split)
qed

lemma routing_unpercent:
  assumes "valid_routing r"
  shows "list_all unpercent (rt_frontend_host r) \<and> list_all unpercent (rt_api_host r)"
  using assms hostname_unpercent unfolding valid_routing_def new_routing_def bind_res_Inr_iff by blast

lemma address_unpercent: "list_all unpercent (address_str v a)"
  using address_unscoped [of v a] by (auto simp: list_all_iff unpercent_def)

lemma listener_unpercent:
  assumes "valid_listener l"
  shows "list_all unpercent (ls_address l)"
proof -
  obtain v a where "address_str v a = ls_address l"
    using assms by (auto simp: valid_listener_def new_listener_def bind_res_Inr_iff split: option.splits if_splits)
  then show ?thesis using address_unpercent by metis
qed

lemma peer_unpercent:
  assumes "trusted_peer (PStr p) = Inr q"
  shows "list_all unpercent p"
proof -
  obtain x where "application_proxy_peer (PStr p) = Inr x"
    using assms by (auto simp: trusted_peer_def bind_res_Inr_iff)
  then obtain v a where "address_str v a = p"
    by (auto simp: application_proxy_peer_def bind_res_Inr_iff split: option.splits if_splits)
  then show ?thesis using address_unpercent by metis
qed

section \<open>The direct configuration\<close>

definition valid_row :: "row \<Rightarrow> bool" where
  "valid_row row \<longleftrightarrow> (case row of
     Neutral l \<Rightarrow> False
   | Viewer l t c \<Rightarrow> valid_listener l \<and> new_viewer l (PStr t) (PStr c) = Inr row
   | Proxy l t ps \<Rightarrow> valid_listener l \<and> new_proxy l (PStr t) (map PStr ps) = Inr row)"

definition valid_direct :: "direct \<Rightarrow> bool" where
  "valid_direct spec \<longleftrightarrow> valid_routing (dr_routing spec) \<and> list_all valid_row (dr_rows spec)
     \<and> new_direct (dr_routing spec) (dr_rows spec) = Inr spec"

lemma new_viewer_Inr:
  assumes "new_viewer l t c = Inr row"
  obtains t' c' where "t = PStr t'" "c = PStr c'" "row = Viewer l t' c'"
    "t' \<in> {''http'', ''https''}" "c' \<in> {''legacy'', ''http01'', ''hsts''}"
proof -
  have t: "t = PStr ''http'' \<or> t = PStr ''https''"
    and c: "c = PStr ''legacy'' \<or> c = PStr ''http01'' \<or> c = PStr ''hsts''"
    using assms by (auto simp: new_viewer_def split: if_splits)
  have "row = Viewer l (the_str t) (the_str c)"
    using assms by (auto simp: new_viewer_def bind_res_Inr_iff split: if_splits)
  with that t c show thesis by (auto simp: the_str_def)
qed

lemma trusted_peer_Inr: "trusted_peer v = Inr p \<Longrightarrow> v = PStr p"
  by (auto simp: trusted_peer_def bind_res_Inr_iff split: if_splits)

lemma new_proxy_Inr:
  assumes "new_proxy l t peers = Inr row"
  obtains t' ps where "t = PStr t'" "peers = map PStr ps" "row = Proxy l t' ps" "t' \<in> {''http'', ''https''}"
    "list_all (\<lambda>p. trusted_peer (PStr p) = Inr p) ps" "private_address (ls_address l) = Inr True"
    "ls_port l \<notin> snd ` set DECODER_PORTS" "new_viewer l t (PStr ''legacy'') = Inr (Viewer l t' ''legacy'')"
proof -
  obtain v where v: "new_viewer l t (PStr ''legacy'') = Inr v"
    and run: "bind_res (private_address (ls_address l)) (\<lambda>private.
     if \<not> private \<or> ls_port l \<in> snd ` set DECODER_PORTS \<or> \<not> (1 \<le> length peers \<and> length peers \<le> 32)
     then Inl (ValueError ''admit-private-proxy-listener'')
     else if \<not> list_all hashable peers then Inl TypeError
     else if \<not> py_distinct peers then Inl (ValueError ''admit-private-proxy-listener'')
     else bind_res (map_res trusted_peer peers) (\<lambda>trusted.
       bind_res (parse_address (ls_address l)) (\<lambda>(family, _).
       bind_res (map_res parse_address trusted) (\<lambda>parsed.
       if family \<notin> fst ` set parsed then Inl (ValueError ''admit-trusted-peer-address-family'')
       else Inr (Proxy l (the_str t) trusted))))) = Inr row"
    using assms unfolding new_proxy_def bind_res_Inr_iff by blast
  obtain t' where t: "t = PStr t'" "v = Viewer l t' ''legacy''" "t' \<in> {''http'', ''https''}"
    by (rule new_viewer_Inr [OF v]) auto
  obtain ps where ps: "private_address (ls_address l) = Inr True" "ls_port l \<notin> snd ` set DECODER_PORTS"
    "map_res trusted_peer peers = Inr ps" "row = Proxy l (the_str t) ps"
    using run unfolding bind_res_Inr_iff raise_Inr_iff
    by (auto simp: bind_res_Inr_iff split: prod.splits if_splits)
  have "peers = map PStr ps"
    using ps(3) trusted_peer_Inr by (auto simp: map_res_Inr_iff list_all2_conv_all_nth intro: nth_equalityI)
  moreover from this have "list_all (\<lambda>p. trusted_peer (PStr p) = Inr p) ps"
    using ps(3) by (auto simp: map_res_Inr_iff list_all2_conv_all_nth list_all_length)
  ultimately show thesis using that t ps v by (simp add: the_str_def)
qed

lemma direct_row_Inr:
  assumes "direct_row ha lifecycle v = Inr row"
  shows "valid_row row \<and> is_proxy row = ha"
proof -
  obtain d where v: "v = PDict d" using assms by (auto simp: direct_row_def split: pyval.splits)
  obtain l where l: "new_listener (dget d ''address'') (dget d ''port'') = Inr l"
    and run: "(if ha then (case dget d ''trusted_peers'' of
             PList peers \<Rightarrow> new_proxy l (dget d ''transport'') peers
           | _ \<Rightarrow> Inl (ValueError ''admit-trusted-physical-peers''))
         else new_viewer l (dget d ''transport'') lifecycle) = Inr row"
    using assms unfolding v direct_row_def pyval.case raise_Inr_iff bind_res_Inr_iff by blast
  note ok = new_listener_Inr(3) [OF l]
  show ?thesis
  proof (cases ha)
    case True
    obtain peers where p: "new_proxy l (dget d ''transport'') peers = Inr row"
      using run True by (cases "dget d ''trusted_peers''") simp_all
    obtain t ps where "dget d ''transport'' = PStr t" "peers = map PStr ps" "row = Proxy l t ps"
      by (rule new_proxy_Inr [OF p])
    with p show ?thesis using True ok by (simp add: valid_row_def is_proxy_def)
  next
    case False
    have p: "new_viewer l (dget d ''transport'') lifecycle = Inr row" using run False by simp
    obtain t c where "dget d ''transport'' = PStr t" "lifecycle = PStr c" "row = Viewer l t c"
      by (rule new_viewer_Inr [OF p])
    with p show ?thesis using False ok by (simp add: valid_row_def is_proxy_def)
  qed
qed

lemma new_direct_Inr:
  assumes "new_direct r rows = Inr spec"
  shows "spec = \<lparr>dr_routing = r, dr_rows = rows\<rparr>" and "1 \<le> length rows" and "length rows \<le> 8"
    and "list_all is_viewer rows \<or> list_all is_proxy rows"
    and "topology rows = ''single'' \<Longrightarrow> card (set (map row_lifecycle rows)) = 1"
    and "\<not> clashing (map row_socket rows)"
proof -
  have "list_all is_viewer rows \<Longrightarrow> rows = [] \<or> topology rows = ''single''"
    by (cases rows) (auto simp: topology_def is_viewer_def is_proxy_def split: row.splits)
  then show "spec = \<lparr>dr_routing = r, dr_rows = rows\<rparr>" "1 \<le> length rows" "length rows \<le> 8"
    "list_all is_viewer rows \<or> list_all is_proxy rows"
    "topology rows = ''single'' \<Longrightarrow> card (set (map row_lifecycle rows)) = 1" "\<not> clashing (map row_socket rows)"
    using assms unfolding new_direct_def by (simp_all only: raise_Inr_iff, auto)
qed

lemma direct_admit_valid:
  assumes "direct_from_document v = Inr spec"
  shows "valid_direct spec"
proof -
  obtain d where v: "v = PDict d" using assms by (auto simp: direct_from_document_def split: pyval.splits)
  obtain lifecycle ha where run: "(case dget d ''listeners'' of
             PList rows \<Rightarrow>
               if \<not> (1 \<le> length rows \<and> length rows \<le> 8) then Inl (ValueError ''admit-direct-listener-count'')
               else bind_res (map_res (direct_row ha lifecycle) rows) (\<lambda>listeners.
                 bind_res (new_routing (dget d ''frontend_host'') (dget d ''api_host'')) (\<lambda>routing.
                 new_direct routing listeners))
           | _ \<Rightarrow> Inl (ValueError ''admit-direct-listener-count'')) = Inr spec"
    using assms unfolding v direct_from_document_def pyval.case raise_Inr_iff Let_def by blast
  obtain vs where vs: "dget d ''listeners'' = PList vs" using run by (cases "dget d ''listeners''") simp_all
  obtain rows r where rows: "map_res (direct_row ha lifecycle) vs = Inr rows"
    "new_routing (dget d ''frontend_host'') (dget d ''api_host'') = Inr r" "new_direct r rows = Inr spec"
    using run unfolding vs pyval.case raise_Inr_iff bind_res_Inr_iff by blast
  from all_valid [OF rows(1), of valid_row] direct_row_Inr new_routing_Inr(3) [OF rows(2)] rows(3)
    new_direct_Inr(1) [OF rows(3)]
  show ?thesis by (auto simp: valid_direct_def)
qed

text \<open>The document of a specification.\<close>

lemma plain_row: "plain (row_document row)"
  by (simp add: row_document_def list_all_iff)

lemma plain_direct_document: "plain (PDict (direct_document spec))"
  using plain_row
  by (cases "topology (dr_rows spec) = ''single'' \<and> row_lifecycle (hd (dr_rows spec)) \<noteq> ''legacy''")
    (auto simp: direct_document_def Let_def list_all_iff)

lemma canon_row: "canon (row_document row) = row_document row"
  by (simp add: row_document_def comp_def)

lemma row_readmitted:
  assumes "valid_row row" and "ha = is_proxy row" and "\<not> ha \<Longrightarrow> lifecycle = PStr (row_lifecycle row)"
  shows "direct_row ha lifecycle (row_document row) = Inr row"
proof (cases row)
  case (Viewer l t c)
  then show ?thesis
    using assms by (auto simp: direct_row_def row_document_def dkeys_def dget_def valid_row_def valid_listener_def is_proxy_def)
next
  case (Proxy l t ps)
  then show ?thesis
    using assms by (auto simp: direct_row_def row_document_def dkeys_def dget_def valid_row_def valid_listener_def is_proxy_def)
qed (use assms in \<open>simp add: valid_row_def\<close>)

lemma one_lifecycle:
  assumes "card (set (map row_lifecycle rows)) = 1" and "row \<in> set rows"
  shows "row_lifecycle row = row_lifecycle (hd rows)"
proof -
  obtain c where "set (map row_lifecycle rows) = {c}" using assms(1) card_1_singletonE by blast
  moreover have "hd rows \<in> set rows" using assms(2) by (cases rows) auto
  ultimately show ?thesis using assms(2) by (metis image_eqI set_map singletonD)
qed

lemma valid_lifecycle: "valid_row row \<Longrightarrow> is_viewer row \<Longrightarrow> row_lifecycle row \<in> {''legacy'', ''http01'', ''hsts''}"
  by (cases row) (auto simp: valid_row_def is_viewer_def elim: new_viewer_Inr)

lemma direct_admit_document:
  assumes "valid_direct spec"
  shows "direct_from_document (canon (PDict (direct_document spec))) = Inr spec"
proof -
  let ?rows = "dr_rows spec" and ?r = "dr_routing spec"
  note n = new_direct_Inr [of ?r ?rows spec]
  have v: "valid_routing ?r" "list_all valid_row ?rows" "new_direct ?r ?rows = Inr spec"
    using assms by (auto simp: valid_direct_def)
  have ne: "?rows \<noteq> []" using n(2) [OF v(3)] by auto
  have docs: "map canon (map row_document ?rows) = map row_document ?rows" by (simp add: canon_row)
  have routing: "new_routing (PStr (rt_frontend_host ?r)) (PStr (rt_api_host ?r)) = Inr ?r"
    using v(1) by (simp add: valid_routing_def)
  show ?thesis
  proof (cases "topology ?rows = ''single''")
    case True
    then have viewers: "list_all is_viewer ?rows" and "\<not> is_proxy (hd ?rows)"
      using n(4) [OF v(3)] ne by (auto simp: topology_def list_all_iff split: if_splits)
    then have np: "\<not> is_proxy row" if "row \<in> set ?rows" for row
      using that by (auto simp: list_all_iff is_viewer_def is_proxy_def split: row.splits)
    have lc: "row_lifecycle row = row_lifecycle (hd ?rows)" if "row \<in> set ?rows" for row
      using one_lifecycle [OF n(5) [OF v(3) True] that] .
    have rows: "map_res (direct_row False (PStr (row_lifecycle (hd ?rows)))) (map row_document ?rows) = Inr ?rows"
      using v(2) np lc by (auto simp: map_res_Inr_iff list_all2_conv_all_nth list_all_length intro!: row_readmitted)
    have "row_lifecycle (hd ?rows) \<in> {''legacy'', ''http01'', ''hsts''}"
      using valid_lifecycle [of "hd ?rows"] viewers v(2) ne by (simp add: list_all_iff)
    moreover have "canon (PDict (direct_document spec)) = PDict ([(''api_host'', PStr (rt_api_host ?r)),
        (''frontend_host'', PStr (rt_frontend_host ?r)), (''listeners'', PList (map row_document ?rows))]
        @ (if row_lifecycle (hd ?rows) \<noteq> ''legacy'' then [(''tls_lifecycle'', PStr (row_lifecycle (hd ?rows)))] else [])
        @ [(''topology'', PStr ''single'')])"
      using True docs by (simp add: direct_document_def Let_def)
    ultimately show ?thesis
      using rows routing v(3) n(2,3) [OF v(3)]
      by (cases "row_lifecycle (hd ?rows) = ''legacy''")
        (auto simp: direct_from_document_def Let_def dkeys_def dget_def dget_default_def DIRECT_FIELDS_def)
  next
    case False
    then have ha: "topology ?rows = ''ha''" "is_proxy (hd ?rows)" by (auto simp: topology_def split: if_splits)
    then have np: "is_proxy row" if "row \<in> set ?rows" for row
      using n(4) [OF v(3)] ne that by (auto simp: list_all_iff is_viewer_def is_proxy_def split: row.splits)
    have rows: "map_res (direct_row True (PStr ''legacy'')) (map row_document ?rows) = Inr ?rows"
      using v(2) np by (auto simp: map_res_Inr_iff list_all2_conv_all_nth list_all_length intro!: row_readmitted)
    have "canon (PDict (direct_document spec)) = PDict [(''api_host'', PStr (rt_api_host ?r)),
        (''frontend_host'', PStr (rt_frontend_host ?r)), (''listeners'', PList (map row_document ?rows)),
        (''topology'', PStr ''ha'')]"
      using ha docs by (simp add: direct_document_def Let_def)
    then show ?thesis
      using rows routing v(3) n(2,3) [OF v(3)]
      by (auto simp: direct_from_document_def Let_def dkeys_def dget_def dget_default_def DIRECT_FIELDS_def)
  qed
qed

section \<open>The first line\<close>

lemma row_unpercent:
  assumes "valid_row row" and "t \<in> set (json_strings (row_document row))"
  shows "CHR ''%'' \<notin> set t"
proof -
  have c: "CHR ''%'' \<notin> set x" if "list_all unpercent x" for x
    using that by (auto simp: list_all_iff unpercent_def)
  show ?thesis
  proof (cases row)
    case (Viewer l u c)
    then have "valid_listener l" "new_viewer l (PStr u) (PStr c) = Inr row" using assms(1) by (simp_all add: valid_row_def)
    then show ?thesis
      using assms(2) c [OF listener_unpercent [of l]] Viewer
      by (auto simp: row_document_def is_proxy_def elim!: new_viewer_Inr)
  next
    case (Proxy l u ps)
    then have l: "valid_listener l" and p: "new_proxy l (PStr u) (map PStr ps) = Inr row"
      using assms(1) by (simp_all add: valid_row_def)
    obtain u' qs where q: "u = u'" "map PStr ps = map PStr qs" "u' \<in> {''http'', ''https''}"
      "list_all (\<lambda>p. trusted_peer (PStr p) = Inr p) qs"
      by (rule new_proxy_Inr [OF p]) auto
    have "ps = qs" using q(2) by (simp add: inj_map_eq_map inj_def)
    then have "CHR ''%'' \<notin> set x" if "x \<in> set ps" for x
      using q(4) that by (auto simp: list_all_iff intro!: c peer_unpercent)
    then show ?thesis
      using assms(2) c [OF listener_unpercent [OF l]] q(1,3) Proxy
      by (auto simp: row_document_def is_proxy_def comp_def)
  qed (use assms in \<open>simp add: valid_row_def\<close>)
qed

lemma document_unpercent:
  assumes "valid_direct spec" and "t \<in> set (json_strings (PDict (direct_document spec)))"
  shows "CHR ''%'' \<notin> set t"
proof -
  let ?rows = "dr_rows spec" and ?r = "dr_routing spec"
  have v: "valid_routing ?r" "list_all valid_row ?rows" "new_direct ?r ?rows = Inr spec"
    using assms by (auto simp: valid_direct_def)
  have c: "CHR ''%'' \<notin> set x" if "list_all unpercent x" for x
    using that by (auto simp: list_all_iff unpercent_def)
  have lc: "CHR ''%'' \<notin> set (row_lifecycle (hd ?rows))" if "topology ?rows = ''single''"
  proof -
    have "hd ?rows \<in> set ?rows" using new_direct_Inr(2) [OF v(3)] by (cases ?rows) auto
    moreover have "list_all is_viewer ?rows"
      using new_direct_Inr(4) [OF v(3)] that calculation by (auto simp: topology_def list_all_iff split: if_splits)
    ultimately show ?thesis
      using valid_lifecycle [of "hd ?rows"] v(2) by (auto simp: list_all_iff)
  qed
  obtain k x where kx: "(k, x) \<in> set (direct_document spec)" "t = k \<or> t \<in> set (json_strings x)"
    using assms(2) by auto
  have "k \<in> set [''topology'', ''frontend_host'', ''tls_lifecycle'', ''api_host'', ''listeners'']
      \<and> (x = PStr (topology ?rows) \<or> x = PStr (rt_frontend_host ?r) \<or> x = PStr (rt_api_host ?r)
        \<or> topology ?rows = ''single'' \<and> x = PStr (row_lifecycle (hd ?rows))
        \<or> x = PList (map row_document ?rows))"
    using kx(1) unfolding direct_document_def Let_def by (auto split: if_splits)
  then have k: "k \<in> set [''topology'', ''frontend_host'', ''tls_lifecycle'', ''api_host'', ''listeners'']"
    and "x = PStr (topology ?rows) \<or> x = PStr (rt_frontend_host ?r) \<or> x = PStr (rt_api_host ?r)
        \<or> topology ?rows = ''single'' \<and> x = PStr (row_lifecycle (hd ?rows))
        \<or> x = PList (map row_document ?rows)"
    by blast+
  note x = this(2)
  have topo: "CHR ''%'' \<notin> set (topology ?rows)" by (simp add: topology_def)
  have row: "CHR ''%'' \<notin> set u" if "row \<in> set ?rows" "u \<in> set (json_strings (row_document row))" for row u
    using row_unpercent that v(2) by (auto simp: list_all_iff)
  show ?thesis
  proof (cases "t = k")
    case True
    then show ?thesis using k by auto
  next
    case False
    then have "t \<in> set (json_strings x)" using kx(2) by simp
    then show ?thesis using x topo lc row c routing_unpercent [OF v(1)] by auto
  qed
qed

lemma replace_all_first_line:
  "x \<in> set old \<Longrightarrow> x \<notin> set a \<Longrightarrow> newline \<notin> set old \<Longrightarrow>
    replace_all old new (a @ newline # b) = a @ newline # replace_all old new b"
  by (metis replace_all_line replace_all_newline)

lemma direct_line:
  assumes "valid_direct spec" and "direct_head spec = Inr t"
  shows "\<exists>inputs rest. dumps (PDict (direct_document spec)) = Inr inputs \<and> t = ''# secpal-direct '' @ inputs @ newline # rest"
proof -
  obtain inputs where i: "dumps (PDict (direct_document spec)) = Inr inputs"
    using assms(2) by (auto simp: direct_head_def bind_res_Inr_iff)
  have "CHR ''%'' \<notin> set inputs"
    by (rule dumps_avoids [OF i]) (use document_unpercent [OF assms(1)] in \<open>auto simp: dquote_def bslash_def\<close>)
  then have n: "CHR ''%'' \<notin> set (''# secpal-direct '' @ inputs)" by simp
  have r: "replace_all ''peer=%[fc_src] client=%ci '' new (''# secpal-direct '' @ inputs @ [newline] @ body)
      = ''# secpal-direct '' @ inputs @ newline # replace_all ''peer=%[fc_src] client=%ci '' new body" for new body
    using replace_all_first_line [of "CHR ''%''" "''peer=%[fc_src] client=%ci ''", OF _ n, of new body]
    by (simp add: newline_def)
  from assms(2) have t: "(let text = ''# secpal-direct '' @ inputs @ [newline]
           @ replace_all ''peer=%ci '' ''peer=%[fc_src] client=%ci '' runtime_preamble
     in (if topology (dr_rows spec) = ''ha''
       then replace_all ''peer=%[fc_src] client=%ci ''
         ''stage=http worker=%pid edge=%[fc_src]:%[fc_src_port]>%[fc_dst]:%[fc_dst_port] client=%ci '' text
       else text)) = t"
    unfolding direct_head_def i bind_res_simps Let_def by (simp only: sum.inject)
  have "\<exists>rest. t = ''# secpal-direct '' @ inputs @ newline # rest"
    unfolding t [symmetric] Let_def r by (cases "topology (dr_rows spec) = ''ha''") simp_all
  then show ?thesis using i by blast
qed

lemma direct_render_line:
  assumes "valid_direct spec" and "direct_render_with spec g = Inr t"
  shows "\<exists>inputs rest. dumps (PDict (direct_document spec)) = Inr inputs \<and> t = ''# secpal-direct '' @ inputs @ newline # rest"
proof -
  obtain h body where h: "direct_head spec = Inr h" "t = h @ body"
    using assms(2) unfolding direct_render_with_def Let_def bind_res_Inr_iff by auto
  show ?thesis using direct_line [OF assms(1) h(1)] h(2) by auto
qed

lemma direct_serve:
  "direct_from_config sha data = Inr s \<longleftrightarrow> 0 < length data \<and> length data \<le> MAX_CONFIG_BYTES
      \<and> starts_with ''# secpal-direct '' (first_line data)
      \<and> bind_res (decode_json_document (drop (length ''# secpal-direct '') (first_line data))) direct_from_document = Inr s
      \<and> regenerate sha (direct_render_with s) = Inr data"
  by (auto simp: direct_from_config_def Let_def bind_res_Inr_iff direct_decode_document_def direct_render_def
      direct_generation_id_def regenerate_def split: if_splits)

interpretation composed: regenerated "''# secpal-direct ''" direct_document direct_from_document
    valid_direct direct_render_with direct_from_config
proof
  show "newline \<notin> set ''# secpal-direct ''" by (simp add: newline_def)
  show "direct_from_config sha data = Inr s \<longleftrightarrow> 0 < length data \<and> length data \<le> MAX_CONFIG_BYTES
      \<and> starts_with ''# secpal-direct '' (first_line data)
      \<and> bind_res (decode_json_document (drop (length ''# secpal-direct '') (first_line data))) direct_from_document = Inr s
      \<and> regenerate sha (direct_render_with s) = Inr data" for sha data s
    by (rule direct_serve)
qed (use plain_direct_document direct_admit_valid direct_admit_document direct_render_line in auto)

section \<open>The dispatch\<close>

text \<open>
  A composition that the dispatcher can admit: neutral listeners on loopback, or a direct
  composition.
\<close>

definition loopback_listener :: "listener \<Rightarrow> bool" where
  "loopback_listener l = (case ip_address (ls_address l) of Inr (Some (v, a)) \<Rightarrow> is_loopback v a | _ \<Rightarrow> False)"

definition valid_composition :: "routing \<Rightarrow> row list \<Rightarrow> bool" where
  "valid_composition r rows = (case rows of
     [] \<Rightarrow> False
   | Neutral _ # _ \<Rightarrow> rows = map Neutral (map row_socket rows) \<and> valid_base (r, map row_socket rows)
       \<and> list_all loopback_listener (map row_socket rows)
   | _ \<Rightarrow> valid_direct \<lparr>dr_routing = r, dr_rows = rows\<rparr>)"

lemma neutral_private_iff:
  assumes "list_all valid_listener ls"
  shows "neutral_private (r, ls) = Inr (r', rows) \<longleftrightarrow> r' = r \<and> rows = map Neutral ls \<and> list_all loopback_listener ls"
proof -
  have ip: "\<exists>v a. ip_address (ls_address l) = Inr (Some (v, a))" if "l \<in> set ls" for l
    using assms that by (auto simp: list_all_iff valid_listener_def new_listener_def bind_res_Inr_iff split: option.splits)
  let ?pair = "\<lambda>l. the (projr (ip_address (ls_address l)))"
  have p: "parse_address (ls_address l) = Inr (?pair l)"
    and b: "loopback_listener l = (case ?pair l of (v, a) \<Rightarrow> is_loopback v a)" if "l \<in> set ls" for l
    using ip [OF that] by (auto simp: parse_address_def loopback_listener_def)
  have "map_res (\<lambda>l. parse_address (ls_address l)) ls = Inr (map ?pair ls)"
    using p by (auto simp: map_res_Inr_iff list_all2_conv_all_nth)
  moreover have "list_ex (\<lambda>(v, a). \<not> is_loopback v a) (map ?pair ls) \<longleftrightarrow> \<not> list_all loopback_listener ls"
    using b by (simp add: list_ex_iff list_all_iff split_beta)
  ultimately show ?thesis by (auto simp: neutral_private_def)
qed

lemma direct_spec_valid:
  assumes "valid_direct \<lparr>dr_routing = r, dr_rows = rows\<rparr>"
  shows "direct_spec r rows = Inr (Some \<lparr>dr_routing = r, dr_rows = rows\<rparr>)"
proof -
  have n: "new_direct r rows = Inr \<lparr>dr_routing = r, dr_rows = rows\<rparr>" and v: "list_all valid_row rows"
    using assms by (auto simp: valid_direct_def)
  from new_direct_Inr(2) [OF n] obtain row rest where r: "rows = row # rest" by (cases rows) auto
  show ?thesis using n v r by (cases row) (simp_all add: direct_spec_def valid_row_def)
qed

lemma neutral_rows:
  "direct_spec r (map Neutral ls) = Inr None" "neutral_listeners (map Neutral ls) = Inr ls"
  by (cases ls) (auto simp: direct_spec_def neutral_listeners_def list_ex_iff is_viewer_def is_proxy_def comp_def)

lemma valid_composition_cases:
  "valid_composition r rows \<longleftrightarrow>
     (\<exists>ls. rows = map Neutral ls \<and> valid_base (r, ls) \<and> list_all loopback_listener ls)
     \<or> valid_direct \<lparr>dr_routing = r, dr_rows = rows\<rparr>"
proof (cases rows)
  case Nil
  have "\<not> valid_base (r, [])" "\<not> valid_direct \<lparr>dr_routing = r, dr_rows = []\<rparr>"
    by (auto simp: valid_base_def valid_direct_def new_direct_def)
  then show ?thesis using Nil by (simp add: valid_composition_def)
next
  case (Cons row rest)
  show ?thesis
  proof (cases row)
    case (Neutral l)
    then have "\<not> valid_direct \<lparr>dr_routing = r, dr_rows = rows\<rparr>"
      using Cons by (simp add: valid_direct_def valid_row_def)
    moreover have "rows = map Neutral ls \<Longrightarrow> map row_socket rows = ls" for ls by (simp add: comp_def)
    moreover have "valid_composition r rows \<longleftrightarrow> rows = map Neutral (map row_socket rows)
        \<and> valid_base (r, map row_socket rows) \<and> list_all loopback_listener (map row_socket rows)"
      unfolding valid_composition_def Cons Neutral by simp
    ultimately show ?thesis by metis
  qed (use Cons in \<open>auto simp: valid_composition_def\<close>)
qed

lemma direct_from_config_start:
  "direct_from_config sha data = Inr s \<Longrightarrow> starts_with ''# secpal-direct '' data"
  unfolding direct_serve starts_with_iff first_line_def by (metis append.assoc takeWhile_dropWhile_id)

lemma composed_from_config_direct:
  "starts_with ''# secpal-direct '' data \<Longrightarrow> composed_from_config sha data = Inr (r, rows) \<longleftrightarrow>
     direct_from_config sha data = Inr \<lparr>dr_routing = r, dr_rows = rows\<rparr>"
  by (auto simp: composed_from_config_def bind_res_Inr_iff)

lemma valid_base_listeners: "valid_base (r, ls) \<Longrightarrow> list_all valid_listener ls"
  by (simp add: valid_base_def)

lemma direct_render_regenerate: "direct_render sha s = regenerate sha (direct_render_with s)"
  by (simp add: direct_render_def direct_generation_id_def regenerate_def bind_res_def split: sum.splits)

lemma base_render_regenerate: "base_render sha r ls = regenerate sha (base_render_with r ls)"
  by (simp add: base_render_def base_generation_id_def regenerate_def bind_res_def split: sum.splits)

lemma neutral_not_direct:
  assumes "valid_base (r, ls)" and "base_render_with r ls g = Inr t"
  shows "\<not> starts_with ''# secpal-direct '' t"
  using base_head [OF assms(2)] by (auto simp: starts_with_iff)

lemma regenerated_text: "regenerate sha render = Inr t \<Longrightarrow> \<exists>g. render g = Inr t"
  by (auto simp: regenerate_def bind_res_Inr_iff)

text \<open>Property C18: serving bytes are admitted as a routing and listeners exactly when these form a
  composition the contract admits, the bytes fit the size bound and they are the text that
  rendering this composition produces, fingerprint included. So reading inverts rendering, for
  neutral and direct compositions alike, and no other bytes are admitted.\<close>

theorem serving_configuration_is_the_rendering:
  "composed_from_config sha data = Inr (r, rows) \<longleftrightarrow>
     valid_composition r rows \<and> length data \<le> Haproxy_Base.MAX_CONFIG_BYTES \<and> composed_render sha r rows = Inr data"
proof (cases "starts_with ''# secpal-direct '' data")
  case True
  let ?s = "\<lparr>dr_routing = r, dr_rows = rows\<rparr>"
  have "composed_render sha r rows \<noteq> Inr data" if "rows = map Neutral ls" "valid_base (r, ls)" for ls
  proof
    assume "composed_render sha r rows = Inr data"
    then have "regenerate sha (base_render_with r ls) = Inr data"
      using that(1) by (simp add: composed_render_def neutral_rows base_render_regenerate)
    from regenerated_text [OF this] neutral_not_direct [OF that(2)] True show False by blast
  qed
  moreover have "composed_render sha r rows = regenerate sha (direct_render_with ?s)" if "valid_direct ?s"
    using direct_spec_valid [OF that] by (simp add: composed_render_def direct_render_regenerate)
  ultimately show ?thesis
    unfolding composed_from_config_direct [OF True] composed.serve_iff valid_composition_cases by auto
next
  case False
  have "composed_render sha r rows \<noteq> Inr data \<or> \<not> length data \<le> Haproxy_Base.MAX_CONFIG_BYTES"
    if d: "valid_direct \<lparr>dr_routing = r, dr_rows = rows\<rparr>"
    using direct_spec_valid [OF d] composed.serve_iff [of sha data "\<lparr>dr_routing = r, dr_rows = rows\<rparr>"] d False
      direct_from_config_start by (auto simp: composed_render_def direct_render_regenerate)
  moreover have "composed_from_config sha data = Inr (r, rows) \<longleftrightarrow>
      (\<exists>ls. rows = map Neutral ls \<and> list_all loopback_listener ls \<and> base_from_config sha data = Inr (r, ls))"
  proof -
    have "neutral_private (r', ls) = Inr (r, rows) \<longleftrightarrow> r = r' \<and> rows = map Neutral ls \<and> list_all loopback_listener ls"
      if "base_from_config sha data = Inr (r', ls)" for r' ls
    proof -
      have "list_all valid_listener ls" using that by (auto simp: neutral.serve_iff valid_base_def)
      from neutral_private_iff [OF this, of r' r rows] show ?thesis by auto
    qed
    then show ?thesis using False by (auto simp: composed_from_config_def bind_res_Inr_iff)
  qed
  moreover have "composed_render sha r (map Neutral ls) = regenerate sha (base_render_with r ls)" for ls
    by (simp add: composed_render_def neutral_rows base_render_regenerate)
  ultimately show ?thesis unfolding neutral.serve_iff valid_composition_cases by auto
qed

section \<open>Sockets\<close>

lemma clashing_append:
  "clashing (xs @ ys) \<longleftrightarrow> clashing xs \<or> clashing ys \<or> list_ex (\<lambda>x. list_ex (clash x) ys) xs"
  by (induction xs) (auto simp: list_ex_iff)

lemma clash_port: "clash l m \<Longrightarrow> ls_port l = ls_port m"
  by (cases "ip_address (ls_address l)"; cases "ip_address (ls_address m)";
      cases "projr (ip_address (ls_address l))"; cases "projr (ip_address (ls_address m))")
    (auto simp: clash_def)

lemma clashing_ports: "distinct (map ls_port ls) \<Longrightarrow> \<not> clashing ls"
  by (induction ls) (auto simp: list_ex_iff dest: clash_port)

text \<open>A row with its own address rules.\<close>

definition public_or_loopback :: "row \<Rightarrow> bool" where
  "public_or_loopback row \<longleftrightarrow>
     loopback_listener (row_socket row) \<or> ls_port (row_socket row) = public_port (row_transport row)"

definition private_row :: "row \<Rightarrow> bool" where
  "private_row row \<longleftrightarrow> private_address (ls_address (row_socket row)) = Inr True
     \<and> ls_port (row_socket row) \<notin> snd ` set DECODER_PORTS"

lemma valid_row_rules:
  assumes "valid_row row"
  shows "valid_listener (row_socket row)" "public_or_loopback row" "row_transport row \<in> {''http'', ''https''}"
    "is_proxy row \<Longrightarrow> private_row row"
proof -
  have view: "public_or_loopback (Viewer l t c)" if "new_viewer l (PStr t) (PStr c') = Inr (Viewer l t c')" for l t c c'
    using that by (auto simp: new_viewer_def bind_res_Inr_iff public_or_loopback_def loopback_listener_def
        parse_address_def the_str_def split: if_splits option.splits)
  have "valid_listener (row_socket row) \<and> public_or_loopback row \<and> row_transport row \<in> {''http'', ''https''}
      \<and> (is_proxy row \<longrightarrow> private_row row)"
  proof (cases row)
    case (Viewer l t c)
    then have v: "valid_listener l" "new_viewer l (PStr t) (PStr c) = Inr row" using assms by (simp_all add: valid_row_def)
    obtain t' c' where "t = t'" "t' \<in> {''http'', ''https''}" by (rule new_viewer_Inr [OF v(2)]) auto
    then show ?thesis using v view [of l t c c] Viewer by (simp add: is_proxy_def)
  next
    case (Proxy l t ps)
    then have v: "valid_listener l" and p: "new_proxy l (PStr t) (map PStr ps) = Inr row"
      using assms by (simp_all add: valid_row_def)
    obtain t' where t: "t = t'" "t' \<in> {''http'', ''https''}" "private_address (ls_address l) = Inr True"
      "ls_port l \<notin> snd ` set DECODER_PORTS" "new_viewer l (PStr t) (PStr ''legacy'') = Inr (Viewer l t' ''legacy'')"
      by (rule new_proxy_Inr [OF p]) auto
    have "public_or_loopback (Viewer l t ''legacy'')" using view t(1,5) by simp
    then show ?thesis using v t(1-4) Proxy by (simp add: public_or_loopback_def private_row_def)
  qed (use assms in \<open>simp add: valid_row_def\<close>)
  then show "valid_listener (row_socket row)" "public_or_loopback row" "row_transport row \<in> {''http'', ''https''}"
    "is_proxy row \<Longrightarrow> private_row row" by auto
qed

definition backend_free :: "listener \<Rightarrow> bool" where
  "backend_free l \<longleftrightarrow> ls_port l \<notin> (\<lambda>(_, b). be_host_port b) ` set BACKENDS"

lemma valid_listener_backend: "valid_listener l \<Longrightarrow> backend_free l"
proof -
  assume "valid_listener l"
  then have "PInt (ls_port l) \<notin> (\<lambda>(_, b). PInt (be_host_port b)) ` set BACKENDS"
    by (cases "ip_address (ls_address l)"; cases "projr (ip_address (ls_address l))")
      (auto simp: valid_listener_def new_listener_def simp del: image_iff split: if_split_asm)
  then show "backend_free l" by (force simp: backend_free_def)
qed

lemma transports_valid:
  assumes "list_all valid_row rows"
  shows "distinct (transports rows)" and "set (transports rows) \<subseteq> {''http'', ''https''}"
  using assms valid_row_rules(3) by (auto simp: transports_def sorted_strings_def list_all_iff)

lemma decoder_sockets:
  assumes "list_all valid_row rows"
  shows "\<not> clashing (map decoder_socket (transports rows))"
    and "l \<in> set (map decoder_socket (transports rows)) \<Longrightarrow> ls_port l \<in> snd ` set DECODER_PORTS \<and> backend_free l"
proof -
  have "decoder_port ''http'' = 18082" "decoder_port ''https'' = 18083"
    by (simp_all add: decoder_port_def DECODER_PORTS_def)
  then have "inj_on decoder_port {''http'', ''https''}" by simp
  then have "inj_on decoder_port (set (transports rows))"
    by (rule inj_on_subset) (rule transports_valid(2) [OF assms])
  then have "distinct (map (ls_port \<circ> decoder_socket) (transports rows))"
    using transports_valid(1) [OF assms] by (simp add: distinct_map decoder_socket_def comp_def)
  then show "\<not> clashing (map decoder_socket (transports rows))" by (intro clashing_ports) simp
  have "list_all (\<lambda>t. ls_port (decoder_socket t) \<in> snd ` set DECODER_PORTS \<and> backend_free (decoder_socket t))
      [''http'', ''https'']"
    by code_simp
  then have d: "ls_port (decoder_socket t) \<in> snd ` set DECODER_PORTS \<and> backend_free (decoder_socket t)"
    if "t \<in> {''http'', ''https''}" for t
    using that by auto
  then show "ls_port l \<in> snd ` set DECODER_PORTS \<and> backend_free l"
    if "l \<in> set (map decoder_socket (transports rows))"
    using that transports_valid(2) [OF assms] by auto
qed

lemma valid_direct_proxies:
  assumes "valid_direct spec" and "topology (dr_rows spec) = ''ha''"
  shows "list_all is_proxy (dr_rows spec)"
proof -
  let ?rows = "dr_rows spec"
  have n: "new_direct (dr_routing spec) ?rows = Inr spec" using assms(1) by (simp add: valid_direct_def)
  have "is_proxy (hd ?rows)" "hd ?rows \<in> set ?rows"
    using assms(2) new_direct_Inr(2) [OF n] by (cases ?rows; auto simp: topology_def split: if_splits)+
  then show ?thesis
    using new_direct_Inr(4) [OF n] by (auto simp: list_all_iff is_viewer_def is_proxy_def split: row.splits)
qed

text \<open>Property C19: the sockets of an admitted direct composition, those of its own decoders included,
  can all be bound at once and none takes a port of a backend. Every listener is on loopback or
  on the public port of its transport, and the listeners of an HA composition are on private
  addresses, off the decoder ports.\<close>

theorem admitted_sockets_can_be_bound:
  assumes "direct_from_document v = Inr spec"
  shows "\<not> clashing (bound_sockets (dr_rows spec)) \<and> list_all backend_free (bound_sockets (dr_rows spec))
    \<and> list_all public_or_loopback (dr_rows spec)
    \<and> (topology (dr_rows spec) = ''single'' \<or> list_all private_row (dr_rows spec))"
proof (intro conjI)
  let ?rows = "dr_rows spec"
  have v: "list_all valid_row ?rows" "new_direct (dr_routing spec) ?rows = Inr spec"
    using direct_admit_valid [OF assms] by (auto simp: valid_direct_def)
  have r: "valid_listener (row_socket row)" "public_or_loopback row" "is_proxy row \<longrightarrow> private_row row"
    if "row \<in> set ?rows" for row
    using that v(1) valid_row_rules by (auto simp: list_all_iff)
  have ha: "list_all private_row ?rows" if "topology ?rows = ''ha''"
    using valid_direct_proxies [OF direct_admit_valid [OF assms] that] r(3) by (simp add: list_all_iff)
  have "\<not> clash (row_socket row) m"
    if "topology ?rows = ''ha''" "row \<in> set ?rows" "m \<in> set (map decoder_socket (transports ?rows))" for row m
    using ha that decoder_sockets(2) [OF v(1)] clash_port by (fastforce simp: list_all_iff private_row_def)
  then show "\<not> clashing (bound_sockets ?rows)"
    using new_direct_Inr(6) [OF v(2)] decoder_sockets(1) [OF v(1)]
    by (auto simp: bound_sockets_def clashing_append list_ex_iff)
  show "list_all backend_free (bound_sockets ?rows)"
    using r(1) valid_listener_backend decoder_sockets(2) [OF v(1)]
    by (auto simp: bound_sockets_def list_all_iff)
  show "list_all public_or_loopback ?rows" using r(2) by (simp add: list_all_iff)
  show "topology ?rows = ''single'' \<or> list_all private_row ?rows"
    using ha by (auto simp: topology_def)
qed

text \<open>An HA composition of two private listeners that share one public socket address.\<close>

definition sample_document :: pyval where
  "sample_document = (let peers = PList [PStr ''10.0.0.7'', PStr ''10.0.0.8''];
     row = \<lambda>transport port. PDict [(''address'', PStr ''10.0.0.5''), (''port'', PInt port),
       (''transport'', PStr transport), (''trusted_peers'', peers)]
   in PDict [(''topology'', PStr ''ha''), (''frontend_host'', PStr ''app.example.org''),
        (''api_host'', PStr ''api.example.org''), (''listeners'', PList [row ''http'' 80, row ''https'' 443])])"

definition sample_direct :: direct where
  "sample_direct = (let peers = [''10.0.0.7'', ''10.0.0.8''] in
     \<lparr>dr_routing = \<lparr>rt_frontend_host = ''app.example.org'', rt_api_host = ''api.example.org''\<rparr>,
      dr_rows = [Proxy \<lparr>ls_address = ''10.0.0.5'', ls_port = 80\<rparr> ''http'' peers,
                 Proxy \<lparr>ls_address = ''10.0.0.5'', ls_port = 443\<rparr> ''https'' peers]\<rparr>)"

lemma sample_direct_admitted: "direct_from_document sample_document = Inr sample_direct"
  by code_simp

theorem admitted_sockets_can_be_bound_witness:
  "\<not> clashing (bound_sockets (dr_rows sample_direct)) \<and> list_all backend_free (bound_sockets (dr_rows sample_direct))"
  using admitted_sockets_can_be_bound [OF sample_direct_admitted] by simp

section \<open>The generation\<close>

text \<open>The text that the fingerprint is taken of.\<close>

definition unsigned_text :: "routing \<Rightarrow> row list \<Rightarrow> string res" where
  "unsigned_text r rows = bind_res (direct_spec r rows) (\<lambda>spec. case spec of
     Some s \<Rightarrow> direct_render_with s None
   | None \<Rightarrow> bind_res (neutral_listeners rows) (\<lambda>ls. base_render_with r ls None))"

lemma composed_generation:
  "composed_generation_id sha r rows = bind_res (unsigned_text r rows) (\<lambda>t. Inr (sha t))"
  by (auto simp: composed_generation_id_def unsigned_text_def direct_generation_id_def base_generation_id_def
      bind_res_def split: sum.splits option.splits)

lemma unsigned_inj:
  assumes "valid_composition r rows" "valid_composition r' rows'"
    and t: "unsigned_text r rows = Inr t" "unsigned_text r' rows' = Inr t"
  shows "r = r' \<and> rows = rows'"
proof -
  have base: "unsigned_text r (map Neutral ls) = base_render_with r ls None" for r ls
    by (simp add: unsigned_text_def neutral_rows)
  have direct: "unsigned_text r rows = direct_render_with \<lparr>dr_routing = r, dr_rows = rows\<rparr> None"
    if "valid_direct \<lparr>dr_routing = r, dr_rows = rows\<rparr>" for r rows
    using direct_spec_valid [OF that] by (simp add: unsigned_text_def)
  have start: "starts_with ''# secpal-direct '' u"
    if "valid_direct s" "direct_render_with s None = Inr u" for s u
    using direct_render_line [OF that] by (auto simp: starts_with_iff)
  consider ls ls' where "rows = map Neutral ls" "valid_base (r, ls)" "rows' = map Neutral ls'" "valid_base (r', ls')"
    | "valid_direct \<lparr>dr_routing = r, dr_rows = rows\<rparr>" "valid_direct \<lparr>dr_routing = r', dr_rows = rows'\<rparr>"
    | ls where "rows = map Neutral ls" "valid_base (r, ls)" "valid_direct \<lparr>dr_routing = r', dr_rows = rows'\<rparr>"
    | ls where "rows' = map Neutral ls" "valid_base (r', ls)" "valid_direct \<lparr>dr_routing = r, dr_rows = rows\<rparr>"
    using assms(1,2) unfolding valid_composition_cases by blast
  then show ?thesis
  proof cases
    case 1
    then show ?thesis using neutral.render_inj [of "(r, ls)" "(r', ls')" None t None] t by (simp add: base)
  next
    case 2
    then show ?thesis using composed.render_inj [OF 2] t by (simp add: direct)
  next
    case 3
    then show ?thesis using t base direct neutral_not_direct start by metis
  next
    case 4
    then show ?thesis using t base direct neutral_not_direct start by metis
  qed
qed

text \<open>Every admitted composition has a text, and so a fingerprint.\<close>

lemma composition_renders:
  assumes "valid_composition r rows"
  shows "\<exists>t. unsigned_text r rows = Inr t"
proof -
  consider ls where "rows = map Neutral ls" "valid_base (r, ls)" | "valid_direct \<lparr>dr_routing = r, dr_rows = rows\<rparr>"
    using assms unfolding valid_composition_cases by blast
  then show ?thesis
  proof cases
    case 1
    obtain i where "dumps (PDict (base_document r ls)) = Inr i" using dumps_plain [OF plain_base_document] by blast
    with 1 show ?thesis
      by (simp add: unsigned_text_def neutral_rows base_render_with_def routing_sections_def valid_base_def)
  next
    case 2
    obtain i where "dumps (PDict (direct_document \<lparr>dr_routing = r, dr_rows = rows\<rparr>)) = Inr i"
      using dumps_plain [OF plain_direct_document] by blast
    with direct_spec_valid [OF 2] show ?thesis
      by (simp add: unsigned_text_def direct_render_with_def routing_sections_def direct_head_def Let_def)
  qed
qed

text \<open>Property C29: the generation fingerprint binds the composition. Two admitted compositions with
  one fingerprint are equal, hosts, sockets, transports, lifecycle and peers included, or the
  two texts the fingerprint is taken of are different texts with one digest.\<close>

theorem generation_binds_the_composition:
  assumes "valid_composition r rows" "valid_composition r' rows'"
    and "composed_generation_id sha r rows = Inr g" "composed_generation_id sha r' rows' = Inr g"
  shows "(r, rows) = (r', rows') \<or>
    (\<exists>t t'. unsigned_text r rows = Inr t \<and> unsigned_text r' rows' = Inr t' \<and> t \<noteq> t' \<and> sha t = g \<and> sha t' = g)"
proof -
  obtain t t' where "unsigned_text r rows = Inr t" "sha t = g" "unsigned_text r' rows' = Inr t'" "sha t' = g"
    using assms(3,4) by (auto simp: composed_generation bind_res_Inr_iff)
  then show ?thesis using unsigned_inj [OF assms(1,2)] by auto
qed

definition sample_neutral :: "listener list" where
  "sample_neutral = [\<lparr>ls_address = ''127.0.0.1'', ls_port = 8080\<rparr>]"

lemma sample_valid:
  "valid_composition (dr_routing sample_direct) (map Neutral sample_neutral)"
  "valid_composition (dr_routing sample_direct) (dr_rows sample_direct)"
proof -
  have "valid_base (dr_routing sample_direct, sample_neutral)" "list_all loopback_listener sample_neutral"
    by code_simp+
  then show "valid_composition (dr_routing sample_direct) (map Neutral sample_neutral)"
    unfolding valid_composition_cases by blast
  show "valid_composition (dr_routing sample_direct) (dr_rows sample_direct)"
    using direct_admit_valid [OF sample_direct_admitted] unfolding valid_composition_cases
    by (intro disjI2) (simp add: sample_direct_def Let_def)
qed

lemma sample_generation:
  "composed_generation_id (\<lambda>_. ''0'') (dr_routing sample_direct) (map Neutral sample_neutral) = Inr ''0''"
  "composed_generation_id (\<lambda>_. ''0'') (dr_routing sample_direct) (dr_rows sample_direct) = Inr ''0''"
  using composition_renders [OF sample_valid(1)] composition_renders [OF sample_valid(2)]
  by (auto simp: composed_generation)

theorem generation_binds_the_composition_witness:
  "\<exists>t t'. unsigned_text (dr_routing sample_direct) (map Neutral sample_neutral) = Inr t
    \<and> unsigned_text (dr_routing sample_direct) (dr_rows sample_direct) = Inr t' \<and> t \<noteq> t'"
proof -
  have "map Neutral sample_neutral \<noteq> dr_rows sample_direct" by (simp add: sample_neutral_def sample_direct_def Let_def)
  then show ?thesis using generation_binds_the_composition [OF sample_valid sample_generation] by blast
qed

end
