(* ===== verification/Direct_Policy.thy ===== *)
theory Direct_Policy
  imports Haproxy_Direct
begin

text \<open>
  \<open>scripts/haproxy_direct_policy.py\<close>: the host policy that isolates the decoders and the
  listeners of an HA composition, as nft and SELinux text and as native nft JSON, and the
  comparison of the JSON with what the kernel shows.
\<close>

section \<open>The text of the policy\<close>

definition decoder_uid :: "direct \<Rightarrow> pyval \<Rightarrow> int res" where
  "decoder_uid spec uid = (case uid of
     PInt u \<Rightarrow> if topology (dr_rows spec) \<noteq> ''ha'' \<or> \<not> (0 < u \<and> u < 1000)
       then Inl (ValueError ''admit-direct-policy-identity'') else Inr u
   | _ \<Rightarrow> Inl (ValueError ''admit-direct-policy-identity''))"

definition is_ip6_text :: "string \<Rightarrow> bool" where
  "is_ip6_text s \<longleftrightarrow> CHR '':'' \<in> set s"

definition row_family :: "row \<Rightarrow> string" where
  "row_family row = (if is_ip6_text (ls_address (row_socket row)) then ''ip6'' else ''ip'')"

text \<open>\<open>sorted(set(...), key=ipaddress.ip_address)\<close> of addresses of one family.\<close>

definition sorted_addresses :: "string list \<Rightarrow> string list res" where
  "sorted_addresses ss = bind_res (map_res (\<lambda>s. bind_res (parse_address s) (\<lambda>k. Inr (k, s))) (remdups ss))
     (\<lambda>ps. Inr (map snd (sort_key fst ps)))"

definition allowed_sources :: "row \<Rightarrow> string list res" where
  "allowed_sources row = (let six = is_ip6_text (ls_address (row_socket row)) in
     sorted_addresses (filter (\<lambda>p. is_ip6_text p = six) (row_peers row)
       @ [if six then ''::1'' else ''127.0.0.1'']))"

definition decoder_ports_text :: string where
  "decoder_ports_text = comma_list (map (\<lambda>(_, port). show_int port) DECODER_PORTS)"

definition row_selector :: "row \<Rightarrow> string" where
  "row_selector row = row_family row @ '' daddr '' @ ls_address (row_socket row)
     @ '' tcp dport '' @ show_int (ls_port (row_socket row))"

definition ingress_line :: "row \<Rightarrow> string res" where
  "ingress_line row = bind_res (allowed_sources row) (\<lambda>peers. Inr (
     ''    iifname != '' @ quoted ''lo'' @ '' '' @ row_selector row @ '' '' @ row_family row
     @ '' saddr != { '' @ comma_list peers @ '' } reject''))"

definition local_line :: "int \<Rightarrow> row \<Rightarrow> string" where
  "local_line uid row = ''    '' @ row_selector row @ '' meta skuid != { 0, '' @ show_int uid @ '' } reject''"

definition decoder_policy :: "direct \<Rightarrow> pyval \<Rightarrow> pydict res" where
  "decoder_policy spec uid = bind_res (decoder_uid spec uid) (\<lambda>u.
     bind_res (map_res ingress_line (dr_rows spec)) (\<lambda>ingress.
     let ports = decoder_ports_text;
       nft = text_lines ([
         ''table inet secpal_direct {'',
         ''  chain decoder_input {'',
         ''    type filter hook input priority -21; policy accept;'',
         ''    iifname != '' @ quoted ''lo'' @ '' tcp dport { '' @ ports @ '' } reject'']
         @ ingress @ [
         ''  }'',
         ''  chain decoder_output {'',
         ''    type filter hook output priority -21; policy accept;'',
         ''    ip daddr 127.0.0.0/8 tcp dport { '' @ ports @ '' } meta skuid != { 0, '' @ show_int u @ '' } reject'',
         ''    ip6 daddr ::1 tcp dport { '' @ ports @ '' } reject'']
         @ map (local_line u) (dr_rows spec) @ [
         ''  }'',
         ''}'']);
       cil = text_lines ([
         ''(type secpal_direct_decoder_port_t)'',
         ''(typeattributeset port_type (secpal_direct_decoder_port_t))'',
         ''(roletype object_r secpal_direct_decoder_port_t)'',
         ''(allow haproxy_t secpal_direct_decoder_port_t (tcp_socket (name_bind name_connect)))'']
         @ map (\<lambda>(_, port). ''(portcon tcp '' @ show_int port
             @ '' (system_u object_r secpal_direct_decoder_port_t ((s0) (s0))))'') DECODER_PORTS)
     in Inr [(''nft'', PStr nft), (''cil'', PStr cil)]))"

definition decoder_policy_digest :: "(string \<Rightarrow> string) \<Rightarrow> pyval \<Rightarrow> string res" where
  "decoder_policy_digest sha v = bind_res (dumps v) (\<lambda>s. Inr (sha s))"

section \<open>The observed table\<close>

definition decoder_table_item :: "pyval \<Rightarrow> pyval option res" where
  "decoder_table_item item = (case item of
     PDict [(kind, value)] \<Rightarrow>
       if kind = ''metainfo''
       then (case value of
           PDict d \<Rightarrow> if \<not> py_eq (dget_default d ''json_schema_version'' PNone) (PInt 1)
             then Inl (ValueError ''admit-direct-table-version'') else Inr None
         | _ \<Rightarrow> Inl (ValueError ''admit-direct-table-version''))
       else if kind \<notin> {''table'', ''chain'', ''rule''} then Inl (ValueError ''admit-direct-table-authority'')
       else (case value of
           PDict d \<Rightarrow> Inr (Some (PDict [(kind, PDict (without_key ''handle'' d))]))
         | _ \<Rightarrow> Inl (ValueError ''admit-direct-table-authority''))
   | _ \<Rightarrow> Inl (ValueError ''admit-direct-table-entry''))"

definition decoder_normalize_table :: "pyval \<Rightarrow> pyval list res" where
  "decoder_normalize_table document = (case document of
     PDict d \<Rightarrow>
       if dkeys d \<noteq> {''nftables''} then Inl (ValueError ''admit-direct-table-observation'')
       else (case dget d ''nftables'' of
           PList items \<Rightarrow> bind_res (map_res decoder_table_item items) (\<lambda>objects. Inr (List.map_filter id objects))
         | _ \<Rightarrow> Inl (ValueError ''admit-direct-table-observation''))
   | _ \<Rightarrow> Inl (ValueError ''admit-direct-table-observation''))"

section \<open>The projected table\<close>

definition DECODER_TABLE :: pydict where
  "DECODER_TABLE = [(''family'', PStr ''inet''), (''table'', PStr ''secpal_direct'')]"

definition decoder_chain :: "string \<times> string \<Rightarrow> pyval" where
  "decoder_chain nh = (case nh of (name, hook) \<Rightarrow>
     PDict [(''chain'', PDict (DECODER_TABLE @ [(''name'', PStr name), (''type'', PStr ''filter''),
       (''hook'', PStr hook), (''prio'', PInt (-21)), (''policy'', PStr ''accept'')]))])"

definition decoder_rule :: "string \<Rightarrow> pyval list \<Rightarrow> pyval" where
  "decoder_rule chain expr =
     PDict [(''rule'', PDict (DECODER_TABLE @ [(''chain'', PStr chain), (''expr'', PList expr)]))]"

definition set_of :: "pyval list \<Rightarrow> pyval" where
  "set_of vs = PDict [(''set'', PList vs)]"

definition from_outside :: pyval where
  "from_outside = acme_match (acme_meta ''iifname'') (PStr ''lo'') ''!=''"

definition to_decoders :: pyval where
  "to_decoders = acme_match (acme_payload ''tcp'' ''dport'') (set_of (map (\<lambda>(_, port). PInt port) DECODER_PORTS)) ''==''"

definition not_owner :: "int \<Rightarrow> pyval" where
  "not_owner u = acme_match (acme_meta ''skuid'') (set_of [PInt 0, PInt u]) ''!=''"

definition row_reject :: "row \<Rightarrow> pyval" where
  "row_reject row = reject_with (if row_family row = ''ip6'' then ''icmpv6'' else ''icmp'')"

text \<open>The address in its canonical text.\<close>

definition row_address :: "row \<Rightarrow> string res" where
  "row_address row = bind_res (parse_address (ls_address (row_socket row))) (\<lambda>(v, a). Inr (address_str v a))"

definition to_row :: "row \<Rightarrow> string \<Rightarrow> pyval list" where
  "to_row row address = [acme_match (acme_payload (row_family row) ''daddr'') (PStr address) ''=='',
     acme_match (acme_payload ''tcp'' ''dport'') (PInt (ls_port (row_socket row))) ''=='']"

definition ingress_rule :: "row \<Rightarrow> pyval res" where
  "ingress_rule row = bind_res (allowed_sources row) (\<lambda>peers. bind_res (row_address row) (\<lambda>address.
     Inr (decoder_rule ''decoder_input'' ([from_outside] @ to_row row address @
       [acme_match (acme_payload (row_family row) ''saddr'')
          (if length peers = 1 then PStr (hd peers) else set_of (map PStr peers)) ''!='', row_reject row]))))"

definition local_rule :: "int \<Rightarrow> row \<Rightarrow> pyval res" where
  "local_rule u row = bind_res (row_address row) (\<lambda>address.
     Inr (decoder_rule ''decoder_output'' (to_row row address @ [not_owner u, row_reject row])))"

definition decoder_projection :: "direct \<Rightarrow> pyval \<Rightarrow> pyval list res" where
  "decoder_projection spec uid = bind_res (decoder_policy spec uid) (\<lambda>_. bind_res (decoder_uid spec uid) (\<lambda>u.
     bind_res (map_res ingress_rule (dr_rows spec)) (\<lambda>ingress.
     bind_res (map_res (local_rule u) (dr_rows spec)) (\<lambda>local. Inr (
       [PDict [(''table'', PDict [(''family'', PStr ''inet''), (''name'', PStr ''secpal_direct'')])]]
       @ map decoder_chain [(''decoder_input'', ''input''), (''decoder_output'', ''output'')]
       @ [decoder_rule ''decoder_input'' [from_outside, to_decoders, reject_with ''icmpx'']]
       @ ingress
       @ [decoder_rule ''decoder_output'' [acme_match (acme_payload ''ip'' ''daddr'') loopback4 ''=='',
            to_decoders, not_owner u, reject_with ''icmp''],
          decoder_rule ''decoder_output'' [acme_match (acme_payload ''ip6'' ''daddr'') (PStr ''::1'') ''=='',
            to_decoders, reject_with ''icmpv6'']]
       @ local)))))"

definition admit_decoder_table :: "pyval \<Rightarrow> direct \<Rightarrow> pyval \<Rightarrow> unit res" where
  "admit_decoder_table document spec uid =
     bind_res (decoder_normalize_table document) (\<lambda>observed.
     bind_res (decoder_projection spec uid) (\<lambda>objects.
     if \<not> py_eq (PList observed) (PList objects)
     then Inl (ValueError ''admit-effective-direct-table'') else Inr ()))"

end
