(* ===== verification/Direct_Policy_Facts.thy ===== *)
theory Direct_Policy_Facts
  imports Direct_Policy Haproxy_Direct_Facts Viewer_Tls_Facts
begin

text \<open>
  What the host policy of an HA composition lets through: the decoders answer the proxy and the
  administrator only, and a listener is reached from outside by its trusted peers only.
\<close>

section \<open>The family of an address text\<close>

lemma those_Some: "those xs = Some ys \<Longrightarrow> list_all (\<lambda>x. x \<noteq> None) xs"
  by (induction xs arbitrary: ys) (auto split: option.splits)

lemma ip4_no_colon:
  assumes "ip4_int s = Some n"
  shows "CHR '':'' \<notin> set s"
proof -
  have not_digit: "\<not> digit_char CHR '':''" by code_simp
  obtain ns where "those (map parse_octet (py_split CHR ''.'' s)) = Some ns"
    using assms by (auto simp: ip4_int_def Let_def split: if_splits)
  then have "list_all (\<lambda>w. parse_octet w \<noteq> None) (py_split CHR ''.'' s)"
    using those_Some by (fastforce simp: list_all_iff)
  then have "list_all (list_all digit_char) (py_split CHR ''.'' s)"
    by (auto simp: list_all_iff parse_octet_def split: if_splits)
  then have "list_all (list_all (\<lambda>c. c \<noteq> CHR '':'')) (py_split CHR ''.'' s)"
    using not_digit by (auto simp: list_all_iff)
  then have "list_all (\<lambda>c. c \<noteq> CHR '':'') (join_str CHR ''.'' (py_split CHR ''.'' s))"
    by (intro list_all_join) simp_all
  then show ?thesis by (auto simp: join_py_split list_all_iff)
qed

lemma ip6_str_colon: "CHR '':'' \<in> set (ip6_str a)"
proof -
  let ?h = "\<lambda>i. show_hex (a div 65536 ^ i mod 65536)"
  have space: "\<not> space_char (hd (?h 7))" by (rule hd_show_hex) simp
  obtain w v us where "compress_hextets (?h 7 # ?h 6 # map ?h [5, 4, 3, 2, 1, 0]) = w # v # us"
    by (rule compress_hextets_head [OF refl _ space]) auto
  then show ?thesis by (simp add: ip6_str_def)
qed

lemma parse_version: "parse_address s = Inr (v, a) \<Longrightarrow> v = 4 \<or> v = 6"
  by (auto simp: parse_address_def ip_address_def bind_res_Inr_iff split: option.splits if_splits)

text \<open>A canonical text of an address shows its family.\<close>

lemma family_text:
  assumes "parse_address s = Inr (v, a)" and "address_str v a = s"
  shows "is_ip6_text s \<longleftrightarrow> v = 6"
proof (cases "v = 4")
  case True
  then have "ip4_int s \<noteq> None"
    using assms(1) by (auto simp: parse_address_def ip_address_def bind_res_Inr_iff split: option.splits if_splits)
  then show ?thesis using True ip4_no_colon by (auto simp: is_ip6_text_def)
next
  case False
  then show ?thesis using assms(2) ip6_str_colon parse_version [OF assms(1)] by (auto simp: is_ip6_text_def address_str_def)
qed

definition canonical_address :: "string \<Rightarrow> bool" where
  "canonical_address s \<longleftrightarrow> (\<exists>v a. parse_address s = Inr (v, a) \<and> address_str v a = s)"

lemma listener_address: "valid_listener l \<Longrightarrow> canonical_address (ls_address l)"
  by (cases "ip_address (ls_address l)"; cases "projr (ip_address (ls_address l))")
    (auto simp: canonical_address_def valid_listener_def new_listener_def parse_address_def split: if_split_asm)

lemma peer_address:
  assumes "trusted_peer (PStr p) = Inr q"
  shows "canonical_address p"
proof -
  obtain x where "application_proxy_peer (PStr p) = Inr x"
    using assms by (auto simp: trusted_peer_def bind_res_Inr_iff)
  then show ?thesis
    by (cases "ip_address p"; cases "projr (ip_address p)")
      (auto simp: canonical_address_def application_proxy_peer_def parse_address_def split: if_split_asm)
qed

lemma sorted_addresses_set: "sorted_addresses ss = Inr ps \<Longrightarrow> set ps = set ss"
proof -
  assume "sorted_addresses ss = Inr ps"
  then obtain qs where q: "map_res (\<lambda>s. bind_res (parse_address s) (\<lambda>k. Inr (k, s))) (remdups ss) = Inr qs"
    "ps = map snd (sort_key fst qs)"
    by (auto simp: sorted_addresses_def bind_res_Inr_iff)
  have "map snd qs = remdups ss"
    using q(1) unfolding map_res_Inr_iff by (induction rule: list_all2_induct) (auto simp: bind_res_Inr_iff)
  then have "snd ` set qs = set ss" by (metis set_map set_remdups)
  then show "set ps = set ss" using q(2) by simp
qed

lemma valid_row_addresses:
  assumes "valid_row row"
  shows "canonical_address (ls_address (row_socket row))"
    and "is_proxy row \<Longrightarrow> list_all canonical_address (row_peers row)"
proof -
  show "canonical_address (ls_address (row_socket row))"
    using listener_address [OF valid_row_rules(1) [OF assms]] .
  show "list_all canonical_address (row_peers row)" if "is_proxy row"
  proof (cases row)
    case (Proxy l t ps)
    then have p: "new_proxy l (PStr t) (map PStr ps) = Inr row" using assms by (simp add: valid_row_def)
    obtain qs where q: "map PStr ps = map PStr qs" "list_all (\<lambda>p. trusted_peer (PStr p) = Inr p) qs"
      by (rule new_proxy_Inr [OF p]) auto
    have "ps = qs" using q(1) by (simp add: inj_map_eq_map inj_def)
    then show ?thesis using q(2) Proxy peer_address by (auto simp: list_all_iff)
  qed (use that in \<open>simp_all add: is_proxy_def\<close>)
qed

section \<open>The meaning of the table\<close>

text \<open>A TCP segment with its source address.\<close>

record flow = segment + sg_source :: int

definition has_version :: "nat \<Rightarrow> string \<Rightarrow> bool" where
  "has_version v s \<longleftrightarrow> (\<exists>a. parse_address s = Inr (v, a))"

definition family_of :: "nat \<Rightarrow> string" where
  "family_of v = (if v = 6 then ''ip6'' else ''ip'')"

text \<open>The documented meaning of the match expressions of the table.\<close>

definition decoder_meaning :: "(pyval \<Rightarrow> flow \<Rightarrow> bool) \<Rightarrow> bool" where
  "decoder_meaning m \<longleftrightarrow>
     (\<forall>i p. m (acme_match (acme_meta ''iifname'') (PStr i) ''!='') p \<longleftrightarrow> sg_interface p \<noteq> i)
     \<and> (\<forall>k p. m (acme_match (acme_payload ''tcp'' ''dport'') (PInt k) ''=='') p \<longleftrightarrow> sg_port p = k)
     \<and> (\<forall>ks p. m (acme_match (acme_payload ''tcp'' ''dport'') (set_of (map PInt ks)) ''=='') p \<longleftrightarrow> sg_port p \<in> set ks)
     \<and> (\<forall>us p. m (acme_match (acme_meta ''skuid'') (set_of (map PInt us)) ''!='') p \<longleftrightarrow> sg_owner p \<notin> set us)
     \<and> (\<forall>p. m (acme_match (acme_payload ''ip'' ''daddr'') loopback4 ''=='') p \<longleftrightarrow>
          sg_version p = 4 \<and> sg_destination p div 2 ^ 24 = 127)
     \<and> (\<forall>v s p. has_version v s \<longrightarrow> (m (acme_match (acme_payload (family_of v) ''daddr'') (PStr s) ''=='') p \<longleftrightarrow>
          parse_address s = Inr (sg_version p, sg_destination p)))
     \<and> (\<forall>v s p. has_version v s \<longrightarrow> (m (acme_match (acme_payload (family_of v) ''saddr'') (PStr s) ''!='') p \<longleftrightarrow>
          sg_version p = v \<and> parse_address s \<noteq> Inr (v, sg_source p)))
     \<and> (\<forall>v ss p. list_all (has_version v) ss \<and> ss \<noteq> [] \<longrightarrow>
          (m (acme_match (acme_payload (family_of v) ''saddr'') (set_of (map PStr ss)) ''!='') p \<longleftrightarrow>
          sg_version p = v \<and> (\<forall>s \<in> set ss. parse_address s \<noteq> Inr (v, sg_source p))))"

definition addressed :: "row \<Rightarrow> flow \<Rightarrow> bool" where
  "addressed row p \<longleftrightarrow> parse_address (ls_address (row_socket row)) = Inr (sg_version p, sg_destination p)
     \<and> sg_port p = ls_port (row_socket row)"

definition peer_sends :: "row \<Rightarrow> flow \<Rightarrow> bool" where
  "peer_sends row p \<longleftrightarrow> (\<exists>s \<in> set (row_peers row) \<union> {''127.0.0.1'', ''::1''}.
     parse_address s = Inr (sg_version p, sg_source p))"

lemma probes: "canonical_address ''127.0.0.1''" "canonical_address ''::1''"
  "has_version 4 ''127.0.0.1''" "has_version 6 ''::1''"
proof -
  have "parse_address ''127.0.0.1'' = Inr (4, 2130706433)" "parse_address ''::1'' = Inr (6, 1)"
    "address_str 4 2130706433 = ''127.0.0.1''" "address_str 6 1 = ''::1''" by code_simp+
  then show "canonical_address ''127.0.0.1''" "canonical_address ''::1''"
    "has_version 4 ''127.0.0.1''" "has_version 6 ''::1''"
    unfolding canonical_address_def has_version_def by blast+
qed

text \<open>Who is allowed, as the code computes it and as the trusted peers say.\<close>

lemma allowed_sources_trusted:
  assumes row: "valid_row row" "is_proxy row"
    and addr: "parse_address (ls_address (row_socket row)) = Inr (v, a)"
    and ps: "allowed_sources row = Inr ps"
  shows "row_family row = family_of v" and "list_all (has_version v) ps" and "ps \<noteq> []"
    and "sg_version p = v \<Longrightarrow> peer_sends row p \<longleftrightarrow> (\<exists>s \<in> set ps. parse_address s = Inr (v, sg_source p))"
proof -
  have fam: "is_ip6_text s \<longleftrightarrow> w = 6" if "canonical_address s" "parse_address s = Inr (w, b)" for s w b
    using that family_text by (auto simp: canonical_address_def)
  have six: "is_ip6_text (ls_address (row_socket row)) \<longleftrightarrow> v = 6"
    using fam [OF valid_row_addresses(1) [OF row(1)] addr] .
  then show "row_family row = family_of v" by (simp add: row_family_def family_of_def)
  have v: "v = 4 \<or> v = 6" by (rule parse_version [OF addr])
  let ?probe = "if v = 6 then ''::1'' else ''127.0.0.1''"
  have set: "set ps = {s \<in> set (row_peers row). is_ip6_text s \<longleftrightarrow> v = 6} \<union> {?probe}"
    using sorted_addresses_set ps unfolding allowed_sources_def Let_def six by fastforce
  then show "ps \<noteq> []" by auto
  have canon: "canonical_address s" if "s \<in> set (row_peers row) \<union> {''127.0.0.1'', ''::1''}" for s
    using that valid_row_addresses(2) [OF row] probes(1,2) by (auto simp: list_all_iff)
  have ver: "has_version v s \<longleftrightarrow> (is_ip6_text s \<longleftrightarrow> v = 6)" if c: "canonical_address s" for s
  proof -
    obtain w b where w: "parse_address s = Inr (w, b)" using c by (auto simp: canonical_address_def)
    show ?thesis using fam [OF c w] parse_version [OF w] w v by (auto simp: has_version_def)
  qed
  have probe: "has_version v ?probe" using v probes(3,4) by auto
  then show "list_all (has_version v) ps" using set ver canon by (auto simp: list_all_iff)
  show "peer_sends row p \<longleftrightarrow> (\<exists>s \<in> set ps. parse_address s = Inr (v, sg_source p))" if "sg_version p = v"
  proof
    assume "peer_sends row p"
    then obtain s where s: "s \<in> set (row_peers row) \<union> {''127.0.0.1'', ''::1''}"
      "parse_address s = Inr (sg_version p, sg_source p)"
      unfolding peer_sends_def by blast
    note s = s(1) s(2) [unfolded that]
    have "has_version v s" using s(2) by (auto simp: has_version_def)
    then have six: "is_ip6_text s \<longleftrightarrow> v = 6" using ver [OF canon [OF s(1)]] by simp
    moreover have "is_ip6_text ''::1''" "\<not> is_ip6_text ''127.0.0.1''" by (simp_all add: is_ip6_text_def)
    ultimately have "s \<in> set ps" using s(1) set v by auto
    then show "\<exists>s \<in> set ps. parse_address s = Inr (v, sg_source p)" using s(2) by blast
  next
    assume "\<exists>s \<in> set ps. parse_address s = Inr (v, sg_source p)"
    then show "peer_sends row p" using set that unfolding peer_sends_def by (auto split: if_splits)
  qed
qed

text \<open>The rules of one listener.\<close>

lemma decoder_kinds:
  "\<not> is_reject (acme_match a b c)" "is_reject (reject_with k)" "is_reject (row_reject row)"
  "\<not> is_reject from_outside" "\<not> is_reject to_decoders" "\<not> is_reject (not_owner u)"
  by (simp_all add: is_reject_def acme_match_def reject_with_def row_reject_def from_outside_def
      to_decoders_def not_owner_def)

lemma decoder_rule_in: "rule_in c (decoder_rule c' es) = (if c' = c then es else [])"
  by (simp add: decoder_rule_def DECODER_TABLE_def rule_in_rule)

lemma meaning:
  assumes "decoder_meaning m"
  shows "m from_outside p \<longleftrightarrow> sg_interface p \<noteq> ''lo''"
    and "m to_decoders p \<longleftrightarrow> sg_port p \<in> snd ` set DECODER_PORTS"
    and "m (not_owner u) p \<longleftrightarrow> sg_owner p \<notin> {0, u}"
    and "m (acme_match (acme_payload ''tcp'' ''dport'') (PInt k) ''=='') p \<longleftrightarrow> sg_port p = k"
    and "m (acme_match (acme_payload ''ip'' ''daddr'') loopback4 ''=='') p \<longleftrightarrow>
      sg_version p = 4 \<and> sg_destination p div 2 ^ 24 = 127"
    and "has_version v s \<Longrightarrow> m (acme_match (acme_payload (family_of v) ''daddr'') (PStr s) ''=='') p \<longleftrightarrow>
      parse_address s = Inr (sg_version p, sg_destination p)"
    and "list_all (has_version v) ss \<Longrightarrow> ss \<noteq> [] \<Longrightarrow> m (acme_match (acme_payload (family_of v) ''saddr'')
        (if length ss = 1 then PStr (hd ss) else set_of (map PStr ss)) ''!='') p \<longleftrightarrow>
      sg_version p = v \<and> (\<forall>s \<in> set ss. parse_address s \<noteq> Inr (v, sg_source p))"
proof -
  note m = assms [unfolded decoder_meaning_def]
  show "m from_outside p \<longleftrightarrow> sg_interface p \<noteq> ''lo''" unfolding from_outside_def using m by blast
  have ports: "map (\<lambda>(_, port). PInt port) DECODER_PORTS = map PInt (map snd DECODER_PORTS)"
    by (simp add: DECODER_PORTS_def)
  have "m (acme_match (acme_payload ''tcp'' ''dport'') (set_of (map PInt (map snd DECODER_PORTS))) ''=='') p
      \<longleftrightarrow> sg_port p \<in> set (map snd DECODER_PORTS)" using m by blast
  then show "m to_decoders p \<longleftrightarrow> sg_port p \<in> snd ` set DECODER_PORTS" unfolding to_decoders_def ports by simp
  have "m (acme_match (acme_meta ''skuid'') (set_of (map PInt [0, u])) ''!='') p \<longleftrightarrow> sg_owner p \<notin> set [0, u]"
    using m by blast
  then show "m (not_owner u) p \<longleftrightarrow> sg_owner p \<notin> {0, u}" by (simp add: not_owner_def)
  show "m (acme_match (acme_payload ''tcp'' ''dport'') (PInt k) ''=='') p \<longleftrightarrow> sg_port p = k" using m by blast
  show "m (acme_match (acme_payload ''ip'' ''daddr'') loopback4 ''=='') p \<longleftrightarrow>
      sg_version p = 4 \<and> sg_destination p div 2 ^ 24 = 127" using m by blast
  show "m (acme_match (acme_payload (family_of v) ''daddr'') (PStr s) ''=='') p \<longleftrightarrow>
      parse_address s = Inr (sg_version p, sg_destination p)" if "has_version v s" using m that by blast
  show "m (acme_match (acme_payload (family_of v) ''saddr'')
        (if length ss = 1 then PStr (hd ss) else set_of (map PStr ss)) ''!='') p \<longleftrightarrow>
      sg_version p = v \<and> (\<forall>s \<in> set ss. parse_address s \<noteq> Inr (v, sg_source p))"
    if ss: "list_all (has_version v) ss" "ss \<noteq> []"
  proof (cases "length ss = 1")
    case True
    then obtain s where "ss = [s]" by (cases ss) auto
    then show ?thesis using ss m by simp
  next
    case False
    have "m (acme_match (acme_payload (family_of v) ''saddr'') (set_of (map PStr ss)) ''!='') p \<longleftrightarrow>
      sg_version p = v \<and> (\<forall>s \<in> set ss. parse_address s \<noteq> Inr (v, sg_source p))"
      using m ss by blast
    with False show ?thesis by simp
  qed
qed

lemma to_row_rejects:
  assumes m: "decoder_meaning m" and row: "valid_row row" "is_proxy row" and a: "row_address row = Inr address"
  shows "rejects m p (to_row row address @ es) \<longleftrightarrow> addressed row p \<and> rejects m p es"
proof -
  obtain v n where p: "parse_address (ls_address (row_socket row)) = Inr (v, n)"
    "address_str v n = ls_address (row_socket row)"
    using valid_row_addresses(1) [OF row(1)] by (auto simp: canonical_address_def)
  have same: "address = ls_address (row_socket row)" using a p by (simp add: row_address_def)
  have "row_family row = family_of v"
    using family_text [OF p] by (simp add: row_family_def family_of_def)
  moreover have "has_version v (ls_address (row_socket row))" using p by (auto simp: has_version_def)
  ultimately show ?thesis
    by (auto simp: to_row_def same decoder_kinds meaning [OF m] addressed_def)
qed

lemma ingress_rule_rejects:
  assumes m: "decoder_meaning m" and row: "valid_row row" "is_proxy row" and r: "ingress_rule row = Inr ob"
  shows "rejects m p (rule_in ''decoder_input'' ob) \<longleftrightarrow>
    sg_interface p \<noteq> ''lo'' \<and> addressed row p \<and> \<not> peer_sends row p"
    and "rule_in ''decoder_output'' ob = []"
proof -
  obtain ps address where ps: "allowed_sources row = Inr ps" and a: "row_address row = Inr address"
    and ob: "ob = decoder_rule ''decoder_input'' ([from_outside] @ to_row row address @
       [acme_match (acme_payload (row_family row) ''saddr'')
          (if length ps = 1 then PStr (hd ps) else set_of (map PStr ps)) ''!='', row_reject row])"
    using r by (auto simp: ingress_rule_def bind_res_Inr_iff)
  obtain v n where p: "parse_address (ls_address (row_socket row)) = Inr (v, n)"
    using valid_row_addresses(1) [OF row(1)] by (auto simp: canonical_address_def)
  note al = allowed_sources_trusted [OF row p ps]
  have src: "rejects m p [acme_match (acme_payload (row_family row) ''saddr'')
          (if length ps = 1 then PStr (hd ps) else set_of (map PStr ps)) ''!='', row_reject row]
      \<longleftrightarrow> sg_version p = v \<and> (\<forall>s \<in> set ps. parse_address s \<noteq> Inr (v, sg_source p))"
    unfolding al(1) using meaning(7) [OF m al(2,3)] by (simp add: decoder_kinds)
  have ver: "sg_version p = v" if "addressed row p" using that p by (simp add: addressed_def)
  have "rejects m p (rule_in ''decoder_input'' ob) \<longleftrightarrow> m from_outside p \<and> addressed row p \<and>
      sg_version p = v \<and> (\<forall>s \<in> set ps. parse_address s \<noteq> Inr (v, sg_source p))"
    unfolding ob decoder_rule_in using to_row_rejects [OF m row a] src by (simp add: decoder_kinds)
  then show "rejects m p (rule_in ''decoder_input'' ob) \<longleftrightarrow>
    sg_interface p \<noteq> ''lo'' \<and> addressed row p \<and> \<not> peer_sends row p"
    using ver al(4) meaning(1) [OF m] by auto
  show "rule_in ''decoder_output'' ob = []" by (simp add: ob decoder_rule_in)
qed

lemma local_rule_rejects:
  assumes m: "decoder_meaning m" and row: "valid_row row" "is_proxy row" and r: "local_rule u row = Inr ob"
  shows "rejects m p (rule_in ''decoder_output'' ob) \<longleftrightarrow> addressed row p \<and> sg_owner p \<notin> {0, u}"
    and "rule_in ''decoder_input'' ob = []"
proof -
  obtain address where a: "row_address row = Inr address"
    and ob: "ob = decoder_rule ''decoder_output'' (to_row row address @ [not_owner u, row_reject row])"
    using r by (auto simp: local_rule_def bind_res_Inr_iff)
  show "rejects m p (rule_in ''decoder_output'' ob) \<longleftrightarrow> addressed row p \<and> sg_owner p \<notin> {0, u}"
    unfolding ob decoder_rule_in using to_row_rejects [OF m row a] by (simp add: decoder_kinds meaning(3) [OF m])
  show "rule_in ''decoder_input'' ob = []" by (simp add: ob decoder_rule_in)
qed

lemma list_ex_map_res:
  assumes "map_res f xs = Inr ys" and "\<And>x y. x \<in> set xs \<Longrightarrow> f x = Inr y \<Longrightarrow> Q y \<longleftrightarrow> P x"
  shows "list_ex Q ys \<longleftrightarrow> (\<exists>x \<in> set xs. P x)"
  using assms unfolding map_res_Inr_iff by (induction rule: list_all2_induct) auto

lemma rule_objects:
  assumes "map_res f xs = Inr ys" and "\<And>x y. x \<in> set xs \<Longrightarrow> f x = Inr y \<Longrightarrow> g y = []" and "y \<in> set ys"
  shows "g y = []"
  using list_all2_witness [OF assms(1) [unfolded map_res_Inr_iff] assms(3)] assms(2) by blast

lemma passes_other:
  "passes m (PDict [(''table'', x)] # objects) c p \<longleftrightarrow> passes m objects c p"
  "passes m (decoder_chain nh # objects) c p \<longleftrightarrow> passes m objects c p"
  "passes m [] c p"
  by (simp_all add: passes_def rule_in_other decoder_chain_def split: prod.splits)

lemma passes_rule: "passes m (decoder_rule c' es # objects) c p \<longleftrightarrow>
    (c' = c \<longrightarrow> \<not> rejects m p es) \<and> passes m objects c p"
  by (auto simp: passes_def decoder_rule_in)

text \<open>Property C21: under the projected policy of an HA composition the decoders are not reached
  from outside, and from inside over loopback by the administrator and the proxy account only; a
  listener is reached from outside exactly by its trusted peers (and by a source that claims the
  loopback probe address), from inside by the administrator and the proxy only; everything else
  is left alone.\<close>

theorem decoders_are_isolated:
  assumes "decoder_meaning m" and "valid_direct spec" and "decoder_projection spec (PInt u) = Inr objects"
  shows "(passes m objects ''decoder_input'' p \<longleftrightarrow> sg_interface p = ''lo'' \<or>
      sg_port p \<notin> snd ` set DECODER_PORTS
      \<and> (\<forall>row \<in> set (dr_rows spec). addressed row p \<longrightarrow> peer_sends row p))
    \<and> (passes m objects ''decoder_output'' p \<longleftrightarrow>
      (sg_port p \<in> snd ` set DECODER_PORTS \<longrightarrow>
        (sg_version p = 4 \<and> sg_destination p div 2 ^ 24 = 127 \<longrightarrow> sg_owner p \<in> {0, u})
        \<and> \<not> (sg_version p = 6 \<and> sg_destination p = 1))
      \<and> (\<forall>row \<in> set (dr_rows spec). addressed row p \<longrightarrow> sg_owner p \<in> {0, u}))
    \<and> 0 < u \<and> u < 1000"
proof -
  let ?rows = "dr_rows spec"
  obtain ingress local where parts: "decoder_uid spec (PInt u) = Inr u"
    "map_res ingress_rule ?rows = Inr ingress" "map_res (local_rule u) ?rows = Inr local"
    "objects = [PDict [(''table'', PDict [(''family'', PStr ''inet''), (''name'', PStr ''secpal_direct'')])]]
       @ map decoder_chain [(''decoder_input'', ''input''), (''decoder_output'', ''output'')]
       @ [decoder_rule ''decoder_input'' [from_outside, to_decoders, reject_with ''icmpx'']]
       @ ingress
       @ [decoder_rule ''decoder_output'' [acme_match (acme_payload ''ip'' ''daddr'') loopback4 ''=='',
            to_decoders, not_owner u, reject_with ''icmp''],
          decoder_rule ''decoder_output'' [acme_match (acme_payload ''ip6'' ''daddr'') (PStr ''::1'') ''=='',
            to_decoders, reject_with ''icmpv6'']]
       @ local"
    using assms(3) by (auto simp: decoder_projection_def decoder_uid_def bind_res_Inr_iff split: if_splits)
  have ha: "topology ?rows = ''ha''" and u: "0 < u" "u < 1000"
    using parts(1) by (auto simp: decoder_uid_def split: if_splits)
  have rows: "valid_row row" "is_proxy row" if "row \<in> set ?rows" for row
    using valid_direct_proxies [OF assms(2) ha] assms(2) that by (auto simp: valid_direct_def list_all_iff)
  note m = assms(1)
  have incoming: "passes m ingress ''decoder_input'' p \<longleftrightarrow>
      \<not> (\<exists>row \<in> set ?rows. sg_interface p \<noteq> ''lo'' \<and> addressed row p \<and> \<not> peer_sends row p)"
    unfolding passes_def
    by (rule arg_cong [where f = Not], rule list_ex_map_res [OF parts(2)]) (rule ingress_rule_rejects(1) [OF m rows])
  have incoming_out: "passes m ingress ''decoder_output'' p"
  proof -
    have "rule_in ''decoder_output'' ob = []" if "ob \<in> set ingress" for ob
      using rule_objects [OF parts(2) _ that] ingress_rule_rejects(2) [OF m rows] by blast
    then show ?thesis by (auto simp: passes_def list_ex_iff)
  qed
  have outgoing: "passes m local ''decoder_output'' p \<longleftrightarrow>
      \<not> (\<exists>row \<in> set ?rows. addressed row p \<and> sg_owner p \<notin> {0, u})"
    unfolding passes_def
    by (rule arg_cong [where f = Not], rule list_ex_map_res [OF parts(3)]) (rule local_rule_rejects(1) [OF m rows])
  have outgoing_in: "passes m local ''decoder_input'' p"
  proof -
    have "rule_in ''decoder_input'' ob = []" if "ob \<in> set local" for ob
      using rule_objects [OF parts(3) _ that] local_rule_rejects(2) [OF m rows] by blast
    then show ?thesis by (auto simp: passes_def list_ex_iff)
  qed
  have six: "m (acme_match (acme_payload ''ip6'' ''daddr'') (PStr ''::1'') ''=='') p \<longleftrightarrow>
      sg_version p = 6 \<and> sg_destination p = 1"
  proof -
    have "parse_address ''::1'' = Inr (6, 1)" by code_simp
    then show ?thesis using meaning(6) [OF m probes(4), of p] by (auto simp: family_of_def)
  qed
  show ?thesis
    using u unfolding parts(4)
    by (simp add: passes_other passes_rule passes_append incoming incoming_out outgoing outgoing_in decoder_kinds six
        meaning [OF m] del: power.simps) blast
qed

section \<open>Witness\<close>

definition sample_flow_meaning :: "pyval \<Rightarrow> flow \<Rightarrow> bool" where
  "sample_flow_meaning e p \<longleftrightarrow>
     (\<exists>i. e = acme_match (acme_meta ''iifname'') (PStr i) ''!='' \<and> sg_interface p \<noteq> i)
     \<or> (\<exists>k. e = acme_match (acme_payload ''tcp'' ''dport'') (PInt k) ''=='' \<and> sg_port p = k)
     \<or> (\<exists>ks. e = acme_match (acme_payload ''tcp'' ''dport'') (set_of (map PInt ks)) ''=='' \<and> sg_port p \<in> set ks)
     \<or> (\<exists>us. e = acme_match (acme_meta ''skuid'') (set_of (map PInt us)) ''!='' \<and> sg_owner p \<notin> set us)
     \<or> (e = acme_match (acme_payload ''ip'' ''daddr'') loopback4 ''==''
         \<and> sg_version p = 4 \<and> sg_destination p div 2 ^ 24 = 127)
     \<or> (\<exists>v s. has_version v s \<and> e = acme_match (acme_payload (family_of v) ''daddr'') (PStr s) ''==''
         \<and> parse_address s = Inr (sg_version p, sg_destination p))
     \<or> (\<exists>v s. has_version v s \<and> e = acme_match (acme_payload (family_of v) ''saddr'') (PStr s) ''!=''
         \<and> sg_version p = v \<and> parse_address s \<noteq> Inr (v, sg_source p))
     \<or> (\<exists>v ss. list_all (has_version v) ss \<and> ss \<noteq> []
         \<and> e = acme_match (acme_payload (family_of v) ''saddr'') (set_of (map PStr ss)) ''!=''
         \<and> sg_version p = v \<and> (\<forall>s \<in> set ss. parse_address s \<noteq> Inr (v, sg_source p)))"

lemma version_unique: "has_version v s \<Longrightarrow> has_version w s \<Longrightarrow> v = w"
  by (auto simp: has_version_def)

lemma nonempty_version: "list_all (has_version v) ss \<Longrightarrow> list_all (has_version w) ss \<Longrightarrow> ss \<noteq> [] \<Longrightarrow> v = w"
  by (cases ss) (auto dest: version_unique)

lemma matches_eq [simp]:
  "acme_match a b c = acme_match a' b' c' \<longleftrightarrow> a = a' \<and> b = b' \<and> c = c'"
  "acme_payload x y = acme_payload x' y' \<longleftrightarrow> x = x' \<and> y = y'" "acme_meta x = acme_meta x' \<longleftrightarrow> x = x'"
  "acme_meta x \<noteq> acme_payload y z" "acme_payload y z \<noteq> acme_meta x"
  "set_of a1 = set_of b1 \<longleftrightarrow> a1 = b1" "set_of a1 \<noteq> PStr s" "set_of a1 \<noteq> PInt k" "PStr s \<noteq> set_of a1" "PInt k \<noteq> set_of a1"
  "set_of a1 \<noteq> loopback4" "loopback4 \<noteq> set_of a1" "loopback4 \<noteq> PStr s" "PStr s \<noteq> loopback4"
  "loopback4 \<noteq> PInt k" "PInt k \<noteq> loopback4"
  by (auto simp: acme_match_def acme_payload_def acme_meta_def set_of_def loopback4_def)

lemma map_eqs [simp]: "map PInt xs = map PInt ys \<longleftrightarrow> xs = ys" "map PStr us = map PStr vs \<longleftrightarrow> us = vs"
  by (simp_all add: inj_map_eq_map inj_def)

lemma sample_flow_law: "decoder_meaning sample_flow_meaning"
proof -
  have f: "family_of v \<noteq> ''tcp''" "''tcp'' \<noteq> family_of v" for v by (simp_all add: family_of_def)
  show ?thesis
    unfolding decoder_meaning_def
  proof (intro conjI allI impI)
    fix v s p
    assume "has_version v s"
    then show "sample_flow_meaning (acme_match (acme_payload (family_of v) ''daddr'') (PStr s) ''=='') p \<longleftrightarrow>
        parse_address s = Inr (sg_version p, sg_destination p)"
      by (auto simp: sample_flow_meaning_def f)
  next
    fix v s p
    assume "has_version v s"
    then show "sample_flow_meaning (acme_match (acme_payload (family_of v) ''saddr'') (PStr s) ''!='') p \<longleftrightarrow>
        sg_version p = v \<and> parse_address s \<noteq> Inr (v, sg_source p)"
      by (auto simp: sample_flow_meaning_def f dest: version_unique)
  next
    fix v ss p
    assume "list_all (has_version v) ss \<and> ss \<noteq> []"
    then show "sample_flow_meaning (acme_match (acme_payload (family_of v) ''saddr'') (set_of (map PStr ss)) ''!='') p \<longleftrightarrow>
        sg_version p = v \<and> (\<forall>s \<in> set ss. parse_address s \<noteq> Inr (v, sg_source p))"
      by (auto simp: sample_flow_meaning_def f dest: nonempty_version)
  qed (auto simp: sample_flow_meaning_def f)
qed

definition sample_peer :: flow where
  "sample_peer = \<lparr>sg_version = 4, sg_destination = 10 * 2 ^ 24 + 5, sg_interface = ''eth0'', sg_owner = 0, sg_port = 443,
     sg_source = 10 * 2 ^ 24 + 9\<rparr>"

lemma sample_direct_valid: "valid_direct sample_direct"
  by (rule direct_admit_valid [OF sample_direct_admitted])

lemma projection_exists:
  assumes "decoder_uid spec (PInt u) = Inr u" and "list_all (\<lambda>row. \<not> isl (allowed_sources row)) (dr_rows spec)"
    and "list_all (\<lambda>row. \<not> isl (row_address row)) (dr_rows spec)"
  shows "\<exists>objects. decoder_projection spec (PInt u) = Inr objects"
proof -
  have right: "(\<exists>y. x = Inr y) \<longleftrightarrow> \<not> isl x" for x :: "exc + 'a" by (cases x) auto
  have all: "\<exists>ys. map_res f xs = Inr ys" if "list_all (\<lambda>x. \<exists>y. f x = Inr y) xs" for f :: "row \<Rightarrow> 'a res" and xs
    using that by (induction xs) auto
  have "\<exists>ys. map_res ingress_line (dr_rows spec) = Inr ys"
    using assms(2) by (intro all) (auto simp: list_all_iff ingress_line_def right [symmetric])
  moreover have "\<exists>ys. map_res ingress_rule (dr_rows spec) = Inr ys"
    using assms(2,3) by (intro all) (fastforce simp: list_all_iff ingress_rule_def right [symmetric])
  moreover have "\<exists>ys. map_res (local_rule u) (dr_rows spec) = Inr ys"
    using assms(3) by (intro all) (auto simp: list_all_iff local_rule_def right [symmetric] bind_res_Inr_iff)
  ultimately show ?thesis
    using assms(1) by (auto simp: decoder_projection_def decoder_policy_def Let_def)
qed

text \<open>A neighbour that is not a trusted peer does not reach the HTTPS listener.\<close>

theorem decoders_are_isolated_witness:
  "\<exists>objects. decoder_projection sample_direct (PInt 990) = Inr objects
    \<and> \<not> passes sample_flow_meaning objects ''decoder_input'' sample_peer"
proof -
  have "decoder_uid sample_direct (PInt 990) = Inr 990"
    "list_all (\<lambda>row. \<not> isl (allowed_sources row)) (dr_rows sample_direct)"
    "list_all (\<lambda>row. \<not> isl (row_address row)) (dr_rows sample_direct)"
    by code_simp+
  from projection_exists [OF this] obtain objects where p: "decoder_projection sample_direct (PInt 990) = Inr objects"
    by blast
  have "\<exists>row \<in> set (dr_rows sample_direct). addressed row sample_peer \<and> \<not> peer_sends row sample_peer"
    by code_simp
  then show ?thesis
    using p decoders_are_isolated [OF sample_flow_law sample_direct_valid p, of sample_peer]
    by (auto simp: sample_peer_def)
qed

end
