(* ===== verification/Transport.thy ===== *)
theory Transport
  imports Host_Firewall Json_Default Py_Text
begin

text \<open>
  \<open>scripts/ci-cloud/instance_transport_contract.py\<close>: the diagnostic representation of a TCP
  socket, the fold of its samples, the assembly of the evidence document and its admission.

  A byte string is a list of characters. \<open>struct\<close> with \<open>=\<close> reads in the order of the platform,
  little endian on both architectures the provider profiles name. The JSON Schema validator is
  the parameter \<open>V\<close>, given the schema and the document; a document it accepts whose shape the
  schema excludes is \<open>Unmodelled\<close>, as is an integer written as a float.
\<close>

section \<open>Constants\<close>

definition GOOGLE_PROVIDER_VERSION :: string where "GOOGLE_PROVIDER_VERSION = ''8.8.1''"
definition MAX_DOCUMENT_BYTES :: nat where "MAX_DOCUMENT_BYTES = 131072"
definition MAX_CONNECTIONS :: int where "MAX_CONNECTIONS = 64"
definition MAX_WINDOW_NS :: int where "MAX_WINDOW_NS = 3600000000000"
definition MAX_COUNTER :: int where "MAX_COUNTER = 2 ^ 63 - 1"

definition OPERATIONS :: "string list" where
  "OPERATIONS = [''NONE'', ''UNKNOWN'', ''OPEN_DIAGNOSTIC_SOCKET'', ''BOUND_DIAGNOSTIC_BUFFER'',
     ''ADMIT_NOTIFICATION_SCOPE'', ''SUBSCRIBE_SOCKET_DESTRUCTION'', ''VERIFY_PROCESS_IDENTITY'',
     ''CORRELATE_PROVIDER_PROCESS'', ''VERIFY_NETWORK_NAMESPACE'', ''CORRELATE_PROVIDER_SOCKET'',
     ''QUERY_TCP_COUNTERS'', ''NORMALIZE_SOCKET_METADATA'', ''FOLD_COUNTER_OBSERVATIONS'',
     ''RECEIVE_FINAL_COUNTERS'', ''FINALIZE_OBSERVATION'']"

definition IDENTITY_FIELDS :: "string list" where
  "IDENTITY_FIELDS = [''repository'', ''trusted_control_sha'', ''target_sha'', ''workflow_run_id'',
     ''workflow_run_attempt'', ''provider_profile'', ''project'', ''zone'', ''expected_instance_name'']"

definition STATES :: "(nat \<times> string) list" where
  "STATES = [(1, ''ESTABLISHED''), (2, ''SYN_SENT''), (3, ''SYN_RECV''), (4, ''FIN_WAIT1''), (5, ''FIN_WAIT2''),
     (6, ''TIME_WAIT''), (7, ''CLOSE''), (8, ''CLOSE_WAIT''), (9, ''LAST_ACK''), (10, ''LISTEN''), (11, ''CLOSING''),
     (12, ''NEW_SYN_RECV''), (13, ''BOUND_INACTIVE'')]"

definition ESTABLISHED_STATES :: "string list" where
  "ESTABLISHED_STATES = [''ESTABLISHED'', ''FIN_WAIT1'', ''FIN_WAIT2'', ''TIME_WAIT'', ''CLOSE_WAIT'', ''LAST_ACK'', ''CLOSING'']"

definition transport_error :: "string \<Rightarrow> 'a res" where
  "transport_error what = Inl (ValueError what)"

section \<open>The schema\<close>

definition schema_of :: "string \<Rightarrow> pydict \<Rightarrow> pyval" where
  "schema_of kind rest = PDict ((''type'', PStr kind) # rest)"

definition integer_from :: "int \<Rightarrow> int \<Rightarrow> pyval" where
  "integer_from low high = schema_of ''integer'' [(''minimum'', PInt low), (''maximum'', PInt high)]"

definition const_of :: "pyval \<Rightarrow> pyval" where "const_of v = PDict [(''const'', v)]"
definition const_text :: "string \<Rightarrow> pyval" where "const_text s = const_of (PStr s)"
definition enum_of :: "string list \<Rightarrow> pyval" where "enum_of ss = PDict [(''enum'', PList (map PStr ss))]"
definition pattern_of :: "string \<Rightarrow> pyval" where "pattern_of p = schema_of ''string'' [(''pattern'', PStr p)]"
definition reference_to :: "string \<Rightarrow> pyval" where "reference_to name = PDict [(''$ref'', PStr (''#/$defs/'' @ name))]"
definition or_null :: "pyval \<Rightarrow> pyval" where
  "or_null v = PDict [(''anyOf'', PList [v, schema_of ''null'' []])]"

definition closed_shape :: "pydict \<Rightarrow> pydict" where
  "closed_shape members = [(''type'', PStr ''object''), (''additionalProperties'', PBool False),
     (''required'', PList (map (PStr \<circ> fst) members)), (''properties'', PDict members)]"

definition counter_shape :: pyval where "counter_shape = integer_from 0 MAX_COUNTER"
definition positive_shape :: pyval where "positive_shape = integer_from 1 MAX_COUNTER"
definition state_shape :: pyval where "state_shape = enum_of (map snd STATES)"

definition snapshot_fields :: pydict where
  "snapshot_fields = [(''at'', counter_shape), (''state'', state_shape), (''bytes_sent'', counter_shape),
     (''bytes_received'', counter_shape), (''retransmissions'', counter_shape)]"

definition address_shape :: pyval where
  "address_shape = schema_of ''string'' [(''minLength'', PInt 2), (''maxLength'', PInt 45)]"

definition connection_fields :: pydict where
  "connection_fields = [
     (''ordinal'', integer_from 1 MAX_CONNECTIONS),
     (''process_id'', positive_shape), (''process_start_ticks'', counter_shape),
     (''socket_cookie'', pattern_of ''^[0-9a-f]{16}$''),
     (''local_address'', address_shape), (''remote_address'', address_shape),
     (''local_port'', integer_from 1 65535), (''remote_port'', const_of (PInt 443)),
     (''first'', reference_to ''snapshot''), (''last'', reference_to ''snapshot''),
     (''sample_count'', integer_from 1 100000), (''max_sample_gap_ns'', integer_from 0 MAX_WINDOW_NS),
     (''states_seen'', schema_of ''array'' [(''minItems'', PInt 1), (''maxItems'', PInt (int (length STATES))),
        (''uniqueItems'', PBool True), (''items'', state_shape)]),
     (''last_send_increase_sample'', or_null counter_shape),
     (''last_receive_increase_sample'', or_null counter_shape),
     (''final_snapshot_kind'', enum_of [''LIVE_SOCKET'', ''DESTROY_NOTIFICATION'', ''NO_DESTROY_NOTIFICATION_OBSERVED'']),
     (''secure_transport_progress'', const_text ''UNKNOWN''), (''http_request_attribution'', const_text ''UNKNOWN''),
     (''reset_origin'', const_text ''UNKNOWN''),
     (''fin_observation'', enum_of [''PEER_FIN_OBSERVED'', ''LOCAL_FIN_OBSERVED'', ''BOTH_FIN_OBSERVED'', ''UNKNOWN''])]"

definition document_fields :: pydict where
  "document_fields = [
     (''schema_version'', const_of (PInt 1)),
     (''kind'', const_text ''INSTANCE_INSERT_TRANSPORT_EVIDENCE''),
     (''collector'', const_text ''LINUX_EXACT_INET_DIAG_TCP_INFO_V1''),
     (''repository'', const_text ''SecPal/deployment''),
     (''trusted_control_sha'', pattern_of ''^[0-9a-f]{40}$''), (''target_sha'', pattern_of ''^[0-9a-f]{40}$''),
     (''workflow_run_id'', pattern_of ''^[1-9][0-9]{0,19}$''), (''workflow_run_attempt'', pattern_of ''^[1-9][0-9]{0,2}$''),
     (''provider_profile'', enum_of [''gcp-rocky-10-2-arm64'', ''gcp-rocky-10-2-x86-64'']),
     (''project'', const_text ''secpal-dev''), (''zone'', const_text ''europe-west3-a''),
     (''expected_instance_name'', pattern_of ''^sprk-[1-9][0-9]{0,19}-[1-9][0-9]{0,2}-instance$''),
     (''opentofu_version'', const_text ''1.12.5''), (''google_provider_version'', const_text GOOGLE_PROVIDER_VERSION),
     (''observation_start'', counter_shape), (''observation_end'', counter_shape),
     (''collection_status'', enum_of [''COMPLETE'', ''UNAVAILABLE'', ''FAILED_STARTUP'', ''FAILED_RUNTIME'',
        ''FAILED_SHUTDOWN'', ''LIMIT_EXCEEDED'']),
     (''failure_operation'', enum_of OPERATIONS),
     (''visibility'', const_text ''SAMPLED_SOCKETS_WITH_FILTERED_DESTRUCTION''),
     (''dns_completion'', const_text ''UNKNOWN''),
     (''endpoint_observation'', enum_of [''NUMERIC_TCP_ENDPOINT_OBSERVED'', ''UNKNOWN'']),
     (''connection_progress'', enum_of [''TCP_ESTABLISHMENT_OBSERVED'', ''SYN_SENT_OBSERVED'', ''UNKNOWN'']),
     (''terminal_provider_result'', enum_of [''SUCCESS'', ''OTHER'', ''NOT_RUN'']),
     (''provider_exit_code'', or_null (integer_from (-255) 255)),
     (''connections'', schema_of ''array'' [(''maxItems'', PInt MAX_CONNECTIONS), (''items'', reference_to ''connection'')])]"

definition transport_schema :: pyval where
  "transport_schema = PDict (
     [(''$schema'', PStr ''https://json-schema.org/draft/2020-12/schema''),
      (''$comment'', PStr ''SPDX-FileCopyrightText: 2026 SecPal Contributors; SPDX-License-Identifier: MIT''),
      (''title'', PStr ''Diagnostic Rocky instance insertion TCP observations'')]
     @ closed_shape document_fields
     @ [(''$defs'', PDict [(''snapshot'', PDict (closed_shape snapshot_fields)),
                           (''connection'', PDict (closed_shape connection_fields))])])"

section \<open>Decoding a document\<close>

fun unique_object :: "pydict \<Rightarrow> pydict \<Rightarrow> pyval res" where
  "unique_object result [] = Inr (PDict result)"
| "unique_object result ((key, v) # pairs) =
     (if key \<in> dkeys result then transport_error ''duplicate document member''
      else unique_object (result @ [(key, v)]) pairs)"

definition transport_hooks :: json_hooks where
  "transport_hooks = \<lparr>pairs_hook = unique_object [], constants_ok = True\<rparr>"

text \<open>Every error of \<open>json.loads\<close>, the hook's own included, is a \<open>ValueError\<close>; nesting beyond the
  recursion limit is not modelled apart from the others.\<close>

definition transport_decode :: "pyval \<Rightarrow> pyval res" where
  "transport_decode raw = (case raw of
     PBytes s \<Rightarrow>
       if MAX_DOCUMENT_BYTES < length s then transport_error ''document size bound exceeded''
       else (case bytes_loads transport_hooks s of
           Inr v \<Rightarrow> Inr v
         | Inl (Unmodelled e) \<Rightarrow> Inl (Unmodelled e)
         | Inl _ \<Rightarrow> transport_error ''invalid transport document'')
   | _ \<Rightarrow> transport_error ''document size bound exceeded'')"

section \<open>The diagnostic message\<close>

definition byte :: "string \<Rightarrow> nat \<Rightarrow> nat" where
  "byte s i = of_char (s ! i)"

definition slice :: "string \<Rightarrow> nat \<Rightarrow> nat \<Rightarrow> string" where
  "slice s i n = take n (drop i s)"

text \<open>\<open>struct.unpack_from\<close> of one unsigned number, \<open>=\<close> and \<open>!\<close>.\<close>

definition little :: "string \<Rightarrow> int" where
  "little s = foldr (\<lambda>c n. of_char c + 256 * n) s 0"

definition big :: "string \<Rightarrow> int" where
  "big s = foldl (\<lambda>n c. 256 * n + of_char c) 0 s"

record snapshot =
  sn_at :: int
  sn_state :: string
  sn_sent :: int
  sn_received :: int
  sn_retransmissions :: int

record diag =
  dg_family :: nat
  dg_local :: string
  dg_remote :: string
  dg_local_port :: int
  dg_remote_port :: int
  dg_inode :: int
  dg_cookie_words :: "int \<times> int"
  dg_cookie :: string
  dg_snapshot :: snapshot

text \<open>A length rounded up to a multiple of four.\<close>

definition nla_aligned :: "nat \<Rightarrow> nat" where
  "nla_aligned n = (n + 3) div 4 * 4"

text \<open>The loop over the attributes; the result is the content of \<open>TCP_INFO\<close>.\<close>

function diag_attributes :: "string \<Rightarrow> nat \<Rightarrow> string option \<Rightarrow> string option res" where
  "diag_attributes body offset info =
     (if offset < length body then
        if length body < offset + 4 then transport_error ''short diagnostic attribute''
        else let len = nat (little (slice body offset 2)); kind = little (slice body (offset + 2) 2) in
          if len < 4 \<or> length body < offset + len then transport_error ''invalid diagnostic attribute''
          else if kind = 2 \<and> info \<noteq> None then transport_error ''duplicate TCP_INFO''
          else diag_attributes body (offset + nla_aligned len)
            (if kind = 2 then Some (slice body (offset + 4) (len - 4)) else info)
      else if offset \<noteq> length body then transport_error ''diagnostic attribute padding rejected''
      else Inr info)"
  by pat_completeness auto
termination
  by (relation "measure (\<lambda>(body, offset, info). length body - offset)") (auto simp: nla_aligned_def)

declare diag_attributes.simps [simp del]

text \<open>\<open>f'{word:08x}'\<close>.\<close>

definition word_hex :: "int \<Rightarrow> string" where
  "word_hex n = (let h = show_hex n in replicate (8 - length h) CHR ''0'' @ h)"

definition state_name :: "nat \<Rightarrow> string" where
  "state_name state = (case map_of STATES state of None \<Rightarrow> [] | Some s \<Rightarrow> s)"

definition normalize_diag :: "pyval \<Rightarrow> int \<Rightarrow> diag res" where
  "normalize_diag value at = (case value of
     PBytes body \<Rightarrow>
       if \<not> (72 \<le> length body \<and> length body \<le> 4096) then transport_error ''invalid diagnostic size''
       else let family = byte body 0; state = byte body 1 in
         if family \<notin> {2, 10} \<or> map_of STATES state = None then transport_error ''unsupported socket representation''
         else let version = (if family = 2 then 4 else 6); size = (if family = 2 then 4 else 16);
             word0 = little (slice body 44 4); word1 = little (slice body 48 4) in
           bind_res (diag_attributes body 72 None) (\<lambda>info. case info of
             None \<Rightarrow> transport_error ''TCP_INFO unavailable or inconsistent''
           | Some tcp_info \<Rightarrow>
               if length tcp_info < 216 \<or> byte tcp_info 0 \<noteq> state
               then transport_error ''TCP_INFO unavailable or inconsistent''
               else Inr \<lparr>dg_family = family, dg_local = address_str version (big (slice body 8 size)),
                 dg_remote = address_str version (big (slice body 24 size)),
                 dg_local_port = big (slice body 4 2), dg_remote_port = big (slice body 6 2),
                 dg_inode = little (slice body 68 4), dg_cookie_words = (word0, word1),
                 dg_cookie = word_hex word0 @ word_hex word1,
                 dg_snapshot = \<lparr>sn_at = at, sn_state = state_name state, sn_sent = little (slice tcp_info 200 8),
                   sn_received = little (slice tcp_info 128 8), sn_retransmissions = little (slice tcp_info 100 4)\<rparr>\<rparr>)
   | _ \<Rightarrow> transport_error ''invalid diagnostic size'')"

section \<open>The fold\<close>

definition seen_any :: "string list \<Rightarrow> string list \<Rightarrow> bool" where
  "seen_any states wanted = list_ex (\<lambda>s. s \<in> set wanted) states"

definition fin_observation :: "string list \<Rightarrow> string" where
  "fin_observation states =
     (let peer = seen_any states [''CLOSE_WAIT'', ''LAST_ACK'', ''CLOSING''];
          local = seen_any states [''FIN_WAIT1'', ''FIN_WAIT2'', ''LAST_ACK'', ''CLOSING'', ''TIME_WAIT'']
      in if peer \<and> local then ''BOTH_FIN_OBSERVED'' else if peer then ''PEER_FIN_OBSERVED''
         else if local then ''LOCAL_FIN_OBSERVED'' else ''UNKNOWN'')"

record connection =
  cn_ordinal :: int
  cn_process_id :: int
  cn_process_start_ticks :: int
  cn_cookie :: string
  cn_local :: string
  cn_remote :: string
  cn_local_port :: int
  cn_remote_port :: int
  cn_first :: snapshot
  cn_last :: snapshot
  cn_samples :: int
  cn_gap :: int
  cn_states :: "string list"
  cn_send_at :: "int option"
  cn_receive_at :: "int option"
  cn_final :: string
  cn_fin :: string

definition connection_progress :: "connection list \<Rightarrow> string" where
  "connection_progress cs =
     (let states = concat (map cn_states cs) in
      if seen_any states ESTABLISHED_STATES then ''TCP_ESTABLISHMENT_OBSERVED''
      else if ''SYN_SENT'' \<in> set states then ''SYN_SENT_OBSERVED'' else ''UNKNOWN'')"

definition new_connection :: "diag \<Rightarrow> int \<Rightarrow> int \<Rightarrow> int \<Rightarrow> connection" where
  "new_connection raw pid ticks ordinal =
     \<lparr>cn_ordinal = ordinal, cn_process_id = pid, cn_process_start_ticks = ticks, cn_cookie = dg_cookie raw,
      cn_local = dg_local raw, cn_remote = dg_remote raw, cn_local_port = dg_local_port raw,
      cn_remote_port = dg_remote_port raw, cn_first = dg_snapshot raw, cn_last = dg_snapshot raw,
      cn_samples = 1, cn_gap = 0, cn_states = [sn_state (dg_snapshot raw)],
      cn_send_at = None, cn_receive_at = None, cn_final = ''LIVE_SOCKET'',
      cn_fin = fin_observation [sn_state (dg_snapshot raw)]\<rparr>"

definition add_sample :: "connection \<Rightarrow> snapshot \<Rightarrow> string \<Rightarrow> connection res" where
  "add_sample c sample kind =
     (let previous = cn_last c; states = sorted_strings (cn_states c @ [sn_state sample]) in
      if sn_at sample < sn_at previous then transport_error ''nonmonotonic observations''
      else if sn_sent sample < sn_sent previous \<or> sn_received sample < sn_received previous
        \<or> sn_retransmissions sample < sn_retransmissions previous then transport_error ''counter regressed''
      else Inr (c\<lparr>
        cn_send_at := if sn_sent previous < sn_sent sample then Some (sn_at sample) else cn_send_at c,
        cn_receive_at := if sn_received previous < sn_received sample then Some (sn_at sample) else cn_receive_at c,
        cn_gap := max (cn_gap c) (sn_at sample - sn_at previous), cn_samples := cn_samples c + 1,
        cn_last := sample, cn_states := states, cn_final := kind, cn_fin := fin_observation states\<rparr>))"

section \<open>The document\<close>

definition snapshot_document :: "snapshot \<Rightarrow> pyval" where
  "snapshot_document s = PDict [(''at'', PInt (sn_at s)), (''state'', PStr (sn_state s)),
     (''bytes_sent'', PInt (sn_sent s)), (''bytes_received'', PInt (sn_received s)),
     (''retransmissions'', PInt (sn_retransmissions s))]"

definition int_or_none :: "int option \<Rightarrow> pyval" where
  "int_or_none v = (case v of None \<Rightarrow> PNone | Some i \<Rightarrow> PInt i)"

definition connection_document :: "connection \<Rightarrow> pyval" where
  "connection_document c = PDict [
     (''local_address'', PStr (cn_local c)), (''remote_address'', PStr (cn_remote c)),
     (''local_port'', PInt (cn_local_port c)), (''remote_port'', PInt (cn_remote_port c)),
     (''socket_cookie'', PStr (cn_cookie c)), (''ordinal'', PInt (cn_ordinal c)),
     (''process_id'', PInt (cn_process_id c)), (''process_start_ticks'', PInt (cn_process_start_ticks c)),
     (''first'', snapshot_document (cn_first c)), (''last'', snapshot_document (cn_last c)),
     (''sample_count'', PInt (cn_samples c)), (''max_sample_gap_ns'', PInt (cn_gap c)),
     (''states_seen'', PList (map PStr (cn_states c))),
     (''last_send_increase_sample'', int_or_none (cn_send_at c)),
     (''last_receive_increase_sample'', int_or_none (cn_receive_at c)),
     (''final_snapshot_kind'', PStr (cn_final c)), (''secure_transport_progress'', PStr ''UNKNOWN''),
     (''http_request_attribution'', PStr ''UNKNOWN''), (''reset_origin'', PStr ''UNKNOWN''),
     (''fin_observation'', PStr (cn_fin c))]"

definition failure_text :: "string option \<Rightarrow> string \<Rightarrow> string" where
  "failure_text failure status = (case failure of
     Some f \<Rightarrow> if f \<noteq> [] then f else if status = ''COMPLETE'' then ''NONE'' else ''UNKNOWN''
   | None \<Rightarrow> if status = ''COMPLETE'' then ''NONE'' else ''UNKNOWN'')"

definition assembled_fields ::
  "int \<Rightarrow> int \<Rightarrow> string \<Rightarrow> string \<Rightarrow> int option \<Rightarrow> connection list \<Rightarrow> string option \<Rightarrow> pydict" where
  "assembled_fields start finish status result exit_code cs failure = [
     (''schema_version'', PInt 1), (''kind'', PStr ''INSTANCE_INSERT_TRANSPORT_EVIDENCE''),
     (''collector'', PStr ''LINUX_EXACT_INET_DIAG_TCP_INFO_V1''), (''opentofu_version'', PStr ''1.12.5''),
     (''google_provider_version'', PStr GOOGLE_PROVIDER_VERSION), (''observation_start'', PInt start),
     (''observation_end'', PInt finish), (''collection_status'', PStr status),
     (''failure_operation'', PStr (failure_text failure status)),
     (''visibility'', PStr ''SAMPLED_SOCKETS_WITH_FILTERED_DESTRUCTION''), (''dns_completion'', PStr ''UNKNOWN''),
     (''endpoint_observation'', PStr (if cs \<noteq> [] then ''NUMERIC_TCP_ENDPOINT_OBSERVED'' else ''UNKNOWN'')),
     (''connection_progress'', PStr (connection_progress cs)), (''terminal_provider_result'', PStr result),
     (''provider_exit_code'', int_or_none exit_code), (''connections'', PList (map connection_document cs))]"

text \<open>\<open>dict(identity, ...)\<close>: the fields replace those of the identity.\<close>

definition assemble ::
  "pydict \<Rightarrow> int \<Rightarrow> int \<Rightarrow> string \<Rightarrow> string \<Rightarrow> int option \<Rightarrow> connection list \<Rightarrow> string option \<Rightarrow> pydict" where
  "assemble identity start finish status result exit_code cs failure =
     foldl (\<lambda>d (k, v). dput k v d) identity (assembled_fields start finish status result exit_code cs failure)"

section \<open>Admission\<close>

text \<open>\<open>json.dumps\<close> with its default separators, and its length in bytes.\<close>

fun default_ser :: "pyval \<Rightarrow> string res" where
  "default_ser PNone = Inr ''null''"
| "default_ser (PBool b) = Inr (if b then ''true'' else ''false'')"
| "default_ser (PInt i) = Inr (show_int i)"
| "default_ser (PStr s) = Inr (quote_str s)"
| "default_ser (PList xs) = bind_res (map_res default_ser xs) (\<lambda>ss. Inr (''['' @ comma_list ss @ '']''))"
| "default_ser (PTuple xs) = bind_res (map_res default_ser xs) (\<lambda>ss. Inr (''['' @ comma_list ss @ '']''))"
| "default_ser (PDict kvs) =
     bind_res (map_res (\<lambda>(k, v). bind_res (default_ser v) (\<lambda>s. Inr (quote_str k @ '': '' @ s))) kvs)
       (\<lambda>ss. Inr (''{'' @ comma_list ss @ ''}''))"
| "default_ser (PFloat f) = Inl (Unmodelled ''float repr'')"
| "default_ser (PBytes s) = Inl TypeError"
| "default_ser (POther i) = Inl TypeError"

text \<open>Reading a member whose type the schema has settled.\<close>

definition shape_error :: "'a res" where
  "shape_error = Inl (Unmodelled ''a document outside the schema'')"

definition int_at :: "pydict \<Rightarrow> string \<Rightarrow> int res" where
  "int_at d k = (case map_of d k of Some (PInt i) \<Rightarrow> Inr i | _ \<Rightarrow> shape_error)"

definition str_at :: "pydict \<Rightarrow> string \<Rightarrow> string res" where
  "str_at d k = (case map_of d k of Some (PStr s) \<Rightarrow> Inr s | _ \<Rightarrow> shape_error)"

definition opt_int_at :: "pydict \<Rightarrow> string \<Rightarrow> int option res" where
  "opt_int_at d k = (case map_of d k of Some PNone \<Rightarrow> Inr None | Some (PInt i) \<Rightarrow> Inr (Some i) | _ \<Rightarrow> shape_error)"

definition dict_at :: "pydict \<Rightarrow> string \<Rightarrow> pydict res" where
  "dict_at d k = (case map_of d k of Some (PDict e) \<Rightarrow> Inr e | _ \<Rightarrow> shape_error)"

definition list_at :: "pydict \<Rightarrow> string \<Rightarrow> pyval list res" where
  "list_at d k = (case map_of d k of Some (PList vs) \<Rightarrow> Inr vs | _ \<Rightarrow> shape_error)"

definition the_string :: "pyval \<Rightarrow> string res" where
  "the_string v = (case v of PStr s \<Rightarrow> Inr s | _ \<Rightarrow> shape_error)"

definition snapshot_of :: "pydict \<Rightarrow> snapshot res" where
  "snapshot_of d = bind_res (int_at d ''at'') (\<lambda>at. bind_res (str_at d ''state'') (\<lambda>state.
     bind_res (int_at d ''bytes_sent'') (\<lambda>sent. bind_res (int_at d ''bytes_received'') (\<lambda>received.
     bind_res (int_at d ''retransmissions'') (\<lambda>retransmissions. Inr
       \<lparr>sn_at = at, sn_state = state, sn_sent = sent, sn_received = received,
        sn_retransmissions = retransmissions\<rparr>)))))"

definition connection_of :: "pyval \<Rightarrow> connection res" where
  "connection_of v = (case v of PDict d \<Rightarrow>
       bind_res (int_at d ''ordinal'') (\<lambda>ordinal. bind_res (int_at d ''process_id'') (\<lambda>pid.
       bind_res (int_at d ''process_start_ticks'') (\<lambda>ticks. bind_res (str_at d ''socket_cookie'') (\<lambda>cookie.
       bind_res (str_at d ''local_address'') (\<lambda>local. bind_res (str_at d ''remote_address'') (\<lambda>remote.
       bind_res (int_at d ''local_port'') (\<lambda>local_port. bind_res (int_at d ''remote_port'') (\<lambda>remote_port.
       bind_res (bind_res (dict_at d ''first'') snapshot_of) (\<lambda>first.
       bind_res (bind_res (dict_at d ''last'') snapshot_of) (\<lambda>final.
       bind_res (int_at d ''sample_count'') (\<lambda>samples. bind_res (int_at d ''max_sample_gap_ns'') (\<lambda>gap.
       bind_res (bind_res (list_at d ''states_seen'') (map_res the_string)) (\<lambda>states.
       bind_res (opt_int_at d ''last_send_increase_sample'') (\<lambda>send_at.
       bind_res (opt_int_at d ''last_receive_increase_sample'') (\<lambda>receive_at.
       bind_res (str_at d ''final_snapshot_kind'') (\<lambda>kind. bind_res (str_at d ''fin_observation'') (\<lambda>fin. Inr
         \<lparr>cn_ordinal = ordinal, cn_process_id = pid, cn_process_start_ticks = ticks, cn_cookie = cookie,
          cn_local = local, cn_remote = remote, cn_local_port = local_port, cn_remote_port = remote_port,
          cn_first = first, cn_last = final, cn_samples = samples, cn_gap = gap, cn_states = states,
          cn_send_at = send_at, cn_receive_at = receive_at, cn_final = kind, cn_fin = fin\<rparr>)))))))))))))))))
   | _ \<Rightarrow> shape_error)"

text \<open>\<open>str(ip_address(text)) == text\<close>, and the version.\<close>

definition endpoint_version :: "string \<Rightarrow> nat res" where
  "endpoint_version s = bind_res (ip_address s) (\<lambda>a. case a of
     None \<Rightarrow> transport_error ''noncanonical endpoint''
   | Some (v, n) \<Rightarrow> if address_str v n \<noteq> s then transport_error ''noncanonical endpoint'' else Inr v)"

definition check_activity :: "snapshot \<Rightarrow> snapshot \<Rightarrow> (snapshot \<Rightarrow> int) \<Rightarrow> int option \<Rightarrow> unit res" where
  "check_activity first final counter activity =
     (if (counter first < counter final) \<noteq> (activity \<noteq> None) then transport_error ''activity counter inconsistent''
      else (case activity of
          None \<Rightarrow> Inr ()
        | Some t \<Rightarrow> if sn_at first \<le> t \<and> t \<le> sn_at final then Inr ()
            else transport_error ''activity timestamp inconsistent''))"

definition check_connection :: "int \<Rightarrow> int \<Rightarrow> string set \<Rightarrow> int \<Rightarrow> connection \<Rightarrow> unit res" where
  "check_connection start finish seen ordinal c =
     (let first = cn_first c; final = cn_last c; states = cn_states c in
      if cn_ordinal c \<noteq> ordinal \<or> cn_cookie c \<in> seen then transport_error ''connection ordering or identity rejected''
      else if \<not> (start \<le> sn_at first \<and> sn_at first \<le> sn_at final \<and> sn_at final \<le> finish)
      then transport_error ''socket time outside observation window''
      else if sn_sent final < sn_sent first \<or> sn_received final < sn_received first
        \<or> sn_retransmissions final < sn_retransmissions first then transport_error ''counter regressed''
      else if states \<noteq> sort states \<or> \<not> {sn_state first, sn_state final} \<subseteq> set states
      then transport_error ''state observations inconsistent''
      else if cn_fin c \<noteq> fin_observation states then transport_error ''unsupported close inference''
      else if cn_samples c = 1 \<and> (first \<noteq> final \<or> cn_gap c \<noteq> 0) then transport_error ''single sample inconsistent''
      else if sn_at final - sn_at first < cn_gap c then transport_error ''sample gap inconsistent''
      else bind_res (endpoint_version (cn_local c)) (\<lambda>v. bind_res (endpoint_version (cn_remote c)) (\<lambda>w.
        if v \<noteq> w then transport_error ''endpoint address families differ''
        else seq_res (check_activity first final sn_sent (cn_send_at c))
          (seq_res (check_activity first final sn_received (cn_receive_at c))
          (if cn_final c = ''DESTROY_NOTIFICATION'' \<and> sn_state final \<noteq> ''CLOSE''
           then transport_error ''destruction state inconsistent'' else Inr ())))))"

fun check_connections :: "int \<Rightarrow> int \<Rightarrow> string set \<Rightarrow> int \<Rightarrow> connection list \<Rightarrow> unit res" where
  "check_connections start finish seen ordinal [] = Inr ()"
| "check_connections start finish seen ordinal (c # cs) =
     seq_res (check_connection start finish seen ordinal c)
       (check_connections start finish (insert (cn_cookie c) seen) (ordinal + 1) cs)"

definition provider_result_ok :: "string \<Rightarrow> int option \<Rightarrow> bool" where
  "provider_result_ok result code \<longleftrightarrow> \<not> ((result = ''SUCCESS'' \<and> code \<noteq> Some 0)
     \<or> (result = ''OTHER'' \<and> (code = None \<or> code = Some 0)) \<or> (result = ''NOT_RUN'' \<and> code \<noteq> None))"

definition admit_evidence :: "pydict \<Rightarrow> pydict \<Rightarrow> unit res" where
  "admit_evidence d expected =
     (if dkeys expected \<noteq> set IDENTITY_FIELDS
        \<or> list_ex (\<lambda>k. \<not> py_eq (dget d k) (dget expected k)) IDENTITY_FIELDS
      then transport_error ''transport identity mismatch''
      else bind_res (str_at d ''workflow_run_id'') (\<lambda>run. bind_res (str_at d ''workflow_run_attempt'') (\<lambda>attempt.
      bind_res (str_at d ''expected_instance_name'') (\<lambda>name.
      if name \<noteq> ''sprk-'' @ run @ ''-'' @ attempt @ ''-instance'' then transport_error ''instance identity mismatch''
      else bind_res (str_at d ''collection_status'') (\<lambda>status. bind_res (str_at d ''failure_operation'') (\<lambda>failure.
      if (status = ''COMPLETE'') \<noteq> (failure = ''NONE'')
      then transport_error ''collection failure identity inconsistent''
      else bind_res (int_at d ''observation_start'') (\<lambda>start. bind_res (int_at d ''observation_end'') (\<lambda>finish.
      if \<not> (start \<le> finish \<and> finish \<le> start + MAX_WINDOW_NS) then transport_error ''observation window rejected''
      else bind_res (str_at d ''terminal_provider_result'') (\<lambda>result. bind_res (opt_int_at d ''provider_exit_code'') (\<lambda>code.
      if \<not> provider_result_ok result code then transport_error ''provider result inconsistent''
      else bind_res (bind_res (list_at d ''connections'') (map_res connection_of)) (\<lambda>cs.
      bind_res (str_at d ''endpoint_observation'') (\<lambda>endpoint. bind_res (str_at d ''connection_progress'') (\<lambda>progress.
      if endpoint \<noteq> (if cs \<noteq> [] then ''NUMERIC_TCP_ENDPOINT_OBSERVED'' else ''UNKNOWN'')
        \<or> progress \<noteq> connection_progress cs then transport_error ''unsupported progress inference''
      else check_connections start finish {} 1 cs)))))))))))))"

definition transport_admit :: "(pyval \<Rightarrow> pyval \<Rightarrow> bool) \<Rightarrow> pyval \<Rightarrow> pydict \<Rightarrow> pyval res" where
  "transport_admit V document expected = (case document of
     PDict d \<Rightarrow> bind_res (default_ser document) (\<lambda>text.
       if MAX_DOCUMENT_BYTES < length text then transport_error ''document size bound exceeded''
       else if \<not> V transport_schema document then transport_error ''closed transport shape rejected''
       else seq_res (admit_evidence d expected) (Inr document))
   | _ \<Rightarrow> transport_error ''document size bound exceeded'')"

end
