(* ===== verification/Transport_Facts.thy ===== *)
theory Transport_Facts
  imports Transport Ip_Roundtrip
begin

text \<open>
  Transport evidence: what a diagnostic message is read as is within the bounds of the schema's
  representation, and whatever is folded from such messages within one window is admitted.
\<close>

section \<open>Numbers out of bytes\<close>

lemma char_bounds: "0 \<le> (of_char c :: int)" "(of_char c :: int) < 256"
proof -
  have "of_char c mod (256 :: int) = of_char c" by simp
  then show "0 \<le> (of_char c :: int)" "(of_char c :: int) < 256"
    using pos_mod_bound [of 256 "of_char c :: int"] pos_mod_sign [of 256 "of_char c :: int"] by simp_all
qed

lemma big_bounds: "0 \<le> big s \<and> big s < 256 ^ length s"
proof (induction s rule: rev_induct)
  case (snoc c s)
  note char_bounds [of c]
  moreover have "big (s @ [c]) = 256 * big s + of_char c" by (simp add: big_def)
  ultimately show ?case using snoc by simp
qed (simp add: big_def)

lemma little_bounds: "0 \<le> little s \<and> little s < 256 ^ length s"
proof (induction s)
  case (Cons c s)
  note char_bounds [of c]
  moreover have "little (c # s) = of_char c + 256 * little s" by (simp add: little_def)
  ultimately show ?case using Cons by simp
qed (simp add: little_def)

lemma length_slice: "i + n \<le> length s \<Longrightarrow> length (slice s i n) = n"
  by (simp add: slice_def)

lemma big_slice: "i + n \<le> length s \<Longrightarrow> 0 \<le> big (slice s i n) \<and> big (slice s i n) < 256 ^ n"
  using big_bounds [of "slice s i n"] by (simp add: length_slice)

lemma little_slice: "i + n \<le> length s \<Longrightarrow> 0 \<le> little (slice s i n) \<and> little (slice s i n) < 256 ^ n"
  using little_bounds [of "slice s i n"] by (simp add: length_slice)

lemma show_hex_chars: "0 \<le> n \<Longrightarrow> list_all hex_char (show_hex n)"
proof (induction n rule: show_hex.induct)
  case (1 n)
  have digit: "hex_char (hex_digit k)" if "k < 16" for k
  proof -
    have "list_all hex_char (map hex_digit [0..<16])" by code_simp
    then show ?thesis using that by (simp add: list_all_iff)
  qed
  show ?case
  proof (cases "n < 16")
    case True
    then have "nat n < 16" by linarith
    then show ?thesis using True by (subst show_hex.simps) (simp add: digit)
  next
    case False
    have "nat (n mod 16) < 16" "0 \<le> n div 16" using 1(2) by simp_all
    then show ?thesis using False 1(1) by (subst show_hex.simps) (simp add: digit)
  qed
qed

lemma word_hex_form:
  assumes "0 \<le> n" and "n < 256 ^ 4"
  shows "length (word_hex n) = 8 \<and> list_all hex_char (word_hex n)"
proof -
  have "length (show_hex n) \<le> 8" using assms show_hex_length [of 8 n] by simp
  moreover have "hex_char CHR ''0''" by code_simp
  ultimately show ?thesis using show_hex_chars [OF assms(1)] by (auto simp: word_hex_def Let_def list_all_iff)
qed

section \<open>The diagnostic message\<close>

definition in_width :: "nat \<Rightarrow> int \<Rightarrow> bool" where
  "in_width bits n \<longleftrightarrow> 0 \<le> n \<and> n < 2 ^ bits"

definition bounded_diag :: "diag \<Rightarrow> bool" where
  "bounded_diag raw \<longleftrightarrow>
     in_width 16 (dg_local_port raw) \<and> in_width 16 (dg_remote_port raw) \<and> in_width 32 (dg_inode raw)
     \<and> length (dg_cookie raw) = 16 \<and> list_all hex_char (dg_cookie raw)
     \<and> sn_state (dg_snapshot raw) \<in> snd ` set STATES
     \<and> in_width 64 (sn_sent (dg_snapshot raw)) \<and> in_width 64 (sn_received (dg_snapshot raw))
     \<and> in_width 32 (sn_retransmissions (dg_snapshot raw))
     \<and> (\<exists>v. endpoint_version (dg_local raw) = Inr v \<and> endpoint_version (dg_remote raw) = Inr v)"

lemma width_slice:
  "i + n \<le> length s \<Longrightarrow> bits = 8 * n \<Longrightarrow> in_width bits (big (slice s i n))"
  "i + n \<le> length s \<Longrightarrow> bits = 8 * n \<Longrightarrow> in_width bits (little (slice s i n))"
  using big_slice [of i n s] little_slice [of i n s] by (simp_all add: in_width_def power_mult)

lemma slice_endpoint:
  assumes "v = 4 \<and> n = 4 \<or> v = 6 \<and> n = 16" and "i + n \<le> length s"
  shows "endpoint_version (address_str v (big (slice s i n))) = Inr v"
proof -
  have "ip_address (address_str v (big (slice s i n))) = Inr (Some (v, big (slice s i n)))"
    using big_slice [OF assms(2)] assms(1) by (intro address_read) auto
  then show ?thesis by (simp add: endpoint_version_def)
qed

lemma normalize_diag_bounds:
  assumes "normalize_diag (PBytes body) at = Inr raw"
  shows "bounded_diag raw \<and> sn_at (dg_snapshot raw) = at \<and> 72 \<le> length body \<and> length body \<le> 4096"
proof -
  define size :: nat where "size = (if byte body 0 = 2 then 4 else 16)"
  define version :: nat where "version = (if byte body 0 = 2 then 4 else 6)"
  obtain tcp_info where n: "72 \<le> length body" "length body \<le> 4096" "map_of STATES (byte body 1) \<noteq> None"
    "216 \<le> length tcp_info"
    and raw: "raw = \<lparr>dg_family = byte body 0, dg_local = address_str version (big (slice body 8 size)),
                 dg_remote = address_str version (big (slice body 24 size)),
                 dg_local_port = big (slice body 4 2), dg_remote_port = big (slice body 6 2),
                 dg_inode = little (slice body 68 4),
                 dg_cookie_words = (little (slice body 44 4), little (slice body 48 4)),
                 dg_cookie = word_hex (little (slice body 44 4)) @ word_hex (little (slice body 48 4)),
                 dg_snapshot = \<lparr>sn_at = at, sn_state = state_name (byte body 1), sn_sent = little (slice tcp_info 200 8),
                   sn_received = little (slice tcp_info 128 8), sn_retransmissions = little (slice tcp_info 100 4)\<rparr>\<rparr>"
  proof -
    obtain info where i: "72 \<le> length body \<and> length body \<le> 4096" "map_of STATES (byte body 1) \<noteq> None"
      "(case info of
             None \<Rightarrow> transport_error ''TCP_INFO unavailable or inconsistent''
           | Some tcp_info \<Rightarrow>
               if length tcp_info < 216 \<or> byte tcp_info 0 \<noteq> byte body 1
               then transport_error ''TCP_INFO unavailable or inconsistent''
               else Inr \<lparr>dg_family = byte body 0, dg_local = address_str version (big (slice body 8 size)),
                 dg_remote = address_str version (big (slice body 24 size)),
                 dg_local_port = big (slice body 4 2), dg_remote_port = big (slice body 6 2),
                 dg_inode = little (slice body 68 4),
                 dg_cookie_words = (little (slice body 44 4), little (slice body 48 4)),
                 dg_cookie = word_hex (little (slice body 44 4)) @ word_hex (little (slice body 48 4)),
                 dg_snapshot = \<lparr>sn_at = at, sn_state = state_name (byte body 1), sn_sent = little (slice tcp_info 200 8),
                   sn_received = little (slice tcp_info 128 8), sn_retransmissions = little (slice tcp_info 100 4)\<rparr>\<rparr>) = Inr raw"
      using assms unfolding normalize_diag_def Let_def pyval.case transport_error_def raise_Inr_iff bind_res_Inr_iff
        size_def [symmetric] version_def [symmetric] by blast
    then obtain tcp_info where info: "info = Some tcp_info" by (cases info) (auto simp: transport_error_def)
    show thesis
      by (rule that [of tcp_info]) (use i info in \<open>auto simp: transport_error_def split: if_split_asm\<close>)
  qed
  have v: "version = 4 \<and> size = 4 \<or> version = 6 \<and> size = 16" by (simp add: size_def version_def)
  have "endpoint_version (dg_local raw) = Inr version" "endpoint_version (dg_remote raw) = Inr version"
    using slice_endpoint [OF v] n v by (auto simp: raw)
  moreover have "length (dg_cookie raw) = 16 \<and> list_all hex_char (dg_cookie raw)"
    using word_hex_form little_slice [of 44 4 body] little_slice [of 48 4 body] n by (simp add: raw)
  moreover have "sn_state (dg_snapshot raw) \<in> snd ` set STATES"
    using n(3) by (force simp: raw state_name_def dest: map_of_SomeD)
  ultimately show ?thesis
    using n by (auto simp: bounded_diag_def raw intro!: width_slice)
qed

text \<open>Property C22: whatever bytes the kernel hands in, the reading ends, and what it returns is within
  the widths of the fields it was read from: ports of 16 bits, counters of 64 and 32 bits, a cookie
  of sixteen hex digits, a named state, and two addresses of one family in canonical text.\<close>

theorem diagnostic_message_is_bounded:
  assumes "normalize_diag (PBytes body) at = Inr raw"
  shows "bounded_diag raw \<and> sn_at (dg_snapshot raw) = at \<and> 72 \<le> length body \<and> length body \<le> 4096"
  by (rule normalize_diag_bounds [OF assms])

section \<open>The fold\<close>

text \<open>What the collector can hold of one socket: a first reading and later samples, all of them within
  the window, a destruction only in the closed state.\<close>

inductive collected :: "int \<Rightarrow> int \<Rightarrow> int \<Rightarrow> connection \<Rightarrow> bool" for start finish ordinal where
  first_reading: "normalize_diag (PBytes body) at = Inr raw \<Longrightarrow> start \<le> at \<Longrightarrow> at \<le> finish \<Longrightarrow>
    collected start finish ordinal (new_connection raw pid ticks ordinal)"
| next_sample: "collected start finish ordinal c \<Longrightarrow> add_sample c sample kind = Inr c' \<Longrightarrow> sn_at sample \<le> finish \<Longrightarrow>
    (kind = ''DESTROY_NOTIFICATION'' \<longrightarrow> sn_state sample = ''CLOSE'') \<Longrightarrow> collected start finish ordinal c'"

definition active :: "snapshot \<Rightarrow> snapshot \<Rightarrow> (snapshot \<Rightarrow> int) \<Rightarrow> int option \<Rightarrow> bool" where
  "active first final counter activity \<longleftrightarrow> (counter first < counter final \<longleftrightarrow> activity \<noteq> None)
     \<and> (\<forall>t. activity = Some t \<longrightarrow> sn_at first \<le> t \<and> t \<le> sn_at final)"

definition consistent :: "int \<Rightarrow> int \<Rightarrow> int \<Rightarrow> connection \<Rightarrow> bool" where
  "consistent start finish ordinal c \<longleftrightarrow>
     cn_ordinal c = ordinal
     \<and> start \<le> sn_at (cn_first c) \<and> sn_at (cn_first c) \<le> sn_at (cn_last c) \<and> sn_at (cn_last c) \<le> finish
     \<and> sn_sent (cn_first c) \<le> sn_sent (cn_last c) \<and> sn_received (cn_first c) \<le> sn_received (cn_last c)
     \<and> sn_retransmissions (cn_first c) \<le> sn_retransmissions (cn_last c)
     \<and> sorted (cn_states c) \<and> sn_state (cn_first c) \<in> set (cn_states c) \<and> sn_state (cn_last c) \<in> set (cn_states c)
     \<and> cn_fin c = fin_observation (cn_states c)
     \<and> (cn_samples c = 1 \<longrightarrow> cn_first c = cn_last c \<and> cn_gap c = 0)
     \<and> cn_gap c \<le> sn_at (cn_last c) - sn_at (cn_first c)
     \<and> (\<exists>v. endpoint_version (cn_local c) = Inr v \<and> endpoint_version (cn_remote c) = Inr v)
     \<and> active (cn_first c) (cn_last c) sn_sent (cn_send_at c)
     \<and> active (cn_first c) (cn_last c) sn_received (cn_receive_at c)
     \<and> (cn_final c = ''DESTROY_NOTIFICATION'' \<longrightarrow> sn_state (cn_last c) = ''CLOSE'')"

lemma check_activity_Inr: "check_activity first final counter activity = Inr () \<longleftrightarrow> active first final counter activity"
  by (auto simp: check_activity_def active_def transport_error_def split: option.splits)

text \<open>The admission of one connection is this predicate, and a cookie that is not yet seen.\<close>

lemma check_connection_Inr:
  "check_connection start finish seen ordinal c = Inr () \<longleftrightarrow> consistent start finish ordinal c \<and> cn_cookie c \<notin> seen"
proof -
  have same: "states = sort states \<longleftrightarrow> sorted states" for states :: "string list"
    by (metis sorted_sort sorted_sort_id)
  show ?thesis
    unfolding check_connection_def Let_def transport_error_def raise_Inr_iff bind_res_Inr_iff seq_res_Inr_iff
      check_activity_Inr consistent_def same [symmetric]
    by auto
qed

lemma check_connections_Inr:
  "check_connections start finish seen ordinal cs = Inr () \<longleftrightarrow>
    (\<forall>i < length cs. consistent start finish (ordinal + int i) (cs ! i)) \<and> distinct (map cn_cookie cs)
    \<and> (\<forall>c \<in> set cs. cn_cookie c \<notin> seen)"
proof (induction cs arbitrary: seen ordinal)
  case (Cons c cs)
  have "(\<forall>i < length (c # cs). consistent start finish (ordinal + int i) ((c # cs) ! i)) \<longleftrightarrow>
      consistent start finish ordinal c \<and> (\<forall>i < length cs. consistent start finish (ordinal + 1 + int i) (cs ! i))"
    by (auto simp: less_Suc_eq_0_disj add.assoc)
  then show ?case
    by (auto simp: Cons.IH seq_res_Inr_iff check_connection_Inr) (metis imageI)
qed simp

lemma sorted_strings_facts: "sorted (sorted_strings ss)" "set (sorted_strings ss) = set ss"
  by (simp_all add: sorted_strings_def)

lemma add_sample_consistent:
  assumes c: "consistent start finish ordinal c" and n: "1 \<le> cn_samples c" "add_sample c sample kind = Inr c'"
    and time: "sn_at sample \<le> finish" "kind = ''DESTROY_NOTIFICATION'' \<longrightarrow> sn_state sample = ''CLOSE''"
  shows "consistent start finish ordinal c' \<and> 1 \<le> cn_samples c'"
proof -
  let ?p = "cn_last c" and ?states = "sorted_strings (cn_states c @ [sn_state sample])"
  have a: "sn_at ?p \<le> sn_at sample" "sn_sent ?p \<le> sn_sent sample" "sn_received ?p \<le> sn_received sample"
    "sn_retransmissions ?p \<le> sn_retransmissions sample"
    and c': "c' = c\<lparr>
        cn_send_at := if sn_sent ?p < sn_sent sample then Some (sn_at sample) else cn_send_at c,
        cn_receive_at := if sn_received ?p < sn_received sample then Some (sn_at sample) else cn_receive_at c,
        cn_gap := max (cn_gap c) (sn_at sample - sn_at ?p), cn_samples := cn_samples c + 1,
        cn_last := sample, cn_states := ?states, cn_final := kind, cn_fin := fin_observation ?states\<rparr>"
    using n(2) by (auto simp: add_sample_def Let_def transport_error_def split: if_split_asm)
  have act: "active (cn_first c) sample counter (if counter ?p < counter sample then Some (sn_at sample) else activity)"
    if "active (cn_first c) ?p counter activity" "counter ?p \<le> counter sample" "counter (cn_first c) \<le> counter ?p"
    for counter activity
    using that a(1) c by (auto simp: active_def consistent_def)
  show ?thesis
    using c a time n(1) act [of sn_sent "cn_send_at c"] act [of sn_received "cn_receive_at c"]
    unfolding consistent_def c' by (simp add: sorted_strings_facts)
qed

lemma collected_consistent: "collected start finish ordinal c \<Longrightarrow> consistent start finish ordinal c \<and> 1 \<le> cn_samples c"
proof (induction rule: collected.induct)
  case (first_reading body at raw pid ticks)
  then have "\<exists>v. endpoint_version (dg_local raw) = Inr v \<and> endpoint_version (dg_remote raw) = Inr v"
    "sn_at (dg_snapshot raw) = at"
    using normalize_diag_bounds by (auto simp: bounded_diag_def)
  then show ?case using first_reading by (auto simp: consistent_def new_connection_def active_def)
next
  case (next_sample c sample kind c')
  then show ?case using add_sample_consistent by blast
qed

section \<open>The document\<close>

lemma snapshot_read: "(case snapshot_document s of PDict d \<Rightarrow> snapshot_of d) = Inr s"
  by (simp add: snapshot_document_def snapshot_of_def int_at_def str_at_def)

lemma opt_int_read: "map_of d k = Some (int_or_none v) \<Longrightarrow> opt_int_at d k = Inr v"
  by (cases v) (simp_all add: opt_int_at_def int_or_none_def)

lemma strings_read: "map_res the_string (map PStr ss) = Inr ss"
  by (induction ss) (simp_all add: the_string_def)

lemma connection_read: "connection_of (connection_document c) = Inr c"
proof -
  let ?d = "dict_of (connection_document c)"
  have snap: "bind_res (dict_at ?d k) snapshot_of = Inr s" if "map_of ?d k = Some (snapshot_document s)" for k s
    using that by (simp add: dict_at_def snapshot_document_def snapshot_of_def int_at_def str_at_def)
  have first: "bind_res (dict_at ?d ''first'') snapshot_of = Inr (cn_first c)"
    and last: "bind_res (dict_at ?d ''last'') snapshot_of = Inr (cn_last c)"
    by (rule snap; simp add: connection_document_def)+
  have states: "bind_res (list_at ?d ''states_seen'') (map_res the_string) = Inr (cn_states c)"
    by (simp add: list_at_def connection_document_def strings_read)
  have send: "opt_int_at ?d ''last_send_increase_sample'' = Inr (cn_send_at c)"
    and receive: "opt_int_at ?d ''last_receive_increase_sample'' = Inr (cn_receive_at c)"
    by (rule opt_int_read; simp add: connection_document_def)+
  have ints: "int_at ?d ''ordinal'' = Inr (cn_ordinal c)" "int_at ?d ''process_id'' = Inr (cn_process_id c)"
    "int_at ?d ''process_start_ticks'' = Inr (cn_process_start_ticks c)" "int_at ?d ''local_port'' = Inr (cn_local_port c)"
    "int_at ?d ''remote_port'' = Inr (cn_remote_port c)" "int_at ?d ''sample_count'' = Inr (cn_samples c)"
    "int_at ?d ''max_sample_gap_ns'' = Inr (cn_gap c)"
    by (simp_all add: int_at_def connection_document_def)
  have strs: "str_at ?d ''socket_cookie'' = Inr (cn_cookie c)" "str_at ?d ''local_address'' = Inr (cn_local c)"
    "str_at ?d ''remote_address'' = Inr (cn_remote c)" "str_at ?d ''final_snapshot_kind'' = Inr (cn_final c)"
    "str_at ?d ''fin_observation'' = Inr (cn_fin c)"
    by (simp_all add: str_at_def connection_document_def)
  have "connection_document c = PDict ?d" by (simp add: connection_document_def)
  then have "connection_of (connection_document c) = connection_of (PDict ?d)" by simp
  also have "\<dots> = Inr c"
    unfolding connection_of_def pyval.case first last states send receive ints strs bind_res_simps by simp
  finally show ?thesis .
qed

lemma map_of_puts: "map_of (foldl (\<lambda>d (k, v). dput k v d) d kvs) k =
    (case map_of (rev kvs) k of Some v \<Rightarrow> Some v | None \<Rightarrow> map_of d k)"
proof (induction kvs rule: rev_induct)
  case (snoc x kvs)
  then show ?case by (cases x) (simp add: map_of_dput)
qed simp

text \<open>A run's own names.\<close>

definition run_identity :: "pydict \<Rightarrow> bool" where
  "run_identity identity \<longleftrightarrow> dkeys identity = set IDENTITY_FIELDS
     \<and> (\<forall>k \<in> set IDENTITY_FIELDS. \<exists>s. map_of identity k = Some (PStr s))
     \<and> dget identity ''expected_instance_name'' =
         PStr (''sprk-'' @ the_str (dget identity ''workflow_run_id'') @ ''-''
           @ the_str (dget identity ''workflow_run_attempt'') @ ''-instance'')"

lemma assembled_fields_get:
  "map_of (rev (assembled_fields start finish status result code cs failure)) k =
   map_of (assembled_fields start finish status result code cs failure) k"
proof -
  have "distinct (map fst (assembled_fields start finish status result code cs failure))"
    by (simp add: assembled_fields_def)
  then have "map_of (rev (assembled_fields start finish status result code cs failure)) =
      map_of (assembled_fields start finish status result code cs failure)"
    by (subst map_of_inject_set) (simp_all add: rev_map [symmetric])
  then show ?thesis by simp
qed

lemma assembled_get:
  "map_of (assemble identity start finish status result code cs failure) k =
    (case map_of (assembled_fields start finish status result code cs failure) k of
       Some v \<Rightarrow> Some v | None \<Rightarrow> map_of identity k)"
  unfolding assemble_def map_of_puts assembled_fields_get ..

lemma assembled_identity:
  "k \<in> set IDENTITY_FIELDS \<Longrightarrow>
    map_of (assemble identity start finish status result code cs failure) k = map_of identity k"
proof -
  have "list_all (\<lambda>k. map_of (assembled_fields start finish status result code cs failure) k = None) IDENTITY_FIELDS"
    by (simp add: IDENTITY_FIELDS_def assembled_fields_def)
  then show "k \<in> set IDENTITY_FIELDS \<Longrightarrow>
      map_of (assemble identity start finish status result code cs failure) k = map_of identity k"
    by (simp add: assembled_get list_all_iff)
qed

lemma connections_read: "map_res connection_of (map connection_document cs) = Inr cs"
  by (induction cs) (simp_all add: connection_read)

text \<open>The admission of an assembled document.\<close>

lemma admit_assembled:
  assumes "run_identity identity"
  shows "admit_evidence (assemble identity start finish status result code cs failure) identity = Inr () \<longleftrightarrow>
    (status = ''COMPLETE'' \<longleftrightarrow> failure_text failure status = ''NONE'')
    \<and> start \<le> finish \<and> finish \<le> start + MAX_WINDOW_NS \<and> provider_result_ok result code
    \<and> check_connections start finish {} 1 cs = Inr ()"
proof -
  let ?d = "assemble identity start finish status result code cs failure"
  have ids: "dkeys identity = set IDENTITY_FIELDS" "\<And>k. k \<in> set IDENTITY_FIELDS \<Longrightarrow> \<exists>s. map_of identity k = Some (PStr s)"
    using assms by (auto simp: run_identity_def)
  have "\<not> list_ex (\<lambda>k. \<not> py_eq (dget ?d k) (dget identity k)) IDENTITY_FIELDS"
    using ids(2) by (fastforce simp: list_ex_iff dget_def assembled_identity)
  then have same: "\<not> (dkeys identity \<noteq> set IDENTITY_FIELDS
      \<or> list_ex (\<lambda>k. \<not> py_eq (dget ?d k) (dget identity k)) IDENTITY_FIELDS)"
    using ids(1) by blast
  have mem: "''workflow_run_id'' \<in> set IDENTITY_FIELDS" "''workflow_run_attempt'' \<in> set IDENTITY_FIELDS"
    "''expected_instance_name'' \<in> set IDENTITY_FIELDS" by (simp_all add: IDENTITY_FIELDS_def)
  obtain run attempt where r: "map_of identity ''workflow_run_id'' = Some (PStr run)"
    "map_of identity ''workflow_run_attempt'' = Some (PStr attempt)"
    using ids(2) mem by blast
  have "map_of identity ''expected_instance_name'' = Some (PStr (''sprk-'' @ run @ ''-'' @ attempt @ ''-instance''))"
    using assms r ids(2) [OF mem(3)] by (auto simp: run_identity_def dget_def the_str_def)
  then have names: "str_at ?d ''workflow_run_id'' = Inr run" "str_at ?d ''workflow_run_attempt'' = Inr attempt"
    "str_at ?d ''expected_instance_name'' = Inr (''sprk-'' @ run @ ''-'' @ attempt @ ''-instance'')"
    using r by (simp_all add: str_at_def assembled_identity mem)
  have texts: "str_at ?d ''collection_status'' = Inr status" "str_at ?d ''failure_operation'' = Inr (failure_text failure status)"
    "str_at ?d ''terminal_provider_result'' = Inr result"
    "str_at ?d ''endpoint_observation'' = Inr (if cs \<noteq> [] then ''NUMERIC_TCP_ENDPOINT_OBSERVED'' else ''UNKNOWN'')"
    "str_at ?d ''connection_progress'' = Inr (connection_progress cs)"
    by (simp_all add: str_at_def assembled_get assembled_fields_def)
  have ints: "int_at ?d ''observation_start'' = Inr start" "int_at ?d ''observation_end'' = Inr finish"
    by (simp_all add: int_at_def assembled_get assembled_fields_def)
  have exit: "opt_int_at ?d ''provider_exit_code'' = Inr code"
    by (rule opt_int_read) (simp add: assembled_get assembled_fields_def)
  have conns: "bind_res (list_at ?d ''connections'') (map_res connection_of) = Inr cs"
    by (simp add: list_at_def assembled_get assembled_fields_def connections_read)
  show ?thesis
    unfolding admit_evidence_def if_not_P [OF same] names texts ints exit conns bind_res_simps transport_error_def
      raise_Inr_iff
    by auto
qed


section \<open>The size of a text\<close>

text \<open>An upper bound of the length of the text of a value: every character may be escaped.\<close>

fun plain_weight :: "pyval \<Rightarrow> nat option" where
  "plain_weight PNone = Some 4"
| "plain_weight (PBool b) = Some 5"
| "plain_weight (PInt i) = (if \<bar>i\<bar> < 10 ^ 19 then Some 20 else None)"
| "plain_weight (PStr s) = Some (2 + 6 * length s)"
| "plain_weight (PList vs) = map_option (\<lambda>ws. 2 + sum_list (map (\<lambda>w. w + 2) ws)) (those (map plain_weight vs))"
| "plain_weight (PDict kvs) = map_option (\<lambda>ws. 2 + sum_list (map (\<lambda>w. w + 2) ws))
     (those (map (\<lambda>(k, v). map_option (\<lambda>w. 4 + 6 * length k + w) (plain_weight v)) kvs))"
| "plain_weight _ = None"

lemma quote_str_length: "length (quote_str s) \<le> 2 + 6 * length s"
proof -
  have "length (escape_char c) \<le> 6" for c by (simp add: escape_char_def Let_def)
  then have "length (concat (map escape_char s)) \<le> 6 * length s"
    by (induction s) (auto intro: add_mono)
  then show ?thesis by (simp add: quote_str_def)
qed

lemma length_comma_list: "length (comma_list ss) \<le> sum_list (map (\<lambda>s. length s + 2) ss)"
  by (induction ss rule: comma_list.induct) auto

lemma those_weights:
  assumes "those (map f xs) = Some ws" and "\<And>x w. x \<in> set xs \<Longrightarrow> f x = Some w \<Longrightarrow> \<exists>t. g x = Inr t \<and> length t \<le> w"
  shows "\<exists>ts. map_res g xs = Inr ts \<and> sum_list (map (\<lambda>s. length s + 2) ts) \<le> sum_list (map (\<lambda>w. w + 2) ws)"
  using assms
proof (induction xs arbitrary: ws)
  case (Cons x xs)
  then obtain w us where w: "f x = Some w" "those (map f xs) = Some us" "ws = w # us"
    by (auto split: option.splits)
  obtain t where "g x = Inr t" "length t \<le> w" using Cons.prems(2) w(1) by auto
  moreover obtain ts where "map_res g xs = Inr ts"
    "sum_list (map (\<lambda>s. length s + 2) ts) \<le> sum_list (map (\<lambda>w. w + 2) us)"
    using Cons.IH [OF w(2)] Cons.prems(2) by auto
  ultimately show ?case using w(3) by simp
qed simp

lemma default_ser_weight: "plain_weight v = Some w \<Longrightarrow> \<exists>t. default_ser v = Inr t \<and> length t \<le> w"
proof (induction v arbitrary: w)
  case (PList vs)
  then obtain ws where ws: "those (map plain_weight vs) = Some ws" "w = 2 + sum_list (map (\<lambda>w. w + 2) ws)" by auto
  obtain ts where "map_res default_ser vs = Inr ts"
    "sum_list (map (\<lambda>s. length s + 2) ts) \<le> sum_list (map (\<lambda>w. w + 2) ws)"
    using those_weights [OF ws(1)] PList.IH by blast
  with ws(2) length_comma_list [of ts] show ?case by simp
next
  case (PDict kvs)
  then obtain ws where ws: "those (map (\<lambda>(k, v). map_option (\<lambda>w. 4 + 6 * length k + w) (plain_weight v)) kvs) = Some ws"
    "w = 2 + sum_list (map (\<lambda>w. w + 2) ws)" by auto
  have member: "\<exists>t. (case x of (k, v) \<Rightarrow> bind_res (default_ser v) (\<lambda>s. Inr (quote_str k @ '': '' @ s))) = Inr t \<and> length t \<le> u"
    if mem: "x \<in> set kvs" and eq: "(case x of (k, v) \<Rightarrow> map_option (\<lambda>w. 4 + 6 * length k + w) (plain_weight v)) = Some u" for x u
  proof -
    obtain k v where x: "x = (k, v)" by (cases x)
    then obtain n where n: "plain_weight v = Some n" "u = 4 + 6 * length k + n" using eq by auto
    obtain t where "default_ser v = Inr t" "length t \<le> n" using PDict.IH [of x v n] mem x n(1) by auto
    then show ?thesis using x n(2) quote_str_length [of k] by simp
  qed
  obtain ts where "map_res (\<lambda>(k, v). bind_res (default_ser v) (\<lambda>s. Inr (quote_str k @ '': '' @ s))) kvs = Inr ts"
    "sum_list (map (\<lambda>s. length s + 2) ts) \<le> sum_list (map (\<lambda>w. w + 2) ws)"
    using those_weights [OF ws(1), of "\<lambda>(k, v). bind_res (default_ser v) (\<lambda>s. Inr (quote_str k @ '': '' @ s))"]
      member by blast
  with ws(2) length_comma_list [of ts] show ?case by simp
next
  case (PInt i)
  have "length (show_nat (nat j)) \<le> Suc 18" if "\<bar>j\<bar> < 10 ^ 19" for j :: int
    using that by (intro length_show_nat) simp
  from this [of i] this [of "- i"] show ?case using PInt by (auto simp: show_int_def split: if_splits)
next
  case (PStr s)
  then show ?case using quote_str_length [of s] by auto
qed auto

section \<open>Witnesses\<close>

text \<open>An established IPv4 socket with all counters zero.\<close>

definition sample_message :: string where
  "sample_message = [CHR 0x02, CHR 0x01] @ replicate 70 CHR 0x00 @ [CHR 0xDC, CHR 0x00, CHR 0x02, CHR 0x00]
     @ [CHR 0x01] @ replicate 215 CHR 0x00"

definition sample_diag :: diag where
  "sample_diag = \<lparr>dg_family = 2, dg_local = ''0.0.0.0'', dg_remote = ''0.0.0.0'', dg_local_port = 0, dg_remote_port = 0,
     dg_inode = 0, dg_cookie_words = (0, 0), dg_cookie = ''0000000000000000'',
     dg_snapshot = \<lparr>sn_at = 5, sn_state = ''ESTABLISHED'', sn_sent = 0, sn_received = 0, sn_retransmissions = 0\<rparr>\<rparr>"

lemma sample_normalized: "normalize_diag (PBytes sample_message) 5 = Inr sample_diag"
  by code_simp

theorem diagnostic_message_is_bounded_witness: "bounded_diag sample_diag"
  using diagnostic_message_is_bounded [OF sample_normalized] by simp

definition sample_identity :: pydict where
  "sample_identity = [(''repository'', PStr ''SecPal/deployment''), (''trusted_control_sha'', PStr ''a''),
     (''target_sha'', PStr ''b''), (''workflow_run_id'', PStr ''7''), (''workflow_run_attempt'', PStr ''1''),
     (''provider_profile'', PStr ''gcp-rocky-10-2-arm64''), (''project'', PStr ''secpal-dev''),
     (''zone'', PStr ''europe-west3-a''), (''expected_instance_name'', PStr ''sprk-7-1-instance'')]"

definition sample_evidence :: pyval where
  "sample_evidence = PDict (assemble sample_identity 0 9 ''COMPLETE'' ''SUCCESS'' (Some 0)
     [new_connection sample_diag 1 1 1] None)"

lemma sample_run: "run_identity sample_identity"
  by (simp add: run_identity_def sample_identity_def IDENTITY_FIELDS_def dkeys_def dget_def the_str_def)

lemma sample_collected: "\<forall>i < length [new_connection sample_diag 1 1 1].
    collected 0 9 (int i + 1) ([new_connection sample_diag 1 1 1] ! i)"
  using first_reading [OF sample_normalized, of 0 9 1 1 1] by simp

lemma sample_weight: "\<exists>w. plain_weight sample_evidence = Some w \<and> w \<le> MAX_DOCUMENT_BYTES"
  by (simp add: sample_evidence_def assemble_def assembled_fields_def sample_identity_def connection_document_def
      new_connection_def sample_diag_def snapshot_document_def int_or_none_def failure_text_def
      GOOGLE_PROVIDER_VERSION_def connection_progress_def fin_observation_def seen_any_def ESTABLISHED_STATES_def
      MAX_DOCUMENT_BYTES_def Let_def)

lemma sample_text: "\<exists>t. default_ser sample_evidence = Inr t \<and> length t \<le> MAX_DOCUMENT_BYTES"
  using sample_weight default_ser_weight order_trans by blast


end
