(* ===== verification/Spec2Isabelle.thy ===== *)
theory Spec2Isabelle
  imports Capability Endpoint_Runs Firewall_Facts Viewer_Edge_Runs Waf_Facts Host_Controller_Facts
    Publication_Recovery Finding_Delivery Haproxy_Direct_Facts Direct_Policy_Facts Transport_Facts
begin

text \<open>
  A verification library of the SecPal deployment contracts: the Python modules under
  \<open>src/scripts\<close> that decide what may be done to a provider, a host or a stored document. The
  modules are mostly pure: a caller hands in raw values (configuration, decoded provider
  responses, observations) and the module returns an admitted value or raises. The few with
  effects keep small documents in private directories or drive a port that somebody else
  implements.

  Parts and how they interact.

  \<^item> The provider capability contract (\<open>scripts/provider-capability-contract.py\<close>) says what a
    request to a provider, the authority it runs under and the result may be. Theory
    \<open>Capability\<close>. The endpoint switch, the provider firewall and the two CloudFront contracts
    build on it or follow it.
  \<^item> The endpoint switch (\<open>scripts/endpoint_switch.py\<close>) moves public routing to a target by one
    conditional mutation between two observations. The observer, the admission and the executor
    are parameters. \<open>Endpoint_Switch\<close>, and \<open>Endpoint_Runs\<close> for sequences of calls.
  \<^item> The origin prefix store (\<open>scripts/cloudfront-origin-prefix-lkg.py\<close>) turns the published
    prefix list into a candidate, and keeps the last accepted one in a private directory.
    \<open>Prefix_Lkg\<close> is the pure part, \<open>Prefix_Store\<close> the file store over the operating system
    of \<open>File_System\<close>; \<open>Prefix_Facts\<close>, \<open>Prefix_Store_Facts\<close>, \<open>Prefix_Readback\<close> prove them.
  \<^item> The provider firewall (\<open>scripts/provider-firewall-contract.py\<close>) plans, verifies and rolls back
    the provider's firewall around the accepted prefixes. \<open>Provider_Firewall\<close>, \<open>Firewall_Facts\<close>.
  \<^item> The Viewer edge (\<open>scripts/cloudfront-viewer-edge.py\<close>): distribution, connection group, tenant
    and certificate of one deployment, from creation to tear-down. \<open>Viewer_Edge\<close>,
    \<open>Viewer_Edge_Facts\<close>, \<open>Viewer_Edge_Runs\<close>.
  \<^item> The WAF (\<open>scripts/cloudfront-waf.py\<close>): the one reviewed web ACL, its association, its logging
    and its clean-up. \<open>Waf\<close>, \<open>Waf_Facts\<close>.
  \<^item> The host firewall (\<open>scripts/host_firewall_contract.py\<close>): the ingress policy of the host as nft
    JSON, from the owner's configuration and the accepted prefixes. \<open>Host_Firewall\<close>,
    \<open>Host_Firewall_Facts\<close>.
  \<^item> The host controller (\<open>scripts/host-firewall.py\<close>): the administrator's commands that apply,
    restore, check and remediate that policy through the nft binary, and the accepted document in
    its private directory, guarded by the lock of the prefix store. \<open>Host_Controller\<close>,
    \<open>Host_Controller_Facts\<close>; \<open>Ip_Collapse\<close> is the library's merging of networks it relies on.
  \<^item> The publication of HAProxy configurations and certificates
    (\<open>scripts/haproxy_config_lifecycle.py\<close>): staged files, a journal of the pending generation,
    compensation after a failed reload and recovery after a crash, over the same operating system
    as the prefix store. \<open>Publication\<close>; \<open>Publication_Calls\<close> is a calculus of triples over what the
    files hold, \<open>Publication_Facts\<close> and \<open>Publication_Recovery\<close> use it.
  \<^item> The HAProxy configurations themselves (\<open>scripts/haproxy_base_contract.py\<close>,
    \<open>scripts/haproxy_direct_contract.py\<close>, \<open>scripts/haproxy_composition_contract.py\<close>): which host
    names, listeners and peers form a composition, the text it renders to, its generation
    fingerprint, and the admission of a serving text by regenerating it. \<open>Haproxy_Base\<close> and
    \<open>Haproxy_Direct\<close> are the model, with the backends of \<open>Product_Backends\<close>
    (\<open>scripts/product_backend_contract.py\<close>); \<open>Haproxy_Facts\<close> and \<open>Haproxy_Direct_Facts\<close> prove it.
  \<^item> The host policy of an HA composition (\<open>scripts/haproxy_direct_policy.py\<close>): its text, its native
    nft JSON and the comparison with the kernel. \<open>Direct_Policy\<close>, \<open>Direct_Policy_Facts\<close>;
    \<open>Nft_Chains\<close> is what a chain of rejecting rules lets through.
  \<^item> The Viewer TLS contract (\<open>scripts/viewer_tls_contract.py\<close>): the admission of certificate
    material, the health fact, the activation and HSTS receipts and the nft and SELinux policy of
    the ACME port. \<open>Viewer_Tls\<close>, \<open>Viewer_Tls_Facts\<close>. The X.509 library is the parameter \<open>lib\<close>.
  \<^item> Public findings (\<open>scripts/public_findings.py\<close>): the admission of a finding, the finding of the
    TLS health fact, its notification and the delivery over a byte stream. \<open>Public_Findings\<close>,
    \<open>Public_Findings_Facts\<close>, \<open>Finding_Delivery\<close>. The sender and the stream are parameters.
  \<^item> Transport evidence (\<open>scripts/ci-cloud/instance_transport_contract.py\<close>): the reading of a
    socket diagnostic message, the fold of samples, the assembled document and its admission.
    \<open>Transport\<close>, \<open>Transport_Facts\<close>. The JSON Schema validator is the parameter \<open>V\<close>.

  Below them, shared: \<open>Prelude\<close> (exceptions as values, the result type, lists), \<open>Py_Str\<close> (strings,
  regular expressions by derivatives), \<open>Py_Value\<close> and \<open>Py_Response\<close> (Python objects, equality,
  subscripts), \<open>Json_Codec\<close> and \<open>Json_Roundtrip\<close> (\<open>json.dumps\<close> and \<open>json.loads\<close>),
  \<open>Json_Default\<close>, \<open>Json_Bytes\<close> (the characters of a canonical text, and reading it under object
  hooks), \<open>Py_Text\<close> (templates, \<open>str.replace\<close>, lines), \<open>Ip_Network\<close> and \<open>Ip_Roundtrip\<close>
  (a written address is read back), \<open>Utc_Time\<close>, \<open>Canonical_Digest\<close>.

  How the code is read. A function that may raise is a function into \<open>exc + 'a\<close>; each \<open>raise\<close> keeps
  its literal text, so two of them stay two branches, and an exception that escapes where the code
  did not expect it (\<open>TypeError\<close>, \<open>KeyError\<close>, \<open>OverflowError\<close>) is a value like the others. A
  validating constructor is a function from raw values to a record. A parameter whose exact class is
  tested is \<open>Exact\<close> or \<open>Alien\<close>. A dictionary is a list of pairs in insertion order. Effects are
  state passing: \<open>'a io\<close> over a record of files, a clock and a call counter, where the environment
  decides for each call in order whether it fails, so every theorem covers every combination of
  failing calls. Strings are code points below 256. The digest function is a parameter \<open>sha\<close>, and a
  theorem that needs it to separate two documents names the collision of their own two texts.

  What the groups of lemmas show. Of each constructor, the well-formedness it establishes; of each
  admission, exactly what it admits (the \<open>_Inr\<close> and \<open>_iff\<close> lemmas); of the codec, that reading back
  what was written gives the same document and that different documents have different texts; of
  the store, that publication is all or nothing under every failure and reports which, that only an
  acknowledged valid successor is ever accepted, and that it is read back; of the planners, that a
  plan is bound to the observation it was made from; of the runs, order, at most one dispatch,
  progress and the end; of the host firewall, which packets pass; of its controller, that the ruleset changes only after
  the owner's access was shown to survive, and that a command that returns was read back; of the
  publication, that one invariant of the files holds at every point of every run, failing or not,
  and that recovery from any state with that invariant and a journal restores the predecessor; of
  the configurations, that the specification stands in the first line whatever is replaced in the
  rest, so that reading inverts rendering; of certificates and findings, that what is published is
  admitted again, that health decays, and what a stream holds after any run of deliveries; of
  transport evidence, that a reading stays within the widths of its fields and that no honestly
  collected document is refused. An
  environment in which every call from some point on fails leaves the files as a crash there does,
  so the statements over all environments cover crashes.

  Interfaces. \<open>identity_checker\<close> (\<open>Capability\<close>) is what every contract asks of its identity check
  and is interpreted by each of them; \<open>canonical_codec\<close> (\<open>Canonical_Digest\<close>) is what a digest of
  a document asks of the encoder, and is interpreted by the JSON codec; \<open>nft_matching\<close>
  (\<open>Host_Firewall_Facts\<close>) states the documented meaning of the nft match expressions the policy
  uses, and is interpreted by an executable matching function. \<open>regenerated\<close> (\<open>Haproxy_Facts\<close>) is what
  the neutral and the direct configuration share, a document that is admitted again and a first
  line that holds it, and is interpreted by both; \<open>byte_stream\<close> (\<open>Finding_Delivery\<close>) is the
  documented behaviour of a raw binary stream.

  Bounds and fuel. The JSON decoder takes fuel and is called with twice the length of the text plus
  one, which \<open>json_loads_fuel\<close> shows to be enough. The lock loop ends because each round moves the
  clock towards the deadline. The clean-up of the WAF is run with fuel three and proved to need no
  more; the loop over the attributes of a diagnostic message ends because every attribute it skips
  has at least four bytes; the tear-down of the Viewer edge carries a rank of at most nine. The merging of networks and
  the division of an address range into networks end by a measure.

  Not modelled. Processes that change the private directory without holding its lock. Code points
  above 255, IPv6 scope identifiers. The kernel's own behaviour: the nft binary is an arbitrary
  function, and the theorems about the controller ask of it only that listing and checking change
  nothing. Network retrieval, argument parsing, printing and the import
  machinery. What a provider does with an admitted request, except where a theorem states it as a
  step relation. The scripts that drive tools (openssl, certbot, podman, systemd, cloud machines in
  CI), render unit files or check the texts of this repository: the manifest lists them with
  the reason for each.
\<close>

end
